(* ===== verification/Prelude.thy ===== *)
theory Prelude
  imports Main "HOL-Library.Word" "HOL-Library.Sublist" "HOL-Library.Char_ord"
    "HOL-Library.List_Lexorder" "HOL-Library.Multiset"
begin

text \<open>
  The shared vocabulary of the development: Go error values, the result of a fallible
  function, the collections of simplification rules, and generic lemmas on lists, options and
  maps that more than one component uses.

  A Go function \<open>f(args) (T, error)\<close> that reads or changes a state of type \<open>'s\<close> is a HOL
  function \<open>args \<Rightarrow> 's \<Rightarrow> (gerror + 'T) \<times> 's\<close>; one that returns only an error yields a
  \<open>gerror option\<close>, where \<open>None\<close> is Go's \<open>nil\<close>. State is always passed explicitly.
\<close>

section \<open>Collections\<close>

named_theorems go_str \<comment> \<open>definitions of the string functions of Go's standard library\<close>
named_theorems go_err \<comment> \<open>definitions of the error functions\<close>
named_theorems db_simps \<comment> \<open>one-step facts about the key-value store\<close>
named_theorems pool_simps \<comment> \<open>one-step facts about the address pools\<close>

section \<open>Error values\<close>

text \<open>The reason carried by an error of the Kubernetes API machinery.\<close>

datatype kube_reason = KNotFound | KAlreadyExists | KConflict | KForbidden | KUnauthorized
  | KInvalid | KBadRequest | KMethodNotSupported | KOtherReason

text \<open>System call errors that the code tells apart.\<close>

datatype errno = ENOENT | EEXIST | EAGAIN | EINTR | EOtherErrno nat

text \<open>
  Error values. A message is kept as its format string. \<open>Errorf m c\<close> is
  \<open>fmt.Errorf("...: %v", ..., err)\<close>: the cause \<open>c\<close> is only part of the text, so
  \<open>errors.Is\<close> does not see it. \<open>Wrap m e\<close> is \<open>errors.Wrap\<close> or \<open>%w\<close>, which keep
  the identity of \<open>e\<close>. \<open>Combine e f\<close> is \<open>errors.CombineErrors\<close>: \<open>e\<close> is the error,
  \<open>f\<close> is attached to it. \<open>Panic\<close> is a run-time panic, where a definition makes it an error that its
  callers return rather than an option; \<open>Exit\<close> is likewise the end of the process by \<open>os.Exit\<close>. \<open>Ext n\<close> stands for any other error value made outside the
  repository.
\<close>

datatype gerror =
    Panic | Exit | ErrEOF | ErrNotFound | ErrOutOfIP | ErrIPConflict | ErrBusy | LinkNotFound
  | Kube kube_reason | Sys errno | Ext nat
  | Errorf string "gerror option"
  | Wrap string gerror
  | Combine gerror gerror

abbreviation Errors_New :: "string \<Rightarrow> gerror" where
  "Errors_New m \<equiv> Errorf m None"

text \<open>\<open>errors.Is\<close> looks through wrapping.\<close>

fun errors_Is :: "gerror \<Rightarrow> gerror \<Rightarrow> bool" where
  "errors_Is (Wrap m e) t = (Wrap m e = t \<or> errors_Is e t)"
| "errors_Is (Combine e f) t = (Combine e f = t \<or> errors_Is e t)"
| "errors_Is e t = (e = t)"

text \<open>The API reason of an error, found through wrapping as \<open>errors.As\<close> does.\<close>

fun kube_reason_of :: "gerror \<Rightarrow> kube_reason option" where
  "kube_reason_of (Kube r) = Some r"
| "kube_reason_of (Wrap m e) = kube_reason_of e"
| "kube_reason_of (Combine e f) = kube_reason_of e"
| "kube_reason_of _ = None"

definition kube_IsNotFound :: "gerror \<Rightarrow> bool" where
  [go_err]: "kube_IsNotFound e \<longleftrightarrow> kube_reason_of e = Some KNotFound"

definition errors_Wrap :: "string \<Rightarrow> gerror option \<Rightarrow> gerror option" where
  [go_err]: "errors_Wrap m e = map_option (Wrap m) e"

fun errors_Combine :: "gerror option \<Rightarrow> gerror option \<Rightarrow> gerror option" where
  "errors_Combine None f = f"
| "errors_Combine (Some e) None = Some e"
| "errors_Combine (Some e) (Some f) = Some (Combine e f)"

lemma errors_Is_Wrap_sentinel [simp]:
  "errors_Is (Wrap m e) ErrEOF = errors_Is e ErrEOF"
  "errors_Is (Wrap m e) ErrNotFound = errors_Is e ErrNotFound"
  by simp_all

lemma errors_Wrap_None_iff [simp]: "errors_Wrap m e = None \<longleftrightarrow> e = None"
  by (simp add: errors_Wrap_def)

lemma errors_Combine_None_iff [simp]: "errors_Combine e f = None \<longleftrightarrow> e = None \<and> f = None"
  by (cases e; cases f) simp_all

section \<open>Results\<close>

type_synonym 'a result = "gerror + 'a"

text \<open>The error part of a result, as Go's second return value.\<close>

definition err_of :: "'a result \<Rightarrow> gerror option" where
  "err_of r = (case r of Inl e \<Rightarrow> Some e | Inr _ \<Rightarrow> None)"

lemma err_of_simps [simp]: "err_of (Inl e) = Some e" "err_of (Inr x) = None"
  by (simp_all add: err_of_def)

lemma err_of_None_iff: "err_of r = None \<longleftrightarrow> (\<exists>x. r = Inr x)"
  by (cases r) simp_all

text \<open>A result followed by a pure step that may fail.\<close>

definition result_bind :: "'a result \<Rightarrow> ('a \<Rightarrow> 'b result) \<Rightarrow> 'b result" where
  "result_bind r f = (case r of Inl e \<Rightarrow> Inl e | Inr x \<Rightarrow> f x)"

lemma result_bind_simps [simp]:
  "result_bind (Inl e) f = Inl e" "result_bind (Inr x) f = f x"
  by (simp_all add: result_bind_def)

section \<open>Go integers\<close>

type_synonym int64 = "64 word"
type_synonym byte = "8 word"

text \<open>Signed comparison of two \<open>int64\<close>.\<close>

abbreviation int64_le :: "int64 \<Rightarrow> int64 \<Rightarrow> bool" where
  "int64_le a b \<equiv> sint a \<le> sint b"

definition int64_range :: "int \<Rightarrow> bool" where
  "int64_range i \<longleftrightarrow> - (2 ^ 63) \<le> i \<and> i < 2 ^ 63"

lemma int64_range_sint: "int64_range (sint (w :: int64))"
  using sint_greater_eq [of w] sint_less [of w] by (simp add: int64_range_def)

lemma word_of_int_sint [simp]: "word_of_int (sint (w :: int64)) = w"
  by simp

section \<open>Lists\<close>

text \<open>The first element that satisfies a predicate, as a Go loop with \<open>break\<close> finds it.\<close>

lemma find_Some_set: "List.find P xs = Some x \<Longrightarrow> x \<in> set xs \<and> P x"
  by (auto simp: find_Some_iff)

lemma find_None: "List.find P xs = None \<longleftrightarrow> (\<forall>x \<in> set xs. \<not> P x)"
  by (auto simp: find_None_iff)

text \<open>Association lists with distinct keys, as an ordered view of a Go map.\<close>

lemma map_of_distinct_iff:
  "distinct (map fst xs) \<Longrightarrow> map_of xs k = Some v \<longleftrightarrow> (k, v) \<in> set xs"
  by (auto simp: map_of_eq_Some_iff)

lemma card_dom_map_of: "distinct (map fst xs) \<Longrightarrow> card (dom (map_of xs)) = length xs"
  by (metis distinct_card dom_map_of_conv_image_fst length_map list.set_map)

section \<open>Grouping\<close>

text \<open>
  A Go map from keys to slices, filled by \<open>m[k] = append(m[k], x)\<close>: the groups in the order
  their keys are first met. Iterating over the map visits the groups in any order.
\<close>

fun group_add :: "'k \<Rightarrow> 'a \<Rightarrow> ('k \<times> 'a list) list \<Rightarrow> ('k \<times> 'a list) list" where
  "group_add k x [] = [(k, [x])]"
| "group_add k x ((k', xs) # gs) = (if k = k' then (k', xs @ [x]) # gs else (k', xs) # group_add k x gs)"

definition group_by :: "('a \<Rightarrow> 'k) \<Rightarrow> 'a list \<Rightarrow> ('k \<times> 'a list) list" where
  "group_by f xs = fold (\<lambda>x. group_add (f x) x) xs []"

lemma group_by_snoc: "group_by f (xs @ [x]) = group_add (f x) x (group_by f xs)"
  by (simp add: group_by_def)

lemma group_add_keys: "fst ` set (group_add k x gs) = insert k (fst ` set gs)"
  by (induction k x gs rule: group_add.induct) auto

lemma group_add_distinct: "distinct (map fst gs) \<Longrightarrow> distinct (map fst (group_add k x gs))"
  by (induction k x gs rule: group_add.induct) (auto simp: group_add_keys simp flip: image_set)

lemma group_add_set:
  "distinct (map fst gs) \<Longrightarrow> set (group_add k x gs) =
    {g \<in> set gs. fst g \<noteq> k} \<union>
    {(k, (case map_of gs k of None \<Rightarrow> [] | Some xs \<Rightarrow> xs) @ [x])}"
proof (induction k x gs rule: group_add.induct)
  case (1 k x)
  then show ?case by simp
next
  case (2 k x k' xs gs)
  then show ?case by (cases "k = k'") (auto simp: rev_image_eqI)
qed

lemma group_by_distinct: "distinct (map fst (group_by f xs))"
  by (induction xs rule: rev_induct) (simp_all add: group_by_def group_add_distinct)

lemma group_by_keys: "fst ` set (group_by f xs) = f ` set xs"
  by (induction xs rule: rev_induct) (auto simp: group_by_snoc group_add_keys, simp add: group_by_def)

text \<open>Each group holds the elements with its key, in their order.\<close>

lemma group_by_group: "(k, ys) \<in> set (group_by f xs) \<Longrightarrow> ys = filter (\<lambda>x. f x = k) xs \<and> ys \<noteq> []"
proof (induction xs arbitrary: k ys rule: rev_induct)
  case Nil
  then show ?case by (simp add: group_by_def)
next
  case (snoc x xs)
  have d: "distinct (map fst (group_by f xs))" by (rule group_by_distinct)
  show ?case
  proof (cases "k = f x")
    case False
    with snoc show ?thesis by (auto simp: group_by_snoc group_add_set [OF d])
  next
    case True
    with snoc.prems have ys: "ys = (case map_of (group_by f xs) k of None \<Rightarrow> [] | Some zs \<Rightarrow> zs) @ [x]"
      by (auto simp: group_by_snoc group_add_set [OF d])
    show ?thesis
    proof (cases "map_of (group_by f xs) k")
      case None
      then have "k \<notin> f ` set xs" using group_by_keys [of f xs] by (simp add: map_of_eq_None_iff)
      then have "filter (\<lambda>y. f y = k) xs = []" by (auto simp: filter_empty_conv)
      with ys None True show ?thesis by simp
    next
      case (Some zs)
      then have "(k, zs) \<in> set (group_by f xs)" by (rule map_of_SomeD)
      with snoc.IH ys Some True show ?thesis by auto
    qed
  qed
qed

text \<open>
  An iteration order of the run time's choosing, given as a function that rearranges the list
  of entries.
\<close>

definition reorders :: "('a list \<Rightarrow> 'a list) \<Rightarrow> bool" where
  "reorders ord \<longleftrightarrow> (\<forall>xs. mset (ord xs) = mset xs)"

lemma reorders_set: "reorders ord \<Longrightarrow> set (ord xs) = set xs"
  unfolding reorders_def by (metis set_mset_mset)

lemma reorders_distinct: "reorders ord \<Longrightarrow> distinct (map f (ord xs)) = distinct (map f xs)"
  unfolding reorders_def by (metis mset_eq_imp_distinct_iff mset_map)

lemma reorders_id [simp]: "reorders (\<lambda>xs. xs)" "reorders rev"
  by (simp_all add: reorders_def)

section \<open>Sequences of actions that may fail\<close>

text \<open>
  An action changes the state and answers an error or \<open>nil\<close>. \<open>seq\<close> is two statements with
  \<open>if err != nil { return err }\<close> between them, \<open>each\<close> a loop that returns at the first error,
  and \<open>fmt_err\<close> the text a caller puts before an error.
\<close>

type_synonym 'w action = "'w \<Rightarrow> gerror option \<times> 'w"

definition seq :: "'w action \<Rightarrow> 'w action \<Rightarrow> 'w action" where
  "seq a b w = (case a w of (Some e, w') \<Rightarrow> (Some e, w') | (None, w') \<Rightarrow> b w')"

definition fmt_err :: "string \<Rightarrow> 'w action \<Rightarrow> 'w action" where
  "fmt_err m a w = (case a w of (Some e, w') \<Rightarrow> (Some (Errorf m (Some e)), w') | (None, w') \<Rightarrow> (None, w'))"

fun each :: "('a \<Rightarrow> 'w action) \<Rightarrow> 'a list \<Rightarrow> 'w action" where
  "each f [] w = (None, w)"
| "each f (x # xs) w = (case f x w of (Some e, w') \<Rightarrow> (Some e, w') | (None, w') \<Rightarrow> each f xs w')"

text \<open>A statement whose error is dropped or logged.\<close>

definition ignore :: "'w action \<Rightarrow> 'w \<Rightarrow> 'w" where
  "ignore a w = snd (a w)"

lemma seq_None_iff: "seq a b w = (None, w') \<longleftrightarrow> (\<exists>w1. a w = (None, w1) \<and> b w1 = (None, w'))"
  by (auto simp: seq_def split: prod.splits option.splits)

lemma fmt_err_None_iff [simp]: "fmt_err m a w = (None, w') \<longleftrightarrow> a w = (None, w')"
  by (auto simp: fmt_err_def split: prod.splits option.splits)

lemma snd_fmt_err [simp]: "snd (fmt_err m a w) = snd (a w)"
  by (auto simp: fmt_err_def split: prod.splits option.splits)

lemma each_Cons_None_iff:
  "each f (x # xs) w = (None, w') \<longleftrightarrow> (\<exists>w1. f x w = (None, w1) \<and> each f xs w1 = (None, w'))"
  by (auto split: prod.splits option.splits)

lemma each_append: "each f (xs @ ys) w = seq (each f xs) (each f ys) w"
  by (induction xs arbitrary: w) (auto simp: seq_def split: prod.splits option.splits)

text \<open>What every step keeps, the sequence keeps, errors included.\<close>

lemma seq_inv:
  "P w \<Longrightarrow> (\<And>w. P w \<Longrightarrow> P (snd (a w))) \<Longrightarrow> (\<And>w. P w \<Longrightarrow> P (snd (b w))) \<Longrightarrow> P (snd (seq a b w))"
  by (force simp: seq_def split: prod.splits option.splits)

lemma each_inv:
  "P w \<Longrightarrow> (\<And>x w. x \<in> set xs \<Longrightarrow> P w \<Longrightarrow> P (snd (f x w))) \<Longrightarrow> P (snd (each f xs w))"
proof (induction xs arbitrary: w)
  case Nil
  then show ?case by simp
next
  case (Cons x xs)
  obtain e w1 where f: "f x w = (e, w1)" by fastforce
  have "P w1" using Cons.prems(2) [of x w] Cons.prems(1) f by simp
  then show ?case using f Cons.IH [of w1] Cons.prems by (cases e) auto
qed

text \<open>Steps that keep what a predicate says of the state, on success.\<close>

lemma each_inv_None:
  "each f xs w = (None, w') \<Longrightarrow> P w \<Longrightarrow> (\<And>x w w'. x \<in> set xs \<Longrightarrow> P w \<Longrightarrow> f x w = (None, w') \<Longrightarrow> P w') \<Longrightarrow> P w'"
proof (induction xs arbitrary: w)
  case Nil
  then show ?case by simp
next
  case (Cons x xs)
  from Cons.prems(1) obtain w1 where w1: "f x w = (None, w1)" "each f xs w1 = (None, w')"
    unfolding each_Cons_None_iff by blast
  have "P w1" by (rule Cons.prems(3) [OF _ Cons.prems(2) w1(1)]) simp
  from Cons.IH [OF w1(2) this] show ?case
    by (rule meta_mp) (rule Cons.prems(3), simp_all)
qed

text \<open>Each step's result, when later steps keep it.\<close>

lemma each_all:
  "each f xs w = (None, w') \<Longrightarrow> P w \<Longrightarrow>
    (\<And>x w w'. x \<in> set xs \<Longrightarrow> P w \<Longrightarrow> f x w = (None, w') \<Longrightarrow> P w' \<and> Q x w') \<Longrightarrow>
    (\<And>x y w w'. P w \<Longrightarrow> Q x w \<Longrightarrow> y \<in> set xs \<Longrightarrow> f y w = (None, w') \<Longrightarrow> Q x w') \<Longrightarrow>
    P w' \<and> (\<forall>x\<in>set xs. Q x w')"
proof (induction xs arbitrary: w)
  case Nil
  from Nil(1,2) show ?case by simp
next
  case (Cons x xs)
  from Cons.prems(1) obtain w1 where w1: "f x w = (None, w1)" "each f xs w1 = (None, w')"
    unfolding each_Cons_None_iff by blast
  have p1: "P w1" and q1: "Q x w1"
    using Cons.prems(3) [OF list.set_intros(1) Cons.prems(2) w1(1)] by auto
  have step: "P v' \<and> Q y v'" if "y \<in> set xs" "P v" "f y v = (None, v')" for y v v'
    by (rule Cons.prems(3) [OF _ that(2,3)]) (simp add: that(1))
  have keep: "Q z v'" if "P v" "Q z v" "y \<in> set xs" "f y v = (None, v')" for z y v v'
    by (rule Cons.prems(4) [OF that(1,2) _ that(4)]) (simp add: that(3))
  have ih: "P w' \<and> (\<forall>x\<in>set xs. Q x w')"
  proof (rule Cons.IH [OF w1(2) p1])
    show "P v' \<and> Q y v'" if "y \<in> set xs" "P v" "f y v = (None, v')" for y v v'
      using that by (rule step)
    show "Q z v'" if "P v" "Q z v" "y \<in> set xs" "f y v = (None, v')" for z y v v'
      using that by (rule keep)
  qed
  have "P w' \<and> Q x w'"
    by (rule each_inv_None [OF w1(2), where P = "\<lambda>w. P w \<and> Q x w"])
       (use p1 q1 step keep in blast)+
  with ih show ?case by simp
qed

end
