(* ===== verification/Go_Strings.thy ===== *)
theory Go_Strings
  imports Prelude
begin

text \<open>
  The functions of Go's standard library packages \<open>strings\<close> and \<open>strconv\<close> that the
  repository calls. A Go string is a byte sequence, a HOL \<open>string\<close> here, one \<open>char\<close> per
  byte. Case conversion and white space are those of ASCII text, which is what the program
  handles (identifiers, addresses, versions, command output).
\<close>

section \<open>Prefixes, suffixes, substrings\<close>

definition HasPrefix :: "string \<Rightarrow> string \<Rightarrow> bool" where
  [go_str]: "HasPrefix s p = prefix p s"

definition HasSuffix :: "string \<Rightarrow> string \<Rightarrow> bool" where
  [go_str]: "HasSuffix s p = suffix p s"

definition TrimPrefix :: "string \<Rightarrow> string \<Rightarrow> string" where
  [go_str]: "TrimPrefix s p = (if prefix p s then drop (length p) s else s)"

definition CutPrefix :: "string \<Rightarrow> string \<Rightarrow> string \<times> bool" where
  [go_str]: "CutPrefix s p = (if prefix p s then (drop (length p) s, True) else (s, False))"

definition Contains :: "string \<Rightarrow> string \<Rightarrow> bool" where
  [go_str]: "Contains s p = sublist p s"

lemma TrimPrefix_append [simp]: "TrimPrefix (p @ s) p = s"
  by (simp add: TrimPrefix_def)

lemma HasPrefix_append [simp]: "HasPrefix (p @ s) p"
  by (simp add: HasPrefix_def)

lemma CutPrefix_append [simp]: "CutPrefix (p @ s) p = (s, True)"
  by (simp add: CutPrefix_def)

section \<open>Case\<close>

definition is_upper :: "char \<Rightarrow> bool" where
  "is_upper c \<longleftrightarrow> 65 \<le> (of_char c :: nat) \<and> (of_char c :: nat) \<le> 90"

definition is_lower :: "char \<Rightarrow> bool" where
  "is_lower c \<longleftrightarrow> 97 \<le> (of_char c :: nat) \<and> (of_char c :: nat) \<le> 122"

definition to_lower :: "char \<Rightarrow> char" where
  "to_lower c = (if is_upper c then char_of ((of_char c :: nat) + 32) else c)"

definition to_upper :: "char \<Rightarrow> char" where
  "to_upper c = (if is_lower c then char_of ((of_char c :: nat) - 32) else c)"

definition ToLower :: "string \<Rightarrow> string" where
  [go_str]: "ToLower s = map to_lower s"

definition ToUpper :: "string \<Rightarrow> string" where
  [go_str]: "ToUpper s = map to_upper s"

definition EqualFold :: "string \<Rightarrow> string \<Rightarrow> bool" where
  [go_str]: "EqualFold s t \<longleftrightarrow> ToLower s = ToLower t"

lemma to_lower_idem [simp]: "to_lower (to_lower c) = to_lower c"
  by (auto simp: to_lower_def is_upper_def)

lemma to_lower_to_upper [simp]: "to_lower (to_upper c) = to_lower c"
proof (cases "is_lower c")
  case True
  define n where "n = (of_char c :: nat)"
  have n: "97 \<le> n" "n \<le> 122" and c: "c = char_of n"
    using True by (simp_all add: is_lower_def n_def)
  have "to_upper c = char_of (n - 32)" using True by (simp add: to_upper_def n_def)
  moreover have "(of_char (char_of (n - 32) :: char) :: nat) = n - 32"
    using n by (simp add: of_char_of)
  ultimately show ?thesis
    using n True by (auto simp: to_lower_def is_upper_def is_lower_def c)
next
  case False
  then show ?thesis by (simp add: to_upper_def)
qed

lemma ToLower_idem [simp]: "ToLower (ToLower s) = ToLower s"
  by (simp add: ToLower_def)

lemma ToLower_ToUpper [simp]: "ToLower (ToUpper s) = ToLower s"
  by (simp add: ToLower_def ToUpper_def)

lemma EqualFold_refl [simp]: "EqualFold s s"
  by (simp add: EqualFold_def)

section \<open>White space and trimming\<close>

definition is_space :: "char \<Rightarrow> bool" where
  "is_space c \<longleftrightarrow> (of_char c :: nat) \<in> {9, 10, 11, 12, 13, 32}"

definition TrimRightBy :: "(char \<Rightarrow> bool) \<Rightarrow> string \<Rightarrow> string" where
  "TrimRightBy f s = rev (dropWhile f (rev s))"

definition TrimSpace :: "string \<Rightarrow> string" where
  [go_str]: "TrimSpace s = TrimRightBy is_space (dropWhile is_space s)"

text \<open>\<open>strings.TrimLeft\<close> with a one-character cutset.\<close>

definition TrimLeft :: "string \<Rightarrow> char \<Rightarrow> string" where
  [go_str]: "TrimLeft s c = dropWhile (\<lambda>x. x = c) s"

text \<open>\<open>strings.ReplaceAll\<close> of a one-character string by the empty string.\<close>

definition RemoveAll :: "string \<Rightarrow> char \<Rightarrow> string" where
  [go_str]: "RemoveAll s c = filter (\<lambda>x. x \<noteq> c) s"

lemma TrimRightBy_idem: "TrimRightBy f (TrimRightBy f s) = TrimRightBy f s"
proof -
  have "dropWhile f (dropWhile f t) = dropWhile f t" for t :: string
    by (induction t) auto
  then show ?thesis by (simp add: TrimRightBy_def)
qed

section \<open>Splitting and joining\<close>

text \<open>\<open>strings.Split\<close> with a one-character separator: never empty.\<close>

fun Split :: "string \<Rightarrow> char \<Rightarrow> string list" where
  "Split [] c = [[]]"
| "Split (x # xs) c =
     (if x = c then [] # Split xs c
      else case Split xs c of [] \<Rightarrow> [[x]] | y # ys \<Rightarrow> (x # y) # ys)"

text \<open>\<open>strings.Fields\<close>: the maximal runs of characters that are not white space.\<close>

fun fields_acc :: "string \<Rightarrow> string \<Rightarrow> string list" where
  "fields_acc [] acc = (if acc = [] then [] else [acc])"
| "fields_acc (x # xs) acc =
     (if is_space x then (if acc = [] then fields_acc xs [] else acc # fields_acc xs [])
      else fields_acc xs (acc @ [x]))"

definition Fields :: "string \<Rightarrow> string list" where
  [go_str]: "Fields s = fields_acc s []"

fun Join :: "string list \<Rightarrow> string \<Rightarrow> string" where
  "Join [] sep = []"
| "Join [x] sep = x"
| "Join (x # y # ys) sep = x @ sep @ Join (y # ys) sep"

lemma Split_not_Nil [simp]: "Split s c \<noteq> []"
  by (induction s c rule: Split.induct) (auto split: list.splits)

lemma Split_no_sep: "c \<notin> set s \<Longrightarrow> Split s c = [s]"
  by (induction s) auto

lemma Split_append_sep: "c \<notin> set s \<Longrightarrow> Split (s @ c # t) c = s # Split t c"
  by (induction s) auto

lemma Split_pieces_no_sep: "p \<in> set (Split s c) \<Longrightarrow> c \<notin> set p"
proof (induction s arbitrary: p)
  case Nil
  then show ?case by simp
next
  case (Cons x xs)
  show ?case
  proof (cases "x = c")
    case True
    with Cons show ?thesis by auto
  next
    case False
    obtain y ys where y: "Split xs c = y # ys" by (cases "Split xs c") auto
    with Cons False show ?thesis by auto
  qed
qed

lemma Join_Split: "Join (Split s c) [c] = s"
proof (induction s)
  case Nil
  then show ?case by simp
next
  case (Cons x xs)
  obtain y ys where y: "Split xs c = y # ys" by (cases "Split xs c") auto
  with Cons show ?case by (cases ys) auto
qed

lemma Split_Join:
  "xs \<noteq> [] \<Longrightarrow> (\<And>x. x \<in> set xs \<Longrightarrow> c \<notin> set x) \<Longrightarrow> Split (Join xs [c]) c = xs"
  by (induction xs "[c]" rule: Join.induct) (auto simp: Split_no_sep Split_append_sep)

section \<open>Decimal numbers\<close>

definition is_digit :: "char \<Rightarrow> bool" where
  "is_digit c \<longleftrightarrow> 48 \<le> (of_char c :: nat) \<and> (of_char c :: nat) \<le> 57"

definition digit_val :: "char \<Rightarrow> nat" where
  "digit_val c = (of_char c :: nat) - 48"

definition digit_char :: "nat \<Rightarrow> char" where
  "digit_char d = char_of (48 + d)"

fun nat_digits :: "nat \<Rightarrow> string" where
  "nat_digits n = (if n < 10 then [digit_char n] else nat_digits (n div 10) @ [digit_char (n mod 10)])"

declare nat_digits.simps [simp del]

text \<open>\<open>strconv.Itoa\<close>, also what \<open>%d\<close> prints.\<close>

definition Itoa :: "int \<Rightarrow> string" where
  [go_str]: "Itoa i = (if i < 0 then CHR ''-'' # nat_digits (nat (- i)) else nat_digits (nat i))"

text \<open>The value of a string of decimal digits, most significant first.\<close>

definition digits_val :: "string \<Rightarrow> nat" where
  "digits_val s = foldl (\<lambda>n c. n * 10 + digit_val c) 0 s"

text \<open>
  \<open>strconv.ParseInt(s, 10, 64)\<close>, and \<open>strconv.Atoi\<close> on a 64-bit platform: an optional
  sign, at least one digit, nothing else, and a value within \<open>int64\<close>.
\<close>

definition ParseInt :: "string \<Rightarrow> int result" where
  "ParseInt s =
     (let (neg, body) = (case s of [] \<Rightarrow> (False, [])
            | c # cs \<Rightarrow> if c = CHR ''-'' then (True, cs) else if c = CHR ''+'' then (False, cs)
                       else (False, s));
          v = (if neg then - int (digits_val body) else int (digits_val body))
      in if body = [] \<or> \<not> list_all is_digit body then Inl (Errors_New ''invalid syntax'')
         else if \<not> int64_range v then Inl (Errors_New ''value out of range'')
         else Inr v)"

definition Atoi :: "string \<Rightarrow> int result" where
  [go_str]: "Atoi s = ParseInt s"

lemma digit_char_props [simp]:
  assumes "d < 10"
  shows "is_digit (digit_char d)" and "digit_val (digit_char d) = d"
proof -
  have "(of_char (char_of (48 + d) :: char) :: nat) = 48 + d" using assms by (simp add: of_char_of)
  then show "is_digit (digit_char d)" and "digit_val (digit_char d) = d"
    using assms by (simp_all add: is_digit_def digit_char_def digit_val_def)
qed

lemma digits_val_snoc [simp]: "digits_val (s @ [c]) = digits_val s * 10 + digit_val c"
  by (simp add: digits_val_def)

lemma nat_digits_props:
  "nat_digits n \<noteq> [] \<and> list_all is_digit (nat_digits n) \<and> digits_val (nat_digits n) = n"
proof (induction n rule: nat_digits.induct)
  case (1 n)
  show ?case
  proof (cases "n < 10")
    case True
    then show ?thesis by (simp add: nat_digits.simps [of n] digits_val_def)
  next
    case False
    with 1 show ?thesis by (simp add: nat_digits.simps [of n])
  qed
qed

lemma nat_digits_not_Nil [simp]: "nat_digits n \<noteq> []"
  using nat_digits_props by blast

lemma digits_val_nat_digits [simp]: "digits_val (nat_digits n) = n"
  using nat_digits_props by blast

lemma nat_digits_inj: "nat_digits m = nat_digits n \<Longrightarrow> m = n"
  by (metis digits_val_nat_digits)

lemma nat_digits_all_digits: "c \<in> set (nat_digits n) \<Longrightarrow> is_digit c"
  using nat_digits_props [of n] by (auto simp: list_all_iff)

lemma sign_not_digit [simp]: "\<not> is_digit (CHR ''-'')" "\<not> is_digit (CHR ''+'')" "\<not> is_digit (CHR '','')"
  by (simp_all add: is_digit_def)

lemma sep_notin_nat_digits [simp]:
  "CHR ''-'' \<notin> set (nat_digits n)" "CHR '','' \<notin> set (nat_digits n)"
  using nat_digits_all_digits sign_not_digit by blast+

lemma nat_digits_no_sign [simp]: "nat_digits n \<noteq> CHR ''-'' # s"
  using sep_notin_nat_digits(1) [of n] by (metis list.set_intros(1))

lemma Itoa_nonneg: "0 \<le> i \<Longrightarrow> Itoa i = nat_digits (nat i)"
  by (simp add: Itoa_def)

lemma Itoa_inj: "Itoa i = Itoa j \<Longrightarrow> i = j"
  by (auto simp: Itoa_def nat_digits_no_sign [symmetric] split: if_splits dest: nat_digits_inj)

lemma comma_notin_Itoa: "CHR '','' \<notin> set (Itoa i)"
  by (simp add: Itoa_def)

lemma ParseInt_Itoa: "int64_range i \<Longrightarrow> ParseInt (Itoa i) = Inr i"
proof -
  assume r: "int64_range i"
  show ?thesis
  proof (cases "i < 0")
    case True
    have "list_all is_digit (nat_digits (nat (- i)))" using nat_digits_props by blast
    with True r show ?thesis by (simp add: ParseInt_def Itoa_def)
  next
    case False
    obtain c cs where n: "nat_digits (nat i) = c # cs" by (cases "nat_digits (nat i)") auto
    have d: "is_digit c" using n nat_digits_all_digits [of c "nat i"] by simp
    then have "c \<noteq> CHR ''-''" "c \<noteq> CHR ''+''" by auto
    moreover have "list_all is_digit (c # cs)" using nat_digits_props [of "nat i"] n by simp
    moreover have "digits_val (c # cs) = nat i" using n by (metis digits_val_nat_digits)
    ultimately show ?thesis using False r n by (simp add: ParseInt_def Itoa_def Let_def)
  qed
qed

lemma ParseInt_range: "ParseInt s = Inr v \<Longrightarrow> int64_range v"
  by (auto simp: ParseInt_def Let_def split: if_splits prod.splits)

end
