(* ===== verification/Rpc_Types.thy ===== *)
theory Rpc_Types
  imports Go_Strings
begin

text \<open>
  The messages of the gRPC service between the CNI binary and the daemon
  (\<open>rpc/ipamd.pb.go\<close>) and the custom resources (\<open>kubernetes/apis\<close>). A pointer that may be
  \<open>nil\<close> is an option; a message that the code never passes as \<open>nil\<close> is the record itself.
  A record field carries a prefix, since Isabelle's field names are global.
\<close>

section \<open>Messages\<close>

datatype CNIErrorCode = CNISuccess | CNIMissingParameters | CNIAllocateSecondaryIPFailure
  | CNIReleaseSecondaryIPFailure | CNIAllocateEIPFailure | CNIReleaseEIPFailure
  | CNIBindEIPFailure | CNIUnbindEIPFailure | CNIAllocateUNIFailure | CNIReleaseUNIFailure
  | CNIAttachUNIFailure | CNIDetachUNIFailure | CNIK8SAPIError | CNIWriteDBError
  | CNIReadDBError | CNIBorrowIPFailure

record PodNetwork =
  pn_PodName :: string
  pn_PodNS :: string
  pn_PodUID :: string
  pn_SandboxID :: string
  pn_NetNS :: string
  pn_VPCIP :: string
  pn_VPCID :: string
  pn_SubnetID :: string
  pn_Gateway :: string
  pn_Mask :: string
  pn_MacAddress :: string
  pn_DedicatedUNI :: bool
  pn_InterfaceID :: string
  pn_EIPID :: string
  pn_CreateTime :: int64
  pn_RecycleTime :: int64
  pn_Recycled :: bool

text \<open>The zero value that \<open>&rpc.PodNetwork{...}\<close> starts from.\<close>

definition PodNetwork_zero :: PodNetwork where
  "PodNetwork_zero = \<lparr>pn_PodName = [], pn_PodNS = [], pn_PodUID = [], pn_SandboxID = [],
     pn_NetNS = [], pn_VPCIP = [], pn_VPCID = [], pn_SubnetID = [], pn_Gateway = [],
     pn_Mask = [], pn_MacAddress = [], pn_DedicatedUNI = False, pn_InterfaceID = [],
     pn_EIPID = [], pn_CreateTime = 0, pn_RecycleTime = 0, pn_Recycled = False\<rparr>"

record AddPodNetworkRequest =
  ar_PodName :: string
  ar_PodNamespace :: string
  ar_SandboxID :: string
  ar_Netns :: string
  ar_IfName :: string
  ar_SubnetID :: string
  ar_MacAddress :: string
  ar_InterfaceID :: string

record AddPodNetworkResponse =
  as_Code :: CNIErrorCode
  as_PodNetwork :: "PodNetwork option"

record DelPodNetworkRequest =
  dr_PodNetwork :: "PodNetwork option"

record AddPodNetworkRecordRequest =
  arr_PodNetwork :: PodNetwork

record RecordKeyRequest =
  rk_PodName :: string
  rk_PodNS :: string
  rk_SandboxID :: string

record ListPodNetworkRecordResponse =
  ls_Code :: CNIErrorCode
  ls_Networks :: "PodNetwork list"

record BorrowIPRequest =
  br_MacAddress :: string
  br_SubnetID :: string

record BorrowIPResponse =
  bs_Code :: CNIErrorCode
  bs_IP :: "PodNetwork option"

record SupportMultiSubnetResponse =
  ms_Code :: CNIErrorCode
  ms_Support :: bool

section \<open>Custom resources\<close>

datatype PoolStatus = StatusDry | StatusHungry | StatusNormal | StatusOverflow | StatusOther string

record IpamdStatus =
  is_Current :: nat
  is_High :: int
  is_Low :: int
  is_Status :: PoolStatus

record Ipamd =
  im_Name :: string
  im_Node :: string
  im_Addr :: string
  im_Subnet :: string
  im_Status :: IpamdStatus

type_synonym labels = "string \<rightharpoonup> string"

record VpcIpClaim =
  vc_Name :: string
  vc_Namespace :: string
  vc_Labels :: "labels option"
  vc_Finalizers :: "string list"
  vc_Ip :: string
  vc_Mask :: string
  vc_Gateway :: string
  vc_SubnetId :: string
  vc_VpcId :: string
  vc_Attached :: bool
  vc_Zone :: string
  vc_LastDetachTime :: string
  vc_Mac :: string
  vc_ReleaseTime :: string
  vc_SandboxId :: string

record PodNetworking =
  pk_Name :: string
  pk_SecurityGroupIds :: "string list"
  pk_SubnetIds :: "string list"
  pk_Strategy :: string
  pk_NATGWOutgoingEnabled :: bool

section \<open>Kubernetes core objects, as far as the code reads them\<close>

record Pod =
  pod_Name :: string
  pod_Namespace :: string
  pod_UID :: string
  pod_NodeName :: string
  pod_Annotations :: "string \<rightharpoonup> string"
  pod_Owners :: "(string \<times> string) list" \<comment> \<open>kind and name of each owner reference\<close>
  pod_Phase :: string

text \<open>Reading a missing key of a Go map of strings gives the empty string.\<close>

definition map_get :: "('k \<rightharpoonup> string) \<Rightarrow> 'k \<Rightarrow> string" where
  "map_get m k = (case m k of None \<Rightarrow> [] | Some v \<Rightarrow> v)"

lemma map_get_simps [simp]: "m k = None \<Longrightarrow> map_get m k = []" "m k = Some v \<Longrightarrow> map_get m k = v"
  by (simp_all add: map_get_def)

end
