(* ===== verification/Database.thy ===== *)
theory Database
  imports Rpc_Types
begin

text \<open>
  The key-value store (\<open>pkg/database\<close>): the interface \<open>Database[T]\<close> of
  \<open>database.go\<close> as the locale \<open>database\<close>, and its implementation \<open>Bolt[T]\<close> of
  \<open>bolt.go\<close> over the \<open>boltdb\<close> library. The library is not part of the repository: its
  transactions are the fields of the record \<open>bolt_api\<close>, an argument of every
  definition, and what its documentation promises of them is the locale \<open>bolt_db\<close>.
  Values are stored as JSON documents; a \<open>codec\<close> is the pair of \<open>json.Marshal\<close> and
  \<open>json.Unmarshal\<close> at one type (theory \<open>Codec\<close> gives the ones the program uses).
\<close>

section \<open>Stored bytes\<close>

text \<open>
  The bytes under a key: the text of a JSON document, kept as its tree, or bytes that are
  no JSON document. \<open>json.Marshal\<close> yields documents only.
\<close>

datatype json = JNull | JBool bool | JInt int | JStr string | JObj "(string \<times> json) list"

datatype bytes = Doc json | Junk string

definition bytes_empty :: "bytes \<Rightarrow> bool" where
  "bytes_empty b \<longleftrightarrow> b = Junk []"

lemma bytes_empty_simps [simp]: "\<not> bytes_empty (Doc j)" "bytes_empty (Junk s) \<longleftrightarrow> s = []"
  by (simp_all add: bytes_empty_def)

record 'v codec =
  marshal :: "'v \<Rightarrow> json"
  unmarshal :: "json \<Rightarrow> 'v result"

definition codec_ok :: "'v codec \<Rightarrow> bool" where
  "codec_ok C \<longleftrightarrow> (\<forall>v. unmarshal C (marshal C v) = Inr v)"

section \<open>The boltdb library\<close>

text \<open>
  One field per transaction the code runs, over a state \<open>'d\<close> of the database file. An update
  transaction returns an error or \<open>nil\<close>, a view transaction what it read. The first
  argument is the bucket.
\<close>

record 'd bolt_api =
  tx_CreateBucketIfNotExists :: "string \<Rightarrow> 'd \<Rightarrow> gerror option \<times> 'd"
  tx_Put :: "string \<Rightarrow> string \<Rightarrow> bytes \<Rightarrow> 'd \<Rightarrow> gerror option \<times> 'd"
  tx_Delete :: "string \<Rightarrow> string \<Rightarrow> 'd \<Rightarrow> gerror option \<times> 'd"
  tx_Get :: "string \<Rightarrow> string \<Rightarrow> 'd \<Rightarrow> bytes option result"
  tx_KeyN :: "string \<Rightarrow> 'd \<Rightarrow> nat result"
  tx_First :: "string \<Rightarrow> 'd \<Rightarrow> (string \<times> bytes) option result"
  tx_Scan :: "string \<Rightarrow> 'd \<Rightarrow> (string \<times> bytes) list result"

section \<open>bolt.go\<close>

text \<open>A \<open>*KeyValue[T]\<close> is a pair of key and value.\<close>

type_synonym 'v KeyValue = "string \<times> 'v"

definition NewBolt :: "'d bolt_api \<Rightarrow> string \<Rightarrow> 'd \<Rightarrow> string result \<times> 'd" where
  "NewBolt A bucket d =
     (case tx_CreateBucketIfNotExists A bucket d of
        (Some e, d1) \<Rightarrow> (Inl (Errorf ''boltdb create bucket %q error: %v'' (Some e)), d1)
      | (None, d1) \<Rightarrow> (Inr bucket, d1))"

definition decodeValue :: "'v codec \<Rightarrow> bytes \<Rightarrow> 'v result" where
  "decodeValue C data =
     (case data of
        Junk _ \<Rightarrow> Inl (Errorf ''decode boltdb value error: %v'' (Some (Errors_New ''invalid character'')))
      | Doc j \<Rightarrow> (case unmarshal C j of
            Inl e \<Rightarrow> Inl (Errorf ''decode boltdb value error: %v'' (Some e))
          | Inr v \<Rightarrow> Inr v))"

definition Bolt_Put :: "'d bolt_api \<Rightarrow> 'v codec \<Rightarrow> string \<Rightarrow> string \<Rightarrow> 'v \<Rightarrow> 'd \<Rightarrow> gerror option \<times> 'd" where
  "Bolt_Put A C bucket key value d =
     (case tx_Put A bucket key (Doc (marshal C value)) d of
        (Some e, d1) \<Rightarrow> (Some (Errorf ''write boltdb error: %v'' (Some e)), d1)
      | (None, d1) \<Rightarrow> (None, d1))"

definition Bolt_Get :: "'d bolt_api \<Rightarrow> 'v codec \<Rightarrow> string \<Rightarrow> string \<Rightarrow> 'd \<Rightarrow> 'v result" where
  "Bolt_Get A C bucket key d =
     (case tx_Get A bucket key d of
        Inl e \<Rightarrow> Inl (Errorf ''read boltdb error: %v'' (Some e))
      | Inr data \<Rightarrow>
          (case data of
             None \<Rightarrow> Inl ErrNotFound
           | Some b \<Rightarrow> if bytes_empty b then Inl ErrNotFound else decodeValue C b))"

definition Bolt_Count :: "'d bolt_api \<Rightarrow> string \<Rightarrow> 'd \<Rightarrow> nat result" where
  "Bolt_Count A bucket d =
     (case tx_KeyN A bucket d of
        Inl e \<Rightarrow> Inl (Errorf ''read boltdb length error: %v'' (Some e))
      | Inr n \<Rightarrow> Inr n)"

definition Bolt_Delete :: "'d bolt_api \<Rightarrow> string \<Rightarrow> string \<Rightarrow> 'd \<Rightarrow> gerror option \<times> 'd" where
  "Bolt_Delete A bucket key d =
     (case tx_Delete A bucket key d of
        (Some e, d1) \<Rightarrow> (Some (Errorf ''Delete boltdb error: %v'' (Some e)), d1)
      | (None, d1) \<Rightarrow> (None, d1))"

definition Bolt_Pop :: "'d bolt_api \<Rightarrow> 'v codec \<Rightarrow> string \<Rightarrow> 'd \<Rightarrow> 'v KeyValue result \<times> 'd" where
  "Bolt_Pop A C bucket d =
     (case tx_First A bucket d of
        Inl e \<Rightarrow> (Inl (Errorf ''read boltdb error: %v'' (Some e)), d)
      | Inr None \<Rightarrow> (Inl ErrEOF, d)
      | Inr (Some (key, data)) \<Rightarrow>
          (if key = [] then (Inl ErrEOF, d)
           else case decodeValue C data of
             Inl e \<Rightarrow> (Inl e, d)
           | Inr v \<Rightarrow>
               (case Bolt_Delete A bucket key d of
                  (Some e, d1) \<Rightarrow> (Inl (Errorf ''delete kv after pop error: %v'' (Some e)), d1)
                | (None, d1) \<Rightarrow> (Inr (key, v), d1))))"

text \<open>The cursor loop of \<open>List\<close>: stops at the first value that does not decode.\<close>

fun scan_decode :: "'v codec \<Rightarrow> (string \<times> bytes) list \<Rightarrow> 'v KeyValue list result" where
  "scan_decode C [] = Inr []"
| "scan_decode C ((key, data) # rest) =
     (case decodeValue C data of
        Inl e \<Rightarrow> Inl e
      | Inr v \<Rightarrow> (case scan_decode C rest of Inl e \<Rightarrow> Inl e | Inr kvs \<Rightarrow> Inr ((key, v) # kvs)))"

definition Bolt_List :: "'d bolt_api \<Rightarrow> 'v codec \<Rightarrow> string \<Rightarrow> 'd \<Rightarrow> 'v KeyValue list result" where
  "Bolt_List A C bucket d =
     (case tx_Scan A bucket d of
        Inl e \<Rightarrow> Inl (Errorf ''List boltdb error: %v'' (Some e))
      | Inr items \<Rightarrow>
          (case scan_decode C items of
             Inl e \<Rightarrow> Inl (Errorf ''List boltdb error: %v'' (Some e))
           | Inr kvs \<Rightarrow> Inr kvs))"

section \<open>database.go\<close>

definition IsNotFound :: "gerror option \<Rightarrow> bool" where
  "IsNotFound e = (case e of None \<Rightarrow> False | Some e \<Rightarrow> errors_Is e ErrNotFound)"

definition IsEOF :: "gerror option \<Rightarrow> bool" where
  "IsEOF e = (case e of None \<Rightarrow> False | Some e \<Rightarrow> errors_Is e ErrEOF)"

definition PodKey :: "string \<Rightarrow> string \<Rightarrow> string \<Rightarrow> string" where
  "PodKey podName podNS sandboxId = podName @ ''-'' @ podNS @ ''-'' @ sandboxId"

definition Values :: "'v KeyValue list \<Rightarrow> 'v list" where
  "Values kvs = map snd kvs"

lemma IsEOF_simps [simp]:
  "IsEOF (Some ErrEOF)" "\<not> IsEOF None" "\<not> IsEOF (Some (Errorf m c))"
  "\<not> IsEOF (Some ErrNotFound)"
  by (simp_all add: IsEOF_def)

lemma IsNotFound_simps [simp]:
  "IsNotFound (Some ErrNotFound)" "\<not> IsNotFound None" "\<not> IsNotFound (Some (Errorf m c))"
  by (simp_all add: IsNotFound_def)

text \<open>
  The interface as a contract over the contents of one database: what each method promises,
  in the words of the comments of \<open>database.go\<close>. \<open>ok\<close> is the implementation's invariant;
  a failed operation leaves the contents alone.
\<close>

locale database =
  fixes put :: "string \<Rightarrow> 'v \<Rightarrow> 'd \<Rightarrow> gerror option \<times> 'd"
    and get :: "string \<Rightarrow> 'd \<Rightarrow> 'v result"
    and delete :: "string \<Rightarrow> 'd \<Rightarrow> gerror option \<times> 'd"
    and pop :: "'d \<Rightarrow> 'v KeyValue result \<times> 'd"
    and list :: "'d \<Rightarrow> 'v KeyValue list result"
    and count :: "'d \<Rightarrow> nat result"
    and view :: "'d \<Rightarrow> string \<rightharpoonup> 'v"
    and ok :: "'d \<Rightarrow> bool"
  assumes finite_view: "ok d \<Longrightarrow> finite (dom (view d))"
    and put_ok: "ok d \<Longrightarrow> put k v d = (r, d') \<Longrightarrow> ok d'"
    and put_nil: "ok d \<Longrightarrow> put k v d = (None, d') \<Longrightarrow> view d' = (view d)(k \<mapsto> v)"
    and put_err: "ok d \<Longrightarrow> put k v d = (Some e, d') \<Longrightarrow> view d' = view d"
    and get_val: "ok d \<Longrightarrow> get k d = Inr v \<Longrightarrow> view d k = Some v"
    and get_missing: "ok d \<Longrightarrow> get k d = Inl e \<Longrightarrow> IsNotFound (Some e) \<Longrightarrow> view d k = None"
    and delete_ok: "ok d \<Longrightarrow> delete k d = (r, d') \<Longrightarrow> ok d'"
    and delete_nil: "ok d \<Longrightarrow> delete k d = (None, d') \<Longrightarrow> view d' = (view d)(k := None)"
    and delete_err: "ok d \<Longrightarrow> delete k d = (Some e, d') \<Longrightarrow> view d' = view d"
    and pop_ok: "ok d \<Longrightarrow> pop d = (p, d') \<Longrightarrow> ok d'"
    and pop_val: "ok d \<Longrightarrow> pop d = (Inr (k, v), d') \<Longrightarrow>
      view d k = Some v \<and> view d' = (view d)(k := None)"
    and pop_eof: "ok d \<Longrightarrow> pop d = (Inl e, d') \<Longrightarrow> IsEOF (Some e) \<Longrightarrow>
      view d = Map.empty \<and> view d' = Map.empty"
    and pop_err: "ok d \<Longrightarrow> pop d = (Inl e, d') \<Longrightarrow> view d' = view d"
    and list_val: "ok d \<Longrightarrow> list d = Inr kvs \<Longrightarrow> distinct (map fst kvs) \<and> map_of kvs = view d"
    and count_val: "ok d \<Longrightarrow> count d = Inr n \<Longrightarrow> n = card (dom (view d))"
begin

lemmas view_laws = put_nil put_err delete_nil delete_err pop_err

text \<open>Popping takes one entry away.\<close>

lemma pop_card:
  assumes "ok d" and "pop d = (Inr (k, v), d')"
  shows "card (dom (view d)) = Suc (card (dom (view d')))"
proof -
  have "k \<in> dom (view d)" and d': "dom (view d') = dom (view d) - {k}"
    using pop_val [OF assms] by auto
  then show ?thesis
    using card.remove [OF finite_view [OF assms(1)], of k] by simp
qed

text \<open>
  Popping until the end: the sequence of pops yields each entry once. \<open>pops d kvs d'\<close> says that
  \<open>kvs\<close> was popped in this order on the way from \<open>d\<close> to \<open>d'\<close>.
\<close>

inductive pops :: "'d \<Rightarrow> 'v KeyValue list \<Rightarrow> 'd \<Rightarrow> bool" where
  pops_nil: "pops d [] d"
| pops_cons: "pop d = (Inr kv, d1) \<Longrightarrow> pops d1 kvs d2 \<Longrightarrow> pops d (kv # kvs) d2"

lemma pops_view:
  "pops d kvs d' \<Longrightarrow> ok d \<Longrightarrow>
    ok d' \<and> distinct (map fst kvs) \<and> (\<forall>(k, v) \<in> set kvs. view d k = Some v) \<and>
    view d' = view d |` (- set (map fst kvs))"
proof (induction rule: pops.induct)
  case (pops_nil d)
  then show ?case by simp
next
  case (pops_cons d kv d1 kvs d2)
  obtain k v where kv: "kv = (k, v)" by force
  from pops_cons.hyps(1) pops_cons.prems
  have 1: "view d k = Some v" "view d1 = (view d)(k := None)" "ok d1"
    unfolding kv by (auto dest: pop_val pop_ok)
  have IH: "ok d2" "distinct (map fst kvs)"
    "\<forall>(k, v) \<in> set kvs. view d1 k = Some v" "view d2 = view d1 |` (- set (map fst kvs))"
    using pops_cons.IH [OF 1(3)] by auto
  have "k \<notin> set (map fst kvs)" using IH(3) 1(2) by auto
  moreover have "view d2 = view d |` (- set (map fst (kv # kvs)))"
  proof
    fix x
    show "view d2 x = (view d |` (- set (map fst (kv # kvs)))) x"
      unfolding IH(4) 1(2) by (cases "x = k") (auto simp: kv restrict_map_def)
  qed
  moreover have "\<forall>(k, v) \<in> set kvs. view d k = Some v"
    using IH(3) 1(2) by (auto split: if_splits)
  ultimately show ?case
    using IH(1,2) 1(1) by (auto simp: kv)
qed

text \<open>Draining: when the last pop reports the end, everything has been popped once.\<close>

lemma pops_drain:
  assumes "pops d kvs d'" and "ok d" and "pop d' = (Inl e, d'')" and "IsEOF (Some e)"
  shows "distinct (map fst kvs)" and "map_of kvs = view d" and "view d'' = Map.empty"
proof -
  from pops_view [OF assms(1,2)] have v: "ok d'" and dist: "distinct (map fst kvs)"
    and vals: "\<forall>(k, v) \<in> set kvs. view d k = Some v"
    and rest: "view d' = view d |` (- set (map fst kvs))" by auto
  from pop_eof [OF v assms(3,4)] have e: "view d' = Map.empty" "view d'' = Map.empty" by auto
  show "distinct (map fst kvs)" by (rule dist)
  show "view d'' = Map.empty" by (rule e)
  show "map_of kvs = view d"
  proof
    fix k
    show "map_of kvs k = view d k"
    proof (cases "k \<in> set (map fst kvs)")
      case True
      then obtain v where "(k, v) \<in> set kvs" by auto
      with vals dist show ?thesis by (auto simp: map_of_distinct_iff)
    next
      case False
      then have "view d k = None" using rest e(1) by (metis ComplI restrict_in)
      with False show ?thesis by (metis map_of_eq_None_iff list.set_map)
    qed
  qed
qed

lemma get_after_put:
  assumes "ok d" and "put k v d = (None, d')" and "get k d' = Inr w"
  shows "w = v"
  using get_val [OF put_ok [OF assms(1,2)] assms(3)] put_nil [OF assms(1,2)] by simp

end

section \<open>What boltdb documents\<close>

text \<open>
  \<open>raw d b\<close> is the contents of bucket \<open>b\<close> of the file \<open>d\<close>, \<open>None\<close> before it is created;
  \<open>wf\<close> is the library's own invariant of a file. An update transaction that returns an error
  is rolled back; one that returns \<open>nil\<close> did exactly the named change in the named bucket. Keys
  are never empty and a cursor visits them in byte order.
\<close>

locale bolt_db =
  fixes A :: "'d bolt_api"
    and raw :: "'d \<Rightarrow> string \<Rightarrow> (string \<rightharpoonup> bytes) option"
    and wf :: "'d \<Rightarrow> bool"
  assumes raw_finite: "wf d \<Longrightarrow> raw d b = Some m \<Longrightarrow> finite (dom m)"
    and raw_keys: "wf d \<Longrightarrow> raw d b = Some m \<Longrightarrow> m [] = None"
    and create_wf: "wf d \<Longrightarrow> tx_CreateBucketIfNotExists A b d = (r, d') \<Longrightarrow> wf d'"
    and create_err: "wf d \<Longrightarrow> tx_CreateBucketIfNotExists A b d = (Some e, d') \<Longrightarrow> raw d' = raw d"
    and create_new: "wf d \<Longrightarrow> tx_CreateBucketIfNotExists A b d = (None, d') \<Longrightarrow> raw d b = None \<Longrightarrow>
      raw d' = (raw d)(b := Some Map.empty)"
    and create_old: "wf d \<Longrightarrow> tx_CreateBucketIfNotExists A b d = (None, d') \<Longrightarrow> raw d b = Some m \<Longrightarrow>
      raw d' = raw d"
    and txput_wf: "wf d \<Longrightarrow> tx_Put A b k data d = (r, d') \<Longrightarrow> wf d'"
    and txput_err: "wf d \<Longrightarrow> tx_Put A b k data d = (Some e, d') \<Longrightarrow> raw d' = raw d"
    and txput_nil: "wf d \<Longrightarrow> tx_Put A b k data d = (None, d') \<Longrightarrow> raw d b = Some m \<Longrightarrow>
      raw d' = (raw d)(b := Some (m(k \<mapsto> data)))"
    and txdel_wf: "wf d \<Longrightarrow> tx_Delete A b k d = (r, d') \<Longrightarrow> wf d'"
    and txdel_err: "wf d \<Longrightarrow> tx_Delete A b k d = (Some e, d') \<Longrightarrow> raw d' = raw d"
    and txdel_nil: "wf d \<Longrightarrow> tx_Delete A b k d = (None, d') \<Longrightarrow> raw d b = Some m \<Longrightarrow>
      raw d' = (raw d)(b := Some (m(k := None)))"
    and txget: "wf d \<Longrightarrow> raw d b = Some m \<Longrightarrow> tx_Get A b k d = Inr x \<Longrightarrow> x = m k"
    and txkeyn: "wf d \<Longrightarrow> raw d b = Some m \<Longrightarrow> tx_KeyN A b d = Inr n \<Longrightarrow> n = card (dom m)"
    and txfirst_none: "wf d \<Longrightarrow> raw d b = Some m \<Longrightarrow> tx_First A b d = Inr None \<Longrightarrow> m = Map.empty"
    and txfirst_some: "wf d \<Longrightarrow> raw d b = Some m \<Longrightarrow> tx_First A b d = Inr (Some (k, data)) \<Longrightarrow>
      m k = Some data \<and> (\<forall>k' \<in> dom m. k \<le> k')"
    and txscan: "wf d \<Longrightarrow> raw d b = Some m \<Longrightarrow> tx_Scan A b d = Inr items \<Longrightarrow>
      distinct (map fst items) \<and> sorted (map fst items) \<and> map_of items = m"
begin

text \<open>The contents of a bucket as values, and the invariant that every entry decodes.\<close>

definition contents :: "'v codec \<Rightarrow> string \<Rightarrow> 'd \<Rightarrow> string \<rightharpoonup> 'v" where
  "contents C b d = (\<lambda>k. case raw d b of None \<Rightarrow> None
     | Some m \<Rightarrow> (case m k of None \<Rightarrow> None
         | Some data \<Rightarrow> (case decodeValue C data of Inl _ \<Rightarrow> None | Inr v \<Rightarrow> Some v)))"

definition readable :: "'v codec \<Rightarrow> string \<Rightarrow> 'd \<Rightarrow> bool" where
  "readable C b d \<longleftrightarrow> wf d \<and> (\<exists>m. raw d b = Some m \<and>
     (\<forall>k data. m k = Some data \<longrightarrow> (\<exists>v. decodeValue C data = Inr v)))"

lemma readableE:
  assumes "readable C b d"
  obtains m where "wf d" "raw d b = Some m"
    "\<And>k data. m k = Some data \<Longrightarrow> \<exists>v. decodeValue C data = Inr v"
  using assms unfolding readable_def by blast

lemma readable_wf: "readable C b d \<Longrightarrow> wf d"
  by (simp add: readable_def)

text \<open>Only the bucket itself matters to its contents: the frame of every other operation.\<close>

lemma contents_frame: "raw d' b = raw d b \<Longrightarrow> contents C b d' = contents C b d"
  by (simp add: contents_def)

lemma readable_frame: "readable C b d \<Longrightarrow> wf d' \<Longrightarrow> raw d' b = raw d b \<Longrightarrow> readable C b d'"
  by (simp add: readable_def)

lemma contents_dom:
  assumes "readable C b d" and "raw d b = Some m"
  shows "dom (contents C b d) = dom m"
  using assms by (fastforce simp: contents_def readable_def split: option.splits sum.splits)

lemma contents_finite: "readable C b d \<Longrightarrow> finite (dom (contents C b d))"
  by (metis contents_dom raw_finite readable_def)

end

text \<open>One bucket at one type: the pair that a \<open>Bolt[T]\<close> value stands for.\<close>

locale bolt_bucket = bolt_db A raw wf
  for A :: "'d bolt_api" and raw :: "'d \<Rightarrow> string \<Rightarrow> (string \<rightharpoonup> bytes) option" and wf :: "'d \<Rightarrow> bool" +
  fixes C :: "'v codec" and b :: string
  assumes codec: "codec_ok C"
begin

lemma decode_marshal [simp]: "decodeValue C (Doc (marshal C v)) = Inr v"
  using codec by (simp add: decodeValue_def codec_ok_def)

lemma Bolt_Put_spec:
  assumes "readable C b d" and "Bolt_Put A C b k v d = (r, d')"
  shows "readable C b d' \<and> (\<forall>b'. b' \<noteq> b \<longrightarrow> raw d' b' = raw d b') \<and>
    contents C b d' = (if r = None then (contents C b d)(k \<mapsto> v) else contents C b d)"
proof -
  obtain m where m: "wf d" "raw d b = Some m"
    "\<And>k data. m k = Some data \<Longrightarrow> \<exists>v. decodeValue C data = Inr v"
    using assms(1) by (rule readableE) blast
  obtain r1 where p: "tx_Put A b k (Doc (marshal C v)) d = (r1, d')" and r: "r1 = None \<longleftrightarrow> r = None"
    using assms(2) by (auto simp: Bolt_Put_def split: prod.splits option.splits)
  have wf': "wf d'" using txput_wf [OF m(1) p] .
  show ?thesis
  proof (cases r)
    case None
    with r p have raw': "raw d' = (raw d)(b := Some (m(k \<mapsto> Doc (marshal C v))))"
      using txput_nil [OF m(1) _ m(2)] by simp
    have "readable C b d'" using m wf' by (auto simp: readable_def raw')
    moreover have "contents C b d' = (contents C b d)(k := Some v)"
      by (auto simp: contents_def fun_eq_iff raw' m(2))
    ultimately show ?thesis using None by (simp add: raw')
  next
    case (Some e)
    with r p obtain e1 where "tx_Put A b k (Doc (marshal C v)) d = (Some e1, d')" by auto
    then have "raw d' = raw d" by (rule txput_err [OF m(1)])
    with assms(1) wf' Some show ?thesis by (simp add: readable_def contents_def)
  qed
qed

lemma Bolt_Delete_spec:
  assumes "readable C b d" and "Bolt_Delete A b k d = (r, d')"
  shows "readable C b d' \<and> (\<forall>b'. b' \<noteq> b \<longrightarrow> raw d' b' = raw d b') \<and>
    contents C b d' = (if r = None then (contents C b d)(k := None) else contents C b d)"
proof -
  obtain m where m: "wf d" "raw d b = Some m"
    "\<And>k data. m k = Some data \<Longrightarrow> \<exists>v. decodeValue C data = Inr v"
    using assms(1) by (rule readableE) blast
  obtain r1 where p: "tx_Delete A b k d = (r1, d')" and r: "r1 = None \<longleftrightarrow> r = None"
    using assms(2) by (auto simp: Bolt_Delete_def split: prod.splits option.splits)
  have wf': "wf d'" using txdel_wf [OF m(1) p] .
  show ?thesis
  proof (cases r)
    case None
    with r p have raw': "raw d' = (raw d)(b := Some (m(k := None)))"
      using txdel_nil [OF m(1) _ m(2)] by simp
    have "readable C b d'" using m wf' by (auto simp: readable_def raw')
    moreover have "contents C b d' = (contents C b d)(k := None)"
      by (auto simp: contents_def fun_eq_iff raw' m(2))
    ultimately show ?thesis using None by (simp add: raw')
  next
    case (Some e)
    with r p obtain e1 where "tx_Delete A b k d = (Some e1, d')" by auto
    then have "raw d' = raw d" by (rule txdel_err [OF m(1)])
    with assms(1) wf' Some show ?thesis by (simp add: readable_def contents_def)
  qed
qed

lemma Bolt_Pop_spec:
  assumes "readable C b d" and "Bolt_Pop A C b d = (p, d')"
  shows "readable C b d' \<and> (\<forall>b'. b' \<noteq> b \<longrightarrow> raw d' b' = raw d b') \<and>
    (case p of
       Inr (k, v) \<Rightarrow> contents C b d k = Some v \<and> contents C b d' = (contents C b d)(k := None)
     | Inl e \<Rightarrow> contents C b d' = contents C b d \<and> (IsEOF (Some e) \<longrightarrow> contents C b d = Map.empty))"
proof -
  obtain m where m: "wf d" "raw d b = Some m"
    "\<And>k data. m k = Some data \<Longrightarrow> \<exists>v. decodeValue C data = Inr v"
    using assms(1) by (rule readableE) blast
  consider (err) e where "tx_First A b d = Inl e" | (none) "tx_First A b d = Inr None"
    | (some) k data where "tx_First A b d = Inr (Some (k, data))"
    by (cases "tx_First A b d") (auto, metis old.prod.exhaust option.exhaust)
  then show ?thesis
  proof cases
    case err
    with assms show ?thesis by (auto simp: Bolt_Pop_def)
  next
    case none
    with assms txfirst_none [OF m(1,2)] m(2) show ?thesis
      by (auto simp: Bolt_Pop_def contents_def)
  next
    case some
    have k: "m k = Some data" using txfirst_some [OF m(1,2) some] by simp
    then have k0: "k \<noteq> []" using raw_keys [OF m(1,2)] by auto
    obtain v where v: "decodeValue C data = Inr v" using m(3) [OF k] by blast
    obtain r d1 where del: "Bolt_Delete A b k d = (r, d1)" by force
    have ck: "contents C b d k = Some v" using m(2) k v by (simp add: contents_def)
    from Bolt_Delete_spec [OF assms(1) del] del ck assms(2) some k0 v show ?thesis
      by (cases r) (auto simp: Bolt_Pop_def)
  qed
qed

lemma scan_decode_spec:
  "scan_decode C items = Inr kvs \<Longrightarrow> map fst kvs = map fst items \<and>
    map_of kvs = (\<lambda>k. case map_of items k of None \<Rightarrow> None
      | Some data \<Rightarrow> (case decodeValue C data of Inl _ \<Rightarrow> None | Inr v \<Rightarrow> Some v))"
  by (induction items arbitrary: kvs rule: scan_decode.induct)
    (fastforce simp: fun_eq_iff split: sum.splits if_splits)+

sublocale database "Bolt_Put A C b" "Bolt_Get A C b" "Bolt_Delete A b" "Bolt_Pop A C b"
  "Bolt_List A C b" "Bolt_Count A b" "contents C b" "readable C b"
proof (unfold_locales, goal_cases)
  case (1 d)
  then show ?case by (rule contents_finite)
next
  case (2 d k v r d')
  then show ?case using Bolt_Put_spec by blast
next
  case (3 d k v d')
  then show ?case using Bolt_Put_spec [of d k v None d'] by simp
next
  case (4 d k v e d')
  then show ?case using Bolt_Put_spec [of d k v "Some e" d'] by simp
next
  case (5 d k v)
  then obtain m data where m: "wf d" "raw d b = Some m" and g: "tx_Get A b k d = Inr (Some data)"
    and dv: "decodeValue C data = Inr v"
    by (auto simp: Bolt_Get_def readable_def split: sum.splits option.splits if_splits)
  with txget [OF m g, symmetric] show ?case by (simp add: contents_def)
next
  case (6 d k e)
  then obtain m where m: "wf d" "raw d b = Some m"
    "\<And>k data. m k = Some data \<Longrightarrow> \<exists>v. decodeValue C data = Inr v"
    using readableE by metis
  obtain x where x: "tx_Get A b k d = Inr x" using 6(2,3)
    by (auto simp: Bolt_Get_def split: sum.splits)
  have xm: "x = m k" using txget [OF m(1,2) x] .
  show ?case
  proof (cases "m k")
    case None
    then show ?thesis using m(2) by (simp add: contents_def)
  next
    case (Some data)
    then obtain v where "decodeValue C data = Inr v" using m(3) by blast
    then have False using 6(2,3) x xm Some
      by (auto simp: Bolt_Get_def decodeValue_def bytes_empty_def split: bytes.splits if_splits)
    then show ?thesis ..
  qed
next
  case (7 d k r d')
  then show ?case using Bolt_Delete_spec by blast
next
  case (8 d k d')
  then show ?case using Bolt_Delete_spec [of d k None d'] by simp
next
  case (9 d k e d')
  then show ?case using Bolt_Delete_spec [of d k "Some e" d'] by simp
next
  case (10 d p d')
  then show ?case using Bolt_Pop_spec by blast
next
  case (11 d k v d')
  then show ?case using Bolt_Pop_spec [of d "Inr (k, v)" d'] by simp
next
  case (12 d e d')
  then show ?case using Bolt_Pop_spec [of d "Inl e" d'] by simp
next
  case (13 d e d')
  then show ?case using Bolt_Pop_spec [of d "Inl e" d'] by simp
next
  case (14 d kvs)
  then obtain m items where m: "wf d" "raw d b = Some m" and i: "tx_Scan A b d = Inr items"
    and s: "scan_decode C items = Inr kvs"
    by (auto simp: Bolt_List_def readable_def split: sum.splits)
  from txscan [OF m i] scan_decode_spec [OF s] m(2) show ?case
    by (simp add: contents_def)
next
  case (15 d n)
  then obtain m where m: "wf d" "raw d b = Some m" and "tx_KeyN A b d = Inr n"
    by (auto simp: Bolt_Count_def readable_def split: sum.splits)
  then have "n = card (dom m)" by (rule txkeyn)
  then show ?case using contents_dom [OF 15(1) m(2)] by simp
qed

text \<open>The laws of the interface by the names of the methods of \<open>bolt.go\<close>.\<close>

lemmas Bolt_List_view = list_val
lemmas Bolt_Count_view = count_val
lemmas Bolt_Get_view = get_val
lemmas Bolt_Get_missing = get_missing
lemmas Bolt_pops_drain = pops_drain

end

end
