(* ===== verification/Codec.thy ===== *)
theory Codec
  imports Database
begin

text \<open>
  How \<open>encoding/json\<close> stores the two record types the daemon persists: \<open>rpc.PodNetwork\<close>,
  whose fields all carry \<open>omitempty\<close>, and \<open>CooldownItem\<close> of \<open>pkg/ipamd/pool.go\<close>, whose
  fields carry no tag. Decoding starts from the zero value, visits the members of the object
  in order, matches names without regard to case, skips unknown names, leaves a field alone
  on \<open>null\<close> and fails on a value of the wrong type or a number outside \<open>int64\<close>.
\<close>

section \<open>Fields\<close>

definition json_type_error :: gerror where
  "json_type_error = Errors_New ''json: cannot unmarshal''"

definition put_str :: "json \<Rightarrow> ((string \<Rightarrow> string) \<Rightarrow> 'r \<Rightarrow> 'r) \<Rightarrow> 'r \<Rightarrow> 'r result" where
  "put_str j upd r = (case j of JStr s \<Rightarrow> Inr (upd (\<lambda>_. s) r) | JNull \<Rightarrow> Inr r | _ \<Rightarrow> Inl json_type_error)"

definition put_bool :: "json \<Rightarrow> ((bool \<Rightarrow> bool) \<Rightarrow> 'r \<Rightarrow> 'r) \<Rightarrow> 'r \<Rightarrow> 'r result" where
  "put_bool j upd r = (case j of JBool b \<Rightarrow> Inr (upd (\<lambda>_. b) r) | JNull \<Rightarrow> Inr r | _ \<Rightarrow> Inl json_type_error)"

definition put_int64 :: "json \<Rightarrow> ((int64 \<Rightarrow> int64) \<Rightarrow> 'r \<Rightarrow> 'r) \<Rightarrow> 'r \<Rightarrow> 'r result" where
  "put_int64 j upd r = (case j of
       JInt i \<Rightarrow> if int64_range i then Inr (upd (\<lambda>_. word_of_int i) r) else Inl json_type_error
     | JNull \<Rightarrow> Inr r | _ \<Rightarrow> Inl json_type_error)"

text \<open>Members left out by \<open>omitempty\<close>.\<close>

definition omit_str :: "string \<Rightarrow> string \<Rightarrow> (string \<times> json) list" where
  "omit_str n s = (if s = [] then [] else [(n, JStr s)])"

definition omit_bool :: "string \<Rightarrow> bool \<Rightarrow> (string \<times> json) list" where
  "omit_bool n b = (if b then [(n, JBool b)] else [])"

definition omit_int64 :: "string \<Rightarrow> int64 \<Rightarrow> (string \<times> json) list" where
  "omit_int64 n i = (if i = 0 then [] else [(n, JInt (sint i))])"

text \<open>Decoding the members of an object, one after the other.\<close>

fun put_members :: "(string \<Rightarrow> json \<Rightarrow> 'r \<Rightarrow> 'r result) \<Rightarrow> (string \<times> json) list \<Rightarrow> 'r \<Rightarrow> 'r result" where
  "put_members f [] r = Inr r"
| "put_members f ((n, j) # ms) r = (case f n j r of Inl e \<Rightarrow> Inl e | Inr r1 \<Rightarrow> put_members f ms r1)"

lemma put_members_append:
  "put_members f (xs @ ys) r = result_bind (put_members f xs r) (put_members f ys)"
  by (induction f xs r rule: put_members.induct) (auto split: sum.splits)

lemma put_members_str:
  "(\<And>j r. f n j r = put_str j upd r) \<Longrightarrow> (s = [] \<Longrightarrow> upd (\<lambda>_. s) r = r) \<Longrightarrow>
    put_members f (omit_str n s @ ms) r = put_members f ms (upd (\<lambda>_. s) r)"
  by (simp add: omit_str_def put_str_def)

lemma put_members_bool:
  "(\<And>j r. f n j r = put_bool j upd r) \<Longrightarrow> (\<not> b \<Longrightarrow> upd (\<lambda>_. b) r = r) \<Longrightarrow>
    put_members f (omit_bool n b @ ms) r = put_members f ms (upd (\<lambda>_. b) r)"
  by (simp add: omit_bool_def put_bool_def)

lemma put_members_int64:
  "(\<And>j r. f n j r = put_int64 j upd r) \<Longrightarrow> (i = 0 \<Longrightarrow> upd (\<lambda>_. i) r = r) \<Longrightarrow>
    put_members f (omit_int64 n i @ ms) r = put_members f ms (upd (\<lambda>_. i) r)"
  by (simp add: omit_int64_def put_int64_def int64_range_sint)

section \<open>PodNetwork\<close>

definition marshal_PodNetwork :: "PodNetwork \<Rightarrow> json" where
  "marshal_PodNetwork p = JObj (
     omit_str ''PodName'' (pn_PodName p) @ omit_str ''PodNS'' (pn_PodNS p) @
     omit_str ''PodUID'' (pn_PodUID p) @ omit_str ''SandboxID'' (pn_SandboxID p) @
     omit_str ''NetNS'' (pn_NetNS p) @ omit_str ''VPCIP'' (pn_VPCIP p) @
     omit_str ''VPCID'' (pn_VPCID p) @ omit_str ''SubnetID'' (pn_SubnetID p) @
     omit_str ''Gateway'' (pn_Gateway p) @ omit_str ''Mask'' (pn_Mask p) @
     omit_str ''MacAddress'' (pn_MacAddress p) @ omit_bool ''DedicatedUNI'' (pn_DedicatedUNI p) @
     omit_str ''InterfaceID'' (pn_InterfaceID p) @ omit_str ''EIPID'' (pn_EIPID p) @
     omit_int64 ''CreateTime'' (pn_CreateTime p) @ omit_int64 ''RecycleTime'' (pn_RecycleTime p) @
     omit_bool ''Recycled'' (pn_Recycled p) @ [])"

definition member_PodNetwork :: "string \<Rightarrow> json \<Rightarrow> PodNetwork \<Rightarrow> PodNetwork result" where
  "member_PodNetwork n j p =
     (if EqualFold n ''PodName'' then put_str j pn_PodName_update p
      else if EqualFold n ''PodNS'' then put_str j pn_PodNS_update p
      else if EqualFold n ''PodUID'' then put_str j pn_PodUID_update p
      else if EqualFold n ''SandboxID'' then put_str j pn_SandboxID_update p
      else if EqualFold n ''NetNS'' then put_str j pn_NetNS_update p
      else if EqualFold n ''VPCIP'' then put_str j pn_VPCIP_update p
      else if EqualFold n ''VPCID'' then put_str j pn_VPCID_update p
      else if EqualFold n ''SubnetID'' then put_str j pn_SubnetID_update p
      else if EqualFold n ''Gateway'' then put_str j pn_Gateway_update p
      else if EqualFold n ''Mask'' then put_str j pn_Mask_update p
      else if EqualFold n ''MacAddress'' then put_str j pn_MacAddress_update p
      else if EqualFold n ''DedicatedUNI'' then put_bool j pn_DedicatedUNI_update p
      else if EqualFold n ''InterfaceID'' then put_str j pn_InterfaceID_update p
      else if EqualFold n ''EIPID'' then put_str j pn_EIPID_update p
      else if EqualFold n ''CreateTime'' then put_int64 j pn_CreateTime_update p
      else if EqualFold n ''RecycleTime'' then put_int64 j pn_RecycleTime_update p
      else if EqualFold n ''Recycled'' then put_bool j pn_Recycled_update p
      else Inr p)"

definition unmarshal_PodNetwork :: "json \<Rightarrow> PodNetwork result" where
  "unmarshal_PodNetwork j = (case j of
       JObj ms \<Rightarrow> put_members member_PodNetwork ms PodNetwork_zero
     | JNull \<Rightarrow> Inr PodNetwork_zero
     | _ \<Rightarrow> Inl json_type_error)"

definition PodNetwork_codec :: "PodNetwork codec" where
  "PodNetwork_codec = \<lparr>marshal = marshal_PodNetwork, unmarshal = unmarshal_PodNetwork\<rparr>"

text \<open>Each name is recognised as its own field and no other.\<close>

lemma fold_names:
  "ToLower ''PodName'' = ''podname''" "ToLower ''PodNS'' = ''podns''"
  "ToLower ''PodUID'' = ''poduid''" "ToLower ''SandboxID'' = ''sandboxid''"
  "ToLower ''NetNS'' = ''netns''" "ToLower ''VPCIP'' = ''vpcip''"
  "ToLower ''VPCID'' = ''vpcid''" "ToLower ''SubnetID'' = ''subnetid''"
  "ToLower ''Gateway'' = ''gateway''" "ToLower ''Mask'' = ''mask''"
  "ToLower ''MacAddress'' = ''macaddress''" "ToLower ''DedicatedUNI'' = ''dedicateduni''"
  "ToLower ''InterfaceID'' = ''interfaceid''" "ToLower ''EIPID'' = ''eipid''"
  "ToLower ''CreateTime'' = ''createtime''" "ToLower ''RecycleTime'' = ''recycletime''"
  "ToLower ''Recycled'' = ''recycled''" "ToLower ''Network'' = ''network''"
  "ToLower ''CooldownOver'' = ''cooldownover''"
  by code_simp+

lemma member_PodNetwork_names:
  "member_PodNetwork ''PodName'' j p = put_str j pn_PodName_update p"
  "member_PodNetwork ''PodNS'' j p = put_str j pn_PodNS_update p"
  "member_PodNetwork ''PodUID'' j p = put_str j pn_PodUID_update p"
  "member_PodNetwork ''SandboxID'' j p = put_str j pn_SandboxID_update p"
  "member_PodNetwork ''NetNS'' j p = put_str j pn_NetNS_update p"
  "member_PodNetwork ''VPCIP'' j p = put_str j pn_VPCIP_update p"
  "member_PodNetwork ''VPCID'' j p = put_str j pn_VPCID_update p"
  "member_PodNetwork ''SubnetID'' j p = put_str j pn_SubnetID_update p"
  "member_PodNetwork ''Gateway'' j p = put_str j pn_Gateway_update p"
  "member_PodNetwork ''Mask'' j p = put_str j pn_Mask_update p"
  "member_PodNetwork ''MacAddress'' j p = put_str j pn_MacAddress_update p"
  "member_PodNetwork ''DedicatedUNI'' j p = put_bool j pn_DedicatedUNI_update p"
  "member_PodNetwork ''InterfaceID'' j p = put_str j pn_InterfaceID_update p"
  "member_PodNetwork ''EIPID'' j p = put_str j pn_EIPID_update p"
  "member_PodNetwork ''CreateTime'' j p = put_int64 j pn_CreateTime_update p"
  "member_PodNetwork ''RecycleTime'' j p = put_int64 j pn_RecycleTime_update p"
  "member_PodNetwork ''Recycled'' j p = put_bool j pn_Recycled_update p"
  by (simp_all add: member_PodNetwork_def EqualFold_def fold_names)

lemmas put_member_PodNetwork =
  put_members_str [where f = member_PodNetwork and n = "''PodName''" and upd = pn_PodName_update,
    OF member_PodNetwork_names(1)]
  put_members_str [where f = member_PodNetwork and n = "''PodNS''" and upd = pn_PodNS_update,
    OF member_PodNetwork_names(2)]
  put_members_str [where f = member_PodNetwork and n = "''PodUID''" and upd = pn_PodUID_update,
    OF member_PodNetwork_names(3)]
  put_members_str [where f = member_PodNetwork and n = "''SandboxID''" and upd = pn_SandboxID_update,
    OF member_PodNetwork_names(4)]
  put_members_str [where f = member_PodNetwork and n = "''NetNS''" and upd = pn_NetNS_update,
    OF member_PodNetwork_names(5)]
  put_members_str [where f = member_PodNetwork and n = "''VPCIP''" and upd = pn_VPCIP_update,
    OF member_PodNetwork_names(6)]
  put_members_str [where f = member_PodNetwork and n = "''VPCID''" and upd = pn_VPCID_update,
    OF member_PodNetwork_names(7)]
  put_members_str [where f = member_PodNetwork and n = "''SubnetID''" and upd = pn_SubnetID_update,
    OF member_PodNetwork_names(8)]
  put_members_str [where f = member_PodNetwork and n = "''Gateway''" and upd = pn_Gateway_update,
    OF member_PodNetwork_names(9)]
  put_members_str [where f = member_PodNetwork and n = "''Mask''" and upd = pn_Mask_update,
    OF member_PodNetwork_names(10)]
  put_members_str [where f = member_PodNetwork and n = "''MacAddress''" and upd = pn_MacAddress_update,
    OF member_PodNetwork_names(11)]
  put_members_str [where f = member_PodNetwork and n = "''InterfaceID''" and upd = pn_InterfaceID_update,
    OF member_PodNetwork_names(13)]
  put_members_str [where f = member_PodNetwork and n = "''EIPID''" and upd = pn_EIPID_update,
    OF member_PodNetwork_names(14)]
  put_members_bool [where f = member_PodNetwork and n = "''DedicatedUNI''" and upd = pn_DedicatedUNI_update,
    OF member_PodNetwork_names(12)]
  put_members_bool [where f = member_PodNetwork and n = "''Recycled''" and upd = pn_Recycled_update,
    OF member_PodNetwork_names(17)]
  put_members_int64 [where f = member_PodNetwork and n = "''CreateTime''" and upd = pn_CreateTime_update,
    OF member_PodNetwork_names(15)]
  put_members_int64 [where f = member_PodNetwork and n = "''RecycleTime''" and upd = pn_RecycleTime_update,
    OF member_PodNetwork_names(16)]

lemma unmarshal_marshal_PodNetwork: "unmarshal_PodNetwork (marshal_PodNetwork p) = Inr p"
  unfolding marshal_PodNetwork_def unmarshal_PodNetwork_def PodNetwork_zero_def json.case
  by (subst put_member_PodNetwork, simp)+ simp

lemma PodNetwork_codec_ok [simp]: "codec_ok PodNetwork_codec"
  by (simp add: codec_ok_def PodNetwork_codec_def unmarshal_marshal_PodNetwork)

section \<open>CooldownItem\<close>

text \<open>
  \<open>Network\<close> is a pointer that the program never leaves \<open>nil\<close>; a document without it counts as
  one that does not decode.
\<close>

record CooldownItem =
  cd_Network :: PodNetwork
  cd_CooldownOver :: int64

definition marshal_CooldownItem :: "CooldownItem \<Rightarrow> json" where
  "marshal_CooldownItem c = JObj
     [(''Network'', marshal_PodNetwork (cd_Network c)), (''CooldownOver'', JInt (sint (cd_CooldownOver c)))]"

definition member_CooldownItem ::
  "string \<Rightarrow> json \<Rightarrow> PodNetwork option \<times> int64 \<Rightarrow> (PodNetwork option \<times> int64) result" where
  "member_CooldownItem n j r =
     (if EqualFold n ''Network'' then
        (case j of JNull \<Rightarrow> Inr (None, snd r)
         | _ \<Rightarrow> (case unmarshal_PodNetwork j of Inl e \<Rightarrow> Inl e | Inr p \<Rightarrow> Inr (Some p, snd r)))
      else if EqualFold n ''CooldownOver'' then put_int64 j apsnd r
      else Inr r)"

definition unmarshal_CooldownItem :: "json \<Rightarrow> CooldownItem result" where
  "unmarshal_CooldownItem j = (case j of
       JObj ms \<Rightarrow>
         (case put_members member_CooldownItem ms (None, 0) of
            Inl e \<Rightarrow> Inl e
          | Inr (None, _) \<Rightarrow> Inl (Errors_New ''nil Network'')
          | Inr (Some p, over) \<Rightarrow> Inr \<lparr>cd_Network = p, cd_CooldownOver = over\<rparr>)
     | JNull \<Rightarrow> Inl (Errors_New ''nil Network'')
     | _ \<Rightarrow> Inl json_type_error)"

definition CooldownItem_codec :: "CooldownItem codec" where
  "CooldownItem_codec = \<lparr>marshal = marshal_CooldownItem, unmarshal = unmarshal_CooldownItem\<rparr>"

lemma unmarshal_marshal_CooldownItem: "unmarshal_CooldownItem (marshal_CooldownItem c) = Inr c"
proof -
  have "member_CooldownItem ''Network'' (marshal_PodNetwork (cd_Network c)) (None, 0) =
      Inr (Some (cd_Network c), 0)"
    using unmarshal_marshal_PodNetwork [of "cd_Network c"]
    by (auto simp: member_CooldownItem_def marshal_PodNetwork_def)
  moreover have "member_CooldownItem ''CooldownOver'' (JInt (sint (cd_CooldownOver c)))
      (Some (cd_Network c), 0) = Inr (Some (cd_Network c), cd_CooldownOver c)"
    by (simp add: member_CooldownItem_def EqualFold_def fold_names put_int64_def int64_range_sint)
  ultimately show ?thesis
    by (simp add: unmarshal_CooldownItem_def marshal_CooldownItem_def)
qed

lemma CooldownItem_codec_ok [simp]: "codec_ok CooldownItem_codec"
  by (simp add: codec_ok_def CooldownItem_codec_def unmarshal_marshal_CooldownItem)

end
