(* ===== verification/Mem_Store.thy ===== *)
theory Mem_Store
  imports Codec
begin

text \<open>
  An executable store that behaves as \<open>boltdb\<close> documents: a file is a list of buckets, a
  bucket a list of entries in key order. It is an instance of \<open>bolt_db\<close>, so the
  promises assumed of the library are consistent, and the stores in the examples of the other
  theories are made from it. An update whose key is in \<open>bad\<close> is refused, which gives the
  examples a store that fails where they need one.
\<close>

type_synonym mem = "(string \<times> (string \<times> bytes) list) list"

fun entry_put :: "string \<Rightarrow> 'a \<Rightarrow> (string \<times> 'a) list \<Rightarrow> (string \<times> 'a) list" where
  "entry_put k v [] = [(k, v)]"
| "entry_put k v ((k', v') # xs) =
     (if k = k' then (k, v) # xs
      else if k < k' then (k, v) # (k', v') # xs
      else (k', v') # entry_put k v xs)"

definition entry_del :: "string \<Rightarrow> (string \<times> 'a) list \<Rightarrow> (string \<times> 'a) list" where
  "entry_del k xs = filter (\<lambda>(k', _). k' \<noteq> k) xs"

fun bucket_set :: "string \<Rightarrow> 'a \<Rightarrow> (string \<times> 'a) list \<Rightarrow> (string \<times> 'a) list" where
  "bucket_set b x [] = [(b, x)]"
| "bucket_set b x ((b', y) # bs) = (if b = b' then (b, x) # bs else (b', y) # bucket_set b x bs)"

definition mem_refused :: gerror where
  "mem_refused = Ext 1"

definition mem_create :: "string \<Rightarrow> mem \<Rightarrow> gerror option \<times> mem" where
  "mem_create b d = (case map_of d b of Some _ \<Rightarrow> (None, d) | None \<Rightarrow> (None, bucket_set b [] d))"

definition mem_put :: "string list \<Rightarrow> string \<Rightarrow> string \<Rightarrow> bytes \<Rightarrow> mem \<Rightarrow> gerror option \<times> mem" where
  "mem_put bad b k v d =
     (if k = [] \<or> k \<in> set bad then (Some mem_refused, d)
      else case map_of d b of
        None \<Rightarrow> (Some mem_refused, d)
      | Some xs \<Rightarrow> (None, bucket_set b (entry_put k v xs) d))"

definition mem_delete :: "string list \<Rightarrow> string \<Rightarrow> string \<Rightarrow> mem \<Rightarrow> gerror option \<times> mem" where
  "mem_delete bad b k d =
     (if k \<in> set bad then (Some mem_refused, d)
      else case map_of d b of
        None \<Rightarrow> (Some mem_refused, d)
      | Some xs \<Rightarrow> (None, bucket_set b (entry_del k xs) d))"

definition mem_read :: "((string \<times> bytes) list \<Rightarrow> 'a) \<Rightarrow> string \<Rightarrow> mem \<Rightarrow> 'a result" where
  "mem_read f b d = (case map_of d b of None \<Rightarrow> Inl mem_refused | Some xs \<Rightarrow> Inr (f xs))"

definition mem_api :: "string list \<Rightarrow> mem bolt_api" where
  "mem_api bad = \<lparr>tx_CreateBucketIfNotExists = mem_create,
     tx_Put = mem_put bad, tx_Delete = mem_delete bad,
     tx_Get = (\<lambda>b k. mem_read (\<lambda>xs. map_of xs k) b),
     tx_KeyN = mem_read length,
     tx_First = mem_read (\<lambda>xs. case xs of [] \<Rightarrow> None | x # _ \<Rightarrow> Some x),
     tx_Scan = mem_read (\<lambda>xs. xs)\<rparr>"

definition mem_raw :: "mem \<Rightarrow> string \<Rightarrow> (string \<rightharpoonup> bytes) option" where
  "mem_raw d b = map_option map_of (map_of d b)"

definition mem_wf :: "mem \<Rightarrow> bool" where
  "mem_wf d \<longleftrightarrow> (\<forall>xs \<in> ran (map_of d). sorted_wrt (<) (map fst xs) \<and> [] \<notin> fst ` set xs)"

lemma entry_put_keys: "fst ` set (entry_put k v xs) = insert k (fst ` set xs)"
  by (induction k v xs rule: entry_put.induct) auto

lemma entry_put_sorted:
  "sorted_wrt (<) (map fst xs) \<Longrightarrow> sorted_wrt (<) (map fst (entry_put k v xs))"
proof (induction k v xs rule: entry_put.induct)
  case (1 k v)
  then show ?case by simp
next
  case (2 k v k' v' xs)
  show ?case
  proof (cases "k = k' \<or> k < k'")
    case True
    with 2(2) show ?thesis by (auto intro: less_trans)
  next
    case False
    with 2 have "sorted_wrt (<) (map fst (entry_put k v xs))" and "k' < k" by auto
    moreover have "\<forall>x \<in> fst ` set (entry_put k v xs). k' < x"
      using 2(2) \<open>k' < k\<close> by (simp add: entry_put_keys)
    ultimately show ?thesis using False by simp
  qed
qed

lemma entry_put_map_of:
  "sorted_wrt (<) (map fst xs) \<Longrightarrow> map_of (entry_put k v xs) = (map_of xs)(k \<mapsto> v)"
  by (induction k v xs rule: entry_put.induct) (auto simp: fun_eq_iff)

lemma entry_del_map_of: "map_of (entry_del k xs) = (map_of xs)(k := None)"
  by (induction xs) (auto simp: entry_del_def fun_eq_iff)

lemma entry_del_sorted:
  "sorted_wrt (<) (map fst xs) \<Longrightarrow> sorted_wrt (<) (map fst (entry_del k xs))"
  by (induction xs) (auto simp: entry_del_def)

lemma entry_del_keys: "fst ` set (entry_del k xs) \<subseteq> fst ` set xs"
  by (auto simp: entry_del_def)

lemma bucket_set_map_of: "map_of (bucket_set b x d) = (map_of d)(b \<mapsto> x)"
  by (induction b x d rule: bucket_set.induct) (auto simp: fun_eq_iff)

lemma sorted_distinct_keys: "sorted_wrt (<) (map fst xs) \<Longrightarrow> distinct (map fst (xs :: (string \<times> 'a) list))"
  by (simp add: strict_sorted_iff)

lemma mem_wf_bucket:
  "mem_wf d \<Longrightarrow> map_of d b = Some xs \<Longrightarrow> sorted_wrt (<) (map fst xs) \<and> [] \<notin> fst ` set xs"
  by (auto simp: mem_wf_def ran_def)

lemma mem_wf_set:
  "mem_wf d \<Longrightarrow> sorted_wrt (<) (map fst xs) \<Longrightarrow> [] \<notin> fst ` set xs \<Longrightarrow> mem_wf (bucket_set b xs d)"
  by (auto simp: mem_wf_def bucket_set_map_of ran_def split: if_splits)

lemma mem_wf_put:
  assumes "mem_wf d" and "map_of d b = Some xs" and "k \<noteq> []"
  shows "mem_wf (bucket_set b (entry_put k v xs) d)"
  using mem_wf_bucket [OF assms(1,2)] assms(3)
  by (intro mem_wf_set [OF assms(1)]) (simp_all add: entry_put_sorted entry_put_keys)

lemma mem_wf_del:
  assumes "mem_wf d" and "map_of d b = Some xs"
  shows "mem_wf (bucket_set b (entry_del k xs) d)"
  using mem_wf_bucket [OF assms] entry_del_keys [of k xs]
  by (intro mem_wf_set [OF assms(1)]) (auto simp: entry_del_sorted)

lemma mem_raw_set: "mem_raw (bucket_set b xs d) = (mem_raw d)(b := Some (map_of xs))"
  by (auto simp: mem_raw_def bucket_set_map_of fun_eq_iff)

lemma map_of_None_fst: "[] \<notin> fst ` set xs \<Longrightarrow> map_of xs [] = None"
  by (simp add: map_of_eq_None_iff)

interpretation mem: bolt_db "mem_api bad" mem_raw mem_wf for bad
proof (unfold_locales, goal_cases)
  case (1 d b m)
  then show ?case by (auto simp: mem_raw_def finite_dom_map_of)
next
  case (2 d b m)
  then show ?case by (auto simp: mem_raw_def dest: mem_wf_bucket intro: map_of_None_fst)
next
  case (3 d b r d')
  then show ?case by (auto simp: mem_api_def mem_create_def split: option.splits intro: mem_wf_set)
next
  case (4 d b e d')
  then show ?case by (auto simp: mem_api_def mem_create_def split: option.splits)
next
  case (5 d b d')
  then show ?case by (auto simp: mem_api_def mem_create_def mem_raw_set split: option.splits)
      (auto simp: mem_raw_def)
next
  case (6 d b d' m)
  then show ?case by (auto simp: mem_api_def mem_create_def mem_raw_def split: option.splits)
next
  case (7 d b k data r d')
  then show ?case
    by (auto simp: mem_api_def mem_put_def mem_wf_put split: option.splits if_splits)
next
  case (8 d b k data e d')
  then show ?case by (auto simp: mem_api_def mem_put_def split: option.splits if_splits)
next
  case (9 d b k data d' m)
  then obtain xs where "map_of d b = Some xs" "m = map_of xs" by (auto simp: mem_raw_def)
  with 9 show ?case
    by (auto simp: mem_api_def mem_put_def mem_raw_set entry_put_map_of split: if_splits dest: mem_wf_bucket)
next
  case (10 d b k r d')
  then show ?case
    by (auto simp: mem_api_def mem_delete_def mem_wf_del split: option.splits if_splits)
next
  case (11 d b k e d')
  then show ?case by (auto simp: mem_api_def mem_delete_def split: option.splits if_splits)
next
  case (12 d b k d' m)
  then obtain xs where "map_of d b = Some xs" "m = map_of xs" by (auto simp: mem_raw_def)
  with 12 show ?case
    by (auto simp: mem_api_def mem_delete_def mem_raw_set entry_del_map_of split: if_splits)
next
  case (13 d b m k x)
  then show ?case by (auto simp: mem_api_def mem_read_def mem_raw_def)
next
  case (14 d b m n)
  then obtain xs where "map_of d b = Some xs" "m = map_of xs" by (auto simp: mem_raw_def)
  with 14 show ?case
    by (auto simp: mem_api_def mem_read_def card_dom_map_of dest!: mem_wf_bucket sorted_distinct_keys)
next
  case (15 d b m)
  then show ?case by (auto simp: mem_api_def mem_read_def mem_raw_def split: list.splits)
next
  case (16 d b m k data)
  then obtain xs where xs: "map_of d b = Some ((k, data) # xs)" "m = map_of ((k, data) # xs)"
    by (auto simp: mem_api_def mem_read_def mem_raw_def split: list.splits)
  have "\<forall>k' \<in> fst ` set xs. k < k'" using mem_wf_bucket [OF 16(1) xs(1)] by simp
  then show ?case using xs(2) by (force simp: dom_def dest: map_of_SomeD split: if_splits)
next
  case (17 d b m items)
  then show ?case
    by (auto simp: mem_api_def mem_read_def mem_raw_def strict_sorted_iff dest: mem_wf_bucket)
qed

interpretation mem_pn: bolt_bucket "mem_api bad" mem_raw mem_wf PodNetwork_codec b for bad b
  by unfold_locales simp

interpretation mem_cd: bolt_bucket "mem_api bad" mem_raw mem_wf CooldownItem_codec b for bad b
  by unfold_locales simp

end
