(* ===== verification/Store_Props.thy ===== *)
theory Store_Props
  imports Mem_Store
begin

text \<open>
  The properties of the key-value store as its clients see it, for every database that keeps
  boltdb's promises, with instances on the executable store.
\<close>

text \<open>C40. Draining a bucket yields each of its entries exactly once.

  When \<open>Pop\<close> is called again and again until it reports the end, the entries it returned have
  distinct keys and together are the contents the bucket had; the bucket ends empty.\<close>

theorem Bolt_Pop_drains:
  assumes "bolt_db A raw okf" and "codec_ok C" and "bolt_db.readable raw okf C b d"
    and "database.pops (Bolt_Pop A C b) d kvs d'" and "Bolt_Pop A C b d' = (Inl e, d'')" and "IsEOF (Some e)"
  shows "distinct (map fst kvs) \<and> map_of kvs = bolt_db.contents raw C b d \<and>
    bolt_db.contents raw C b d'' = Map.empty"
proof -
  have B: "bolt_bucket A raw okf C" using assms(1,2) by (simp add: bolt_bucket_def bolt_bucket_axioms_def)
  show ?thesis
    using bolt_bucket.Bolt_pops_drain [OF B assms(4,3,5,6)] by simp
qed

text \<open>What was put is what is got, and the other buckets and keys keep their contents.

  A \<open>Put\<close> that returns no error makes a later successful \<open>Get\<close> of the key return the value, and
  a \<open>Get\<close> of the key never report it missing; a failed \<open>Put\<close> leaves the bucket as it was. In
  both cases all other buckets are untouched.\<close>

lemma Bolt_Put_Get:
  assumes "bolt_db A raw okf" and "codec_ok C" and "bolt_db.readable raw okf C b d"
    and "Bolt_Put A C b k v d = (r, d')"
  shows "bolt_db.readable raw okf C b d' \<and> (\<forall>b'. b' \<noteq> b \<longrightarrow> raw d' b' = raw d b') \<and>
    bolt_db.contents raw C b d' =
      (if r = None then (bolt_db.contents raw C b d)(k \<mapsto> v) else bolt_db.contents raw C b d) \<and>
    (r = None \<longrightarrow> (\<forall>x. Bolt_Get A C b k d' = Inr x \<longrightarrow> x = v) \<and>
       (\<forall>e. Bolt_Get A C b k d' = Inl e \<longrightarrow> \<not> IsNotFound (Some e)))"
proof -
  have B: "bolt_bucket A raw okf C" using assms(1,2) by (simp add: bolt_bucket_def bolt_bucket_axioms_def)
  note P = bolt_bucket.Bolt_Put_spec [OF B assms(3,4)]
  then have rd: "bolt_db.readable raw okf C b d'" by blast
  from P bolt_bucket.Bolt_Get_view [OF B rd] bolt_bucket.Bolt_Get_missing [OF B rd] show ?thesis
    by fastforce
qed

definition demo_pair :: mem where
  "demo_pair = [(''b'', [(''x'', Doc (marshal_PodNetwork PodNetwork_zero))]), (''c'', [])]"

lemma demo_pair_readable: "bolt_db.readable mem_raw mem_wf PodNetwork_codec ''b'' demo_pair"
  by (auto simp: mem.readable_def mem_wf_def mem_raw_def demo_pair_def ran_def decodeValue_def
      PodNetwork_codec_def unmarshal_marshal_PodNetwork split: if_splits)

theorem Bolt_Pop_drains_witness:
  "\<exists>kvs. map_of kvs = bolt_db.contents mem_raw PodNetwork_codec ''b'' demo_pair \<and> length kvs = 1"
proof -
  let ?A = "mem_api []" and ?d1 = "[(''b'', []), (''c'', [])] :: mem"
  have p1: "Bolt_Pop ?A PodNetwork_codec ''b'' demo_pair = (Inr (''x'', PodNetwork_zero), ?d1)"
    by (simp add: Bolt_Pop_def Bolt_Delete_def mem_api_def mem_read_def mem_delete_def entry_del_def
        demo_pair_def decodeValue_def PodNetwork_codec_def unmarshal_marshal_PodNetwork)
  have p2: "Bolt_Pop ?A PodNetwork_codec ''b'' ?d1 = (Inl ErrEOF, ?d1)"
    by (simp add: Bolt_Pop_def mem_api_def mem_read_def)
  have "database.pops (Bolt_Pop ?A PodNetwork_codec ''b'') demo_pair [(''x'', PodNetwork_zero)] ?d1"
    by (rule mem_pn.pops_cons [OF p1 mem_pn.pops_nil])
  from Bolt_Pop_drains [OF mem.bolt_db_axioms PodNetwork_codec_ok demo_pair_readable this p2]
  have "map_of [(''x'', PodNetwork_zero)] = bolt_db.contents mem_raw PodNetwork_codec ''b'' demo_pair"
    by simp
  moreover have "length [(''x'', PodNetwork_zero)] = 1" by simp
  ultimately show ?thesis by blast
qed

lemma Bolt_Put_Get_witness:
  "fst (Bolt_Put (mem_api []) PodNetwork_codec ''b'' ''y'' PodNetwork_zero demo_pair) = None \<and>
    bolt_db.contents mem_raw PodNetwork_codec ''b''
      (snd (Bolt_Put (mem_api []) PodNetwork_codec ''b'' ''y'' PodNetwork_zero demo_pair)) ''y'' = Some PodNetwork_zero"
proof -
  let ?p = "Bolt_Put (mem_api []) PodNetwork_codec ''b'' ''y'' PodNetwork_zero demo_pair"
  have r: "fst ?p = None" by (simp add: Bolt_Put_def mem_api_def mem_put_def demo_pair_def)
  have "?p = (fst ?p, snd ?p)" by (rule surjective_pairing)
  from Bolt_Put_Get [OF mem.bolt_db_axioms PodNetwork_codec_ok demo_pair_readable this] r
  show ?thesis by simp
qed

text \<open>The records in the database survive being written and read.

  The JSON form of every pod network and of every cooldown item, empty members omitted, decodes
  to the value it came from.\<close>

lemma stored_values_roundtrip:
  "decodeValue PodNetwork_codec (Doc (marshal PodNetwork_codec pn)) = Inr pn \<and>
    decodeValue CooldownItem_codec (Doc (marshal CooldownItem_codec cd)) = Inr cd"
  by (simp add: decodeValue_def PodNetwork_codec_def CooldownItem_codec_def
      unmarshal_marshal_PodNetwork unmarshal_marshal_CooldownItem)

text \<open>The key of a pod record tells the sandbox.

  Two records share a key \<open>PodKey\<close> only if their sandboxes agree, as far as sandbox identifiers
  contain no hyphen; and with equal namespaces the pods agree too. Without that the key is
  ambiguous: pod \<open>a-b\<close> of namespace \<open>c\<close> and pod \<open>a\<close> of namespace \<open>b-c\<close> share it.\<close>

theorem PodKey_sandbox:
  assumes "CHR ''-'' \<notin> set sb1" and "CHR ''-'' \<notin> set sb2" and "PodKey p1 ns1 sb1 = PodKey p2 ns2 sb2"
  shows "sb1 = sb2 \<and> (ns1 = ns2 \<longrightarrow> p1 = p2) \<and> PodKey ''a-b'' ''c'' sb1 = PodKey ''a'' ''b-c'' sb1"
proof -
  have l: "rev sb = takeWhile (\<lambda>c. c \<noteq> CHR ''-'') (rev (PodKey p ns sb))" if "CHR ''-'' \<notin> set sb" for p ns sb
    proof -
    have "\<forall>x \<in> set (rev sb). x \<noteq> CHR ''-''" using that by auto
    then have "takeWhile (\<lambda>c. c \<noteq> CHR ''-'') (rev sb @ CHR ''-'' # rev ns @ CHR ''-'' # rev p) = rev sb"
      by (subst takeWhile_append2) auto
    then show ?thesis by (simp add: PodKey_def)
  qed
  from l [OF assms(1)] l [OF assms(2)] assms(3) have "rev sb1 = rev sb2" by metis
  then have "sb1 = sb2" by simp
  with assms(3) show ?thesis by (auto simp: PodKey_def)
qed

theorem PodKey_sandbox_witness: "PodKey ''a-b'' ''c'' ''f0'' = PodKey ''a'' ''b-c'' ''f0''"
  using PodKey_sandbox [of "''f0''" "''f0''" "''p''" "''n''" "''p''" "''n''"] by simp

end
