(* ===== verification/Cloud.thy ===== *)
theory Cloud
  imports Rpc_Types
begin

text \<open>
  The services outside the repository that the cloud-facing code calls: the metadata server,
  the security token service and the UCloud SDK (VPC, UHost, UK8S). Each call is a field of
  the record \<open>cloud_api\<close>, a function from its arguments and the outside world \<open>'w\<close> to its answer
  and the world after it; every definition that makes a call takes the record as argument.
  The SDK returns a response object also beside an error, so a response code can be read in
  both cases.
\<close>

record MDNetworkInterface =
  mi_Id :: string
  mi_Mac :: string
  mi_SubnetId :: string
  mi_VpcId :: string
  mi_Default :: bool

record MDHost =
  mh_ProjectId :: string
  mh_NetworkInterfaces :: "MDNetworkInterface list"

record Metadata =
  md_InstanceId :: string
  md_Region :: string
  md_AvailabilityZone :: string
  md_UHost :: MDHost
  md_UPHost :: MDHost

record UHostIPSet =
  us_NetworkInterfaceId :: string
  us_Default :: string

record UHostInstance =
  uh_IPSet :: "UHostIPSet list"
  uh_NetFeatureTag :: string

record Config =
  cf_Region :: string
  cf_ProjectId :: string
  cf_UserAgent :: string
  cf_Zone :: string
  cf_BaseUrl :: string

record Credential =
  cr_PublicKey :: string
  cr_PrivateKey :: string

text \<open>A client of any of the services: its configuration and its credential.\<close>

type_synonym client = "Config \<times> Credential"

record IpInfo =
  ii_Ip :: string
  ii_VPCId :: string
  ii_SubnetId :: string
  ii_Mask :: string
  ii_Mac :: string
  ii_Gateway :: string

definition IpInfo_zero :: IpInfo where
  "IpInfo_zero = \<lparr>ii_Ip = [], ii_VPCId = [], ii_SubnetId = [], ii_Mask = [], ii_Mac = [], ii_Gateway = []\<rparr>"

record AllocateRequest =
  al_Mac :: string
  al_Ip :: "string option"
  al_ObjectId :: string
  al_Zone :: string
  al_VPCId :: string
  al_SubnetId :: string

record AllocateResponse =
  alr_RetCode :: int
  alr_IpInfo :: IpInfo

record DescribeRequest =
  de_Ip :: string
  de_Mac :: "string option"
  de_Zone :: "string option"
  de_VPCId :: string
  de_SubnetId :: string

record MoveRequest =
  mv_Ip :: string
  mv_NewMac :: string
  mv_OldMac :: string
  mv_SubnetId :: string

record DeleteRequest =
  dl_Zone :: "string option"
  dl_Mac :: string
  dl_Ip :: string
  dl_ObjectId :: "string option"
  dl_VPCId :: string
  dl_SubnetId :: string

text \<open>An elastic network interface as \<open>DescribeNetworkInterface\<close> and \<open>CreateNetworkInterface\<close> show it.\<close>

record NetworkInterface =
  ni_InterfaceId :: string
  ni_SubnetId :: string
  ni_MacAddress :: string
  ni_Gateway :: string
  ni_Netmask :: string
  ni_PrivateIpSet :: "string list"
  ni_AttachInstanceId :: string

record CreateUNIRequest =
  cu_VPCId :: string
  cu_SubnetId :: string
  cu_PrioritySecGroup :: "(nat \<times> string) list"
  cu_SecurityMode :: "int option"

record 'w cloud_api =
  GetInstanceIdentityDocument :: "'w \<Rightarrow> Metadata result \<times> 'w"
  LoadSTSConfigV2 :: "string \<Rightarrow> 'w \<Rightarrow> Credential result \<times> 'w"
  Getenv :: "string \<Rightarrow> string"
  DescribeUHostInstance :: "client \<Rightarrow> string list \<Rightarrow> 'w \<Rightarrow> UHostInstance list result \<times> 'w"
  DescribeSubnet :: "client \<Rightarrow> string \<Rightarrow> string \<Rightarrow> 'w \<Rightarrow> int list result \<times> 'w"
  AllocateSecondaryIp :: "client \<Rightarrow> AllocateRequest \<Rightarrow> 'w \<Rightarrow> (AllocateResponse \<times> gerror option) \<times> 'w"
  DescribeSecondaryIp :: "client \<Rightarrow> DescribeRequest \<Rightarrow> 'w \<Rightarrow> IpInfo list result \<times> 'w"
  MoveSecondaryIPMac :: "client \<Rightarrow> MoveRequest \<Rightarrow> 'w \<Rightarrow> gerror option \<times> 'w"
  DeleteSecondaryIp :: "client \<Rightarrow> DeleteRequest \<Rightarrow> 'w \<Rightarrow> (int \<times> gerror option) \<times> 'w"
  CreateNetworkInterface :: "client \<Rightarrow> CreateUNIRequest \<Rightarrow> 'w \<Rightarrow> (int \<times> NetworkInterface) result \<times> 'w"
  DeleteNetworkInterface :: "client \<Rightarrow> string \<Rightarrow> 'w \<Rightarrow> (int \<times> gerror option) \<times> 'w"
  AttachNetworkInterface :: "client \<Rightarrow> string \<Rightarrow> string \<Rightarrow> 'w \<Rightarrow> int result \<times> 'w"
  DescribeNetworkInterface :: "client \<Rightarrow> string \<Rightarrow> 'w \<Rightarrow> (int \<times> NetworkInterface list) result \<times> 'w"
  TimeNow :: "'w \<Rightarrow> int64 \<times> 'w" \<comment> \<open>\<open>time.Now().Unix()\<close>\<close>
  FormatNow :: "'w \<Rightarrow> string \<times> 'w" \<comment> \<open>\<open>time.Now().Format("2006-01-02 15:04:05")\<close>\<close>

text \<open>
  A cloud in which every call fails and nothing changes: the starting point from which the
  examples build the answers they need.
\<close>

definition cloud_down :: "'w cloud_api" where
  "cloud_down = \<lparr>GetInstanceIdentityDocument = (\<lambda>w. (Inl (Ext 0), w)),
     LoadSTSConfigV2 = (\<lambda>_ w. (Inl (Ext 0), w)), Getenv = (\<lambda>_. []),
     DescribeUHostInstance = (\<lambda>_ _ w. (Inl (Ext 0), w)),
     DescribeSubnet = (\<lambda>_ _ _ w. (Inl (Ext 0), w)),
     AllocateSecondaryIp = (\<lambda>_ _ w. ((\<lparr>alr_RetCode = 1, alr_IpInfo = IpInfo_zero\<rparr>, Some (Ext 0)), w)),
     DescribeSecondaryIp = (\<lambda>_ _ w. (Inl (Ext 0), w)),
     MoveSecondaryIPMac = (\<lambda>_ _ w. (Some (Ext 0), w)),
     DeleteSecondaryIp = (\<lambda>_ _ w. ((1, Some (Ext 0)), w)),
     CreateNetworkInterface = (\<lambda>_ _ w. (Inl (Ext 0), w)),
     DeleteNetworkInterface = (\<lambda>_ _ w. ((1, Some (Ext 0)), w)),
     AttachNetworkInterface = (\<lambda>_ _ _ w. (Inl (Ext 0), w)),
     DescribeNetworkInterface = (\<lambda>_ _ w. (Inl (Ext 0), w)),
     TimeNow = (\<lambda>w. (0, w)), FormatNow = (\<lambda>w. ([], w))\<rparr>"

end
