(* ===== verification/Uapi.thy ===== *)
theory Uapi
  imports Cloud
begin

text \<open>
  \<open>pkg/uapi\<close> and the node address helpers of \<open>pkg/iputils\<close>: the once-loaded instance
  metadata, the API client and its credential, the abilities of the instance, the object
  identifier for secondary addresses, and the choice of the master interface.

  Metadata is loaded through a \<open>sync.Once\<close>, so the process keeps whether the load ran and what
  it stored: the record \<open>proc\<close>. A function that may dereference the \<open>nil\<close> metadata pointer
  returns an option, \<open>None\<close> being the run-time panic.
\<close>

section \<open>meta.go: the metadata singleton\<close>

record 'w proc =
  metaOnce :: bool \<comment> \<open>the \<open>sync.Once\<close> has run\<close>
  meta :: "Metadata option" \<comment> \<open>the package variable, \<open>None\<close> is \<open>nil\<close>\<close>
  world :: 'w

definition GetMeta :: "'w cloud_api \<Rightarrow> 'w proc \<Rightarrow> (Metadata option \<times> gerror option) \<times> 'w proc" where
  "GetMeta K p =
     (if metaOnce p then ((meta p, None), p)
      else case GetInstanceIdentityDocument K (world p) of
        (Inl e, w1) \<Rightarrow> ((meta p, Some e), p\<lparr>metaOnce := True, world := w1\<rparr>)
      | (Inr md, w1) \<Rightarrow> ((Some md, None), p\<lparr>metaOnce := True, meta := Some md, world := w1\<rparr>))"

definition ReloadMeta :: "'w cloud_api \<Rightarrow> 'w proc \<Rightarrow> (Metadata option \<times> gerror option) \<times> 'w proc" where
  "ReloadMeta K p =
     (case GetInstanceIdentityDocument K (world p) of
        (Inl e, w1) \<Rightarrow> ((None, Some e), p\<lparr>world := w1\<rparr>)
      | (Inr md, w1) \<Rightarrow> ((Some md, None), p\<lparr>meta := Some md, world := w1\<rparr>))"

datatype InstanceType = Cube | UHost | UPHost | UDocker | UDHost | UNI | Unknown

definition instanceType :: "string \<Rightarrow> InstanceType" where
  "instanceType resource =
     (if HasPrefix resource ''uhost-'' then UHost
      else if HasPrefix resource ''upm-'' then UPHost
      else if HasPrefix resource ''docker-'' then UDocker
      else if HasPrefix resource ''udhost-'' then UDHost
      else if HasPrefix resource ''uni-'' then UNI
      else if HasPrefix resource ''cube-'' then Cube
      else Unknown)"

section \<open>client.go\<close>

definition uApiDefaultEndpoint :: string where
  "uApiDefaultEndpoint = ''http://api.service.ucloud.cn''"

definition characterName :: string where
  "characterName = ''ServiceRoleForUK8S''"

record ApiClient =
  ac_instanceId :: string
  ac_zoneId :: string
  ac_vpcId :: string
  ac_subnetId :: string
  ac_cfg :: Config

definition CreateCredential :: "'w cloud_api \<Rightarrow> 'w \<Rightarrow> Credential result \<times> 'w" where
  "CreateCredential K w =
     (case LoadSTSConfigV2 K characterName w of
        (Inl e, w1) \<Rightarrow>
          (let pub = Getenv K ''UCLOUD_API_PUBKEY''; pri = Getenv K ''UCLOUD_API_PRIKEY''
           in if pub = [] \<or> pri = []
              then (Inl (Errorf ''cannot get uapi credential, sts call failed, %v and env UCLOUD_API_PUB/PRI/KEY empty'' (Some e)), w1)
              else (Inr \<lparr>cr_PublicKey = pub, cr_PrivateKey = pri\<rparr>, w1))
      | (Inr c, w1) \<Rightarrow> (Inr c, w1))"

text \<open>\<open>VPCClient\<close>, \<open>UNetClient\<close>, \<open>UK8SClient\<close> and \<open>UHostClient\<close> differ in the SDK type only.\<close>

definition service_client :: "'w cloud_api \<Rightarrow> ApiClient \<Rightarrow> 'w \<Rightarrow> client result \<times> 'w" where
  "service_client K c w =
     (case CreateCredential K w of
        (Inl e, w1) \<Rightarrow> (Inl e, w1)
      | (Inr cre, w1) \<Rightarrow> (Inr (ac_cfg c, cre), w1))"

text \<open>\<open>NewClient\<close> after the metadata has been read.\<close>

definition client_of_meta :: "(string \<Rightarrow> string) \<Rightarrow> string \<Rightarrow> Metadata \<Rightarrow> ApiClient" where
  "client_of_meta env cniVersion m =
     (let pid = (if HasPrefix (md_InstanceId m) ''uhost'' then mh_ProjectId (md_UHost m)
                 else if HasPrefix (md_InstanceId m) ''upm'' then mh_ProjectId (md_UPHost m)
                 else []);
          pid' = (if pid = [] then env ''UCLOUD_PROJECT_ID'' else pid);
          url = (if env ''UCLOUD_API_ENDPOINT'' \<noteq> [] then env ''UCLOUD_API_ENDPOINT'' else uApiDefaultEndpoint);
          def = List.find mi_Default (mh_NetworkInterfaces (md_UHost m));
          vpc = (case def of None \<Rightarrow> [] | Some i \<Rightarrow> mi_VpcId i);
          sub = (case def of None \<Rightarrow> [] | Some i \<Rightarrow> mi_SubnetId i)
      in \<lparr>ac_instanceId = md_InstanceId m, ac_zoneId = md_AvailabilityZone m,
          ac_vpcId = (if vpc = [] \<or> sub = [] then env ''UCLOUD_VPC_ID'' else vpc),
          ac_subnetId = (if vpc = [] \<or> sub = [] then env ''UCLOUD_SUBNET_ID'' else sub),
          ac_cfg = \<lparr>cf_Region = md_Region m, cf_ProjectId = pid', cf_UserAgent = cniVersion,
                    cf_Zone = [], cf_BaseUrl = url\<rparr>\<rparr>)"

definition NewClient :: "'w cloud_api \<Rightarrow> string \<Rightarrow> 'w proc \<Rightarrow> ApiClient result option \<times> 'w proc" where
  "NewClient K cniVersion p =
     (case GetMeta K p of
        ((_, Some e), p1) \<Rightarrow> (Some (Inl (Errorf ''cannot get uapi metadata information, %v'' (Some e))), p1)
      | ((None, None), p1) \<Rightarrow> (None, p1)
      | ((Some m, None), p1) \<Rightarrow> (Some (Inr (client_of_meta (Getenv K) cniVersion m)), p1))"

definition LocalRegion :: "'w cloud_api \<Rightarrow> 'w proc \<Rightarrow> string option \<times> 'w proc" where
  "LocalRegion K p =
     (case GetMeta K p of
        ((m, Some e), p1) \<Rightarrow> (map_option md_Region m, p1)
      | ((m, None), p1) \<Rightarrow> (Some (Getenv K ''UCLOUD_REGION_ID''), p1))"

text \<open>A process whose metadata is loaded.\<close>

definition loaded :: "Metadata \<Rightarrow> 'w proc \<Rightarrow> bool" where
  "loaded m p \<longleftrightarrow> metaOnce p \<and> meta p = Some m"

lemma GetMeta_loaded: "loaded m p \<Longrightarrow> GetMeta K p = ((Some m, None), p)"
  by (simp add: loaded_def GetMeta_def)

lemma NewClient_loaded:
  "loaded m p \<Longrightarrow> NewClient K v p = (Some (Inr (client_of_meta (Getenv K) v m)), p)"
  by (simp add: NewClient_def GetMeta_loaded)

lemma GetMeta_once: "GetMeta K p = (r, p') \<Longrightarrow> metaOnce p'"
  by (auto simp: GetMeta_def split: if_splits prod.splits sum.splits)

lemma GetMeta_first_ok:
  "\<not> metaOnce p \<Longrightarrow> GetMeta K p = ((Some m, None), p') \<Longrightarrow> loaded m p'"
  by (auto simp: GetMeta_def loaded_def split: prod.splits sum.splits)

section \<open>ability.go\<close>

record Ability =
  ab_InstanceID :: string
  ab_SupportUNI :: bool
  ab_SecGroup :: bool

definition GetAbility :: "'w cloud_api \<Rightarrow> string \<Rightarrow> 'w proc \<Rightarrow> Ability result option \<times> 'w proc" where
  "GetAbility K v p =
     (case NewClient K v p of
        (None, p1) \<Rightarrow> (None, p1)
      | (Some (Inl e), p1) \<Rightarrow> (Some (Inl e), p1)
      | (Some (Inr c), p1) \<Rightarrow>
          (if \<not> HasPrefix (ac_instanceId c) ''uhost-''
           then (Some (Inr \<lparr>ab_InstanceID = ac_instanceId c, ab_SupportUNI = False, ab_SecGroup = False\<rparr>), p1)
           else case service_client K c (world p1) of
             (Inl e, w2) \<Rightarrow> (Some (Inl e), p1\<lparr>world := w2\<rparr>)
           | (Inr cli, w2) \<Rightarrow>
               (case DescribeUHostInstance K cli [ac_instanceId c] w2 of
                  (Inl e, w3) \<Rightarrow> (Some (Inl (Errorf ''failed to call DescribeUHostInstance: %v'' (Some e))), p1\<lparr>world := w3\<rparr>)
                | (Inr [], w3) \<Rightarrow> (Some (Inl (Errors_New ''cannot find uhost %s'')), p1\<lparr>world := w3\<rparr>)
                | (Inr (h # _), w3) \<Rightarrow>
                    (Some (Inr \<lparr>ab_InstanceID = ac_instanceId c,
                        ab_SupportUNI = (\<exists>i \<in> set (uh_IPSet h). HasPrefix (us_NetworkInterfaceId i) ''uni-''),
                        ab_SecGroup = EqualFold (uh_NetFeatureTag h) ''SecGroup''\<rparr>), p1\<lparr>world := w3\<rparr>))))"

section \<open>meta.go: the object a secondary address belongs to\<close>

text \<open>\<open>GetObjectIDForSecondaryIP\<close> after its client has been made.\<close>

definition object_id_of_client :: "'w cloud_api \<Rightarrow> ApiClient \<Rightarrow> 'w \<Rightarrow> string result \<times> 'w" where
  "object_id_of_client K c w =
     (let instanceId = ac_instanceId c in
      if instanceType instanceId \<noteq> UHost then (Inr instanceId, w)
      else case service_client K c w of
        (Inl e, w1) \<Rightarrow> (Inl e, w1)
      | (Inr cli, w1) \<Rightarrow>
          (case DescribeUHostInstance K cli [instanceId] w1 of
             (Inl e, w2) \<Rightarrow> (Inr instanceId, w2)
           | (Inr [], w2) \<Rightarrow> (Inr instanceId, w2)
           | (Inr (h # _), w2) \<Rightarrow>
               (case List.find (\<lambda>i. us_Default i = ''true'' \<and> us_NetworkInterfaceId i \<noteq> []) (uh_IPSet h) of
                  Some i \<Rightarrow> (Inr (us_NetworkInterfaceId i), w2)
                | None \<Rightarrow> (Inr instanceId, w2))))"

definition GetObjectIDForSecondaryIP ::
  "'w cloud_api \<Rightarrow> string \<Rightarrow> 'w proc \<Rightarrow> string result option \<times> 'w proc" where
  "GetObjectIDForSecondaryIP K v p =
     (case NewClient K v p of
        (None, p1) \<Rightarrow> (None, p1)
      | (Some (Inl e), p1) \<Rightarrow> (Some (Inl e), p1)
      | (Some (Inr c), p1) \<Rightarrow>
          (case object_id_of_client K c (world p1) of (r, w2) \<Rightarrow> (Some r, p1\<lparr>world := w2\<rparr>)))"

lemma GetObjectIDForSecondaryIP_loaded:
  "loaded m p \<Longrightarrow> GetObjectIDForSecondaryIP K v p =
    (case object_id_of_client K (client_of_meta (Getenv K) v m) (world p) of
       (r, w2) \<Rightarrow> (Some r, p\<lparr>world := w2\<rparr>))"
  by (simp add: GetObjectIDForSecondaryIP_def NewClient_loaded)

text \<open>
  The answer is never empty when the instance has an identifier, and it is an interface only
  on a UHost.
\<close>

lemma object_id_of_client_result:
  assumes "object_id_of_client K c w = (Inr oid, w')"
  shows "oid = ac_instanceId c \<or> (instanceType (ac_instanceId c) = UHost \<and> oid \<noteq> [])"
  using assms
  by (auto simp: object_id_of_client_def Let_def
      split: if_splits prod.splits sum.splits list.splits option.splits dest!: find_Some_set)

section \<open>meta.go: the interfaces known to the metadata server\<close>

text \<open>A local interface as \<open>net.Interfaces\<close> lists it: name and hardware address.\<close>

type_synonym iface = "string \<times> string"

definition iface_map :: "MDNetworkInterface list \<Rightarrow> string \<rightharpoonup> MDNetworkInterface" where
  "iface_map infos = fold (\<lambda>i m. m(ToUpper (mi_Mac i) \<mapsto> i)) infos Map.empty"

definition GetNetworkInterfaces ::
  "iface list result \<Rightarrow> Metadata result \<Rightarrow> (MDNetworkInterface \<times> string) list result" where
  "GetNetworkInterfaces ifaces md =
     (case ifaces of
        Inl e \<Rightarrow> Inl e
      | Inr ifs \<Rightarrow>
          (case md of
             Inl e \<Rightarrow> Inl e
           | Inr m \<Rightarrow>
               (let ub = mh_NetworkInterfaces (md_UHost m); up = mh_NetworkInterfaces (md_UPHost m);
                    infos = (if ub \<noteq> [] then ub else up)
                in if ub = [] \<and> up = [] then Inl (Errors_New ''unsupported instance type: %s'')
                   else Inr (List.map_filter (\<lambda>(name, hw).
                          map_option (\<lambda>i. (i, name)) (iface_map infos (ToUpper hw))) ifs))))"

section \<open>pkg/iputils/addr.go\<close>

definition UHostMasterInterface :: string where
  "UHostMasterInterface = ''eth0''"

definition UPHostMasterInterface :: string where
  "UPHostMasterInterface = ''eth2''"

text \<open>
  \<open>GetMasterInterface\<close>, given the interfaces of the machine and what \<open>GetMeta\<close> returned;
  \<open>None\<close> is the panic on a \<open>nil\<close> metadata pointer that came without an error.
\<close>

definition GetMasterInterface :: "iface list result \<Rightarrow> Metadata option \<times> gerror option \<Rightarrow> string option" where
  "GetMasterInterface ifaces mr =
     (case ifaces of
        Inl e \<Rightarrow> Some UHostMasterInterface
      | Inr list \<Rightarrow>
          (case mr of
             (_, Some e) \<Rightarrow> Some UHostMasterInterface
           | (None, None) \<Rightarrow> None
           | (Some m, None) \<Rightarrow>
               (case mh_NetworkInterfaces (md_UPHost m) of
                  [] \<Rightarrow> Some UHostMasterInterface
                | i # _ \<Rightarrow>
                    if HasPrefix (md_InstanceId m) ''upm''
                    then (case List.find (\<lambda>(name, hw). hw = ToLower (mi_Mac i)) list of
                            Some (name, hw) \<Rightarrow> Some name
                          | None \<Rightarrow> Some UPHostMasterInterface)
                    else Some UHostMasterInterface)))"

definition GetLinkByMac :: "iface list result \<Rightarrow> string \<Rightarrow> iface result" where
  "GetLinkByMac links mac =
     (case links of
        Inl e \<Rightarrow> Inl e
      | Inr ls \<Rightarrow>
          (case List.find (\<lambda>(name, hw). EqualFold hw mac) ls of
             Some l \<Rightarrow> Inr l
           | None \<Rightarrow> Inl (Errors_New ''cannot find interface of mac %s'')))"

text \<open>
  \<open>GetNodeIPAddress\<close> and \<open>GetNodeMacAddress\<close> for a device name already resolved; \<open>links\<close> maps
  a device to its hardware address and its IPv4 addresses.
\<close>

type_synonym netlink_view = "string \<Rightarrow> (string \<times> string list result) result"

definition GetNodeIPAddress :: "netlink_view \<Rightarrow> string \<Rightarrow> string \<Rightarrow> string result" where
  "GetNodeIPAddress nl master dev =
     (let dev' = (if dev = [] then master else dev) in
      case nl dev' of
        Inl e \<Rightarrow> Inl (Errorf ''failed to lookup %s: %v'' (Some e))
      | Inr (hw, addrs) \<Rightarrow>
          (case addrs of
             Inl e \<Rightarrow> Inl (Errorf ''failed to get host ip addresses for %q: %v'' (Some e))
           | Inr [] \<Rightarrow> Inl (Errors_New ''host ip addresses empty'')
           | Inr (a # _) \<Rightarrow> Inr a))"

definition GetNodeMacAddress :: "netlink_view \<Rightarrow> string \<Rightarrow> string \<Rightarrow> string result" where
  "GetNodeMacAddress nl master dev =
     (let dev' = (if dev = [] then master else dev) in
      case nl dev' of
        Inl e \<Rightarrow> Inl e
      | Inr (hw, addrs) \<Rightarrow> Inr (ToUpper hw))"

definition GetNodeAddress :: "netlink_view \<Rightarrow> string \<Rightarrow> string \<Rightarrow> (string \<times> string) result" where
  "GetNodeAddress nl master dev =
     (let dev' = (if dev = [] then master else dev) in
      case nl dev' of
        Inl e \<Rightarrow> Inl e
      | Inr (hw, _) \<Rightarrow>
          (case GetNodeIPAddress nl master dev' of
             Inl e \<Rightarrow> Inl e
           | Inr ip \<Rightarrow> Inr (ip, ToUpper hw)))"

lemma GetLinkByMac_found: "GetLinkByMac links mac = Inr (n, hw) \<Longrightarrow> EqualFold hw mac"
  by (auto simp: GetLinkByMac_def split: sum.splits option.splits dest!: find_Some_set)

end
