(* ===== verification/Net_IP.thy ===== *)
theory Net_IP
  imports Go_Strings
begin

text \<open>
  The part of Go's package \<open>net\<close> that the repository calls: addresses are byte slices, of four
  bytes or of sixteen; \<open>ParseIP\<close> reads both textual forms and \<open>String\<close> writes them.
\<close>

section \<open>Addresses\<close>

text \<open>\<open>net.IP.To4\<close>: the four bytes of an IPv4 or IPv4-mapped address, else \<open>nil\<close>.\<close>

definition To4 :: "byte list \<Rightarrow> byte list option" where
  "To4 ip =
     (if length ip = 4 then Some ip
      else if length ip = 16 \<and> take 12 ip = replicate 10 0 @ [255, 255] then Some (drop 12 ip)
      else None)"

text \<open>The bytes a slice that may be \<open>nil\<close> holds.\<close>

definition slice :: "byte list option \<Rightarrow> byte list" where
  "slice s = (case s of None \<Rightarrow> [] | Some b \<Rightarrow> b)"

definition IPv4 :: "byte list \<Rightarrow> byte list" where
  "IPv4 b = replicate 10 0 @ [255, 255] @ b"

lemma To4_IPv4 [simp]: "length b = 4 \<Longrightarrow> To4 (IPv4 b) = Some b"
  by (simp add: To4_def IPv4_def numeral_eq_Suc)

lemma To4_length: "To4 ip = Some b \<Longrightarrow> length b = 4"
  by (auto simp: To4_def split: if_splits)

definition IsUnspecified :: "byte list \<Rightarrow> bool" where
  "IsUnspecified ip \<longleftrightarrow> ip = IPv4 [0, 0, 0, 0] \<or> ip = [0, 0, 0, 0] \<or> ip = replicate 16 0"

section \<open>Writing\<close>

definition hex_char :: "nat \<Rightarrow> char" where
  "hex_char d = (if d < 10 then char_of (48 + d) else char_of (87 + d))"

fun nat_hex :: "nat \<Rightarrow> string" where
  "nat_hex n = (if n < 16 then [hex_char n] else nat_hex (n div 16) @ [hex_char (n mod 16)])"

declare nat_hex.simps [simp del]

definition dotted :: "byte list \<Rightarrow> string" where
  "dotted b = Join (map (\<lambda>x. nat_digits (unat x)) b) ''.''"

fun ip_groups :: "byte list \<Rightarrow> nat list" where
  "ip_groups (a # b # rest) = (unat a * 256 + unat b) # ip_groups rest"
| "ip_groups _ = []"

text \<open>The first longest run of zero groups, as start and length.\<close>

fun zero_run :: "nat list \<Rightarrow> nat" where
  "zero_run (0 # gs) = Suc (zero_run gs)"
| "zero_run _ = 0"

fun longest_run :: "nat \<Rightarrow> nat list \<Rightarrow> nat \<times> nat" where
  "longest_run i [] = (i, 0)"
| "longest_run i (g # gs) =
     (case longest_run (Suc i) gs of (j, n) \<Rightarrow> if n \<le> zero_run (g # gs) then (i, zero_run (g # gs)) else (j, n))"

definition colons :: "nat list \<Rightarrow> string" where
  "colons gs = Join (map nat_hex gs) '':''"

definition ip6_String :: "byte list \<Rightarrow> string" where
  "ip6_String ip =
     (let gs = ip_groups ip in
      case longest_run 0 gs of (i, n) \<Rightarrow>
        if n < 2 then colons gs else colons (take i gs) @ ''::'' @ colons (drop (i + n) gs))"

definition hex_byte :: "byte \<Rightarrow> string" where
  "hex_byte b = [hex_char (unat b div 16), hex_char (unat b mod 16)]"

definition IP_String :: "byte list \<Rightarrow> string" where
  "IP_String ip =
     (if ip = [] then ''<nil>''
      else if length ip \<noteq> 4 \<and> length ip \<noteq> 16 then ''?'' @ concat (map hex_byte ip)
      else case To4 ip of Some b \<Rightarrow> dotted b | None \<Rightarrow> ip6_String ip)"

section \<open>Reading\<close>

text \<open>A field of a dotted address: one to three digits, no leading zero, at most 255.\<close>

definition parse_octet :: "string \<Rightarrow> byte option" where
  "parse_octet s =
     (if s = [] \<or> length s > 3 \<or> \<not> list_all is_digit s \<or> (length s > 1 \<and> hd s = CHR ''0'')
         \<or> digits_val s > 255 then None
      else Some (of_nat (digits_val s)))"

fun sequence :: "'a option list \<Rightarrow> 'a list option" where
  "sequence [] = Some []"
| "sequence (None # xs) = None"
| "sequence (Some x # xs) = map_option ((#) x) (sequence xs)"

definition parse_v4 :: "string \<Rightarrow> byte list option" where
  "parse_v4 s =
     (let fs = Split s (CHR ''.'') in if length fs = 4 then sequence (map parse_octet fs) else None)"

definition hex_val :: "char \<Rightarrow> nat option" where
  "hex_val c = (let n = of_char c in
     if is_digit c then Some (n - 48)
     else if 97 \<le> n \<and> n \<le> 102 then Some (n - 87)
     else if 65 \<le> n \<and> n \<le> 70 then Some (n - 55) else None)"

definition hex_digits_val :: "nat list \<Rightarrow> nat" where
  "hex_digits_val ds = foldl (\<lambda>n d. n * 16 + d) 0 ds"

definition parse_group :: "string \<Rightarrow> byte list option" where
  "parse_group s =
     (if s = [] \<or> length s > 4 then None
      else map_option (\<lambda>ds. let n = hex_digits_val ds in [of_nat (n div 256), of_nat (n mod 256)])
             (sequence (map hex_val s)))"

text \<open>Groups between colons; the last one of the whole address may be dotted.\<close>

fun parse_groups :: "bool \<Rightarrow> string list \<Rightarrow> byte list option" where
  "parse_groups final [] = Some []"
| "parse_groups final [s] =
     (if final \<and> CHR ''.'' \<in> set s then parse_v4 s else parse_group s)"
| "parse_groups final (s # t # ss) =
     (case (parse_group s, parse_groups final (t # ss)) of (Some b, Some bs) \<Rightarrow> Some (b @ bs) | _ \<Rightarrow> None)"

fun cut_ellipsis :: "string \<Rightarrow> (string \<times> string) option" where
  "cut_ellipsis (c # d # s) =
     (if c = CHR '':'' \<and> d = CHR '':'' then Some ([], s)
      else map_option (\<lambda>(l, r). (c # l, r)) (cut_ellipsis (d # s)))"
| "cut_ellipsis _ = None"

definition side :: "bool \<Rightarrow> string \<Rightarrow> byte list option" where
  "side final s = (if s = [] then Some [] else parse_groups final (Split s (CHR '':'')))"

definition parse_v6 :: "string \<Rightarrow> byte list option" where
  "parse_v6 s =
     (case cut_ellipsis s of
        None \<Rightarrow> (case side True s of Some b \<Rightarrow> if length b = 16 then Some b else None | None \<Rightarrow> None)
      | Some (l, r) \<Rightarrow>
          (case (side False l, side True r) of
             (Some a, Some b) \<Rightarrow>
               if length a + length b \<le> 14 then Some (a @ replicate (16 - length a - length b) 0 @ b) else None
           | _ \<Rightarrow> None))"

text \<open>\<open>net.ParseIP\<close> decides by the first dot or colon; the result has sixteen bytes.\<close>

definition ParseIP :: "string \<Rightarrow> byte list option" where
  "ParseIP s =
     (case find (\<lambda>c. c = CHR ''.'' \<or> c = CHR '':'') s of
        None \<Rightarrow> None
      | Some c \<Rightarrow> if c = CHR ''.'' then map_option IPv4 (parse_v4 s) else parse_v6 s)"

section \<open>Networks\<close>

record IPNet =
  net_IP :: "byte list"
  net_Mask :: "byte list"

definition byte_ones :: "byte \<Rightarrow> nat" where
  "byte_ones b = length (takeWhile (\<lambda>i. bit b i) [7, 6, 5, 4, 3, 2, 1, 0])"

fun leading_ones :: "byte list \<Rightarrow> nat" where
  "leading_ones [] = 0"
| "leading_ones (b # bs) = (if b = 255 then 8 + leading_ones bs else byte_ones b)"

definition ones_mask :: "nat \<Rightarrow> nat \<Rightarrow> byte list" where
  "ones_mask n len = map (\<lambda>i. of_nat (256 - 2 ^ (8 - min 8 (n - 8 * i)))) [0..<len]"

text \<open>\<open>IPMask.Size\<close>: the ones of a canonical mask, \<open>(0, 0)\<close> of another.\<close>

definition IPMask_Size :: "byte list \<Rightarrow> nat \<times> nat" where
  "IPMask_Size m = (if m = ones_mask (leading_ones m) (length m) then (leading_ones m, 8 * length m) else (0, 0))"

text \<open>\<open>IPNet.String\<close> of a network with a canonical mask.\<close>

definition IPNet_String :: "IPNet \<Rightarrow> string" where
  "IPNet_String n = IP_String (net_IP n) @ ''/'' @ nat_digits (fst (IPMask_Size (net_Mask n)))"

section \<open>Facts\<close>

lemma sequence_Some_iff: "sequence xs = Some ys \<longleftrightarrow> xs = map Some ys"
  by (induction xs arbitrary: ys rule: sequence.induct) auto

lemma dot_not_digit [simp]: "\<not> is_digit (CHR ''.'')" "\<not> is_digit (CHR '':'')"
  by (simp_all add: is_digit_def)

lemma dot_notin_nat_digits [simp]: "CHR ''.'' \<notin> set (nat_digits n)"
  using nat_digits_all_digits dot_not_digit by blast

lemma nat_digits_byte:
  "n \<le> 255 \<Longrightarrow> length (nat_digits n) \<le> 3 \<and> (length (nat_digits n) > 1 \<longrightarrow> hd (nat_digits n) \<noteq> CHR ''0'')"
proof -
  assume n: "n \<le> 255"
  have ne: "d < 10 \<Longrightarrow> d \<noteq> 0 \<Longrightarrow> digit_char d \<noteq> CHR ''0''" for d
    using digit_char_props(2) [of d] by (auto simp: digit_val_def)
  consider "n < 10" | "10 \<le> n" "n < 100" | "100 \<le> n" by linarith
  then show ?thesis
  proof cases
    case 1
    then show ?thesis by (simp add: nat_digits.simps [of n])
  next
    case 2
    then have "n div 10 < 10" "n div 10 \<noteq> 0" by auto
    with 2 show ?thesis by (simp add: nat_digits.simps [of n] nat_digits.simps [of "n div 10"] ne)
  next
    case 3
    then have "n div 10 div 10 < 10" "n div 10 div 10 \<noteq> 0" "\<not> n div 10 < 10" using n by auto
    with 3 n show ?thesis
      by (simp add: nat_digits.simps [of n] nat_digits.simps [of "n div 10"]
          nat_digits.simps [of "n div 10 div 10"] ne)
  qed
qed

lemma parse_octet_nat_digits: "parse_octet (nat_digits (unat b)) = Some b" for b :: byte
proof -
  have "unat b \<le> 255" using unsigned_less [of b, where ?'a = nat] by simp
  with nat_digits_byte [OF this] nat_digits_props [of "unat b"] show ?thesis
    by (auto simp: parse_octet_def)
qed

lemma ParseIP_dotted: "length b = 4 \<Longrightarrow> ParseIP (dotted b) = Some (IPv4 b)"
proof -
  assume l: "length b = 4"
  then have b: "b \<noteq> []" by auto
  have sp: "Split (dotted b) (CHR ''.'') = map (\<lambda>x. nat_digits (unat x)) b"
    unfolding dotted_def using b by (intro Split_Join) auto
  then have v4: "parse_v4 (dotted b) = Some b"
    using l by (simp add: parse_v4_def sequence_Some_iff parse_octet_nat_digits)
  have digs: "c \<in> set (dotted b) \<Longrightarrow> c = CHR ''.'' \<or> is_digit c" for c
    unfolding dotted_def by (induction b rule: induct_list012) (auto dest: nat_digits_all_digits)
  have "CHR ''.'' \<in> set (dotted b)"
  proof (rule ccontr)
    assume "CHR ''.'' \<notin> set (dotted b)"
    then have "length (Split (dotted b) (CHR ''.'')) = 1" by (simp add: Split_no_sep)
    with sp l show False by simp
  qed
  then obtain c where c: "find (\<lambda>c. c = CHR ''.'' \<or> c = CHR '':'') (dotted b) = Some c"
    by (metis (mono_tags, lifting) find_None_iff not_Some_eq)
  then have "c \<in> set (dotted b)" "c = CHR ''.'' \<or> c = CHR '':''"
    by (simp_all add: find_Some_iff) (metis nth_mem)+
  with digs have "c = CHR ''.''" by fastforce
  with c v4 show ?thesis by (simp add: ParseIP_def)
qed

lemma IP_String_v4: "length b = 4 \<Longrightarrow> IP_String b = dotted b"
  by (auto simp: IP_String_def To4_def)

lemma IP_String_IPv4: "length b = 4 \<Longrightarrow> IP_String (IPv4 b) = dotted b"
  by (simp add: IP_String_def) (simp add: IPv4_def)

lemma ParseIP_IP_String: "length b = 4 \<Longrightarrow> ParseIP (IP_String b) = Some (IPv4 b)"
  by (simp add: IP_String_v4 ParseIP_dotted)

lemma dotted_inj: "dotted a = dotted b \<Longrightarrow> length a = 4 \<Longrightarrow> length b = 4 \<Longrightarrow> a = b"
proof -
  assume "dotted a = dotted b" "length a = 4" "length b = 4"
  then have "IPv4 a = IPv4 b" using ParseIP_dotted [of a] ParseIP_dotted [of b] by simp
  then show "a = b" by (simp add: IPv4_def)
qed

end
