(* ===== verification/Arping.thy ===== *)
theory Arping
  imports Net_IP
begin

unbundle bit_operations_syntax

text \<open>
  \<open>pkg/arping\<close>: the ARP packet format (\<open>datagram.go\<close>) and the detection of address conflicts
  with gratuitous ARP (\<open>arping.go\<close>, after RFC 5227). The socket and the clock are outside: one
  attempt is modelled over the sequence of events its receive loop sees, and the retry loop over
  an arbitrary attempt.
\<close>

section \<open>datagram.go\<close>

record arpDatagram =
  htype :: "16 word"
  ptype :: "16 word"
  hlen :: byte
  plen :: byte
  oper :: "16 word"
  sha :: "byte list"
  spa :: "byte list"
  tha :: "byte list"
  tpa :: "byte list"

definition requestOper :: "16 word" where "requestOper = 1"
definition responseOper :: "16 word" where "responseOper = 2"

definition newArpRequest :: "byte list \<Rightarrow> byte list \<Rightarrow> byte list \<Rightarrow> byte list \<Rightarrow> arpDatagram" where
  "newArpRequest srcMac srcIP dstMac dstIP =
     \<lparr>htype = 1, ptype = 0x0800, hlen = 6, plen = 4, oper = requestOper,
      sha = srcMac, spa = slice (To4 srcIP), tha = dstMac, tpa = slice (To4 dstIP)\<rparr>"

text \<open>\<open>binary.Write\<close> of a big-endian \<open>uint16\<close>.\<close>

definition be16 :: "16 word \<Rightarrow> byte list" where
  "be16 w = [ucast (drop_bit 8 w), ucast w]"

definition Marshal :: "arpDatagram \<Rightarrow> byte list" where
  "Marshal d = be16 (htype d) @ be16 (ptype d) @ [hlen d] @ [plen d] @ be16 (oper d) @
     sha d @ spa d @ tha d @ tpa d"

definition MarshalWithEthernetHeader :: "arpDatagram \<Rightarrow> byte list" where
  "MarshalWithEthernetHeader d = (tha d @ sha d @ [0x08, 0x06]) @ Marshal d"

definition SenderIP :: "arpDatagram \<Rightarrow> byte list" where
  "SenderIP d = spa d"

definition SenderMac :: "arpDatagram \<Rightarrow> byte list" where
  "SenderMac d = sha d"

definition IsResponseOf :: "arpDatagram \<Rightarrow> arpDatagram \<Rightarrow> bool" where
  "IsResponseOf d request \<longleftrightarrow> oper d = responseOper \<and> spa request = tpa d \<and> tpa request = spa d"

text \<open>
  \<open>binary.Read\<close> of a big-endian integer from a \<open>bytes.Buffer\<close>: too few bytes leave the field
  zero and the buffer empty (the error is not looked at). \<open>b.Next(n)\<close> takes what is there.
\<close>

definition read16 :: "byte list \<Rightarrow> 16 word \<times> byte list" where
  "read16 bs = (case bs of
       a # b # rest \<Rightarrow> (push_bit 8 (ucast a) OR ucast b, rest)
     | _ \<Rightarrow> (0, []))"

definition read8 :: "byte list \<Rightarrow> byte \<times> byte list" where
  "read8 bs = (case bs of a # rest \<Rightarrow> (a, rest) | [] \<Rightarrow> (0, []))"

definition parseArpDatagram :: "byte list \<Rightarrow> arpDatagram" where
  "parseArpDatagram buffer =
     (let (ht, b1) = read16 buffer; (pt, b2) = read16 b1; (hl, b3) = read8 b2; (pl, b4) = read8 b3;
          (op, b5) = read16 b4; haLen = unat hl; paLen = unat pl;
          b6 = drop haLen b5; b7 = drop paLen b6; b8 = drop haLen b7
      in \<lparr>htype = ht, ptype = pt, hlen = hl, plen = pl, oper = op,
          sha = take haLen b5, spa = take paLen b6, tha = take haLen b7, tpa = take paLen b8\<rparr>)"

text \<open>A datagram whose address lengths are what its header says.\<close>

definition wf_datagram :: "arpDatagram \<Rightarrow> bool" where
  "wf_datagram d \<longleftrightarrow> length (sha d) = unat (hlen d) \<and> length (spa d) = unat (plen d) \<and>
     length (tha d) = unat (hlen d) \<and> length (tpa d) = unat (plen d)"

lemma read16_be16 [simp]: "read16 (be16 w @ rest) = (w, rest)"
proof -
  have "push_bit 8 (ucast (ucast (drop_bit 8 w) :: byte)) OR ucast (ucast w :: byte) = (w :: 16 word)"
    by (rule bit_word_eqI) (auto simp: bit_simps)
  then show ?thesis by (simp add: read16_def be16_def)
qed

lemma read8_Cons [simp]: "read8 (a # rest) = (a, rest)"
  by (simp add: read8_def)

lemma length_be16 [simp]: "length (be16 w) = 2"
  by (simp add: be16_def)

lemma parse_Marshal: "wf_datagram d \<Longrightarrow> parseArpDatagram (Marshal d @ pad) = d"
  by (cases d) (simp add: parseArpDatagram_def Marshal_def wf_datagram_def)

lemma newArpRequest_wf:
  "length srcMac = 6 \<Longrightarrow> length dstMac = 6 \<Longrightarrow> To4 srcIP = Some s \<Longrightarrow> To4 dstIP = Some t \<Longrightarrow>
    wf_datagram (newArpRequest srcMac srcIP dstMac dstIP)"
  by (simp add: wf_datagram_def newArpRequest_def slice_def To4_length)

text \<open>What \<open>receive\<close> does with \<open>n\<close> bytes read into its buffer; \<open>None\<close> is the slice-bounds panic.\<close>

definition receive_parse :: "byte list \<Rightarrow> nat \<Rightarrow> arpDatagram option" where
  "receive_parse buffer n = (if n < 14 then None else Some (parseArpDatagram (drop 14 (take n buffer))))"

section \<open>arping.go\<close>

definition MaxConflicts :: nat where "MaxConflicts = 10"
definition ProbeNum :: nat where "ProbeNum = 3"

definition validateIP :: "byte list \<Rightarrow> gerror option" where
  "validateIP ip = (if length (slice (To4 ip)) \<noteq> 4 then Some (Errors_New ''not a valid v4 Address: %s'') else None)"

definition gratuitousArp :: "byte list \<Rightarrow> byte list \<Rightarrow> byte list result" where
  "gratuitousArp srcMac srcIP =
     (case validateIP srcIP of
        Some e \<Rightarrow> Inl e
      | None \<Rightarrow> Inr (MarshalWithEthernetHeader (newArpRequest srcMac srcIP (replicate 6 255) srcIP)))"

text \<open>
  What the receive loop sees: a packet, an error of \<open>recvfrom\<close>, or nothing more before the
  announce wait of the sender is over (the end of the list).
\<close>

datatype recv = Packet arpDatagram | RecvErr errno

definition conflicting :: "byte list \<Rightarrow> byte list \<Rightarrow> arpDatagram \<Rightarrow> bool" where
  "conflicting ip4 hw dg =
     (if spa dg = ip4 then sha dg \<noteq> hw
      else tpa dg = ip4 \<and> sha dg \<noteq> hw)"

fun receive_loop :: "byte list \<Rightarrow> byte list \<Rightarrow> recv list \<Rightarrow> bool \<times> gerror option" where
  "receive_loop ip4 hw [] = (False, None)"
| "receive_loop ip4 hw (RecvErr e # rest) =
     (if e \<noteq> EAGAIN \<and> e \<noteq> EINTR
      then (False, Some (Wrap ''fail to receive gratuitous arp response: %w'' (Sys e)))
      else receive_loop ip4 hw rest)"
| "receive_loop ip4 hw (Packet dg # rest) =
     (if spa dg = ip4 then
        (if sha dg = hw then receive_loop ip4 hw rest else (True, None))
      else if tpa dg = ip4 \<and> sha dg \<noteq> hw then (True, None)
      else receive_loop ip4 hw rest)"

text \<open>
  One attempt: the address must be IPv4, the interface must exist (its hardware address is
  given), the socket must open; then the receive loop decides.
\<close>

definition detectOnce :: "byte list result \<Rightarrow> gerror option \<Rightarrow> byte list \<Rightarrow> recv list \<Rightarrow> bool \<times> gerror option" where
  "detectOnce iface sockErr srcIP events =
     (case validateIP srcIP of
        Some e \<Rightarrow> (False, Some (Wrap ''fail to validate ip: %w'' e))
      | None \<Rightarrow>
          (case iface of
             Inl e \<Rightarrow> (False, Some (Wrap ''fail to get interface by name: %w'' e))
           | Inr hw \<Rightarrow>
               (case sockErr of
                  Some e \<Rightarrow> (False, Some (Wrap ''fail to initialize interface %v: %w'' e))
                | None \<Rightarrow> receive_loop (slice (To4 srcIP)) hw events)))"

text \<open>The retry loop over an attempt that changes the world.\<close>

fun detect_loop ::
  "('w \<Rightarrow> (bool \<times> gerror option) \<times> 'w) \<Rightarrow> nat \<Rightarrow> bool \<times> gerror option \<Rightarrow> 'w \<Rightarrow> (bool \<times> gerror option) \<times> 'w" where
  "detect_loop attempt 0 prev w = (prev, w)"
| "detect_loop attempt (Suc n) prev w =
     (case attempt w of
        ((c, Some e), w1) \<Rightarrow> detect_loop attempt n (c, Some e) w1
      | ((c, None), w1) \<Rightarrow> if \<not> c then ((False, None), w1) else detect_loop attempt n (c, None) w1)"

definition DetectIpConflictWithGratuitousArp ::
  "('w \<Rightarrow> (bool \<times> gerror option) \<times> 'w) \<Rightarrow> 'w \<Rightarrow> (bool \<times> gerror option) \<times> 'w" where
  "DetectIpConflictWithGratuitousArp attempt w = detect_loop attempt MaxConflicts (False, None) w"

lemma receive_loop_conflict_iff:
  "receive_loop ip4 hw evs = (True, None) \<longleftrightarrow>
    (\<exists>pre dg rest. evs = pre @ Packet dg # rest \<and> conflicting ip4 hw dg \<and>
       (\<forall>e. RecvErr e \<in> set pre \<longrightarrow> e = EAGAIN \<or> e = EINTR))"
proof (induction ip4 hw evs rule: receive_loop.induct)
  case (1 ip4 hw)
  then show ?case by simp
next
  case (2 ip4 hw e rest)
  show ?case
  proof (cases "e = EAGAIN \<or> e = EINTR")
    case True
    with 2 have "receive_loop ip4 hw (RecvErr e # rest) = (True, None) \<longleftrightarrow>
      (\<exists>pre dg rest'. rest = pre @ Packet dg # rest' \<and> conflicting ip4 hw dg \<and>
         (\<forall>e. RecvErr e \<in> set pre \<longrightarrow> e = EAGAIN \<or> e = EINTR))" by auto
    also have "\<dots> \<longleftrightarrow> (\<exists>pre dg rest'. RecvErr e # rest = pre @ Packet dg # rest' \<and> conflicting ip4 hw dg \<and>
         (\<forall>e. RecvErr e \<in> set pre \<longrightarrow> e = EAGAIN \<or> e = EINTR))"
      using True by (auto simp: Cons_eq_append_conv) (metis set_ConsD recv.inject(2))+
    finally show ?thesis .
  next
    case False
    then show ?thesis by (auto simp: Cons_eq_append_conv)
  qed
next
  case (3 ip4 hw dg rest)
  show ?case
  proof (cases "conflicting ip4 hw dg")
    case True
    then have "receive_loop ip4 hw (Packet dg # rest) = (True, None)"
      by (auto simp: conflicting_def split: if_splits)
    moreover have "Packet dg # rest = [] @ Packet dg # rest" by simp
    ultimately show ?thesis using True by (metis empty_iff list.set(1))
  next
    case False
    then have "receive_loop ip4 hw (Packet dg # rest) = receive_loop ip4 hw rest"
      by (auto simp: conflicting_def split: if_splits)
    also have "\<dots> = (True, None) \<longleftrightarrow> (\<exists>pre dg' rest'. rest = pre @ Packet dg' # rest' \<and>
         conflicting ip4 hw dg' \<and> (\<forall>e. RecvErr e \<in> set pre \<longrightarrow> e = EAGAIN \<or> e = EINTR))"
      using False 3 by (auto simp: conflicting_def split: if_splits)
    also have "\<dots> \<longleftrightarrow> (\<exists>pre dg' rest'. Packet dg # rest = pre @ Packet dg' # rest' \<and>
         conflicting ip4 hw dg' \<and> (\<forall>e. RecvErr e \<in> set pre \<longrightarrow> e = EAGAIN \<or> e = EINTR))"
      using False by (auto simp: Cons_eq_append_conv) (metis set_ConsD recv.distinct(1))+
    finally show ?thesis .
  qed
qed

text \<open>
  The attempts of the retry loop: the results seen, in order, for a given number of tries.
\<close>

fun attempts :: "('w \<Rightarrow> 'r \<times> 'w) \<Rightarrow> nat \<Rightarrow> 'w \<Rightarrow> 'r list" where
  "attempts f 0 w = []"
| "attempts f (Suc n) w = (case f w of (r, w1) \<Rightarrow> r # attempts f n w1)"

lemma detect_loop_result:
  "fst (detect_loop f n prev w) =
    (if (False, None) \<in> set (attempts f n w) then (False, None)
     else if n = 0 then prev else last (attempts f n w))"
proof (induction f n prev w rule: detect_loop.induct)
  case (1 f prev w)
  then show ?case by simp
next
  case (2 f n prev w)
  obtain c e w1 where f: "f w = ((c, e), w1)" by (metis prod.exhaust)
  have ne: "n \<noteq> 0 \<Longrightarrow> attempts f n w1 \<noteq> []" by (cases n) (auto split: prod.splits)
  show ?case
  proof (cases e)
    case (Some e')
    with 2 f ne show ?thesis by auto
  next
    case None
    with 2 f ne show ?thesis by (cases c) auto
  qed
qed

lemma attempts_ne: "n \<noteq> 0 \<Longrightarrow> attempts f n w \<noteq> []"
  by (cases n) (auto split: prod.splits)

lemma detect_no_conflict_iff:
  assumes "n \<noteq> 0"
  shows "fst (detect_loop f n prev w) = (False, None) \<longleftrightarrow> (False, None) \<in> set (attempts f n w)"
  using last_in_set [OF attempts_ne [OF assms], of f w] assms
  by (auto simp: detect_loop_result)

section \<open>Properties\<close>

text \<open>A gratuitous ARP request is read back as it was sent.

  For a six-byte MAC and an IPv4 address, the frame that is sent consists of a 14-byte Ethernet
  header and the datagram, and the receiving side, which drops 14 bytes and parses the rest,
  whatever padding follows, recovers exactly the request: the sender and the target address are
  the address probed, the target MAC is broadcast.\<close>

lemma arp_frame_roundtrip:
  assumes "length mac = 6" and "To4 ip = Some a" and "n = 14 + length (Marshal (newArpRequest mac ip (replicate 6 255) ip)) + length pad"
  shows "\<exists>frame. gratuitousArp mac ip = Inr frame \<and>
    receive_parse (frame @ pad) n = Some (newArpRequest mac ip (replicate 6 255) ip) \<and>
    spa (newArpRequest mac ip (replicate 6 255) ip) = a \<and> tpa (newArpRequest mac ip (replicate 6 255) ip) = a"
proof -
  let ?r = "newArpRequest mac ip (replicate 6 255) ip"
  have wf: "wf_datagram ?r" using assms(1,2) by (intro newArpRequest_wf) auto
  have g: "gratuitousArp mac ip = Inr (MarshalWithEthernetHeader ?r)"
    using assms(2) by (simp add: gratuitousArp_def validateIP_def slice_def To4_length)
  have h: "MarshalWithEthernetHeader ?r @ pad =
      (replicate 6 255 @ mac @ [0x08, 0x06]) @ (Marshal ?r @ pad)"
    by (simp add: MarshalWithEthernetHeader_def newArpRequest_def)
  have "drop 14 (take n (MarshalWithEthernetHeader ?r @ pad)) = Marshal ?r @ pad"
    unfolding h using assms(1,3) by simp
  then have "receive_parse (MarshalWithEthernetHeader ?r @ pad) n = Some ?r"
    using assms(3) parse_Marshal [OF wf] by (simp add: receive_parse_def)
  moreover have "spa ?r = a" "tpa ?r = a" using assms(2) by (simp_all add: newArpRequest_def slice_def)
  ultimately show ?thesis using g by blast
qed

lemma arp_frame_roundtrip_witness:
  "\<exists>frame. gratuitousArp [1, 2, 3, 4, 5, 6] [10, 0, 0, 1] = Inr frame"
proof -
  have "length [1, 2, 3, 4, 5, 6 :: byte] = 6" "To4 [10, 0, 0, 1] = Some [10, 0, 0, 1]"
    by (simp_all add: To4_def)
  from arp_frame_roundtrip [OF this refl, of "[]"] show ?thesis by blast
qed

text \<open>When an address counts as in conflict.

  One attempt reports a conflict exactly when a packet arrives, before any error other than the
  two temporary ones, in which another MAC uses the probed address as sender, or probes for it
  itself as target; packets of the own MAC never conflict.\<close>

lemma conflict_iff_foreign_packet:
  "receive_loop ip4 hw evs = (True, None) \<longleftrightarrow>
    (\<exists>pre dg rest. evs = pre @ Packet dg # rest \<and> sha dg \<noteq> hw \<and> (spa dg = ip4 \<or> tpa dg = ip4) \<and>
       (\<forall>e. RecvErr e \<in> set pre \<longrightarrow> e = EAGAIN \<or> e = EINTR))"
proof -
  have "conflicting ip4 hw dg \<longleftrightarrow> sha dg \<noteq> hw \<and> (spa dg = ip4 \<or> tpa dg = ip4)" for dg
    by (auto simp: conflicting_def)
  then show ?thesis unfolding receive_loop_conflict_iff by simp
qed

lemma conflict_iff_foreign_packet_witness:
  "receive_loop [10, 0, 0, 1] [2] [RecvErr EAGAIN,
     Packet (newArpRequest [3] [10, 0, 0, 1] [255] [10, 0, 0, 9])] = (True, None)"
proof -
  let ?p = "newArpRequest [3] [10, 0, 0, 1] [255] [10, 0, 0, 9]"
  have "[RecvErr EAGAIN, Packet ?p] = [RecvErr EAGAIN] @ Packet ?p # []" "sha ?p \<noteq> [2]" "spa ?p = [10, 0, 0, 1]"
    by (simp_all add: newArpRequest_def slice_def To4_def)
  then show ?thesis
    unfolding conflict_iff_foreign_packet by (metis list.set_intros(1) recv.inject(2) set_ConsD empty_iff list.set(1))
qed

text \<open>The verdict over the retries.

  The detection runs at most ten attempts and answers "no conflict, no error" exactly when one of
  them does; else its answer is that of the tenth. So one clean attempt clears the address, and
  a conflict is only reported after ten attempts without one.\<close>

lemma conflict_verdict:
  "fst (DetectIpConflictWithGratuitousArp f w) =
    (if (False, None) \<in> set (attempts f 10 w) then (False, None) else last (attempts f 10 w)) \<and>
    length (attempts f 10 w) = 10"
proof -
  have "length (attempts f n w) = n" for n and w :: 'a
    by (induction n arbitrary: w) (auto split: prod.splits)
  then show ?thesis
    by (simp add: DetectIpConflictWithGratuitousArp_def detect_loop_result MaxConflicts_def)
qed

end
