(* ===== verification/Kube_Api.thy ===== *)
theory Kube_Api
  imports Rpc_Types
begin

text \<open>
  The Kubernetes API server, as the daemon calls it through \<open>client-go\<close> and the generated
  client set, and the other nodes' daemons as it dials them. The server and \<open>client-go\<close> are not in the
  repository, and the typed calls are those of \<open>Rest_Client\<close> (\<open>rest_kube\<close> of \<open>Rest_Props\<close> puts them in); here
  each call is a field of \<open>kube_api\<close>, a function from its arguments and the outside world
  \<open>'w\<close> to its answer and the world after. \<open>RetryOnConflict\<close> is the retry loop of
  \<open>k8s.io/client-go/util/retry\<close>; what the code relies on of it is \<open>retries\<close>.
\<close>

record 'w kube_api =
  PodsGet :: "string \<Rightarrow> string \<Rightarrow> 'w \<Rightarrow> Pod result \<times> 'w" \<comment> \<open>namespace and name\<close>
  PodsPatch :: "string \<Rightarrow> string \<Rightarrow> labels \<Rightarrow> 'w \<Rightarrow> gerror option \<times> 'w"
  PodsListOnNode :: "string \<Rightarrow> 'w \<Rightarrow> Pod list result \<times> 'w"
  NodesGet :: "string \<Rightarrow> 'w \<Rightarrow> labels result \<times> 'w"
  NodesList :: "'w \<Rightarrow> string list result \<times> 'w"
  IpamdsList :: "'w \<Rightarrow> Ipamd list result \<times> 'w"
  IpamdsGet :: "string \<Rightarrow> 'w \<Rightarrow> Ipamd result \<times> 'w"
  IpamdsCreate :: "Ipamd \<Rightarrow> 'w \<Rightarrow> gerror option \<times> 'w"
  IpamdsUpdate :: "Ipamd \<Rightarrow> 'w \<Rightarrow> gerror option \<times> 'w"
  IpamdsDelete :: "string \<Rightarrow> 'w \<Rightarrow> gerror option \<times> 'w"
  VipsGet :: "string \<Rightarrow> string \<Rightarrow> 'w \<Rightarrow> VpcIpClaim result \<times> 'w"
  VipsListNamed :: "string \<Rightarrow> string \<Rightarrow> 'w \<Rightarrow> gerror option \<times> 'w"
  VipsCreate :: "VpcIpClaim \<Rightarrow> 'w \<Rightarrow> VpcIpClaim result \<times> 'w"
  VipsUpdate :: "VpcIpClaim \<Rightarrow> 'w \<Rightarrow> gerror option \<times> 'w"
  RetryOnConflict :: "('w \<Rightarrow> gerror option \<times> 'w) \<Rightarrow> 'w \<Rightarrow> gerror option \<times> 'w"
  Dial_BorrowIP :: "string \<Rightarrow> BorrowIPRequest \<Rightarrow> 'w \<Rightarrow> BorrowIPResponse result \<times> 'w"

text \<open>
  What the retry loop documents: it runs the function one or more times, each run but the last
  ended in a conflict, and it returns what the last run returned.
\<close>

inductive conflict_runs :: "('w \<Rightarrow> gerror option \<times> 'w) \<Rightarrow> 'w \<Rightarrow> 'w \<Rightarrow> bool" for f where
  runs_nil: "conflict_runs f w w"
| runs_step: "conflict_runs f w w1 \<Longrightarrow> f w1 = (Some e, w2) \<Longrightarrow> kube_reason_of e = Some KConflict \<Longrightarrow>
    conflict_runs f w w2"

definition retries :: "'w kube_api \<Rightarrow> bool" where
  "retries Q \<longleftrightarrow> (\<forall>f w. \<exists>w1. conflict_runs f w w1 \<and> RetryOnConflict Q f w = f w1)"

lemma conflict_runs_inv:
  assumes "conflict_runs f w w'" and "P w" and "\<And>w r w2. P w \<Longrightarrow> f w = (r, w2) \<Longrightarrow> P w2"
  shows "P w'"
  using assms(1,2) by (induction rule: conflict_runs.induct) (auto intro: assms(3))

text \<open>An API server that is down: the starting point of the examples.\<close>

definition kube_down :: "'w kube_api" where
  "kube_down = \<lparr>PodsGet = (\<lambda>_ _ w. (Inl (Ext 0), w)), PodsPatch = (\<lambda>_ _ _ w. (Some (Ext 0), w)),
     PodsListOnNode = (\<lambda>_ w. (Inl (Ext 0), w)), NodesGet = (\<lambda>_ w. (Inl (Ext 0), w)),
     NodesList = (\<lambda>w. (Inl (Ext 0), w)), IpamdsList = (\<lambda>w. (Inl (Ext 0), w)),
     IpamdsGet = (\<lambda>_ w. (Inl (Ext 0), w)), IpamdsCreate = (\<lambda>_ w. (Some (Ext 0), w)),
     IpamdsUpdate = (\<lambda>_ w. (Some (Ext 0), w)), IpamdsDelete = (\<lambda>_ w. (Some (Ext 0), w)),
     VipsGet = (\<lambda>_ _ w. (Inl (Ext 0), w)), VipsListNamed = (\<lambda>_ _ w. (Some (Ext 0), w)),
     VipsCreate = (\<lambda>_ w. (Inl (Ext 0), w)), VipsUpdate = (\<lambda>_ w. (Some (Ext 0), w)),
     RetryOnConflict = (\<lambda>f. f), Dial_BorrowIP = (\<lambda>_ _ w. (Inl (Ext 0), w))\<rparr>"

end
