(* ===== verification/Ipamd_Uapi.thy ===== *)
theory Ipamd_Uapi
  imports Uapi Arping Kube_Api Database Codec
begin

text \<open>
  \<open>pkg/ipamd/uapi.go\<close>: the calls the daemon makes to the VPC service, and the server's
  configuration and state (\<open>svc.go\<close>) they read. The configuration and the outside services are
  the record \<open>ipamServer\<close>, fixed after start; the state is \<open>istate\<close>: the database file, the
  buckets opened as pools and the outside world. The daemon runs with its metadata loaded,
  so \<open>GetObjectIDForSecondaryIP\<close> is \<open>object_id_of_client\<close> of the server's client.
\<close>

section \<open>svc.go: the server\<close>

definition NetworkDBName :: string where "NetworkDBName = ''cni-vpc-network''"
definition PoolDBName :: string where "PoolDBName = ''cni-vpc-ip-pool''"
definition CooldownDBName :: string where "CooldownDBName = ''cni-vpc-ip-cooldown''"

record ('d, 'w) ipamServer =
  bolt :: "'d bolt_api"
  cloud :: "'w cloud_api"
  kube :: "'w kube_api"
  arpAttempt :: "string \<Rightarrow> 'w \<Rightarrow> (bool \<times> gerror option) \<times> 'w"
  nodeName :: string
  hostId :: string
  zoneId :: string
  masterMacAddress :: string
  tcpAddr :: string
  uapi :: ApiClient
  LowWatermark :: int
  HighWatermark :: int
  CalicoPolicyFlag :: bool
  CooldownPeriodSeconds :: int64

record ('d, 'w) istate =
  dbHandler :: 'd
  poolDB :: "string list" \<comment> \<open>the opened pools: a pool is the name of its bucket\<close>
  outside :: 'w

section \<open>uapi.go\<close>

definition UAPIErrorIPNotExst :: int where "UAPIErrorIPNotExst = 58221"
definition UAPIErrorSubnetNotEnough :: int where "UAPIErrorSubnetNotEnough = 57000"

definition uapiCheckSubnetRemainsIP ::
  "('d, 'w) ipamServer \<Rightarrow> string \<Rightarrow> 'w \<Rightarrow> gerror option \<times> 'w" where
  "uapiCheckSubnetRemainsIP s subnetId w =
     (case service_client (cloud s) (uapi s) w of
        (Inl e, w1) \<Rightarrow> (Some e, w1)
      | (Inr cli, w1) \<Rightarrow>
          (case DescribeSubnet (cloud s) cli subnetId (ac_vpcId (uapi s)) w1 of
             (Inl e, w2) \<Rightarrow> (Some e, w2)
           | (Inr [], w2) \<Rightarrow> (Some (Errors_New ''subnet %s not found''), w2)
           | (Inr (availableIPs # _), w2) \<Rightarrow>
               (if availableIPs \<le> 0 then (Some ErrOutOfIP, w2) else (None, w2))))"

text \<open>The owner of the address: the interface of the request, else the instance, else the host.\<close>

definition requestObjectID ::
  "('d, 'w) ipamServer \<Rightarrow> AddPodNetworkRequest \<Rightarrow> 'w \<Rightarrow> string \<times> 'w" where
  "requestObjectID s pnReq w =
     (if ar_InterfaceID pnReq = [] then
        (case object_id_of_client (cloud s) (uapi s) w of
           (Inl e, w1) \<Rightarrow> (hostId s, w1)
         | (Inr i, w1) \<Rightarrow> (i, w1))
      else (ar_InterfaceID pnReq, w))"

definition uapiAllocateSecondaryIP ::
  "('d, 'w) ipamServer \<Rightarrow> AddPodNetworkRequest \<Rightarrow> 'w \<Rightarrow> IpInfo result \<times> 'w" where
  "uapiAllocateSecondaryIP s pnReq w =
     (case service_client (cloud s) (uapi s) w of
        (Inl e, w1) \<Rightarrow> (Inl e, w1)
      | (Inr cli, w1) \<Rightarrow>
          (case uapiCheckSubnetRemainsIP s (ar_SubnetID pnReq) w1 of
             (Some e, w2) \<Rightarrow> (Inl e, w2)
           | (None, w2) \<Rightarrow>
               (case requestObjectID s pnReq w2 of
                  (objectID, w3) \<Rightarrow>
                    (case AllocateSecondaryIp (cloud s) cli
                            \<lparr>al_Mac = ar_MacAddress pnReq, al_Ip = None, al_ObjectId = objectID,
                             al_Zone = zoneId s, al_VPCId = ac_vpcId (uapi s),
                             al_SubnetId = ar_SubnetID pnReq\<rparr> w3 of
                       ((resp, Some e), w4) \<Rightarrow>
                         (if alr_RetCode resp = UAPIErrorSubnetNotEnough then (Inl ErrOutOfIP, w4)
                          else (Inl e, w4))
                     | ((resp, None), w4) \<Rightarrow> (Inr (alr_IpInfo resp), w4)))))"

definition checkIPConflict :: "('d, 'w) ipamServer \<Rightarrow> string \<Rightarrow> 'w \<Rightarrow> gerror option \<times> 'w" where
  "checkIPConflict s ip w =
     (case DetectIpConflictWithGratuitousArp (arpAttempt s ip) w of
        ((conflict, Some e), w1) \<Rightarrow> (Some (Errorf ''failed to detect conflict for ip %s: %v'' (Some e)), w1)
      | ((conflict, None), w1) \<Rightarrow>
          (if conflict then (Some (Errors_New ''ip %s is still in conflict after retrying''), w1)
           else (None, w1)))"

text \<open>The error of the allocation is only logged; the answer is taken from the response all the same.\<close>

definition uapiAllocateSpecifiedSecondaryIp ::
  "('d, 'w) ipamServer \<Rightarrow> string \<Rightarrow> AddPodNetworkRequest \<Rightarrow> 'w \<Rightarrow> IpInfo result \<times> 'w" where
  "uapiAllocateSpecifiedSecondaryIp s ip pnReq w =
     (case service_client (cloud s) (uapi s) w of
        (Inl e, w1) \<Rightarrow> (Inl e, w1)
      | (Inr cli, w1) \<Rightarrow>
          (case requestObjectID s pnReq w1 of
             (objectID, w2) \<Rightarrow>
               (case AllocateSecondaryIp (cloud s) cli
                       \<lparr>al_Mac = ar_MacAddress pnReq, al_Ip = Some ip, al_ObjectId = objectID,
                        al_Zone = zoneId s, al_VPCId = ac_vpcId (uapi s),
                        al_SubnetId = ar_SubnetID pnReq\<rparr> w2 of
                  ((resp, _), w3) \<Rightarrow> (Inr (alr_IpInfo resp), w3))))"

text \<open>\<open>nil, nil\<close> when the address does not exist: \<open>Inr None\<close>.\<close>

definition uapiDescribeSecondaryIp ::
  "('d, 'w) ipamServer \<Rightarrow> string \<Rightarrow> string \<Rightarrow> 'w \<Rightarrow> IpInfo option result \<times> 'w" where
  "uapiDescribeSecondaryIp s ip subnetId w =
     (case service_client (cloud s) (uapi s) w of
        (Inl e, w1) \<Rightarrow> (Inl e, w1)
      | (Inr cli, w1) \<Rightarrow>
          (case DescribeSecondaryIp (cloud s) cli
                  \<lparr>de_Ip = ip, de_Mac = None, de_Zone = None, de_VPCId = ac_vpcId (uapi s),
                   de_SubnetId = subnetId\<rparr> w1 of
             (Inl e, w2) \<Rightarrow> (Inl e, w2)
           | (Inr [], w2) \<Rightarrow> (Inr None, w2)
           | (Inr (i # _), w2) \<Rightarrow> (Inr (Some i), w2)))"

definition uapiMoveSecondaryIPMac ::
  "('d, 'w) ipamServer \<Rightarrow> PodNetwork \<Rightarrow> string \<Rightarrow> 'w \<Rightarrow> gerror option \<times> 'w" where
  "uapiMoveSecondaryIPMac s pn targetMacAddress w =
     (case service_client (cloud s) (uapi s) w of
        (Inl e, w1) \<Rightarrow> (Some e, w1)
      | (Inr cli, w1) \<Rightarrow>
          MoveSecondaryIPMac (cloud s) cli
            \<lparr>mv_Ip = pn_VPCIP pn, mv_NewMac = targetMacAddress, mv_OldMac = pn_MacAddress pn,
             mv_SubnetId = pn_SubnetID pn\<rparr> w1)"

definition checkSecondaryIpExist ::
  "('d, 'w) ipamServer \<Rightarrow> PodNetwork \<Rightarrow> 'w \<Rightarrow> bool result \<times> 'w" where
  "checkSecondaryIpExist s pn w =
     (case service_client (cloud s) (uapi s) w of
        (Inl e, w1) \<Rightarrow> (Inl e, w1)
      | (Inr cli, w1) \<Rightarrow>
          (case DescribeSecondaryIp (cloud s) cli
                  \<lparr>de_Ip = pn_VPCIP pn, de_Mac = Some (pn_MacAddress pn),
                   de_Zone = Some (ac_zoneId (uapi s)), de_VPCId = ac_vpcId (uapi s),
                   de_SubnetId = pn_SubnetID pn\<rparr> w1 of
             (Inl e, w2) \<Rightarrow> (Inl e, w2)
           | (Inr dataSet, w2) \<Rightarrow> (Inr (\<exists>i \<in> set dataSet. ii_Ip i = pn_VPCIP pn), w2)))"

definition uapiDeleteSecondaryIp ::
  "('d, 'w) ipamServer \<Rightarrow> PodNetwork \<Rightarrow> 'w \<Rightarrow> gerror option \<times> 'w" where
  "uapiDeleteSecondaryIp s pn w =
     (case checkSecondaryIpExist s pn w of
        (Inl e, w1) \<Rightarrow> (Some (Errorf ''cannot find secondary ip %s, %v'' (Some e)), w1)
      | (Inr exist, w1) \<Rightarrow>
          (if \<not> exist then (None, w1)
           else case service_client (cloud s) (uapi s) w1 of
             (Inl e, w2) \<Rightarrow> (Some e, w2)
           | (Inr cli, w2) \<Rightarrow>
               (let objectID = (if pn_InterfaceID pn = [] then hostId s else pn_InterfaceID pn) in
                case DeleteSecondaryIp (cloud s) cli
                       \<lparr>dl_Zone = Some (zoneId s), dl_Mac = pn_MacAddress pn, dl_Ip = pn_VPCIP pn,
                        dl_ObjectId = Some objectID, dl_VPCId = ac_vpcId (uapi s),
                        dl_SubnetId = pn_SubnetID pn\<rparr> w2 of
                  ((retCode, e), w3) \<Rightarrow>
                    (if retCode = UAPIErrorIPNotExst then (None, w3) else (e, w3)))))"

lemma checkIPConflict_no_conflict:
  "checkIPConflict s ip w = (None, w') \<Longrightarrow> (False, None) \<in> set (attempts (arpAttempt s ip) MaxConflicts w)"
  using detect_no_conflict_iff [of MaxConflicts "arpAttempt s ip" "(False, None)" w]
  by (cases "detect_loop (arpAttempt s ip) MaxConflicts (False, None) w")
    (auto simp: checkIPConflict_def DetectIpConflictWithGratuitousArp_def MaxConflicts_def
       split: option.splits if_splits)

end
