(* ===== verification/Ipamd_Pool.thy ===== *)
theory Ipamd_Pool
  imports Ipamd_Uapi
begin

text \<open>
  \<open>pkg/ipamd/pool.go\<close>: the pools of pre-allocated addresses, one bucket of the database file
  per subnet, the cooldown bucket, the lending of addresses between nodes and the status
  resources. The pool manager runs these operations one at a time in its own goroutine, so
  each is a function on the state \<open>istate\<close>. Go's maps are iterated in an order of the run
  time's choosing: an operation that does so takes the order as argument.
\<close>

section \<open>State access\<close>

definition on_world :: "('w \<Rightarrow> 'a \<times> 'w) \<Rightarrow> ('d, 'w) istate \<Rightarrow> 'a \<times> ('d, 'w) istate" where
  "on_world f st = (case f (outside st) of (r, w) \<Rightarrow> (r, st\<lparr>outside := w\<rparr>))"

definition on_db :: "('d \<Rightarrow> 'a \<times> 'd) \<Rightarrow> ('d, 'w) istate \<Rightarrow> 'a \<times> ('d, 'w) istate" where
  "on_db f st = (case f (dbHandler st) of (r, d) \<Rightarrow> (r, st\<lparr>dbHandler := d\<rparr>))"

lemma on_world_frame: "on_world f st = (r, st') \<Longrightarrow> dbHandler st' = dbHandler st \<and> poolDB st' = poolDB st"
  by (auto simp: on_world_def split: prod.splits)

lemma on_db_frame: "on_db f st = (r, st') \<Longrightarrow> outside st' = outside st \<and> poolDB st' = poolDB st"
  by (auto simp: on_db_def split: prod.splits)

lemma on_dbE: "on_db f st = (r, st') \<Longrightarrow> f (dbHandler st) = (r, dbHandler st')"
  by (auto simp: on_db_def split: prod.splits)

section \<open>Keys and pools\<close>

definition getReservedIPKey :: "PodNetwork \<Rightarrow> string" where
  "getReservedIPKey pn = pn_VPCID pn @ ''-'' @ pn_VPCIP pn"

definition poolName :: "('d, 'w) ipamServer \<Rightarrow> string \<Rightarrow> string" where
  "poolName s subnetID = PoolDBName @ ''-'' @ (if subnetID = [] then ac_subnetId (uapi s) else subnetID)"

definition getPool ::
  "('d, 'w) ipamServer \<Rightarrow> string \<Rightarrow> bool \<Rightarrow> ('d, 'w) istate \<Rightarrow> string result \<times> ('d, 'w) istate" where
  "getPool s subnetID create st =
     (let dbName = poolName s subnetID in
      if dbName \<in> set (poolDB st) then (Inr dbName, st)
      else if \<not> create then (Inl (Errors_New ''cannot find subnet %q in this node''), st)
      else case on_db (NewBolt (bolt s) dbName) st of
        (Inl e, st1) \<Rightarrow> (Inl (Errorf ''failed to init vpc ip pool database: %v'' (Some e)), st1)
      | (Inr pool, st1) \<Rightarrow> (Inr pool, st1\<lparr>poolDB := poolDB st1 @ [dbName]\<rparr>))"

definition getPoolSubnetID :: "('d, 'w) ipamServer \<Rightarrow> string \<Rightarrow> string \<times> bool" where
  "getPoolSubnetID s key =
     (let key1 = TrimPrefix key PoolDBName in
      if key1 = [] then (ac_subnetId (uapi s), True)
      else (TrimPrefix key1 ''-'', False))"

section \<open>Putting addresses back\<close>

definition backupReleaseSecondaryIP ::
  "('d, 'w) ipamServer \<Rightarrow> PodNetwork \<Rightarrow> ('d, 'w) istate \<Rightarrow> ('d, 'w) istate" where
  "backupReleaseSecondaryIP s pn st = snd (on_world (uapiDeleteSecondaryIp s pn) st)"

abbreviation pool_put :: "('d, 'w) ipamServer \<Rightarrow> string \<Rightarrow> PodNetwork \<Rightarrow> 'd \<Rightarrow> gerror option \<times> 'd" where
  "pool_put s pool pn \<equiv> Bolt_Put (bolt s) PodNetwork_codec pool (getReservedIPKey pn) pn"

definition putIpToPool ::
  "('d, 'w) ipamServer \<Rightarrow> PodNetwork \<Rightarrow> ('d, 'w) istate \<Rightarrow> bool \<times> ('d, 'w) istate" where
  "putIpToPool s pn st =
     (case getPool s (pn_SubnetID pn) True st of
        (Inl e, st1) \<Rightarrow> (False, backupReleaseSecondaryIP s pn st1)
      | (Inr pool, st1) \<Rightarrow>
          (case on_db (pool_put s pool pn) st1 of
             (Some e, st2) \<Rightarrow> (False, backupReleaseSecondaryIP s pn st2)
           | (None, st2) \<Rightarrow> (True, st2)))"

definition putIpToCooldown ::
  "('d, 'w) ipamServer \<Rightarrow> CooldownItem \<Rightarrow> ('d, 'w) istate \<Rightarrow> bool \<times> ('d, 'w) istate" where
  "putIpToCooldown s item st =
     (case on_db (Bolt_Put (bolt s) CooldownItem_codec CooldownDBName
                    (getReservedIPKey (cd_Network item)) item) st of
        (Some e, st1) \<Rightarrow> (False, backupReleaseSecondaryIP s (cd_Network item) st1)
      | (None, st1) \<Rightarrow> (True, st1))"

definition backupPushSecondaryIP ::
  "('d, 'w) ipamServer \<Rightarrow> PodNetwork \<Rightarrow> ('d, 'w) istate \<Rightarrow> ('d, 'w) istate" where
  "backupPushSecondaryIP s pn st =
     (case getPool s (pn_SubnetID pn) True st of
        (Inl e, st1) \<Rightarrow> st1
      | (Inr pool, st1) \<Rightarrow> snd (on_db (pool_put s pool pn) st1))"

section \<open>Cooling down\<close>

definition cooldownIP ::
  "('d, 'w) ipamServer \<Rightarrow> PodNetwork \<Rightarrow> ('d, 'w) istate \<Rightarrow> ('d, 'w) istate" where
  "cooldownIP s ip st =
     (case on_world (TimeNow (cloud s)) st of
        (now1, st1) \<Rightarrow>
          (case on_world (TimeNow (cloud s)) st1 of
             (now2, st2) \<Rightarrow>
               snd (putIpToCooldown s
                 \<lparr>cd_Network = ip\<lparr>pn_RecycleTime := now2, pn_Recycled := True\<rparr>,
                  cd_CooldownOver = now1 + CooldownPeriodSeconds s\<rparr> st2)))"

fun recycle_loop ::
  "('d, 'w) ipamServer \<Rightarrow> int64 \<Rightarrow> CooldownItem KeyValue list \<Rightarrow> ('d, 'w) istate \<Rightarrow> ('d, 'w) istate" where
  "recycle_loop s now [] st = st"
| "recycle_loop s now ((key, cd) # kvs) st =
     (if int64_le (cd_CooldownOver cd) now then
        (case on_db (Bolt_Delete (bolt s) CooldownDBName key) st of
           (Some e, st1) \<Rightarrow> st1
         | (None, st1) \<Rightarrow> recycle_loop s now kvs (snd (putIpToPool s (cd_Network cd) st1)))
      else recycle_loop s now kvs st)"

definition recycleCooldownIP :: "('d, 'w) ipamServer \<Rightarrow> ('d, 'w) istate \<Rightarrow> ('d, 'w) istate" where
  "recycleCooldownIP s st =
     (case Bolt_List (bolt s) CooldownItem_codec CooldownDBName (dbHandler st) of
        Inl e \<Rightarrow> st
      | Inr kvs \<Rightarrow> (case on_world (TimeNow (cloud s)) st of (now, st1) \<Rightarrow> recycle_loop s now kvs st1))"

section \<open>Releasing the surplus\<close>

fun release_loop ::
  "('d, 'w) ipamServer \<Rightarrow> string \<Rightarrow> nat \<Rightarrow> ('d, 'w) istate \<Rightarrow> ('d, 'w) istate" where
  "release_loop s pool 0 st = st"
| "release_loop s pool (Suc n) st =
     (case on_db (Bolt_Pop (bolt s) PodNetwork_codec pool) st of
        (Inl e, st1) \<Rightarrow> st1
      | (Inr (key, pn), st1) \<Rightarrow>
          (case on_world (uapiDeleteSecondaryIp s pn) st1 of
             (Some e, st2) \<Rightarrow> backupPushSecondaryIP s pn st2
           | (None, st2) \<Rightarrow> release_loop s pool n st2))"

definition releasePool ::
  "('d, 'w) ipamServer \<Rightarrow> string \<Rightarrow> nat \<Rightarrow> ('d, 'w) istate \<Rightarrow> ('d, 'w) istate" where
  "releasePool s pool sz st = release_loop s pool (nat (int sz - HighWatermark s)) st"

section \<open>Lending and borrowing\<close>

definition lendIP ::
  "('d, 'w) ipamServer \<Rightarrow> BorrowIPRequest \<Rightarrow> ('d, 'w) istate \<Rightarrow> PodNetwork result \<times> ('d, 'w) istate" where
  "lendIP s req st =
     (case getPool s (br_SubnetID req) False st of
        (Inl e, st1) \<Rightarrow> (Inl (Errorf ''failed to get pool: %v'' (Some e)), st1)
      | (Inr pool, st1) \<Rightarrow>
          (case on_db (Bolt_Pop (bolt s) PodNetwork_codec pool) st1 of
             (Inl e, st2) \<Rightarrow>
               (if IsEOF (Some e) then (Inl (Errors_New ''ip pool is empty''), st2)
                else (Inl (Errorf ''failed to pop ip from pool: %v'' (Some e)), st2))
           | (Inr (key, pn), st2) \<Rightarrow>
               (case on_world (uapiMoveSecondaryIPMac s pn (br_MacAddress req)) st2 of
                  (Some e, st3) \<Rightarrow>
                    (Inl (Errorf ''failed to call uapi to move ip: %v'' (Some e)), snd (putIpToPool s pn st3))
                | (None, st3) \<Rightarrow> (Inr (pn\<lparr>pn_MacAddress := br_MacAddress req\<rparr>), st3))))"

definition getCanonicalIpamdName :: "string \<times> string \<Rightarrow> string" where
  "getCanonicalIpamdName identity = fst identity @ ''-'' @ snd identity"

definition getIpamdPoolIdentity :: "Ipamd \<Rightarrow> string \<times> string" where
  "getIpamdPoolIdentity i = (im_Node i, im_Subnet i)"

definition select_candidate :: "Ipamd list \<Rightarrow> Ipamd" where
  "select_candidate nodeIpamds =
     (let selected = hd nodeIpamds in
      if length nodeIpamds > 1 then
        (case List.find (\<lambda>i. im_Name i = getCanonicalIpamdName (getIpamdPoolIdentity selected)) nodeIpamds of
           Some i \<Rightarrow> i
         | None \<Rightarrow> selected)
      else selected)"

type_synonym 'k map_order = "('k \<times> Ipamd list) list \<Rightarrow> ('k \<times> Ipamd list) list"

definition filterBorrowCandidates :: "string map_order \<Rightarrow> Ipamd list \<Rightarrow> Ipamd list" where
  "filterBorrowCandidates ord ipamds = map (\<lambda>(_, is). select_candidate is) (ord (group_by im_Node ipamds))"

text \<open>The filter of \<open>borrowIP\<close> over the listed resources.\<close>

fun borrow_collect ::
  "('d, 'w) ipamServer \<Rightarrow> string \<Rightarrow> Ipamd list \<Rightarrow> 'w \<Rightarrow> Ipamd list result \<times> 'w" where
  "borrow_collect s currentSubnet [] w = (Inr [], w)"
| "borrow_collect s currentSubnet (i # is) w =
     (if im_Node i = nodeName s \<or> is_Status (im_Status i) = StatusDry \<or> im_Subnet i \<noteq> currentSubnet
      then borrow_collect s currentSubnet is w
      else case NodesGet (kube s) (im_Node i) w of
        (Inl e, w1) \<Rightarrow>
          (if kube_IsNotFound e then borrow_collect s currentSubnet is w1
           else (Inl (Errorf ''call kube-client to get node %s: %v'' (Some e)), w1))
      | (Inr _, w1) \<Rightarrow>
          (case borrow_collect s currentSubnet is w1 of
             (Inl e, w2) \<Rightarrow> (Inl e, w2)
           | (Inr rest, w2) \<Rightarrow> (Inr (i # rest), w2)))"

text \<open>
  \<open>sort.Slice\<close> may leave equal elements in any order; the order is that of \<open>ord\<close>, which is
  arbitrary too.
\<close>

definition sort_candidates :: "Ipamd list \<Rightarrow> Ipamd list" where
  "sort_candidates is = sort_key (\<lambda>i. - int (is_Current (im_Status i))) is"

fun borrow_loop ::
  "('d, 'w) ipamServer \<Rightarrow> AddPodNetworkRequest \<Rightarrow> Ipamd list \<Rightarrow> 'w \<Rightarrow> PodNetwork result \<times> 'w" where
  "borrow_loop s req [] w = (Inl (Errors_New ''failed to borrow ip from other ipamd''), w)"
| "borrow_loop s req (i # is) w =
     (case Dial_BorrowIP (kube s) (im_Addr i)
             \<lparr>br_MacAddress = ar_MacAddress req, br_SubnetID = ar_SubnetID req\<rparr> w of
        (Inl e, w1) \<Rightarrow> borrow_loop s req is w1
      | (Inr resp, w1) \<Rightarrow>
          (case bs_IP resp of
             None \<Rightarrow> borrow_loop s req is w1
           | Some pn \<Rightarrow> (Inr (pn\<lparr>pn_Recycled := False\<rparr>), w1)))"

definition borrowIP ::
  "('d, 'w) ipamServer \<Rightarrow> string map_order \<Rightarrow> AddPodNetworkRequest \<Rightarrow> 'w \<Rightarrow> PodNetwork result \<times> 'w" where
  "borrowIP s ord req w =
     (case IpamdsList (kube s) w of
        (Inl e, w1) \<Rightarrow> (Inl (Errorf ''failed to list ipamd resources: %v'' (Some e)), w1)
      | (Inr items, w1) \<Rightarrow>
          (if length items \<le> 1 then (Inl (Errors_New ''no other ipamd to borrow ip''), w1)
           else case borrow_collect s (ar_SubnetID req) items w1 of
             (Inl e, w2) \<Rightarrow> (Inl e, w2)
           | (Inr ipamds, w2) \<Rightarrow>
               (if ipamds = [] then (Inl (Errors_New ''no ipamd to borrow''), w2)
                else borrow_loop s req (sort_candidates (filterBorrowCandidates ord ipamds)) w2)))"

section \<open>Assigning an address\<close>

definition convertIpToPodNetwork ::
  "('d, 'w) ipamServer \<Rightarrow> IpInfo \<Rightarrow> string \<Rightarrow> 'w \<Rightarrow> PodNetwork \<times> 'w" where
  "convertIpToPodNetwork s ip ifaceID w =
     (case TimeNow (cloud s) w of
        (now, w1) \<Rightarrow>
          (PodNetwork_zero\<lparr>pn_VPCIP := ii_Ip ip, pn_VPCID := ii_VPCId ip, pn_SubnetID := ii_SubnetId ip,
             pn_Mask := ii_Mask ip, pn_MacAddress := ii_Mac ip, pn_Gateway := ii_Gateway ip,
             pn_InterfaceID := ifaceID, pn_DedicatedUNI := False, pn_CreateTime := now\<rparr>, w1))"

definition assignPodIP ::
  "('d, 'w) ipamServer \<Rightarrow> string map_order \<Rightarrow> AddPodNetworkRequest \<Rightarrow> ('d, 'w) istate \<Rightarrow>
    PodNetwork result \<times> ('d, 'w) istate" where
  "assignPodIP s ord req st =
     (case getPool s (ar_SubnetID req) True st of
        (Inl e, st1) \<Rightarrow> (Inl (Errorf ''failed to get pool to assign ip: %v'' (Some e)), st1)
      | (Inr pool, st1) \<Rightarrow>
          (case on_db (Bolt_Pop (bolt s) PodNetwork_codec pool) st1 of
             (Inr (key, pn), st2) \<Rightarrow> (Inr pn, st2)
           | (Inl e, st2) \<Rightarrow>
               (if IsEOF (Some e) then
                  (case on_world (uapiAllocateSecondaryIP s req) st2 of
                     (Inr ip, st3) \<Rightarrow>
                       (case on_world (convertIpToPodNetwork s ip (ar_InterfaceID req)) st3 of
                          (pn, st4) \<Rightarrow> (Inr pn, st4))
                   | (Inl e1, st3) \<Rightarrow>
                       (if e1 = ErrOutOfIP then
                          (case on_world (borrowIP s ord req) st3 of
                             (Inl e2, st4) \<Rightarrow>
                               (Inl (Errorf ''vpc out of ip, and failed to borrow from others: %v'' (Some e2)), st4)
                           | (Inr pn, st4) \<Rightarrow> (Inr pn, st4))
                        else (Inl e1, st3)))
                else (Inl e, st2))))"

section \<open>The status resources\<close>

definition classify :: "('d, 'w) ipamServer \<Rightarrow> nat \<Rightarrow> PoolStatus" where
  "classify s watermark =
     (if watermark \<le> 0 then StatusDry
      else if int watermark < LowWatermark s then StatusHungry
      else if int watermark \<ge> LowWatermark s \<and> int watermark < HighWatermark s then StatusNormal
      else StatusOverflow)"

definition updateStatus ::
  "('d, 'w) ipamServer \<Rightarrow> string \<Rightarrow> ('d, 'w) istate \<Rightarrow> gerror option \<times> ('d, 'w) istate" where
  "updateStatus s key st =
     (case getPoolSubnetID s key of
        (subnetID, defaultSubnet) \<Rightarrow>
     (case Bolt_Count (bolt s) key (dbHandler st) of
        Inl e \<Rightarrow> (Some (Errorf ''count pool size error: %v'' (Some e)), st)
      | Inr watermark \<Rightarrow>
          (let status = \<lparr>is_Current = watermark, is_High = HighWatermark s, is_Low = LowWatermark s,
                         is_Status = classify s watermark\<rparr>;
               name = (if defaultSubnet then nodeName s else nodeName s @ ''-'' @ subnetID)
           in case on_world (IpamdsGet (kube s) name) st of
                (Inl e, st1) \<Rightarrow>
                  (if kube_IsNotFound e then
                     (case on_world (IpamdsCreate (kube s)
                              \<lparr>im_Name = name, im_Node = nodeName s, im_Addr = tcpAddr s,
                               im_Subnet = subnetID, im_Status = status\<rparr>) st1 of
                        (Some e1, st2) \<Rightarrow> (Some (Errorf ''faield to create ipamd resource: %v'' (Some e1)), st2)
                      | (None, st2) \<Rightarrow> (None, st2))
                   else (Some (Errorf ''failed to get ipamd resource: %v'' (Some e)), st1))
              | (Inr ipamdInfo, st1) \<Rightarrow>
                  (if im_Status ipamdInfo = status then (None, st1)
                   else case on_world (IpamdsUpdate (kube s) (ipamdInfo\<lparr>im_Status := status\<rparr>)) st1 of
                     (Some e1, st2) \<Rightarrow> (Some (Errorf ''failed to update ipamd resource: %v'' (Some e1)), st2)
                   | (None, st2) \<Rightarrow> (None, st2)))))"

text \<open>The first loop of \<open>recycleStatus\<close>: delete the resources of dead nodes, keep the others.\<close>

fun recycle_dead ::
  "('d, 'w) ipamServer \<Rightarrow> string list \<Rightarrow> Ipamd list \<Rightarrow> 'w \<Rightarrow> Ipamd list \<times> 'w" where
  "recycle_dead s nodes [] w = ([], w)"
| "recycle_dead s nodes (i # is) w =
     (if im_Node i \<in> set nodes then
        (case recycle_dead s nodes is w of (kept, w1) \<Rightarrow> (i # kept, w1))
      else case IpamdsDelete (kube s) (im_Name i) w of (_, w1) \<Rightarrow> recycle_dead s nodes is w1)"

text \<open>The resources of the second loop that are deleted: the exact alias of the own node.\<close>

definition alias_victims :: "('d, 'w) ipamServer \<Rightarrow> ((string \<times> string) \<times> Ipamd list) list \<Rightarrow> string list" where
  "alias_victims s groups = concat (map (\<lambda>(identity, ipamds).
     if fst identity \<noteq> nodeName s \<or> length ipamds \<le> 1 then []
     else if \<not> (\<exists>i \<in> set ipamds. im_Name i = getCanonicalIpamdName identity) then []
     else map im_Name (filter (\<lambda>i. im_Name i = fst identity) ipamds)) groups)"

fun delete_all :: "('d, 'w) ipamServer \<Rightarrow> string list \<Rightarrow> 'w \<Rightarrow> 'w" where
  "delete_all s [] w = w"
| "delete_all s (n # ns) w = delete_all s ns (snd (IpamdsDelete (kube s) n w))"

definition recycleStatus ::
  "('d, 'w) ipamServer \<Rightarrow> (string \<times> string) map_order \<Rightarrow> 'w \<Rightarrow> gerror option \<times> 'w" where
  "recycleStatus s ord w =
     (case IpamdsList (kube s) w of
        (Inl e, w1) \<Rightarrow> (Some (Errorf ''list ipamd items error: %v'' (Some e)), w1)
      | (Inr ipamds, w1) \<Rightarrow>
          (case NodesList (kube s) w1 of
             (Inl e, w2) \<Rightarrow> (Some (Errorf ''list node items error: %v'' (Some e)), w2)
           | (Inr nodes, w2) \<Rightarrow>
               (case recycle_dead s nodes ipamds w2 of
                  (kept, w3) \<Rightarrow>
                    (None, delete_all s (alias_victims s (ord (group_by getIpamdPoolIdentity kept))) w3))))"

end
