(* ===== verification/Ipamd_Static.thy ===== *)
theory Ipamd_Static
  imports Ipamd_Pool
begin

text \<open>
  Static addresses of stateful sets and the assignment of an address to a pod:
  \<open>pkg/ipamd/k8s.go\<close>, \<open>pkg/ipamd/vpcclaim.go\<close>, and \<open>assignStaticPodIP\<close> and \<open>getPodIp\<close> of
  \<open>pool.go\<close>.
\<close>

section \<open>k8s.go\<close>

definition AnnotationCalicoPolicyPodIP :: string where
  "AnnotationCalicoPolicyPodIP = ''cni.projectcalico.org/podIP''"

definition STS_ENABLE_STATIC_IP :: string where
  "STS_ENABLE_STATIC_IP = ''network.beta.kubernetes.io/ucloud-statefulset-static-ip''"

definition STS_STATIC_IP_RELEASE :: string where
  "STS_STATIC_IP_RELEASE = ''network.beta.kubernetes.io/ucloud-statefulset-ip-claim-policy''"

definition getPod :: "('d, 'w) ipamServer \<Rightarrow> string \<Rightarrow> string \<Rightarrow> 'w \<Rightarrow> Pod result \<times> 'w" where
  "getPod s podName podNS w = PodsGet (kube s) podNS podName w"

definition getLocalPods :: "('d, 'w) ipamServer \<Rightarrow> 'w \<Rightarrow> Pod list result \<times> 'w" where
  "getLocalPods s w =
     (case PodsListOnNode (kube s) (nodeName s) w of
        (Inl e, w1) \<Rightarrow> (Inl (Errors_New ''failed to list pods on %s from apiserver''), w1)
      | (Inr pods, w1) \<Rightarrow> (Inr pods, w1))"

definition getKubeNodeLabel ::
  "('d, 'w) ipamServer \<Rightarrow> string \<Rightarrow> string \<Rightarrow> 'w \<Rightarrow> string result \<times> 'w" where
  "getKubeNodeLabel s node key w =
     (case NodesGet (kube s) node w of
        (Inl e, w1) \<Rightarrow> (Inl e, w1)
      | (Inr labels, w1) \<Rightarrow>
          (case labels key of
             Some val \<Rightarrow> (Inr val, w1)
           | None \<Rightarrow> (Inl (Errors_New ''cannot find label %v for node %s''), w1)))"

definition setPodAnnotation ::
  "('d, 'w) ipamServer \<Rightarrow> Pod \<Rightarrow> labels \<Rightarrow> 'w \<Rightarrow> gerror option \<times> 'w" where
  "setPodAnnotation s pod pairs w =
     RetryOnConflict (kube s) (PodsPatch (kube s) (pod_Namespace pod) (pod_Name pod) pairs) w"

definition setAnnotationForCalicoPolicy ::
  "('d, 'w) ipamServer \<Rightarrow> Pod \<Rightarrow> PodNetwork \<Rightarrow> 'w \<Rightarrow> gerror option \<times> 'w" where
  "setAnnotationForCalicoPolicy s pod network w =
     (if \<not> CalicoPolicyFlag s then (None, w)
      else setPodAnnotation s pod ((pod_Annotations pod)(AnnotationCalicoPolicyPodIP \<mapsto> pn_VPCIP network)) w)"

definition IsPodEnableStaticIP ::
  "'w kube_api \<Rightarrow> string \<Rightarrow> string \<Rightarrow> 'w \<Rightarrow> (bool \<times> Pod) result \<times> 'w" where
  "IsPodEnableStaticIP Q podName podNS w =
     (case PodsGet Q podNS podName w of
        (Inl e, w1) \<Rightarrow> (Inl e, w1)
      | (Inr pod, w1) \<Rightarrow>
          (let statefulset = (\<exists>ow \<in> set (pod_Owners pod). fst ow = ''StatefulSet'') in
           if \<not> statefulset then (Inr (False, pod), w1)
           else case pod_Annotations pod STS_ENABLE_STATIC_IP of
             Some val \<Rightarrow> (Inr (ToLower val = ''true'', pod), w1)
           | None \<Rightarrow> (Inr (False, pod), w1)))"

definition podEnableStaticIP ::
  "('d, 'w) ipamServer \<Rightarrow> string \<Rightarrow> string \<Rightarrow> 'w \<Rightarrow> (bool \<times> Pod) result \<times> 'w" where
  "podEnableStaticIP s podName podNS w =
     (case IsPodEnableStaticIP (kube s) podName podNS w of
        (Inl e, w1) \<Rightarrow> (Inl e, w1)
      | (Inr (enabled, pod), w1) \<Rightarrow>
          (if \<not> enabled then (Inr (enabled, pod), w1)
           else case VipsListNamed (kube s) podNS podName w1 of
             (Some e, w2) \<Rightarrow>
               (Inl (Wrap ''ipamd.ipamServer.podEnableStaticIP static IP requires an available VpcIPClaim API'' e), w2)
           | (None, w2) \<Rightarrow> (Inr (True, pod), w2)))"

section \<open>vpcclaim.go\<close>

definition createVpcIpClaim :: "('d, 'w) ipamServer \<Rightarrow> VpcIpClaim \<Rightarrow> 'w \<Rightarrow> VpcIpClaim result \<times> 'w" where
  "createVpcIpClaim s vip w =
     (case VipsCreate (kube s) vip w of
        (Inl e, w1) \<Rightarrow> (Inl (Wrap ''ipamd.ipamServer.createVpcIpClaim create Claim'' e), w1)
      | (Inr claim, w1) \<Rightarrow> (Inr claim, w1))"

definition getVpcipClaim ::
  "('d, 'w) ipamServer \<Rightarrow> string \<Rightarrow> string \<Rightarrow> 'w \<Rightarrow> VpcIpClaim result \<times> 'w" where
  "getVpcipClaim s podNS podName w = VipsGet (kube s) podNS podName w"

text \<open>The body that \<open>markVPCIpClaimAttached\<close> retries on conflict.\<close>

definition mark_attached_once ::
  "('d, 'w) ipamServer \<Rightarrow> AddPodNetworkRequest \<Rightarrow> VpcIpClaim \<Rightarrow> string \<Rightarrow> 'w \<Rightarrow> gerror option \<times> 'w" where
  "mark_attached_once s req vip0 sandboxId w =
     (case VipsGet (kube s) (vc_Namespace vip0) (vc_Name vip0) w of
        (Inl e, w1) \<Rightarrow> (Some e, w1)
      | (Inr vip, w1) \<Rightarrow>
          (let labels = (case vc_Labels vip of Some l \<Rightarrow> l(''attached'' \<mapsto> ''true'') | None \<Rightarrow> [''attached'' \<mapsto> ''true'']);
               vip1 = vip\<lparr>vc_Labels := Some labels, vc_Finalizers := [''cni-vpc-ipamd''], vc_Attached := True,
                 vc_ReleaseTime := ''Never'', vc_SandboxId := sandboxId, vc_Mac := ar_MacAddress req,
                 vc_Zone := zoneId s\<rparr>
           in case getPod s (vc_Name vip) (vc_Namespace vip) w1 of
                (Inl _, w2) \<Rightarrow> VipsUpdate (kube s) vip1 w2
              | (Inr pod, w2) \<Rightarrow>
                  (case pod_Annotations pod STS_STATIC_IP_RELEASE of
                     Some val \<Rightarrow> VipsUpdate (kube s) (vip1\<lparr>vc_ReleaseTime := val\<rparr>) w2
                   | None \<Rightarrow> VipsUpdate (kube s) vip1 w2)))"

definition markVPCIpClaimAttached ::
  "('d, 'w) ipamServer \<Rightarrow> AddPodNetworkRequest \<Rightarrow> VpcIpClaim \<Rightarrow> string \<Rightarrow> 'w \<Rightarrow> gerror option \<times> 'w" where
  "markVPCIpClaimAttached s req vip sandboxId w =
     RetryOnConflict (kube s) (mark_attached_once s req vip sandboxId) w"

definition findStaticIp ::
  "('d, 'w) ipamServer \<Rightarrow> string \<Rightarrow> string \<Rightarrow> 'w \<Rightarrow> VpcIpClaim option result \<times> 'w" where
  "findStaticIp s podNS podName w =
     (case getVpcipClaim s podNS podName w of
        (Inr vip, w1) \<Rightarrow> (Inr (Some vip), w1)
      | (Inl e, w1) \<Rightarrow> (if kube_IsNotFound e then (Inr None, w1) else (Inl e, w1)))"

definition getOwnerStatefulSetName :: "Pod \<Rightarrow> string" where
  "getOwnerStatefulSetName pod =
     (case List.find (\<lambda>(kind, _). kind = ''StatefulSet'') (pod_Owners pod) of
        Some (_, name) \<Rightarrow> name
      | None \<Rightarrow> [])"

definition VipToPodNetwork :: "('d, 'w) ipamServer \<Rightarrow> VpcIpClaim \<Rightarrow> 'w \<Rightarrow> PodNetwork \<times> 'w" where
  "VipToPodNetwork s vip w =
     (case TimeNow (cloud s) w of
        (now, w1) \<Rightarrow>
          (PodNetwork_zero\<lparr>pn_CreateTime := now, pn_VPCIP := vc_Ip vip, pn_VPCID := vc_VpcId vip,
             pn_SubnetID := vc_SubnetId vip, pn_Mask := vc_Mask vip, pn_MacAddress := vc_Mac vip,
             pn_Gateway := vc_Gateway vip, pn_PodName := vc_Name vip, pn_PodNS := vc_Namespace vip,
             pn_DedicatedUNI := False\<rparr>, w1))"

definition PodNetworkToVip :: "('d, 'w) ipamServer \<Rightarrow> PodNetwork \<Rightarrow> 'w \<Rightarrow> VpcIpClaim \<times> 'w" where
  "PodNetworkToVip s pn w =
     (case FormatNow (cloud s) w of
        (stamp, w1) \<Rightarrow>
          (\<lparr>vc_Name = pn_PodName pn, vc_Namespace = pn_PodNS pn, vc_Labels = None,
            vc_Finalizers = [''cni-vpc-ipamd''], vc_Ip = pn_VPCIP pn, vc_Mask = pn_Mask pn,
            vc_Gateway = pn_Gateway pn, vc_SubnetId = pn_SubnetID pn, vc_VpcId = pn_VPCID pn,
            vc_Attached = True, vc_Zone = [], vc_LastDetachTime = stamp, vc_Mac = pn_MacAddress pn,
            vc_ReleaseTime = ''Never'', vc_SandboxId = []\<rparr>, w1))"

text \<open>\<open>localAttach\<close> of a claim that is not \<open>nil\<close>: the MAC the address has now, as far as known.\<close>

definition previous_mac ::
  "('d, 'w) ipamServer \<Rightarrow> AddPodNetworkRequest \<Rightarrow> VpcIpClaim \<Rightarrow> 'w \<Rightarrow> string result \<times> 'w" where
  "previous_mac s req vip w =
     (case uapiDescribeSecondaryIp s (vc_Ip vip) (vc_SubnetId vip) w of
        (Inl _, w1) \<Rightarrow> (Inr (vc_Mac vip), w1)
      | (Inr (Some vpcIp), w1) \<Rightarrow> (Inr (ii_Mac vpcIp), w1)
      | (Inr None, w1) \<Rightarrow>
          (case uapiAllocateSpecifiedSecondaryIp s (vc_Ip vip) req w1 of
             (Inl e, w2) \<Rightarrow>
               (Inl (Errorf ''failed to allocate specify secondary ip %s in subnet %s err:%v'' (Some e)), w2)
           | (Inr vpcIp, w2) \<Rightarrow> (Inr (ii_Mac vpcIp), w2)))"

definition localAttach ::
  "('d, 'w) ipamServer \<Rightarrow> AddPodNetworkRequest \<Rightarrow> VpcIpClaim \<Rightarrow> string \<Rightarrow> 'w \<Rightarrow> VpcIpClaim result \<times> 'w" where
  "localAttach s req vip sandboxID w =
     (case previous_mac s req vip w of
        (Inl e, w1) \<Rightarrow> (Inl e, w1)
      | (Inr prevMac, w1) \<Rightarrow>
          (let (moved, w2) =
             (if prevMac \<noteq> ar_MacAddress req then
                uapiMoveSecondaryIPMac s (PodNetwork_zero\<lparr>pn_VPCIP := vc_Ip vip, pn_MacAddress := prevMac,
                  pn_SubnetID := vc_SubnetId vip\<rparr>) (ar_MacAddress req) w1
              else (None, w1))
           in case moved of
                Some e \<Rightarrow> (Inl (Errorf ''failed to move secondary ip %s in subnet %s from %s to %s, %v'' (Some e)), w2)
              | None \<Rightarrow>
                  (case markVPCIpClaimAttached s req vip sandboxID w2 of
                     (Some e, w3) \<Rightarrow> (Inl e, w3)
                   | (None, w3) \<Rightarrow> getVpcipClaim s (vc_Namespace vip) (vc_Name vip) w3)))"

text \<open>A rejection that means that the claim was not stored.\<close>

definition definite_rejection :: "gerror \<Rightarrow> bool" where
  "definite_rejection e \<longleftrightarrow> kube_reason_of e \<in> Some `
     {KNotFound, KForbidden, KUnauthorized, KInvalid, KBadRequest, KMethodNotSupported}"

definition createVpcIpClaimByPodNetwork ::
  "('d, 'w) ipamServer \<Rightarrow> AddPodNetworkRequest \<Rightarrow> PodNetwork \<Rightarrow> Pod \<Rightarrow> ('d, 'w) istate \<Rightarrow>
    VpcIpClaim result \<times> ('d, 'w) istate" where
  "createVpcIpClaimByPodNetwork s req pn pod st =
     (case on_world (PodNetworkToVip s pn) st of
        (vip, st1) \<Rightarrow>
          (let ownerSts = getOwnerStatefulSetName pod;
               vip1 = vip\<lparr>vc_Labels := Some (if ownerSts \<noteq> [] then [''owner-statefulset'' \<mapsto> ownerSts] else Map.empty)\<rparr>
           in case on_world (createVpcIpClaim s vip1) st1 of
                (Inl e, st2) \<Rightarrow>
                  (if definite_rejection e then (Inl e, snd (putIpToPool s pn st2)) else (Inl e, st2))
              | (Inr vpcclaim, st2) \<Rightarrow> on_world (localAttach s req vpcclaim (pn_SandboxID pn)) st2))"

section \<open>pool.go: the address of a pod\<close>

definition staticIpPodExists :: "('d, 'w) ipamServer \<Rightarrow> PodNetwork \<Rightarrow> 'w \<Rightarrow> bool \<times> 'w" where
  "staticIpPodExists s pn w =
     (case getVpcipClaim s (pn_PodNS pn) (pn_PodName pn) w of
        (Inl _, w1) \<Rightarrow> (False, w1)
      | (Inr _, w1) \<Rightarrow> (True, w1))"

definition assignStaticPodIP ::
  "('d, 'w) ipamServer \<Rightarrow> string map_order \<Rightarrow> Pod \<Rightarrow> string \<Rightarrow> AddPodNetworkRequest \<Rightarrow> ('d, 'w) istate \<Rightarrow>
    PodNetwork result \<times> ('d, 'w) istate" where
  "assignStaticPodIP s ord pod sandboxID req st =
     (case on_world (findStaticIp s (pod_Namespace pod) (pod_Name pod)) st of
        (Inl e, st1) \<Rightarrow> (Inl e, st1)
      | (Inr (Some vip), st1) \<Rightarrow>
          (case on_world (localAttach s req vip sandboxID) st1 of
             (Inl e, st2) \<Rightarrow> (Inl e, st2)
           | (Inr vip1, st2) \<Rightarrow> (case on_world (VipToPodNetwork s vip1) st2 of (pn, st3) \<Rightarrow> (Inr pn, st3)))
      | (Inr None, st1) \<Rightarrow>
          (case assignPodIP s ord req st1 of
             (Inl e, st2) \<Rightarrow> (Inl (Errors_New ''can not get static ip for %s/%s''), st2)
           | (Inr nvip, st2) \<Rightarrow>
               (case on_world (TimeNow (cloud s)) st2 of
                  (now, st3) \<Rightarrow>
                    (let nvip1 = nvip\<lparr>pn_CreateTime := now, pn_PodName := pod_Name pod,
                           pn_PodNS := pod_Namespace pod, pn_SandboxID := sandboxID\<rparr>
                     in case createVpcIpClaimByPodNetwork s req nvip1 pod st3 of
                          (Inl e, st4) \<Rightarrow> (Inl e, st4)
                        | (Inr _, st4) \<Rightarrow> (Inr nvip1, st4)))))"

text \<open>The second half of \<open>getPodIp\<close>: the checks on the address that was chosen.\<close>

definition verify_pod_ip ::
  "('d, 'w) ipamServer \<Rightarrow> bool \<Rightarrow> PodNetwork \<Rightarrow> ('d, 'w) istate \<Rightarrow> PodNetwork result \<times> ('d, 'w) istate" where
  "verify_pod_ip s enableStatic pn st =
     (case on_world (checkSecondaryIpExist s pn) st of
        (Inl e, st1) \<Rightarrow>
          (Inl (Errorf ''check ip %v status in vpc error: %v'' (Some e)),
           if \<not> enableStatic then snd (putIpToPool s pn st1) else st1)
      | (Inr ok, st1) \<Rightarrow>
          (if \<not> ok then (Inl (Errors_New ''ip %v does not exist on current node, we will try to use another one''), st1)
           else if \<not> pn_Recycled pn \<and> pn_VPCIP pn \<noteq> [] then
             (case on_world (checkIPConflict s (pn_VPCIP pn)) st1 of
                (Some e, st2) \<Rightarrow> (Inl e, backupReleaseSecondaryIP s pn st2)
              | (None, st2) \<Rightarrow> (Inr pn, st2))
           else (Inr pn, st1)))"

definition getPodIp ::
  "('d, 'w) ipamServer \<Rightarrow> string map_order \<Rightarrow> AddPodNetworkRequest \<Rightarrow> ('d, 'w) istate \<Rightarrow>
    PodNetwork result \<times> ('d, 'w) istate" where
  "getPodIp s ord req st =
     (case on_world (podEnableStaticIP s (ar_PodName req) (ar_PodNamespace req)) st of
        (Inl e, st1) \<Rightarrow> (Inl e, st1)
      | (Inr (enableStatic, pod), st1) \<Rightarrow>
          (case (if enableStatic then assignStaticPodIP s ord pod (ar_SandboxID req) req st1
                 else assignPodIP s ord req st1) of
             (Inl e, st2) \<Rightarrow> (Inl e, st2)
           | (Inr pn, st2) \<Rightarrow> verify_pod_ip s enableStatic pn st2))"

end
