(* ===== verification/Ipamd_Rpc.thy ===== *)
theory Ipamd_Rpc
  imports Ipamd_Static
begin

text \<open>
  The pool manager loop of \<open>pool.go\<close> as a step function on events, and the gRPC handlers of
  \<open>pkg/ipamd/rpc.go\<close>. Handlers reach the pools only by sending an event to the manager and
  waiting for its reply; the manager handles one event at a time, so a handler's call is one
  step of the manager.
\<close>

section \<open>The manager loop\<close>

text \<open>
  What a \<open>select\<close> of the loop receives: one of its three tickers, a request on one of its two
  channels, or the stop signal.
\<close>

datatype event =
    PoolTick
  | AddPodIP AddPodNetworkRequest
  | DelPodIP PodNetwork
  | CooldownTick
  | RecycleStatusTick
  | StopLoop

datatype reply = NoReply | AddReply "PodNetwork result" | DelReply "gerror option"

text \<open>The orders in which the run time iterates over the maps during one event.\<close>

record orders =
  o_pools :: "string list \<Rightarrow> string list"
  o_borrow :: "string map_order"
  o_recycle :: "(string \<times> string) map_order"

fun tick_pools ::
  "('d, 'w) ipamServer \<Rightarrow> string list \<Rightarrow> ('d, 'w) istate \<Rightarrow> ('d, 'w) istate" where
  "tick_pools s [] st = st"
| "tick_pools s (key # keys) st =
     (case Bolt_Count (bolt s) key (dbHandler st) of
        Inl e \<Rightarrow> tick_pools s keys st
      | Inr sz \<Rightarrow> tick_pools s keys (if int sz > HighWatermark s then releasePool s key sz st else st))"

fun update_all ::
  "('d, 'w) ipamServer \<Rightarrow> string list \<Rightarrow> ('d, 'w) istate \<Rightarrow> ('d, 'w) istate" where
  "update_all s [] st = st"
| "update_all s (key # keys) st = update_all s keys (snd (updateStatus s key st))"

definition complete_request :: "('d, 'w) ipamServer \<Rightarrow> AddPodNetworkRequest \<Rightarrow> AddPodNetworkRequest" where
  "complete_request s req =
     (let r1 = (if ar_SubnetID req = [] then req\<lparr>ar_SubnetID := ac_subnetId (uapi s)\<rparr> else req)
      in if ar_MacAddress r1 = [] then r1\<lparr>ar_MacAddress := masterMacAddress s\<rparr> else r1)"

text \<open>
  One turn of the loop, with the reply sent. The deletion of a static address ends its turn at
  once; every other event but the stop ends with the update of all status resources.
\<close>

definition manager_step ::
  "('d, 'w) ipamServer \<Rightarrow> orders \<Rightarrow> event \<Rightarrow> ('d, 'w) istate \<Rightarrow> reply \<times> ('d, 'w) istate" where
  "manager_step s ords ev st =
     (let finish = (\<lambda>st'. update_all s (o_pools ords (poolDB st')) st') in
      case ev of
        PoolTick \<Rightarrow> (NoReply, finish (tick_pools s (o_pools ords (poolDB st)) st))
      | AddPodIP req \<Rightarrow>
          (case getPodIp s (o_borrow ords) (complete_request s req) st of
             (r, st1) \<Rightarrow> (AddReply r, finish st1))
      | DelPodIP pn \<Rightarrow>
          (case on_world (staticIpPodExists s pn) st of
             (True, st1) \<Rightarrow> (DelReply None, st1)
           | (False, st1) \<Rightarrow> (DelReply None, finish (cooldownIP s pn st1)))
      | CooldownTick \<Rightarrow> (NoReply, finish (recycleCooldownIP s st))
      | RecycleStatusTick \<Rightarrow>
          (case on_world (recycleStatus s (o_recycle ords)) st of (_, st1) \<Rightarrow> (NoReply, finish st1))
      | StopLoop \<Rightarrow> (NoReply, st))"

text \<open>The loop over a finite run of events, up to the stop.\<close>

fun ipPoolWatermarkManager ::
  "('d, 'w) ipamServer \<Rightarrow> (orders \<times> event) list \<Rightarrow> ('d, 'w) istate \<Rightarrow> reply list \<times> ('d, 'w) istate" where
  "ipPoolWatermarkManager s [] st = ([], st)"
| "ipPoolWatermarkManager s ((ords, ev) # evs) st =
     (if ev = StopLoop then ([], st)
      else case manager_step s ords ev st of
        (r, st1) \<Rightarrow> (case ipPoolWatermarkManager s evs st1 of (rs, st2) \<Rightarrow> (r # rs, st2)))"

section \<open>rpc.go\<close>

definition status_Internal :: "gerror \<Rightarrow> gerror" where
  "status_Internal e = Errorf ''rpc error: code = Internal desc = %v'' (Some e)"

definition status_InvalidArgument :: "string \<Rightarrow> gerror" where
  "status_InvalidArgument m = Errorf ''rpc error: code = InvalidArgument desc = %v'' (Some (Errors_New m))"

definition AddPodNetwork ::
  "('d, 'w) ipamServer \<Rightarrow> orders \<Rightarrow> AddPodNetworkRequest \<Rightarrow> ('d, 'w) istate \<Rightarrow>
    (AddPodNetworkResponse \<times> gerror option) \<times> ('d, 'w) istate" where
  "AddPodNetwork s ords req st =
     (case on_world (getPod s (ar_PodName req) (ar_PodNamespace req)) st of
        (Inl e, st1) \<Rightarrow>
          ((\<lparr>as_Code = CNIK8SAPIError, as_PodNetwork = None\<rparr>, Some (status_Internal e)), st1)
      | (Inr p, st1) \<Rightarrow>
          (case manager_step s ords (AddPodIP req) st1 of
             (AddReply (Inr pn), st2) \<Rightarrow>
               (case on_world (setAnnotationForCalicoPolicy s p pn) st2 of
                  (Some e, st3) \<Rightarrow>
                    ((\<lparr>as_Code = CNIAllocateSecondaryIPFailure, as_PodNetwork = None\<rparr>, Some (status_Internal e)),
                     backupReleaseSecondaryIP s pn st3)
                | (None, st3) \<Rightarrow>
                    ((\<lparr>as_Code = CNISuccess,
                       as_PodNetwork = Some (pn\<lparr>pn_PodName := ar_PodName req, pn_PodNS := ar_PodNamespace req,
                         pn_SandboxID := ar_SandboxID req, pn_PodUID := pod_UID p, pn_NetNS := ar_Netns req\<rparr>)\<rparr>,
                      None), st3))
           | (AddReply (Inl e), st2) \<Rightarrow>
               ((\<lparr>as_Code = CNIAllocateSecondaryIPFailure, as_PodNetwork = None\<rparr>, Some (status_Internal e)), st2)
           | (_, st2) \<Rightarrow>
               ((\<lparr>as_Code = CNIAllocateSecondaryIPFailure, as_PodNetwork = None\<rparr>, None), st2)))"

definition DelPodNetwork ::
  "('d, 'w) ipamServer \<Rightarrow> orders \<Rightarrow> DelPodNetworkRequest \<Rightarrow> ('d, 'w) istate \<Rightarrow>
    (CNIErrorCode \<times> gerror option) \<times> ('d, 'w) istate" where
  "DelPodNetwork s ords req st =
     (case dr_PodNetwork req of
        None \<Rightarrow> ((CNISuccess, None), st)
      | Some pn \<Rightarrow>
          (case manager_step s ords (DelPodIP pn) st of
             (DelReply (Some e), st1) \<Rightarrow>
               ((CNIReleaseSecondaryIPFailure,
                 Some (status_Internal (Errorf ''failed to delete secondary ip, %v'' (Some e)))), st1)
           | (_, st1) \<Rightarrow> ((CNISuccess, None), st1)))"

definition record_key :: "RecordKeyRequest \<Rightarrow> string" where
  "record_key req = PodKey (rk_PodName req) (rk_PodNS req) (rk_SandboxID req)"

definition AddPodNetworkRecord ::
  "('d, 'w) ipamServer \<Rightarrow> AddPodNetworkRecordRequest \<Rightarrow> ('d, 'w) istate \<Rightarrow>
    (CNIErrorCode \<times> gerror option) \<times> ('d, 'w) istate" where
  "AddPodNetworkRecord s req st =
     (let pn = arr_PodNetwork req in
      case on_db (Bolt_Put (bolt s) PodNetwork_codec NetworkDBName
             (PodKey (pn_PodName pn) (pn_PodNS pn) (pn_SandboxID pn)) pn) st of
        (None, st1) \<Rightarrow> ((CNISuccess, None), st1)
      | (Some e, st1) \<Rightarrow>
          ((CNIWriteDBError,
            Some (status_Internal (Errorf ''failed to write pod network into db: %v'' (Some e)))), st1))"

definition DelPodNetworkRecord ::
  "('d, 'w) ipamServer \<Rightarrow> RecordKeyRequest \<Rightarrow> ('d, 'w) istate \<Rightarrow>
    (CNIErrorCode \<times> gerror option) \<times> ('d, 'w) istate" where
  "DelPodNetworkRecord s req st =
     (case on_db (Bolt_Delete (bolt s) NetworkDBName (record_key req)) st of
        (None, st1) \<Rightarrow> ((CNISuccess, None), st1)
      | (Some e, st1) \<Rightarrow>
          ((CNIWriteDBError,
            Some (status_Internal (Errorf ''failed to write pod network into db: %v'' (Some e)))), st1))"

definition GetPodNetworkRecord ::
  "('d, 'w) ipamServer \<Rightarrow> RecordKeyRequest \<Rightarrow> ('d, 'w) istate \<Rightarrow>
    AddPodNetworkResponse \<times> gerror option" where
  "GetPodNetworkRecord s req st =
     (case Bolt_Get (bolt s) PodNetwork_codec NetworkDBName (record_key req) (dbHandler st) of
        Inl e \<Rightarrow>
          (if IsNotFound (Some e) then (\<lparr>as_Code = CNISuccess, as_PodNetwork = None\<rparr>, None)
           else (\<lparr>as_Code = CNIReadDBError, as_PodNetwork = None\<rparr>,
                 Some (status_Internal (Errorf ''failed to read pod network from db: %v'' (Some e)))))
      | Inr p \<Rightarrow> (\<lparr>as_Code = CNISuccess, as_PodNetwork = Some p\<rparr>, None))"

definition ListPodNetworkRecord ::
  "('d, 'w) ipamServer \<Rightarrow> ('d, 'w) istate \<Rightarrow> ListPodNetworkRecordResponse \<times> gerror option" where
  "ListPodNetworkRecord s st =
     (case Bolt_List (bolt s) PodNetwork_codec NetworkDBName (dbHandler st) of
        Inl e \<Rightarrow>
          (\<lparr>ls_Code = CNIReadDBError, ls_Networks = []\<rparr>,
           Some (status_Internal (Errorf ''failed to read pod network from db: %v'' (Some e))))
      | Inr kvs \<Rightarrow> (\<lparr>ls_Code = CNISuccess, ls_Networks = map snd kvs\<rparr>, None))"

definition BorrowIP ::
  "('d, 'w) ipamServer \<Rightarrow> BorrowIPRequest \<Rightarrow> ('d, 'w) istate \<Rightarrow>
    (BorrowIPResponse \<times> gerror option) \<times> ('d, 'w) istate" where
  "BorrowIP s req st =
     (if br_MacAddress req = [] then
        ((\<lparr>bs_Code = CNIMissingParameters, bs_IP = None\<rparr>, Some (status_InvalidArgument ''missing MacAddr'')), st)
      else if br_SubnetID req = [] then
        ((\<lparr>bs_Code = CNIMissingParameters, bs_IP = None\<rparr>, Some (status_InvalidArgument ''missing SubnetID'')), st)
      else case lendIP s req st of
        (Inl e, st1) \<Rightarrow>
          ((\<lparr>bs_Code = CNIBorrowIPFailure, bs_IP = None\<rparr>,
            Some (status_Internal (Errorf ''failed to borrow ip: %v'' (Some e)))), st1)
      | (Inr ip, st1) \<Rightarrow> ((\<lparr>bs_Code = CNISuccess, bs_IP = Some ip\<rparr>, None), st1))"

definition SupportMultiSubnet :: SupportMultiSubnetResponse where
  "SupportMultiSubnet = \<lparr>ms_Code = CNISuccess, ms_Support = True\<rparr>"

section \<open>resource.go: reconciling the records with the pods\<close>

text \<open>
  The inner loop over the local pods for one record: the pods seen so far decide when the record
  is an orphan. \<open>LiveRecord\<close> is a \<open>break\<close> at the record's own pod, \<open>CompleteRecord\<close> the \<open>break\<close>
  after its missing UID was filled in, \<open>OrphanRecord\<close> that the last pod was reached without a
  \<open>break\<close>; without pods none of them happens.
\<close>

datatype verdict = LiveRecord | CompleteRecord string | OrphanRecord | NoVerdict

fun match_pods :: "PodNetwork \<Rightarrow> Pod list \<Rightarrow> verdict" where
  "match_pods pn [] = NoVerdict"
| "match_pods pn (p # ps) =
     (if pod_Name p = pn_PodName pn \<and> pod_Namespace p = pn_PodNS pn \<and> pod_UID p = pn_PodUID pn then LiveRecord
      else if pod_Name p = pn_PodName pn \<and> pod_Namespace p = pn_PodNS pn \<and> pn_PodUID pn = []
        then CompleteRecord (pod_UID p)
      else if ps = [] then OrphanRecord
      else match_pods pn ps)"

fun reconcile_records ::
  "('d, 'w) ipamServer \<Rightarrow> Pod list \<Rightarrow> PodNetwork KeyValue list \<Rightarrow> ('d, 'w) istate \<Rightarrow>
    string list \<times> ('d, 'w) istate" where
  "reconcile_records s pods [] st = ([], st)"
| "reconcile_records s pods ((key, pn) # kvs) st =
     (case match_pods pn pods of
        CompleteRecord uid \<Rightarrow>
          reconcile_records s pods kvs
            (snd (on_db (Bolt_Put (bolt s) PodNetwork_codec NetworkDBName key (pn\<lparr>pn_PodUID := uid\<rparr>)) st))
      | OrphanRecord \<Rightarrow>
          (case reconcile_records s pods kvs st of (orphans, st1) \<Rightarrow> (key # orphans, st1))
      | _ \<Rightarrow> reconcile_records s pods kvs st)"

fun delete_records ::
  "('d, 'w) ipamServer \<Rightarrow> string list \<Rightarrow> ('d, 'w) istate \<Rightarrow> ('d, 'w) istate" where
  "delete_records s [] st = st"
| "delete_records s (key # keys) st =
     delete_records s keys (snd (on_db (Bolt_Delete (bolt s) NetworkDBName key) st))"

definition doReconcile :: "('d, 'w) ipamServer \<Rightarrow> ('d, 'w) istate \<Rightarrow> ('d, 'w) istate" where
  "doReconcile s st =
     (case on_world (getLocalPods s) st of
        (Inl e, st1) \<Rightarrow> st1
      | (Inr folks, st1) \<Rightarrow>
          (case Bolt_List (bolt s) PodNetwork_codec NetworkDBName (dbHandler st1) of
             Inl e \<Rightarrow> st1
           | Inr kvs \<Rightarrow>
               (case reconcile_records s folks kvs st1 of (orphans, st2) \<Rightarrow> delete_records s orphans st2)))"

definition uni_limit :: "int \<Rightarrow> nat" where
  "uni_limit cpuNo =
     (if cpuNo > 64 then 15 else if cpuNo > 32 then 12 else if cpuNo > 8 then 8
      else if cpuNo > 4 then 4 else if cpuNo > 2 then 3 else 2)"

text \<open>\<open>GetNodeUNILimits\<close>, given the answer of the metadata server and the number of CPUs.\<close>

definition GetNodeUNILimits :: "string result \<Rightarrow> int \<Rightarrow> nat" where
  "GetNodeUNILimits cpu numCPU =
     (case cpu of
        Inl e \<Rightarrow> 1
      | Inr c \<Rightarrow> uni_limit (case Atoi c of Inl _ \<Rightarrow> numCPU | Inr n \<Rightarrow> n))"

section \<open>svc.go: start and migration\<close>

text \<open>The identity of the host from the labels of its node; \<open>None\<close> is a fatal exit.\<close>

definition init_host ::
  "('d, 'w) ipamServer \<Rightarrow> 'w \<Rightarrow> (string \<times> string) option \<times> 'w" where
  "init_host s w =
     (case getKubeNodeLabel s (nodeName s) ''UhostID'' w of
        (Inl e, w1) \<Rightarrow> (None, w1)
      | (Inr host, w1) \<Rightarrow>
          (case getKubeNodeLabel s (nodeName s) ''failure-domain.beta.kubernetes.io/zone'' w1 of
             (Inr zone, w2) \<Rightarrow> (Some (host, zone), w2)
           | (Inl e, w2) \<Rightarrow>
               (case getKubeNodeLabel s (nodeName s) ''topology.kubernetes.io/zone'' w2 of
                  (Inl e, w3) \<Rightarrow> (None, w3)
                | (Inr zone, w3) \<Rightarrow> (Some (host, zone), w3))))"

definition DefaultListenTCPPort :: int where "DefaultListenTCPPort = 7312"

definition listen_addr :: "string \<Rightarrow> string \<Rightarrow> string" where
  "listen_addr env ip = (if env = [] then ip @ '':'' @ Itoa DefaultListenTCPPort else env)"

text \<open>The migration loop, with fuel: the number of entries of the old pool is enough.\<close>

fun migrate_loop ::
  "('d, 'w) ipamServer \<Rightarrow> nat \<Rightarrow> string \<Rightarrow> ('d, 'w) istate \<Rightarrow> gerror option option \<times> ('d, 'w) istate" where
  "migrate_loop s 0 newPool st = (None, st)"
| "migrate_loop s (Suc fuel) newPool st =
     (case on_db (Bolt_Pop (bolt s) PodNetwork_codec PoolDBName) st of
        (Inl e, st1) \<Rightarrow> (Some (if IsEOF (Some e) then None else Some e), st1)
      | (Inr (key, v), st1) \<Rightarrow>
          (case on_db (Bolt_Put (bolt s) PodNetwork_codec newPool key
                  (v\<lparr>pn_SubnetID := ac_subnetId (uapi s), pn_MacAddress := masterMacAddress s\<rparr>)) st1 of
             (Some e, st2) \<Rightarrow> (Some (Some (Errorf ''failed to put migrated pod network %s: %v'' (Some e))), st2)
           | (None, st2) \<Rightarrow> migrate_loop s fuel newPool st2))"

definition migrateV1BoltDB ::
  "('d, 'w) ipamServer \<Rightarrow> nat \<Rightarrow> ('d, 'w) istate \<Rightarrow> gerror option option \<times> ('d, 'w) istate" where
  "migrateV1BoltDB s fuel st =
     (case on_db (NewBolt (bolt s) PoolDBName) st of
        (Inl e, st1) \<Rightarrow> (Some (Some (Errorf ''failed to open old pool database %s: %v'' (Some e))), st1)
      | (Inr oldPool, st1) \<Rightarrow>
          (case Bolt_Count (bolt s) PoolDBName (dbHandler st1) of
             Inl e \<Rightarrow> (Some (Some e), st1)
           | Inr cnt \<Rightarrow>
               (if cnt = 0 then (Some None, st1)
                else case getPool s [] True st1 of
                  (Inl e, st2) \<Rightarrow> (Some (Some (Errorf ''failed to get new pool database: %v'' (Some e))), st2)
                | (Inr newPool, st2) \<Rightarrow> migrate_loop s fuel newPool st2)))"

end
