(* ===== verification/Ipamd_Pool_Inv.thy ===== *)
theory Ipamd_Pool_Inv
  imports Ipamd_Pool Mem_Store
begin

text \<open>
  The invariant of the daemon's store and what each pool operation does to it: \<open>stock\<close> is the
  contents of the pools, \<open>cooling\<close> that of the cooldown bucket. The invariant \<open>ipool_ok\<close> says
  that the buckets are readable and that every address lies in the pool of its own subnet,
  under its own key. The calls that delete addresses at the VPC service are recorded by \<open>dels\<close>.
\<close>

section \<open>The abstract view\<close>

definition stock ::
  "('d \<Rightarrow> string \<Rightarrow> (string \<rightharpoonup> bytes) option) \<Rightarrow> ('d, 'w) istate \<Rightarrow> string \<Rightarrow> string \<Rightarrow> PodNetwork option" where
  "stock raw st b = bolt_db.contents raw PodNetwork_codec b (dbHandler st)"

definition cooling ::
  "('d \<Rightarrow> string \<Rightarrow> (string \<rightharpoonup> bytes) option) \<Rightarrow> ('d, 'w) istate \<Rightarrow> string \<Rightarrow> CooldownItem option" where
  "cooling raw st = bolt_db.contents raw CooldownItem_codec CooldownDBName (dbHandler st)"

definition is_pool :: "string \<Rightarrow> bool" where
  "is_pool b \<longleftrightarrow> HasPrefix b (PoolDBName @ ''-'')"

text \<open>The pool and the key at which an address belongs.\<close>

definition home :: "('d, 'w) ipamServer \<Rightarrow> PodNetwork \<Rightarrow> string" where
  "home s pn = poolName s (pn_SubnetID pn)"

definition ipool_ok ::
  "('d, 'w) ipamServer \<Rightarrow> ('d \<Rightarrow> string \<Rightarrow> (string \<rightharpoonup> bytes) option) \<Rightarrow> ('d \<Rightarrow> bool) \<Rightarrow>
    ('d, 'w) istate \<Rightarrow> bool" where
  "ipool_ok s raw okf st \<longleftrightarrow> okf (dbHandler st) \<and>
     (\<forall>b. is_pool b \<longrightarrow> raw (dbHandler st) b \<noteq> None \<longrightarrow>
        bolt_db.readable raw okf PodNetwork_codec b (dbHandler st)) \<and>
     (\<forall>b \<in> set (poolDB st). is_pool b \<and> raw (dbHandler st) b \<noteq> None) \<and>
     bolt_db.readable raw okf CooldownItem_codec CooldownDBName (dbHandler st) \<and>
     (\<forall>b k pn. is_pool b \<longrightarrow> stock raw st b k = Some pn \<longrightarrow> b = home s pn \<and> k = getReservedIPKey pn) \<and>
     (\<forall>k cd. cooling raw st k = Some cd \<longrightarrow> k = getReservedIPKey (cd_Network cd))"

text \<open>The pools of two states agree, as a function of pool name and key.\<close>

definition same_stock ::
  "('d \<Rightarrow> string \<Rightarrow> (string \<rightharpoonup> bytes) option) \<Rightarrow> ('d, 'w) istate \<Rightarrow> ('d, 'w) istate \<Rightarrow> bool" where
  "same_stock raw st st' \<longleftrightarrow> (\<forall>b. is_pool b \<longrightarrow> stock raw st' b = stock raw st b)"

definition stock_upd ::
  "('d \<Rightarrow> string \<Rightarrow> (string \<rightharpoonup> bytes) option) \<Rightarrow> ('d, 'w) istate \<Rightarrow> string \<Rightarrow> string \<Rightarrow> PodNetwork option \<Rightarrow>
    ('d, 'w) istate \<Rightarrow> bool" where
  "stock_upd raw st b k v st' \<longleftrightarrow>
     (\<forall>b'. is_pool b' \<longrightarrow> stock raw st' b' = (if b' = b then (stock raw st b)(k := v) else stock raw st b'))"

text \<open>Successive deletions at the VPC service, with what each returned.\<close>

inductive dels :: "('d, 'w) ipamServer \<Rightarrow> 'w \<Rightarrow> (PodNetwork \<times> gerror option) list \<Rightarrow> 'w \<Rightarrow> bool" for s where
  dels_nil: "dels s w [] w"
| dels_cons: "uapiDeleteSecondaryIp s pn w = (r, w1) \<Longrightarrow> dels s w1 xs w2 \<Longrightarrow> dels s w ((pn, r) # xs) w2"

inductive_cases dels_NilE: "dels s w [] w'"
inductive_cases dels_ConsE: "dels s w (x # xs) w'"

lemma dels_append: "dels s w xs w1 \<Longrightarrow> dels s w1 ys w2 \<Longrightarrow> dels s w (xs @ ys) w2"
  by (induction rule: dels.induct) (auto intro: dels.intros)

lemma dels_one: "uapiDeleteSecondaryIp s pn w = (r, w1) \<Longrightarrow> dels s w [(pn, r)] w1"
  by (blast intro: dels.intros)

lemma dels_backup: "\<exists>r. dels s (outside st) [(pn, r)] (outside (backupReleaseSecondaryIP s pn st))"
  by (auto simp: backupReleaseSecondaryIP_def on_world_def split: prod.splits intro: dels_one)

lemma backup_frame [simp]:
  "dbHandler (backupReleaseSecondaryIP s pn st) = dbHandler st"
  "poolDB (backupReleaseSecondaryIP s pn st) = poolDB st"
  by (auto simp: backupReleaseSecondaryIP_def on_world_def split: prod.splits)

lemma is_pool_poolName [simp]: "is_pool (poolName s sn)"
  by (simp add: is_pool_def poolName_def HasPrefix_def)

lemma is_pool_home [simp]: "is_pool (home s pn)"
  by (simp add: home_def)

lemma cooldown_no_pool: "\<not> is_pool CooldownDBName"
  by (simp add: is_pool_def CooldownDBName_def PoolDBName_def HasPrefix_def)

lemma pool_not_cooldown [simp]: "is_pool b \<Longrightarrow> b \<noteq> CooldownDBName" "is_pool b \<Longrightarrow> CooldownDBName \<noteq> b"
  using cooldown_no_pool by blast+

section \<open>The operations on the view\<close>

locale pool_db = bolt_db "bolt s" raw wf
  for s :: "('d, 'w) ipamServer" and raw :: "'d \<Rightarrow> string \<Rightarrow> (string \<rightharpoonup> bytes) option" and wf :: "'d \<Rightarrow> bool"
begin

lemma pn_bucket: "bolt_bucket (bolt s) raw wf PodNetwork_codec"
  by unfold_locales simp

lemma cd_bucket: "bolt_bucket (bolt s) raw wf CooldownItem_codec"
  by unfold_locales simp

text \<open>The bucket laws on \<open>stock\<close> and \<open>cooling\<close>, for a change of one pool and of the cooldown.\<close>

lemma ok_pool_change:
  assumes ok: "ipool_ok s raw wf st" and b: "is_pool b"
    and rd: "readable PodNetwork_codec b (dbHandler st')"
    and fr: "\<forall>b'. b' \<noteq> b \<longrightarrow> raw (dbHandler st') b' = raw (dbHandler st) b'"
    and c: "contents PodNetwork_codec b (dbHandler st') = (contents PodNetwork_codec b (dbHandler st))(k := v)"
    and v: "\<And>pn. v = Some pn \<Longrightarrow> b = home s pn \<and> k = getReservedIPKey pn"
    and p: "set (poolDB st') \<subseteq> insert b (set (poolDB st))"
  shows "ipool_ok s raw wf st' \<and> stock_upd raw st b k v st' \<and> cooling raw st' = cooling raw st"
proof -
  have wf': "wf (dbHandler st')" using rd by (rule readable_wf)
  have upd: "stock_upd raw st b k v st'"
  proof -
    have "contents PodNetwork_codec b' (dbHandler st') = contents PodNetwork_codec b' (dbHandler st)"
      if "b' \<noteq> b" for b' using fr that by (intro contents_frame) simp
    then show ?thesis using c by (simp add: stock_upd_def stock_def)
  qed
  have "contents CooldownItem_codec CooldownDBName (dbHandler st') =
      contents CooldownItem_codec CooldownDBName (dbHandler st)"
    using fr b by (intro contents_frame) simp
  then have cool: "cooling raw st' = cooling raw st" by (simp add: cooling_def)
  have "readable CooldownItem_codec CooldownDBName (dbHandler st')"
    using ok fr b wf' by (auto simp: ipool_ok_def intro: readable_frame)
  moreover have "readable PodNetwork_codec b' (dbHandler st')"
    if "is_pool b'" "raw (dbHandler st') b' \<noteq> None" for b'
    using that rd ok fr wf' by (cases "b' = b") (auto simp: ipool_ok_def intro: readable_frame)
  moreover have "is_pool b' \<and> raw (dbHandler st') b' \<noteq> None" if "b' \<in> set (poolDB st')" for b'
    using that p b rd fr ok by (cases "b' = b") (auto simp: ipool_ok_def readable_def)
  moreover have "b' = home s pn \<and> k' = getReservedIPKey pn"
    if "is_pool b'" "stock raw st' b' k' = Some pn" for b' k' pn
  proof (cases "b' = b \<and> k' = k")
    case True
    with that upd v b show ?thesis by (auto simp: stock_upd_def)
  next
    case False
    with that upd have "stock raw st b' k' = Some pn" by (auto simp: stock_upd_def split: if_splits)
    with that ok show ?thesis by (auto simp: ipool_ok_def)
  qed
  moreover have "\<forall>k cd. cooling raw st' k = Some cd \<longrightarrow> k = getReservedIPKey (cd_Network cd)"
    using ok cool by (simp add: ipool_ok_def)
  ultimately show ?thesis using wf' upd cool by (auto simp: ipool_ok_def)
qed

lemma ok_world: "ipool_ok s raw wf (st\<lparr>outside := w\<rparr>) = ipool_ok s raw wf st"
  by (simp add: ipool_ok_def stock_def cooling_def)

lemma ok_same_db:
  "dbHandler st' = dbHandler st \<Longrightarrow> poolDB st' = poolDB st \<Longrightarrow>
    ipool_ok s raw wf st' = ipool_ok s raw wf st \<and> same_stock raw st st' \<and> cooling raw st' = cooling raw st"
  by (simp add: ipool_ok_def same_stock_def stock_def cooling_def fun_eq_iff)

lemma stock_upd_noop: "stock raw st b k = v \<Longrightarrow> stock_upd raw st b k v st' = same_stock raw st st'"
  by (auto simp: stock_upd_def same_stock_def fun_eq_iff)

lemma getPool_spec:
  assumes "ipool_ok s raw wf st" and "getPool s sn create st = (r, st')"
  shows "ipool_ok s raw wf st' \<and> same_stock raw st st' \<and> cooling raw st' = cooling raw st \<and>
    outside st' = outside st \<and>
    (\<forall>pool. r = Inr pool \<longrightarrow> pool = poolName s sn \<and> pool \<in> set (poolDB st'))"
proof (cases "poolName s sn \<in> set (poolDB st) \<or> \<not> create")
  case True
  with assms show ?thesis
    by (auto simp: getPool_def Let_def same_stock_def split: if_splits)
next
  case False
  let ?b = "poolName s sn"
  obtain c d' where c: "tx_CreateBucketIfNotExists (bolt s) ?b (dbHandler st) = (c, d')" by force
  have ok: "wf (dbHandler st)" using assms(1) by (simp add: ipool_ok_def)
  have wf': "wf d'" using create_wf [OF ok c] .
  show ?thesis
  proof (cases c)
    case (Some e)
    have raw': "raw d' = raw (dbHandler st)" using create_err [OF ok] c Some by simp
    from False assms c Some show ?thesis
      using wf' raw'
      by (auto simp: getPool_def Let_def on_db_def NewBolt_def ipool_ok_def same_stock_def stock_def
          cooling_def contents_def readable_def)
  next
    case None
    with False assms(2) c have st': "st' = st\<lparr>dbHandler := d', poolDB := poolDB st @ [?b]\<rparr>" "r = Inr ?b"
      by (auto simp: getPool_def Let_def on_db_def NewBolt_def)
    have fresh: "raw d' = (raw (dbHandler st))(?b := Some Map.empty)" if "raw (dbHandler st) ?b = None"
      using create_new [OF ok _ that] c None by simp
    have old: "raw d' = raw (dbHandler st)" if "raw (dbHandler st) ?b = Some m" for m
      using create_old [OF ok _ that] c None by simp
    have fr: "\<forall>b'. b' \<noteq> ?b \<longrightarrow> raw d' b' = raw (dbHandler st) b'"
      using fresh old by (cases "raw (dbHandler st) ?b") auto
    have ct: "contents PodNetwork_codec ?b d' = contents PodNetwork_codec ?b (dbHandler st)"
    proof (cases "raw (dbHandler st) ?b")
      case None
      with fresh show ?thesis by (simp add: contents_def fun_eq_iff)
    next
      case (Some m)
      then show ?thesis by (rule contents_frame [OF fun_cong [OF old]])
    qed
    have rd: "readable PodNetwork_codec ?b d'"
    proof (cases "raw (dbHandler st) ?b")
      case None
      then have "raw d' ?b = Some Map.empty" using fresh by simp
      with wf' show ?thesis by (simp add: readable_def)
    next
      case (Some m)
      have "readable PodNetwork_codec ?b (dbHandler st)" using Some assms(1) by (simp add: ipool_ok_def)
      then show ?thesis using wf' fun_cong [OF old [OF Some]] by (rule readable_frame)
    qed
    let ?v = "contents PodNetwork_codec ?b (dbHandler st) []"
    have "ipool_ok s raw wf st' \<and> stock_upd raw st ?b [] ?v st' \<and> cooling raw st' = cooling raw st"
    proof (rule ok_pool_change [OF assms(1)])
      show "?b = home s pn \<and> [] = getReservedIPKey pn" if "?v = Some pn" for pn
        using that assms(1) is_pool_poolName unfolding ipool_ok_def stock_def by blast
    qed (use rd fr ct in \<open>auto simp: st'\<close>)
    then show ?thesis using st' stock_upd_noop [of st ?b "[]" ?v st'] by (auto simp: stock_def)
  qed
qed

lemma put_spec:
  assumes "ipool_ok s raw wf st" and "b \<in> set (poolDB st)" and "b = home s pn"
    and "on_db (pool_put s b pn) st = (r, st')"
  shows "ipool_ok s raw wf st' \<and> cooling raw st' = cooling raw st \<and> outside st' = outside st \<and>
    poolDB st' = poolDB st \<and>
    (if r = None then stock_upd raw st b (getReservedIPKey pn) (Some pn) st' else same_stock raw st st')"
proof -
  have rd: "readable PodNetwork_codec b (dbHandler st)"
    using assms(1,2) by (auto simp: ipool_ok_def)
  from bolt_bucket.Bolt_Put_spec [OF pn_bucket rd on_dbE [OF assms(4)]]
  have p: "readable PodNetwork_codec b (dbHandler st')"
    "\<forall>b'. b' \<noteq> b \<longrightarrow> raw (dbHandler st') b' = raw (dbHandler st) b'"
    and c: "contents PodNetwork_codec b (dbHandler st') =
      (contents PodNetwork_codec b (dbHandler st))(getReservedIPKey pn :=
         (if r = None then Some pn else contents PodNetwork_codec b (dbHandler st) (getReservedIPKey pn)))"
    by (auto simp: fun_eq_iff)
  have f: "outside st' = outside st" "poolDB st' = poolDB st" using on_db_frame [OF assms(4)] by auto
  let ?v = "if r = None then Some pn else contents PodNetwork_codec b (dbHandler st) (getReservedIPKey pn)"
  have ib: "is_pool b" using assms(3) by simp
  have vv: "b = home s pn' \<and> getReservedIPKey pn = getReservedIPKey pn'" if "?v = Some pn'" for pn'
  proof (cases "r = None")
    case True
    with that assms(3) show ?thesis by simp
  next
    case False
    with that have "stock raw st b (getReservedIPKey pn) = Some pn'" by (simp add: stock_def)
    with assms(1) ib show ?thesis by (auto simp: ipool_ok_def)
  qed
  have "ipool_ok s raw wf st' \<and> stock_upd raw st b (getReservedIPKey pn) ?v st' \<and>
      cooling raw st' = cooling raw st"
    by (rule ok_pool_change [OF assms(1) ib p c vv]) (use f in auto)
  then show ?thesis using f stock_upd_noop [of st b "getReservedIPKey pn" ?v st']
    by (auto simp: stock_def)
qed

lemma pop_spec:
  assumes "ipool_ok s raw wf st" and "b \<in> set (poolDB st)"
    and "on_db (Bolt_Pop (bolt s) PodNetwork_codec b) st = (r, st')"
  shows "ipool_ok s raw wf st' \<and> cooling raw st' = cooling raw st \<and> outside st' = outside st \<and>
    poolDB st' = poolDB st \<and>
    (case r of
       Inr (k, pn) \<Rightarrow> stock raw st b k = Some pn \<and> b = home s pn \<and> k = getReservedIPKey pn \<and>
         stock_upd raw st b k None st'
     | Inl e \<Rightarrow> same_stock raw st st' \<and> (IsEOF (Some e) \<longrightarrow> stock raw st b = Map.empty))"
proof -
  have rd: "readable PodNetwork_codec b (dbHandler st)" and ib: "is_pool b"
    using assms(1,2) by (auto simp: ipool_ok_def)
  have f: "outside st' = outside st" "poolDB st' = poolDB st" using on_db_frame [OF assms(3)] by auto
  note P = bolt_bucket.Bolt_Pop_spec [OF pn_bucket rd on_dbE [OF assms(3)]]
  show ?thesis
  proof (cases r)
    case (Inl e)
    let ?v = "contents PodNetwork_codec b (dbHandler st) []"
    have c: "contents PodNetwork_codec b (dbHandler st') = (contents PodNetwork_codec b (dbHandler st))([] := ?v)"
      using P Inl by (simp add: fun_eq_iff)
    have vv: "b = home s pn' \<and> [] = getReservedIPKey pn'" if "?v = Some pn'" for pn'
      using that assms(1) ib by (auto simp: ipool_ok_def stock_def)
    have "ipool_ok s raw wf st' \<and> stock_upd raw st b [] ?v st' \<and> cooling raw st' = cooling raw st"
      by (rule ok_pool_change [OF assms(1) ib _ _ c vv]) (use P f in auto)
    then show ?thesis using P Inl f stock_upd_noop [of st b "[]" ?v st']
      by (auto simp: stock_def fun_eq_iff)
  next
    case (Inr kv)
    obtain k pn where kv: "kv = (k, pn)" by force
    have c: "contents PodNetwork_codec b (dbHandler st') = (contents PodNetwork_codec b (dbHandler st))(k := None)"
      using P Inr kv by simp
    have sk: "stock raw st b k = Some pn" using P Inr kv by (simp add: stock_def)
    have "ipool_ok s raw wf st' \<and> stock_upd raw st b k None st' \<and> cooling raw st' = cooling raw st"
      by (rule ok_pool_change [OF assms(1) ib _ _ c]) (use P f in auto)
    moreover have "b = home s pn \<and> k = getReservedIPKey pn"
      using assms(1) ib sk unfolding ipool_ok_def by blast
    ultimately show ?thesis using Inr kv f sk by simp
  qed
qed

text \<open>The composed operations.\<close>

lemma same_stock_trans: "same_stock raw st st1 \<Longrightarrow> same_stock raw st1 st2 \<Longrightarrow> same_stock raw st st2"
  by (simp add: same_stock_def)

lemma upd_after_same: "same_stock raw st st1 \<Longrightarrow> stock_upd raw st1 b k v st2 \<Longrightarrow> stock_upd raw st b k v st2"
  by (auto simp: same_stock_def stock_upd_def)

lemma same_after_upd: "stock_upd raw st b k v st1 \<Longrightarrow> same_stock raw st1 st2 \<Longrightarrow> stock_upd raw st b k v st2"
  by (auto simp: same_stock_def stock_upd_def)

lemma backup_spec:
  assumes "ipool_ok s raw wf st"
  shows "ipool_ok s raw wf (backupReleaseSecondaryIP s pn st) \<and>
    same_stock raw st (backupReleaseSecondaryIP s pn st) \<and>
    cooling raw (backupReleaseSecondaryIP s pn st) = cooling raw st \<and>
    (\<exists>r. dels s (outside st) [(pn, r)] (outside (backupReleaseSecondaryIP s pn st)))"
  using ok_same_db [of "backupReleaseSecondaryIP s pn st" st] assms dels_backup [of s st pn] by simp

lemma putIpToPool_spec:
  assumes "ipool_ok s raw wf st" and "putIpToPool s pn st = (fin, st')"
  shows "ipool_ok s raw wf st' \<and> cooling raw st' = cooling raw st \<and>
    (if fin then stock_upd raw st (home s pn) (getReservedIPKey pn) (Some pn) st' \<and> outside st' = outside st
     else same_stock raw st st' \<and> (\<exists>r. dels s (outside st) [(pn, r)] (outside st')))"
proof -
  obtain r st1 where g: "getPool s (pn_SubnetID pn) True st = (r, st1)" by force
  note G = getPool_spec [OF assms(1) g]
  show ?thesis
  proof (cases r)
    case (Inl e)
    with assms(2) g G backup_spec [of st1 pn] show ?thesis
      by (auto simp: putIpToPool_def intro: same_stock_trans)
  next
    case (Inr pool)
    then have pool: "pool = home s pn" "pool \<in> set (poolDB st1)" using G by (auto simp: home_def)
    obtain r2 st2 where p: "on_db (pool_put s pool pn) st1 = (r2, st2)" by force
    from put_spec [OF _ pool(2,1) p] G
    have P: "ipool_ok s raw wf st2" "cooling raw st2 = cooling raw st1" "outside st2 = outside st1"
      "if r2 = None then stock_upd raw st1 pool (getReservedIPKey pn) (Some pn) st2 else same_stock raw st1 st2"
      by auto
    show ?thesis
    proof (cases r2)
      case None
      with assms(2) g p Inr P G pool(1) show ?thesis
        by (auto simp: putIpToPool_def intro: upd_after_same)
    next
      case (Some e)
      with assms(2) g p Inr P G backup_spec [OF P(1), of pn] show ?thesis
        by (auto simp: putIpToPool_def intro: same_stock_trans)
    qed
  qed
qed

lemma backupPush_spec:
  assumes "ipool_ok s raw wf st"
  shows "ipool_ok s raw wf (backupPushSecondaryIP s pn st) \<and>
    cooling raw (backupPushSecondaryIP s pn st) = cooling raw st \<and>
    outside (backupPushSecondaryIP s pn st) = outside st \<and>
    (stock_upd raw st (home s pn) (getReservedIPKey pn) (Some pn) (backupPushSecondaryIP s pn st) \<or>
     same_stock raw st (backupPushSecondaryIP s pn st))"
proof -
  obtain r st1 where g: "getPool s (pn_SubnetID pn) True st = (r, st1)" by force
  note G = getPool_spec [OF assms(1) g]
  show ?thesis
  proof (cases r)
    case (Inl e)
    with g G show ?thesis by (simp add: backupPushSecondaryIP_def)
  next
    case (Inr pool)
    then have pool: "pool = home s pn" "pool \<in> set (poolDB st1)" using G by (auto simp: home_def)
    obtain r2 st2 where p: "on_db (pool_put s pool pn) st1 = (r2, st2)" by force
    from put_spec [OF _ pool(2,1) p] G Inr g p pool(1) show ?thesis
      by (cases r2) (auto simp: backupPushSecondaryIP_def intro: upd_after_same same_stock_trans)
  qed
qed

lemma getPool_open:
  "getPool s sn c st = (Inr b, st1) \<Longrightarrow> ipool_ok s raw wf st \<Longrightarrow> b = poolName s sn \<and> b \<in> set (poolDB st1)"
  using getPool_spec by blast

lemma getPool_no_create: "getPool s sn False st = (r, st') \<Longrightarrow> st' = st"
  by (auto simp: getPool_def Let_def split: if_splits)

lemma lendIP_spec:
  assumes ok: "ipool_ok s raw wf st" and l: "lendIP s req st = (r, st')"
  shows "ipool_ok s raw wf st' \<and> cooling raw st' = cooling raw st \<and>
    (case r of
       Inr pn' \<Rightarrow> \<exists>pn. stock raw st (poolName s (br_SubnetID req)) (getReservedIPKey pn) = Some pn \<and>
         pn' = pn\<lparr>pn_MacAddress := br_MacAddress req\<rparr> \<and>
         uapiMoveSecondaryIPMac s pn (br_MacAddress req) (outside st) = (None, outside st') \<and>
         stock_upd raw st (poolName s (br_SubnetID req)) (getReservedIPKey pn) None st'
     | Inl e \<Rightarrow> same_stock raw st st' \<or>
         (\<exists>pn w e' r'. stock raw st (home s pn) (getReservedIPKey pn) = Some pn \<and>
            uapiMoveSecondaryIPMac s pn (br_MacAddress req) (outside st) = (Some e', w) \<and>
            stock_upd raw st (home s pn) (getReservedIPKey pn) None st' \<and> dels s w [(pn, r')] (outside st')))"
proof -
  let ?b = "poolName s (br_SubnetID req)"
  obtain g where g: "getPool s (br_SubnetID req) False st = (g, st)"
    using getPool_no_create by (metis surj_pair)
  show ?thesis
  proof (cases g)
    case (Inl e)
    with l g ok show ?thesis by (auto simp: lendIP_def same_stock_def)
  next
    case (Inr b)
    with getPool_open g ok have b: "b = ?b" "b \<in> set (poolDB st)" by blast+
    obtain p st2 where p: "on_db (Bolt_Pop (bolt s) PodNetwork_codec b) st = (p, st2)" by force
    note P = pop_spec [OF ok b(2) p]
    show ?thesis
    proof (cases p)
      case (Inl e)
      with l g Inr p P show ?thesis by (auto simp: lendIP_def split: if_splits)
    next
      case (Inr kv)
      obtain k pn where kv: "kv = (k, pn)" by force
      obtain m w3 where m: "uapiMoveSecondaryIPMac s pn (br_MacAddress req) (outside st2) = (m, w3)" by force
      let ?st3 = "st2\<lparr>outside := w3\<rparr>"
      have ok3: "ipool_ok s raw wf ?st3" using P by (simp add: ok_world)
      have S: "stock raw st b k = Some pn" "b = home s pn" "k = getReservedIPKey pn"
        "stock_upd raw st b k None st2" "outside st2 = outside st" "cooling raw st2 = cooling raw st"
        using P Inr kv by auto
      have S3: "stock_upd raw st b k None ?st3" "cooling raw ?st3 = cooling raw st"
        using S by (simp_all add: stock_upd_def stock_def cooling_def)
      show ?thesis
      proof (cases m)
        case None
        with l g \<open>g = Inr b\<close> p Inr kv m S ok3 S3 b(1) show ?thesis
          by (auto simp: lendIP_def on_world_def)
      next
        case (Some e)
        obtain fin st4 where q: "putIpToPool s pn ?st3 = (fin, st4)" by force
        note Q = putIpToPool_spec [OF ok3 q]
        have st': "st' = st4" "\<exists>e. r = Inl e"
          using l g \<open>g = Inr b\<close> p Inr kv m Some q by (auto simp: lendIP_def on_world_def)
        show ?thesis
        proof (cases fin)
          case True
          have "same_stock raw st st4"
            using Q True S3(1) S by (auto simp: stock_upd_def same_stock_def)
          with Q st' S3(2) show ?thesis by auto
        next
          case False
          with Q obtain r' where ss: "same_stock raw ?st3 st4"
            and dl: "dels s (outside ?st3) [(pn, r')] (outside st4)" by auto
          with S3(1) S have "stock_upd raw st (home s pn) (getReservedIPKey pn) None st4"
            by (auto intro: same_after_upd)
          moreover have "uapiMoveSecondaryIPMac s pn (br_MacAddress req) (outside st) = (Some e, w3)"
            using m Some S by simp
          moreover have "stock raw st (home s pn) (getReservedIPKey pn) = Some pn" using S by simp
          ultimately have "\<exists>pn w e' r'. stock raw st (home s pn) (getReservedIPKey pn) = Some pn \<and>
              uapiMoveSecondaryIPMac s pn (br_MacAddress req) (outside st) = (Some e', w) \<and>
              stock_upd raw st (home s pn) (getReservedIPKey pn) None st4 \<and> dels s w [(pn, r')] (outside st4)"
            using dl by (intro exI conjI) simp_all
          moreover obtain e0 where "r = Inl e0" using st' by blast
          ultimately show ?thesis using Q st' S3(2) by simp
        qed
      qed
    qed
  qed
qed

end

end
