(* ===== verification/Ipamd_Pool_Loops.thy ===== *)
theory Ipamd_Pool_Loops
  imports Ipamd_Pool_Inv
begin

text \<open>
  What the loops of \<open>pool.go\<close> do to the pools as a whole: the release of the surplus, the
  recycling of cooled-down addresses, and the assignment of an address to a pod. All are proved
  in the context of \<open>pool_db\<close>, that is for every database that keeps boltdb's promises.
\<close>

text \<open>
  A pool \<open>b\<close> from which the deletions \<open>xs\<close> took addresses: each was in it, the successfully
  deleted ones are gone, and nothing else has changed.
\<close>

definition drained ::
  "('d \<Rightarrow> string \<Rightarrow> (string \<rightharpoonup> bytes) option) \<Rightarrow> string \<Rightarrow> (PodNetwork \<times> gerror option) list \<Rightarrow>
    ('d, 'w) istate \<Rightarrow> ('d, 'w) istate \<Rightarrow> bool" where
  "drained raw b xs st st' \<longleftrightarrow>
     (\<forall>(pn, r) \<in> set xs. stock raw st b (getReservedIPKey pn) = Some pn \<and>
        (r = None \<longrightarrow> stock raw st' b (getReservedIPKey pn) = None)) \<and>
     (\<forall>b' k. is_pool b' \<longrightarrow> stock raw st' b' k = stock raw st b' k \<or>
        b' = b \<and> stock raw st' b' k = None \<and> k \<in> (getReservedIPKey \<circ> fst) ` set xs)"

lemma drained_nil: "same_stock raw st st' \<Longrightarrow> drained raw b [] st st'"
  by (simp add: drained_def same_stock_def)

lemma drained_one:
  assumes "stock raw st b (getReservedIPKey pn) = Some pn"
    and "stock_upd raw st b (getReservedIPKey pn) None st1"
    and "stock_upd raw st1 b (getReservedIPKey pn) (Some pn) st' \<or> same_stock raw st1 st'"
  shows "drained raw b [(pn, Some e)] st st'"
  using assms by (auto simp: drained_def stock_upd_def same_stock_def split: if_splits)

lemma drained_cons:
  assumes "is_pool b" and "stock raw st b (getReservedIPKey pn) = Some pn"
    and "stock_upd raw st b (getReservedIPKey pn) None st1" and "drained raw b xs st1 st'"
  shows "drained raw b ((pn, None) # xs) st st'"
proof -
  let ?k = "getReservedIPKey pn"
  have up: "stock raw st1 b' = (if b' = b then (stock raw st b)(?k := None) else stock raw st b')"
    if "is_pool b'" for b' using assms(3) that by (simp add: stock_upd_def)
  have ch: "stock raw st' b' k = stock raw st1 b' k \<or>
      b' = b \<and> stock raw st' b' k = None \<and> k \<in> (getReservedIPKey \<circ> fst) ` set xs" if "is_pool b'" for b' k
    using assms(4) that by (auto simp: drained_def)
  have gone: "stock raw st' b ?k = None"
    using ch [OF assms(1), of ?k] up [OF assms(1)] by auto
  have old: "stock raw st b (getReservedIPKey p) = Some p \<and>
      (r = None \<longrightarrow> stock raw st' b (getReservedIPKey p) = None)" if "(p, r) \<in> set xs" for p r
    using assms(4) that up [OF assms(1)] by (auto simp: drained_def split: if_splits)
  have "stock raw st' b' k = stock raw st b' k \<or>
      b' = b \<and> stock raw st' b' k = None \<and> k \<in> (getReservedIPKey \<circ> fst) ` set ((pn, None) # xs)"
    if "is_pool b'" for b' k
    using ch [OF that, of k] up [OF that] gone by (cases "b' = b \<and> k = ?k") (auto split: if_splits)
  with old gone assms(2) show ?thesis by (auto simp: drained_def)
qed

context pool_db
begin

lemma ok_cooldown_change:
  assumes ok: "ipool_ok s raw wf st"
    and rd: "readable CooldownItem_codec CooldownDBName (dbHandler st')"
    and fr: "\<forall>b. b \<noteq> CooldownDBName \<longrightarrow> raw (dbHandler st') b = raw (dbHandler st) b"
    and c: "contents CooldownItem_codec CooldownDBName (dbHandler st') =
      (contents CooldownItem_codec CooldownDBName (dbHandler st))(k := v)"
    and v: "\<And>cd. v = Some cd \<Longrightarrow> k = getReservedIPKey (cd_Network cd)"
    and p: "poolDB st' = poolDB st"
  shows "ipool_ok s raw wf st' \<and> same_stock raw st st' \<and> cooling raw st' = (cooling raw st)(k := v)"
proof -
  have wf': "wf (dbHandler st')" using rd by (rule readable_wf)
  have frp: "raw (dbHandler st') b = raw (dbHandler st) b" if "is_pool b" for b
    using that fr by simp
  have same: "stock raw st' b = stock raw st b" if "is_pool b" for b
    unfolding stock_def by (rule contents_frame) (rule frp [OF that])
  have cool: "cooling raw st' = (cooling raw st)(k := v)" using c by (simp add: cooling_def)
  have "readable PodNetwork_codec b (dbHandler st')" if "is_pool b" "raw (dbHandler st') b \<noteq> None" for b
  proof (rule readable_frame [OF _ wf' frp [OF that(1)]])
    show "readable PodNetwork_codec b (dbHandler st)"
      using ok that frp [OF that(1)] by (simp add: ipool_ok_def)
  qed
  moreover have "\<forall>b \<in> set (poolDB st'). is_pool b \<and> raw (dbHandler st') b \<noteq> None"
    using ok p frp by (simp add: ipool_ok_def)
  moreover have "b = home s pn \<and> k' = getReservedIPKey pn" if "is_pool b" "stock raw st' b k' = Some pn" for b k' pn
    using that same [OF that(1)] ok unfolding ipool_ok_def by metis
  moreover have "k' = getReservedIPKey (cd_Network cd)" if "cooling raw st' k' = Some cd" for k' cd
    using that cool v ok by (auto simp: ipool_ok_def split: if_splits)
  ultimately show ?thesis using wf' rd same cool unfolding ipool_ok_def same_stock_def by blast
qed

lemma cooldown_readable: "ipool_ok s raw wf st \<Longrightarrow> readable CooldownItem_codec CooldownDBName (dbHandler st)"
  by (simp add: ipool_ok_def)

lemma cooldown_delete_spec:
  assumes "ipool_ok s raw wf st" and "on_db (Bolt_Delete (bolt s) CooldownDBName k) st = (r, st')"
  shows "ipool_ok s raw wf st' \<and> same_stock raw st st' \<and> outside st' = outside st \<and>
    cooling raw st' = (if r = None then (cooling raw st)(k := None) else cooling raw st)"
proof -
  note D = bolt_bucket.Bolt_Delete_spec [OF cd_bucket cooldown_readable [OF assms(1)] on_dbE [OF assms(2)]]
  have f: "poolDB st' = poolDB st" "outside st' = outside st" using on_db_frame [OF assms(2)] by auto
  let ?v = "if r = None then None else cooling raw st k"
  have c: "contents CooldownItem_codec CooldownDBName (dbHandler st') =
      (contents CooldownItem_codec CooldownDBName (dbHandler st))(k := ?v)"
    using D by (cases r) (simp_all add: cooling_def fun_eq_iff)
  have v: "k = getReservedIPKey (cd_Network cd)" if "?v = Some cd" for cd
    using that assms(1) by (auto simp: ipool_ok_def split: if_splits)
  have "ipool_ok s raw wf st' \<and> same_stock raw st st' \<and> cooling raw st' = (cooling raw st)(k := ?v)"
    by (rule ok_cooldown_change [OF assms(1) _ _ c v f(1)]) (use D in auto)
  with f show ?thesis by (cases r) (simp_all add: fun_upd_idem)
qed

lemma putIpToCooldown_spec:
  assumes "ipool_ok s raw wf st" and "putIpToCooldown s item st = (fin, st')"
  shows "ipool_ok s raw wf st' \<and> same_stock raw st st' \<and>
    (if fin then cooling raw st' = (cooling raw st)(getReservedIPKey (cd_Network item) \<mapsto> item) \<and>
        outside st' = outside st
     else cooling raw st' = cooling raw st \<and> (\<exists>r. dels s (outside st) [(cd_Network item, r)] (outside st')))"
proof -
  let ?k = "getReservedIPKey (cd_Network item)"
  obtain r st1 where p: "on_db (Bolt_Put (bolt s) CooldownItem_codec CooldownDBName ?k item) st = (r, st1)"
    by force
  note D = bolt_bucket.Bolt_Put_spec [OF cd_bucket cooldown_readable [OF assms(1)] on_dbE [OF p]]
  have f: "poolDB st1 = poolDB st" "outside st1 = outside st" using on_db_frame [OF p] by auto
  let ?v = "if r = None then Some item else cooling raw st ?k"
  have c: "contents CooldownItem_codec CooldownDBName (dbHandler st1) =
      (contents CooldownItem_codec CooldownDBName (dbHandler st))(?k := ?v)"
    using D by (cases r) (simp_all add: cooling_def fun_eq_iff)
  have v: "?k = getReservedIPKey (cd_Network cd)" if "?v = Some cd" for cd
    using that assms(1) by (auto simp: ipool_ok_def split: if_splits)
  have P: "ipool_ok s raw wf st1 \<and> same_stock raw st st1 \<and> cooling raw st1 = (cooling raw st)(?k := ?v)"
    by (rule ok_cooldown_change [OF assms(1) _ _ c v f(1)]) (use D in auto)
  show ?thesis
  proof (cases r)
    case None
    with assms(2) p P f show ?thesis by (auto simp: putIpToCooldown_def)
  next
    case (Some e)
    with assms(2) p P f backup_spec [of st1 "cd_Network item"] show ?thesis
      by (auto simp: putIpToCooldown_def intro: same_stock_trans)
  qed
qed

text \<open>Releasing: what left the pool was deleted, and all deletions but the last one succeeded.\<close>

lemma release_loop_spec:
  assumes "ipool_ok s raw wf st" and "b \<in> set (poolDB st)"
  shows "ipool_ok s raw wf (release_loop s b n st) \<and> cooling raw (release_loop s b n st) = cooling raw st \<and>
    (\<exists>xs. dels s (outside st) xs (outside (release_loop s b n st)) \<and> length xs \<le> n \<and>
       (\<forall>(pn, r) \<in> set (butlast xs). r = None) \<and> drained raw b xs st (release_loop s b n st))"
  using assms
proof (induction n arbitrary: st)
  case 0
  have "drained raw b [] st st" by (rule drained_nil) (simp add: same_stock_def)
  with 0 show ?case by (auto intro!: exI [of _ "[]"] dels_nil)
next
  case (Suc n)
  obtain p st1 where p: "on_db (Bolt_Pop (bolt s) PodNetwork_codec b) st = (p, st1)" by force
  note P = pop_spec [OF Suc.prems p]
  show ?case
  proof (cases p)
    case (Inl e)
    with p P show ?thesis by (auto intro!: exI [of _ "[]"] dels_nil drained_nil)
  next
    case (Inr kv)
    obtain k pn where kv: "kv = (k, pn)" by force
    have S: "stock raw st b (getReservedIPKey pn) = Some pn" "b = home s pn"
      "stock_upd raw st b (getReservedIPKey pn) None st1" "outside st1 = outside st" "poolDB st1 = poolDB st"
      "cooling raw st1 = cooling raw st" "ipool_ok s raw wf st1"
      using P Inr kv by auto
    obtain r w2 where d: "uapiDeleteSecondaryIp s pn (outside st1) = (r, w2)" by force
    let ?st2 = "st1\<lparr>outside := w2\<rparr>"
    have ok2: "ipool_ok s raw wf ?st2" using S by (simp add: ok_world)
    have S2: "stock_upd raw st b (getReservedIPKey pn) None ?st2" "cooling raw ?st2 = cooling raw st"
      using S by (simp_all add: stock_upd_def stock_def cooling_def)
    show ?thesis
    proof (cases r)
      case (Some e)
      have st3: "release_loop s b (Suc n) st = backupPushSecondaryIP s pn ?st2"
        using p Inr kv d Some by (simp add: on_world_def)
      note B = backupPush_spec [OF ok2, of pn]
      have "drained raw b [(pn, r)] st (backupPushSecondaryIP s pn ?st2)"
        using B drained_one [OF S(1) S2(1)] S(2) Some by blast
      moreover have "dels s (outside st) [(pn, r)] (outside (backupPushSecondaryIP s pn ?st2))"
        using d S(4) B by (auto intro: dels_one)
      ultimately show ?thesis
        using B S2(2) unfolding st3 by (intro conjI exI [of _ "[(pn, r)]"]) auto
    next
      case None
      have eq: "release_loop s b (Suc n) st = release_loop s b n ?st2"
        using p Inr kv d None by (simp add: on_world_def)
      have "b \<in> set (poolDB ?st2)" using S(5) Suc.prems(2) by simp
      from Suc.IH [OF ok2 this] obtain xs where
        I: "ipool_ok s raw wf (release_loop s b n ?st2)"
          "cooling raw (release_loop s b n ?st2) = cooling raw ?st2"
          "dels s (outside ?st2) xs (outside (release_loop s b n ?st2))" "length xs \<le> n"
          "\<forall>(pn, r) \<in> set (butlast xs). r = None" "drained raw b xs ?st2 (release_loop s b n ?st2)"
        by blast
      have "is_pool b" using S(2) by simp
      have "dels s (outside st) ((pn, None) # xs) (outside (release_loop s b n ?st2))"
        using d S(4) I(3) None by (auto intro: dels_cons)
      with drained_cons [OF \<open>is_pool b\<close> S(1) S2(1) I(6)] I S2(2) show ?thesis
        unfolding eq by (intro conjI exI [of _ "(pn, None) # xs"]) auto
    qed
  qed
qed

text \<open>The size of a pool.\<close>

lemma stock_finite: "ipool_ok s raw wf st \<Longrightarrow> b \<in> set (poolDB st) \<Longrightarrow> finite (dom (stock raw st b))"
  unfolding stock_def by (rule contents_finite) (auto simp: ipool_ok_def)

lemma release_size:
  assumes "ipool_ok s raw wf st" and "b \<in> set (poolDB st)"
  shows "card (dom (stock raw st b)) \<le> card (dom (stock raw (release_loop s b n st) b)) + n"
proof -
  let ?st' = "release_loop s b n st"
  have ib: "is_pool b" using assms by (simp add: ipool_ok_def)
  from release_loop_spec [OF assms, of n] obtain xs where xs: "length xs \<le> n"
    and dr: "drained raw b xs st ?st'" by blast
  have ch: "stock raw ?st' b k = stock raw st b k \<or>
      stock raw ?st' b k = None \<and> k \<in> (getReservedIPKey \<circ> fst) ` set xs" for k
    using dr ib unfolding drained_def by blast
  have "dom (stock raw st b) \<subseteq> dom (stock raw ?st' b) \<union> (getReservedIPKey \<circ> fst) ` set xs"
  proof
    fix k assume "k \<in> dom (stock raw st b)"
    with ch [of k] show "k \<in> dom (stock raw ?st' b) \<union> (getReservedIPKey \<circ> fst) ` set xs" by auto
  qed
  moreover have "dom (stock raw ?st' b) \<subseteq> dom (stock raw st b)"
  proof
    fix k assume "k \<in> dom (stock raw ?st' b)"
    with ch [of k] show "k \<in> dom (stock raw st b)" by auto
  qed
  then have fin: "finite (dom (stock raw ?st' b))" using stock_finite [OF assms] by (rule finite_subset)
  ultimately have "card (dom (stock raw st b)) \<le> card (dom (stock raw ?st' b) \<union> (getReservedIPKey \<circ> fst) ` set xs)"
    by (intro card_mono) auto
  also have "\<dots> \<le> card (dom (stock raw ?st' b)) + card ((getReservedIPKey \<circ> fst) ` set xs)"
    by (rule card_Un_le)
  also have "card ((getReservedIPKey \<circ> fst) ` set xs) \<le> length xs"
    using card_image_le [of "set xs" "getReservedIPKey \<circ> fst"] card_length [of xs] by simp
  finally show ?thesis using xs by simp
qed

text \<open>
  Recycling: an entry leaves the cooldown bucket only when its time is over, and then its address
  is in its pool, or was deleted at the VPC service because it could not be put there.
\<close>

lemma recycle_loop_spec:
  assumes "ipool_ok s raw wf st" and "distinct (map fst kvs)"
    and "\<forall>(k, cd) \<in> set kvs. cooling raw st k = Some cd"
  shows "ipool_ok s raw wf (recycle_loop s now kvs st) \<and>
    (\<exists>xs. dels s (outside st) xs (outside (recycle_loop s now kvs st)) \<and>
      (\<forall>k. cooling raw (recycle_loop s now kvs st) k = cooling raw st k \<or>
        (\<exists>cd. (k, cd) \<in> set kvs \<and> int64_le (cd_CooldownOver cd) now \<and>
           cooling raw (recycle_loop s now kvs st) k = None \<and>
           (stock raw (recycle_loop s now kvs st) (home s (cd_Network cd)) k = Some (cd_Network cd) \<or>
            cd_Network cd \<in> fst ` set xs))) \<and>
      (\<forall>b k. is_pool b \<longrightarrow> stock raw (recycle_loop s now kvs st) b k = stock raw st b k \<or>
        (\<exists>cd. (k, cd) \<in> set kvs \<and> int64_le (cd_CooldownOver cd) now \<and> b = home s (cd_Network cd) \<and>
           stock raw (recycle_loop s now kvs st) b k = Some (cd_Network cd))))"
  using assms
proof (induction kvs arbitrary: st)
  case Nil
  then show ?case by (auto intro!: exI [of _ "[]"] dels_nil)
next
  case (Cons kv kvs)
  obtain k cd where kv: "kv = (k, cd)" by force
  have ck: "cooling raw st k = Some cd" using Cons.prems(3) kv by auto
  have key: "k = getReservedIPKey (cd_Network cd)" using Cons.prems(1) ck by (simp add: ipool_ok_def)
  let ?b = "home s (cd_Network cd)"
  show ?case
  proof (cases "int64_le (cd_CooldownOver cd) now")
    case False
    have "distinct (map fst kvs)" "\<forall>(k, cd) \<in> set kvs. cooling raw st k = Some cd" using Cons.prems by auto
    from Cons.IH [OF Cons.prems(1) this] False show ?thesis unfolding kv by fastforce
  next
    case True
    obtain r st1 where d: "on_db (Bolt_Delete (bolt s) CooldownDBName k) st = (r, st1)" by force
    note D = cooldown_delete_spec [OF Cons.prems(1) d]
    show ?thesis
    proof (cases r)
      case (Some e)
      with True d D show ?thesis unfolding kv
        by (auto simp: same_stock_def intro!: exI [of _ "[]"] dels_nil)
    next
      case None
      obtain fin st2 where p: "putIpToPool s (cd_Network cd) st1 = (fin, st2)" by force
      from D have ok1: "ipool_ok s raw wf st1" by simp
      note P = putIpToPool_spec [OF ok1 p]
      have eq: "recycle_loop s now (kv # kvs) st = recycle_loop s now kvs st2"
        using True d None p kv by simp
      have c2: "cooling raw st2 = (cooling raw st)(k := None)" using P D None by simp
      obtain ys where ys: "dels s (outside st) ys (outside st2)" "fin \<or> cd_Network cd \<in> fst ` set ys"
      proof (cases fin)
        case True
        with P D have "dels s (outside st) [] (outside st2)" by (simp add: dels_nil)
        with True show thesis by (intro that) auto
      next
        case False
        with P D obtain r' where "dels s (outside st) [(cd_Network cd, r')] (outside st2)" by auto
        then show thesis by (intro that) auto
      qed
      have s2: "stock raw st2 b k' = stock raw st b k' \<or>
          fin \<and> b = ?b \<and> k' = k \<and> stock raw st2 b k' = Some (cd_Network cd)" if "is_pool b" for b k'
        using P D None that key by (cases fin) (auto simp: stock_upd_def same_stock_def)
      have s2': "fin \<Longrightarrow> stock raw st2 ?b k = Some (cd_Network cd)"
        using P key by (auto simp: stock_upd_def)
      have "distinct (map fst kvs)" using Cons.prems(2) by simp
      moreover have "\<forall>(k', cd') \<in> set kvs. cooling raw st2 k' = Some cd'"
        using Cons.prems(2,3) kv unfolding c2 by (auto simp: rev_image_eqI)
      ultimately obtain xs where
        I: "ipool_ok s raw wf (recycle_loop s now kvs st2)"
          "dels s (outside st2) xs (outside (recycle_loop s now kvs st2))"
        and IC: "\<And>k. cooling raw (recycle_loop s now kvs st2) k = cooling raw st2 k \<or>
           (\<exists>cd. (k, cd) \<in> set kvs \<and> int64_le (cd_CooldownOver cd) now \<and>
             cooling raw (recycle_loop s now kvs st2) k = None \<and>
             (stock raw (recycle_loop s now kvs st2) (home s (cd_Network cd)) k = Some (cd_Network cd) \<or>
              cd_Network cd \<in> fst ` set xs))"
        and IS: "\<And>b k. is_pool b \<Longrightarrow> stock raw (recycle_loop s now kvs st2) b k = stock raw st2 b k \<or>
           (\<exists>cd. (k, cd) \<in> set kvs \<and> int64_le (cd_CooldownOver cd) now \<and> b = home s (cd_Network cd) \<and>
             stock raw (recycle_loop s now kvs st2) b k = Some (cd_Network cd))"
        using Cons.IH [of st2] P by blast
      have kn: "(k, cd') \<notin> set kvs" for cd' using Cons.prems(2) kv by (force simp: rev_image_eqI)
      have "cooling raw (recycle_loop s now kvs st2) k = None" using IC [of k] kn c2 by auto
      moreover have "fin \<Longrightarrow> stock raw (recycle_loop s now kvs st2) ?b k = Some (cd_Network cd)"
        using IS [of ?b k] kn s2' by auto
      ultimately have K: "cooling raw (recycle_loop s now kvs st2) k = None \<and>
          (stock raw (recycle_loop s now kvs st2) ?b k = Some (cd_Network cd) \<or>
           cd_Network cd \<in> fst ` set (ys @ xs))" using ys(2) by auto
      have C: "cooling raw (recycle_loop s now kvs st2) k' = cooling raw st k' \<or>
        (\<exists>cd. (k', cd) \<in> set (kv # kvs) \<and> int64_le (cd_CooldownOver cd) now \<and>
           cooling raw (recycle_loop s now kvs st2) k' = None \<and>
           (stock raw (recycle_loop s now kvs st2) (home s (cd_Network cd)) k' = Some (cd_Network cd) \<or>
            cd_Network cd \<in> fst ` set (ys @ xs)))" for k'
      proof (cases "k' = k")
        case True
        with K kv \<open>int64_le (cd_CooldownOver cd) now\<close> show ?thesis by auto
      next
        case False
        then have "cooling raw st2 k' = cooling raw st k'" using c2 by simp
        with IC [of k'] show ?thesis by auto
      qed
      have S: "stock raw (recycle_loop s now kvs st2) b k' = stock raw st b k' \<or>
        (\<exists>cd. (k', cd) \<in> set (kv # kvs) \<and> int64_le (cd_CooldownOver cd) now \<and> b = home s (cd_Network cd) \<and>
           stock raw (recycle_loop s now kvs st2) b k' = Some (cd_Network cd))" if "is_pool b" for b k'
        using IS [OF that, of k'] s2 [OF that, of k'] kv True by auto
      show ?thesis
        unfolding eq using I C S dels_append [OF ys(1) I(2)]
        by (intro conjI exI [of _ "ys @ xs"]) blast+
    qed
  qed
qed

text \<open>Assigning: from the pool, else from the VPC service, else from another daemon.\<close>

lemma assignPodIP_spec:
  assumes "ipool_ok s raw wf st" and "assignPodIP s ord req st = (r, st')"
  shows "ipool_ok s raw wf st' \<and> cooling raw st' = cooling raw st \<and>
    (case r of
       Inl e \<Rightarrow> same_stock raw st st'
     | Inr pn \<Rightarrow>
         (stock raw st (poolName s (ar_SubnetID req)) (getReservedIPKey pn) = Some pn \<and>
          stock_upd raw st (poolName s (ar_SubnetID req)) (getReservedIPKey pn) None st' \<and>
          outside st' = outside st) \<or>
         (stock raw st (poolName s (ar_SubnetID req)) = Map.empty \<and> same_stock raw st st' \<and>
          ((\<exists>ip w. uapiAllocateSecondaryIP s req (outside st) = (Inr ip, w) \<and> pn_VPCIP pn = ii_Ip ip \<and>
              pn_InterfaceID pn = ar_InterfaceID req) \<or>
           (\<exists>w. uapiAllocateSecondaryIP s req (outside st) = (Inl ErrOutOfIP, w) \<and>
              borrowIP s ord req w = (Inr pn, outside st')))))"
proof -
  note P = pool_db_axioms
  let ?b = "poolName s (ar_SubnetID req)"
  obtain g st1 where g: "getPool s (ar_SubnetID req) True st = (g, st1)" by force
  note G = pool_db.getPool_spec [OF P assms(1) g]
  show ?thesis
  proof (cases g)
    case (Inl e)
    with assms(2) g G show ?thesis by (auto simp: assignPodIP_def)
  next
    case (Inr b)
    with G have b: "b = ?b" "b \<in> set (poolDB st1)" and ok1: "ipool_ok s raw wf st1" by auto
    have ib: "is_pool b" using b by simp
    obtain p st2 where p: "on_db (Bolt_Pop (bolt s) PodNetwork_codec b) st1 = (p, st2)" by force
    note Q = pool_db.pop_spec [OF P ok1 b(2) p]
    show ?thesis
    proof (cases p)
      case (Inr kv)
      obtain k pn where kv: "kv = (k, pn)" by force
      have r: "r = Inr pn" "st' = st2"
        using assms(2) g \<open>g = Inr b\<close> p Inr kv by (simp_all add: assignPodIP_def)
      have "stock raw st1 b (getReservedIPKey pn) = Some pn" "stock_upd raw st1 b (getReservedIPKey pn) None st2"
        "ipool_ok s raw wf st2" "cooling raw st2 = cooling raw st" "outside st2 = outside st"
        using Q G Inr kv by auto
      moreover have "stock raw st1 b = stock raw st b" using G ib by (simp add: same_stock_def)
      moreover have "stock_upd raw st b (getReservedIPKey pn) None st2"
        using pool_db.upd_after_same [OF P] G calculation(2) by blast
      ultimately show ?thesis using r b(1) by simp
    next
      case (Inl e)
      have ss: "same_stock raw st st2" and ok2: "ipool_ok s raw wf st2" and out: "outside st2 = outside st"
        and c2: "cooling raw st2 = cooling raw st"
        using Q G Inl by (auto intro: pool_db.same_stock_trans [OF P])
      show ?thesis
      proof (cases "IsEOF (Some e)")
        case False
        with assms(2) g \<open>g = Inr b\<close> p Inl ss ok2 c2 show ?thesis by (auto simp: assignPodIP_def)
      next
        case True
        with Q Inl have "stock raw st1 b = Map.empty" by simp
        with G ib have empty: "stock raw st ?b = Map.empty" using b(1) by (simp add: same_stock_def)
        obtain u w3 where u: "uapiAllocateSecondaryIP s req (outside st) = (u, w3)" by force
        have "dbHandler st' = dbHandler st2 \<and> poolDB st' = poolDB st2 \<and>
          (\<forall>pn. r = Inr pn \<longrightarrow>
            (\<exists>ip. u = Inr ip \<and> pn_VPCIP pn = ii_Ip ip \<and> pn_InterfaceID pn = ar_InterfaceID req) \<or>
            u = Inl ErrOutOfIP \<and> borrowIP s ord req w3 = (Inr pn, outside st'))"
        proof (cases u)
          case (Inr ip)
          obtain now w4 where "TimeNow (cloud s) w3 = (now, w4)" by force
          with assms(2) g \<open>g = Inr b\<close> p Inl True u Inr out show ?thesis
            by (simp add: assignPodIP_def on_world_def convertIpToPodNetwork_def)
              (auto simp: PodNetwork_zero_def)
        next
          case (Inl e1)
          obtain y w4 where "borrowIP s ord req w3 = (y, w4)" by force
          with assms(2) g \<open>g = Inr b\<close> p \<open>p = Inl e\<close> True u Inl out show ?thesis
            by (cases y) (auto simp: assignPodIP_def on_world_def split: if_splits)
        qed
        then have st': "dbHandler st' = dbHandler st2" "poolDB st' = poolDB st2"
          and R: "\<And>pn. r = Inr pn \<Longrightarrow>
            (\<exists>ip. u = Inr ip \<and> pn_VPCIP pn = ii_Ip ip \<and> pn_InterfaceID pn = ar_InterfaceID req) \<or>
            u = Inl ErrOutOfIP \<and> borrowIP s ord req w3 = (Inr pn, outside st')"
          by blast+
        from pool_db.ok_same_db [OF P st'] ok2 c2 ss
        have I: "ipool_ok s raw wf st'" "cooling raw st' = cooling raw st" "same_stock raw st st'"
          by (auto intro: pool_db.same_stock_trans [OF P])
        show ?thesis
        proof (cases r)
          case (Inl e)
          with I show ?thesis by simp
        next
          case (Inr pn)
          from R [OF Inr] I empty u Inr show ?thesis by auto
        qed
      qed
    qed
  qed
qed

text \<open>What only touches the outside world keeps the invariant.\<close>

lemma world_ok: "ipool_ok s raw wf st \<Longrightarrow> on_world f st = (r, st') \<Longrightarrow> ipool_ok s raw wf st'"
  using on_world_frame [of f st r st'] ok_same_db [of st' st] by blast

lemma world_ok_snd: "ipool_ok s raw wf st \<Longrightarrow> ipool_ok s raw wf (snd (on_world f st))"
  using world_ok [of st f "fst (on_world f st)" "snd (on_world f st)"] by simp

lemma putIpToPool_ok: "ipool_ok s raw wf st \<Longrightarrow> ipool_ok s raw wf (snd (putIpToPool s pn st))"
  using putIpToPool_spec [of st pn "fst (putIpToPool s pn st)" "snd (putIpToPool s pn st)"] by simp

lemma backup_ok: "ipool_ok s raw wf st \<Longrightarrow> ipool_ok s raw wf (backupReleaseSecondaryIP s pn st)"
  using backup_spec [of st pn] by blast

lemma cooldownIP_ok: "ipool_ok s raw wf st \<Longrightarrow> ipool_ok s raw wf (cooldownIP s pn st)"
proof -
  have P: "ipool_ok s raw wf (snd (putIpToCooldown s item st))" if "ipool_ok s raw wf st" for item st
    using putIpToCooldown_spec [OF that, of item "fst (putIpToCooldown s item st)" "snd (putIpToCooldown s item st)"]
    by simp
  assume ok: "ipool_ok s raw wf st"
  obtain t1 st1 where t1: "on_world (TimeNow (cloud s)) st = (t1, st1)" by force
  obtain t2 st2 where t2: "on_world (TimeNow (cloud s)) st1 = (t2, st2)" by force
  show ?thesis
    using P [OF world_ok [OF world_ok [OF ok t1] t2]] by (simp add: cooldownIP_def t1 t2)
qed

lemma recycleCooldownIP_ok:
  assumes "ipool_ok s raw wf st"
  shows "ipool_ok s raw wf (recycleCooldownIP s st)"
proof (cases "Bolt_List (bolt s) CooldownItem_codec CooldownDBName (dbHandler st)")
  case (Inl e)
  with assms show ?thesis by (simp add: recycleCooldownIP_def)
next
  case (Inr kvs)
  from bolt_bucket.Bolt_List_view [OF cd_bucket cooldown_readable [OF assms] Inr]
  have kvs: "distinct (map fst kvs)" "map_of kvs = cooling raw st" by (simp_all add: cooling_def)
  obtain now st1 where t: "on_world (TimeNow (cloud s)) st = (now, st1)" by force
  have "cooling raw st1 = cooling raw st" using on_world_frame [OF t] by (simp add: cooling_def)
  with kvs have "\<forall>(k, cd) \<in> set kvs. cooling raw st1 k = Some cd"
    using map_of_distinct_iff [OF kvs(1)] by auto
  from recycle_loop_spec [OF world_ok [OF assms t] kvs(1) this, of now]
  show ?thesis using Inr t by (simp add: recycleCooldownIP_def)
qed

end

text \<open>The context holds for the executable store: its facts apply to the examples.\<close>

interpretation mem_pool: pool_db "s\<lparr>bolt := mem_api bad\<rparr>" mem_raw mem_wf for s bad
  by (simp add: pool_db_def mem.bolt_db_axioms)

end
