(* ===== verification/Ipamd_Rpc_Inv.thy ===== *)
theory Ipamd_Rpc_Inv
  imports Ipamd_Rpc Ipamd_Pool_Loops
begin

text \<open>
  The invariant of the store along every run of the manager loop, and the specifications of the
  record store and of the migration, for every database that keeps boltdb's promises.
\<close>

text \<open>A migrated address: of the default subnet and the master interface.\<close>

definition moved :: "('d, 'w) ipamServer \<Rightarrow> PodNetwork \<Rightarrow> PodNetwork" where
  "moved s v = v\<lparr>pn_SubnetID := ac_subnetId (uapi s), pn_MacAddress := masterMacAddress s\<rparr>"

text \<open>
  What the migration from the old pool to the pool \<open>b\<close> leaves: all entries moved when there is
  no error, all but possibly one in one of the pools otherwise; entries of the new pool stay.
\<close>

definition migrated ::
  "('d \<Rightarrow> string \<Rightarrow> (string \<rightharpoonup> bytes) option) \<Rightarrow> ('d, 'w) ipamServer \<Rightarrow> string \<Rightarrow>
    ('d, 'w) istate \<Rightarrow> gerror option \<Rightarrow> ('d, 'w) istate \<Rightarrow> bool" where
  "migrated raw s b st r st' \<longleftrightarrow>
     (let old = (\<lambda>st. bolt_db.contents raw PodNetwork_codec PoolDBName (dbHandler st));
          new = (\<lambda>st. bolt_db.contents raw PodNetwork_codec b (dbHandler st)) in
      (r = None \<longrightarrow> old st' = Map.empty \<and> new st' = new st ++ (\<lambda>k. map_option (moved s) (old st k))) \<and>
      (\<forall>k. old st k = None \<longrightarrow> new st' k = new st k) \<and>
      (\<exists>x. \<forall>k v. old st k = Some v \<and> Some k \<noteq> x \<longrightarrow> old st' k = Some v \<or> new st' k = Some (moved s v)))"

text \<open>
  What one pass over the records does to the record store: the other buckets stay, the orphans
  are the records judged so, and a record either stays or has its UID completed.
\<close>

definition reconciled ::
  "('d \<Rightarrow> string \<Rightarrow> (string \<rightharpoonup> bytes) option) \<Rightarrow> Pod list \<Rightarrow> PodNetwork KeyValue list \<Rightarrow>
    ('d, 'w) istate \<Rightarrow> string list \<Rightarrow> ('d, 'w) istate \<Rightarrow> bool" where
  "reconciled raw pods kvs st orphans st' \<longleftrightarrow>
     (\<forall>b. b \<noteq> NetworkDBName \<longrightarrow> raw (dbHandler st') b = raw (dbHandler st) b) \<and>
     (\<forall>k. k \<in> set orphans \<longleftrightarrow> (\<exists>pn. (k, pn) \<in> set kvs \<and> match_pods pn pods = OrphanRecord)) \<and>
     (\<forall>k. bolt_db.contents raw PodNetwork_codec NetworkDBName (dbHandler st') k =
            bolt_db.contents raw PodNetwork_codec NetworkDBName (dbHandler st) k \<or>
       (\<exists>pn uid. (k, pn) \<in> set kvs \<and> match_pods pn pods = CompleteRecord uid \<and>
          bolt_db.contents raw PodNetwork_codec NetworkDBName (dbHandler st') k = Some (pn\<lparr>pn_PodUID := uid\<rparr>)))"

lemma reconciled_skip:
  "match_pods pn pods \<noteq> OrphanRecord \<Longrightarrow> reconciled raw pods kvs st orphans st' \<Longrightarrow>
    reconciled raw pods ((key, pn) # kvs) st orphans st'"
  unfolding reconciled_def by (metis list.set_intros(2) prod.inject set_ConsD)

lemma reconciled_orphan:
  "match_pods pn pods = OrphanRecord \<Longrightarrow> reconciled raw pods kvs st orphans st' \<Longrightarrow>
    reconciled raw pods ((key, pn) # kvs) st (key # orphans) st'"
  unfolding reconciled_def by (metis list.set_intros prod.inject set_ConsD)

lemma reconciled_complete:
  assumes "\<forall>b. b \<noteq> NetworkDBName \<longrightarrow> raw (dbHandler st1) b = raw (dbHandler st) b"
    and "bolt_db.contents raw PodNetwork_codec NetworkDBName (dbHandler st1) =
      (if r = None then (bolt_db.contents raw PodNetwork_codec NetworkDBName (dbHandler st))(key \<mapsto> pn\<lparr>pn_PodUID := uid\<rparr>)
       else bolt_db.contents raw PodNetwork_codec NetworkDBName (dbHandler st))"
    and "match_pods pn pods = CompleteRecord uid" and "reconciled raw pods kvs st1 orphans st'"
  shows "reconciled raw pods ((key, pn) # kvs) st orphans st'"
proof -
  let ?c = "\<lambda>st. bolt_db.contents raw PodNetwork_codec NetworkDBName (dbHandler st)"
  have R: "\<And>k. ?c st' k = ?c st1 k \<or>
       (\<exists>pn uid. (k, pn) \<in> set kvs \<and> match_pods pn pods = CompleteRecord uid \<and> ?c st' k = Some (pn\<lparr>pn_PodUID := uid\<rparr>))"
    and O: "\<And>k. k \<in> set orphans \<longleftrightarrow> (\<exists>pn. (k, pn) \<in> set kvs \<and> match_pods pn pods = OrphanRecord)"
    and F: "\<And>b. b \<noteq> NetworkDBName \<Longrightarrow> raw (dbHandler st') b = raw (dbHandler st) b"
    using assms(1,4) unfolding reconciled_def by simp_all
  have "?c st' k = ?c st k \<or> (\<exists>pn' uid'. (k, pn') \<in> set ((key, pn) # kvs) \<and>
      match_pods pn' pods = CompleteRecord uid' \<and> ?c st' k = Some (pn'\<lparr>pn_PodUID := uid'\<rparr>))" for k
  proof (cases "?c st1 k = ?c st k")
    case True
    with R [of k] show ?thesis by auto
  next
    case False
    then have "k = key" "?c st1 k = Some (pn\<lparr>pn_PodUID := uid\<rparr>)" using assms(2) by (auto split: if_splits)
    with R [of k] assms(3) show ?thesis by auto
  qed
  moreover have "k \<in> set orphans \<longleftrightarrow> (\<exists>pn'. (k, pn') \<in> set ((key, pn) # kvs) \<and> match_pods pn' pods = OrphanRecord)" for k
    using O [of k] assms(3) by auto
  ultimately show ?thesis using F unfolding reconciled_def by blast
qed

context pool_db
begin

section \<open>The manager\<close>

lemma release_ok: "ipool_ok s raw wf st \<Longrightarrow> b \<in> set (poolDB st) \<Longrightarrow> ipool_ok s raw wf (releasePool s b sz st)"
  using release_loop_spec unfolding releasePool_def by blast

lemma poolDB_grows_getPool: "getPool s sn c st = (r, st') \<Longrightarrow> set (poolDB st) \<subseteq> set (poolDB st')"
  by (auto simp: getPool_def Let_def on_db_def split: if_splits prod.splits sum.splits)

lemma poolDB_backupPush: "set (poolDB st) \<subseteq> set (poolDB (backupPushSecondaryIP s pn st))"
proof -
  obtain r st1 where g: "getPool s (pn_SubnetID pn) True st = (r, st1)" by force
  from poolDB_grows_getPool [OF g] show ?thesis
    by (auto simp: backupPushSecondaryIP_def g on_db_def split: sum.splits prod.splits)
qed

lemma poolDB_release: "set (poolDB st) \<subseteq> set (poolDB (release_loop s b n st))"
proof (induction n arbitrary: st)
  case 0
  then show ?case by simp
next
  case (Suc n)
  obtain p st1 where p: "on_db (Bolt_Pop (bolt s) PodNetwork_codec b) st = (p, st1)" by force
  have p1: "poolDB st1 = poolDB st" using on_db_frame [OF p] by simp
  show ?case
  proof (cases p)
    case (Inl e)
    with p p1 show ?thesis by simp
  next
    case (Inr kv)
    obtain r st2 where d: "on_world (uapiDeleteSecondaryIp s (snd kv)) st1 = (r, st2)" by force
    have p2: "poolDB st2 = poolDB st" using on_world_frame [OF d] p1 by simp
    show ?thesis
      using Suc.IH [of st2] poolDB_backupPush [of st2 "snd kv"] p2 p d Inr
      by (cases kv; cases r) auto
  qed
qed

lemma tick_ok:
  "ipool_ok s raw wf st \<Longrightarrow> set keys \<subseteq> set (poolDB st) \<Longrightarrow> ipool_ok s raw wf (tick_pools s keys st)"
proof (induction keys arbitrary: st)
  case Nil
  then show ?case by simp
next
  case (Cons key keys)
  let ?st1 = "\<lambda>sz. releasePool s key sz st"
  have "ipool_ok s raw wf (?st1 sz)" "set keys \<subseteq> set (poolDB (?st1 sz))" for sz
    using release_ok [of st key sz] Cons.prems poolDB_release [of st key "nat (int sz - HighWatermark s)"]
    by (auto simp: releasePool_def)
  then show ?case using Cons.IH Cons.prems by (auto split: sum.splits)
qed

lemma updateStatus_frame:
  "dbHandler (snd (updateStatus s key st)) = dbHandler st \<and> poolDB (snd (updateStatus s key st)) = poolDB st"
  by (auto simp: updateStatus_def on_world_def Let_def split: prod.splits sum.splits option.splits if_splits)

lemma update_all_frame:
  "dbHandler (update_all s keys st) = dbHandler st \<and> poolDB (update_all s keys st) = poolDB st"
proof (induction keys arbitrary: st)
  case Nil
  then show ?case by simp
next
  case (Cons key keys)
  from Cons.IH [of "snd (updateStatus s key st)"] updateStatus_frame [of key st] show ?case by simp
qed

lemma update_all_ok: "ipool_ok s raw wf st \<Longrightarrow> ipool_ok s raw wf (update_all s keys st)"
  using ok_same_db [of "update_all s keys st" st] update_all_frame by blast

lemma assignPodIP_ok: "ipool_ok s raw wf st \<Longrightarrow> assignPodIP s ord req st = (r, st') \<Longrightarrow> ipool_ok s raw wf st'"
  using assignPodIP_spec by blast

lemma createVpcIpClaimByPodNetwork_ok:
  assumes "ipool_ok s raw wf st" and "createVpcIpClaimByPodNetwork s req pn pod st = (r, st')"
  shows "ipool_ok s raw wf st'"
proof -
  obtain vip st1 where v: "on_world (PodNetworkToVip s pn) st = (vip, st1)" by force
  let ?o = "getOwnerStatefulSetName pod"
  let ?v = "vip\<lparr>vc_Labels := Some (if ?o \<noteq> [] then [''owner-statefulset'' \<mapsto> ?o] else Map.empty)\<rparr>"
  obtain c st2 where c: "on_world (createVpcIpClaim s ?v) st1 = (c, st2)" by force
  have ok2: "ipool_ok s raw wf st2" using world_ok [OF world_ok [OF assms(1) v] c] .
  show ?thesis
  proof (cases c)
    case (Inl e)
    with assms(2) v c putIpToPool_ok [OF ok2, of pn] ok2 show ?thesis
      by (auto simp: createVpcIpClaimByPodNetwork_def Let_def split: if_splits)
  next
    case (Inr cl)
    with assms(2) v c have "on_world (localAttach s req cl (pn_SandboxID pn)) st2 = (r, st')"
      by (simp add: createVpcIpClaimByPodNetwork_def Let_def)
    with ok2 show ?thesis by (rule world_ok)
  qed
qed

lemma assignStaticPodIP_ok:
  assumes "ipool_ok s raw wf st" and "assignStaticPodIP s ord pod sb req st = (r, st')"
  shows "ipool_ok s raw wf st'"
proof -
  obtain f st1 where f: "on_world (findStaticIp s (pod_Namespace pod) (pod_Name pod)) st = (f, st1)" by force
  have ok1: "ipool_ok s raw wf st1" using world_ok [OF assms(1) f] .
  consider (err) e where "f = Inl e" | (vip) vip where "f = Inr (Some vip)" | (none) "f = Inr None"
    by (cases f; cases "projr f") auto
  then show ?thesis
  proof cases
    case err
    with assms(2) f ok1 show ?thesis by (simp add: assignStaticPodIP_def)
  next
    case vip
    obtain a st2 where a: "on_world (localAttach s req vip sb) st1 = (a, st2)" by force
    have ok2: "ipool_ok s raw wf st2" using world_ok [OF ok1 a] .
    show ?thesis
    proof (cases a)
      case (Inl e)
      with assms(2) f vip a ok2 show ?thesis by (simp add: assignStaticPodIP_def)
    next
      case (Inr v1)
      obtain pn st3 where p: "on_world (VipToPodNetwork s v1) st2 = (pn, st3)" by force
      with assms(2) f vip a Inr world_ok [OF ok2 p] show ?thesis by (simp add: assignStaticPodIP_def)
    qed
  next
    case none
    obtain a st2 where a: "assignPodIP s ord req st1 = (a, st2)" by force
    have ok2: "ipool_ok s raw wf st2" using assignPodIP_ok [OF ok1 a] .
    show ?thesis
    proof (cases a)
      case (Inl e)
      with assms(2) f none a ok2 show ?thesis by (simp add: assignStaticPodIP_def)
    next
      case (Inr pn)
      obtain now st3 where t: "on_world (TimeNow (cloud s)) st2 = (now, st3)" by force
      have ok3: "ipool_ok s raw wf st3" using world_ok [OF ok2 t] .
      let ?p = "pn\<lparr>pn_CreateTime := now, pn_PodName := pod_Name pod, pn_PodNS := pod_Namespace pod, pn_SandboxID := sb\<rparr>"
      obtain c st4 where c: "createVpcIpClaimByPodNetwork s req ?p pod st3 = (c, st4)" by force
      have "st' = st4" using assms(2) f none a Inr t c
        by (auto simp: assignStaticPodIP_def Let_def split: sum.splits)
      with createVpcIpClaimByPodNetwork_ok [OF ok3 c] show ?thesis by simp
    qed
  qed
qed

lemma verify_pod_ip_ok:
  assumes "ipool_ok s raw wf st" and "verify_pod_ip s static pn st = (r, st')"
  shows "ipool_ok s raw wf st'"
proof -
  obtain c st1 where c: "on_world (checkSecondaryIpExist s pn) st = (c, st1)" by force
  have ok1: "ipool_ok s raw wf st1" using world_ok [OF assms(1) c] .
  obtain g st2 where g: "on_world (checkIPConflict s (pn_VPCIP pn)) st1 = (g, st2)" by force
  have ok2: "ipool_ok s raw wf st2" using world_ok [OF ok1 g] .
  from assms(2) c g ok1 ok2 putIpToPool_ok [OF ok1, of pn] backup_ok [OF ok2, of pn] show ?thesis
    by (auto simp: verify_pod_ip_def split: sum.splits if_splits option.splits)
qed

lemma getPodIp_ok:
  assumes "ipool_ok s raw wf st" and "getPodIp s ord req st = (r, st')"
  shows "ipool_ok s raw wf st'"
proof -
  obtain e st1 where e: "on_world (podEnableStaticIP s (ar_PodName req) (ar_PodNamespace req)) st = (e, st1)"
    by force
  have ok1: "ipool_ok s raw wf st1" using world_ok [OF assms(1) e] .
  show ?thesis
  proof (cases e)
    case (Inl x)
    with assms(2) e ok1 show ?thesis by (simp add: getPodIp_def)
  next
    case (Inr sp)
    obtain static pod where sp: "sp = (static, pod)" by force
    obtain a st2 where a: "(if static then assignStaticPodIP s ord pod (ar_SandboxID req) req st1
        else assignPodIP s ord req st1) = (a, st2)" by force
    have ok2: "ipool_ok s raw wf st2"
      using a assignStaticPodIP_ok [OF ok1] assignPodIP_ok [OF ok1] by (auto split: if_splits)
    show ?thesis
    proof (cases a)
      case (Inl x)
      with assms(2) e Inr sp a ok2 show ?thesis by (simp add: getPodIp_def)
    next
      case (Inr pn)
      with assms(2) e \<open>e = Inr sp\<close> sp a have "verify_pod_ip s static pn st2 = (r, st')" by (simp add: getPodIp_def)
      with ok2 show ?thesis by (rule verify_pod_ip_ok)
    qed
  qed
qed

lemma manager_step_ok:
  assumes "ipool_ok s raw wf st" and "manager_step s ords ev st = (r, st')" and "\<And>ks. set (o_pools ords ks) \<subseteq> set ks"
  shows "ipool_ok s raw wf st'"
proof (cases ev)
  case PoolTick
  with assms tick_ok [OF assms(1,3)] show ?thesis by (auto simp: manager_step_def Let_def intro: update_all_ok)
next
  case (AddPodIP req)
  obtain a st1 where a: "getPodIp s (o_borrow ords) (complete_request s req) st = (a, st1)" by force
  with assms(2) AddPodIP getPodIp_ok [OF assms(1) a] show ?thesis
    by (auto simp: manager_step_def Let_def intro: update_all_ok)
next
  case (DelPodIP pn)
  obtain b st1 where b: "on_world (staticIpPodExists s pn) st = (b, st1)" by force
  have ok1: "ipool_ok s raw wf st1" using world_ok [OF assms(1) b] .
  with assms(2) DelPodIP b cooldownIP_ok [OF ok1, of pn] show ?thesis
    by (cases b) (auto simp: manager_step_def Let_def intro: update_all_ok)
next
  case CooldownTick
  with assms recycleCooldownIP_ok [OF assms(1)] show ?thesis
    by (auto simp: manager_step_def Let_def intro: update_all_ok)
next
  case RecycleStatusTick
  obtain b st1 where b: "on_world (recycleStatus s (o_recycle ords)) st = (b, st1)" by force
  with assms(2) RecycleStatusTick world_ok [OF assms(1) b] show ?thesis
    by (auto simp: manager_step_def Let_def intro: update_all_ok)
next
  case StopLoop
  with assms show ?thesis by (simp add: manager_step_def)
qed

lemma manager_run_ok:
  "ipool_ok s raw wf st \<Longrightarrow> \<forall>(ords, ev) \<in> set evs. \<forall>ks. set (o_pools ords ks) \<subseteq> set ks \<Longrightarrow>
    ipool_ok s raw wf (snd (ipPoolWatermarkManager s evs st))"
proof (induction evs arbitrary: st)
  case Nil
  then show ?case by simp
next
  case (Cons oe evs)
  obtain ords ev where oe: "oe = (ords, ev)" by force
  obtain r st1 where m: "manager_step s ords ev st = (r, st1)" by force
  have "\<And>ks. set (o_pools ords ks) \<subseteq> set ks" using Cons.prems(2) oe by auto
  with manager_step_ok [OF Cons.prems(1) m] have "ipool_ok s raw wf st1" by blast
  from Cons.IH [OF this] Cons.prems show ?case
    by (auto simp: oe m split: prod.splits)
qed

section \<open>Records\<close>

lemma reconcile_records_spec:
  assumes "readable PodNetwork_codec NetworkDBName (dbHandler st)" and "distinct (map fst kvs)"
    and "reconcile_records s pods kvs st = (orphans, st')"
  shows "readable PodNetwork_codec NetworkDBName (dbHandler st') \<and> reconciled raw pods kvs st orphans st'"
  using assms
proof (induction kvs arbitrary: st orphans st')
  case Nil
  then show ?case by (auto simp: reconciled_def)
next
  case (Cons kv kvs)
  obtain key pn where kv: "kv = (key, pn)" by force
  have dist: "distinct (map fst kvs)" using Cons.prems(2) by simp
  show ?case
  proof (cases "match_pods pn pods")
    case LiveRecord
    with Cons.prems(3) kv have "reconcile_records s pods kvs st = (orphans, st')" by simp
    from Cons.IH [OF Cons.prems(1) dist this] LiveRecord kv show ?thesis by (simp add: reconciled_skip)
  next
    case NoVerdict
    with Cons.prems(3) kv have "reconcile_records s pods kvs st = (orphans, st')" by simp
    from Cons.IH [OF Cons.prems(1) dist this] NoVerdict kv show ?thesis by (simp add: reconciled_skip)
  next
    case OrphanRecord
    with Cons.prems(3) kv obtain os where os: "reconcile_records s pods kvs st = (os, st')" "orphans = key # os"
      by (auto split: prod.splits)
    from Cons.IH [OF Cons.prems(1) dist os(1)] os(2) OrphanRecord kv show ?thesis
      by (simp add: reconciled_orphan)
  next
    case (CompleteRecord uid)
    let ?v = "pn\<lparr>pn_PodUID := uid\<rparr>"
    obtain r st1 where p: "on_db (Bolt_Put (bolt s) PodNetwork_codec NetworkDBName key ?v) st = (r, st1)" by force
    note P = bolt_bucket.Bolt_Put_spec [OF pn_bucket Cons.prems(1) on_dbE [OF p]]
    from Cons.prems(3) kv CompleteRecord p have rest: "reconcile_records s pods kvs st1 = (orphans, st')" by simp
    have "readable PodNetwork_codec NetworkDBName (dbHandler st1)" using P by simp
    note I = Cons.IH [OF this dist rest]
    have "\<forall>b. b \<noteq> NetworkDBName \<longrightarrow> raw (dbHandler st1) b = raw (dbHandler st) b"
      "contents PodNetwork_codec NetworkDBName (dbHandler st1) =
        (if r = None then (contents PodNetwork_codec NetworkDBName (dbHandler st))(key \<mapsto> ?v)
         else contents PodNetwork_codec NetworkDBName (dbHandler st))" using P by auto
    from reconciled_complete [OF this CompleteRecord] I kv show ?thesis by simp
  qed
qed

lemma delete_records_spec:
  assumes "readable PodNetwork_codec NetworkDBName (dbHandler st)"
  shows "readable PodNetwork_codec NetworkDBName (dbHandler (delete_records s keys st)) \<and>
    (\<forall>b. b \<noteq> NetworkDBName \<longrightarrow> raw (dbHandler (delete_records s keys st)) b = raw (dbHandler st) b) \<and>
    (\<forall>k. contents PodNetwork_codec NetworkDBName (dbHandler (delete_records s keys st)) k =
           contents PodNetwork_codec NetworkDBName (dbHandler st) k \<or>
       k \<in> set keys \<and> contents PodNetwork_codec NetworkDBName (dbHandler (delete_records s keys st)) k = None)"
  using assms
proof (induction keys arbitrary: st)
  case Nil
  then show ?case by simp
next
  case (Cons key keys)
  obtain r st1 where d: "on_db (Bolt_Delete (bolt s) NetworkDBName key) st = (r, st1)" by force
  note D = bolt_bucket.Bolt_Delete_spec [OF pn_bucket Cons.prems on_dbE [OF d]]
  have eq: "delete_records s (key # keys) st = delete_records s keys st1" by (simp add: d)
  from D Cons.IH [of st1] show ?case unfolding eq by (auto split: if_splits)
qed

section \<open>Migration\<close>

lemma migrate_loop_spec:
  assumes "readable PodNetwork_codec PoolDBName (dbHandler st)"
    and "readable PodNetwork_codec b (dbHandler st)" and "b \<noteq> PoolDBName"
    and "card (dom (contents PodNetwork_codec PoolDBName (dbHandler st))) < fuel"
  shows "\<exists>r st'. migrate_loop s fuel b st = (Some r, st') \<and>
    readable PodNetwork_codec PoolDBName (dbHandler st') \<and> readable PodNetwork_codec b (dbHandler st') \<and>
    migrated raw s b st r st'"
  using assms
proof (induction fuel arbitrary: st)
  case 0
  then show ?case by simp
next
  case (Suc fuel)
  let ?old = "\<lambda>st. contents PodNetwork_codec PoolDBName (dbHandler st)"
  let ?new = "\<lambda>st. contents PodNetwork_codec b (dbHandler st)"
  obtain p st1 where p: "on_db (Bolt_Pop (bolt s) PodNetwork_codec PoolDBName) st = (p, st1)" by force
  note P = bolt_bucket.Bolt_Pop_spec [OF pn_bucket Suc.prems(1) on_dbE [OF p]]
  have rd1: "readable PodNetwork_codec PoolDBName (dbHandler st1)" using P by simp
  have rb1: "readable PodNetwork_codec b (dbHandler st1)"
    using P Suc.prems(2,3) readable_wf by (intro readable_frame [OF Suc.prems(2)]) auto
  have nb1: "?new st1 = ?new st" using P Suc.prems(3) by (intro contents_frame) auto
  show ?case
  proof (cases p)
    case (Inl e)
    let ?r = "if IsEOF (Some e) then None else Some e"
    have r: "migrate_loop s (Suc fuel) b st = (Some ?r, st1)" using p Inl by simp
    have o: "?old st1 = ?old st" "IsEOF (Some e) \<Longrightarrow> ?old st = Map.empty" using P Inl by auto
    have x: "\<forall>k v. ?old st k = Some v \<and> Some k \<noteq> None \<longrightarrow> ?old st1 k = Some v \<or> ?new st1 k = Some (moved s v)"
      unfolding o(1) by blast
    have n: "?new st1 = ?new st ++ (\<lambda>k. map_option (moved s) (?old st k))" if "IsEOF (Some e)"
      using o(2) [OF that] nb1 by (simp add: map_add_def)
    have "migrated raw s b st ?r st1"
    proof -
      have "?r = None \<longrightarrow> ?old st1 = Map.empty \<and> ?new st1 = ?new st ++ (\<lambda>k. map_option (moved s) (?old st k))"
        using o n by simp
      moreover have "\<forall>k. ?old st k = None \<longrightarrow> ?new st1 k = ?new st k" using nb1 by simp
      ultimately show ?thesis unfolding migrated_def Let_def using x by blast
    qed
    with r rd1 rb1 show ?thesis by blast
  next
    case (Inr kv)
    obtain key v where kv: "kv = (key, v)" by force
    have o1: "?old st key = Some v" "?old st1 = (?old st)(key := None)" using P Inr kv by auto
    obtain q st2 where q: "on_db (Bolt_Put (bolt s) PodNetwork_codec b key (moved s v)) st1 = (q, st2)" by force
    note Q = bolt_bucket.Bolt_Put_spec [OF pn_bucket rb1 on_dbE [OF q]]
    have rb2: "readable PodNetwork_codec b (dbHandler st2)" using Q by simp
    have ro2: "readable PodNetwork_codec PoolDBName (dbHandler st2)"
      using Q rd1 Suc.prems(3) readable_wf [OF rb2] by (intro readable_frame [OF rd1]) auto
    have o2: "?old st2 = ?old st1" using Q Suc.prems(3) by (intro contents_frame) auto
    have n2: "?new st2 = (if q = None then (?new st)(key \<mapsto> moved s v) else ?new st)" using Q nb1 by simp
    show ?thesis
    proof (cases q)
      case (Some e)
      let ?r = "Some (Errorf ''failed to put migrated pod network %s: %v'' (Some e))"
      have r: "migrate_loop s (Suc fuel) b st = (Some ?r, st2)"
        using p Inr kv q Some by (simp add: moved_def)
      have "\<forall>k v. ?old st k = Some v \<and> Some k \<noteq> Some key \<longrightarrow> ?old st2 k = Some v \<or> ?new st2 k = Some (moved s v)"
        using o1 o2 by simp
      moreover have "\<forall>k. ?old st k = None \<longrightarrow> ?new st2 k = ?new st k" using n2 Some by simp
      ultimately have "migrated raw s b st ?r st2" unfolding migrated_def Let_def by blast
      with r rb2 ro2 show ?thesis by blast
    next
      case None
      have r: "migrate_loop s (Suc fuel) b st = migrate_loop s fuel b st2"
        using p Inr kv q None by (simp add: moved_def)
      have "card (dom (?old st2)) < fuel"
      proof -
        have d: "dom (?old st2) = dom (?old st) - {key}" unfolding o2 o1(2) by auto
        have "key \<in> dom (?old st)" using o1(1) by auto
        from card.remove [OF contents_finite [OF Suc.prems(1)] this] Suc.prems(4) show ?thesis
          unfolding d by linarith
      qed
      from Suc.IH [OF ro2 rb2 Suc.prems(3) this] obtain r' st' where
        m: "migrate_loop s fuel b st2 = (Some r', st')"
        and I: "readable PodNetwork_codec PoolDBName (dbHandler st')" "readable PodNetwork_codec b (dbHandler st')"
        and M: "migrated raw s b st2 r' st'" by blast
      have full: "r' = None \<longrightarrow> ?old st' = Map.empty \<and>
          ?new st' = ?new st2 ++ (\<lambda>k. map_option (moved s) (?old st2 k))"
        and new: "\<And>k. ?old st2 k = None \<Longrightarrow> ?new st' k = ?new st2 k"
        and ex: "\<exists>x. \<forall>k v. ?old st2 k = Some v \<and> Some k \<noteq> x \<longrightarrow> ?old st' k = Some v \<or> ?new st' k = Some (moved s v)"
        using M unfolding migrated_def Let_def by simp_all
      obtain x where x: "\<forall>k v. ?old st2 k = Some v \<and> Some k \<noteq> x \<longrightarrow> ?old st' k = Some v \<or> ?new st' k = Some (moved s v)"
        using ex ..
      have key: "?old st2 key = None" using o1 o2 by simp
      have n: "?new st' = ?new st ++ (\<lambda>k. map_option (moved s) (?old st k))" if "r' = None"
        using full that n2 None o1 o2 by (auto simp: map_add_def fun_eq_iff split: option.splits)
      have keep: "?new st' key = Some (moved s v)" using new [OF key] n2 None by simp
      have "?old st' k = Some v' \<or> ?new st' k = Some (moved s v')" if "?old st k = Some v' \<and> Some k \<noteq> x" for k v'
      proof (cases "k = key")
        case True
        with that o1 keep show ?thesis by simp
      next
        case False
        with that x o1 o2 show ?thesis by simp
      qed
      moreover have "?new st' k = ?new st k" if "?old st k = None" for k
      proof -
        from that o1 have "k \<noteq> key" by auto
        with that new [of k] o1 o2 n2 None show ?thesis by simp
      qed
      ultimately have A: "\<forall>k v. ?old st k = Some v \<and> Some k \<noteq> x \<longrightarrow> ?old st' k = Some v \<or> ?new st' k = Some (moved s v)"
        "\<forall>k. ?old st k = None \<longrightarrow> ?new st' k = ?new st k" by blast+
      have "r' = None \<longrightarrow> ?old st' = Map.empty \<and> ?new st' = ?new st ++ (\<lambda>k. map_option (moved s) (?old st k))"
        using full n by blast
      with A have "migrated raw s b st r' st'" unfolding migrated_def Let_def by blast
      with I m show ?thesis unfolding r by blast
    qed
  qed
qed

lemma create_frame:
  assumes "wf d" and "tx_CreateBucketIfNotExists (bolt s) b d = (c, d1)"
  shows "wf d1 \<and> (\<forall>b'. b' \<noteq> b \<longrightarrow> raw d1 b' = raw d b') \<and> (raw d b \<noteq> None \<longrightarrow> raw d1 = raw d)"
proof (cases c)
  case (Some e)
  with create_wf [OF assms] create_err [OF assms(1)] assms(2) show ?thesis by simp
next
  case None
  with create_wf [OF assms] create_new [OF assms(1)] create_old [OF assms(1)] assms(2) show ?thesis
    by (cases "raw d b") simp_all
qed

lemma same_raw:
  assumes "raw (dbHandler st') = raw (dbHandler st)" and "wf (dbHandler st')"
  shows "readable PodNetwork_codec b (dbHandler st) \<Longrightarrow> readable PodNetwork_codec b (dbHandler st')"
    and "contents PodNetwork_codec b (dbHandler st') = contents PodNetwork_codec b (dbHandler st)"
    and "poolDB st' = poolDB st \<Longrightarrow> ipool_ok s raw wf st \<Longrightarrow> ipool_ok s raw wf st'"
  using assms by (simp_all add: readable_def contents_def ipool_ok_def stock_def cooling_def)

lemma getPool_frame:
  assumes "wf (dbHandler st)" and "getPool s sn c st = (r, st')"
  shows "wf (dbHandler st') \<and> (\<forall>b. b \<noteq> poolName s sn \<longrightarrow> raw (dbHandler st') b = raw (dbHandler st) b)"
proof (cases "poolName s sn \<in> set (poolDB st) \<or> \<not> c")
  case True
  with assms show ?thesis by (auto simp: getPool_def Let_def split: if_splits)
next
  case False
  obtain x d1 where x: "tx_CreateBucketIfNotExists (bolt s) (poolName s sn) (dbHandler st) = (x, d1)" by force
  then have "dbHandler st' = d1"
    using False assms(2) by (cases x) (auto simp: getPool_def Let_def on_db_def NewBolt_def)
  with create_frame [OF assms(1) x] show ?thesis by simp
qed

lemma migrated_noop:
  assumes "\<And>b. contents PodNetwork_codec b (dbHandler st') = contents PodNetwork_codec b (dbHandler st)"
    and "r = None \<Longrightarrow> contents PodNetwork_codec PoolDBName (dbHandler st) = Map.empty"
  shows "migrated raw s b st r st'"
  using assms(2) by (auto simp: migrated_def Let_def assms(1) map_add_def)

lemma migrated_from:
  assumes "contents PodNetwork_codec PoolDBName (dbHandler st1) = contents PodNetwork_codec PoolDBName (dbHandler st)"
    and "contents PodNetwork_codec b (dbHandler st1) = contents PodNetwork_codec b (dbHandler st)"
    and "migrated raw s b st1 r st'"
  shows "migrated raw s b st r st'"
  using assms(3) unfolding migrated_def Let_def assms(1,2) .

lemma migrateV1BoltDB_spec:
  assumes ok: "ipool_ok s raw wf st" and rd: "readable PodNetwork_codec PoolDBName (dbHandler st)"
    and fuel: "card (dom (contents PodNetwork_codec PoolDBName (dbHandler st))) < fuel"
  shows "\<exists>r st'. migrateV1BoltDB s fuel st = (Some r, st') \<and> migrated raw s (poolName s []) st r st'"
proof -
  let ?b = "poolName s []"
  let ?old = "\<lambda>st. contents PodNetwork_codec PoolDBName (dbHandler st)"
  have okd: "wf (dbHandler st)" and m: "raw (dbHandler st) PoolDBName \<noteq> None"
    using rd by (auto simp: readable_def)
  obtain c d1 where c: "tx_CreateBucketIfNotExists (bolt s) PoolDBName (dbHandler st) = (c, d1)" by force
  let ?st1 = "st\<lparr>dbHandler := d1\<rparr>"
  have raw1: "raw (dbHandler ?st1) = raw (dbHandler st)" "wf (dbHandler ?st1)"
    using create_frame [OF okd c] m by auto
  note S = same_raw [OF raw1]
  show ?thesis
  proof (cases c)
    case (Some e)
    let ?r = "Some (Errorf ''failed to open old pool database %s: %v'' (Some (Errorf ''boltdb create bucket %q error: %v'' (Some e))))"
    have "migrateV1BoltDB s fuel st = (Some ?r, ?st1)"
      using c Some by (simp add: migrateV1BoltDB_def on_db_def NewBolt_def)
    moreover have "migrated raw s ?b st ?r ?st1" by (rule migrated_noop [OF S(2)]) simp
    ultimately show ?thesis by blast
  next
    case None
    have n0: "on_db (NewBolt (bolt s) PoolDBName) st = (Inr PoolDBName, ?st1)"
      using c None by (simp add: on_db_def NewBolt_def)
    show ?thesis
    proof (cases "Bolt_Count (bolt s) PoolDBName d1")
      case (Inl e)
      with n0 have "migrateV1BoltDB s fuel st = (Some (Some e), ?st1)" by (simp add: migrateV1BoltDB_def)
      moreover have "migrated raw s ?b st (Some e) ?st1" by (rule migrated_noop [OF S(2)]) simp
      ultimately show ?thesis by blast
    next
      case (Inr cnt)
      have "cnt = card (dom (?old ?st1))"
        using bolt_bucket.Bolt_Count_view [OF pn_bucket S(1) [OF rd]] Inr by simp
      then have cnt: "cnt = card (dom (?old st))" unfolding S(2) .
      then have z: "cnt = 0 \<Longrightarrow> ?old st = Map.empty" using contents_finite [OF rd] by simp
      show ?thesis
      proof (cases "cnt = 0")
        case True
        with n0 Inr have "migrateV1BoltDB s fuel st = (Some None, ?st1)" by (simp add: migrateV1BoltDB_def)
        moreover have "migrated raw s ?b st None ?st1" by (rule migrated_noop [OF S(2) z [OF True]])
        ultimately show ?thesis by blast
      next
        case False
        obtain g st2 where g: "getPool s [] True ?st1 = (g, st2)" by force
        have ok1: "ipool_ok s raw wf ?st1" by (rule S(3) [OF _ ok]) simp
        note G = getPool_spec [OF ok1 g]
        have nb: "?b \<noteq> PoolDBName" by (simp add: poolName_def)
        have fr: "wf (dbHandler st2)" "raw (dbHandler st2) PoolDBName = raw (dbHandler ?st1) PoolDBName"
          using getPool_frame [OF raw1(2) g] nb by simp_all
        have o2: "?old st2 = ?old st" using contents_frame [OF fr(2), of PodNetwork_codec] S(2) [of PoolDBName] by simp
        have n2: "contents PodNetwork_codec ?b (dbHandler st2) = contents PodNetwork_codec ?b (dbHandler st)"
          using G unfolding same_stock_def stock_def S(2) by simp
        have rdo: "readable PodNetwork_codec PoolDBName (dbHandler st2)"
          by (rule readable_frame [OF S(1) [OF rd] fr])
        show ?thesis
        proof (cases g)
          case (Inl e)
          let ?r = "Some (Errorf ''failed to get new pool database: %v'' (Some e))"
          have "migrateV1BoltDB s fuel st = (Some ?r, st2)"
            using n0 Inr False g Inl by (simp add: migrateV1BoltDB_def)
          moreover have "migrated raw s ?b st2 ?r st2" by (rule migrated_noop) simp_all
          ultimately show ?thesis using migrated_from [OF o2 n2] by blast
        next
          case (Inr pool)
          with G have pool: "pool = ?b" "?b \<in> set (poolDB st2)" and ok2: "ipool_ok s raw wf st2" by auto
          have rdb: "readable PodNetwork_codec ?b (dbHandler st2)"
            using ok2 pool(2) unfolding ipool_ok_def by blast
          have "card (dom (?old st2)) < fuel" using fuel unfolding o2 .
          from migrate_loop_spec [OF rdo rdb nb this] obtain r st' where
            l: "migrate_loop s fuel ?b st2 = (Some r, st')" and M: "migrated raw s ?b st2 r st'" by blast
          have "migrateV1BoltDB s fuel st = (Some r, st')"
            using n0 \<open>Bolt_Count (bolt s) PoolDBName d1 = Inr cnt\<close> False g Inr pool(1) l
            by (simp add: migrateV1BoltDB_def)
          with migrated_from [OF o2 n2 M] show ?thesis by blast
        qed
      qed
    qed
  qed
qed

end

end
