(* ===== verification/Ipamd_Borrow.thy ===== *)
theory Ipamd_Borrow
  imports Ipamd_Pool
begin

text \<open>
  Borrowing addresses and keeping the status resources (\<open>pool.go\<close>): which daemons are asked,
  in which order, what a borrowed address is, and which resources \<open>recycleStatus\<close> may delete.
\<close>

section \<open>Choosing the daemons to ask\<close>

lemma select_candidate_in: "is \<noteq> [] \<Longrightarrow> select_candidate is \<in> set is"
  by (auto simp: select_candidate_def Let_def split: option.splits dest: find_Some_set)

lemma select_candidate_canonical:
  assumes "is \<noteq> []" and "\<forall>i \<in> set is. im_Node i = n \<and> im_Subnet i = sn"
    and "c \<in> set is" and "im_Name c = getCanonicalIpamdName (n, sn)"
  shows "im_Name (select_candidate is) = getCanonicalIpamdName (n, sn)"
proof (cases "length is > 1")
  case True
  have hd: "getIpamdPoolIdentity (hd is) = (n, sn)"
    using assms(1,2) by (simp add: getIpamdPoolIdentity_def)
  with assms(3,4) have "List.find (\<lambda>i. im_Name i = getCanonicalIpamdName (getIpamdPoolIdentity (hd is))) is \<noteq> None"
    by (auto simp: find_None)
  with True hd show ?thesis
    by (auto simp: select_candidate_def Let_def dest: find_Some_set)
next
  case False
  with assms(1,3) have "is = [c]" by (cases "is") auto
  with assms(4) show ?thesis by (simp add: select_candidate_def)
qed

lemma candidate_groups:
  assumes "reorders ord"
  shows "set (ord (group_by f xs)) = set (group_by f xs)" and "distinct (map fst (ord (group_by f xs)))"
  using assms group_by_distinct [of f xs] by (simp_all add: reorders_set reorders_distinct)

lemma filterBorrowCandidates_nodes:
  assumes "reorders ord"
  shows "map im_Node (filterBorrowCandidates ord is) = map fst (ord (group_by im_Node is))"
proof -
  have "im_Node (select_candidate ys) = k" if "(k, ys) \<in> set (ord (group_by im_Node is))" for k ys
  proof -
    from that have "(k, ys) \<in> set (group_by im_Node is)" using candidate_groups(1) [OF assms] by blast
    from group_by_group [OF this] have "\<forall>y \<in> set ys. im_Node y = k" and "ys \<noteq> []" by auto
    then show ?thesis using select_candidate_in by blast
  qed
  then show ?thesis by (auto simp: filterBorrowCandidates_def)
qed

lemma filterBorrowCandidates_in:
  assumes "reorders ord" and "c \<in> set (filterBorrowCandidates ord is)"
  shows "c \<in> set is \<and> c = select_candidate (filter (\<lambda>i. im_Node i = im_Node c) is)"
proof -
  from assms(2) obtain k ys where g: "(k, ys) \<in> set (group_by im_Node is)" and c: "c = select_candidate ys"
    using candidate_groups(1) [OF assms(1)] by (auto simp: filterBorrowCandidates_def)
  from group_by_group [OF g] have ys: "ys = filter (\<lambda>i. im_Node i = k) is" "ys \<noteq> []" by auto
  with select_candidate_in [of ys] c have "c \<in> set is" "im_Node c = k" by auto
  with ys c show ?thesis by simp
qed

text \<open>One candidate per node, the canonical resource of the node where it has one.

  \<open>filterBorrowCandidates\<close> keeps exactly one resource of every node that has any, whatever the
  iteration order of the map; and when all resources are of one subnet, a node whose canonical
  resource (named after node and subnet) exists is represented by a resource of that name.\<close>

lemma filterBorrowCandidates_one_per_node:
  assumes "reorders ord"
  shows "distinct (map im_Node (filterBorrowCandidates ord is)) \<and>
    set (map im_Node (filterBorrowCandidates ord is)) = im_Node ` set is \<and>
    set (filterBorrowCandidates ord is) \<subseteq> set is \<and>
    ((\<forall>i \<in> set is. im_Subnet i = sn) \<longrightarrow>
      (\<forall>c \<in> set (filterBorrowCandidates ord is). \<forall>j \<in> set is.
         im_Node j = im_Node c \<and> im_Name j = getCanonicalIpamdName (im_Node c, sn) \<longrightarrow>
         im_Name c = getCanonicalIpamdName (im_Node c, sn)))"
proof (intro conjI impI ballI)
  show "distinct (map im_Node (filterBorrowCandidates ord is))"
    by (simp only: filterBorrowCandidates_nodes [OF assms] candidate_groups(2) [OF assms])
  show "set (map im_Node (filterBorrowCandidates ord is)) = im_Node ` set is"
    by (simp only: filterBorrowCandidates_nodes [OF assms] set_map candidate_groups(1) [OF assms] group_by_keys)
  show "set (filterBorrowCandidates ord is) \<subseteq> set is"
    using filterBorrowCandidates_in [OF assms] by blast
next
  fix c j
  assume sn: "\<forall>i \<in> set is. im_Subnet i = sn" and c: "c \<in> set (filterBorrowCandidates ord is)"
    and j: "j \<in> set is" "im_Node j = im_Node c \<and> im_Name j = getCanonicalIpamdName (im_Node c, sn)"
  let ?g = "filter (\<lambda>i. im_Node i = im_Node c) is"
  have "j \<in> set ?g" using j by simp
  with sn j have "im_Name (select_candidate ?g) = getCanonicalIpamdName (im_Node c, sn)"
    by (intro select_candidate_canonical [of _ _ _ j]) (auto simp: filter_empty_conv)
  with filterBorrowCandidates_in [OF assms c] show "im_Name c = getCanonicalIpamdName (im_Node c, sn)"
    by simp
qed

section \<open>Asking them\<close>

lemma sort_candidates_set [simp]: "set (sort_candidates is) = set is"
  by (simp add: sort_candidates_def)






section \<open>The status resources\<close>

lemma recycle_dead_eq:
  "recycle_dead s nodes is w = (filter (\<lambda>i. im_Node i \<in> set nodes) is,
     delete_all s (map im_Name (filter (\<lambda>i. im_Node i \<notin> set nodes) is)) w)"
  by (induction s nodes "is" w rule: recycle_dead.induct) (auto split: prod.splits)

lemma delete_all_append: "delete_all s (xs @ ys) w = delete_all s ys (delete_all s xs w)"
  by (induction s xs w rule: delete_all.induct) auto

lemma alias_victims_in:
  assumes "n \<in> set (alias_victims s groups)"
  shows "\<exists>identity is i c. (identity, is) \<in> set groups \<and> fst identity = nodeName s \<and> n = nodeName s \<and>
    i \<in> set is \<and> im_Name i = n \<and> c \<in> set is \<and> im_Name c = getCanonicalIpamdName identity"
  using assms by (fastforce simp: alias_victims_def split: if_splits)

text \<open>C39. What the recycling of status resources may delete.

  \<open>recycleStatus\<close>, when both lists could be read, deletes a sequence of resources by name, and
  every one of them is either the resource of a node that no longer exists, or the resource
  named exactly like this node, and then only beside a different, canonical resource for the
  same node and subnet. Nothing else is ever deleted; when a list fails, nothing is.\<close>

theorem recycleStatus_deletes:
  assumes "reorders ord" and "recycleStatus s ord w = (r, w')"
    and "IpamdsList (kube s) w = (Inr items, w1)" and "NodesList (kube s) w1 = (Inr nodes, w2)"
  shows "\<exists>names. r = None \<and> w' = delete_all s names w2 \<and>
    (\<forall>n \<in> set names. \<exists>i \<in> set items. im_Name i = n \<and>
       (im_Node i \<notin> set nodes \<or>
        im_Node i = nodeName s \<and> n = nodeName s \<and>
        (\<exists>c \<in> set items. im_Node c = nodeName s \<and> im_Subnet c = im_Subnet i \<and>
           im_Name c = getCanonicalIpamdName (nodeName s, im_Subnet i) \<and> im_Name c \<noteq> n)))"
proof -
  let ?kept = "filter (\<lambda>i. im_Node i \<in> set nodes) items"
  let ?dead = "map im_Name (filter (\<lambda>i. im_Node i \<notin> set nodes) items)"
  let ?al = "alias_victims s (ord (group_by getIpamdPoolIdentity ?kept))"
  have "w' = delete_all s (?dead @ ?al) w2" "r = None"
    using assms(2-4) by (auto simp: recycleStatus_def recycle_dead_eq delete_all_append)
  moreover have "\<exists>i \<in> set items. im_Name i = n \<and> im_Node i = nodeName s \<and> n = nodeName s \<and>
      (\<exists>c \<in> set items. im_Node c = nodeName s \<and> im_Subnet c = im_Subnet i \<and>
         im_Name c = getCanonicalIpamdName (nodeName s, im_Subnet i) \<and> im_Name c \<noteq> n)"
    if "n \<in> set ?al" for n
  proof -
    from alias_victims_in [OF that] obtain d "is" i c where
      g: "(d, is) \<in> set (ord (group_by getIpamdPoolIdentity ?kept))" and
      n: "fst d = nodeName s" "n = nodeName s" and i: "i \<in> set is" "im_Name i = n" and
      c: "c \<in> set is" "im_Name c = getCanonicalIpamdName d" by blast
    from g have "(d, is) \<in> set (group_by getIpamdPoolIdentity ?kept)"
      using candidate_groups(1) [OF assms(1)] by simp
    from group_by_group [OF this] have "is = filter (\<lambda>x. getIpamdPoolIdentity x = d) ?kept" by simp
    then have "\<forall>x \<in> set is. x \<in> set items \<and> im_Node x = fst d \<and> im_Subnet x = snd d"
      by (auto simp: getIpamdPoolIdentity_def)
    moreover have "im_Name c \<noteq> n" using c n by (auto simp: getCanonicalIpamdName_def)
    ultimately show ?thesis using n i c by (metis prod.collapse)
  qed
  moreover have "\<exists>i \<in> set items. im_Name i = n \<and> im_Node i \<notin> set nodes" if "n \<in> set ?dead" for n
    using that by auto
  ultimately have "\<forall>n \<in> set (?dead @ ?al). \<exists>i \<in> set items. im_Name i = n \<and>
       (im_Node i \<notin> set nodes \<or> im_Node i = nodeName s \<and> n = nodeName s \<and>
        (\<exists>c \<in> set items. im_Node c = nodeName s \<and> im_Subnet c = im_Subnet i \<and>
           im_Name c = getCanonicalIpamdName (nodeName s, im_Subnet i) \<and> im_Name c \<noteq> n))"
    unfolding set_append by blast
  with \<open>r = None\<close> \<open>w' = delete_all s (?dead @ ?al) w2\<close> show ?thesis by blast
qed

end
