(* ===== verification/Ipamd_Examples.thy ===== *)
theory Ipamd_Examples
  imports Ipamd_Pool_Loops
begin

text \<open>
  A small concrete server and store, on which the examples of the other theories evaluate the
  daemon's operations: one pool with two addresses, an empty cooldown bucket, a cloud in which
  credentials are granted and addresses can be moved, deleted and described.
\<close>

definition demo_client :: ApiClient where
  "demo_client = \<lparr>ac_instanceId = ''upm-1'', ac_zoneId = ''z'', ac_vpcId = ''v'', ac_subnetId = ''s'',
     ac_cfg = \<lparr>cf_Region = ''r'', cf_ProjectId = ''p'', cf_UserAgent = [], cf_Zone = [], cf_BaseUrl = []\<rparr>\<rparr>"

definition demo_ip :: "string \<Rightarrow> IpInfo" where
  "demo_ip a = \<lparr>ii_Ip = a, ii_VPCId = ''v'', ii_SubnetId = ''s'', ii_Mask = ''24'', ii_Mac = ''m'', ii_Gateway = ''g''\<rparr>"

definition demo_cloud :: "unit cloud_api" where
  "demo_cloud = cloud_down\<lparr>
     LoadSTSConfigV2 := (\<lambda>_ w. (Inr \<lparr>cr_PublicKey = ''a'', cr_PrivateKey = ''b''\<rparr>, w)),
     DescribeSubnet := (\<lambda>_ _ _ w. (Inr [5], w)),
     AllocateSecondaryIp := (\<lambda>_ _ w. ((\<lparr>alr_RetCode = 0, alr_IpInfo = demo_ip ''9''\<rparr>, None), w)),
     DescribeSecondaryIp := (\<lambda>_ q w. (Inr [demo_ip (de_Ip q)], w)),
     MoveSecondaryIPMac := (\<lambda>_ _ w. (None, w)),
     DeleteSecondaryIp := (\<lambda>_ _ w. ((0, None), w)),
     TimeNow := (\<lambda>w. (100, w))\<rparr>"

definition demo_server :: "(mem, unit) ipamServer" where
  "demo_server = \<lparr>bolt = mem_api [], cloud = demo_cloud, kube = kube_down,
     arpAttempt = (\<lambda>_ w. ((False, None), w)), nodeName = ''n'', hostId = ''h'', zoneId = ''z'',
     masterMacAddress = ''m'', tcpAddr = ''a'', uapi = demo_client, LowWatermark = 1, HighWatermark = 1,
     CalicoPolicyFlag = False, CooldownPeriodSeconds = 30\<rparr>"

definition demo_pn :: "string \<Rightarrow> PodNetwork" where
  "demo_pn a = PodNetwork_zero\<lparr>pn_VPCIP := a, pn_VPCID := ''v'', pn_SubnetID := ''s'', pn_MacAddress := ''m''\<rparr>"

definition demo_pool :: string where
  "demo_pool = ''cni-vpc-ip-pool-s''"

definition demo_entry :: "string \<Rightarrow> string \<times> bytes" where
  "demo_entry a = (''v-'' @ a, Doc (marshal_PodNetwork (demo_pn a)))"

definition demo_cd :: CooldownItem where
  "demo_cd = \<lparr>cd_Network = (demo_pn ''7'')\<lparr>pn_Recycled := True\<rparr>, cd_CooldownOver = 50\<rparr>"

definition demo_file :: mem where
  "demo_file = [(demo_pool, [demo_entry ''1'', demo_entry ''2'']),
     (CooldownDBName, [(''v-7'', Doc (marshal_CooldownItem demo_cd))])]"

definition demo_state :: "(mem, unit) istate" where
  "demo_state = \<lparr>dbHandler = demo_file, poolDB = [demo_pool], outside = ()\<rparr>"

lemma demo_bolt: "bolt_db (bolt demo_server) mem_raw mem_wf"
  using mem.bolt_db_axioms [of "[]"] by (simp add: demo_server_def)

lemma decode_demo:
  "decodeValue PodNetwork_codec (Doc (marshal_PodNetwork pn)) = Inr pn"
  "decodeValue CooldownItem_codec (Doc (marshal_CooldownItem c)) = Inr c"
  by (simp_all add: decodeValue_def PodNetwork_codec_def CooldownItem_codec_def
      unmarshal_marshal_PodNetwork unmarshal_marshal_CooldownItem)

lemma demo_raw: "mem_raw demo_file = [demo_pool \<mapsto> map_of [demo_entry ''1'', demo_entry ''2''],
    CooldownDBName \<mapsto> map_of [(''v-7'', Doc (marshal_CooldownItem demo_cd))]]"
  by (auto simp: mem_raw_def demo_file_def fun_eq_iff demo_pool_def CooldownDBName_def)

lemma demo_stock:
  "stock mem_raw demo_state b = (if b = demo_pool then [''v-1'' \<mapsto> demo_pn ''1'', ''v-2'' \<mapsto> demo_pn ''2''] else Map.empty)"
    if "is_pool b"
  using that
  by (auto simp: stock_def mem.contents_def demo_state_def demo_raw demo_entry_def decode_demo fun_eq_iff)

lemma demo_cooling: "cooling mem_raw demo_state = [''v-7'' \<mapsto> demo_cd]"
  by (auto simp: cooling_def mem.contents_def demo_state_def demo_raw decode_demo fun_eq_iff)

lemma demo_pool_is_pool [simp]: "is_pool demo_pool" "demo_pool \<noteq> CooldownDBName"
  by (simp_all add: is_pool_def HasPrefix_def demo_pool_def PoolDBName_def CooldownDBName_def)

lemma demo_poolName: "poolName demo_server ''s'' = demo_pool" "poolName demo_server [] = demo_pool"
  by (simp_all add: poolName_def demo_pool_def PoolDBName_def demo_server_def demo_client_def)

lemma demo_home: "home demo_server (demo_pn a) = demo_pool" "getReservedIPKey (demo_pn a) = ''v-'' @ a"
  by (simp_all add: home_def demo_pn_def demo_poolName getReservedIPKey_def)

lemma demo_ok: "ipool_ok demo_server mem_raw mem_wf demo_state"
proof -
  have wf: "mem_wf demo_file"
    by (auto simp: mem_wf_def ran_def demo_file_def demo_entry_def CooldownDBName_def split: if_splits)
  have "mem.readable PodNetwork_codec b demo_file" if "mem_raw demo_file b \<noteq> None" "is_pool b" for b
    using that wf by (auto simp: mem.readable_def demo_raw demo_entry_def decode_demo split: if_splits)
  moreover have "mem.readable CooldownItem_codec CooldownDBName demo_file"
    using wf by (auto simp: mem.readable_def demo_raw decode_demo)
  ultimately show ?thesis using wf
    by (auto simp: ipool_ok_def demo_stock demo_cooling demo_home split: if_splits)
      (auto simp: demo_state_def demo_raw demo_cd_def demo_pn_def getReservedIPKey_def)
qed

end
