(* ===== verification/Ipamd_Pool_Props.thy ===== *)
theory Ipamd_Pool_Props
  imports Ipamd_Borrow Ipamd_Examples
begin

text \<open>
  The properties of the pools (\<open>pool.go\<close>) over any database that keeps boltdb's promises, with
  their instances on the small server of \<open>Ipamd_Examples\<close>.
\<close>

section \<open>Names of pools\<close>

lemma poolName_inj: "poolName s a = poolName s b \<longleftrightarrow>
    (if a = [] then ac_subnetId (uapi s) else a) = (if b = [] then ac_subnetId (uapi s) else b)"
  by (simp add: poolName_def)

lemma getPoolSubnetID_poolName:
  "getPoolSubnetID s (poolName s sn) = (if sn = [] then ac_subnetId (uapi s) else sn, False)"
  by (simp add: getPoolSubnetID_def poolName_def TrimPrefix_def HasPrefix_def PoolDBName_def Let_def)

section \<open>Lending\<close>





section \<open>Releasing the surplus\<close>



section \<open>Recycling\<close>

text \<open>C22. Cooling addresses are neither recycled early nor lost.

  \<open>recycleCooldownIP\<close> keeps the invariant of the store; an entry leaves the cooldown bucket only
  if its time is over at the clock reading, and then its address is in its own pool or its
  deletion was requested because the pool refused it; and the pools gain such addresses only.\<close>

theorem recycleCooldownIP_moves_expired:
  assumes "bolt_db (bolt s) raw okf" and "ipool_ok s raw okf st"
    and "TimeNow (cloud s) (outside st) = (now, w)" and "st' = recycleCooldownIP s st"
  shows "ipool_ok s raw okf st' \<and>
    (\<exists>xs w0. w0 \<in> {w, outside st} \<and> dels s w0 xs (outside st') \<and>
      (\<forall>k. cooling raw st' k = cooling raw st k \<or>
        (\<exists>cd. cooling raw st k = Some cd \<and> int64_le (cd_CooldownOver cd) now \<and> cooling raw st' k = None \<and>
           (stock raw st' (home s (cd_Network cd)) k = Some (cd_Network cd) \<or> cd_Network cd \<in> fst ` set xs))) \<and>
      (\<forall>b k. is_pool b \<longrightarrow> stock raw st' b k = stock raw st b k \<or>
        (\<exists>cd. cooling raw st k = Some cd \<and> int64_le (cd_CooldownOver cd) now \<and> b = home s (cd_Network cd) \<and>
           stock raw st' b k = Some (cd_Network cd))))"
proof (cases "Bolt_List (bolt s) CooldownItem_codec CooldownDBName (dbHandler st)")
  case (Inl e)
  with assms show ?thesis
    by (auto simp: recycleCooldownIP_def intro!: exI [of _ "[]"] exI [of _ "outside st"] dels_nil)
next
  case (Inr kvs)
  note P = assms(1) [folded pool_db_def]
  note B = pool_db.cd_bucket [OF P]
  have "bolt_db.readable raw okf CooldownItem_codec CooldownDBName (dbHandler st)"
    using assms(2) by (simp add: ipool_ok_def)
  from bolt_bucket.Bolt_List_view [OF B this Inr]
  have kvs: "distinct (map fst kvs)" "map_of kvs = cooling raw st" by (simp_all add: cooling_def)
  then have mem: "(k, cd) \<in> set kvs \<longleftrightarrow> cooling raw st k = Some cd" for k cd
    by (metis map_of_distinct_iff)
  let ?st1 = "st\<lparr>outside := w\<rparr>"
  have st': "st' = recycle_loop s now kvs ?st1"
    using assms(3,4) Inr by (simp add: recycleCooldownIP_def on_world_def)
  have S: "stock raw ?st1 = stock raw st" "cooling raw ?st1 = cooling raw st"
    by (simp_all add: stock_def cooling_def fun_eq_iff)
  have ok1: "ipool_ok s raw okf ?st1" using assms(2) by (simp add: pool_db.ok_world [OF P])
  have "\<forall>(k, cd) \<in> set kvs. cooling raw ?st1 k = Some cd" using mem S by auto
  from pool_db.recycle_loop_spec [OF P ok1 kvs(1) this, of now]
  show ?thesis unfolding st' [symmetric] S mem by auto
qed

theorem recycleCooldownIP_moves_expired_witness:
  "ipool_ok demo_server mem_raw mem_wf (recycleCooldownIP demo_server demo_state) \<and>
    stock mem_raw (recycleCooldownIP demo_server demo_state) demo_pool ''v-1'' = Some (demo_pn ''1'')"
proof -
  have t: "TimeNow (cloud demo_server) (outside demo_state) = (100, ())"
    by (simp add: demo_server_def demo_cloud_def)
  have c: "cooling mem_raw demo_state ''v-1'' = None" by (simp add: demo_cooling)
  from recycleCooldownIP_moves_expired [OF demo_bolt demo_ok t refl]
  have "ipool_ok demo_server mem_raw mem_wf (recycleCooldownIP demo_server demo_state)"
    and "stock mem_raw (recycleCooldownIP demo_server demo_state) demo_pool ''v-1'' =
      stock mem_raw demo_state demo_pool ''v-1''"
    using c demo_pool_is_pool(1) by (blast, metis option.distinct(1))
  then show ?thesis by (simp add: demo_stock)
qed

section \<open>Assigning\<close>

text \<open>C23. Where an assigned address comes from.

  When \<open>assignPodIP\<close> succeeds, either the address was in the pool of the requested subnet and is
  the only one that left the pools, or that pool was empty, the pools are unchanged, and the
  address is a new one of the VPC service carrying the requested interface, or, the VPC being out
  of addresses, a borrowed one. When it fails, no address left the pools.\<close>

theorem assignPodIP_source:
  assumes "bolt_db (bolt s) raw okf" and "ipool_ok s raw okf st" and "assignPodIP s ord req st = (r, st')"
  shows "ipool_ok s raw okf st' \<and> cooling raw st' = cooling raw st \<and>
    (case r of
       Inl e \<Rightarrow> same_stock raw st st'
     | Inr pn \<Rightarrow>
         (stock raw st (poolName s (ar_SubnetID req)) (getReservedIPKey pn) = Some pn \<and>
          stock_upd raw st (poolName s (ar_SubnetID req)) (getReservedIPKey pn) None st' \<and>
          outside st' = outside st) \<or>
         (stock raw st (poolName s (ar_SubnetID req)) = Map.empty \<and> same_stock raw st st' \<and>
          ((\<exists>ip w. uapiAllocateSecondaryIP s req (outside st) = (Inr ip, w) \<and> pn_VPCIP pn = ii_Ip ip \<and>
              pn_InterfaceID pn = ar_InterfaceID req) \<or>
           (\<exists>w. uapiAllocateSecondaryIP s req (outside st) = (Inl ErrOutOfIP, w) \<and>
              borrowIP s ord req w = (Inr pn, outside st')))))"
  by (rule pool_db.assignPodIP_spec [OF assms(1) [folded pool_db_def] assms(2,3)])

definition demo_add :: AddPodNetworkRequest where
  "demo_add = \<lparr>ar_PodName = ''p'', ar_PodNamespace = ''ns'', ar_SandboxID = ''sb'', ar_Netns = ''/n'',
     ar_IfName = ''eth0'', ar_SubnetID = ''s'', ar_MacAddress = ''m'', ar_InterfaceID = []\<rparr>"

theorem assignPodIP_source_witness:
  "\<exists>st'. assignPodIP demo_server (\<lambda>x. x) demo_add demo_state = (Inr (demo_pn ''1''), st') \<and>
    stock_upd mem_raw demo_state demo_pool ''v-1'' None st'"
proof -
  have "fst (assignPodIP demo_server (\<lambda>x. x) demo_add demo_state) = Inr (demo_pn ''1'')" by code_simp
  then obtain st' where a: "assignPodIP demo_server (\<lambda>x. x) demo_add demo_state = (Inr (demo_pn ''1''), st')"
    by (metis prod.collapse)
  have "stock mem_raw demo_state demo_pool \<noteq> Map.empty" by (simp add: demo_stock)
  then show ?thesis
    using assignPodIP_source [OF demo_bolt demo_ok a] a demo_home(2) [of "''1''"]
    by (auto simp: demo_add_def demo_poolName)
qed

section \<open>Borrowing and status: examples\<close>

definition demo_ipamd :: "string \<Rightarrow> string \<Rightarrow> string \<Rightarrow> nat \<Rightarrow> Ipamd" where
  "demo_ipamd name node addr n = \<lparr>im_Name = name, im_Node = node, im_Addr = addr, im_Subnet = ''s'',
     im_Status = \<lparr>is_Current = n, is_High = 1, is_Low = 1, is_Status = StatusNormal\<rparr>\<rparr>"

definition demo_ipamds :: "Ipamd list" where
  "demo_ipamds = [demo_ipamd ''n'' ''n'' ''a0'' 0, demo_ipamd ''n-s'' ''n'' ''a0'' 0, demo_ipamd ''m'' ''m'' ''a1'' 3,
     demo_ipamd ''m-s'' ''m'' ''a2'' 3, demo_ipamd ''k-s'' ''k'' ''a3'' 5, demo_ipamd ''x-s'' ''x'' ''a4'' 9]"

text \<open>The daemon at \<open>a2\<close> lends an address; node \<open>x\<close> is gone.\<close>

definition demo_kube :: "unit kube_api" where
  "demo_kube = kube_down\<lparr>
     IpamdsList := (\<lambda>w. (Inr demo_ipamds, w)), NodesList := (\<lambda>w. (Inr [''n'', ''m'', ''k''], w)),
     NodesGet := (\<lambda>n w. (if n = ''x'' then Inl (Kube KNotFound) else Inr Map.empty, w)),
     IpamdsDelete := (\<lambda>_ w. (None, w)), IpamdsGet := (\<lambda>_ w. (Inl (Kube KNotFound), w)),
     IpamdsCreate := (\<lambda>_ w. (None, w)),
     Dial_BorrowIP := (\<lambda>a _ w. (if a = ''a2''
        then Inr \<lparr>bs_Code = CNISuccess, bs_IP = Some ((demo_pn ''8'')\<lparr>pn_Recycled := True\<rparr>)\<rparr> else Inl (Ext 3), w))\<rparr>"

definition demo_borrower :: "(mem, unit) ipamServer" where
  "demo_borrower = demo_server\<lparr>kube := demo_kube\<rparr>"

theorem filterBorrowCandidates_one_per_node_witness:
  "map im_Node (filterBorrowCandidates rev demo_ipamds) = [''x'', ''k'', ''m'', ''n''] \<and>
    distinct (map im_Node (filterBorrowCandidates rev demo_ipamds))"
proof -
  have "map im_Node (filterBorrowCandidates rev demo_ipamds) = [''x'', ''k'', ''m'', ''n'']" by code_simp
  then show ?thesis
    using filterBorrowCandidates_one_per_node [OF reorders_id(2), of demo_ipamds] by simp
qed


theorem recycleStatus_deletes_witness:
  "\<exists>names. snd (recycleStatus demo_borrower (\<lambda>x. x) ()) = delete_all demo_borrower names () \<and>
    (\<forall>n \<in> set names. \<exists>i \<in> set demo_ipamds. im_Name i = n)"
proof -
  have l: "IpamdsList (kube demo_borrower) () = (Inr demo_ipamds, ())"
    "NodesList (kube demo_borrower) () = (Inr [''n'', ''m'', ''k''], ())"
    by (simp_all add: demo_borrower_def demo_kube_def)
  have r: "recycleStatus demo_borrower (\<lambda>x. x) () =
      (fst (recycleStatus demo_borrower (\<lambda>x. x) ()), snd (recycleStatus demo_borrower (\<lambda>x. x) ()))"
    by (rule surjective_pairing)
  show ?thesis using recycleStatus_deletes [OF reorders_id(1) r l] by fastforce
qed

section \<open>Status\<close>

lemma getPool_key: "ipool_ok s raw okf st \<Longrightarrow> b \<in> set (poolDB st) \<Longrightarrow>
    \<exists>sn. b = PoolDBName @ ''-'' @ sn \<and> getPoolSubnetID s b = (sn, False)"
  by (auto simp: ipool_ok_def is_pool_def HasPrefix_def prefix_def getPoolSubnetID_def TrimPrefix_def
      PoolDBName_def Let_def)

text \<open>A published status tells the size of the pool.

  For an opened pool, \<open>updateStatus\<close> changes nothing of the store, and if the resource of this
  pool, named after the node and the pool's subnet, does not exist yet, the one it creates is for
  this node and subnet and carries the number of addresses in the pool, the two watermarks, and
  the class of that number: dry when empty, hungry below the low watermark, normal below the high
  one, overflow from there on.\<close>

theorem updateStatus_publishes_size:
  assumes "bolt_db (bolt s) raw okf" and "ipool_ok s raw okf st" and "b \<in> set (poolDB st)"
    and "getPoolSubnetID s b = (sn, d)"
    and "IpamdsGet (kube s) (nodeName s @ ''-'' @ sn) (outside st) = (Inl (Kube KNotFound), w1)"
    and "updateStatus s b st = (None, st')"
  shows "dbHandler st' = dbHandler st \<and> poolDB st' = poolDB st \<and>
    (\<exists>n c. n = card (dom (stock raw st b)) \<and>
      c = (if n = 0 then StatusDry else if int n < LowWatermark s then StatusHungry
           else if int n < HighWatermark s then StatusNormal else StatusOverflow) \<and>
      IpamdsCreate (kube s) \<lparr>im_Name = nodeName s @ ''-'' @ sn, im_Node = nodeName s, im_Addr = tcpAddr s,
          im_Subnet = sn, im_Status = \<lparr>is_Current = n, is_High = HighWatermark s, is_Low = LowWatermark s,
          is_Status = c\<rparr>\<rparr> w1 = (None, outside st'))"
proof -
  note P = assms(1) [folded pool_db_def]
  have d: "d = False" using getPool_key [OF assms(2,3)] assms(4) by auto
  obtain n where n: "Bolt_Count (bolt s) b (dbHandler st) = Inr n"
    using assms(6) by (auto simp: updateStatus_def assms(4) split: sum.splits)
  have rd: "bolt_db.readable raw okf PodNetwork_codec b (dbHandler st)"
    using assms(2,3) by (auto simp: ipool_ok_def)
  have "n = card (dom (stock raw st b))"
    using bolt_bucket.Bolt_Count_view [OF pool_db.pn_bucket [OF P] rd n] by (simp add: stock_def)
  then show ?thesis
    using assms(4-6) n d
    by (auto simp: updateStatus_def on_world_def Let_def classify_def kube_IsNotFound_def
        split: prod.splits option.splits)
qed

theorem updateStatus_publishes_size_witness:
  "fst (updateStatus demo_borrower demo_pool demo_state) = None \<and>
    dbHandler (snd (updateStatus demo_borrower demo_pool demo_state)) = demo_file"
proof -
  have u: "fst (updateStatus demo_borrower demo_pool demo_state) = None" by code_simp
  then obtain st' where st': "updateStatus demo_borrower demo_pool demo_state = (None, st')"
    by (metis prod.collapse)
  have b: "bolt_db (bolt demo_borrower) mem_raw mem_wf" using demo_bolt by (simp add: demo_borrower_def)
  have ok: "ipool_ok demo_borrower mem_raw mem_wf demo_state"
  proof -
    have "home demo_borrower = home demo_server"
      by (simp add: fun_eq_iff demo_borrower_def home_def poolName_def)
    then show ?thesis using demo_ok by (simp add: ipool_ok_def)
  qed
  have sn: "getPoolSubnetID demo_borrower demo_pool = (''s'', False)" by code_simp
  have g: "IpamdsGet (kube demo_borrower) (nodeName demo_borrower @ ''-'' @ ''s'') (outside demo_state) =
      (Inl (Kube KNotFound), ())"
    by (simp add: demo_borrower_def demo_kube_def)
  from updateStatus_publishes_size [OF b ok _ sn g st']
  show ?thesis using u st' by (simp add: demo_state_def)
qed

end
