(* ===== verification/Ipamd_Rpc_Props.thy ===== *)
theory Ipamd_Rpc_Props
  imports Ipamd_Rpc_Inv Ipamd_Pool_Props
begin

text \<open>
  The properties of the daemon as its callers see it: the manager loop, the assignment and
  release of addresses, static addresses, the records and their reconciliation, the migration.
\<close>

section \<open>Examples\<close>

definition demo_pod :: Pod where
  "demo_pod = \<lparr>pod_Name = ''p'', pod_Namespace = ''ns'', pod_UID = ''u'', pod_NodeName = ''n'',
     pod_Annotations = Map.empty, pod_Owners = [], pod_Phase = ''Running''\<rparr>"

definition demo_sts_pod :: Pod where
  "demo_sts_pod = demo_pod\<lparr>pod_Annotations := [STS_ENABLE_STATIC_IP \<mapsto> ''True''],
     pod_Owners := [(''StatefulSet'', ''web'')]\<rparr>"

definition demo_vip :: VpcIpClaim where
  "demo_vip = \<lparr>vc_Name = ''p'', vc_Namespace = ''ns'', vc_Labels = None, vc_Finalizers = [], vc_Ip = ''5'',
     vc_Mask = [], vc_Gateway = [], vc_SubnetId = ''s'', vc_VpcId = ''v'', vc_Attached = False, vc_Zone = [],
     vc_LastDetachTime = [], vc_Mac = ''old'', vc_ReleaseTime = [], vc_SandboxId = []\<rparr>"

text \<open>A node whose pod is \<open>pod\<close> and whose claims are as given.\<close>

definition demo_node :: "Pod \<Rightarrow> VpcIpClaim result \<Rightarrow> gerror option \<Rightarrow> (mem, unit) ipamServer" where
  "demo_node pod vip api = demo_server\<lparr>kube := kube_down\<lparr>PodsGet := (\<lambda>_ _ w. (Inr pod, w)),
     PodsListOnNode := (\<lambda>_ w. (Inr [pod], w)),
     VipsGet := (\<lambda>_ _ w. (vip, w)), VipsListNamed := (\<lambda>_ _ w. (api, w)),
     VipsCreate := (\<lambda>_ w. (Inl (Kube KForbidden), w)), VipsUpdate := (\<lambda>_ w. (None, w))\<rparr>\<rparr>"

lemma demo_node_bolt: "bolt_db (bolt (demo_node pod vip api)) mem_raw mem_wf"
  using demo_bolt by (simp add: demo_node_def)

lemma demo_node_ok: "ipool_ok (demo_node pod vip api) mem_raw mem_wf demo_state"
proof -
  have "home (demo_node pod vip api) = home demo_server"
    by (simp add: fun_eq_iff demo_node_def home_def poolName_def)
  then show ?thesis using demo_ok by (simp add: ipool_ok_def)
qed

section \<open>The manager loop\<close>

text \<open>C1. Every run of the pool manager keeps the store well-formed.

  From a store that satisfies the invariant, any sequence of events - ticks, requests, releases -
  with any answers of the cloud, the API server and the database, leads to a store that satisfies
  it: every bucket decodes, every opened pool exists, and every pooled or cooling address lies
  under its own key in the pool of its own subnet.\<close>

theorem manager_keeps_invariant:
  assumes "bolt_db (bolt s) raw okf" and "ipool_ok s raw okf st"
    and "\<forall>(ords, ev) \<in> set evs. \<forall>ks. set (o_pools ords ks) \<subseteq> set ks"
  shows "ipool_ok s raw okf (snd (ipPoolWatermarkManager s evs st))"
  by (rule pool_db.manager_run_ok [OF assms(1) [folded pool_db_def] assms(2,3)])

definition demo_orders :: orders where
  "demo_orders = \<lparr>o_pools = (\<lambda>x. x), o_borrow = (\<lambda>x. x), o_recycle = (\<lambda>x. x)\<rparr>"

theorem manager_keeps_invariant_witness:
  "ipool_ok (demo_node demo_pod (Inl (Kube KNotFound)) None) mem_raw mem_wf
    (snd (ipPoolWatermarkManager (demo_node demo_pod (Inl (Kube KNotFound)) None)
      [(demo_orders, PoolTick), (demo_orders, AddPodIP demo_add), (demo_orders, DelPodIP (demo_pn ''1'')),
       (demo_orders, CooldownTick), (demo_orders, StopLoop)] demo_state))"
  by (rule manager_keeps_invariant [OF demo_node_bolt demo_node_ok]) (simp add: demo_orders_def)

section \<open>Assigning an address\<close>




text \<open>C29. An unavailable claim API never falls back to a dynamic address.

  For a pod of a stateful set that asks for a static address, when the list of claims cannot be
  read, \<open>getPodIp\<close> fails, and neither the database nor the set of opened pools has changed: no
  address was taken.\<close>

theorem static_needs_claim_api:
  assumes "PodsGet (kube s) (ar_PodNamespace req) (ar_PodName req) (outside st) = (Inr pod, w1)"
    and "\<exists>ow \<in> set (pod_Owners pod). fst ow = ''StatefulSet''"
    and "pod_Annotations pod STS_ENABLE_STATIC_IP = Some val" and "ToLower val = ''true''"
    and "VipsListNamed (kube s) (ar_PodNamespace req) (ar_PodName req) w1 = (Some e, w2)"
  shows "\<exists>e'. getPodIp s ord req st = (Inl e', st\<lparr>outside := w2\<rparr>) \<and> kube_reason_of e' = kube_reason_of e"
  using assms by (simp add: getPodIp_def on_world_def podEnableStaticIP_def IsPodEnableStaticIP_def Let_def)

theorem static_needs_claim_api_witness:
  "\<exists>e'. getPodIp (demo_node demo_sts_pod (Inr demo_vip) (Some (Kube KOtherReason))) (\<lambda>x. x) demo_add demo_state =
     (Inl e', demo_state)"
proof -
  let ?s = "demo_node demo_sts_pod (Inr demo_vip) (Some (Kube KOtherReason))"
  have l: "PodsGet (kube ?s) (ar_PodNamespace demo_add) (ar_PodName demo_add) (outside demo_state) = (Inr demo_sts_pod, ())"
    "VipsListNamed (kube ?s) (ar_PodNamespace demo_add) (ar_PodName demo_add) () = (Some (Kube KOtherReason), ())"
    by (simp_all add: demo_node_def demo_add_def)
  have p: "\<exists>ow \<in> set (pod_Owners demo_sts_pod). fst ow = ''StatefulSet''"
    "pod_Annotations demo_sts_pod STS_ENABLE_STATIC_IP = Some ''True''" "ToLower ''True'' = ''true''"
    by (simp_all add: demo_sts_pod_def demo_pod_def) code_simp
  from static_needs_claim_api [OF l(1) p l(2)] show ?thesis by (auto simp: demo_state_def)
qed

section \<open>Static addresses\<close>

text \<open>C27. A claim that could not be stored gives its address back only when that is certain.

  When the API server does not store the claim of a new static address, \<open>createVpcIpClaimByPodNetwork\<close>
  fails; the address is back in its pool (or its deletion was requested) exactly if the server
  rejected the claim for one of the six reasons that exclude that it was stored. After any other
  error, such as a timeout, the pools are unchanged, so the address cannot be given to a second pod.\<close>

theorem failed_claim_returns_ip_iff_rejected:
  assumes "bolt_db (bolt s) raw okf" and "ipool_ok s raw okf st"
    and "\<And>v w. VipsCreate (kube s) v w = (Inl e, f w)"
    and "createVpcIpClaimByPodNetwork s req pn pod st = (r, st')"
  shows "r = Inl (Wrap ''ipamd.ipamServer.createVpcIpClaim create Claim'' e) \<and>
    (if kube_reason_of e \<in> {Some KNotFound, Some KForbidden, Some KUnauthorized, Some KInvalid,
          Some KBadRequest, Some KMethodNotSupported}
     then stock_upd raw st (home s pn) (getReservedIPKey pn) (Some pn) st' \<or>
       same_stock raw st st' \<and> (\<exists>w r'. dels s w [(pn, r')] (outside st'))
     else same_stock raw st st')"
proof -
  note P = assms(1) [folded pool_db_def]
  obtain vip w1 where v: "PodNetworkToVip s pn (outside st) = (vip, w1)" by force
  let ?e = "Wrap ''ipamd.ipamServer.createVpcIpClaim create Claim'' e"
  let ?st2 = "st\<lparr>outside := f w1\<rparr>"
  have ok2: "ipool_ok s raw okf ?st2" using assms(2) by (simp add: pool_db.ok_world [OF P])
  have ss: "same_stock raw st ?st2" by (simp add: same_stock_def stock_def)
  have rej: "definite_rejection ?e \<longleftrightarrow> kube_reason_of e \<in> {Some KNotFound, Some KForbidden,
      Some KUnauthorized, Some KInvalid, Some KBadRequest, Some KMethodNotSupported}"
    by (auto simp: definite_rejection_def)
  have eq: "(r, st') = (if definite_rejection ?e then (Inl ?e, snd (putIpToPool s pn ?st2)) else (Inl ?e, ?st2))"
    using assms(4) v
    by (auto simp: createVpcIpClaimByPodNetwork_def on_world_def createVpcIpClaim_def assms(3) Let_def split: if_splits)
  show ?thesis
  proof (cases "definite_rejection ?e")
    case False
    with eq rej ss show ?thesis by auto
  next
    case True
    obtain fin st3 where p: "putIpToPool s pn ?st2 = (fin, st3)" by force
    from pool_db.putIpToPool_spec [OF P ok2 p] have "if fin then stock_upd raw ?st2 (home s pn) (getReservedIPKey pn) (Some pn) st3
        else same_stock raw ?st2 st3 \<and> (\<exists>r. dels s (outside ?st2) [(pn, r)] (outside st3))" by auto
    then have "stock_upd raw st (home s pn) (getReservedIPKey pn) (Some pn) st3 \<or>
        same_stock raw st st3 \<and> (\<exists>w r'. dels s w [(pn, r')] (outside st3))"
      using pool_db.upd_after_same [OF P ss] pool_db.same_stock_trans [OF P ss] by (auto split: if_splits)
    moreover have "r = Inl ?e" "st' = st3" using eq True p by simp_all
    ultimately show ?thesis using True rej by simp
  qed
qed

theorem failed_claim_returns_ip_iff_rejected_witness:
  "fst (createVpcIpClaimByPodNetwork (demo_node demo_sts_pod (Inr demo_vip) None) demo_add (demo_pn ''3'') demo_sts_pod demo_state) =
    Inl (Wrap ''ipamd.ipamServer.createVpcIpClaim create Claim'' (Kube KForbidden))"
proof -
  let ?s = "demo_node demo_sts_pod (Inr demo_vip) None"
  obtain r st' where c: "createVpcIpClaimByPodNetwork ?s demo_add (demo_pn ''3'') demo_sts_pod demo_state = (r, st')"
    by (metis surj_pair)
  have "\<And>v w. VipsCreate (kube ?s) v w = (Inl (Kube KForbidden), id w)" by (simp add: demo_node_def)
  from failed_claim_returns_ip_iff_rejected [OF demo_node_bolt demo_node_ok this c] c show ?thesis by simp
qed

text \<open>C28. A static address is cooled down only if its claim could not be read.

  The release of an address whose claim the API server returns changes no database, and succeeds.
  Every other answer of the server, an error that says nothing about the claim included, puts the
  address into the cooldown bucket under its key, marked as recycled (or requests its deletion
  when the bucket refuses it): the code reads any error as "no claim".\<close>

theorem release_of_static_ip:
  assumes "bolt_db (bolt s) raw okf" and "ipool_ok s raw okf st"
    and "VipsGet (kube s) (pn_PodNS pn) (pn_PodName pn) (outside st) = (claim, w1)"
    and "DelPodNetwork s ords \<lparr>dr_PodNetwork = Some pn\<rparr> st = ((code, err), st')"
  shows "code = CNISuccess \<and> err = None \<and>
    (case claim of
       Inr vip \<Rightarrow> dbHandler st' = dbHandler st \<and> outside st' = w1
     | Inl e \<Rightarrow> same_stock raw st st' \<and>
         ((\<exists>cd. pn_Recycled (cd_Network cd) \<and> pn_VPCIP (cd_Network cd) = pn_VPCIP pn \<and>
             cooling raw st' = (cooling raw st)(getReservedIPKey pn \<mapsto> cd)) \<or>
          cooling raw st' = cooling raw st \<and> (\<exists>p w w' r. pn_VPCIP p = pn_VPCIP pn \<and> dels s w [(p, r)] w')))"
proof (cases claim)
  case (Inr vip)
  with assms(3,4) show ?thesis
    by (auto simp: DelPodNetwork_def manager_step_def on_world_def staticIpPodExists_def getVpcipClaim_def Let_def)
next
  case (Inl e)
  note P = assms(1) [folded pool_db_def]
  let ?st1 = "st\<lparr>outside := w1\<rparr>"
  obtain t1 w2 where t1: "TimeNow (cloud s) w1 = (t1, w2)" by force
  obtain t2 w3 where t2: "TimeNow (cloud s) w2 = (t2, w3)" by force
  let ?st3 = "st\<lparr>outside := w3\<rparr>"
  let ?p = "pn\<lparr>pn_RecycleTime := t2, pn_Recycled := True\<rparr>"
  let ?cd = "\<lparr>cd_Network = ?p, cd_CooldownOver = t1 + CooldownPeriodSeconds s\<rparr>"
  obtain fin st4 where p: "putIpToCooldown s ?cd ?st3 = (fin, st4)" by force
  have ok3: "ipool_ok s raw okf ?st3" using assms(2) by (simp add: pool_db.ok_world [OF P])
  note C = pool_db.putIpToCooldown_spec [OF P ok3 p]
  have k: "getReservedIPKey ?p = getReservedIPKey pn" by (simp add: getReservedIPKey_def)
  have r: "code = CNISuccess" "err = None" and st': "st' = update_all s (o_pools ords (poolDB st4)) st4"
    using assms(3,4) Inl t1 t2 p
    by (simp_all add: DelPodNetwork_def manager_step_def on_world_def staticIpPodExists_def getVpcipClaim_def
        cooldownIP_def Let_def)
  have db: "dbHandler st' = dbHandler st4" "poolDB st' = poolDB st4"
    using pool_db.update_all_frame [OF P] st' by simp_all
  have S: "same_stock raw st st'" "cooling raw st' = cooling raw st4"
    using C db by (simp_all add: same_stock_def stock_def cooling_def)
  have "(\<exists>cd. pn_Recycled (cd_Network cd) \<and> pn_VPCIP (cd_Network cd) = pn_VPCIP pn \<and>
             cooling raw st' = (cooling raw st)(getReservedIPKey pn \<mapsto> cd)) \<or>
          cooling raw st' = cooling raw st \<and> (\<exists>p w w' r. pn_VPCIP p = pn_VPCIP pn \<and> dels s w [(p, r)] w')"
  proof (cases fin)
    case True
    with C k S(2) have "cooling raw st' = (cooling raw st)(getReservedIPKey pn \<mapsto> ?cd)"
      by (simp add: cooling_def)
    then show ?thesis by (intro disjI1 exI [of _ ?cd]) simp
  next
    case False
    with C S(2) obtain r where "cooling raw st' = cooling raw st" "dels s (outside ?st3) [(?p, r)] (outside st4)"
      by (auto simp: cooling_def)
    then show ?thesis by (intro disjI2 conjI exI [of _ ?p]) auto
  qed
  with Inl r S(1) show ?thesis by simp
qed

theorem release_of_static_ip_witness:
  "dbHandler (snd (DelPodNetwork (demo_node demo_sts_pod (Inr demo_vip) None) demo_orders
     \<lparr>dr_PodNetwork = Some (demo_pn ''5'')\<rparr> demo_state)) = demo_file"
proof -
  let ?s = "demo_node demo_sts_pod (Inr demo_vip) None"
  obtain c e st' where d: "DelPodNetwork ?s demo_orders \<lparr>dr_PodNetwork = Some (demo_pn ''5'')\<rparr> demo_state = ((c, e), st')"
    by (metis surj_pair)
  have "VipsGet (kube ?s) (pn_PodNS (demo_pn ''5'')) (pn_PodName (demo_pn ''5'')) (outside demo_state) = (Inr demo_vip, ())"
    by (simp add: demo_node_def)
  from release_of_static_ip [OF demo_node_bolt demo_node_ok this d] d show ?thesis
    by (simp add: demo_state_def)
qed

section \<open>Handing out and taking back over gRPC\<close>

text \<open>The answer of a successful request.

  A successful \<open>AddPodNetwork\<close> answers with the success code and a network that carries the pod's
  name, namespace and sandbox and the network namespace of the request, and the UID the API
  server gave for the pod; the address is what \<open>getPodIp\<close> chose for the request, completed with
  the node's own subnet and MAC where it named none. With the annotation switched on, the pod was
  annotated with that very address before.\<close>

lemma AddPodNetwork_answer:
  assumes "AddPodNetwork s ords req st = ((resp, None), st')" and "as_Code resp = CNISuccess"
  shows "\<exists>p w pn pn' st1 w2. PodsGet (kube s) (ar_PodNamespace req) (ar_PodName req) (outside st) = (Inr p, w) \<and>
    getPodIp s (o_borrow ords) (req\<lparr>
        ar_SubnetID := if ar_SubnetID req = [] then ac_subnetId (uapi s) else ar_SubnetID req,
        ar_MacAddress := if ar_MacAddress req = [] then masterMacAddress s else ar_MacAddress req\<rparr>)
      (st\<lparr>outside := w\<rparr>) = (Inr pn, st1) \<and>
    as_PodNetwork resp = Some pn' \<and> pn_VPCIP pn' = pn_VPCIP pn \<and> pn_MacAddress pn' = pn_MacAddress pn \<and>
    pn_PodName pn' = ar_PodName req \<and> pn_PodNS pn' = ar_PodNamespace req \<and> pn_SandboxID pn' = ar_SandboxID req \<and>
    pn_NetNS pn' = ar_Netns req \<and> pn_PodUID pn' = pod_UID p \<and>
    (CalicoPolicyFlag s \<longrightarrow> setPodAnnotation s p
       ((pod_Annotations p)(AnnotationCalicoPolicyPodIP \<mapsto> pn_VPCIP pn)) w2 = (None, outside st'))"
proof -
  obtain g w where g: "PodsGet (kube s) (ar_PodNamespace req) (ar_PodName req) (outside st) = (g, w)" by force
  let ?st1 = "st\<lparr>outside := w\<rparr>"
  obtain a st2 where a: "getPodIp s (o_borrow ords) (complete_request s req) ?st1 = (a, st2)" by force
  let ?st3 = "update_all s (o_pools ords (poolDB st2)) st2"
  from assms g obtain p where p: "g = Inr p" by (cases g) (auto simp: AddPodNetwork_def on_world_def getPod_def)
  from assms g p a obtain pn where pn: "a = Inr pn"
    by (cases a) (auto simp: AddPodNetwork_def on_world_def getPod_def manager_step_def Let_def)
  obtain c w3 where c: "setAnnotationForCalicoPolicy s p pn (outside ?st3) = (c, w3)" by force
  from assms g p a pn c have R: "c = None" "st' = ?st3\<lparr>outside := w3\<rparr>"
    "as_PodNetwork resp = Some (pn\<lparr>pn_PodName := ar_PodName req, pn_PodNS := ar_PodNamespace req,
       pn_SandboxID := ar_SandboxID req, pn_PodUID := pod_UID p, pn_NetNS := ar_Netns req\<rparr>)"
    by (cases c, auto simp: AddPodNetwork_def on_world_def getPod_def manager_step_def Let_def)+
  have "complete_request s req = req\<lparr>
        ar_SubnetID := if ar_SubnetID req = [] then ac_subnetId (uapi s) else ar_SubnetID req,
        ar_MacAddress := if ar_MacAddress req = [] then masterMacAddress s else ar_MacAddress req\<rparr>"
    by (cases req) (simp add: complete_request_def Let_def)
  moreover have "CalicoPolicyFlag s \<Longrightarrow> setPodAnnotation s p
       ((pod_Annotations p)(AnnotationCalicoPolicyPodIP \<mapsto> pn_VPCIP pn)) (outside ?st3) = (None, outside st')"
    using c R by (simp add: setAnnotationForCalicoPolicy_def)
  ultimately have G: "getPodIp s (o_borrow ords) (req\<lparr>
        ar_SubnetID := if ar_SubnetID req = [] then ac_subnetId (uapi s) else ar_SubnetID req,
        ar_MacAddress := if ar_MacAddress req = [] then masterMacAddress s else ar_MacAddress req\<rparr>)
      (st\<lparr>outside := w\<rparr>) = (Inr pn, st2)"
    and A: "CalicoPolicyFlag s \<longrightarrow> setPodAnnotation s p
       ((pod_Annotations p)(AnnotationCalicoPolicyPodIP \<mapsto> pn_VPCIP pn)) (outside ?st3) = (None, outside st')"
    using a pn by simp_all
  let ?pn = "pn\<lparr>pn_PodName := ar_PodName req, pn_PodNS := ar_PodNamespace req,
       pn_SandboxID := ar_SandboxID req, pn_PodUID := pod_UID p, pn_NetNS := ar_Netns req\<rparr>"
  have "pn_VPCIP ?pn = pn_VPCIP pn \<and> pn_MacAddress ?pn = pn_MacAddress pn \<and>
    pn_PodName ?pn = ar_PodName req \<and> pn_PodNS ?pn = ar_PodNamespace req \<and> pn_SandboxID ?pn = ar_SandboxID req \<and>
    pn_NetNS ?pn = ar_Netns req \<and> pn_PodUID ?pn = pod_UID p" by simp
  with g p G A R(3) show ?thesis by blast
qed

lemma AddPodNetwork_answer_witness:
  "\<exists>pn'. as_PodNetwork (fst (fst (AddPodNetwork (demo_node demo_pod (Inl (Kube KNotFound)) None) demo_orders demo_add demo_state))) =
     Some pn' \<and> pn_PodUID pn' = ''u''"
proof -
  let ?s = "demo_node demo_pod (Inl (Kube KNotFound)) None"
  have "fst (getPodIp ?s (o_borrow demo_orders) demo_add demo_state) = Inr (demo_pn ''1'')"
    by (simp only: demo_orders_def orders.simps) code_simp
  then obtain st1 where g: "getPodIp ?s (o_borrow demo_orders) demo_add demo_state = (Inr (demo_pn ''1''), st1)"
    by (metis prod.collapse)
  have u: "demo_state\<lparr>outside := w\<rparr> = demo_state" for w by (simp add: demo_state_def)
  have p: "PodsGet (kube ?s) a b w = (Inr demo_pod, w)" for a b w by (simp add: demo_node_def)
  have c: "complete_request ?s demo_add = demo_add" "\<not> CalicoPolicyFlag ?s"
    by (simp_all add: complete_request_def demo_add_def demo_node_def demo_server_def)
  obtain resp st' where a: "AddPodNetwork ?s demo_orders demo_add demo_state = ((resp, None), st')"
    "as_Code resp = CNISuccess"
    using g c by (auto simp: AddPodNetwork_def on_world_def getPod_def p u manager_step_def Let_def
        setAnnotationForCalicoPolicy_def)
  from AddPodNetwork_answer [OF a] obtain q w pn' where
    "PodsGet (kube ?s) (ar_PodNamespace demo_add) (ar_PodName demo_add) (outside demo_state) = (Inr q, w)"
    and n: "as_PodNetwork resp = Some pn'" "pn_PodUID pn' = pod_UID q" by blast
  then have "q = demo_pod" unfolding p by simp
  moreover have "pod_UID demo_pod = ''u''" by (simp add: demo_pod_def)
  ultimately show ?thesis using n a(1) by simp
qed

section \<open>Attaching a claim\<close>



section \<open>The record of a pod\<close>

text \<open>What the three record calls do to the bucket of the records, and that they leave the others.\<close>

lemma AddPodNetworkRecord_stores:
  assumes "bolt_db (bolt s) raw okf" and "bolt_db.readable raw okf PodNetwork_codec NetworkDBName (dbHandler st)"
    and "AddPodNetworkRecord s \<lparr>arr_PodNetwork = pn\<rparr> st = ((CNISuccess, None), st1)"
  shows "bolt_db.readable raw okf PodNetwork_codec NetworkDBName (dbHandler st1) \<and>
    bolt_db.contents raw PodNetwork_codec NetworkDBName (dbHandler st1) =
      (bolt_db.contents raw PodNetwork_codec NetworkDBName (dbHandler st))
        (PodKey (pn_PodName pn) (pn_PodNS pn) (pn_SandboxID pn) \<mapsto> pn) \<and>
    (\<forall>b. b \<noteq> NetworkDBName \<longrightarrow> raw (dbHandler st1) b = raw (dbHandler st) b)"
proof -
  have B: "bolt_bucket (bolt s) raw okf PodNetwork_codec"
    using assms(1) by (simp add: bolt_bucket_def bolt_bucket_axioms_def)
  from assms(3) have "on_db (Bolt_Put (bolt s) PodNetwork_codec NetworkDBName
      (PodKey (pn_PodName pn) (pn_PodNS pn) (pn_SandboxID pn)) pn) st = (None, st1)"
    by (auto simp: AddPodNetworkRecord_def Let_def split: prod.splits option.splits)
  from bolt_bucket.Bolt_Put_spec [OF B assms(2) on_dbE [OF this]] show ?thesis by simp
qed

lemma DelPodNetworkRecord_removes:
  assumes "bolt_db (bolt s) raw okf" and "bolt_db.readable raw okf PodNetwork_codec NetworkDBName (dbHandler st)"
    and "DelPodNetworkRecord s key st = ((CNISuccess, None), st1)"
  shows "bolt_db.readable raw okf PodNetwork_codec NetworkDBName (dbHandler st1) \<and>
    bolt_db.contents raw PodNetwork_codec NetworkDBName (dbHandler st1) =
      (bolt_db.contents raw PodNetwork_codec NetworkDBName (dbHandler st))(record_key key := None) \<and>
    (\<forall>b. b \<noteq> NetworkDBName \<longrightarrow> raw (dbHandler st1) b = raw (dbHandler st) b)"
proof -
  have B: "bolt_bucket (bolt s) raw okf PodNetwork_codec"
    using assms(1) by (simp add: bolt_bucket_def bolt_bucket_axioms_def)
  from assms(3) have "on_db (Bolt_Delete (bolt s) NetworkDBName (record_key key)) st = (None, st1)"
    by (auto simp: DelPodNetworkRecord_def split: prod.splits option.splits)
  from bolt_bucket.Bolt_Delete_spec [OF B assms(2) on_dbE [OF this]] show ?thesis by simp
qed

lemma GetPodNetworkRecord_reads:
  assumes "bolt_db (bolt s) raw okf" and "bolt_db.readable raw okf PodNetwork_codec NetworkDBName (dbHandler st)"
    and "GetPodNetworkRecord s key st = (resp, e)"
  shows "(e = None \<longrightarrow> as_PodNetwork resp = bolt_db.contents raw PodNetwork_codec NetworkDBName (dbHandler st) (record_key key)) \<and>
    (as_Code resp = CNISuccess \<longleftrightarrow> e = None) \<and> (e \<noteq> None \<longrightarrow> as_PodNetwork resp = None)"
proof -
  have B: "bolt_bucket (bolt s) raw okf PodNetwork_codec"
    using assms(1) by (simp add: bolt_bucket_def bolt_bucket_axioms_def)
  show ?thesis
    using assms(3) bolt_bucket.Bolt_Get_view [OF B assms(2)] bolt_bucket.Bolt_Get_missing [OF B assms(2)]
    by (fastforce simp: GetPodNetworkRecord_def split: sum.splits if_splits)
qed

text \<open>The record of a pod's network is found again until it is deleted.

  After a successful \<open>AddPodNetworkRecord\<close>, \<open>GetPodNetworkRecord\<close> with the same pod, namespace and
  sandbox never answers that there is none, and when it can read the database it answers the
  record; after a successful \<open>DelPodNetworkRecord\<close> it answers none, with the success code. Neither
  call touches the pools.\<close>

lemma pod_record_roundtrip:
  assumes "bolt_db (bolt s) raw okf"
    and "bolt_db.readable raw okf PodNetwork_codec NetworkDBName (dbHandler st)"
    and "key = \<lparr>rk_PodName = pn_PodName pn, rk_PodNS = pn_PodNS pn, rk_SandboxID = pn_SandboxID pn\<rparr>"
    and "AddPodNetworkRecord s \<lparr>arr_PodNetwork = pn\<rparr> st = ((CNISuccess, None), st1)"
    and "DelPodNetworkRecord s key st1 = ((CNISuccess, None), st2)"
  shows "(\<forall>resp e. GetPodNetworkRecord s key st1 = (resp, e) \<longrightarrow>
      (e = None \<longrightarrow> as_PodNetwork resp = Some pn) \<and> (as_Code resp = CNISuccess \<longleftrightarrow> e = None)) \<and>
    (\<forall>resp e. GetPodNetworkRecord s key st2 = (resp, e) \<longrightarrow> as_PodNetwork resp = None) \<and>
    same_stock raw st st2"
proof -
  have k: "record_key key = PodKey (pn_PodName pn) (pn_PodNS pn) (pn_SandboxID pn)"
    by (simp add: record_key_def assms(3))
  note P = AddPodNetworkRecord_stores [OF assms(1,2,4)]
  note D = DelPodNetworkRecord_removes [OF assms(1) conjunct1 [OF P] assms(5)]
  note G1 = GetPodNetworkRecord_reads [OF assms(1) conjunct1 [OF P]] and G2 = GetPodNetworkRecord_reads [OF assms(1) conjunct1 [OF D]]
  have "(e = None \<longrightarrow> as_PodNetwork resp = Some pn) \<and> (as_Code resp = CNISuccess \<longleftrightarrow> e = None)"
    if "GetPodNetworkRecord s key st1 = (resp, e)" for resp e
    using G1 [OF that] P k by simp
  moreover have "as_PodNetwork resp = None" if "GetPodNetworkRecord s key st2 = (resp, e)" for resp e
    using G2 [OF that] D by (cases e) auto
  moreover have "same_stock raw st st2"
    unfolding same_stock_def stock_def
  proof (intro allI impI)
    fix b assume "is_pool b"
    then have "b \<noteq> NetworkDBName" by (auto simp: is_pool_def HasPrefix_def PoolDBName_def NetworkDBName_def)
    with P D have "raw (dbHandler st2) b = raw (dbHandler st) b" by simp
    then show "bolt_db.contents raw PodNetwork_codec b (dbHandler st2) = bolt_db.contents raw PodNetwork_codec b (dbHandler st)"
      by (rule bolt_db.contents_frame [OF assms(1)])
  qed
  ultimately show ?thesis by blast
qed

definition demo_records :: "(mem, unit) istate" where
  "demo_records = \<lparr>dbHandler = [(NetworkDBName, []), (PoolDBName, [demo_entry ''4''])], poolDB = [], outside = ()\<rparr>"

lemma demo_records_readable:
  "bolt_db.readable mem_raw mem_wf PodNetwork_codec NetworkDBName (dbHandler demo_records)"
  "bolt_db.readable mem_raw mem_wf PodNetwork_codec PoolDBName (dbHandler demo_records)"
  by (auto simp: mem.readable_def mem_wf_def mem_raw_def demo_records_def ran_def NetworkDBName_def
      PoolDBName_def demo_entry_def decode_demo split: if_splits)

lemma pod_record_roundtrip_witness:
  "\<exists>st1. GetPodNetworkRecord demo_server \<lparr>rk_PodName = [], rk_PodNS = [], rk_SandboxID = []\<rparr> st1 =
    (\<lparr>as_Code = CNISuccess, as_PodNetwork = Some (demo_pn ''1'')\<rparr>, None)"
proof -
  let ?key = "\<lparr>rk_PodName = pn_PodName (demo_pn ''1''), rk_PodNS = pn_PodNS (demo_pn ''1''),
    rk_SandboxID = pn_SandboxID (demo_pn ''1'')\<rparr>"
  let ?a = "AddPodNetworkRecord demo_server \<lparr>arr_PodNetwork = demo_pn ''1''\<rparr> demo_records"
  have a: "?a = ((CNISuccess, None), snd ?a)" by code_simp
  let ?d = "DelPodNetworkRecord demo_server ?key (snd ?a)"
  have d: "?d = ((CNISuccess, None), snd ?d)" by code_simp
  obtain resp e where g: "GetPodNetworkRecord demo_server ?key (snd ?a) = (resp, e)" by force
  have e: "snd (GetPodNetworkRecord demo_server ?key (snd ?a)) = None" by code_simp
  from pod_record_roundtrip [OF demo_bolt demo_records_readable(1) refl a d] g e
  have "as_PodNetwork resp = Some (demo_pn ''1'') \<and> as_Code resp = CNISuccess" by auto
  with g e have "GetPodNetworkRecord demo_server ?key (snd ?a) =
      (\<lparr>as_Code = CNISuccess, as_PodNetwork = Some (demo_pn ''1'')\<rparr>, None)" by (cases resp) simp
  then show ?thesis by (auto simp: demo_pn_def PodNetwork_zero_def)
qed

section \<open>Reconciliation\<close>

lemma match_pods_orphan:
  "match_pods pn pods = OrphanRecord \<Longrightarrow> pods \<noteq> [] \<and>
    \<not> (\<exists>p \<in> set pods. pod_Name p = pn_PodName pn \<and> pod_Namespace p = pn_PodNS pn \<and> pod_UID p = pn_PodUID pn)"
  by (induction pn pods rule: match_pods.induct) (auto split: if_splits)

lemma match_pods_complete:
  "match_pods pn pods = CompleteRecord uid \<Longrightarrow> pn_PodUID pn = [] \<and>
    (\<exists>p \<in> set pods. pod_Name p = pn_PodName pn \<and> pod_Namespace p = pn_PodNS pn \<and> pod_UID p = uid)"
proof (induction pn pods rule: match_pods.induct)
  case (1 pn)
  then show ?case by simp
next
  case (2 pn p ps)
  let ?n = "pod_Name p = pn_PodName pn \<and> pod_Namespace p = pn_PodNS pn"
  show ?case
  proof (cases "?n \<and> pod_UID p \<noteq> pn_PodUID pn \<and> pn_PodUID pn = []")
    case True
    with 2(2) have "uid = pod_UID p" by (simp split: if_splits)
    with True show ?thesis by simp
  next
    case False
    with 2(2) have c: "\<not> (?n \<and> pod_UID p = pn_PodUID pn)" "\<not> (?n \<and> pn_PodUID pn = [])" "ps \<noteq> []"
      and m: "match_pods pn ps = CompleteRecord uid" by (simp_all split: if_splits)
    have "pn_PodUID pn = [] \<and> (\<exists>p \<in> set ps. pod_Name p = pn_PodName pn \<and> pod_Namespace p = pn_PodNS pn \<and> pod_UID p = uid)"
      by (rule 2(1) [OF _ _ c(3) m]) (use c in blast)+
    then show ?thesis by (meson list.set_intros(2))
  qed
qed

text \<open>What becomes of one record, given its match among the pods.\<close>

lemma reconciled_verdict:
  assumes "c = Some pn \<or> (\<exists>uid. match_pods pn pods = CompleteRecord uid \<and> c = Some (pn\<lparr>pn_PodUID := uid\<rparr>))"
    and "c' = c \<or> match_pods pn pods = OrphanRecord \<and> c' = None"
  shows "case c' of
        None \<Rightarrow> pods \<noteq> [] \<and> \<not> (\<exists>p \<in> set pods. pod_Name p = pn_PodName pn \<and>
          pod_Namespace p = pn_PodNS pn \<and> pod_UID p = pn_PodUID pn)
      | Some pn' \<Rightarrow> pn' = pn \<or> pn_PodUID pn = [] \<and>
          (\<exists>p \<in> set pods. pod_Name p = pn_PodName pn \<and> pod_Namespace p = pn_PodNS pn \<and>
             pn' = pn\<lparr>pn_PodUID := pod_UID p\<rparr>)"
  using assms(2)
proof
  assume "c' = c"
  with assms(1) show ?thesis using match_pods_complete [of pn pods] by fastforce
next
  assume "match_pods pn pods = OrphanRecord \<and> c' = None"
  with match_pods_orphan [of pn pods] show ?thesis by simp
qed

text \<open>C32. Reconciliation deletes only records of pods that are gone.

  A record that \<open>doReconcile\<close> deletes matches none of the pods listed on the node in name, namespace
  and UID, and the list was not empty; a record that it changes had no UID and gets that of a
  listed pod of its name and namespace; every other record, and every other bucket, stays. In
  particular a node without pods never has a record collected.\<close>

theorem doReconcile_keeps_live_records:
  assumes "bolt_db (bolt s) raw okf"
    and "bolt_db.readable raw okf PodNetwork_codec NetworkDBName (dbHandler st)"
    and "PodsListOnNode (kube s) (nodeName s) (outside st) = (Inr pods, w1)"
  shows "(\<forall>b. b \<noteq> NetworkDBName \<longrightarrow> raw (dbHandler (doReconcile s st)) b = raw (dbHandler st) b) \<and>
    (\<forall>k pn. bolt_db.contents raw PodNetwork_codec NetworkDBName (dbHandler st) k = Some pn \<longrightarrow>
       (case bolt_db.contents raw PodNetwork_codec NetworkDBName (dbHandler (doReconcile s st)) k of
          None \<Rightarrow> pods \<noteq> [] \<and> \<not> (\<exists>p \<in> set pods. pod_Name p = pn_PodName pn \<and>
            pod_Namespace p = pn_PodNS pn \<and> pod_UID p = pn_PodUID pn)
        | Some pn' \<Rightarrow> pn' = pn \<or> pn_PodUID pn = [] \<and>
            (\<exists>p \<in> set pods. pod_Name p = pn_PodName pn \<and> pod_Namespace p = pn_PodNS pn \<and>
               pn' = pn\<lparr>pn_PodUID := pod_UID p\<rparr>)))"
proof -
  note P = assms(1) [folded pool_db_def]
  have B: "bolt_bucket (bolt s) raw okf PodNetwork_codec" by (rule pool_db.pn_bucket [OF P])
  let ?c = "\<lambda>st. bolt_db.contents raw PodNetwork_codec NetworkDBName (dbHandler st)"
  let ?st1 = "st\<lparr>outside := w1\<rparr>"
  show ?thesis
  proof (cases "Bolt_List (bolt s) PodNetwork_codec NetworkDBName (dbHandler st)")
    case (Inl e)
    then have "doReconcile s st = ?st1"
      using assms(3) by (simp add: doReconcile_def on_world_def getLocalPods_def)
    then show ?thesis by simp
  next
    case (Inr kvs)
    from bolt_bucket.Bolt_List_view [OF B assms(2) Inr]
    have kvs: "distinct (map fst kvs)" "map_of kvs = ?c st" by simp_all
    then have mem: "(k, pn) \<in> set kvs \<longleftrightarrow> ?c st k = Some pn" for k pn by (metis map_of_distinct_iff)
    obtain orphans st2 where r: "reconcile_records s pods kvs ?st1 = (orphans, st2)" by force
    have eq: "doReconcile s st = delete_records s orphans st2"
      using assms(3) Inr r by (simp add: doReconcile_def on_world_def getLocalPods_def)
    have rd1: "bolt_db.readable raw okf PodNetwork_codec NetworkDBName (dbHandler ?st1)" using assms(2) by simp
    from pool_db.reconcile_records_spec [OF P rd1 kvs(1) r]
    have rd2: "bolt_db.readable raw okf PodNetwork_codec NetworkDBName (dbHandler st2)"
      and R: "reconciled raw pods kvs ?st1 orphans st2" by auto
    note D = pool_db.delete_records_spec [OF P rd2, of orphans]
    have "case ?c (doReconcile s st) k of
        None \<Rightarrow> pods \<noteq> [] \<and> \<not> (\<exists>p \<in> set pods. pod_Name p = pn_PodName pn \<and>
          pod_Namespace p = pn_PodNS pn \<and> pod_UID p = pn_PodUID pn)
      | Some pn' \<Rightarrow> pn' = pn \<or> pn_PodUID pn = [] \<and>
          (\<exists>p \<in> set pods. pod_Name p = pn_PodName pn \<and> pod_Namespace p = pn_PodNS pn \<and>
             pn' = pn\<lparr>pn_PodUID := pod_UID p\<rparr>)" if k: "?c st k = Some pn" for k pn
    proof (rule reconciled_verdict)
      have kin: "(k, pn') \<in> set kvs \<longleftrightarrow> pn' = pn" for pn' using mem k by auto
      have Rk: "?c st2 k = ?c st k \<or> (\<exists>pn' uid. (k, pn') \<in> set kvs \<and> match_pods pn' pods = CompleteRecord uid \<and>
          ?c st2 k = Some (pn'\<lparr>pn_PodUID := uid\<rparr>))"
        and Ok: "k \<in> set orphans \<longleftrightarrow> (\<exists>pn'. (k, pn') \<in> set kvs \<and> match_pods pn' pods = OrphanRecord)"
        using R unfolding reconciled_def by simp_all
      then show "?c st2 k = Some pn \<or> (\<exists>uid. match_pods pn pods = CompleteRecord uid \<and>
          ?c st2 k = Some (pn\<lparr>pn_PodUID := uid\<rparr>))" unfolding kin k by blast
      show "?c (doReconcile s st) k = ?c st2 k \<or> match_pods pn pods = OrphanRecord \<and> ?c (doReconcile s st) k = None"
        using D Ok unfolding eq kin by blast
    qed
    moreover have "raw (dbHandler (doReconcile s st)) b = raw (dbHandler st) b" if "b \<noteq> NetworkDBName" for b
      using D R that unfolding eq reconciled_def by simp
    ultimately show ?thesis by blast
  qed
qed

definition demo_recorded :: "(mem, unit) istate" where
  "demo_recorded = \<lparr>dbHandler = [(NetworkDBName,
     [(''a'', Doc (marshal_PodNetwork ((demo_pn ''1'')\<lparr>pn_PodName := ''gone'', pn_PodUID := ''x''\<rparr>)))])],
     poolDB = [], outside = ()\<rparr>"

theorem doReconcile_keeps_live_records_witness:
  "mem_raw (dbHandler (doReconcile (demo_node demo_pod (Inl (Kube KNotFound)) None) demo_recorded)) ''b'' = None"
proof -
  let ?s = "demo_node demo_pod (Inl (Kube KNotFound)) None"
  have rd: "bolt_db.readable mem_raw mem_wf PodNetwork_codec NetworkDBName (dbHandler demo_recorded)"
    by (auto simp: mem.readable_def mem_wf_def mem_raw_def demo_recorded_def ran_def decode_demo split: if_splits)
  have l: "PodsListOnNode (kube ?s) (nodeName ?s) (outside demo_recorded) = (Inr [demo_pod], ())"
    by (simp add: demo_node_def)
  from doReconcile_keeps_live_records [OF demo_node_bolt rd l]
  show ?thesis by (simp add: NetworkDBName_def demo_recorded_def mem_raw_def)
qed

section \<open>Migration\<close>




end
