(* ===== verification/Log_Tail.thy ===== *)
theory Log_Tail
  imports Go_Strings
begin

text \<open>
  The HTTP endpoints of the daemon: \<open>pkg/ipamd/log_tail.go\<close>, which streams the last lines of the
  node's log and then what is appended to it, and \<open>pkg/ipamd/version_server.go\<close>. A file is its
  bytes; seeking and reading may fail and are given as functions. The events of the file system
  watcher, the clock and the client are a list.
\<close>

section \<open>The start of the tail\<close>

definition newlines :: "string \<Rightarrow> nat" where
  "newlines s = length (filter (\<lambda>c. c = CHR 0x0A) s)"

definition tailBlockSize :: nat where
  "tailBlockSize = 1024"

definition defaultTailLines :: int where
  "defaultTailLines = 100"

text \<open>
  The first loop of \<open>tailStartOffset\<close> reads blocks backwards until enough newlines are seen or the
  start of the file is reached. Its results are the offset of the last block read, the newlines
  seen so far and the block.
\<close>

function tail_scan ::
  "(nat \<Rightarrow> nat \<Rightarrow> string result) \<Rightarrow> nat \<Rightarrow> nat \<Rightarrow> nat \<Rightarrow> nat \<Rightarrow> string \<Rightarrow> (nat \<times> nat \<times> string) result" where
  "tail_scan readAt lines end cnt offset buffer =
     (if end > 0 \<and> cnt \<le> lines then
        (let off = end - tailBlockSize in
         case readAt off (end - off) of
           Inl e \<Rightarrow> Inl (Wrap ''ipamd.tailStartOffset read block'' e)
         | Inr buf \<Rightarrow> tail_scan readAt lines off (cnt + newlines buf) off buf)
      else Inr (offset, cnt, buffer))"
  by pat_completeness auto
termination
  by (relation "measure (\<lambda>(_, _, end, _, _, _). end)") (auto simp: tailBlockSize_def)

declare tail_scan.simps [simp del]

text \<open>The second loop drops the newlines that are too many from the front of the block.\<close>

definition after_newline :: "string \<Rightarrow> nat" where
  "after_newline s = (if CHR 0x0A \<in> set s then Suc (length (takeWhile (\<lambda>c. c \<noteq> CHR 0x0A) s)) else 0)"

fun tail_skip :: "nat \<Rightarrow> nat \<Rightarrow> string \<Rightarrow> nat" where
  "tail_skip 0 offset buffer = offset"
| "tail_skip (Suc excess) offset buffer =
     (let index = after_newline buffer in tail_skip excess (offset + index) (drop index buffer))"

definition tailStartOffset ::
  "nat result \<Rightarrow> (nat \<Rightarrow> nat \<Rightarrow> string result) \<Rightarrow> nat \<Rightarrow> nat result" where
  "tailStartOffset seekEnd readAt lines =
     (case seekEnd of
        Inl e \<Rightarrow> Inl (Wrap ''ipamd.tailStartOffset seek end'' e)
      | Inr end \<Rightarrow>
          (if lines = 0 then Inr end
           else case tail_scan readAt lines end 0 0 [] of
             Inl e \<Rightarrow> Inl e
           | Inr (offset, cnt, buffer) \<Rightarrow> Inr (tail_skip (cnt - lines) offset buffer)))"

text \<open>A file of fixed contents.\<close>

definition file_read :: "string \<Rightarrow> nat \<Rightarrow> nat \<Rightarrow> string result" where
  "file_read c off n = (if off + n \<le> length c then Inr (take n (drop off c)) else Inl (Errors_New ''unexpected EOF''))"

definition parseTailLines :: "string \<Rightarrow> int result" where
  "parseTailLines value =
     (if value = [] then Inr defaultTailLines
      else case ParseInt value of
        Inl e \<Rightarrow> Inl (Wrap ''ipamd.parseTailLines parse lines'' e)
      | Inr lines \<Rightarrow>
          (if lines < 0 then Inl (Errors_New ''ipamd.parseTailLines lines must be non-negative'') else Inr lines))"

text \<open>\<open>openLogTail\<close> of a file that may not open.\<close>

definition openLogTail :: "string result \<Rightarrow> nat \<Rightarrow> (string \<times> nat) result" where
  "openLogTail opened lines =
     (case opened of
        Inl e \<Rightarrow> Inl (Wrap ''ipamd.openLogTail open %s'' e)
      | Inr c \<Rightarrow>
          (case tailStartOffset (Inr (length c)) (file_read c) lines of
             Inl e \<Rightarrow> Inl e
           | Inr offset \<Rightarrow> Inr (c, offset)))"

section \<open>Waiting for a change\<close>

record fs_event =
  fe_Name :: string
  fe_Create :: bool
  fe_Other :: bool \<comment> \<open>write, rename, remove or chmod\<close>

datatype wait_event = CtxDone | WatchEvent fs_event | EventsClosed | WatchError gerror | ErrorsClosed | ForceCheck

text \<open>The verdict and the events left; without a further event the wait goes on: \<open>None\<close>.\<close>

fun waitLogChange ::
  "(string \<Rightarrow> string) \<Rightarrow> string \<Rightarrow> wait_event list \<Rightarrow> (bool result \<times> wait_event list) option" where
  "waitLogChange clean path [] = None"
| "waitLogChange clean path (CtxDone # evs) = Some (Inr False, evs)"
| "waitLogChange clean path (EventsClosed # evs) = Some (Inl (Errors_New ''ipamd.waitLogChange watcher closed''), evs)"
| "waitLogChange clean path (WatchEvent ev # evs) =
     (if clean (fe_Name ev) \<noteq> clean path then waitLogChange clean path evs
      else if fe_Create ev then Some (Inr True, evs)
      else if fe_Other ev then Some (Inr False, evs)
      else waitLogChange clean path evs)"
| "waitLogChange clean path (ErrorsClosed # evs) =
     Some (Inl (Errors_New ''ipamd.waitLogChange watcher errors closed''), evs)"
| "waitLogChange clean path (WatchError e # evs) = Some (Inl (Wrap ''ipamd.waitLogChange watch'' e), evs)"
| "waitLogChange clean path (ForceCheck # evs) = Some (Inr False, evs)"

section \<open>Following the log\<close>

text \<open>The complete lines of what is unread, and the partial line that is read again later.\<close>

fun complete_lines :: "string \<Rightarrow> string list \<times> string" where
  "complete_lines [] = ([], [])"
| "complete_lines (c # cs) =
     (case complete_lines cs of
        (ls, rest) \<Rightarrow>
          if c = CHR 0x0A then ([c] # ls, rest)
          else (case ls of [] \<Rightarrow> ([], c # rest) | l # ls' \<Rightarrow> ((c # l) # ls', rest)))"

text \<open>
  Lines are written one by one, each flushed before the next; \<open>writer\<close> says whether the write
  of the \<open>n\<close>-th line of the answer fails.
\<close>

record tail_state =
  t_unread :: string
  t_written :: "string list"

fun write_lines :: "(nat \<Rightarrow> gerror option) \<Rightarrow> string list \<Rightarrow> string list \<Rightarrow> gerror option \<times> string list" where
  "write_lines writer [] out = (None, out)"
| "write_lines writer (line # ls) out =
     (case writer (length out) of
        Some e \<Rightarrow> (Some (Wrap ''ipamd.followLogTail write'' e), out)
      | None \<Rightarrow> write_lines writer ls (out @ [line]))"

definition drain :: "(nat \<Rightarrow> gerror option) \<Rightarrow> tail_state \<Rightarrow> gerror option \<times> tail_state" where
  "drain writer t = (case complete_lines (t_unread t) of
     (ls, rest) \<Rightarrow> (case write_lines writer ls (t_written t) of
        (err, out) \<Rightarrow> (err, \<lparr>t_unread = rest, t_written = out\<rparr>)))"

text \<open>
  What happens after the reader has drained the file: the log has grown when the wait ends, or is
  replaced by a new file with its own contents (what is left of the old one is dropped), or the new
  file is not there yet or cannot be opened, or the wait fails, or the client is gone.
\<close>

datatype turn = Grown string | Replaced string | NotYet | ReopenFailed gerror | WaitFailed gerror | Gone

fun followLogTail ::
  "(nat \<Rightarrow> gerror option) \<Rightarrow> turn list \<Rightarrow> tail_state \<Rightarrow> gerror option \<times> tail_state" where
  "followLogTail writer [] t = drain writer t"
| "followLogTail writer (turn # turns) t =
     (case drain writer t of
        (Some e, t') \<Rightarrow> (Some e, t')
      | (None, t') \<Rightarrow>
          (case turn of
             Gone \<Rightarrow> (None, t')
           | WaitFailed e \<Rightarrow> (Some e, t')
           | ReopenFailed e \<Rightarrow> (Some (Wrap ''ipamd.followLogTail reopen %s'' e), t')
           | NotYet \<Rightarrow> followLogTail writer turns t'
           | Grown s \<Rightarrow> followLogTail writer turns (t'\<lparr>t_unread := t_unread t' @ s\<rparr>)
           | Replaced s \<Rightarrow> followLogTail writer turns (t'\<lparr>t_unread := s\<rparr>)))"

section \<open>The answer of the handler\<close>

datatype http_answer = HttpOK "gerror option" tail_state | HttpBadRequest | HttpInternalServerError | HttpUnavailable

definition newLogTailHandler ::
  "string \<Rightarrow> bool \<Rightarrow> string result \<Rightarrow> gerror option \<Rightarrow> (nat \<Rightarrow> gerror option) \<Rightarrow>
    turn list \<Rightarrow> http_answer" where
  "newLogTailHandler value flusher opened watch writer turns =
     (case parseTailLines value of
        Inl e \<Rightarrow> HttpBadRequest
      | Inr lines \<Rightarrow>
          (if \<not> flusher then HttpInternalServerError
           else case openLogTail opened (nat lines) of
             Inl e \<Rightarrow> HttpUnavailable
           | Inr (c, offset) \<Rightarrow>
               (case watch of
                  Some e \<Rightarrow> HttpUnavailable
                | None \<Rightarrow> (case followLogTail writer turns \<lparr>t_unread = drop offset c, t_written = []\<rparr> of
                    (err, t) \<Rightarrow> HttpOK err t))))"

section \<open>version_server.go\<close>

definition cniVersionPrefix :: string where
  "cniVersionPrefix = ''ucloud-uk8s-cnivpc version ''"

definition parseCNIVersion :: "string \<Rightarrow> string result" where
  "parseCNIVersion output =
     (case CutPrefix (TrimSpace output) cniVersionPrefix of
        (version, found) \<Rightarrow>
          if \<not> found \<or> TrimSpace version = []
          then Inl (Errors_New ''ipamd.parseCNIVersion unexpected output %q'')
          else Inr (TrimSpace version))"

definition loadCNIVersion :: "string result \<Rightarrow> string result" where
  "loadCNIVersion output =
     (case output of
        Inl e \<Rightarrow> Inl (Wrap ''ipamd.loadCNIVersion execute %s'' e)
      | Inr out \<Rightarrow> parseCNIVersion out)"

section \<open>Facts about newlines and the two loops\<close>

lemma newlines_simps [simp]:
  "newlines [] = 0"
  "newlines (c # s) = (if c = CHR 0x0A then Suc (newlines s) else newlines s)"
  "newlines (s @ t) = newlines s + newlines t"
  by (simp_all add: newlines_def)

lemma newlines_split: "newlines s = newlines (take k s) + newlines (drop k s)"
  by (metis append_take_drop_id newlines_simps(3))

lemma newlines_pos: "0 < newlines s \<longleftrightarrow> CHR 0x0A \<in> set s"
  by (induction s) auto

lemma after_newline_spec:
  assumes "0 < newlines s"
  shows "0 < after_newline s" "after_newline s \<le> length s" "s ! (after_newline s - 1) = CHR 0x0A"
    "newlines (drop (after_newline s) s) = newlines s - 1"
proof -
  from assms have "CHR 0x0A \<in> set s" by (simp add: newlines_pos)
  then obtain u v where s: "s = u @ CHR 0x0A # v" and u: "CHR 0x0A \<notin> set u"
    by (meson split_list_first)
  have a: "after_newline s = Suc (length u)"
  proof -
    have "takeWhile (\<lambda>c. c \<noteq> CHR 0x0A) s = u"
      by (subst s, subst takeWhile_append2) (use u in auto)
    then show ?thesis by (simp add: after_newline_def s)
  qed
  have nu: "newlines u = 0" using u newlines_pos [of u] by simp
  show "0 < after_newline s" "after_newline s \<le> length s" "s ! (after_newline s - 1) = CHR 0x0A"
    "newlines (drop (after_newline s) s) = newlines s - 1"
    unfolding a by (simp_all add: s nu)
qed

lemma tail_skip_spec:
  "excess \<le> newlines b \<Longrightarrow> \<exists>j. tail_skip excess off b = off + j \<and> j \<le> length b \<and>
     newlines (drop j b) = newlines b - excess \<and> (excess = 0 \<or> 0 < j \<and> b ! (j - 1) = CHR 0x0A)"
proof (induction excess arbitrary: off b)
  case 0
  show ?case by (intro exI [of _ 0]) simp
next
  case (Suc n)
  define i where "i = after_newline b"
  from Suc.prems have pos: "0 < newlines b" by simp
  note i = after_newline_spec [OF pos, folded i_def]
  from Suc.prems i(4) have "n \<le> newlines (drop i b)" by simp
  from Suc.IH [OF this, of "off + i"] obtain j where
    j: "tail_skip n (off + i) (drop i b) = off + i + j" "j \<le> length (drop i b)"
      "newlines (drop j (drop i b)) = newlines (drop i b) - n"
      "n = 0 \<or> 0 < j \<and> drop i b ! (j - 1) = CHR 0x0A"
    by blast
  have "b ! (i + j - 1) = CHR 0x0A"
  proof (cases "j = 0")
    case True
    with i(3) show ?thesis by simp
  next
    case False
    show ?thesis
    proof (cases "n = 0")
      case True
      with j(1) False show ?thesis by simp
    next
      case False
      with j i(2) show ?thesis by (auto simp: nth_drop)
    qed
  qed
  with i j have "tail_skip (Suc n) off b = off + (i + j)" "i + j \<le> length b"
    "newlines (drop (i + j) b) = newlines b - Suc n" "0 < i + j \<and> b ! (i + j - 1) = CHR 0x0A"
    by (auto simp: Let_def i_def [symmetric] add.commute)
  then show ?case by blast
qed

text \<open>What the block read backwards satisfies.\<close>

definition tail_block :: "string \<Rightarrow> nat \<Rightarrow> nat \<Rightarrow> nat \<Rightarrow> string \<Rightarrow> bool" where
  "tail_block c lines cnt off b \<longleftrightarrow> off \<le> length c \<and> cnt = newlines (drop off c) \<and>
     b = take (length b) (drop off c) \<and> newlines (drop (off + length b) c) \<le> lines"

lemma tail_block_count: "tail_block c lines cnt off b \<Longrightarrow> cnt - lines \<le> newlines b"
proof -
  assume tb: "tail_block c lines cnt off b"
  then have b: "take (length b) (drop off c) = b" by (metis tail_block_def)
  from tb have "cnt = newlines (drop off c)" "newlines (drop (length b) (drop off c)) \<le> lines"
    by (simp_all add: tail_block_def add.commute)
  with newlines_split [of "drop off c" "length b"] b show ?thesis by simp
qed

lemma tail_scan_spec:
  "\<lbrakk> end \<le> length c; cnt = newlines (drop end c);
     0 < end \<and> cnt \<le> lines \<or> off = end \<and> tail_block c lines cnt off b \<rbrakk> \<Longrightarrow>
   \<exists>off' cnt' b'. tail_scan (file_read c) lines end cnt off b = Inr (off', cnt', b') \<and>
     tail_block c lines cnt' off' b' \<and> (off' = 0 \<or> lines < cnt')"
proof (induction "end" arbitrary: cnt off b rule: less_induct)
  case (less "end")
  show ?case
  proof (cases "0 < end \<and> cnt \<le> lines")
    case False
    with less.prems show ?thesis by (subst tail_scan.simps) auto
  next
    case True
    define o' where "o' = end - tailBlockSize"
    define blk where "blk = take (end - o') (drop o' c)"
    have lt: "o' < end" using True by (simp add: o'_def tailBlockSize_def)
    have rd: "file_read c o' (end - o') = Inr blk"
      using lt less.prems(1) by (simp add: file_read_def blk_def)
    have len: "length blk = end - o'" using lt less.prems(1) by (simp add: blk_def)
    have sp: "drop o' c = blk @ drop end c"
      using lt less.prems(1) append_take_drop_id [of "end - o'" "drop o' c"] by (simp add: blk_def)
    have tb: "tail_block c lines (cnt + newlines blk) o' blk"
      using lt less.prems True len by (simp add: tail_block_def sp)
    have "\<exists>off' cnt' b'. tail_scan (file_read c) lines o' (cnt + newlines blk) o' blk = Inr (off', cnt', b') \<and>
      tail_block c lines cnt' off' b' \<and> (off' = 0 \<or> lines < cnt')"
      using lt less.prems tb by (intro less.IH) (auto simp: sp)
    moreover have "tail_scan (file_read c) lines end cnt off b =
      tail_scan (file_read c) lines o' (cnt + newlines blk) o' blk"
      using True rd by (subst tail_scan.simps) (simp add: Let_def o'_def [symmetric])
    ultimately show ?thesis by simp
  qed
qed

section \<open>Facts about following\<close>

definition complete_line :: "string \<Rightarrow> bool" where
  "complete_line l \<longleftrightarrow> (\<exists>u. l = u @ [CHR 0x0A] \<and> CHR 0x0A \<notin> set u)"




text \<open>The lines written so far are complete and never taken back.\<close>

definition tail_grows :: "tail_state \<Rightarrow> tail_state \<Rightarrow> bool" where
  "tail_grows t t' \<longleftrightarrow> (\<exists>ls. t_written t' = t_written t @ ls \<and> list_all complete_line ls)"

lemma tail_grows_refl [simp]: "tail_grows t t"
  by (simp add: tail_grows_def)


lemma tail_grows_unread [simp]: "tail_grows (t\<lparr>t_unread := s\<rparr>) u = tail_grows t u"
  by (simp add: tail_grows_def)







section \<open>Properties\<close>

text \<open>The block that the backward scan ends in, as a part of the file.\<close>

lemma tail_block_append:
  assumes "tail_block c n k off b"
  shows "drop off c = b @ drop (length b) (drop off c)" and "off + length b \<le> length c"
proof -
  have b: "b = take (length b) (drop off c)" and off: "off \<le> length c" using assms by (auto simp: tail_block_def)
  show "drop off c = b @ drop (length b) (drop off c)" by (metis append_take_drop_id b)
  show "off + length b \<le> length c" using arg_cong [OF b, of length] off by simp
qed

lemma tail_block_drop:
  assumes tb: "tail_block c n k off b" and j: "j \<le> length b" "newlines (drop j b) = newlines b - (k - n)"
  shows "newlines (drop (off + j) c) = k - (k - n)"
proof -
  note a = tail_block_append(1) [OF tb]
  then have d: "drop (off + j) c = drop j b @ drop (length b) (drop off c)"
    using j(1) by (metis add.commute append_eq_conv_conj drop_append drop_drop diff_is_0_eq drop_0)
  have "k = newlines b + newlines (drop (length b) (drop off c))"
    using a tb by (metis newlines_simps(3) tail_block_def)
  with d j(2) tail_block_count [OF tb] show ?thesis by simp
qed

lemma tail_block_nth:
  assumes "tail_block c n k off b" and "0 < j" and "j \<le> length b"
  shows "c ! (off + j - 1) = b ! (j - 1)"
proof -
  have "off + j - 1 = off + (j - 1)" using assms(2) by simp
  moreover have "drop off c ! (j - 1) = c ! (off + (j - 1))"
    using tail_block_append(2) [OF assms(1)] assms(2,3) by (intro nth_drop) simp
  moreover have "drop off c ! (j - 1) = b ! (j - 1)"
    using assms(2,3) by (subst tail_block_append(1) [OF assms(1)]) (auto simp: nth_append)
  ultimately show ?thesis by simp
qed

text \<open>C36. The tail starts exactly at the last lines asked for.

  For a file whose reads succeed, \<open>tailStartOffset\<close> returns an offset within the file. With
  \<open>lines = 0\<close> it is the end. When the file has no more newlines than asked for, it is the start.
  Otherwise what follows the offset holds exactly \<open>lines\<close> newlines and the byte before it is a
  newline, whatever the length of the lines compared to the blocks of 1024 bytes read backwards.
\<close>

theorem tailStartOffset_last_lines:
  "\<exists>off. tailStartOffset (Inr (length c)) (file_read c) n = Inr off \<and> off \<le> length c \<and>
     (n = 0 \<longrightarrow> off = length c) \<and>
     (0 < n \<and> newlines c \<le> n \<longrightarrow> off = 0) \<and>
     (0 < n \<and> n < newlines c \<longrightarrow> newlines (drop off c) = n \<and> 0 < off \<and> c ! (off - 1) = CHR 0x0A)"
proof (cases "n = 0")
  case True
  then show ?thesis by (simp add: tailStartOffset_def)
next
  case False
  have "\<exists>off' cnt' b'. tail_scan (file_read c) n (length c) 0 0 [] = Inr (off', cnt', b') \<and>
     tail_block c n cnt' off' b' \<and> (off' = 0 \<or> n < cnt')"
    by (rule tail_scan_spec) (auto simp: tail_block_def)
  then obtain o1 k b where s: "tail_scan (file_read c) n (length c) 0 0 [] = Inr (o1, k, b)"
    and tb: "tail_block c n k o1 b" and o1: "o1 = 0 \<or> n < k" by blast
  obtain j where j: "tail_skip (k - n) o1 b = o1 + j" "j \<le> length b"
    "newlines (drop j b) = newlines b - (k - n)" "k - n = 0 \<or> 0 < j \<and> b ! (j - 1) = CHR 0x0A"
    using tail_skip_spec [OF tail_block_count [OF tb], of o1] by blast
  have k: "k = newlines (drop o1 c)" using tb by (simp add: tail_block_def)
  note bl = tail_block_append(2) [OF tb] and nl = tail_block_drop [OF tb j(2,3)]
  have kc: "n < newlines c \<longleftrightarrow> n < k"
  proof -
    have "k \<le> newlines c" using newlines_split [of c o1] unfolding k by simp
    moreover have "o1 = 0 \<Longrightarrow> k = newlines c" unfolding k by simp
    ultimately show ?thesis using o1 by linarith
  qed
  have at: "0 < j \<Longrightarrow> c ! (o1 + j - 1) = b ! (j - 1)" using tail_block_nth [OF tb _ j(2)] .
  have j0: "\<not> n < k \<Longrightarrow> tail_skip (k - n) o1 b = o1" by simp
  show ?thesis
  proof (intro exI [of _ "o1 + j"] conjI impI)
    show "tailStartOffset (Inr (length c)) (file_read c) n = Inr (o1 + j)"
      using False s j(1) by (simp add: tailStartOffset_def)
    show "o1 + j \<le> length c" using j(2) bl by simp
    show "n = 0 \<Longrightarrow> o1 + j = length c" using False by simp
    show "0 < n \<and> newlines c \<le> n \<Longrightarrow> o1 + j = 0" using kc o1 j(1) j0 by auto
    assume "0 < n \<and> n < newlines c"
    then have "n < k" using kc by simp
    with nl j(4) at show "newlines (drop (o1 + j) c) = n" "0 < o1 + j" "c ! (o1 + j - 1) = CHR 0x0A"
      by auto
  qed
qed

lemma tailStartOffset_last_lines_witness:
  "\<exists>off. tailStartOffset (Inr 6) (file_read [CHR ''a'', CHR 0x0A, CHR ''b'', CHR 0x0A, CHR ''c'', CHR 0x0A]) 2 = Inr off \<and>
     off = 2"
proof -
  let ?c = "[CHR ''a'', CHR 0x0A, CHR ''b'', CHR 0x0A, CHR ''c'', CHR 0x0A]"
  obtain off where off: "tailStartOffset (Inr (length ?c)) (file_read ?c) 2 = Inr off" "off \<le> length ?c"
    "newlines (drop off ?c) = 2" "0 < off" "?c ! (off - 1) = CHR 0x0A"
    using tailStartOffset_last_lines [of ?c 2] by auto
  have "off \<in> {0, 1, 2, 3, 4, 5, 6}" using off(2) by auto
  then have "off = 2" using off(3-5) by auto
  with off(1) show ?thesis by (intro exI [of _ 2]) (simp add: eval_nat_numeral)
qed



end
