(* ===== verification/Iptables.thy ===== *)
theory Iptables
  imports Go_Strings
begin

text \<open>
  The packet filter as the repository drives it through \<open>go-iptables\<close> and the helpers of
  \<open>containernetworking/plugins/pkg/utils\<close>, none of which is in the repository: each call is a
  field of \<open>iptables\<close>. What the code relies on of them is the locale \<open>iptables_api\<close>, stated over
  the abstract view of the tables; \<open>mem_iptables\<close> is an instance.
\<close>

type_synonym rule = "string list"

record 'w iptables =
  ipt_Exists :: "string \<Rightarrow> string \<Rightarrow> rule \<Rightarrow> 'w \<Rightarrow> bool result"
  ipt_ChainExists :: "string \<Rightarrow> string \<Rightarrow> 'w \<Rightarrow> bool result"
  ipt_List :: "string \<Rightarrow> string \<Rightarrow> 'w \<Rightarrow> string list result"
  ipt_Insert :: "string \<Rightarrow> string \<Rightarrow> rule \<Rightarrow> 'w action" \<comment> \<open>at position 1\<close>
  ipt_Append :: "string \<Rightarrow> string \<Rightarrow> rule \<Rightarrow> 'w action"
  ipt_Delete :: "string \<Rightarrow> string \<Rightarrow> rule \<Rightarrow> 'w action"
  ipt_NewChain :: "string \<Rightarrow> string \<Rightarrow> 'w action"
  EnsureChain :: "string \<Rightarrow> string \<Rightarrow> 'w action"
  ClearChain :: "string \<Rightarrow> string \<Rightarrow> 'w action"
  DeleteChain :: "string \<Rightarrow> string \<Rightarrow> 'w action"
  DeleteRule :: "string \<Rightarrow> string \<Rightarrow> rule \<Rightarrow> 'w action"
  shellwords_Parse :: "string \<Rightarrow> string list result"

text \<open>The tables: the rules of each chain of each table, none for a chain that does not exist.\<close>

type_synonym tables = "string \<Rightarrow> string \<Rightarrow> rule list option"

definition put_chain :: "tables \<Rightarrow> string \<Rightarrow> string \<Rightarrow> rule list option \<Rightarrow> tables" where
  "put_chain v t c rs = (\<lambda>t' c'. if t' = t \<and> c' = c then rs else v t' c')"

lemma put_chain_simps [simp]:
  "put_chain v t c rs t c = rs"
  "t' \<noteq> t \<or> c' \<noteq> c \<Longrightarrow> put_chain v t c rs t' c' = v t' c'"
  "put_chain (put_chain v t c rs) t c rs' = put_chain v t c rs'"
  by (auto simp: put_chain_def fun_eq_iff)

lemma put_chain_same [simp]: "v t c = rs \<Longrightarrow> put_chain v t c rs = v"
  by (auto simp: put_chain_def fun_eq_iff)

definition jumps :: "string \<Rightarrow> rule \<Rightarrow> bool" where
  "jumps n r \<longleftrightarrow> suffix [''-j'', n] r"

text \<open>The names of chains are words: no white space and nothing to be quoted.\<close>

definition plain :: "string \<Rightarrow> bool" where
  "plain s \<longleftrightarrow> CHR '' '' \<notin> set s \<and> CHR 0x5C \<notin> set s"

text \<open>
  What the documentation promises. \<open>nf\<close> is the normal form in which a rule is stored and
  compared, \<open>line\<close> the text in which a stored rule is listed. A command that fails changes nothing.
\<close>

locale iptables_api =
  fixes I :: "'w iptables" and view :: "'w \<Rightarrow> tables" and nf :: "rule \<Rightarrow> rule"
    and line :: "string \<Rightarrow> rule \<Rightarrow> string"
  assumes Exists: "ipt_Exists I t c r w = Inr b \<Longrightarrow> b = (\<exists>rs. view w t c = Some rs \<and> nf r \<in> set rs)"
    and ChainExists: "ipt_ChainExists I t c w = Inr b \<Longrightarrow> b = (view w t c \<noteq> None)"
    and List: "ipt_List I t c w = Inr ls \<Longrightarrow> \<exists>rs. view w t c = Some rs \<and> tl ls = map (line c) rs"
    and Insert: "ipt_Insert I t c r w = (None, w') \<Longrightarrow>
      \<exists>rs. view w t c = Some rs \<and> view w' = put_chain (view w) t c (Some (nf r # rs))"
    and Insert_err: "ipt_Insert I t c r w = (Some e, w') \<Longrightarrow> view w' = view w"
    and Append: "ipt_Append I t c r w = (None, w') \<Longrightarrow>
      \<exists>rs. view w t c = Some rs \<and> view w' = put_chain (view w) t c (Some (rs @ [nf r]))"
    and Append_err: "ipt_Append I t c r w = (Some e, w') \<Longrightarrow> view w' = view w"
    and Delete: "ipt_Delete I t c r w = (None, w') \<Longrightarrow>
      \<exists>rs. view w t c = Some rs \<and> nf r \<in> set rs \<and> view w' = put_chain (view w) t c (Some (remove1 (nf r) rs))"
    and Delete_err: "ipt_Delete I t c r w = (Some e, w') \<Longrightarrow> view w' = view w"
    and NewChain: "ipt_NewChain I t c w = (None, w') \<Longrightarrow>
      view w t c = None \<and> view w' = put_chain (view w) t c (Some [])"
    and NewChain_err: "ipt_NewChain I t c w = (Some e, w') \<Longrightarrow> view w' = view w"
    and EnsureChain: "EnsureChain I t c w = (None, w') \<Longrightarrow>
      view w' = (if view w t c = None then put_chain (view w) t c (Some []) else view w)"
    and EnsureChain_err: "EnsureChain I t c w = (Some e, w') \<Longrightarrow> view w' = view w"
    and ClearChain: "ClearChain I t c w = (None, w') \<Longrightarrow> view w' = put_chain (view w) t c (Some [])"
    and DeleteChain: "DeleteChain I t c w = (None, w') \<Longrightarrow>
      view w' = put_chain (view w) t c None \<and>
      (\<forall>c' rs r. view w t c' = Some rs \<longrightarrow> r \<in> set rs \<longrightarrow> \<not> jumps c r)"
    and DeleteRule: "DeleteRule I t c r w = (None, w') \<Longrightarrow>
      (\<exists>rs. view w t c = Some rs \<and> view w' = put_chain (view w) t c (Some (remove1 (nf r) rs))) \<or>
      view w t c = None \<and> view w' = view w"
    and stored: "view w t c = Some rs \<Longrightarrow> r \<in> set rs \<Longrightarrow> nf r = r"
    and nf_jumps: "jumps n (nf (r @ [''-j'', n]))"
    and Parse_line: "nf r = r \<Longrightarrow> shellwords_Parse I (line c r) = Inr (''-A'' # c # r)"
    and line_jumps: "plain n \<Longrightarrow> jumps n r \<Longrightarrow> HasSuffix (line c r) (''-j '' @ n)"

section \<open>Tables in memory\<close>

text \<open>Words are escaped with a backslash, which is one of the quotations shellwords reads.\<close>

fun escape :: "string \<Rightarrow> string" where
  "escape [] = []"
| "escape (c # cs) = (if c = CHR '' '' \<or> c = CHR 0x5C then CHR 0x5C # c # escape cs else c # escape cs)"

fun words_from :: "string \<Rightarrow> string \<Rightarrow> string list" where
  "words_from acc [] = [acc]"
| "words_from acc [c] = (if c = CHR '' '' then [acc, []] else [acc @ [c]])"
| "words_from acc (c # d # cs) =
     (if c = CHR 0x5C then words_from (acc @ [d]) cs
      else if c = CHR '' '' then acc # words_from [] (d # cs)
      else words_from (acc @ [c]) (d # cs))"

definition mem_line :: "string \<Rightarrow> rule \<Rightarrow> string" where
  "mem_line c r = Join (map escape (''-A'' # c # r)) '' ''"

definition mem_append :: "(rule list \<Rightarrow> rule list option) \<Rightarrow> string \<Rightarrow> string \<Rightarrow> tables action" where
  "mem_append f t c v =
     (case v t c of None \<Rightarrow> (Some (Ext 1), v)
      | Some rs \<Rightarrow> (case f rs of None \<Rightarrow> (Some (Ext 2), v) | Some rs' \<Rightarrow> (None, put_chain v t c (Some rs'))))"

definition chain_used :: "string \<Rightarrow> string \<Rightarrow> tables \<Rightarrow> bool" where
  "chain_used t c v \<longleftrightarrow> (\<exists>c' rs r. v t c' = Some rs \<and> r \<in> set rs \<and> jumps c r)"

definition mem_iptables :: "tables iptables" where
  "mem_iptables = \<lparr>
     ipt_Exists = (\<lambda>t c r v. Inr (case v t c of None \<Rightarrow> False | Some rs \<Rightarrow> r \<in> set rs)),
     ipt_ChainExists = (\<lambda>t c v. Inr (v t c \<noteq> None)),
     ipt_List = (\<lambda>t c v. case v t c of None \<Rightarrow> Inl (Ext 1) | Some rs \<Rightarrow> Inr ((''-N '' @ c) # map (mem_line c) rs)),
     ipt_Insert = (\<lambda>t c r. mem_append (\<lambda>rs. Some (r # rs)) t c),
     ipt_Append = (\<lambda>t c r. mem_append (\<lambda>rs. Some (rs @ [r])) t c),
     ipt_Delete = (\<lambda>t c r. mem_append (\<lambda>rs. if r \<in> set rs then Some (remove1 r rs) else None) t c),
     ipt_NewChain = (\<lambda>t c v. if v t c = None then (None, put_chain v t c (Some []))
        else (Some (Errors_New ''Chain already exists''), v)),
     EnsureChain = (\<lambda>t c v. if v t c = None then (None, put_chain v t c (Some [])) else (None, v)),
     ClearChain = (\<lambda>t c v. (None, put_chain v t c (Some []))),
     DeleteChain = (\<lambda>t c v. if chain_used t c v then (Some (Ext 3), v) else (None, put_chain v t c None)),
     DeleteRule = (\<lambda>t c r v. case v t c of None \<Rightarrow> (None, v) | Some rs \<Rightarrow> (None, put_chain v t c (Some (remove1 r rs)))),
     shellwords_Parse = (\<lambda>s. Inr (words_from [] s))\<rparr>"

lemma escape_plain: "plain s \<Longrightarrow> escape s = s"
  by (induction s) (auto simp: plain_def)

lemma words_escape: "words_from acc (escape s @ CHR '' '' # t) = (acc @ s) # words_from [] t"
proof (induction s arbitrary: acc)
  case Nil
  then show ?case by (cases t) auto
next
  case (Cons c s)
  have *: "escape s @ CHR '' '' # t \<noteq> []" by simp
  then obtain d ds where d: "escape s @ CHR '' '' # t = d # ds" by (cases "escape s @ CHR '' '' # t") auto
  show ?case using Cons [of "acc @ [c]"] d by auto
qed

lemma words_escape_end: "words_from acc (escape s) = [acc @ s]"
proof (induction s arbitrary: acc)
  case Nil
  then show ?case by simp
next
  case (Cons c s)
  show ?case using Cons [of "acc @ [c]"] by (cases "escape s") auto
qed

lemma words_line: "ws \<noteq> [] \<Longrightarrow> words_from [] (Join (map escape ws) '' '') = ws"
proof (induction ws rule: induct_list012)
  case (3 x y zs)
  then show ?case by (simp add: words_escape)
qed (simp_all add: words_escape_end)

lemma Join_suffix: "suffix [a, b] ws \<Longrightarrow> suffix (a @ '' '' @ b) (Join ws '' '')"
proof (induction ws rule: induct_list012)
  case (3 x y zs)
  show ?case
  proof (cases zs)
    case Nil
    with 3 show ?thesis by (auto simp: suffix_def)
  next
    case (Cons z zs')
    with 3 have "suffix [a, b] (y # zs)" by (auto simp: suffix_Cons)
    from 3(2) [OF this] have "suffix (a @ '' '' @ b) (Join (y # zs) '' '')" .
    then show ?thesis by (auto simp: suffix_def)
  qed
qed (auto simp: suffix_def)

interpretation mem_ipt: iptables_api mem_iptables "\<lambda>v. v" "\<lambda>r. r" mem_line
proof
  show "shellwords_Parse mem_iptables (mem_line c r) = Inr (''-A'' # c # r)" for c r
    using words_line [of "''-A'' # c # r"] by (simp add: mem_iptables_def mem_line_def)
  show "HasSuffix (mem_line c r) (''-j '' @ n)" if n: "plain n" and "jumps n r" for n c r
  proof -
    from that have "suffix (map escape [''-j'', n]) (map escape (''-A'' # c # r))"
      unfolding jumps_def by (intro map_mono_suffix) (auto simp: suffix_Cons)
    then have "suffix [''-j'', n] (map escape (''-A'' # c # r))" using escape_plain [OF n] by simp
    from Join_suffix [OF this] show ?thesis by (simp add: HasSuffix_def mem_line_def)
  qed
qed (auto simp: mem_iptables_def mem_append_def jumps_def chain_used_def suffix_def split: option.splits if_splits)

end
