(* ===== verification/Portmap.thy ===== *)
theory Portmap
  imports Iptables Net_IP
begin

text \<open>
  \<open>pkg/portmap\<close>: the port forwarding plugin chained behind the address plugin. \<open>chain.go\<close> is
  the management of one chain and of the rules that lead to it, \<open>portmap.go\<close> the chains and rules of a
  container, \<open>utils.go\<close> their text and \<open>cmd.go\<close> the three commands. The configuration record is that of
  \<open>config/cnivpc.go\<close>.
\<close>

section \<open>chain.go\<close>

record chain =
  table :: string
  name :: string
  entryChains :: "string list"
  entryRules :: "rule list"
  rules :: "rule list"
  prependEntry :: bool

definition insertUnique :: "'w iptables \<Rightarrow> string \<Rightarrow> string \<Rightarrow> bool \<Rightarrow> rule \<Rightarrow> 'w action" where
  "insertUnique ipt t c prepend r w =
     (case ipt_Exists ipt t c r w of
        Inl e \<Rightarrow> (Some e, w)
      | Inr True \<Rightarrow> (None, w)
      | Inr False \<Rightarrow> if prepend then ipt_Insert ipt t c r w else ipt_Append ipt t c r w)"

definition entry_rule :: "chain \<Rightarrow> rule \<Rightarrow> rule" where
  "entry_rule c r = r @ [''-j'', name c]"

definition chain_setup :: "chain \<Rightarrow> 'w iptables \<Rightarrow> 'w action" where
  "chain_setup c ipt =
     seq (EnsureChain ipt (table c) (name c))
    (seq (each (\<lambda>r. insertUnique ipt (table c) (name c) False r) (rules c))
         (each (\<lambda>ec. each (\<lambda>r. insertUnique ipt (table c) ec (prependEntry c) (entry_rule c r)) (entryRules c))
            (entryChains c)))"

text \<open>
  \<open>teardown\<close> deletes every listed rule of the entry chains whose text ends in the jump. The first
  two words of a listed rule, \<open>-A CHAINNAME\<close>, are dropped. An entry chain that cannot be listed is
  skipped.
\<close>

definition delete_line :: "chain \<Rightarrow> 'w iptables \<Rightarrow> string \<Rightarrow> string \<Rightarrow> 'w action" where
  "delete_line c ipt ec l w =
     (if HasSuffix l (''-j '' @ name c) then
        (case shellwords_Parse ipt l of
           Inl e \<Rightarrow> (Some (Errorf ''error parsing iptables rule: %s: %v'' (Some e)), w)
         | Inr parts \<Rightarrow> DeleteRule ipt (table c) ec (drop 2 parts) w)
      else (None, w))"

definition delete_entries :: "chain \<Rightarrow> 'w iptables \<Rightarrow> string \<Rightarrow> 'w action" where
  "delete_entries c ipt ec w =
     (case ipt_List ipt (table c) ec w of
        Inl e \<Rightarrow> (None, w)
      | Inr ls \<Rightarrow> if ls = [] then (None, w) else each (delete_line c ipt ec) (tl ls) w)"

definition teardown :: "chain \<Rightarrow> 'w iptables \<Rightarrow> 'w action" where
  "teardown c ipt =
     seq (ClearChain ipt (table c) (name c))
    (seq (each (delete_entries c ipt) (entryChains c))
         (DeleteChain ipt (table c) (name c)))"

definition checkRule :: "'w iptables \<Rightarrow> string \<Rightarrow> string \<Rightarrow> rule \<Rightarrow> 'w \<Rightarrow> bool" where
  "checkRule ipt t c r w = (case ipt_Exists ipt t c r w of Inl e \<Rightarrow> False | Inr b \<Rightarrow> b)"

definition chain_check :: "chain \<Rightarrow> 'w iptables \<Rightarrow> 'w \<Rightarrow> gerror option" where
  "chain_check c ipt w =
     (case ipt_ChainExists ipt (table c) (name c) w of
        Inl e \<Rightarrow> Some e
      | Inr ex \<Rightarrow>
          if \<not> ex then Some (Errors_New ''chain %s not found in iptables table %s'')
          else if \<not> list_all (\<lambda>r. checkRule ipt (table c) (name c) r w) (rev (rules c))
          then Some (Errors_New ''rule %s in chain %s not found in table %s'')
          else if \<not> list_all (\<lambda>ec. list_all (\<lambda>r. checkRule ipt (table c) ec (entry_rule c r) w) (rev (entryRules c)))
                    (entryChains c)
          then Some (Errors_New ''rule %s in chain %s not found in table %s'')
          else None)"

section \<open>utils.go\<close>

definition fmtIpPort :: "byte list \<Rightarrow> int \<Rightarrow> string" where
  "fmtIpPort ip port =
     (if To4 ip = None then ''['' @ IP_String ip @ '']:'' @ Itoa port else IP_String ip @ '':'' @ Itoa port)"

record PortMapEntry =
  HostPort :: int
  ContainerPort :: int
  Protocol :: string
  HostIP :: string

definition groupByProto :: "PortMapEntry list \<Rightarrow> (string \<times> int list) list" where
  "groupByProto entries = foldl (\<lambda>out e. group_add (Protocol e) (HostPort e) out) [] entries"

fun split_ports :: "int list \<Rightarrow> string list \<Rightarrow> string list" where
  "split_ports [] acc = (if acc = [] then [] else [Join acc '','' ])"
| "split_ports (i # l) acc =
     (let acc' = acc @ [Itoa i] in
      if length acc' = 15 then Join acc' '','' # split_ports l [] else split_ports l acc')"

definition splitPortList :: "int list \<Rightarrow> string list" where
  "splitPortList l = split_ports l []"

definition trimComment :: "string \<Rightarrow> string" where
  "trimComment val = (if length val \<le> 255 then val else take 253 val @ ''...'')"

section \<open>The configuration\<close>

record IPConfig =
  ipc_Version :: string
  ipc_Interface :: "int option"
  ipc_Address :: IPNet

record Interface =
  if_Name :: string
  if_Mac :: string
  if_Sandbox :: string

record CniResult =
  res_IPs :: "IPConfig list"
  res_Interfaces :: "Interface list"

record Plugin =
  pl_Name :: string
  PrevResult :: "CniResult option"
  SNAT :: "bool option"
  ConditionsV4 :: "rule option"
  ConditionsV6 :: "rule option"
  MarkMasqBit :: "int option"
  ExternalSetMarkChain :: "string option"
  PortMaps :: "PortMapEntry list"
  ContainerID :: string
  ContIPv4 :: IPNet
  ContIPv6 :: IPNet

section \<open>portmap.go: the chains\<close>

definition TopLevelDNATChainName :: string where "TopLevelDNATChainName = ''CNI-HOSTPORT-DNAT''"
definition SetMarkChainName :: string where "SetMarkChainName = ''CNI-HOSTPORT-SETMARK''"
definition MarkMasqChainName :: string where "MarkMasqChainName = ''CNI-HOSTPORT-MASQ''"
definition OldTopLevelSNATChainName :: string where "OldTopLevelSNATChainName = ''CNI-HOSTPORT-SNAT''"

text \<open>
  The outside of the plugin: a handle of the packet filter for one address family, the routes and
  links of the node, its kernel parameters, the name a chain gets from the network, the container and a
  prefix, the conversion of an earlier result and the printing of one.
\<close>

record 'w portmap_env =
  NewWithProtocol :: "bool \<Rightarrow> 'w \<Rightarrow> 'w iptables result" \<comment> \<open>of IPv6?\<close>
  RouteGet :: "byte list \<Rightarrow> 'w \<Rightarrow> int list result" \<comment> \<open>the link of each route\<close>
  LinkByIndex :: "int \<Rightarrow> 'w \<Rightarrow> string result"
  Sysctl :: "string \<Rightarrow> string \<Rightarrow> 'w action"
  MustFormatChainNameWithPrefix :: "string \<Rightarrow> string \<Rightarrow> string \<Rightarrow> string"
  NewResultFromResult :: "CniResult \<Rightarrow> CniResult result"
  PrintResult :: "CniResult \<Rightarrow> 'w action"

definition genToplevelDnatChain :: chain where
  "genToplevelDnatChain =
     \<lparr>table = ''nat'', name = TopLevelDNATChainName, entryChains = [''PREROUTING'', ''OUTPUT''],
      entryRules = [[''-m'', ''addrtype'', ''--dst-type'', ''LOCAL'']], rules = [], prependEntry = False\<rparr>"

definition genDnatChain :: "'w portmap_env \<Rightarrow> string \<Rightarrow> string \<Rightarrow> chain" where
  "genDnatChain env netName containerID =
     \<lparr>table = ''nat'', name = MustFormatChainNameWithPrefix env netName containerID ''DN-'',
      entryChains = [TopLevelDNATChainName], entryRules = [], rules = [], prependEntry = False\<rparr>"

definition genOldSnatChain :: "'w portmap_env \<Rightarrow> string \<Rightarrow> string \<Rightarrow> chain" where
  "genOldSnatChain env netName containerID =
     \<lparr>table = ''nat'', name = MustFormatChainNameWithPrefix env netName containerID ''SN-'',
      entryChains = [OldTopLevelSNATChainName], entryRules = [], rules = [], prependEntry = False\<rparr>"

definition markDef :: "int \<Rightarrow> string" where
  "markDef markBit = (let v = ''0x'' @ nat_hex (2 ^ nat markBit) in v @ ''/'' @ v)"

definition genSetMarkChain :: "int \<Rightarrow> chain" where
  "genSetMarkChain markBit =
     \<lparr>table = ''nat'', name = SetMarkChainName, entryChains = [], entryRules = [],
      rules = [[''-m'', ''comment'', ''--comment'', ''CNI portfwd masquerade mark'',
                ''-j'', ''MARK'', ''--set-xmark'', markDef markBit]], prependEntry = False\<rparr>"

definition genMarkMasqChain :: "int \<Rightarrow> chain" where
  "genMarkMasqChain markBit =
     \<lparr>table = ''nat'', name = MarkMasqChainName, entryChains = [''POSTROUTING''],
      entryRules = [[''-m'', ''comment'', ''--comment'', ''CNI portfwd requiring masquerade'']],
      rules = [[''-m'', ''mark'', ''--mark'', markDef markBit, ''-j'', ''MASQUERADE'']],
      prependEntry = True\<rparr>"

section \<open>portmap.go: the rules of a container\<close>

definition quoted :: "string \<Rightarrow> string" where
  "quoted s = [CHR 0x22] @ s @ [CHR 0x22]"

definition setMarkChain :: "Plugin \<Rightarrow> string" where
  "setMarkChain cfg = (case ExternalSetMarkChain cfg of None \<Rightarrow> SetMarkChainName | Some c \<Rightarrow> c)"

definition conditions :: "bool \<Rightarrow> Plugin \<Rightarrow> rule" where
  "conditions isV6 cfg = (case if isV6 then ConditionsV6 cfg else ConditionsV4 cfg of None \<Rightarrow> [] | Some r \<Rightarrow> r)"

definition dnat_entryRules :: "bool \<Rightarrow> Plugin \<Rightarrow> rule list" where
  "dnat_entryRules isV6 cfg =
     (let comment = trimComment (''dnat name: '' @ quoted (pl_Name cfg) @ '' id: '' @ quoted (ContainerID cfg));
          protoPorts = groupByProto (PortMaps cfg);
          ports = (\<lambda>proto. case map_of protoPorts proto of None \<Rightarrow> [] | Some l \<Rightarrow> l)
      in concat (map (\<lambda>proto. map (\<lambda>portSpec.
           [''-m'', ''comment'', ''--comment'', comment, ''-m'', ''multiport'', ''-p'', proto,
            ''--destination-ports'', portSpec] @ conditions isV6 cfg) (splitPortList (ports proto)))
           (sort (map fst protoPorts))))"

text \<open>
  \<open>hostIP.To4()\<close> of an address that does not parse is \<open>nil\<close>, as for one of IPv6; such an address is
  not unspecified either.
\<close>

definition host_ip_bytes :: "PortMapEntry \<Rightarrow> byte list" where
  "host_ip_bytes entry = slice (ParseIP (HostIP entry))"

definition entry_applies :: "bool \<Rightarrow> PortMapEntry \<Rightarrow> bool" where
  "entry_applies isV6 entry \<longleftrightarrow> HostIP entry = [] \<or> isV6 = (To4 (host_ip_bytes entry) = None)"

definition ruleBase :: "PortMapEntry \<Rightarrow> rule" where
  "ruleBase entry =
     [''-p'', Protocol entry, ''--dport'', Itoa (HostPort entry)] @
     (if HostIP entry \<noteq> [] \<and> \<not> IsUnspecified (host_ip_bytes entry) then [''-d'', HostIP entry] else [])"

definition dnatRule :: "IPNet \<Rightarrow> PortMapEntry \<Rightarrow> rule" where
  "dnatRule containerNet entry =
     ruleBase entry @ [''-j'', ''DNAT'', ''--to-destination'', fmtIpPort (net_IP containerNet) (ContainerPort entry)]"

definition markRules :: "bool \<Rightarrow> Plugin \<Rightarrow> IPNet \<Rightarrow> PortMapEntry \<Rightarrow> rule list" where
  "markRules isV6 cfg containerNet entry =
     (if SNAT cfg = Some True then
        [ruleBase entry @ [''-s'', IPNet_String containerNet, ''-j'', setMarkChain cfg]] @
        (if isV6 then [] else [ruleBase entry @ [''-s'', ''127.0.0.1'', ''-j'', setMarkChain cfg]])
      else [])"

definition fillDnatRules :: "chain \<Rightarrow> Plugin \<Rightarrow> IPNet \<Rightarrow> chain" where
  "fillDnatRules c cfg containerNet =
     (let isV6 = (To4 (net_IP containerNet) = None) in
      c\<lparr>entryRules := entryRules c @ dnat_entryRules isV6 cfg,
        rules := concat (map (\<lambda>entry. markRules isV6 cfg containerNet entry @ [dnatRule containerNet entry])
                   (filter (entry_applies isV6) (PortMaps cfg)))\<rparr>)"

section \<open>portmap.go: forwarding\<close>

fun first_link :: "(int \<Rightarrow> string result) \<Rightarrow> int list \<Rightarrow> string" where
  "first_link link [] = []"
| "first_link link (i # is) = (case link i of Inl e \<Rightarrow> first_link link is | Inr n \<Rightarrow> n)"

definition getRoutableHostIF :: "'w portmap_env \<Rightarrow> byte list \<Rightarrow> 'w \<Rightarrow> string" where
  "getRoutableHostIF env ip w =
     (case RouteGet env ip w of Inl e \<Rightarrow> [] | Inr routes \<Rightarrow> first_link (\<lambda>i. LinkByIndex env i w) routes)"

definition enableLocalnetRouting :: "'w portmap_env \<Rightarrow> string \<Rightarrow> 'w action" where
  "enableLocalnetRouting env ifName = Sysctl env (''net.ipv4.conf.'' @ ifName @ ''.route_localnet'') ''1''"

definition localnet :: "'w portmap_env \<Rightarrow> byte list \<Rightarrow> 'w action" where
  "localnet env ip w =
     (let hostIfName = getRoutableHostIF env ip w in
      if hostIfName = [] then (None, w)
      else fmt_err ''unable to enable route_localnet: %v'' (enableLocalnetRouting env hostIfName) w)"

definition nothing :: "'w action" where
  "nothing w = (None, w)"

definition setup_masquerade :: "'w portmap_env \<Rightarrow> 'w iptables \<Rightarrow> Plugin \<Rightarrow> byte list \<Rightarrow> 'w action" where
  "setup_masquerade env ipt cfg ip =
     (if SNAT cfg \<noteq> Some True then nothing
      else seq
        (if ExternalSetMarkChain cfg = None then
           (let bit = the (MarkMasqBit cfg) in
            seq (fmt_err ''unable to create chain %s: %v'' (chain_setup (genSetMarkChain bit) ipt))
                (fmt_err ''unable to create chain %s: %v'' (chain_setup (genMarkMasqChain bit) ipt)))
         else nothing)
        (if To4 ip = None then nothing else localnet env ip))"

definition forwardPorts :: "'w portmap_env \<Rightarrow> Plugin \<Rightarrow> IPNet \<Rightarrow> 'w action" where
  "forwardPorts env cfg containerNet w =
     (case NewWithProtocol env (To4 (net_IP containerNet) = None) w of
        Inl e \<Rightarrow> (Some (Errorf ''failed to open iptables: %v'' (Some e)), w)
      | Inr ipt \<Rightarrow>
          seq (setup_masquerade env ipt cfg (net_IP containerNet))
         (seq (fmt_err ''failed to create top-level DNAT chain: %v'' (chain_setup genToplevelDnatChain ipt))
              (fmt_err ''unable to setup DNAT: %v''
                 (chain_setup (fillDnatRules (genDnatChain env (pl_Name cfg) (ContainerID cfg)) cfg containerNet) ipt))) w)"

definition maybeGetIptables :: "'w portmap_env \<Rightarrow> bool \<Rightarrow> 'w \<Rightarrow> 'w iptables option" where
  "maybeGetIptables env isV6 w =
     (case NewWithProtocol env isV6 w of
        Inl e \<Rightarrow> None
      | Inr ipt \<Rightarrow> (case ipt_List ipt ''nat'' ''OUTPUT'' w of Inl e \<Rightarrow> None | Inr ls \<Rightarrow> Some ipt))"

definition unforward_with :: "'w portmap_env \<Rightarrow> Plugin \<Rightarrow> string \<Rightarrow> 'w iptables option \<Rightarrow> 'w action" where
  "unforward_with env cfg m handle w =
     (case handle of
        None \<Rightarrow> (None, w)
      | Some ipt \<Rightarrow>
          (case teardown (genDnatChain env (pl_Name cfg) (ContainerID cfg)) ipt w of
             (Some e, w1) \<Rightarrow> (Some (Errorf m (Some e)), w1)
           | (None, w1) \<Rightarrow> (None, ignore (teardown (genOldSnatChain env (pl_Name cfg) (ContainerID cfg)) ipt) w1)))"

definition unforwardPorts :: "'w portmap_env \<Rightarrow> Plugin \<Rightarrow> 'w action" where
  "unforwardPorts env cfg w =
     (let ip4t = maybeGetIptables env False w; ip6t = maybeGetIptables env True w in
      if Option.is_none ip4t \<and> Option.is_none ip6t then (Some (Errors_New ''neither iptables nor ip6tables usable''), w)
      else seq (unforward_with env cfg ''could not teardown ipv4 dnat: %v'' ip4t)
               (unforward_with env cfg ''could not teardown ipv6 dnat: %v'' ip6t) w)"

text \<open>A check of a chain that does not exist returns the \<open>nil\<close> of the lookup before it.\<close>

definition check_with :: "chain \<Rightarrow> string \<Rightarrow> 'w iptables option \<Rightarrow> 'w \<Rightarrow> gerror option option" where
  "check_with c m handle w =
     (case handle of
        None \<Rightarrow> None
      | Some ipt \<Rightarrow>
          (case ipt_ChainExists ipt (table c) (name c) w of
             Inl e \<Rightarrow> Some (Some e)
           | Inr ex \<Rightarrow>
               if \<not> ex then Some None
               else case chain_check c ipt w of Some e \<Rightarrow> Some (Some (Errorf m (Some e))) | None \<Rightarrow> None))"

definition checkPorts :: "'w portmap_env \<Rightarrow> Plugin \<Rightarrow> IPNet \<Rightarrow> 'w \<Rightarrow> gerror option" where
  "checkPorts env cfg containerNet w =
     (let c = fillDnatRules (genDnatChain env (pl_Name cfg) (ContainerID cfg)) cfg containerNet;
          ip4t = maybeGetIptables env False w; ip6t = maybeGetIptables env True w in
      if Option.is_none ip4t \<and> Option.is_none ip6t then Some (Errors_New ''neither iptables nor ip6tables usable'')
      else case check_with c ''could not check ipv4 dnat: %v'' ip4t w of
        Some verdict \<Rightarrow> verdict
      | None \<Rightarrow> (case check_with c ''could not check ipv6 dnat: %v'' ip6t w of
                   Some verdict \<Rightarrow> verdict | None \<Rightarrow> None))"

section \<open>cmd.go\<close>

definition DefaultMarkBit :: int where "DefaultMarkBit = 13"

definition pick_ip :: "CniResult \<Rightarrow> IPConfig \<Rightarrow> Plugin \<Rightarrow> Plugin" where
  "pick_ip res ip conf =
     (if ipc_Version ip = ''6'' \<and> net_IP (ContIPv6 conf) \<noteq> [] then conf
      else if ipc_Version ip = ''4'' \<and> net_IP (ContIPv4 conf) \<noteq> [] then conf
      else if (case ipc_Interface ip of None \<Rightarrow> False
               | Some i \<Rightarrow> 0 \<le> i \<and> i < int (length (res_Interfaces res)) \<and> if_Sandbox (res_Interfaces res ! nat i) = [])
      then conf
      else if ipc_Version ip = ''6'' then conf\<lparr>ContIPv6 := ipc_Address ip\<rparr>
      else if ipc_Version ip = ''4'' then conf\<lparr>ContIPv4 := ipc_Address ip\<rparr>
      else conf)"

definition convert_prev :: "'w portmap_env \<Rightarrow> Plugin \<Rightarrow> CniResult option result" where
  "convert_prev env conf =
     (case PrevResult conf of
        None \<Rightarrow> Inr None
      | Some r \<Rightarrow> (case NewResultFromResult env r of
          Inl e \<Rightarrow> Inl (Errorf ''could not convert result to current version: %v'' (Some e))
        | Inr r' \<Rightarrow> Inr (Some r')))"

definition invalid_port :: "PortMapEntry \<Rightarrow> gerror option" where
  "invalid_port pm =
     (if ContainerPort pm \<le> 0 then Some (Errors_New ''invalid container port number: %d'')
      else if HostPort pm \<le> 0 then Some (Errors_New ''invalid host port number: %d'')
      else None)"

fun first_invalid :: "PortMapEntry list \<Rightarrow> gerror option" where
  "first_invalid [] = None"
| "first_invalid (pm # pms) = (case invalid_port pm of Some e \<Rightarrow> Some e | None \<Rightarrow> first_invalid pms)"

definition default_snat :: "Plugin \<Rightarrow> Plugin" where
  "default_snat conf = (if SNAT conf = None then conf\<lparr>SNAT := Some True\<rparr> else conf)"

definition default_mark :: "Plugin \<Rightarrow> Plugin" where
  "default_mark conf = (if MarkMasqBit conf = None then conf\<lparr>MarkMasqBit := Some DefaultMarkBit\<rparr> else conf)"

definition parseConfig :: "'w portmap_env \<Rightarrow> Plugin \<Rightarrow> (Plugin \<times> CniResult option) result" where
  "parseConfig env conf =
     (case convert_prev env conf of
        Inl e \<Rightarrow> Inl e
      | Inr res \<Rightarrow>
          let conf1 = default_snat conf in
          if MarkMasqBit conf1 \<noteq> None \<and> ExternalSetMarkChain conf1 \<noteq> None
          then Inl (Errors_New ''cannot specify externalSetMarkChain and markMasqBit'')
          else let conf2 = default_mark conf1 in
          if the (MarkMasqBit conf2) < 0 \<or> the (MarkMasqBit conf2) > 31
          then Inl (Errors_New ''MasqMarkBit must be between 0 and 31'')
          else case first_invalid (PortMaps conf2) of
            Some e \<Rightarrow> Inl e
          | None \<Rightarrow>
              (case res of
                 None \<Rightarrow> Inr (conf2, None)
               | Some r \<Rightarrow> Inr (foldl (\<lambda>c ip. pick_ip r ip c) conf2 (res_IPs r), Some r)))"

definition guarded :: "bool \<Rightarrow> 'w action \<Rightarrow> 'w action" where
  "guarded b a = (if b then a else nothing)"

definition portmap_CmdAdd :: "'w portmap_env \<Rightarrow> string \<Rightarrow> Plugin \<Rightarrow> 'w action" where
  "portmap_CmdAdd env containerID conf w =
     (case parseConfig env conf of
        Inl e \<Rightarrow> (Some (Errorf ''failed to parse config: %v'' (Some e)), w)
      | Inr (netConf, res) \<Rightarrow>
          (case PrevResult netConf of
             None \<Rightarrow> (Some (Errors_New ''must be called as chained plugin''), w)
           | Some prev \<Rightarrow>
               if PortMaps netConf = [] then PrintResult env prev w
               else let netConf' = netConf\<lparr>ContainerID := containerID\<rparr> in
                 seq (guarded (net_IP (ContIPv4 netConf') \<noteq> []) (forwardPorts env netConf' (ContIPv4 netConf')))
                (seq (guarded (net_IP (ContIPv6 netConf') \<noteq> []) (forwardPorts env netConf' (ContIPv6 netConf')))
                     (PrintResult env prev)) w))"

definition portmap_CmdDel :: "'w portmap_env \<Rightarrow> string \<Rightarrow> Plugin \<Rightarrow> 'w action" where
  "portmap_CmdDel env containerID conf w =
     (case parseConfig env conf of
        Inl e \<Rightarrow> (Some (Errorf ''failed to parse config: %v'' (Some e)), w)
      | Inr (netConf, res) \<Rightarrow>
          if PortMaps netConf = [] then (None, w)
          else unforwardPorts env (netConf\<lparr>ContainerID := containerID\<rparr>) w)"

definition portmap_CmdCheck :: "'w portmap_env \<Rightarrow> string \<Rightarrow> Plugin \<Rightarrow> 'w \<Rightarrow> gerror option" where
  "portmap_CmdCheck env containerID conf w =
     (case parseConfig env conf of
        Inl e \<Rightarrow> Some e
      | Inr (conf1, None) \<Rightarrow> Some (Errors_New ''required prevResult missing'')
      | Inr (conf1, Some r) \<Rightarrow>
          if PortMaps conf1 = [] then None
          else let conf2 = conf1\<lparr>ContainerID := containerID\<rparr> in
            case (if net_IP (ContIPv4 conf2) \<noteq> [] then checkPorts env conf2 (ContIPv4 conf2) w else None) of
              Some e \<Rightarrow> Some e
            | None \<Rightarrow> if net_IP (ContIPv6 conf2) \<noteq> [] then checkPorts env conf2 (ContIPv6 conf2) w else None)"

end
