(* ===== verification/Portmap_Props.thy ===== *)
theory Portmap_Props
  imports Portmap
begin

text \<open>
  What the management of a chain does to the tables, proved over the laws of \<open>iptables_api\<close>, and
  the port lists of the rules that lead to a container's chain.
\<close>

section \<open>Rules are only added\<close>

definition grows :: "tables \<Rightarrow> tables \<Rightarrow> bool" where
  "grows v v' \<longleftrightarrow> (\<forall>t c rs. v t c = Some rs \<longrightarrow> (\<exists>rs'. v' t c = Some rs' \<and> subseq rs rs'))"

lemma grows_refl [simp]: "grows v v"
  by (auto simp: grows_def)

lemma grows_trans: "grows u v \<Longrightarrow> grows v w \<Longrightarrow> grows u w"
  unfolding grows_def by (metis subseq_order.trans)

lemma grows_put: "v t c = Some rs \<Longrightarrow> subseq rs rs' \<Longrightarrow> grows v (put_chain v t c (Some rs'))"
  by (auto simp: grows_def put_chain_def)

lemma grows_new: "v t c = None \<Longrightarrow> grows v (put_chain v t c rs)"
  by (auto simp: grows_def put_chain_def)

definition has_rule :: "(rule \<Rightarrow> rule) \<Rightarrow> tables \<Rightarrow> string \<Rightarrow> string \<Rightarrow> rule \<Rightarrow> bool" where
  "has_rule nf v t c r \<longleftrightarrow> (\<exists>rs. v t c = Some rs \<and> nf r \<in> set rs)"

lemma subseq_mem: "subseq xs ys \<Longrightarrow> x \<in> set xs \<Longrightarrow> x \<in> set ys"
  by (induction rule: list_emb.induct) auto

lemma subseq_insert: "subseq (xs @ ys) (xs @ x # ys)"
  by (induction xs) auto

lemma has_rule_grows: "has_rule nf v t c r \<Longrightarrow> grows v v' \<Longrightarrow> has_rule nf v' t c r"
  unfolding has_rule_def grows_def by (meson subseq_mem)

text \<open>What a chain is after its setup: it exists, with its rules and the rules that lead to it.\<close>

definition is_set_up :: "(rule \<Rightarrow> rule) \<Rightarrow> chain \<Rightarrow> tables \<Rightarrow> bool" where
  "is_set_up nf c v \<longleftrightarrow> v (table c) (name c) \<noteq> None \<and>
     (\<forall>r\<in>set (rules c). has_rule nf v (table c) (name c) r) \<and>
     (\<forall>ec\<in>set (entryChains c). \<forall>r\<in>set (entryRules c). has_rule nf v (table c) ec (entry_rule c r))"

text \<open>The listed rules of an entry chain that teardown takes for jumps to the chain.\<close>

definition leads :: "(string \<Rightarrow> rule \<Rightarrow> string) \<Rightarrow> chain \<Rightarrow> string \<Rightarrow> rule \<Rightarrow> bool" where
  "leads line c ec r \<longleftrightarrow> HasSuffix (line ec r) (''-j '' @ name c)"

definition others :: "(string \<Rightarrow> rule \<Rightarrow> string) \<Rightarrow> chain \<Rightarrow> tables \<Rightarrow> string \<Rightarrow> string \<Rightarrow> rule list option" where
  "others line c v t ec = map_option (filter (\<lambda>r. \<not> leads line c ec r)) (v t ec)"

text \<open>A chain that does not exist yet, and to which no entry chain leads.\<close>

definition unused :: "(string \<Rightarrow> rule \<Rightarrow> string) \<Rightarrow> chain \<Rightarrow> tables \<Rightarrow> bool" where
  "unused line c v \<longleftrightarrow> v (table c) (name c) = None \<and> name c \<notin> set (entryChains c) \<and>
     list_all (\<lambda>ec. case v (table c) ec of None \<Rightarrow> True | Some rs \<Rightarrow> list_all (\<lambda>r. \<not> leads line c ec r) rs)
       (entryChains c)"

lemma remove1_leads:
  "(\<And>r. r \<in> set pre \<Longrightarrow> \<not> S r) \<Longrightarrow> fold remove1 (filter S xs) (pre @ xs) = pre @ filter (\<lambda>r. \<not> S r) xs"
proof (induction xs arbitrary: pre)
  case Nil
  then show ?case by simp
next
  case (Cons x xs)
  show ?case
  proof (cases "S x")
    case True
    with Cons.prems have "x \<notin> set pre" by auto
    then have "remove1 x (pre @ x # xs) = pre @ xs" by (simp add: remove1_append)
    with True Cons.IH [OF Cons.prems] show ?thesis by simp
  next
    case False
    have "fold remove1 (filter S xs) ((pre @ [x]) @ xs) = (pre @ [x]) @ filter (\<lambda>r. \<not> S r) xs"
      by (rule Cons.IH) (use Cons.prems False in auto)
    with False show ?thesis by simp
  qed
qed

context iptables_api
begin

lemma insertUnique_view:
  assumes "insertUnique I t c p r w = (err, w')"
  shows "view w' = view w \<or> (\<exists>xs ys. view w t c = Some (xs @ ys) \<and> nf r \<notin> set (xs @ ys) \<and>
    view w' = put_chain (view w) t c (Some (xs @ nf r # ys)))"
proof (cases "ipt_Exists I t c r w")
  case (Inl e)
  with assms show ?thesis by (simp add: insertUnique_def)
next
  case (Inr b)
  show ?thesis
  proof (cases b)
    case True
    with assms Inr show ?thesis by (simp add: insertUnique_def)
  next
    case False
    with Exists [OF Inr] have new: "view w t c = Some rs \<Longrightarrow> nf r \<notin> set rs" for rs by auto
    show ?thesis
    proof (cases p)
      case True
      with assms Inr False have i: "ipt_Insert I t c r w = (err, w')" by (simp add: insertUnique_def)
      show ?thesis
      proof (cases err)
        case None
        with i have "ipt_Insert I t c r w = (None, w')" by simp
        from Insert [OF this] obtain rs where
          "view w t c = Some ([] @ rs)" "view w' = put_chain (view w) t c (Some ([] @ nf r # rs))" by auto
        with new show ?thesis by blast
      qed (use Insert_err i in auto)
    next
      case np: False
      with assms Inr False have i: "ipt_Append I t c r w = (err, w')" by (simp add: insertUnique_def)
      show ?thesis
      proof (cases err)
        case None
        with i have "ipt_Append I t c r w = (None, w')" by simp
        from Append [OF this] obtain rs where
          "view w t c = Some (rs @ [])" "view w' = put_chain (view w) t c (Some (rs @ nf r # []))" by auto
        with new show ?thesis by blast
      qed (use Append_err i in auto)
    qed
  qed
qed

lemma insertUnique_grows: "insertUnique I t c p r w = (err, w') \<Longrightarrow> grows (view w) (view w')"
  using grows_put [OF _ subseq_insert] by (auto dest!: insertUnique_view)

lemma insertUnique_has:
  assumes "insertUnique I t c p r w = (None, w')"
  shows "has_rule nf (view w') t c r"
proof -
  from assms obtain b where b: "ipt_Exists I t c r w = Inr b"
    by (auto simp: insertUnique_def split: sum.splits)
  from assms b Exists [OF b] Insert [of t c r w w'] Append [of t c r w w'] show ?thesis
    by (cases b; cases p) (auto simp: insertUnique_def has_rule_def)
qed

lemma insertUnique_again: "has_rule nf (view w) t c r \<Longrightarrow> insertUnique I t c p r w = (err, w') \<Longrightarrow> w' = w"
  using Exists [of t c r w] by (auto simp: insertUnique_def has_rule_def split: sum.splits bool.splits)

lemma each_insert_spec:
  assumes "each (\<lambda>r. insertUnique I t c p (g r)) rs w = (None, w')"
  shows "grows (view w) (view w') \<and> (\<forall>r\<in>set rs. has_rule nf (view w') t c (g r))"
  using assms
proof (rule each_all)
  show "grows (view w) (view w)" by simp
  show "grows (view w) (view w2) \<and> has_rule nf (view w2) t c (g r)"
    if "grows (view w) (view w1)" "insertUnique I t c p (g r) w1 = (None, w2)" for r w1 w2
    using that insertUnique_grows insertUnique_has grows_trans by blast
  show "has_rule nf (view w2) t c (g r)"
    if "has_rule nf (view w1) t c (g r)" "insertUnique I t c p (g y) w1 = (None, w2)" for r y w1 w2
    using that insertUnique_grows has_rule_grows by blast
qed

lemma each_insert_again:
  assumes "\<forall>r\<in>set rs. has_rule nf (view w) t c (g r)"
  shows "snd (each (\<lambda>r. insertUnique I t c p (g r)) rs w) = w"
  by (rule each_inv [where P = "\<lambda>w1. w1 = w"])
     (use assms insertUnique_again in \<open>auto simp: prod.expand dest!: bspec, metis prod.collapse\<close>)

text \<open>The three parts of setup.\<close>

lemma setup_spec:
  assumes "chain_setup c I w = (None, w')"
  shows "is_set_up nf c (view w')" and "grows (view w) (view w')"
proof -
  let ?es = "\<lambda>ec. each (\<lambda>r. insertUnique I (table c) ec (prependEntry c) (entry_rule c r)) (entryRules c)"
  from assms obtain w1 w2 where e: "EnsureChain I (table c) (name c) w = (None, w1)"
    and rs: "each (\<lambda>r. insertUnique I (table c) (name c) False r) (rules c) w1 = (None, w2)"
    and es: "each ?es (entryChains c) w2 = (None, w')"
    unfolding chain_setup_def seq_None_iff by blast
  have g1: "grows (view w) (view w1)" and ex: "view w1 (table c) (name c) \<noteq> None"
    using EnsureChain [OF e] by (auto simp: grows_new)
  note r = each_insert_spec [where g = "\<lambda>r. r", OF rs]
  have k: "grows (view w2) (view w') \<and>
    (\<forall>ec\<in>set (entryChains c). \<forall>r\<in>set (entryRules c). has_rule nf (view w') (table c) ec (entry_rule c r))"
    using es
  proof (rule each_all)
    show "grows (view w2) (view w2)" by simp
    show "grows (view w2) (view v') \<and> (\<forall>r\<in>set (entryRules c). has_rule nf (view v') (table c) ec (entry_rule c r))"
      if "grows (view w2) (view v)" "?es ec v = (None, v')" for ec v v'
      using each_insert_spec [where g = "entry_rule c", OF that(2)] that(1) grows_trans by blast
    show "\<forall>r\<in>set (entryRules c). has_rule nf (view v') (table c) ec (entry_rule c r)"
      if "\<forall>r\<in>set (entryRules c). has_rule nf (view v) (table c) ec (entry_rule c r)" "?es y v = (None, v')" for ec y v v'
      using each_insert_spec [where g = "entry_rule c", OF that(2)] that(1) has_rule_grows by blast
  qed
  from r k g1 show "grows (view w) (view w')" by (meson grows_trans)
  from r k have "grows (view w1) (view w')" by (meson grows_trans)
  with ex have "view w' (table c) (name c) \<noteq> None" by (force simp: grows_def)
  with r k has_rule_grows show "is_set_up nf c (view w')"
    unfolding is_set_up_def by blast
qed

lemma setup_again:
  assumes "is_set_up nf c (view w)" shows "view (snd (chain_setup c I w)) = view w"
proof -
  obtain e w1 where e: "EnsureChain I (table c) (name c) w = (e, w1)" by fastforce
  have v1: "view w1 = view w"
    using assms EnsureChain [of "table c" "name c" w w1] EnsureChain_err [of "table c" "name c" w] e
    by (cases e) (auto simp: is_set_up_def)
  show ?thesis
  proof (cases e)
    case (Some x)
    with e v1 show ?thesis by (simp add: chain_setup_def seq_def)
  next
    case None
    let ?b = "each (\<lambda>r. insertUnique I (table c) (name c) False r) (rules c)"
    let ?es = "\<lambda>ec. each (\<lambda>r. insertUnique I (table c) ec (prependEntry c) (entry_rule c r)) (entryRules c)"
    have b: "snd (?b w1) = w1"
      by (rule each_insert_again [where g = "\<lambda>r. r"]) (use assms v1 in \<open>simp add: is_set_up_def\<close>)
    have "snd (each ?es (entryChains c) w1) = w1"
    proof (rule each_inv [where P = "\<lambda>w2. w2 = w1"])
      show "snd (?es ec w2) = w1" if "ec \<in> set (entryChains c)" "w2 = w1" for ec w2
        unfolding that(2)
        by (rule each_insert_again) (use assms v1 that in \<open>simp add: is_set_up_def\<close>)
    qed simp
    with b have "snd (seq ?b (each ?es (entryChains c)) w1) = w1"
      by (cases "?b w1") (auto simp: seq_def split: option.splits)
    with None e v1 show ?thesis by (simp add: chain_setup_def seq_def)
  qed
qed

lemma checkRule_has: "has_rule nf (view w) t c r \<Longrightarrow> ipt_Exists I t c r w = Inr b \<Longrightarrow> checkRule I t c r w"
  using Exists [of t c r w b] by (auto simp: checkRule_def has_rule_def)

lemma set_up_check:
  assumes "is_set_up nf c (view w)" and "ipt_ChainExists I (table c) (name c) w = Inr b"
    and "\<And>t ch r. \<exists>b. ipt_Exists I t ch r w = Inr b"
  shows "chain_check c I w = None"
proof -
  have b: "b" using ChainExists [OF assms(2)] assms(1) by (simp add: is_set_up_def)
  have "checkRule I t ch r w" if "has_rule nf (view w) t ch r" for t ch r
    using assms(3) checkRule_has [OF that] by blast
  with assms(1,2) b show ?thesis by (auto simp: chain_check_def is_set_up_def list_all_iff)
qed

section \<open>Teardown\<close>

lemma delete_line_spec:
  assumes "delete_line c I ec (line ec r) w = (None, w')" and "view w (table c) ec = Some rs" and "r \<in> set rs"
  shows "view w' = (if leads line c ec r then put_chain (view w) (table c) ec (Some (remove1 r rs)) else view w)"
proof (cases "leads line c ec r")
  case False
  with assms(1) show ?thesis by (simp add: delete_line_def leads_def)
next
  case True
  have nf: "nf r = r" using stored assms(2,3) by blast
  with assms(1) True have "DeleteRule I (table c) ec r w = (None, w')"
    by (simp add: delete_line_def leads_def Parse_line)
  from DeleteRule [OF this] assms(2) nf True show ?thesis by auto
qed

lemma delete_lines_spec:
  assumes "each (delete_line c I ec) (map (line ec) xs) w = (None, w')"
    and "view w (table c) ec = Some (pre @ xs)" and "\<And>r. r \<in> set pre \<Longrightarrow> \<not> leads line c ec r"
  shows "view w' = put_chain (view w) (table c) ec (Some (pre @ filter (\<lambda>r. \<not> leads line c ec r) xs))"
  using assms
proof (induction xs arbitrary: pre w)
  case Nil
  then show ?case by simp
next
  case (Cons x xs)
  from Cons.prems(1) obtain w1 where w1: "delete_line c I ec (line ec x) w = (None, w1)"
    and rest: "each (delete_line c I ec) (map (line ec) xs) w1 = (None, w')"
    unfolding list.map each_Cons_None_iff by blast
  have v1: "view w1 = (if leads line c ec x then put_chain (view w) (table c) ec (Some (remove1 x (pre @ x # xs))) else view w)"
    by (rule delete_line_spec [OF w1 Cons.prems(2)]) simp
  show ?case
  proof (cases "leads line c ec x")
    case True
    with Cons.prems(3) have "x \<notin> set pre" by auto
    with True v1 have "view w1 = put_chain (view w) (table c) ec (Some (pre @ xs))" by (simp add: remove1_append)
    with Cons.IH [OF rest, of pre] Cons.prems(3) True show ?thesis by simp
  next
    case False
    have "view w' = put_chain (view w1) (table c) ec (Some ((pre @ [x]) @ filter (\<lambda>r. \<not> leads line c ec r) xs))"
      by (rule Cons.IH [OF rest]) (use Cons.prems False v1 in auto)
    with False v1 show ?thesis by simp
  qed
qed

lemma delete_entries_spec:
  assumes "delete_entries c I ec w = (None, w')"
  shows "view w' = view w \<and> \<not> (\<exists>ls. ipt_List I (table c) ec w = Inr ls) \<or>
    (\<exists>rs. view w (table c) ec = Some rs \<and>
      view w' = put_chain (view w) (table c) ec (Some (filter (\<lambda>r. \<not> leads line c ec r) rs)))"
proof (cases "ipt_List I (table c) ec w")
  case (Inl e)
  with assms show ?thesis by (simp add: delete_entries_def)
next
  case (Inr ls)
  from List [OF Inr] obtain rs where rs: "view w (table c) ec = Some rs" "tl ls = map (line ec) rs" by blast
  from assms Inr rs have "each (delete_line c I ec) (map (line ec) rs) w = (None, w')"
    by (cases ls) (auto simp: delete_entries_def)
  from delete_lines_spec [OF this, of "[]"] rs show ?thesis by auto
qed

lemma delete_entries_others:
  "delete_entries c I ec w = (None, w') \<Longrightarrow>
    others line c (view w') t ch = others line c (view w) t ch \<and>
    (t \<noteq> table c \<or> ch \<noteq> ec \<longrightarrow> view w' t ch = view w t ch)"
  using delete_entries_spec [of c ec w w'] by (auto simp: others_def put_chain_def)

lemma teardown_spec:
  assumes "teardown c I w = (None, w')"
  shows "view w' (table c) (name c) = None"
    and "plain (name c) \<Longrightarrow> view w' (table c) ch = Some rs \<Longrightarrow> r \<in> set rs \<Longrightarrow> \<not> jumps (name c) r"
    and "t \<noteq> table c \<or> ch \<noteq> name c \<Longrightarrow> others line c (view w') t ch = others line c (view w) t ch"
    and "t \<noteq> table c \<or> ch \<noteq> name c \<and> ch \<notin> set (entryChains c) \<Longrightarrow> view w' t ch = view w t ch"
proof -
  from assms obtain w1 w2 where cl: "ClearChain I (table c) (name c) w = (None, w1)"
    and en: "each (delete_entries c I) (entryChains c) w1 = (None, w2)"
    and de: "DeleteChain I (table c) (name c) w2 = (None, w')"
    unfolding teardown_def seq_None_iff by blast
  note v1 = ClearChain [OF cl] and v' = DeleteChain [OF de]
  have keep: "\<forall>t ch. others line c (view w2) t ch = others line c (view w1) t ch \<and>
      (t \<noteq> table c \<or> ch \<notin> set (entryChains c) \<longrightarrow> view w2 t ch = view w1 t ch)"
    using en
  proof (rule each_inv_None)
    show "\<forall>t ch. others line c (view v') t ch = others line c (view w1) t ch \<and>
        (t \<noteq> table c \<or> ch \<notin> set (entryChains c) \<longrightarrow> view v' t ch = view w1 t ch)"
      if "ec \<in> set (entryChains c)" "\<forall>t ch. others line c (view v) t ch = others line c (view w1) t ch \<and>
        (t \<noteq> table c \<or> ch \<notin> set (entryChains c) \<longrightarrow> view v t ch = view w1 t ch)"
        "delete_entries c I ec v = (None, v')" for ec v v'
      using that(1,2) delete_entries_others [OF that(3)] by metis
  qed simp
  show "view w' (table c) (name c) = None" using v' by simp
  show "view w' (table c) ch = Some rs \<Longrightarrow> r \<in> set rs \<Longrightarrow> \<not> jumps (name c) r"
    using v' by (auto simp: put_chain_def split: if_splits)
  show "t \<noteq> table c \<or> ch \<noteq> name c \<Longrightarrow> others line c (view w') t ch = others line c (view w) t ch"
    using v' v1 keep by (auto simp: others_def)
  show "t \<noteq> table c \<or> ch \<noteq> name c \<and> ch \<notin> set (entryChains c) \<Longrightarrow> view w' t ch = view w t ch"
    using v' v1 keep by (metis put_chain_simps(2))
qed

text \<open>When the chains that exist can be listed, no entry rule is left.\<close>

lemma teardown_clears:
  assumes "teardown c I w = (None, w')" and "ec \<in> set (entryChains c)" and "ec \<noteq> name c"
    and lists: "\<And>w ch. view w (table c) ch \<noteq> None \<Longrightarrow> \<exists>ls. ipt_List I (table c) ch w = Inr ls"
  shows "view w' (table c) ec = others line c (view w) (table c) ec"
proof -
  from assms obtain w1 w2 where cl: "ClearChain I (table c) (name c) w = (None, w1)"
    and en: "each (delete_entries c I) (entryChains c) w1 = (None, w2)"
    and de: "DeleteChain I (table c) (name c) w2 = (None, w')"
    unfolding teardown_def seq_None_iff by blast
  let ?Q = "\<lambda>ec v. \<forall>rs r. view v (table c) ec = Some rs \<longrightarrow> r \<in> set rs \<longrightarrow> \<not> leads line c ec r"
  have "True \<and> (\<forall>ec\<in>set (entryChains c). ?Q ec w2)"
    using en
  proof (rule each_all)
    show "True \<and> ?Q ec v'" if "delete_entries c I ec v = (None, v')" for ec v v'
      using delete_entries_spec [OF that] lists [of v ec]
      by (cases "view v (table c) ec") auto
    show "?Q ec v'" if "?Q ec v" "delete_entries c I y v = (None, v')" for ec y v v'
      using delete_entries_spec [OF that(2)] that(1) by (cases "ec = y") (auto simp: put_chain_def)
  qed simp
  with assms(2) have q: "?Q ec w2" by simp
  have "view w2 (table c) ec = others line c (view w2) (table c) ec"
  proof (cases "view w2 (table c) ec")
    case (Some rs)
    with q have "filter (\<lambda>r. \<not> leads line c ec r) rs = rs" by (simp add: filter_id_conv)
    with Some show ?thesis by (simp add: others_def)
  qed (simp add: others_def)
  moreover have "view w' (table c) ec = view w2 (table c) ec" using DeleteChain [OF de] assms(3) by simp
  moreover have "others line c (view w') (table c) ec = others line c (view w) (table c) ec"
    using teardown_spec(3) [OF assms(1)] assms(3) by simp
  ultimately show ?thesis by (simp add: others_def)
qed

text \<open>Setup adds to an entry chain only rules that teardown takes away.\<close>

lemma insert_others:
  assumes "insertUnique I t ch p r w = (None, w')" and "t' = t \<Longrightarrow> ch' = ch \<Longrightarrow> leads line c ch (nf r)"
  shows "others line c (view w') t' ch' = others line c (view w) t' ch'"
  using insertUnique_view [OF assms(1)] assms(2)
  by (cases "t' = t \<and> ch' = ch") (auto simp: others_def)

lemma setup_others:
  assumes "chain_setup c I w = (None, w')" and "plain (name c)" and "t \<noteq> table c \<or> ch \<noteq> name c"
  shows "others line c (view w') t ch = others line c (view w) t ch"
proof -
  let ?es = "\<lambda>ec. each (\<lambda>r. insertUnique I (table c) ec (prependEntry c) (entry_rule c r)) (entryRules c)"
  let ?P = "\<lambda>v. others line c (view v) t ch = others line c (view w) t ch"
  from assms obtain w1 w2 where e: "EnsureChain I (table c) (name c) w = (None, w1)"
    and rs: "each (\<lambda>r. insertUnique I (table c) (name c) False r) (rules c) w1 = (None, w2)"
    and es: "each ?es (entryChains c) w2 = (None, w')"
    unfolding chain_setup_def seq_None_iff by blast
  have 1: "?P w1" using EnsureChain [OF e] assms(3) by (auto simp: others_def)
  have 2: "?P w2"
    using rs 1
  proof (rule each_inv_None)
    show "?P v'" if "?P v" "insertUnique I (table c) (name c) False r v = (None, v')" for r v v'
      using insert_others [OF that(2), of t ch c] that(1) assms(3) by auto
  qed
  have lead: "leads line c ec (nf (entry_rule c r))" for ec r
    unfolding leads_def entry_rule_def by (rule line_jumps [OF assms(2) nf_jumps])
  show ?thesis
    using es 2
  proof (rule each_inv_None)
    show "?P v'" if "?P v" "?es ec v = (None, v')" for ec v v'
      using that(2,1)
    proof (rule each_inv_None)
      show "?P u'" if "?P u" "insertUnique I (table c) ec (prependEntry c) (entry_rule c r) u = (None, u')" for r u u'
        using insert_others [OF that(2), of t ch c] that(1) lead by auto
    qed
  qed
qed

text \<open>Other chains are untouched by setup.\<close>

lemma setup_frame:
  assumes "chain_setup c I w = (None, w')" and "t \<noteq> table c \<or> ch \<noteq> name c \<and> ch \<notin> set (entryChains c)"
  shows "view w' t ch = view w t ch"
proof -
  let ?es = "\<lambda>ec. each (\<lambda>r. insertUnique I (table c) ec (prependEntry c) (entry_rule c r)) (entryRules c)"
  let ?P = "\<lambda>v. view v t ch = view w t ch"
  from assms obtain w1 w2 where e: "EnsureChain I (table c) (name c) w = (None, w1)"
    and rs: "each (\<lambda>r. insertUnique I (table c) (name c) False r) (rules c) w1 = (None, w2)"
    and es: "each ?es (entryChains c) w2 = (None, w')"
    unfolding chain_setup_def seq_None_iff by blast
  have step: "?P v'" if "?P v" "insertUnique I (table c) ec p r v = (None, v')" "ec \<noteq> ch \<or> t \<noteq> table c" for ec p r v v'
    using insertUnique_view [OF that(2)] that(1,3) by (auto simp: put_chain_def)
  have 1: "?P w1" using EnsureChain [OF e] assms(2) by (auto simp: put_chain_def)
  have 2: "?P w2"
    by (rule each_inv_None [where P = ?P, OF rs 1]) (rule step, use assms(2) in auto)
  show ?thesis
    using es 2
  proof (rule each_inv_None)
    show "?P v'" if ec: "ec \<in> set (entryChains c)" and "?P v" "?es ec v = (None, v')" for ec v v'
      by (rule each_inv_None [where P = ?P, OF that(3,2)]) (rule step, use assms(2) ec in auto)
  qed
qed

text \<open>Setup followed by teardown.\<close>

lemma setup_teardown:
  assumes su: "chain_setup c I w = (None, w1)" and td: "teardown c I w1 = (None, w2)"
    and "plain (name c)" and "unused line c (view w)"
    and lists: "\<And>w ch. view w (table c) ch \<noteq> None \<Longrightarrow> \<exists>ls. ipt_List I (table c) ch w = Inr ls"
  shows "view w2 = view w"
proof (intro ext)
  fix t ch
  show "view w2 t ch = view w t ch"
  proof (cases "t = table c \<and> (ch = name c \<or> ch \<in> set (entryChains c))")
    case False
    then have "t \<noteq> table c \<or> ch \<noteq> name c \<and> ch \<notin> set (entryChains c)" by auto
    with teardown_spec(4) [OF td] setup_frame [OF su] show ?thesis by simp
  next
    case True
    show ?thesis
    proof (cases "ch = name c")
      case True
      with \<open>t = table c \<and> _\<close> teardown_spec(1) [OF td] assms(4) show ?thesis by (simp add: unused_def)
    next
      case False
      with True have ec: "ch \<in> set (entryChains c)" and t: "t = table c" by auto
      have "view w2 t ch = others line c (view w1) t ch"
        using teardown_clears [OF td ec False lists] t by simp
      also have "\<dots> = others line c (view w) t ch"
        using setup_others [OF su assms(3)] False by simp
      also have "\<dots> = view w t ch"
        using assms(4) ec t by (cases "view w t ch") (auto simp: unused_def others_def list_all_iff filter_id_conv dest!: bspec)
      finally show ?thesis .
    qed
  qed
qed

end

section \<open>The port lists\<close>

lemma Split_ports:
  "\<lbrakk> acc \<noteq> []; \<And>a. a \<in> set acc \<Longrightarrow> CHR '','' \<notin> set a \<rbrakk> \<Longrightarrow> Split (Join acc '','') (CHR '','') = acc"
  by (rule Split_Join)

lemma split_ports_spec:
  "\<lbrakk> length acc < 15; \<And>a. a \<in> set acc \<Longrightarrow> CHR '','' \<notin> set a \<rbrakk> \<Longrightarrow>
   concat (map (\<lambda>s. Split s (CHR '','')) (split_ports l acc)) = acc @ map Itoa l \<and>
   list_all (\<lambda>s. length (Split s (CHR '','')) \<le> 15) (split_ports l acc)"
proof (induction l acc rule: split_ports.induct)
  case (1 acc)
  then show ?case by (simp add: Split_ports)
next
  case (2 i l acc)
  define acc' where "acc' = acc @ [Itoa i]"
  have c: "\<And>a. a \<in> set acc' \<Longrightarrow> CHR '','' \<notin> set a"
    using "2.prems"(2) by (auto simp: acc'_def comma_notin_Itoa)
  have sp: "Split (Join acc' '','') (CHR '','') = acc'" using c by (intro Split_ports) (auto simp: acc'_def)
  show ?case
  proof (cases "length acc' = 15")
    case True
    have "concat (map (\<lambda>s. Split s (CHR '','')) (split_ports l [])) = [] @ map Itoa l \<and>
      list_all (\<lambda>s. length (Split s (CHR '','')) \<le> 15) (split_ports l [])"
      by (rule "2.IH"(1) [OF acc'_def True]) simp_all
    with True sp show ?thesis by (simp add: Let_def acc'_def [symmetric])
  next
    case False
    have "concat (map (\<lambda>s. Split s (CHR '','')) (split_ports l acc')) = acc' @ map Itoa l \<and>
      list_all (\<lambda>s. length (Split s (CHR '','')) \<le> 15) (split_ports l acc')"
      by (rule "2.IH"(2) [OF acc'_def False]) (use c False "2.prems"(1) in \<open>auto simp: acc'_def\<close>)
    with False show ?thesis by (simp add: Let_def acc'_def)
  qed
qed

lemma map_of_group_add:
  "map_of (group_add k x gs) p =
    (if p = k then Some ((case map_of gs k of None \<Rightarrow> [] | Some xs \<Rightarrow> xs) @ [x]) else map_of gs p)"
  by (induction k x gs rule: group_add.induct) auto

lemma groupByProto_lookup:
  "map_of (groupByProto es) p =
    (if p \<in> Protocol ` set es then Some (map HostPort (filter (\<lambda>e. Protocol e = p) es)) else None)"
proof (induction es rule: rev_induct)
  case Nil
  then show ?case by (simp add: groupByProto_def)
next
  case (snoc e es)
  have "groupByProto (es @ [e]) = group_add (Protocol e) (HostPort e) (groupByProto es)"
    by (simp add: groupByProto_def)
  moreover have "p \<notin> Protocol ` set es \<Longrightarrow> filter (\<lambda>e. Protocol e = p) es = []"
    by (auto simp: filter_empty_conv)
  ultimately show ?case using snoc by (auto simp: map_of_group_add)
qed

lemma groupByProto_distinct: "distinct (map fst (groupByProto es))"
proof (induction es rule: rev_induct)
  case (snoc e es)
  then show ?case by (simp add: groupByProto_def group_add_distinct)
qed (simp add: groupByProto_def)

lemma concat_one: "distinct qs \<Longrightarrow> concat (map (\<lambda>q. if q = p then X else []) qs) = (if p \<in> set qs then X else [])"
  by (induction qs) (auto simp: concat_eq_Nil_conv)

lemma filter_concat_map:
  "(\<And>q r. r \<in> set (F q) \<Longrightarrow> key r = q) \<Longrightarrow>
   filter (\<lambda>r. key r = p) (concat (map F qs)) = concat (map (\<lambda>q. if q = p then F p else []) qs)"
proof (induction qs)
  case (Cons q qs)
  have "filter (\<lambda>r. key r = p) (F q) = (if q = p then F p else [])"
    using Cons.prems by (auto simp: filter_id_conv filter_empty_conv)
  with Cons show ?case by simp
qed simp

section \<open>Properties\<close>

text \<open>Setting up a chain completes it, removes nothing and can be repeated.

  After \<open>setup\<close> returned no error, over any packet filter that keeps its documentation, the chain
  exists, holds its rules, and each entry chain holds each entry rule with the jump; every rule there
  was before is still there in its order. A second setup changes nothing, whether it fails or not, and
  \<open>check\<close> finds the chain in order when its lookups do not fail.
\<close>

lemma chain_setup_completes:
  assumes "iptables_api I view nf line" and "chain_setup c I w = (None, w')"
  shows "is_set_up nf c (view w') \<and> grows (view w) (view w') \<and>
    view (snd (chain_setup c I w')) = view w' \<and>
    ((\<exists>b. ipt_ChainExists I (table c) (name c) w' = Inr b) \<and>
     (\<forall>t ch r. \<exists>b. ipt_Exists I t ch r w' = Inr b) \<longrightarrow> chain_check c I w' = None)"
proof -
  note su = iptables_api.setup_spec [OF assms]
  from su iptables_api.setup_again [OF assms(1) su(1)] iptables_api.set_up_check [OF assms(1) su(1)]
  show ?thesis by blast
qed

text \<open>Teardown undoes setup and leaves the other rules alone.

  A chain that did not exist, and to which nothing led, is set up and torn down without error: the
  tables are what they were before, every chain and every rule of them. The entry chains have to be
  listed for that, since a failed listing is skipped.
\<close>

lemma teardown_undoes_setup:
  assumes "iptables_api I view nf line" and "plain (name c)" and "unused line c (view w)"
    and "\<And>w ch. view w (table c) ch \<noteq> None \<Longrightarrow> \<exists>ls. ipt_List I (table c) ch w = Inr ls"
    and "chain_setup c I w = (None, w1)" and "teardown c I w1 = (None, w2)"
  shows "view w2 = view w"
  using iptables_api.setup_teardown [OF assms(1,5,6,2,3,4)] .


text \<open>C34. The entry rules of a container cover exactly the host ports asked for, fifteen at a time.

  Reading the port lists of the entry rules of one protocol one after the other gives the host ports of
  the port mappings of that protocol, all of them, in their order; no list is longer than the fifteen
  ports that multiport takes.
\<close>

theorem dnat_entryRules_ports:
  "concat (map (\<lambda>r. Split (r ! 9) (CHR '','')) (filter (\<lambda>r. r ! 7 = p) (dnat_entryRules isV6 cfg))) =
     map (\<lambda>e. Itoa (HostPort e)) (filter (\<lambda>e. Protocol e = p) (PortMaps cfg)) \<and>
   list_all (\<lambda>r. length (Split (r ! 9) (CHR '','')) \<le> 15) (dnat_entryRules isV6 cfg)"
proof -
  define gs where "gs = groupByProto (PortMaps cfg)"
  define ports where "ports = (\<lambda>q. case map_of gs q of None \<Rightarrow> [] | Some l \<Rightarrow> l)"
  define rule_of where "rule_of = (\<lambda>q s. [''-m'', ''comment'', ''--comment'',
    trimComment (''dnat name: '' @ quoted (pl_Name cfg) @ '' id: '' @ quoted (ContainerID cfg)),
    ''-m'', ''multiport'', ''-p'', q, ''--destination-ports'', s] @ conditions isV6 cfg)"
  define F where "F = (\<lambda>q. map (rule_of q) (splitPortList (ports q)))"
  have def: "dnat_entryRules isV6 cfg = concat (map F (sort (map fst gs)))"
    unfolding dnat_entryRules_def Let_def gs_def ports_def F_def rule_of_def by simp
  have acc [simp]: "rule_of q s ! 7 = q" "rule_of q s ! 9 = s" for q s
    by (simp_all add: rule_of_def)
  have sp: "concat (map (\<lambda>s. Split s (CHR '','')) (splitPortList l)) = map Itoa l \<and>
    list_all (\<lambda>s. length (Split s (CHR '','')) \<le> 15) (splitPortList l)" for l
    using split_ports_spec [of "[]" l] by (simp add: splitPortList_def)
  have Fp: "concat (map (\<lambda>r. Split (r ! 9) (CHR '','')) (F q)) = map Itoa (ports q)" for q
    using sp [of "ports q"] by (simp add: F_def comp_def)
  have keys: "set (sort (map fst gs)) = Protocol ` set (PortMaps cfg)"
  proof (intro set_eqI)
    fix q
    have "q \<in> set (sort (map fst gs)) \<longleftrightarrow> map_of gs q \<noteq> None" by (simp add: map_of_eq_None_iff)
    then show "q \<in> set (sort (map fst gs)) \<longleftrightarrow> q \<in> Protocol ` set (PortMaps cfg)"
      by (simp add: gs_def groupByProto_lookup)
  qed
  have "filter (\<lambda>r. r ! 7 = p) (dnat_entryRules isV6 cfg) =
    (if p \<in> Protocol ` set (PortMaps cfg) then F p else [])"
    unfolding def
    by (subst filter_concat_map [where key = "\<lambda>r. r ! 7"])
       (auto simp: F_def keys concat_one groupByProto_distinct gs_def simp flip: keys [unfolded gs_def])
  moreover have "p \<notin> Protocol ` set (PortMaps cfg) \<Longrightarrow> filter (\<lambda>e. Protocol e = p) (PortMaps cfg) = []"
    by (auto simp: filter_empty_conv)
  moreover have "p \<in> Protocol ` set (PortMaps cfg) \<Longrightarrow>
    map Itoa (ports p) = map (\<lambda>e. Itoa (HostPort e)) (filter (\<lambda>e. Protocol e = p) (PortMaps cfg))"
    by (simp add: ports_def gs_def groupByProto_lookup comp_def)
  ultimately have 1: "concat (map (\<lambda>r. Split (r ! 9) (CHR '','')) (filter (\<lambda>r. r ! 7 = p) (dnat_entryRules isV6 cfg))) =
     map (\<lambda>e. Itoa (HostPort e)) (filter (\<lambda>e. Protocol e = p) (PortMaps cfg))"
    using Fp [of p] by auto
  have "list_all (\<lambda>r. length (Split (r ! 9) (CHR '','')) \<le> 15) (F q)" for q
    using sp [of "ports q"] by (auto simp: F_def list_all_iff)
  then have "list_all (\<lambda>r. length (Split (r ! 9) (CHR '','')) \<le> 15) (dnat_entryRules isV6 cfg)"
    by (auto simp: def list_all_iff)
  with 1 show ?thesis by blast
qed

section \<open>Examples\<close>

definition demo_tables :: tables where
  "demo_tables = put_chain (put_chain (\<lambda>t c. None) ''nat'' ''PREROUTING'' (Some [[''-j'', ''KUBE'']]))
     ''nat'' ''OUTPUT'' (Some [])"

definition demo_jump :: rule where
  "demo_jump = [''-m'', ''addrtype'', ''--dst-type'', ''LOCAL'', ''-j'', ''CNI-HOSTPORT-DNAT'']"

definition demo_tables_up :: tables where
  "demo_tables_up = put_chain (put_chain (put_chain demo_tables ''nat'' ''CNI-HOSTPORT-DNAT'' (Some []))
     ''nat'' ''PREROUTING'' (Some [[''-j'', ''KUBE''], demo_jump])) ''nat'' ''OUTPUT'' (Some [demo_jump])"

lemmas demo_chain = genToplevelDnatChain_def TopLevelDNATChainName_def demo_tables_def demo_tables_up_def
  demo_jump_def

lemma demo_setup: "chain_setup genToplevelDnatChain mem_iptables demo_tables = (None, demo_tables_up)"
  by (simp add: chain_setup_def seq_def insertUnique_def mem_iptables_def mem_append_def entry_rule_def
      demo_chain put_chain_def fun_eq_iff)

lemma demo_leads:
  "leads mem_line genToplevelDnatChain ''PREROUTING'' [''-j'', ''KUBE''] = False"
  "leads mem_line genToplevelDnatChain ''PREROUTING'' demo_jump = True"
  "leads mem_line genToplevelDnatChain ''OUTPUT'' demo_jump = True"
  by code_simp+

lemma demo_delete_line:
  "delete_line genToplevelDnatChain mem_iptables ec (mem_line ec r) v =
    (if leads mem_line genToplevelDnatChain ec r then DeleteRule mem_iptables ''nat'' ec r v else (None, v))"
  by (simp add: delete_line_def leads_def mem_ipt.Parse_line) (simp add: genToplevelDnatChain_def)

lemma demo_teardown: "\<exists>v. teardown genToplevelDnatChain mem_iptables demo_tables_up = (None, v)"
proof -
  let ?v = "put_chain demo_tables ''nat'' ''CNI-HOSTPORT-DNAT'' (Some [])"
  have unused: "chain_used ''nat'' ''CNI-HOSTPORT-DNAT'' ?v = False"
    by (auto simp: chain_used_def demo_tables_def put_chain_def jumps_def suffix_def Cons_eq_append_conv split: if_splits)
  have t: "table genToplevelDnatChain = ''nat''" "name genToplevelDnatChain = ''CNI-HOSTPORT-DNAT''"
    "entryChains genToplevelDnatChain = [''PREROUTING'', ''OUTPUT'']" by (simp_all add: demo_chain)
  have ls: "ipt_List mem_iptables ''nat'' ch v = Inr ((''-N '' @ ch) # map (mem_line ch) rs)"
    if "v ''nat'' ch = Some rs" for v ch rs
    using that by (simp add: mem_iptables_def)
  have dr: "DeleteRule mem_iptables ''nat'' ch r v = (None, put_chain v ''nat'' ch (Some (remove1 r rs)))"
    if "v ''nat'' ch = Some rs" for v ch rs r
    using that by (simp add: mem_iptables_def)
  have c: "ClearChain mem_iptables ''nat'' ''CNI-HOSTPORT-DNAT'' demo_tables_up = (None, demo_tables_up)"
    by (simp add: mem_iptables_def put_chain_def demo_tables_up_def fun_eq_iff)
  have ne: "[''-j'', ''KUBE''] \<noteq> demo_jump" by (simp add: demo_jump_def)
  let ?u = "put_chain demo_tables_up ''nat'' ''PREROUTING'' (Some [[''-j'', ''KUBE'']])"
  have up: "demo_tables_up ''nat'' ''PREROUTING'' = Some [[''-j'', ''KUBE''], demo_jump]"
    "?u ''nat'' ''OUTPUT'' = Some [demo_jump]"
    by (simp_all add: demo_tables_up_def put_chain_def)
  have p: "delete_entries genToplevelDnatChain mem_iptables ''PREROUTING'' demo_tables_up = (None, ?u)"
    unfolding delete_entries_def t ls [of demo_tables_up, OF up(1)]
    by (simp add: demo_delete_line demo_leads dr [of demo_tables_up, OF up(1)] ne)
  have o: "delete_entries genToplevelDnatChain mem_iptables ''OUTPUT'' ?u = (None, put_chain ?u ''nat'' ''OUTPUT'' (Some []))"
    unfolding delete_entries_def t ls [of ?u, OF up(2)]
    by (simp add: demo_delete_line demo_leads dr [of ?u, OF up(2)])
  have "put_chain ?u ''nat'' ''OUTPUT'' (Some []) = ?v"
    by (simp add: demo_tables_up_def demo_tables_def put_chain_def fun_eq_iff)
  with o have o': "delete_entries genToplevelDnatChain mem_iptables ''OUTPUT'' ?u = (None, ?v)" by simp
  have "DeleteChain mem_iptables ''nat'' ''CNI-HOSTPORT-DNAT'' ?v = (None, put_chain ?v ''nat'' ''CNI-HOSTPORT-DNAT'' None)"
    using unused by (simp add: mem_iptables_def)
  then show ?thesis unfolding teardown_def t seq_def by (simp add: c p o')
qed

lemma chain_setup_completes_witness:
  "is_set_up (\<lambda>r. r) genToplevelDnatChain demo_tables_up \<and> grows demo_tables demo_tables_up"
  using chain_setup_completes [OF mem_ipt.iptables_api_axioms demo_setup] by blast

lemma mem_lists: "v (table c) ch \<noteq> None \<Longrightarrow> \<exists>ls. ipt_List mem_iptables (table c) ch v = Inr ls"
  by (auto simp: mem_iptables_def)

lemma demo_plain: "plain (name genToplevelDnatChain)"
  by (simp add: plain_def demo_chain)

lemma teardown_undoes_setup_witness:
  "\<exists>v. teardown genToplevelDnatChain mem_iptables demo_tables_up = (None, v) \<and> v = demo_tables"
proof -
  obtain v where v: "teardown genToplevelDnatChain mem_iptables demo_tables_up = (None, v)"
    using demo_teardown by blast
  have "unused mem_line genToplevelDnatChain demo_tables"
    by (simp add: unused_def demo_chain leads_def HasSuffix_def mem_line_def put_chain_def)
       (simp add: suffix_def Cons_eq_append_conv)
  from teardown_undoes_setup [OF mem_ipt.iptables_api_axioms demo_plain this mem_lists demo_setup v] v
  show ?thesis by blast
qed


end
