(* ===== verification/Cni_Host.thy ===== *)
theory Cni_Host
  imports Iptables Net_IP Uapi
begin

text \<open>
  The node's network as \<open>cmd/cnivpc\<close> configures it: the policy rules and routes of
  \<open>if.go\<close> and the receive packet steering of \<open>rps.go\<close>. Rules, routes, links, addresses, sets and
  kernel parameters are reached through \<open>vishvananda/netlink\<close>, \<open>net\<close>, \<open>os\<close> and \<open>containernetworking\<close>: each call is a field of
  \<open>netlink\<close> over the world \<open>'w\<close>. A link is known by its name.
\<close>

section \<open>The calls\<close>

record iprule =
  rl_Priority :: int
  rl_Table :: int
  rl_Src :: "IPNet option"
  rl_Dst :: "IPNet option"
  rl_Mark :: int
  rl_Mask :: int

datatype scope = SCOPE_UNIVERSE | SCOPE_LINK

record route =
  rt_Link :: string
  rt_Scope :: scope
  rt_Dst :: "IPNet option"
  rt_Gw :: "byte list"
  rt_Table :: int
  rt_Onlink :: bool

record 'w netlink =
  NewRule :: iprule
  NewIPNet :: "byte list \<Rightarrow> IPNet"
  ParseAddr :: "string \<Rightarrow> IPNet result"
  RuleList :: "'w \<Rightarrow> iprule list result"
  RuleAdd :: "iprule \<Rightarrow> 'w action"
  RuleDel :: "iprule \<Rightarrow> 'w action"
  LinkList :: "'w \<Rightarrow> iface list result" \<comment> \<open>name and hardware address\<close>
  LinkByName :: "string \<Rightarrow> 'w \<Rightarrow> iface result"
  InterfaceMTU :: "string \<Rightarrow> 'w \<Rightarrow> int result" \<comment> \<open>of \<open>net.InterfaceByName\<close>\<close>
  AddrList :: "string \<Rightarrow> 'w \<Rightarrow> IPNet list result"
  RouteList :: "string \<Rightarrow> 'w \<Rightarrow> route list result"
  RouteAdd :: "route \<Rightarrow> 'w action"
  RouteReplace :: "route \<Rightarrow> 'w action"
  RouteDel :: "route \<Rightarrow> 'w action"
  AddrReplace :: "string \<Rightarrow> IPNet \<Rightarrow> 'w action"
  LinkSetMTU :: "string \<Rightarrow> int \<Rightarrow> 'w action"
  LinkSetUp :: "string \<Rightarrow> 'w action"
  LinkDel :: "string \<Rightarrow> 'w action"
  WriteFile :: "string \<Rightarrow> string \<Rightarrow> 'w action"
  ReadFile :: "string \<Rightarrow> 'w \<Rightarrow> string result"
  Glob :: "string \<Rightarrow> 'w \<Rightarrow> string list result"
  GratuitousArpOverIfaceByName :: "byte list \<Rightarrow> string \<Rightarrow> 'w action"
  IpsetCreate :: "'w action" \<comment> \<open>of the one set, with \<open>Replace\<close>\<close>
  IpsetList :: "'w \<Rightarrow> byte list list result"
  IpsetAdd :: "byte list \<Rightarrow> 'w action"
  IpsetDel :: "byte list \<Rightarrow> 'w action"
  NewIPTables :: "'w \<Rightarrow> 'w iptables result"

section \<open>if.go: policy rules\<close>

definition MainTableId :: int where "MainTableId = 254"
definition DstRulePriority :: int where "DstRulePriority = 512"
definition MarkRulePriority :: int where "MarkRulePriority = 1024"
definition SrcRulePriority :: int where "SrcRulePriority = 2048"
definition defaultConnmark :: nat where "defaultConnmark = 0x80"

definition net_is :: "IPNet option \<Rightarrow> string \<Rightarrow> bool" where
  "net_is n ip = (case n of None \<Rightarrow> False | Some n \<Rightarrow> IP_String (net_IP n) = ip)"

text \<open>
  The loop both \<open>ensure\<close> functions run over the rules listed: the first good rule of the address ends it,
  the others of the address are deleted, whatever the deletion answers.
\<close>

fun find_policy ::
  "'w netlink \<Rightarrow> (iprule \<Rightarrow> bool) \<Rightarrow> (iprule \<Rightarrow> bool) \<Rightarrow> iprule list \<Rightarrow> 'w \<Rightarrow> bool \<times> 'w" where
  "find_policy nl mine good [] w = (False, w)"
| "find_policy nl mine good (r # rs) w =
     (if mine r then (if good r then (True, w) else find_policy nl mine good rs (ignore (RuleDel nl r) w))
      else find_policy nl mine good rs w)"

definition ensure_policy ::
  "'w netlink \<Rightarrow> (iprule \<Rightarrow> bool) \<Rightarrow> (iprule \<Rightarrow> bool) \<Rightarrow> iprule \<Rightarrow> 'w action" where
  "ensure_policy nl mine good new w =
     (case RuleList nl w of
        Inl e \<Rightarrow> (Some (Errorf ''ip rules list error: %v'' (Some e)), w)
      | Inr rules \<Rightarrow>
          (case find_policy nl mine good rules w of
             (True, w1) \<Rightarrow> (None, w1)
           | (False, w1) \<Rightarrow> fmt_err ''fail to add ip rule'' (RuleAdd nl new) w1))"

text \<open>\<open>net.ParseIP\<close> of text that is no address gives the \<open>nil\<close> slice.\<close>

definition parsed :: "string \<Rightarrow> byte list" where
  "parsed s = slice (ParseIP s)"

definition dst_rule :: "'w netlink \<Rightarrow> string \<Rightarrow> iprule" where
  "dst_rule nl ip = (NewRule nl)\<lparr>rl_Priority := DstRulePriority, rl_Table := MainTableId,
     rl_Dst := Some (NewIPNet nl (parsed ip))\<rparr>"

definition ensureDstIPRoutePolicy :: "'w netlink \<Rightarrow> string \<Rightarrow> 'w action" where
  "ensureDstIPRoutePolicy nl ip =
     ensure_policy nl (\<lambda>r. net_is (rl_Dst r) ip) (\<lambda>r. rl_Table r = MainTableId \<and> rl_Src r = None) (dst_rule nl ip)"

text \<open>\<open>unicode.IsDigit\<close> of the bytes of an interface name.\<close>

definition ifNameToTableId :: "string \<Rightarrow> int result" where
  "ifNameToTableId s =
     (case Atoi (filter is_digit s) of Inl e \<Rightarrow> Inl e | Inr num \<Rightarrow> Inr (1000 + num))"

definition src_rule :: "'w netlink \<Rightarrow> string \<Rightarrow> int \<Rightarrow> iprule" where
  "src_rule nl ip tableId = (NewRule nl)\<lparr>rl_Priority := SrcRulePriority, rl_Table := tableId,
     rl_Src := Some (NewIPNet nl (parsed ip))\<rparr>"

definition ensureSrcIPRoutePolicy :: "'w netlink \<Rightarrow> string \<Rightarrow> string \<Rightarrow> 'w action" where
  "ensureSrcIPRoutePolicy nl ip ifname w =
     (case ifNameToTableId ifname of
        Inl e \<Rightarrow> (Some (Errorf ''cannot convert link name %s to number: %v'' (Some e)), w)
      | Inr tableId \<Rightarrow>
          ensure_policy nl (\<lambda>r. net_is (rl_Src r) ip) (\<lambda>r. rl_Table r = tableId \<and> rl_Dst r = None)
            (src_rule nl ip tableId) w)"

definition cleanup_rule :: "'w netlink \<Rightarrow> string \<Rightarrow> iprule \<Rightarrow> 'w action" where
  "cleanup_rule nl ip r =
     seq (if net_is (rl_Dst r) ip then fmt_err ''ip rule del from all to %s err: %v'' (RuleDel nl r) else Pair None)
         (if net_is (rl_Src r) ip then fmt_err ''ip rule del from %s table %d err: %v'' (RuleDel nl r) else Pair None)"

definition cleanUpIPRoutePolicy :: "'w netlink \<Rightarrow> string \<Rightarrow> 'w action" where
  "cleanUpIPRoutePolicy nl ip w =
     (case RuleList nl w of
        Inl e \<Rightarrow> (Some (Errorf ''ip rules list error: %v'' (Some e)), w)
      | Inr rules \<Rightarrow> each (cleanup_rule nl ip) rules w)"

definition mark_rule :: "'w netlink \<Rightarrow> iprule" where
  "mark_rule nl = (NewRule nl)\<lparr>rl_Mask := int defaultConnmark, rl_Mark := int defaultConnmark,
     rl_Table := MainTableId, rl_Priority := MarkRulePriority\<rparr>"

definition is_mark_rule :: "iprule \<Rightarrow> bool" where
  "is_mark_rule r \<longleftrightarrow> rl_Mask r = int defaultConnmark \<and> rl_Mark r = int defaultConnmark \<and>
     rl_Table r = MainTableId \<and> rl_Priority r = MarkRulePriority"

definition ensureConnmarkRule :: "'w netlink \<Rightarrow> 'w action" where
  "ensureConnmarkRule nl w =
     (case RuleList nl w of
        Inl e \<Rightarrow> (Some (Errorf ''ip rules list error: %v'' (Some e)), w)
      | Inr rules \<Rightarrow> if list_ex is_mark_rule rules then (None, w) else RuleAdd nl (mark_rule nl) w)"

section \<open>if.go: kernel parameters\<close>

definition setProcSys :: "'w netlink \<Rightarrow> string \<Rightarrow> string \<Rightarrow> 'w action" where
  "setProcSys nl key val = WriteFile nl key val"

definition rp_filter_key :: "string \<Rightarrow> string" where
  "rp_filter_key ifName = ''/proc/sys/net/ipv4/conf/'' @ ifName @ ''/rp_filter''"

definition ensureAllRPFilterOff :: "'w netlink \<Rightarrow> 'w action" where
  "ensureAllRPFilterOff nl = setProcSys nl (rp_filter_key ''all'') ''0''"

definition ensureUNIRpFilter :: "'w netlink \<Rightarrow> string \<Rightarrow> 'w action" where
  "ensureUNIRpFilter nl ifName = setProcSys nl (rp_filter_key ifName) ''1''"

definition ensureMasterInterfaceRpFilter :: "'w netlink \<Rightarrow> string \<Rightarrow> 'w action" where
  "ensureMasterInterfaceRpFilter nl masterInterface = setProcSys nl (rp_filter_key masterInterface) ''2''"

section \<open>rps.go\<close>

definition rpsCPUMask :: "int \<Rightarrow> string option" where
  "rpsCPUMask cpuCount =
     (if cpuCount \<le> 0 then None
      else let n = nat cpuCount;
               first = (if n mod 32 \<noteq> 0 then [nat_hex (2 ^ (n mod 32) - 1)] else [])
           in Some (Join (first @ replicate (n div 32) ''ffffffff'') '',''))"

definition normalizeRPSMask :: "string \<Rightarrow> string" where
  "normalizeRPSMask cpus =
     (let m = TrimLeft (RemoveAll (ToLower (TrimSpace cpus)) (CHR '','')) (CHR ''0'') in
      if m = [] then ''0'' else m)"

definition set_queue :: "'w netlink \<Rightarrow> string \<Rightarrow> string \<Rightarrow> 'w action" where
  "set_queue nl cpus rpsFile w =
     (case ReadFile nl rpsFile w of
        Inl e \<Rightarrow> (Some (Wrap ''cnivpc.ensureLinkRPS read %s'' e), w)
      | Inr currentMask \<Rightarrow>
          (if normalizeRPSMask currentMask = normalizeRPSMask cpus then (None, w)
           else (case WriteFile nl rpsFile cpus w of
                   (Some e, w1) \<Rightarrow> (Some (Wrap ''cnivpc.ensureLinkRPS write %s'' e), w1)
                 | (None, w1) \<Rightarrow> (None, w1))))"

definition ensureLinkRPSWithCPUCount :: "'w netlink \<Rightarrow> string \<Rightarrow> string \<Rightarrow> int \<Rightarrow> 'w action" where
  "ensureLinkRPSWithCPUCount nl linkName netClassPath cpuCount w =
     (case rpsCPUMask cpuCount of
        None \<Rightarrow> (Some (Errors_New ''cnivpc.ensureLinkRPS invalid CPU count %d''), w)
      | Some cpus \<Rightarrow>
          (case Glob nl (netClassPath @ ''/'' @ linkName @ ''/queues/rx-*/rps_cpus'') w of
             Inl e \<Rightarrow> (Some (Wrap ''cnivpc.ensureLinkRPS glob %s'' e), w)
           | Inr rpsFiles \<Rightarrow>
               (if rpsFiles = [] then (Some (Errors_New ''cnivpc.ensureLinkRPS no RX queues for %s''), w)
                else each (set_queue nl cpus) rpsFiles w)))"

definition ensureLinkRPS :: "'w netlink \<Rightarrow> int \<Rightarrow> string \<Rightarrow> 'w action" where
  "ensureLinkRPS nl numCPU linkName = ensureLinkRPSWithCPUCount nl linkName ''/sys/class/net'' numCPU"

section \<open>if.go: the route of a secondary interface\<close>

definition del_other_tables :: "'w netlink \<Rightarrow> int \<Rightarrow> route list \<Rightarrow> 'w \<Rightarrow> 'w" where
  "del_other_tables nl tableId routes w =
     fold (\<lambda>r w. if rt_Table r = tableId then w else ignore (RouteDel nl r) w) routes w"

definition gateway_route :: "'w netlink \<Rightarrow> string \<Rightarrow> string \<Rightarrow> int \<Rightarrow> route" where
  "gateway_route nl linkName gateway tableId =
     \<lparr>rt_Link = linkName, rt_Scope = SCOPE_LINK, rt_Dst = Some (NewIPNet nl (parsed gateway)), rt_Gw = [],
      rt_Table = tableId, rt_Onlink = False\<rparr>"

definition default_route :: "string \<Rightarrow> string \<Rightarrow> int \<Rightarrow> route" where
  "default_route linkName gateway tableId =
     \<lparr>rt_Link = linkName, rt_Scope = SCOPE_UNIVERSE, rt_Dst = None, rt_Gw = parsed gateway,
      rt_Table = tableId, rt_Onlink = False\<rparr>"

definition mask_bits :: "string \<Rightarrow> nat" where
  "mask_bits netmask = fst (IPMask_Size (slice (To4 (parsed netmask))))"

text \<open>What remains once the route is missing and the master interface and its MTU are known.\<close>

definition setup_uni_link ::
  "'w netlink \<Rightarrow> string \<Rightarrow> string \<Rightarrow> string \<Rightarrow> string \<Rightarrow> int \<Rightarrow> int \<Rightarrow> 'w action" where
  "setup_uni_link nl primaryIP gateway netmask linkName tableId mtu =
     seq (fmt_err ''set MTU %d on %s error: %v'' (LinkSetMTU nl linkName mtu))
    (seq (\<lambda>w. case ParseAddr nl (primaryIP @ ''/'' @ nat_digits (mask_bits netmask)) of
            Inl e \<Rightarrow> (Some (Errorf ''parse addr %s failed, %v'' (Some e)), w)
          | Inr addr \<Rightarrow> fmt_err ''cannot add ip %s to dev %s: %v'' (AddrReplace nl linkName addr) w)
    (seq (fmt_err ''cannot set link %s up %v'' (LinkSetUp nl linkName))
    (seq (\<lambda>w. case RouteList nl linkName w of
            Inl e \<Rightarrow> (Some e, w)
          | Inr routes \<Rightarrow> (None, del_other_tables nl tableId routes w))
    (seq (fmt_err ''failed to ensure %s rp_filter: %v'' (ensureUNIRpFilter nl linkName))
    (seq (fmt_err ''unable to add route to gateway %s on table %d: %v''
            (RouteReplace nl (gateway_route nl linkName gateway tableId)))
    (seq (fmt_err ''unable to add default route to gateway %s on table %d: %v''
            (RouteReplace nl (default_route linkName gateway tableId)))
         (\<lambda>w. (None, (ignore (GratuitousArpOverIfaceByName nl (parsed primaryIP) linkName) ^^ 3) w))))))))"

definition ensureUNIPrimaryIPRoute ::
  "'w netlink \<Rightarrow> int \<Rightarrow> Metadata option \<times> gerror option \<Rightarrow> string \<Rightarrow> string \<Rightarrow> string \<Rightarrow> string \<Rightarrow> 'w action" where
  "ensureUNIPrimaryIPRoute nl numCPU mr primaryIP mac gateway netmask w =
     (case GetLinkByMac (LinkList nl w) mac of
        Inl e \<Rightarrow> (Some e, w)
      | Inr (linkName, hw) \<Rightarrow>
          let w1 = ignore (ensureLinkRPS nl numCPU linkName) w in
          (case ifNameToTableId linkName of
             Inl e \<Rightarrow> (Some (Errorf ''cannot convert link name %s to number: %v'' (Some e)), w1)
           | Inr tableId \<Rightarrow>
               seq (ensureSrcIPRoutePolicy nl primaryIP linkName)
                 (\<lambda>w2. case RouteList nl linkName w2 of
                    Inl e \<Rightarrow> (Some (Errorf ''list ip routes error: %v'' (Some e)), w2)
                  | Inr routes \<Rightarrow>
                      (if list_ex (\<lambda>r. IP_String (rt_Gw r) = gateway \<and> rt_Table r = tableId) routes then (None, w2)
                       else case GetMasterInterface (LinkList nl w2) mr of
                         None \<Rightarrow> (Some Panic, w2)
                       | Some masterName \<Rightarrow>
                           (case InterfaceMTU nl masterName w2 of
                              Inl e \<Rightarrow> (Some (Errorf ''get master interface %s MTU error: %v'' (Some e)), w2)
                            | Inr mtu \<Rightarrow> setup_uni_link nl primaryIP gateway netmask linkName tableId mtu w2))) w1))"

end
