(* ===== verification/Cni_Host_Props.thy ===== *)
theory Cni_Host_Props
  imports Cni_Host
begin

text \<open>
  What the policy rule functions do to the rules of the node, over the laws \<open>rule_api\<close> of the
  rule table, and the processor masks of \<open>rps.go\<close>.
\<close>

section \<open>The rule table\<close>

text \<open>
  The kernel keeps the rules in a list that an addition extends somewhere and a deletion takes one equal
  rule from; a command that fails changes nothing.
\<close>

locale rule_api =
  fixes N :: "'w netlink" and rules :: "'w \<Rightarrow> iprule list"
  assumes RuleList: "RuleList N w = Inr rs \<Longrightarrow> rs = rules w"
    and RuleAdd: "RuleAdd N r w = (None, w') \<Longrightarrow> \<exists>xs ys. rules w = xs @ ys \<and> rules w' = xs @ r # ys"
    and RuleDel: "RuleDel N r w = (None, w') \<Longrightarrow> r \<in> set (rules w) \<and> rules w' = remove1 r (rules w)"
    and RuleDel_err: "RuleDel N r w = (Some e, w') \<Longrightarrow> rules w' = rules w"
    and NewRule: "rl_Src (NewRule N) = None" "rl_Dst (NewRule N) = None"
    and NewIPNet: "net_IP (NewIPNet N b) = b"

lemma filter_remove1_other: "\<not> P r \<Longrightarrow> filter P (remove1 r xs) = filter P xs"
  by (induction xs) auto

context rule_api
begin

lemma RuleDel_filter:
  "\<not> P r \<Longrightarrow> filter P (rules (ignore (RuleDel N r) w)) = filter P (rules w)"
proof (cases "RuleDel N r w")
  case (Pair e w')
  then show "\<not> P r \<Longrightarrow> ?thesis"
    using RuleDel [of r w w'] RuleDel_err [of r w _ w']
    by (cases e) (auto simp: ignore_def filter_remove1_other)
qed

lemma find_policy_keeps:
  "find_policy N mine good rs w = (b, w') \<Longrightarrow>
    filter (\<lambda>r. \<not> mine r \<or> good r) (rules w') = filter (\<lambda>r. \<not> mine r \<or> good r) (rules w) \<and>
    (b \<longrightarrow> (\<exists>r\<in>set rs. mine r \<and> good r))"
proof (induction rs arbitrary: w)
  case (Cons r rs)
  show ?case
  proof (cases "mine r \<and> \<not> good r")
    case True
    with Cons.prems Cons.IH [of "ignore (RuleDel N r) w"]
      RuleDel_filter [where P = "\<lambda>r. \<not> mine r \<or> good r" and r = r]
    show ?thesis by auto
  next
    case False
    with Cons.prems Cons.IH [of w] show ?thesis by (auto split: if_splits)
  qed
qed simp

lemma ensure_policy_spec:
  assumes "ensure_policy N mine good new w = (None, w')" and "mine new \<and> good new"
  shows "(\<exists>r\<in>set (rules w'). mine r \<and> good r) \<and>
    filter (\<lambda>r. \<not> mine r) (rules w') = filter (\<lambda>r. \<not> mine r) (rules w)"
proof -
  from assms obtain rs where rl: "RuleList N w = Inr rs" by (auto simp: ensure_policy_def split: sum.splits)
  obtain b w1 where f: "find_policy N mine good rs w = (b, w1)" by fastforce
  have rs: "rs = rules w" by (rule RuleList [OF rl])
  note k = find_policy_keeps [OF f]
  have sub: "filter (\<lambda>r. \<not> mine r) xs = filter (\<lambda>r. \<not> mine r) (filter (\<lambda>r. \<not> mine r \<or> good r) xs)" for xs
    unfolding filter_filter by (rule filter_cong) auto
  have others: "filter (\<lambda>r. \<not> mine r) (rules w1) = filter (\<lambda>r. \<not> mine r) (rules w)"
    using k sub [of "rules w1"] sub [of "rules w"] by simp
  show ?thesis
  proof (cases b)
    case True
    with assms(1) rl f have w': "w' = w1" by (simp add: ensure_policy_def)
    from k True obtain r where "r \<in> set (rules w)" "mine r" "good r" unfolding rs by blast
    then have "r \<in> set (filter (\<lambda>r. \<not> mine r \<or> good r) (rules w1))" using k by simp
    with others w' \<open>mine r\<close> \<open>good r\<close> show ?thesis by auto
  next
    case False
    with assms(1) rl f have "RuleAdd N new w1 = (None, w')" by (simp add: ensure_policy_def)
    from RuleAdd [OF this] obtain xs ys where xy: "rules w1 = xs @ ys" "rules w' = xs @ new # ys" by blast
    with others assms(2) show ?thesis by auto
  qed
qed

text \<open>A rule that matches twice would have to be deleted twice for each of its copies.\<close>

lemma cleanup_rule_cases:
  assumes "cleanup_rule N ip x w = (None, w1)"
  shows "if net_is (rl_Dst x) ip \<and> net_is (rl_Src x) ip
         then \<exists>w0. RuleDel N x w = (None, w0) \<and> RuleDel N x w0 = (None, w1)
         else if net_is (rl_Dst x) ip \<or> net_is (rl_Src x) ip then RuleDel N x w = (None, w1)
         else w1 = w"
  using assms by (auto simp: cleanup_rule_def seq_None_iff)

lemma count_pos: "x \<in> set xs \<Longrightarrow> 0 < count_list xs x"
  by (induction xs) auto

lemma count_remove1: "count_list (remove1 y xs) x = (if x = y then count_list xs x - 1 else count_list xs x)"
  by (induction xs) auto

lemma twice_count:
  "each (cleanup_rule N ip) xs w = (None, w') \<Longrightarrow> net_is (rl_Dst x) ip \<and> net_is (rl_Src x) ip \<Longrightarrow>
    2 * count_list xs x \<le> count_list (rules w) x"
proof (induction xs arbitrary: w)
  case (Cons y ys)
  then obtain w1 where w1: "cleanup_rule N ip y w = (None, w1)" "each (cleanup_rule N ip) ys w1 = (None, w')"
    unfolding each_Cons_None_iff by auto
  note ih = Cons.IH [OF w1(2) Cons.prems(2)]
  show ?case
  proof (cases "y = x")
    case True
    with cleanup_rule_cases [OF w1(1)] Cons.prems(2) obtain w0 where
      d: "RuleDel N x w = (None, w0)" "RuleDel N x w0 = (None, w1)" by auto
    note d1 = RuleDel [OF d(1)] and d2 = RuleDel [OF d(2)]
    have "count_list (rules w0) x = count_list (rules w) x - 1" "count_list (rules w1) x = count_list (rules w0) x - 1"
      using d1 d2 by (simp_all add: count_remove1)
    moreover have "0 < count_list (rules w0) x" "0 < count_list (rules w) x"
      using count_pos [OF conjunct1 [OF d2]] count_pos [OF conjunct1 [OF d1]] by blast+
    ultimately show ?thesis using ih True by simp
  next
    case False
    have "count_list (rules w1) x = count_list (rules w) x"
    proof (cases "net_is (rl_Dst y) ip \<and> net_is (rl_Src y) ip")
      case True
      with cleanup_rule_cases [OF w1(1)] obtain w0 where
        d: "RuleDel N y w = (None, w0)" "RuleDel N y w0 = (None, w1)" by auto
      with RuleDel [OF d(1)] RuleDel [OF d(2)] False show ?thesis by (simp add: count_remove1)
    next
      case f: False
      with cleanup_rule_cases [OF w1(1)] RuleDel [of y w w1] False show ?thesis
        by (auto simp: count_remove1 split: if_splits)
    qed
    with ih False show ?thesis by simp
  qed
qed simp

lemma cleanup_spec:
  assumes "each (cleanup_rule N ip) xs w = (None, w')"
    and "rules w = filter (\<lambda>r. \<not> (net_is (rl_Dst r) ip \<or> net_is (rl_Src r) ip)) pre @ xs"
    and "\<forall>x\<in>set xs. \<not> (net_is (rl_Dst x) ip \<and> net_is (rl_Src x) ip)"
  shows "rules w' = filter (\<lambda>r. \<not> (net_is (rl_Dst r) ip \<or> net_is (rl_Src r) ip)) (pre @ xs)"
  using assms
proof (induction xs arbitrary: pre w)
  case (Cons x xs)
  let ?S = "\<lambda>r. net_is (rl_Dst r) ip \<or> net_is (rl_Src r) ip"
  from Cons.prems(1) obtain w1 where w1: "cleanup_rule N ip x w = (None, w1)"
    and rest: "each (cleanup_rule N ip) xs w1 = (None, w')"
    unfolding each_Cons_None_iff by blast
  have nb: "\<forall>x\<in>set xs. \<not> (net_is (rl_Dst x) ip \<and> net_is (rl_Src x) ip)" using Cons.prems(3) by simp
  show ?case
  proof (cases "?S x")
    case False
    with cleanup_rule_cases [OF w1] have "w1 = w" by simp
    have "rules w1 = filter (\<lambda>r. \<not> ?S r) (pre @ [x]) @ xs"
      unfolding \<open>w1 = w\<close> Cons.prems(2) using False by simp
    from Cons.IH [OF rest this nb] show ?thesis by simp
  next
    case True
    have x: "x \<notin> set (filter (\<lambda>r. \<not> ?S r) pre)" using True by auto
    have r1: "remove1 x (rules w) = filter (\<lambda>r. \<not> ?S r) pre @ xs"
      unfolding Cons.prems(2) using x by (simp only: remove1_append) simp
    have once: "\<not> (net_is (rl_Dst x) ip \<and> net_is (rl_Src x) ip)" using Cons.prems(3) by simp
    have "RuleDel N x w = (None, w1)"
      using cleanup_rule_cases [OF w1] unfolding if_not_P [OF once] if_P [OF True] .
    from RuleDel [OF this] r1 have "rules w1 = filter (\<lambda>r. \<not> ?S r) pre @ xs" by simp
    from Cons.IH [OF rest this nb] True show ?thesis by auto
  qed
qed simp

lemma cleanUp_spec:
  assumes "cleanUpIPRoutePolicy N ip w = (None, w')"
  shows "rules w' = filter (\<lambda>r. \<not> (net_is (rl_Dst r) ip \<or> net_is (rl_Src r) ip)) (rules w)"
proof -
  from assms obtain rs where rl: "RuleList N w = Inr rs"
    and e: "each (cleanup_rule N ip) rs w = (None, w')"
    by (auto simp: cleanUpIPRoutePolicy_def split: sum.splits)
  from RuleList [OF rl] e have e': "each (cleanup_rule N ip) (rules w) w = (None, w')" by simp
  have "\<forall>x\<in>set (rules w). \<not> (net_is (rl_Dst x) ip \<and> net_is (rl_Src x) ip)"
  proof (intro ballI notI)
    fix x assume x: "x \<in> set (rules w)" and b: "net_is (rl_Dst x) ip \<and> net_is (rl_Src x) ip"
    have "2 * count_list (rules w) x \<le> count_list (rules w) x" by (rule twice_count [OF e' b])
    with count_pos [OF x] show False by simp
  qed
  with cleanup_spec [OF e', of "[]"] show ?thesis by simp
qed

end

section \<open>A rule table in memory\<close>

definition mem_netlink :: "iprule list netlink" where
  "mem_netlink = \<lparr>
     NewRule = \<lparr>rl_Priority = -1, rl_Table = 0, rl_Src = None, rl_Dst = None, rl_Mark = -1, rl_Mask = -1\<rparr>,
     NewIPNet = (\<lambda>b. \<lparr>net_IP = b, net_Mask = replicate 4 255\<rparr>),
     ParseAddr = (\<lambda>s. Inl (Ext 0)), RuleList = Inr,
     RuleAdd = (\<lambda>r rs. (None, insort_key (\<lambda>r. rl_Priority r) r rs)),
     RuleDel = (\<lambda>r rs. if r \<in> set rs then (None, remove1 r rs) else (Some (Sys ENOENT), rs)),
     LinkList = (\<lambda>w. Inr [(''eth0'', ''AA''), (''eth1'', ''BB'')]), LinkByName = (\<lambda>n w. Inr (n, [])),
     InterfaceMTU = (\<lambda>n w. Inr 1500), AddrList = (\<lambda>n w. Inr []), RouteList = (\<lambda>n w. Inr []),
     RouteAdd = (\<lambda>r. Pair None), RouteReplace = (\<lambda>r. Pair None), RouteDel = (\<lambda>r. Pair None),
     AddrReplace = (\<lambda>n a. Pair None), LinkSetMTU = (\<lambda>n i. Pair None), LinkSetUp = (\<lambda>n. Pair None),
     LinkDel = (\<lambda>n. Pair None), WriteFile = (\<lambda>f s. Pair None), ReadFile = (\<lambda>f w. Inr []),
     Glob = (\<lambda>p w. Inr []), GratuitousArpOverIfaceByName = (\<lambda>b n. Pair None), IpsetCreate = Pair None,
     IpsetList = (\<lambda>w. Inr []), IpsetAdd = (\<lambda>b. Pair None), IpsetDel = (\<lambda>b. Pair None),
     NewIPTables = (\<lambda>w. Inl (Ext 0))\<rparr>"

lemma insort_split: "\<exists>xs ys. l = xs @ ys \<and> insort_key f x l = xs @ x # ys"
proof (induction l)
  case (Cons a l)
  then obtain xs ys where "l = xs @ ys" "insort_key f x l = xs @ x # ys" by blast
  then have "a # l = (a # xs) @ ys \<and> insort_key f x (a # l) = (a # xs) @ x # ys \<or>
    a # l = [] @ a # l \<and> insort_key f x (a # l) = [] @ x # a # l" by simp
  then show ?case by blast
qed simp

lemma mem_netlink_rules:
  "RuleList mem_netlink rs = Inr rs"
  "RuleDel mem_netlink r rs = (if r \<in> set rs then (None, remove1 r rs) else (Some (Sys ENOENT), rs))"
  by (simp_all add: mem_netlink_def)

interpretation mem_rules: rule_api mem_netlink "\<lambda>rs. rs"
  by unfold_locales (auto simp: mem_netlink_def insort_split split: if_splits)

section \<open>Masks\<close>

definition hex_value :: "string \<Rightarrow> nat" where
  "hex_value s = foldl (\<lambda>n c. n * 16 + (case hex_val c of None \<Rightarrow> 0 | Some d \<Rightarrow> d)) 0 s"

lemma hex_val_char [simp]: "d < 16 \<Longrightarrow> hex_val (hex_char d) = Some d"
proof -
  assume d: "d < 16"
  consider "d < 10" | "10 \<le> d" by linarith
  then show ?thesis
  proof cases
    case 1
    then have "(of_char (hex_char d) :: nat) = 48 + d" by (simp add: hex_char_def of_char_of)
    with 1 show ?thesis by (simp add: hex_val_def is_digit_def)
  next
    case 2
    then have "(of_char (hex_char d) :: nat) = 87 + d" using d by (simp add: hex_char_def of_char_of)
    with 2 d show ?thesis by (simp add: hex_val_def is_digit_def)
  qed
qed

lemma hex_value_snoc [simp]: "hex_value (s @ [c]) = hex_value s * 16 + (case hex_val c of None \<Rightarrow> 0 | Some d \<Rightarrow> d)"
  by (simp add: hex_value_def)

lemma hex_value_nat_hex [simp]: "hex_value (nat_hex n) = n"
proof (induction n rule: nat_hex.induct)
  case (1 n)
  show ?case
  proof (cases "n < 16")
    case True
    then show ?thesis by (simp add: nat_hex.simps [of n] hex_value_def)
  next
    case False
    with 1 show ?thesis by (simp add: nat_hex.simps [of n])
  qed
qed

lemma hex_value_append: "hex_value (s @ t) = hex_value s * 16 ^ length t + hex_value t"
proof (induction t rule: rev_induct)
  case (snoc c t)
  then show ?case by (simp only: append_assoc [symmetric] hex_value_snoc) (simp add: algebra_simps)
qed (simp add: hex_value_def)

lemma hex_value_full: "hex_value ''ffffffff'' = 2 ^ 32 - 1"
  by (simp add: hex_value_def hex_val_def is_digit_def)

lemma hex_value_groups: "hex_value (s @ concat (replicate k ''ffffffff'')) = (hex_value s + 1) * 2 ^ (32 * k) - 1"
proof (induction k)
  case (Suc k)
  let ?t = "concat (replicate k ''ffffffff'')"
  have "concat (replicate (Suc k) ''ffffffff'') = ?t @ ''ffffffff''"
    by (simp only: replicate_Suc replicate_append_same [symmetric] concat_append) simp
  then have "hex_value (s @ concat (replicate (Suc k) ''ffffffff'')) = hex_value ((s @ ?t) @ ''ffffffff'')"
    by simp
  also have "\<dots> = hex_value (s @ ?t) * 2 ^ 32 + (2 ^ 32 - 1)"
    unfolding hex_value_append [of "s @ ?t" "''ffffffff''"] hex_value_full by simp
  also have "\<dots> = ((hex_value s + 1) * 2 ^ (32 * k) - 1) * 2 ^ 32 + (2 ^ 32 - 1)" using Suc by simp
  also have "\<dots> = (hex_value s + 1) * 2 ^ (32 * Suc k) - 1"
  proof -
    have "(hex_value s + 1) * 2 ^ (32 * k) \<noteq> 0" by simp
    then obtain q where q: "(hex_value s + 1) * 2 ^ (32 * k) = Suc q" using not0_implies_Suc by blast
    have "(hex_value s + 1) * 2 ^ (32 * Suc k) = Suc q * 2 ^ 32"
      unfolding q [symmetric] by (simp add: power_add)
    with q show ?thesis by simp
  qed
  finally show ?case .
qed simp

lemma nat_hex_no_comma: "CHR '','' \<notin> set (nat_hex n)"
proof (induction n rule: nat_hex.induct)
  case (1 n)
  have "CHR '','' \<noteq> hex_char d" if "d < 16" for d
  proof
    assume "CHR '','' = hex_char d"
    then have "hex_val (CHR '','') = Some d" using hex_val_char [OF that] by simp
    then show False by (simp add: hex_val_def is_digit_def)
  qed
  with 1 show ?case by (auto simp: nat_hex.simps [of n])
qed

lemma RemoveAll_Join:
  "(\<And>x. x \<in> set xs \<Longrightarrow> CHR '','' \<notin> set x) \<Longrightarrow> RemoveAll (Join xs '','') (CHR '','') = concat xs"
proof (induction xs "'',''" rule: Join.induct)
  case (3 x y ys)
  have "CHR '','' \<notin> set x" using 3(2) by simp
  then have "filter (\<lambda>c. c \<noteq> CHR '','') x = x" by (auto simp: filter_id_conv)
  with 3 show ?case by (simp add: RemoveAll_def)
qed (auto simp: RemoveAll_def filter_id_conv)

section \<open>Properties\<close>

text \<open>C33. A policy rule is ensured without touching the rules of other addresses.

  After \<open>ensureDstIPRoutePolicy\<close> for an IPv4 address returned no error, a rule sends traffic to the address
  to the main table whatever its source; after \<open>ensureSrcIPRoutePolicy\<close>, a rule sends traffic from it to
  the table of the interface, numbered from 1000. The rules that are not about the address are those from
  before, in their order, also when stale rules of the address could not be deleted.
\<close>

theorem ensure_route_policies:
  assumes "rule_api N rules" and "length b = 4"
  shows "(ensureDstIPRoutePolicy N (IP_String b) w = (None, w') \<longrightarrow>
      (\<exists>r\<in>set (rules w'). net_is (rl_Dst r) (IP_String b) \<and> rl_Table r = MainTableId \<and> rl_Src r = None) \<and>
      filter (\<lambda>r. \<not> net_is (rl_Dst r) (IP_String b)) (rules w') = filter (\<lambda>r. \<not> net_is (rl_Dst r) (IP_String b)) (rules w)) \<and>
    (ensureSrcIPRoutePolicy N (IP_String b) ifname w = (None, w') \<longrightarrow>
      (\<exists>t. ifNameToTableId ifname = Inr t \<and> 1000 \<le> t \<and>
        (\<exists>r\<in>set (rules w'). net_is (rl_Src r) (IP_String b) \<and> rl_Table r = t \<and> rl_Dst r = None)) \<and>
      filter (\<lambda>r. \<not> net_is (rl_Src r) (IP_String b)) (rules w') = filter (\<lambda>r. \<not> net_is (rl_Src r) (IP_String b)) (rules w))"
proof -
  note laws = rule_api.NewRule [OF assms(1)] rule_api.NewIPNet [OF assms(1)]
  have s: "IP_String (parsed (IP_String b)) = IP_String b"
    using assms(2) by (simp add: parsed_def ParseIP_dotted slice_def IP_String_IPv4 IP_String_v4)
  have nonneg: "1000 \<le> t" if id: "ifNameToTableId ifname = Inr t" for t
  proof -
    obtain num where n: "ParseInt (filter is_digit ifname) = Inr num" "t = 1000 + num"
      using id by (auto simp: ifNameToTableId_def Atoi_def split: sum.splits)
    have "hd (filter is_digit ifname) \<noteq> CHR ''-''" if "filter is_digit ifname \<noteq> []"
      using hd_in_set [OF that] by auto
    with n(1) have "0 \<le> num" by (auto simp: ParseInt_def Let_def split: list.splits if_splits)
    with n(2) show ?thesis by simp
  qed
  show ?thesis
  proof (intro conjI impI)
    assume "ensureDstIPRoutePolicy N (IP_String b) w = (None, w')"
    from rule_api.ensure_policy_spec [OF assms(1) this [unfolded ensureDstIPRoutePolicy_def]]
    show "\<exists>r\<in>set (rules w'). net_is (rl_Dst r) (IP_String b) \<and> rl_Table r = MainTableId \<and> rl_Src r = None"
      "filter (\<lambda>r. \<not> net_is (rl_Dst r) (IP_String b)) (rules w') = filter (\<lambda>r. \<not> net_is (rl_Dst r) (IP_String b)) (rules w)"
      by (simp_all add: dst_rule_def net_is_def laws s)
  next
    assume a: "ensureSrcIPRoutePolicy N (IP_String b) ifname w = (None, w')"
    then obtain t where t: "ifNameToTableId ifname = Inr t"
      and e: "ensure_policy N (\<lambda>r. net_is (rl_Src r) (IP_String b)) (\<lambda>r. rl_Table r = t \<and> rl_Dst r = None)
        (src_rule N (IP_String b) t) w = (None, w')"
      by (auto simp: ensureSrcIPRoutePolicy_def split: sum.splits)
    from rule_api.ensure_policy_spec [OF assms(1) e] t nonneg [OF t]
    show "\<exists>t. ifNameToTableId ifname = Inr t \<and> 1000 \<le> t \<and>
        (\<exists>r\<in>set (rules w'). net_is (rl_Src r) (IP_String b) \<and> rl_Table r = t \<and> rl_Dst r = None)"
      "filter (\<lambda>r. \<not> net_is (rl_Src r) (IP_String b)) (rules w') = filter (\<lambda>r. \<not> net_is (rl_Src r) (IP_String b)) (rules w)"
      by (simp_all add: src_rule_def net_is_def laws s)
  qed
qed

lemma ensure_route_policies_witness:
  "\<exists>r\<in>set (snd (ensureDstIPRoutePolicy mem_netlink (IP_String [10, 0, 2, 51]) [])).
     net_is (rl_Dst r) (IP_String [10, 0, 2, 51]) \<and> rl_Table r = MainTableId"
proof -
  have e: "ensureDstIPRoutePolicy mem_netlink (IP_String [10, 0, 2, 51]) [] =
    (None, snd (ensureDstIPRoutePolicy mem_netlink (IP_String [10, 0, 2, 51]) []))"
    by (simp add: ensureDstIPRoutePolicy_def ensure_policy_def mem_netlink_def fmt_err_def)
  have "length [10, 0, 2, 51 :: byte] = 4" by simp
  from ensure_route_policies [OF mem_rules.rule_api_axioms this, of "[]"] e show ?thesis by blast
qed

text \<open>C25. Cleaning up removes exactly the rules of the address.

  When \<open>cleanUpIPRoutePolicy\<close> returned no error, the rules left are those whose destination and whose
  source are not the address, in their order. (A rule that has both would be deleted twice, so
  the function reports an error for it.)
\<close>

theorem cleanUpIPRoutePolicy_exact:
  assumes "rule_api N rules" and "cleanUpIPRoutePolicy N ip w = (None, w')"
  shows "rules w' = filter (\<lambda>r. \<not> (net_is (rl_Dst r) ip \<or> net_is (rl_Src r) ip)) (rules w)"
  by (rule rule_api.cleanUp_spec [OF assms])

lemma cleanUpIPRoutePolicy_exact_witness:
  "snd (cleanUpIPRoutePolicy mem_netlink (IP_String [10, 0, 2, 51]) [dst_rule mem_netlink (IP_String [10, 0, 2, 51])]) = []"
proof -
  let ?r = "dst_rule mem_netlink (IP_String [10, 0, 2, 51])"
  have n: "net_is (rl_Dst ?r) (IP_String [10, 0, 2, 51])" "\<not> net_is (rl_Src ?r) (IP_String [10, 0, 2, 51])"
    by code_simp+
  then have "cleanUpIPRoutePolicy mem_netlink (IP_String [10, 0, 2, 51]) [?r] = (None, [])"
    by (simp add: cleanUpIPRoutePolicy_def cleanup_rule_def seq_def fmt_err_def mem_netlink_rules)
  from cleanUpIPRoutePolicy_exact [OF mem_rules.rule_api_axioms this] this n show ?thesis by simp
qed

text \<open>The processor mask has a bit for every processor, in groups of 32 bits.

  For a positive number of processors \<open>rpsCPUMask\<close> gives a mask whose hexadecimal digits, without the
  commas, are the number with as many ones; after the first group every group has eight digits.
  Otherwise there is no mask.
\<close>

lemma rpsCPUMask_all_cpus:
  "(if 0 < n then \<exists>m. rpsCPUMask n = Some m \<and> hex_value (RemoveAll m (CHR '','')) = 2 ^ nat n - 1 \<and>
      list_all (\<lambda>g. length g = 8) (tl (Split m (CHR '','')))
    else rpsCPUMask n = None)"
proof (cases "0 < n")
  case False
  then show ?thesis by (simp add: rpsCPUMask_def)
next
  case True
  define k where "k = nat n"
  have k: "0 < k" using True by (simp add: k_def)
  define first where "first = (if k mod 32 \<noteq> 0 then [nat_hex (2 ^ (k mod 32) - 1)] else [])"
  define gs where "gs = first @ replicate (k div 32) ''ffffffff''"
  have m: "rpsCPUMask n = Some (Join gs '','')"
    using True by (simp add: rpsCPUMask_def Let_def gs_def first_def k_def)
  have nc: "CHR '','' \<notin> set x" if "x \<in> set gs" for x
    using that nat_hex_no_comma by (auto simp: gs_def first_def split: if_splits)
  have "hex_value (concat first) + 1 = 2 ^ (k mod 32)"
    by (auto simp: first_def hex_value_def [of "[]"])
  then have "hex_value (concat gs) = 2 ^ (k mod 32) * 2 ^ (32 * (k div 32)) - 1"
    using hex_value_groups [of "concat first" "k div 32"] by (simp add: gs_def)
  also have "\<dots> = 2 ^ k - 1" by (simp add: power_add [symmetric])
  finally have v: "hex_value (RemoveAll (Join gs '','') (CHR '','')) = 2 ^ k - 1"
    using RemoveAll_Join [OF nc] by simp
  have "gs \<noteq> []" using k by (auto simp: gs_def first_def)
  then have sp: "Split (Join gs '','') (CHR '','') = gs" using nc by (intro Split_Join) auto
  have "list_all (\<lambda>g. length g = 8) (tl gs)"
    by (auto simp: gs_def first_def list_all_iff dest!: list.set_sel(2) [rotated] split: if_splits)
  with m v sp True show ?thesis by (simp add: k_def)
qed

end
