(* ===== verification/Cni_Rules.thy ===== *)
theory Cni_Rules
  imports Cni_Host
begin

text \<open>
  The packet filter rules of the node (\<open>if.go\<close>): the lists of rules \<open>iptablesRulesManager\<close> wants,
  and \<open>updateIptablesRules\<close>, which brings the tables to them.
\<close>

record iptablesRule =
  ir_name :: string
  ir_shouldExist :: bool
  ir_table :: string
  ir_chain :: string
  ir_rule :: rule

definition connmarkChainName :: string where "connmarkChainName = ''UCLOUD-CONNMARK-CHAIN-0''"
definition snatChainName :: string where "snatChainName = ''UCLOUD-SNAT-CHAIN-0''"

definition update_rule :: "'w iptables \<Rightarrow> iptablesRule \<Rightarrow> 'w action" where
  "update_rule ipt r w =
     (case ipt_Exists ipt (ir_table r) (ir_chain r) (ir_rule r) w of
        Inl e \<Rightarrow> (Some (Errorf ''failed to check iptables rule %q exists: %v'' (Some e)), w)
      | Inr ex \<Rightarrow>
          if \<not> ex \<and> ir_shouldExist r then
            (if ir_name r = connmarkChainName \<or> ir_name r = snatChainName
             then fmt_err ''failed to insert iptables rule %q: %v'' (ipt_Insert ipt (ir_table r) (ir_chain r) (ir_rule r)) w
             else fmt_err ''failed to append iptables rule %q: %v'' (ipt_Append ipt (ir_table r) (ir_chain r) (ir_rule r)) w)
          else if ex \<and> \<not> ir_shouldExist r
          then fmt_err ''failed to delete iptables rule %q: %v'' (ipt_Delete ipt (ir_table r) (ir_chain r) (ir_rule r)) w
          else (None, w))"

definition updateIptablesRules :: "iptablesRule list \<Rightarrow> 'w iptables \<Rightarrow> 'w action" where
  "updateIptablesRules rs ipt = each (update_rule ipt) rs"

section \<open>The manager\<close>

definition privateNetworks :: "string list" where
  "privateNetworks = [''10.0.0.0/8'', ''172.16.0.0/12'', ''192.168.0.0/16'']"

record 'w iptablesRulesManager =
  m_ipt :: "'w iptables"
  m_vpcCIDRs :: "string list"
  m_primaryIP :: string
  m_primayInterface :: string

definition newIptablesRulesManager ::
  "'w netlink \<Rightarrow> string \<Rightarrow> string \<Rightarrow> 'w \<Rightarrow> 'w iptablesRulesManager result" where
  "newIptablesRulesManager nl primaryIP primaryInterface w =
     (case NewIPTables nl w of
        Inl e \<Rightarrow> Inl e
      | Inr ipt \<Rightarrow> Inr \<lparr>m_ipt = ipt, m_vpcCIDRs = privateNetworks, m_primaryIP = primaryIP,
                       m_primayInterface = primaryInterface\<rparr>)"

text \<open>
  \<open>containChainExistErr\<close> looks for a text in the message. Which errors carry that text is a matter
  of the command that failed: \<open>chain_exists_text\<close>.
\<close>

fun containChainExistErr :: "gerror \<Rightarrow> bool" where
  "containChainExistErr (Errorf m c) = (Contains m ''Chain already exists'' \<or> (case c of None \<Rightarrow> False | Some e \<Rightarrow> containChainExistErr e))"
| "containChainExistErr (Wrap m e) = (Contains m ''Chain already exists'' \<or> containChainExistErr e)"
| "containChainExistErr (Combine e f) = containChainExistErr e"
| "containChainExistErr e = False"

definition m_ensureChain :: "'w iptables \<Rightarrow> string \<Rightarrow> string \<Rightarrow> 'w action" where
  "m_ensureChain ipt t c w =
     (case ipt_NewChain ipt t c w of
        (None, w1) \<Rightarrow> (None, w1)
      | (Some e, w1) \<Rightarrow>
          if containChainExistErr e then (None, w1)
          else (Some (Errorf ''failed to create iptables chain %s in table %s: %v'' (Some e)), w1))"

definition connmark_hex :: string where
  "connmark_hex = ''0x'' @ nat_hex defaultConnmark"

definition podOutboundConnmarkJumpRule :: rule where
  "podOutboundConnmarkJumpRule =
     [''-i'', ''ucni+'', ''-m'', ''comment'', ''--comment'', ''UCLOUD outbound connections'',
      ''-m'', ''state'', ''--state'', ''NEW'', ''-j'', connmarkChainName]"

definition natGWOutgoingEnabledIPSetName :: string where
  "natGWOutgoingEnabledIPSetName = ''UCLOUD-NATGW-OUTGOING''"

definition natGWOutgoingBypassRule :: rule where
  "natGWOutgoingBypassRule =
     [''-m'', ''set'', ''--match-set'', natGWOutgoingEnabledIPSetName, ''src'',
      ''-m'', ''comment'', ''--comment'', ''UCLOUD NATGW OUTGOING ENABLED'', ''-j'', ''RETURN'']"

definition podOutboundConnmarkRule :: rule where
  "podOutboundConnmarkRule =
     [''-m'', ''comment'', ''--comment'', ''UCLOUD CONNMARK'', ''-j'', ''CONNMARK'',
      ''--set-xmark'', connmark_hex @ ''/'' @ connmark_hex]"

definition restore_mark_rule :: rule where
  "restore_mark_rule =
     [''-m'', ''comment'', ''--comment'', ''UCLOUD CONNMARK'', ''-j'', ''CONNMARK'',
      ''--restore-mark'', ''--mask'', connmark_hex]"

definition buildConnmarkPreroutingRules :: "iptablesRule list" where
  "buildConnmarkPreroutingRules =
     (let jumpRule = \<lparr>ir_name = ''connmark rule for non-VPC outbound traffic'', ir_shouldExist = True,
            ir_table = ''nat'', ir_chain = ''PREROUTING'', ir_rule = podOutboundConnmarkJumpRule\<rparr>;
          restoreRule = \<lparr>ir_name = ''connmark to fwmark copy'', ir_shouldExist = True,
            ir_table = ''nat'', ir_chain = ''PREROUTING'', ir_rule = restore_mark_rule\<rparr>
      in [jumpRule\<lparr>ir_shouldExist := False\<rparr>, jumpRule, restoreRule\<lparr>ir_shouldExist := False\<rparr>, restoreRule])"

definition needsNATGWOutgoingMigration :: "'w iptables \<Rightarrow> 'w \<Rightarrow> bool result" where
  "needsNATGWOutgoingMigration ipt w =
     (case ipt_ChainExists ipt ''nat'' connmarkChainName w of
        Inl e \<Rightarrow> Inl (Wrap ''main.iptablesRulesManager.needsNATGWOutgoingMigration check chain'' e)
      | Inr chainExists \<Rightarrow>
          if \<not> chainExists then Inr True
          else (case ipt_Exists ipt ''nat'' connmarkChainName natGWOutgoingBypassRule w of
            Inl e \<Rightarrow> Inl (Wrap ''main.iptablesRulesManager.needsNATGWOutgoingMigration check bypass rule'' e)
          | Inr bypassExists \<Rightarrow> Inr (\<not> bypassExists)))"

definition bypass_rules :: "iptablesRule list" where
  "bypass_rules = [\<lparr>ir_name = connmarkChainName, ir_shouldExist = True, ir_table = ''nat'',
     ir_chain = connmarkChainName, ir_rule = natGWOutgoingBypassRule\<rparr>]"

text \<open>The migration itself and the creation of the set are the caller's (\<open>nat_outgoing.go\<close>).\<close>

definition tryEnableNATGWOutgoing :: "'w action \<Rightarrow> 'w action \<Rightarrow> 'w iptables \<Rightarrow> 'w action" where
  "tryEnableNATGWOutgoing ensureIPSet migrate ipt =
     seq ensureIPSet
       (\<lambda>w. case needsNATGWOutgoingMigration ipt w of
          Inl e \<Rightarrow> (Some e, w)
        | Inr needs \<Rightarrow> if \<not> needs then (None, w) else seq migrate (updateIptablesRules bypass_rules ipt) w)"

definition ensurePodMetadataBlocked :: "'w iptables result \<Rightarrow> 'w action" where
  "ensurePodMetadataBlocked handle w =
     (case handle of
        Inl e \<Rightarrow> (Some (Wrap ''main.ensurePodMetadataBlocked open iptables'' e), w)
      | Inr ipt \<Rightarrow> updateIptablesRules
          [\<lparr>ir_name = ''block pod metadata access'', ir_shouldExist = True, ir_table = ''raw'',
            ir_chain = ''PREROUTING'', ir_rule = [''-i'', ''ucni+'', ''-d'', ''100.80.80.80/32'', ''-j'', ''DROP'']\<rparr>] ipt w)"

definition return_rule :: "string \<Rightarrow> string \<Rightarrow> string \<Rightarrow> iptablesRule" where
  "return_rule c comment cidr = \<lparr>ir_name = c, ir_shouldExist = True, ir_table = ''nat'', ir_chain = c,
     ir_rule = [''-d'', cidr, ''-m'', ''comment'', ''--comment'', comment, ''-j'', ''RETURN'']\<rparr>"

text \<open>The lists of the two builders, which create their chain first.\<close>

definition snat_rules :: "'w iptablesRulesManager \<Rightarrow> iptablesRule list" where
  "snat_rules m =
     [\<lparr>ir_name = ''first SNAT rules for non-VPC outbound traffic'', ir_shouldExist = True, ir_table = ''nat'',
       ir_chain = ''POSTROUTING'',
       ir_rule = [''-m'', ''comment'', ''--comment'', ''UCLOUD SNAT CHAIN'', ''-j'', snatChainName]\<rparr>] @
     map (return_rule snatChainName ''UCLOUD SNAT CHAIN'') (m_vpcCIDRs m) @
     [\<lparr>ir_name = ''SNAT rule for non-VPC outbound traffic'', ir_shouldExist = True, ir_table = ''nat'',
       ir_chain = snatChainName,
       ir_rule = [''-o'', m_primayInterface m, ''-m'', ''comment'', ''--comment'', ''UCLOUD SNAT'',
         ''-m'', ''addrtype'', ''!'', ''--dst-type'', ''LOCAL'', ''-j'', ''SNAT'', ''--to-source'', m_primaryIP m]\<rparr>,
      \<lparr>ir_name = ''connmark for primary interface'', ir_shouldExist = True, ir_table = ''mangle'',
       ir_chain = ''PREROUTING'',
       ir_rule = [''-m'', ''comment'', ''--comment'', ''UCLOUD primary UNI'', ''-i'', m_primayInterface m,
         ''-m'', ''addrtype'', ''--dst-type'', ''LOCAL'', ''--limit-iface-in'', ''-j'', ''CONNMARK'',
         ''--set-mark'', connmark_hex @ ''/'' @ connmark_hex]\<rparr>,
      \<lparr>ir_name = ''connmark restore for veth'', ir_shouldExist = True, ir_table = ''mangle'',
       ir_chain = ''PREROUTING'',
       ir_rule = [''-m'', ''comment'', ''--comment'', ''UCLOUD primary UNI'', ''-i'', ''ucni+'', ''-j'', ''CONNMARK'',
         ''--restore-mark'', ''--mask'', connmark_hex]\<rparr>]"

definition buildSNATRules :: "'w iptablesRulesManager \<Rightarrow> 'w \<Rightarrow> iptablesRule list result \<times> 'w" where
  "buildSNATRules m w =
     (case m_ensureChain (m_ipt m) ''nat'' snatChainName w of
        (Some e, w1) \<Rightarrow> (Inl e, w1)
      | (None, w1) \<Rightarrow> (Inr (snat_rules m), w1))"

definition connmark_rules :: "'w iptablesRulesManager \<Rightarrow> iptablesRule list" where
  "connmark_rules m =
     map (return_rule connmarkChainName ''UCLOUD CONNMARK CHAIN, VPC CIDR'') (m_vpcCIDRs m) @
     [\<lparr>ir_name = ''connmark rule for external outbound traffic'', ir_shouldExist = True, ir_table = ''nat'',
       ir_chain = connmarkChainName, ir_rule = podOutboundConnmarkRule\<rparr>]"

definition buildConnmarkRules :: "'w iptablesRulesManager \<Rightarrow> 'w \<Rightarrow> iptablesRule list result \<times> 'w" where
  "buildConnmarkRules m w =
     (case m_ensureChain (m_ipt m) ''nat'' connmarkChainName w of
        (Some e, w1) \<Rightarrow> (Inl e, w1)
      | (None, w1) \<Rightarrow> (Inr (connmark_rules m), w1))"

definition build_and_update ::
  "('w \<Rightarrow> iptablesRule list result \<times> 'w) \<Rightarrow> 'w iptables \<Rightarrow> 'w action" where
  "build_and_update build ipt w =
     (case build w of (Inl e, w1) \<Rightarrow> (Some e, w1) | (Inr rs, w1) \<Rightarrow> updateIptablesRules rs ipt w1)"

definition updateRules ::
  "'w iptablesRulesManager \<Rightarrow> 'w action \<Rightarrow> 'w action \<Rightarrow> bool \<Rightarrow> 'w action" where
  "updateRules m ensureIPSet migrate natGWOutgoingEnabled =
     seq (build_and_update (buildSNATRules m) (m_ipt m))
    (seq (build_and_update (buildConnmarkRules m) (m_ipt m))
         (\<lambda>w. updateIptablesRules buildConnmarkPreroutingRules (m_ipt m)
            (if natGWOutgoingEnabled then ignore (tryEnableNATGWOutgoing ensureIPSet migrate (m_ipt m)) w else w)))"

end
