(* ===== verification/Cni_Rules_Props.thy ===== *)
theory Cni_Rules_Props
  imports Cni_Rules
begin

text \<open>
  The order of the node's rules after an update, over the laws of \<open>iptables_api\<close>: \<open>upd\<close> is what a
  successful update does to the rules of its chain.
\<close>

definition upd :: "(rule \<Rightarrow> rule) \<Rightarrow> iptablesRule \<Rightarrow> rule list \<Rightarrow> rule list" where
  "upd nf r rs =
     (if ir_shouldExist r then
        (if nf (ir_rule r) \<in> set rs then rs
         else if ir_name r = connmarkChainName \<or> ir_name r = snatChainName then nf (ir_rule r) # rs
         else rs @ [nf (ir_rule r)])
      else remove1 (nf (ir_rule r)) rs)"

definition on_chain :: "string \<Rightarrow> string \<Rightarrow> iptablesRule \<Rightarrow> bool" where
  "on_chain t c r \<longleftrightarrow> ir_table r = t \<and> ir_chain r = c"

text \<open>Whatever leaves the chain for a private network does so before the mark is set.\<close>

definition returns_before_mark :: "(rule \<Rightarrow> rule) \<Rightarrow> string list \<Rightarrow> rule list \<Rightarrow> bool" where
  "returns_before_mark nf cidrs rs \<longleftrightarrow>
     (\<forall>xs ys. rs = xs @ nf podOutboundConnmarkRule # ys \<longrightarrow>
       (\<forall>cidr\<in>set cidrs. nf (ir_rule (return_rule connmarkChainName ''UCLOUD CONNMARK CHAIN, VPC CIDR'' cidr)) \<in> set xs))"

text \<open>The rules of the manager that have to be told apart.\<close>

definition connmark_texts :: "'w iptablesRulesManager \<Rightarrow> rule set" where
  "connmark_texts m = insert natGWOutgoingBypassRule (insert podOutboundConnmarkRule
     (insert podOutboundConnmarkJumpRule (insert restore_mark_rule
       (set (map (\<lambda>c. ir_rule (return_rule connmarkChainName ''UCLOUD CONNMARK CHAIN, VPC CIDR'' c)) (m_vpcCIDRs m))))))"

lemmas texts = podOutboundConnmarkRule_def natGWOutgoingBypassRule_def podOutboundConnmarkJumpRule_def
  restore_mark_rule_def return_rule_def

lemma texts_differ [simp]:
  "podOutboundConnmarkJumpRule \<noteq> restore_mark_rule"
  "natGWOutgoingBypassRule \<noteq> podOutboundConnmarkRule"
  "ir_rule (return_rule connmarkChainName s cidr) \<noteq> podOutboundConnmarkRule"
  by (simp_all add: texts)

lemma returns_before_mark_Cons:
  "returns_before_mark nf cidrs rs \<Longrightarrow> r \<noteq> nf podOutboundConnmarkRule \<Longrightarrow> returns_before_mark nf cidrs (r # rs)"
  unfolding returns_before_mark_def by (auto simp: Cons_eq_append_conv)

lemma fold_front:
  "\<lbrakk> \<And>cidr. cidr \<in> set cidrs \<Longrightarrow> nf (ir_rule (return_rule connmarkChainName s cidr)) \<noteq> nf podOutboundConnmarkRule;
     returns_before_mark nf all rs \<rbrakk> \<Longrightarrow>
   returns_before_mark nf all (fold (upd nf) (map (return_rule connmarkChainName s) cidrs) rs) \<and>
   set rs \<subseteq> set (fold (upd nf) (map (return_rule connmarkChainName s) cidrs) rs) \<and>
   (\<forall>cidr\<in>set cidrs. nf (ir_rule (return_rule connmarkChainName s cidr)) \<in>
      set (fold (upd nf) (map (return_rule connmarkChainName s) cidrs) rs))"
proof (induction cidrs arbitrary: rs)
  case (Cons c cidrs)
  let ?rs = "upd nf (return_rule connmarkChainName s c) rs"
  have ok: "returns_before_mark nf all ?rs"
    using Cons.prems(1) [of c] returns_before_mark_Cons [OF Cons.prems(2)] Cons.prems(2)
    by (auto simp: upd_def return_rule_def)
  have sub: "set rs \<subseteq> set ?rs" "nf (ir_rule (return_rule connmarkChainName s c)) \<in> set ?rs"
    by (auto simp: upd_def return_rule_def)
  from Cons.IH [OF Cons.prems(1) ok] sub show ?case by auto
qed simp

lemma fold_prerouting:
  assumes "distinct rs" and "nf podOutboundConnmarkJumpRule \<noteq> nf restore_mark_rule"
  shows "fold (upd nf) buildConnmarkPreroutingRules rs =
    remove1 (nf restore_mark_rule) (remove1 (nf podOutboundConnmarkJumpRule) rs) @
      [nf podOutboundConnmarkJumpRule, nf restore_mark_rule]"
proof -
  have j: "nf podOutboundConnmarkJumpRule \<notin> set (remove1 (nf podOutboundConnmarkJumpRule) rs)"
    using assms(1) by simp
  have "distinct (remove1 (nf podOutboundConnmarkJumpRule) rs)" using assms(1) by simp
  then have r: "nf restore_mark_rule \<notin> set (remove1 (nf restore_mark_rule) (remove1 (nf podOutboundConnmarkJumpRule) rs))"
    by simp
  from j r assms(2) show ?thesis
    by (auto simp: buildConnmarkPreroutingRules_def Let_def upd_def connmarkChainName_def snatChainName_def
        remove1_append remove1_idem)
qed

context iptables_api
begin

lemma update_rule_spec:
  assumes "update_rule I r w = (None, w')"
  shows "(\<exists>rs. view w (ir_table r) (ir_chain r) = Some rs \<and>
      view w' = put_chain (view w) (ir_table r) (ir_chain r) (Some (upd nf r rs))) \<or>
    view w (ir_table r) (ir_chain r) = None \<and> \<not> ir_shouldExist r \<and> view w' = view w"
proof -
  from assms obtain b where b: "ipt_Exists I (ir_table r) (ir_chain r) (ir_rule r) w = Inr b"
    by (auto simp: update_rule_def split: sum.splits)
  note ex = Exists [OF b]
  show ?thesis
  proof (cases "ir_shouldExist r")
    case True
    show ?thesis
    proof (cases b)
      case b': True
      with assms b True have "w' = w" by (simp add: update_rule_def)
      with ex b' True show ?thesis by (auto simp: upd_def)
    next
      case False
      from assms b True False consider
        (i) "ir_name r = connmarkChainName \<or> ir_name r = snatChainName"
          "ipt_Insert I (ir_table r) (ir_chain r) (ir_rule r) w = (None, w')"
      | (a) "\<not> (ir_name r = connmarkChainName \<or> ir_name r = snatChainName)"
          "ipt_Append I (ir_table r) (ir_chain r) (ir_rule r) w = (None, w')"
        by (auto simp: update_rule_def split: if_splits)
      then show ?thesis
      proof cases
        case i
        from Insert [OF i(2)] ex False True i(1) show ?thesis by (auto simp: upd_def)
      next
        case a
        from Append [OF a(2)] ex False True a(1) show ?thesis by (auto simp: upd_def)
      qed
    qed
  next
    case False
    show ?thesis
    proof (cases b)
      case True
      with assms b False have "ipt_Delete I (ir_table r) (ir_chain r) (ir_rule r) w = (None, w')"
        by (simp add: update_rule_def)
      from Delete [OF this] False show ?thesis by (auto simp: upd_def)
    next
      case b': False
      with assms b False have "w' = w" by (simp add: update_rule_def)
      with ex b' False show ?thesis
        by (cases "view w (ir_table r) (ir_chain r)") (auto simp: upd_def remove1_idem)
    qed
  qed
qed

lemma update_rule_err: "update_rule I r w = (Some e, w') \<Longrightarrow> view w' = view w"
  by (auto simp: update_rule_def fmt_err_def dest: Insert_err Append_err Delete_err
      split: sum.splits if_splits prod.splits option.splits)

text \<open>One chain after the whole list.\<close>

lemma update_chain:
  "updateIptablesRules rs I w = (None, w') \<Longrightarrow>
    view w' t c = map_option (fold (upd nf) (filter (on_chain t c) rs)) (view w t c)"
proof (induction rs arbitrary: w)
  case Nil
  then show ?case by (simp add: updateIptablesRules_def option.map_ident)
next
  case (Cons r rs)
  from Cons.prems obtain w1 where w1: "update_rule I r w = (None, w1)" "updateIptablesRules rs I w1 = (None, w')"
    unfolding updateIptablesRules_def each_Cons_None_iff by blast
  have "view w1 t c = (if on_chain t c r then map_option (upd nf r) (view w t c) else view w t c)"
    using update_rule_spec [OF w1(1)] by (auto simp: on_chain_def put_chain_def)
  with Cons.IH [OF w1(2)] show ?case by (simp add: option.map_comp comp_def)
qed

lemma update_chain_exists:
  "updateIptablesRules rs I w = (None, w') \<Longrightarrow> r \<in> set rs \<Longrightarrow> on_chain t c r \<Longrightarrow> ir_shouldExist r \<Longrightarrow>
    view w t c \<noteq> None"
proof (induction rs arbitrary: w)
  case (Cons r' rs)
  from Cons.prems obtain w1 where w1: "update_rule I r' w = (None, w1)" "updateIptablesRules rs I w1 = (None, w')"
    unfolding updateIptablesRules_def each_Cons_None_iff by blast
  show ?case
    using update_rule_spec [OF w1(1)] Cons.IH [OF w1(2)] Cons.prems(2-)
    by (auto simp: on_chain_def put_chain_def split: if_splits)
qed simp

lemma m_ensureChain_view:
  assumes "m_ensureChain I t c w = (None, w1)"
  shows "(view w t c = None \<and> view w1 = put_chain (view w) t c (Some [])) \<or> view w1 = view w"
  using assms NewChain [of t c w w1] NewChain_err [of t c w _ w1]
  by (auto simp: m_ensureChain_def split: prod.splits option.splits if_splits)

lemma snat_step:
  assumes "build_and_update (buildSNATRules m) I w = (None, w')" and "m_ipt m = I"
  shows "view w' ''nat'' ''PREROUTING'' = view w ''nat'' ''PREROUTING'' \<and>
    view w' ''nat'' connmarkChainName = view w ''nat'' connmarkChainName"
proof -
  from assms obtain w1 where w1: "m_ensureChain I ''nat'' snatChainName w = (None, w1)"
    and u: "updateIptablesRules (snat_rules m) I w1 = (None, w')"
    by (auto simp: build_and_update_def buildSNATRules_def split: prod.splits option.splits)
  have "filter (on_chain ''nat'' ''PREROUTING'') (snat_rules m) = []"
    "filter (on_chain ''nat'' connmarkChainName) (snat_rules m) = []"
    by (auto simp: snat_rules_def on_chain_def return_rule_def filter_empty_conv snatChainName_def connmarkChainName_def)
  with update_chain [OF u] m_ensureChain_view [OF w1] show ?thesis
    by (auto simp: snatChainName_def connmarkChainName_def option.map_id0)
qed

lemma connmark_step:
  assumes "build_and_update (buildConnmarkRules m) I w = (None, w')" and "m_ipt m = I"
    and inj: "inj_on nf (connmark_texts m)"
    and ok: "case view w ''nat'' connmarkChainName of None \<Rightarrow> True | Some rs \<Rightarrow> returns_before_mark nf (m_vpcCIDRs m) rs"
  shows "view w' ''nat'' ''PREROUTING'' = view w ''nat'' ''PREROUTING'' \<and>
    (\<exists>rs. view w' ''nat'' connmarkChainName = Some rs \<and> returns_before_mark nf (m_vpcCIDRs m) rs \<and>
      nf podOutboundConnmarkRule \<in> set rs)"
proof -
  let ?s = "''UCLOUD CONNMARK CHAIN, VPC CIDR''"
  let ?M = "nf podOutboundConnmarkRule"
  from assms obtain w1 where w1: "m_ensureChain I ''nat'' connmarkChainName w = (None, w1)"
    and u: "updateIptablesRules (connmark_rules m) I w1 = (None, w')"
    by (auto simp: build_and_update_def buildConnmarkRules_def split: prod.splits option.splits)
  define mr where "mr = \<lparr>ir_name = ''connmark rule for external outbound traffic'', ir_shouldExist = True,
    ir_table = ''nat'', ir_chain = connmarkChainName, ir_rule = podOutboundConnmarkRule\<rparr>"
  have cr: "connmark_rules m = map (return_rule connmarkChainName ?s) (m_vpcCIDRs m) @ [mr]"
    by (simp add: connmark_rules_def mr_def)
  have on: "filter (on_chain ''nat'' connmarkChainName) (connmark_rules m) = connmark_rules m"
    "filter (on_chain ''nat'' ''PREROUTING'') (connmark_rules m) = []"
    by (auto simp: cr mr_def on_chain_def return_rule_def filter_id_conv filter_empty_conv connmarkChainName_def)
  have "view w1 ''nat'' connmarkChainName \<noteq> None"
    by (rule update_chain_exists [OF u, of mr]) (simp_all add: cr mr_def on_chain_def)
  then obtain rs1 where rs1: "view w1 ''nat'' connmarkChainName = Some rs1" by blast
  have ok1: "returns_before_mark nf (m_vpcCIDRs m) rs1"
    using m_ensureChain_view [OF w1] ok rs1 by (auto simp: returns_before_mark_def)
  define rs2 where "rs2 = fold (upd nf) (map (return_rule connmarkChainName ?s) (m_vpcCIDRs m)) rs1"
  have ne: "nf (ir_rule (return_rule connmarkChainName ?s cidr)) \<noteq> ?M" if "cidr \<in> set (m_vpcCIDRs m)" for cidr
    using inj_onD [OF inj, of "ir_rule (return_rule connmarkChainName ?s cidr)" podOutboundConnmarkRule] that
    by (auto simp: connmark_texts_def)
  have ff: "returns_before_mark nf (m_vpcCIDRs m) rs2"
    "\<forall>cidr\<in>set (m_vpcCIDRs m). nf (ir_rule (return_rule connmarkChainName ?s cidr)) \<in> set rs2"
    unfolding rs2_def using fold_front [where s = ?s, OF ne ok1] by blast+
  have v': "view w' ''nat'' connmarkChainName = Some (upd nf mr rs2)"
    using update_chain [OF u, of "''nat''" connmarkChainName] unfolding on(1) rs1 by (simp add: cr rs2_def)
  have names: "ir_name mr \<noteq> connmarkChainName" "ir_name mr \<noteq> snatChainName" "ir_shouldExist mr"
    "ir_rule mr = podOutboundConnmarkRule"
    by (simp_all add: mr_def connmarkChainName_def snatChainName_def)
  have rb: "returns_before_mark nf (m_vpcCIDRs m) (upd nf mr rs2) \<and> ?M \<in> set (upd nf mr rs2)"
  proof (cases "?M \<in> set rs2")
    case True
    with ff(1) names show ?thesis by (simp add: upd_def)
  next
    case False
    have "xs = rs2" if "rs2 @ [?M] = xs @ ?M # ys" for xs ys
      using that False by (auto simp: append_eq_append_conv2 append_eq_Cons_conv Cons_eq_append_conv)
    with False ff(2) names show ?thesis by (auto simp: upd_def returns_before_mark_def)
  qed
  have "view w1 ''nat'' ''PREROUTING'' = view w ''nat'' ''PREROUTING''"
    using m_ensureChain_view [OF w1] by (auto simp: connmarkChainName_def)
  with update_chain [OF u, of "''nat''" "''PREROUTING''"] on(2) v' rb show ?thesis
    by (auto simp: option.map_id0)
qed

lemma enable_step:
  assumes keeps: "\<And>w. view (snd (ensureIPSet w)) = view w" "\<And>w. view (snd (migrate w)) = view w"
  shows "view (ignore (tryEnableNATGWOutgoing ensureIPSet migrate I) w) = view w \<or>
    (\<exists>rs. view w ''nat'' connmarkChainName = Some rs \<and>
      view (ignore (tryEnableNATGWOutgoing ensureIPSet migrate I) w) =
        put_chain (view w) ''nat'' connmarkChainName (Some (upd nf (hd bypass_rules) rs)))"
proof -
  obtain e1 w1 where 1: "ensureIPSet w = (e1, w1)" by fastforce
  obtain e2 w2 where 2: "migrate w1 = (e2, w2)" by fastforce
  obtain e3 w3 where 3: "update_rule I (hd bypass_rules) w2 = (e3, w3)" by fastforce
  have v: "view w1 = view w" "view w2 = view w" using keeps(1) [of w] keeps(2) [of w1] 1 2 by simp_all
  have b: "ir_table (hd bypass_rules) = ''nat''" "ir_chain (hd bypass_rules) = connmarkChainName"
    by (simp_all add: bypass_rules_def)
  have w3: "view w3 = view w \<or> (\<exists>rs. view w ''nat'' connmarkChainName = Some rs \<and>
      view w3 = put_chain (view w) ''nat'' connmarkChainName (Some (upd nf (hd bypass_rules) rs)))"
    using update_rule_spec [of "hd bypass_rules" w2 w3] update_rule_err [of "hd bypass_rules" w2 _ w3] 3 v b
    by (cases e3) auto
  have "updateIptablesRules bypass_rules I w2 = (e3, w3)"
    using 3 by (simp add: updateIptablesRules_def bypass_rules_def split: option.splits)
  then have "ignore (tryEnableNATGWOutgoing ensureIPSet migrate I) w \<in> {w1, w2, w3}"
    using 1 2 by (auto simp: ignore_def tryEnableNATGWOutgoing_def seq_def split: sum.splits option.splits)
  with v w3 show ?thesis by auto
qed

lemma updateRules_order:
  assumes "updateRules m ensureIPSet migrate enabled w = (None, w')" and m: "m_ipt m = I"
    and keeps: "\<And>w. view (snd (ensureIPSet w)) = view w" "\<And>w. view (snd (migrate w)) = view w"
    and inj: "inj_on nf (connmark_texts m)"
    and pre: "view w ''nat'' ''PREROUTING'' = Some pre" "distinct pre"
    and ok: "case view w ''nat'' connmarkChainName of None \<Rightarrow> True | Some rs \<Rightarrow> returns_before_mark nf (m_vpcCIDRs m) rs"
  shows "view w' ''nat'' ''PREROUTING'' =
      Some (remove1 (nf restore_mark_rule) (remove1 (nf podOutboundConnmarkJumpRule) pre) @
        [nf podOutboundConnmarkJumpRule, nf restore_mark_rule])"
    and "\<exists>rs. view w' ''nat'' connmarkChainName = Some rs \<and> returns_before_mark nf (m_vpcCIDRs m) rs \<and>
      nf podOutboundConnmarkRule \<in> set rs"
proof -
  let ?en = "\<lambda>w. if enabled then ignore (tryEnableNATGWOutgoing ensureIPSet migrate I) w else w"
  from assms obtain w1 w2 where s: "build_and_update (buildSNATRules m) I w = (None, w1)"
    and c: "build_and_update (buildConnmarkRules m) I w1 = (None, w2)"
    and p: "updateIptablesRules buildConnmarkPreroutingRules I (?en w2) = (None, w')"
    unfolding updateRules_def seq_None_iff m by blast
  note 1 = snat_step [OF s m]
  have "case view w1 ''nat'' connmarkChainName of None \<Rightarrow> True | Some rs \<Rightarrow> returns_before_mark nf (m_vpcCIDRs m) rs"
    using 1 ok by simp
  note 2 = connmark_step [OF c m inj this]
  then obtain rs where rs: "view w2 ''nat'' connmarkChainName = Some rs" "returns_before_mark nf (m_vpcCIDRs m) rs"
    "nf podOutboundConnmarkRule \<in> set rs" by blast
  have byp: "nf natGWOutgoingBypassRule \<noteq> nf podOutboundConnmarkRule"
    "nf podOutboundConnmarkJumpRule \<noteq> nf restore_mark_rule"
    using inj_onD [OF inj, of natGWOutgoingBypassRule podOutboundConnmarkRule]
      inj_onD [OF inj, of podOutboundConnmarkJumpRule restore_mark_rule]
    by (auto simp: connmark_texts_def)
  have b: "returns_before_mark nf (m_vpcCIDRs m) (upd nf (hd bypass_rules) rs) \<and>
      nf podOutboundConnmarkRule \<in> set (upd nf (hd bypass_rules) rs)"
    using rs byp(1) returns_before_mark_Cons by (auto simp: upd_def bypass_rules_def)
  have en: "view (?en w2) ''nat'' ''PREROUTING'' = view w2 ''nat'' ''PREROUTING''"
    "\<exists>rs. view (?en w2) ''nat'' connmarkChainName = Some rs \<and> returns_before_mark nf (m_vpcCIDRs m) rs \<and>
      nf podOutboundConnmarkRule \<in> set rs"
    using enable_step [OF keeps, of w2] rs b by (auto simp: put_chain_def connmarkChainName_def)
  have f: "filter (on_chain ''nat'' ''PREROUTING'') buildConnmarkPreroutingRules = buildConnmarkPreroutingRules"
    "filter (on_chain ''nat'' connmarkChainName) buildConnmarkPreroutingRules = []"
    by (simp_all add: buildConnmarkPreroutingRules_def on_chain_def connmarkChainName_def Let_def)
  have "view (?en w2) ''nat'' ''PREROUTING'' = Some pre" using en(1) 1 2 pre(1) by simp
  with update_chain [OF p, of "''nat''" "''PREROUTING''"] f(1) fold_prerouting [OF pre(2) byp(2)]
  show "view w' ''nat'' ''PREROUTING'' =
      Some (remove1 (nf restore_mark_rule) (remove1 (nf podOutboundConnmarkJumpRule) pre) @
        [nf podOutboundConnmarkJumpRule, nf restore_mark_rule])" by simp
  show "\<exists>rs. view w' ''nat'' connmarkChainName = Some rs \<and> returns_before_mark nf (m_vpcCIDRs m) rs \<and>
      nf podOutboundConnmarkRule \<in> set rs"
    using update_chain [OF p, of "''nat''" connmarkChainName] f(2) en(2) by (auto simp: option.map_id0)
qed

end

section \<open>Properties\<close>

text \<open>C24. The node's rules end up in the order that connection marking needs.

  When \<open>updateRules\<close> returns no error, the \<open>PREROUTING\<close> chain of the nat table ends with the jump to
  the connmark chain followed by the rule that copies the connection mark, after all other rules, which
  keep their order. In the connmark chain the mark is set, and a packet to a private network has
  left the chain before. That is so for a chain made now and, by the same statement, for one a previous
  run left. It holds whether enabling the NAT gateway succeeds, fails or is not asked for. The filter
  has to tell the rules of the manager apart, and the ipset commands not to touch the tables.
\<close>

theorem updateRules_orders_marking:
  assumes "iptables_api (m_ipt m) view nf line" and "inj_on nf (connmark_texts m)"
    and "\<And>w. view (snd (ensureIPSet w)) = view w" and "\<And>w. view (snd (migrate w)) = view w"
    and "view w ''nat'' ''PREROUTING'' = Some pre" and "distinct pre"
    and "case view w ''nat'' connmarkChainName of None \<Rightarrow> True | Some rs \<Rightarrow> returns_before_mark nf (m_vpcCIDRs m) rs"
    and "updateRules m ensureIPSet migrate enabled w = (None, w')"
  shows "view w' ''nat'' ''PREROUTING'' =
      Some (remove1 (nf restore_mark_rule) (remove1 (nf podOutboundConnmarkJumpRule) pre) @
        [nf podOutboundConnmarkJumpRule, nf restore_mark_rule]) \<and>
    (\<exists>rs. view w' ''nat'' connmarkChainName = Some rs \<and> returns_before_mark nf (m_vpcCIDRs m) rs \<and>
      nf podOutboundConnmarkRule \<in> set rs)"
  using iptables_api.updateRules_order [OF assms(1,8) refl assms(3,4,2,5-7)] by blast

definition demo_manager :: "tables iptablesRulesManager" where
  "demo_manager = \<lparr>m_ipt = mem_iptables, m_vpcCIDRs = privateNetworks, m_primaryIP = ''10.9.0.2'',
     m_primayInterface = ''eth0''\<rparr>"

definition demo_filter :: tables where
  "demo_filter = put_chain (put_chain (put_chain (\<lambda>t c. None) ''nat'' ''PREROUTING'' (Some [restore_mark_rule, [''-j'', ''KUBE'']]))
     ''nat'' ''POSTROUTING'' (Some [])) ''mangle'' ''PREROUTING'' (Some [])"

lemma mem_update_rule:
  "update_rule mem_iptables r v =
     (case v (ir_table r) (ir_chain r) of
        Some rs \<Rightarrow> (None, put_chain v (ir_table r) (ir_chain r) (Some (upd (\<lambda>r. r) r rs)))
      | None \<Rightarrow> if ir_shouldExist r then
           (Some (Errorf (if ir_name r = connmarkChainName \<or> ir_name r = snatChainName
             then ''failed to insert iptables rule %q: %v'' else ''failed to append iptables rule %q: %v'') (Some (Ext 1))), v)
         else (None, v))"
  by (auto simp: update_rule_def mem_iptables_def mem_append_def upd_def fmt_err_def remove1_idem split: option.splits)

text \<open>Where the chains exist, an update in memory does not fail.\<close>

lemma mem_update_ok:
  "\<forall>r\<in>set rs. v (ir_table r) (ir_chain r) \<noteq> None \<Longrightarrow>
    \<exists>v'. updateIptablesRules rs mem_iptables v = (None, v') \<and> (\<forall>t c. v' t c = None \<longleftrightarrow> v t c = None)"
proof (induction rs arbitrary: v)
  case (Cons r rs)
  then obtain l where l: "v (ir_table r) (ir_chain r) = Some l" by auto
  let ?v = "put_chain v (ir_table r) (ir_chain r) (Some (upd (\<lambda>r. r) r l))"
  have n: "?v t c = None \<longleftrightarrow> v t c = None" for t c using l by (auto simp: put_chain_def)
  have "\<forall>r\<in>set rs. ?v (ir_table r) (ir_chain r) \<noteq> None" using Cons.prems by (simp only: n) simp
  from Cons.IH [OF this] obtain v' where v': "updateIptablesRules rs mem_iptables ?v = (None, v')"
    "\<forall>t c. v' t c = None \<longleftrightarrow> ?v t c = None" by blast
  have "updateIptablesRules (r # rs) mem_iptables v = (None, v')"
    using v'(1) l by (simp add: updateIptablesRules_def mem_update_rule)
  with v'(2) n show ?case by blast
qed (simp add: updateIptablesRules_def)

lemma mem_ensureChain:
  "v t c = None \<Longrightarrow> m_ensureChain mem_iptables t c v = (None, put_chain v t c (Some []))"
  by (simp add: m_ensureChain_def mem_iptables_def)

lemma demo_update:
  "\<exists>v. updateRules demo_manager (Pair None) (Pair None) False demo_filter = (None, v)"
proof -
  let ?v1 = "put_chain demo_filter ''nat'' snatChainName (Some [])"
  have m: "m_ipt demo_manager = mem_iptables" by (simp add: demo_manager_def)
  have names: "snatChainName \<noteq> connmarkChainName" "snatChainName \<noteq> ''PREROUTING''" "snatChainName \<noteq> ''POSTROUTING''"
    "connmarkChainName \<noteq> ''PREROUTING''" "connmarkChainName \<noteq> ''POSTROUTING''"
    by (simp_all add: snatChainName_def connmarkChainName_def)
  have e1: "m_ensureChain mem_iptables ''nat'' snatChainName demo_filter = (None, ?v1)"
    by (rule mem_ensureChain) (use names in \<open>simp add: demo_filter_def put_chain_def\<close>)
  obtain v2 where u1: "updateIptablesRules (snat_rules demo_manager) mem_iptables ?v1 = (None, v2)"
    and d2: "\<forall>t c. v2 t c = None \<longleftrightarrow> ?v1 t c = None"
    using mem_update_ok [of "snat_rules demo_manager" ?v1] names
    by (auto simp: snat_rules_def return_rule_def demo_filter_def put_chain_def)
  let ?v3 = "put_chain v2 ''nat'' connmarkChainName (Some [])"
  have e2: "m_ensureChain mem_iptables ''nat'' connmarkChainName v2 = (None, ?v3)"
    by (rule mem_ensureChain) (use d2 names in \<open>auto simp: demo_filter_def put_chain_def\<close>)
  obtain v4 where u2: "updateIptablesRules (connmark_rules demo_manager) mem_iptables ?v3 = (None, v4)"
    and d4: "\<forall>t c. v4 t c = None \<longleftrightarrow> ?v3 t c = None"
    using mem_update_ok [of "connmark_rules demo_manager" ?v3]
    by (auto simp: connmark_rules_def return_rule_def put_chain_def)
  obtain v5 where u3: "updateIptablesRules buildConnmarkPreroutingRules mem_iptables v4 = (None, v5)"
  proof -
    have "v4 ''nat'' ''PREROUTING'' \<noteq> None" using d2 d4 names by (simp add: put_chain_def demo_filter_def)
    then have "\<forall>r\<in>set buildConnmarkPreroutingRules. v4 (ir_table r) (ir_chain r) \<noteq> None"
      by (simp add: buildConnmarkPreroutingRules_def Let_def)
    from mem_update_ok [OF this] that show thesis by blast
  qed
  show ?thesis
    by (simp add: updateRules_def seq_def build_and_update_def buildSNATRules_def buildConnmarkRules_def m e1 u1 e2 u2 u3)
qed

lemma updateRules_orders_marking_witness:
  "\<exists>v. updateRules demo_manager (Pair None) (Pair None) False demo_filter = (None, v) \<and>
    v ''nat'' ''PREROUTING'' = Some [[''-j'', ''KUBE''], podOutboundConnmarkJumpRule, restore_mark_rule]"
proof -
  obtain v where v: "updateRules demo_manager (Pair None) (Pair None) False demo_filter = (None, v)"
    using demo_update by blast
  have m: "m_ipt demo_manager = mem_iptables" by (simp add: demo_manager_def)
  have pre: "demo_filter ''nat'' ''PREROUTING'' = Some [restore_mark_rule, [''-j'', ''KUBE'']]"
    by (simp add: demo_filter_def put_chain_def)
  have dist: "distinct [restore_mark_rule, [''-j'', ''KUBE'']]" by (simp add: restore_mark_rule_def)
  have none: "demo_filter ''nat'' connmarkChainName = None"
    by (simp add: demo_filter_def put_chain_def connmarkChainName_def)
  have "v ''nat'' ''PREROUTING'' = Some (remove1 restore_mark_rule
      (remove1 podOutboundConnmarkJumpRule [restore_mark_rule, [''-j'', ''KUBE'']]) @
      [podOutboundConnmarkJumpRule, restore_mark_rule])"
    by (rule conjunct1 [OF updateRules_orders_marking [where view = "\<lambda>v. v" and nf = "\<lambda>r. r" and line = mem_line,
        OF _ _ _ _ pre dist _ v]])
       (simp_all add: m mem_ipt.iptables_api_axioms none)
  then have "v ''nat'' ''PREROUTING'' = Some [[''-j'', ''KUBE''], podOutboundConnmarkJumpRule, restore_mark_rule]"
    by (simp add: restore_mark_rule_def podOutboundConnmarkJumpRule_def)
  with v show ?thesis by blast
qed

end
