(* ===== verification/Cni_Records.thy ===== *)
theory Cni_Records
  imports Cni_Rules Ipamd_Static
begin

text \<open>
  The outside of the plugin process \<open>cmd/cnivpc\<close>, and the record keeping of \<open>rpc.go\<close>: the network
  of a pod is recorded by the daemon when it answers, else in the plugin's own database file.
  Everything the plugin talks to is a field of \<open>cni_env\<close> over the world \<open>'w\<close>, the database file
  included.
\<close>

record 'w ipamd_client =
  c_Ping :: "'w \<Rightarrow> gerror option \<times> 'w"
  c_SupportMultiSubnet :: "'w \<Rightarrow> SupportMultiSubnetResponse result \<times> 'w"
  c_AddPodNetwork :: "AddPodNetworkRequest \<Rightarrow> 'w \<Rightarrow> AddPodNetworkResponse result \<times> 'w"
  c_DelPodNetwork :: "DelPodNetworkRequest \<Rightarrow> 'w \<Rightarrow> CNIErrorCode result \<times> 'w"
  c_AddPodNetworkRecord :: "AddPodNetworkRecordRequest \<Rightarrow> 'w \<Rightarrow> CNIErrorCode result \<times> 'w"
  c_DelPodNetworkRecord :: "RecordKeyRequest \<Rightarrow> 'w \<Rightarrow> CNIErrorCode result \<times> 'w"
  c_GetPodNetworkRecord :: "RecordKeyRequest \<Rightarrow> 'w \<Rightarrow> AddPodNetworkResponse result \<times> 'w"
  c_ListPodNetworkRecord :: "'w \<Rightarrow> ListPodNetworkRecordResponse result \<times> 'w"

record 'w cni_env =
  ce_cloud :: "'w cloud_api"
  ce_kube :: "'w kube_api"
  ce_nl :: "'w netlink"
  ce_bolt :: "'w bolt_api"
  ce_version :: string
  ce_numCPU :: int
  ce_polls :: nat \<comment> \<open>metadata polls before the timeout\<close>
  BoltHandler :: "'w action"
  Dial :: "'w \<Rightarrow> 'w ipamd_client result"
  GetNodeClient :: "'w \<Rightarrow> gerror option"
  GetNodeCRDClient :: "'w \<Rightarrow> gerror option"
  PodNetworkingsGet :: "string \<Rightarrow> 'w \<Rightarrow> PodNetworking result \<times> 'w"
  PodNetworkingsList :: "'w \<Rightarrow> PodNetworking list result \<times> 'w"
  MetaCPU :: "'w \<Rightarrow> string result"
  set_order :: "string list \<Rightarrow> string list" \<comment> \<open>the iteration order of a Go set\<close>

section \<open>Health of the daemon\<close>

definition enabledIpamd :: "'w ipamd_client \<Rightarrow> 'w \<Rightarrow> bool \<times> 'w" where
  "enabledIpamd c w = (case c_Ping c w of (err, w1) \<Rightarrow> (err = None, w1))"

definition ipamdSupportMultiSubnet :: "'w ipamd_client \<Rightarrow> 'w \<Rightarrow> bool \<times> 'w" where
  "ipamdSupportMultiSubnet c w =
     (case c_SupportMultiSubnet c w of
        (Inl e, w1) \<Rightarrow> (False, w1)
      | (Inr resp, w1) \<Rightarrow> (ms_Support resp, w1))"

text \<open>The daemon's client when it can be dialled and answers a ping.\<close>

definition live_ipamd :: "'w cni_env \<Rightarrow> 'w \<Rightarrow> 'w ipamd_client option \<times> 'w" where
  "live_ipamd env w =
     (case Dial env w of
        Inl e \<Rightarrow> (None, w)
      | Inr c \<Rightarrow> (case enabledIpamd c w of (ok, w1) \<Rightarrow> (if ok then Some c else None, w1)))"

text \<open>The same when it also has to support several subnets.\<close>

definition multi_ipamd :: "'w cni_env \<Rightarrow> 'w \<Rightarrow> 'w ipamd_client option \<times> 'w" where
  "multi_ipamd env w =
     (case live_ipamd env w of
        (None, w1) \<Rightarrow> (None, w1)
      | (Some c, w1) \<Rightarrow> (case ipamdSupportMultiSubnet c w1 of (ok, w2) \<Rightarrow> (if ok then Some c else None, w2)))"

section \<open>The local database\<close>

definition CNIVpcDbName :: string where "CNIVpcDbName = ''cni-vpc-network''"

definition accessToPodNetworkDB :: "'w cni_env \<Rightarrow> 'w \<Rightarrow> string result \<times> 'w" where
  "accessToPodNetworkDB env w =
     (case BoltHandler env w of
        (Some e, w1) \<Rightarrow> (Inl e, w1)
      | (None, w1) \<Rightarrow> NewBolt (ce_bolt env) CNIVpcDbName w1)"

definition delPodNetworkRecordLocal :: "'w cni_env \<Rightarrow> string \<Rightarrow> string \<Rightarrow> string \<Rightarrow> 'w action" where
  "delPodNetworkRecordLocal env podName podNS sandBoxID w =
     (case accessToPodNetworkDB env w of
        (Inl e, w1) \<Rightarrow> (Some e, w1)
      | (Inr db, w1) \<Rightarrow> Bolt_Delete (ce_bolt env) db (PodKey podName podNS sandBoxID) w1)"

definition getPodNetworkRecordLocal ::
  "'w cni_env \<Rightarrow> string \<Rightarrow> string \<Rightarrow> string \<Rightarrow> 'w \<Rightarrow> PodNetwork option result \<times> 'w" where
  "getPodNetworkRecordLocal env podName podNS sandBoxID w =
     (case accessToPodNetworkDB env w of
        (Inl e, w1) \<Rightarrow> (Inl e, w1)
      | (Inr db, w1) \<Rightarrow>
          (case Bolt_Get (ce_bolt env) PodNetwork_codec db (PodKey podName podNS sandBoxID) w1 of
             Inl e \<Rightarrow> (Inl e, w1)
           | Inr p \<Rightarrow> (Inr (Some p), w1)))"

section \<open>Records kept by the daemon\<close>

definition record_key_of :: "string \<Rightarrow> string \<Rightarrow> string \<Rightarrow> RecordKeyRequest" where
  "record_key_of podName podNS sandBoxID = \<lparr>rk_PodName = podName, rk_PodNS = podNS, rk_SandboxID = sandBoxID\<rparr>"

definition addPodNetworkRecordFromIpamd :: "'w ipamd_client \<Rightarrow> PodNetwork \<Rightarrow> 'w action" where
  "addPodNetworkRecordFromIpamd c pn w =
     (case c_AddPodNetworkRecord c \<lparr>arr_PodNetwork = pn\<rparr> w of
        (Inl e, w1) \<Rightarrow> (Some e, w1)
      | (Inr code, w1) \<Rightarrow>
          if code \<noteq> CNISuccess then (Some (Errors_New ''gRPC AddPodNetworkRecord failed, code %v''), w1) else (None, w1))"

definition delPodNetworkRecordFromIpamd :: "'w ipamd_client \<Rightarrow> string \<Rightarrow> string \<Rightarrow> string \<Rightarrow> 'w action" where
  "delPodNetworkRecordFromIpamd c podName podNS sandBoxID w =
     (case c_DelPodNetworkRecord c (record_key_of podName podNS sandBoxID) w of
        (Inl e, w1) \<Rightarrow> (Some e, w1)
      | (Inr code, w1) \<Rightarrow>
          if code \<noteq> CNISuccess then (Some (Errors_New ''gRPC DelPodNetworkRecord failed, code %v''), w1) else (None, w1))"

definition getPodNetworkRecordFromIpamd ::
  "'w ipamd_client \<Rightarrow> string \<Rightarrow> string \<Rightarrow> string \<Rightarrow> 'w \<Rightarrow> PodNetwork option result \<times> 'w" where
  "getPodNetworkRecordFromIpamd c podName podNS sandBoxID w =
     (case c_GetPodNetworkRecord c (record_key_of podName podNS sandBoxID) w of
        (Inl e, w1) \<Rightarrow> (Inl e, w1)
      | (Inr r, w1) \<Rightarrow>
          if as_Code r \<noteq> CNISuccess then (Inl (Errors_New ''gRPC GetPodNetworkRecord failed, code %v''), w1)
          else (Inr (as_PodNetwork r), w1))"

section \<open>Either\<close>

definition delPodNetworkRecord :: "'w cni_env \<Rightarrow> string \<Rightarrow> string \<Rightarrow> string \<Rightarrow> 'w action" where
  "delPodNetworkRecord env podName podNS sandBoxID w =
     (case live_ipamd env w of
        (Some c, w1) \<Rightarrow> delPodNetworkRecordFromIpamd c podName podNS sandBoxID w1
      | (None, w1) \<Rightarrow> delPodNetworkRecordLocal env podName podNS sandBoxID w1)"

definition getPodNetworkRecord ::
  "'w cni_env \<Rightarrow> string \<Rightarrow> string \<Rightarrow> string \<Rightarrow> 'w \<Rightarrow> PodNetwork option result \<times> 'w" where
  "getPodNetworkRecord env podName podNS sandBoxID w =
     (case live_ipamd env w of
        (Some c, w1) \<Rightarrow> getPodNetworkRecordFromIpamd c podName podNS sandBoxID w1
      | (None, w1) \<Rightarrow> getPodNetworkRecordLocal env podName podNS sandBoxID w1)"

definition listPodNetworkRecords :: "'w cni_env \<Rightarrow> 'w \<Rightarrow> PodNetwork list result \<times> 'w" where
  "listPodNetworkRecords env w =
     (case live_ipamd env w of
        (Some c, w1) \<Rightarrow>
          (case c_ListPodNetworkRecord c w1 of
             (Inl e, w2) \<Rightarrow> (Inl (Wrap ''main.listPodNetworkRecords list from ipamd'' e), w2)
           | (Inr r, w2) \<Rightarrow>
               if ls_Code r \<noteq> CNISuccess
               then (Inl (Errors_New ''main.listPodNetworkRecords ipamd returned code %d''), w2)
               else (Inr (ls_Networks r), w2))
      | (None, w1) \<Rightarrow>
          (case accessToPodNetworkDB env w1 of
             (Inl e, w2) \<Rightarrow> (Inl e, w2)
           | (Inr db, w2) \<Rightarrow>
               (case Bolt_List (ce_bolt env) PodNetwork_codec db w2 of
                  Inl e \<Rightarrow> (Inl (Wrap ''main.listPodNetworkRecords list local database'' e), w2)
                | Inr records \<Rightarrow> (Inr (Values records), w2))))"

text \<open>Surroundings in which nothing answers but the given netlink: the starting point of the examples.\<close>

definition bolt_down :: "'d bolt_api" where
  "bolt_down = \<lparr>tx_CreateBucketIfNotExists = (\<lambda>b d. (Some (Ext 0), d)), tx_Put = (\<lambda>b k v d. (Some (Ext 0), d)),
     tx_Delete = (\<lambda>b k d. (Some (Ext 0), d)), tx_Get = (\<lambda>b k d. Inl (Ext 0)), tx_KeyN = (\<lambda>b d. Inl (Ext 0)),
     tx_First = (\<lambda>b d. Inl (Ext 0)), tx_Scan = (\<lambda>b d. Inl (Ext 0))\<rparr>"

definition cni_down :: "'w netlink \<Rightarrow> 'w cni_env" where
  "cni_down nl = \<lparr>ce_cloud = cloud_down, ce_kube = kube_down, ce_nl = nl, ce_bolt = bolt_down, ce_version = ''1'',
     ce_numCPU = 4, ce_polls = 30, BoltHandler = (\<lambda>w. (Some (Ext 0), w)), Dial = (\<lambda>w. Inl (Ext 0)),
     GetNodeClient = (\<lambda>w. None), GetNodeCRDClient = (\<lambda>w. None),
     PodNetworkingsGet = (\<lambda>n w. (Inl (Ext 0), w)), PodNetworkingsList = (\<lambda>w. (Inl (Ext 0), w)),
     MetaCPU = (\<lambda>w. Inr ''4''), set_order = rev\<rparr>"

end
