(* ===== verification/Cni_Natgw.thy ===== *)
theory Cni_Natgw
  imports Cni_Records
begin

text \<open>
  \<open>cmd/cnivpc/nat_outgoing.go\<close>: the kernel set of the pod addresses whose outbound traffic the NAT
  gateway translates, and its migration to the pods that run when the feature is enabled. Sets of
  addresses are lists without repetition; the order in which Go walks them is \<open>set_order\<close>. The
  errors that netlink answers for a member that is there and for a set that is not are
  \<open>IPSET_ERR_EXIST\<close> and \<open>Sys ENOENT\<close>.
\<close>

definition IPSET_ERR_EXIST :: gerror where "IPSET_ERR_EXIST = Sys EEXIST"

definition DefaultPodNetworkingName :: string where "DefaultPodNetworkingName = ''default''"

definition AnnotationPodNetworkingName :: string where
  "AnnotationPodNetworkingName = ''network.kubernetes.io/ucloud-pod-networking-name''"

definition AnnotationPodNetworkingDisable :: string where
  "AnnotationPodNetworkingDisable = ''network.kubernetes.io/ucloud-pod-networking-disable''"

definition ensureNATGWOutgoingIPSet :: "'w netlink \<Rightarrow> 'w action" where
  "ensureNATGWOutgoingIPSet nl w =
     (case IpsetCreate nl w of
        (Some e, w1) \<Rightarrow> (Some (Wrap ''main.ensureNATGWOutgoingIPSet create'' e), w1)
      | (None, w1) \<Rightarrow> (None, w1))"

definition natGWOutgoingIPSetEntry :: "string \<Rightarrow> byte list result" where
  "natGWOutgoingIPSetEntry podIP =
     (case ParseIP podIP of
        None \<Rightarrow> Inl (Errors_New ''main.natGWOutgoingIPSetEntry invalid IPv4 address %q'')
      | Some ip \<Rightarrow>
          (case To4 ip of
             None \<Rightarrow> Inl (Errors_New ''main.natGWOutgoingIPSetEntry invalid IPv4 address %q'')
           | Some b \<Rightarrow> Inr b))"

definition syncNATGWOutgoingIP :: "'w netlink \<Rightarrow> string \<Rightarrow> bool \<Rightarrow> 'w \<Rightarrow> bool result \<times> 'w" where
  "syncNATGWOutgoingIP nl podIP natGWOutgoingEnabled w =
     (if \<not> natGWOutgoingEnabled then (Inr False, w)
      else case ensureNATGWOutgoingIPSet nl w of
        (Some e, w1) \<Rightarrow> (Inl e, w1)
      | (None, w1) \<Rightarrow>
          (case natGWOutgoingIPSetEntry podIP of
             Inl e \<Rightarrow> (Inl e, w1)
           | Inr entry \<Rightarrow>
               (case IpsetAdd nl entry w1 of
                  (None, w2) \<Rightarrow> (Inr True, w2)
                | (Some e, w2) \<Rightarrow>
                    if errors_Is e IPSET_ERR_EXIST then (Inr False, w2)
                    else (Inl (Wrap ''main.syncNATGWOutgoingIP add %s'' e), w2))))"

definition deleteNATGWOutgoingIP :: "'w netlink \<Rightarrow> string \<Rightarrow> 'w action" where
  "deleteNATGWOutgoingIP nl podIP w =
     (case natGWOutgoingIPSetEntry podIP of
        Inl e \<Rightarrow> (Some e, w)
      | Inr entry \<Rightarrow>
          (case IpsetDel nl entry w of
             (None, w1) \<Rightarrow> (None, w1)
           | (Some e, w1) \<Rightarrow>
               if errors_Is e (Sys ENOENT) then (None, w1)
               else (Some (Wrap ''main.deleteNATGWOutgoingIP delete %s'' e), w1)))"

section \<open>The target of the migration\<close>

text \<open>The pod a record belongs to, when it runs on the node, is the one recorded and takes part.\<close>

definition selects_natgw :: "(string \<times> string \<rightharpoonup> Pod) \<Rightarrow> (string \<rightharpoonup> bool) \<Rightarrow> PodNetwork \<Rightarrow> bool" where
  "selects_natgw podsByName policies network =
     (case podsByName (pn_PodNS network, pn_PodName network) of
        None \<Rightarrow> False
      | Some pod \<Rightarrow>
          if pn_PodUID network \<noteq> [] \<and> pn_PodUID network \<noteq> pod_UID pod then False
          else if map_get (pod_Annotations pod) AnnotationPodNetworkingDisable = ''true'' then False
          else let name = map_get (pod_Annotations pod) AnnotationPodNetworkingName in
            (case policies (if name = [] then DefaultPodNetworkingName else name) of
               None \<Rightarrow> False
             | Some enabled \<Rightarrow> enabled))"

definition add_desired ::
  "(string \<times> string \<rightharpoonup> Pod) \<Rightarrow> (string \<rightharpoonup> bool) \<Rightarrow> PodNetwork \<Rightarrow> string list \<Rightarrow> string list" where
  "add_desired podsByName policies network ips =
     (if \<not> selects_natgw podsByName policies network then ips
      else case natGWOutgoingIPSetEntry (pn_VPCIP network) of
        Inl e \<Rightarrow> ips
      | Inr entry \<Rightarrow> List.insert (IP_String entry) ips)"

definition desiredNATGWOutgoingIPs ::
  "PodNetwork list \<Rightarrow> (string \<times> string \<rightharpoonup> Pod) \<Rightarrow> (string \<rightharpoonup> bool) \<Rightarrow> string list" where
  "desiredNATGWOutgoingIPs networks podsByName policies = fold (add_desired podsByName policies) networks []"

definition currentNATGWOutgoingIPs :: "byte list list \<Rightarrow> string list" where
  "currentNATGWOutgoingIPs entries =
     fold (\<lambda>entry ips. case To4 entry of None \<Rightarrow> ips | Some ip \<Rightarrow> List.insert (IP_String ip) ips) entries []"

section \<open>The migration\<close>

definition pods_by_name :: "Pod list \<Rightarrow> string \<times> string \<rightharpoonup> Pod" where
  "pods_by_name pods = fold (\<lambda>pod m. m((pod_Namespace pod, pod_Name pod) \<mapsto> pod)) pods Map.empty"

definition policies_of :: "PodNetworking list \<Rightarrow> string \<rightharpoonup> bool" where
  "policies_of pks = fold (\<lambda>pk m. m(pk_Name pk \<mapsto> pk_NATGWOutgoingEnabled pk)) pks Map.empty"

definition sync_one :: "'w netlink \<Rightarrow> string \<Rightarrow> 'w action" where
  "sync_one nl podIP w = (case syncNATGWOutgoingIP nl podIP True w of (r, w1) \<Rightarrow> (err_of r, w1))"

definition converge :: "'w cni_env \<Rightarrow> string list \<Rightarrow> 'w action" where
  "converge env desired w =
     (case IpsetList (ce_nl env) w of
        Inl e \<Rightarrow> (Some (Wrap ''main.migrateLegacyNATGWOutgoingIPs list current ipset'' e), w)
      | Inr entries \<Rightarrow>
          let current = currentNATGWOutgoingIPs entries;
              toAdd = filter (\<lambda>ip. ip \<notin> set current) desired;
              toDelete = filter (\<lambda>ip. ip \<notin> set desired) current
          in seq (each (sync_one (ce_nl env)) (set_order env toAdd))
                 (each (deleteNATGWOutgoingIP (ce_nl env)) (set_order env toDelete)) w)"

definition migrateLegacyNATGWOutgoingIPs :: "'w cni_env \<Rightarrow> string \<Rightarrow> 'w action" where
  "migrateLegacyNATGWOutgoingIPs env node w =
     (if node = [] then (Some (Errors_New ''main.migrateLegacyNATGWOutgoingIPs missing node name''), w)
      else case listPodNetworkRecords env w of
        (Inl e, w1) \<Rightarrow> (Some e, w1)
      | (Inr networks, w1) \<Rightarrow>
          (case GetNodeClient env w1 of
             Some e \<Rightarrow> (Some (Wrap ''main.migrateLegacyNATGWOutgoingIPs get Kubernetes client'' e), w1)
           | None \<Rightarrow>
          (case PodsListOnNode (ce_kube env) node w1 of
             (Inl e, w2) \<Rightarrow> (Some (Wrap ''main.migrateLegacyNATGWOutgoingIPs list Pods on node %s'' e), w2)
           | (Inr pods, w2) \<Rightarrow>
          (case GetNodeCRDClient env w2 of
             Some e \<Rightarrow> (Some (Wrap ''main.migrateLegacyNATGWOutgoingIPs get CRD client'' e), w2)
           | None \<Rightarrow>
          (case PodNetworkingsList env w2 of
             (Inl e, w3) \<Rightarrow> (Some (Wrap ''main.migrateLegacyNATGWOutgoingIPs list PodNetworkings'' e), w3)
           | (Inr pks, w3) \<Rightarrow>
               converge env (desiredNATGWOutgoingIPs networks (pods_by_name pods) (policies_of pks)) w3)))))"

end
