(* ===== verification/Cni_Rpc.thy ===== *)
theory Cni_Rpc
  imports Cni_Natgw Ipamd_Rpc
begin

text \<open>
  \<open>cmd/cnivpc/rpc.go\<close>: how the plugin gets an address for a pod and gives it back. It asks the
  daemon when that answers a ping and knows several subnets, else it calls the VPC service itself; on a node
  with a pod networking it first attaches and configures a network interface in one of its subnets.
  The process keeps its metadata, so the state is \<open>'w proc\<close>; dereferencing metadata that failed to load
  is the error \<open>Panic\<close>.
\<close>

section \<open>On the process state\<close>

definition in_world :: "('w \<Rightarrow> 'r \<times> 'w) \<Rightarrow> 'w proc \<Rightarrow> 'r \<times> 'w proc" where
  "in_world f p = (case f (world p) of (r, w1) \<Rightarrow> (r, p\<lparr>world := w1\<rparr>))"

definition client_or_panic :: "'w cni_env \<Rightarrow> 'w proc \<Rightarrow> ApiClient result \<times> 'w proc" where
  "client_or_panic env p =
     (case NewClient (ce_cloud env) (ce_version env) p of
        (None, p1) \<Rightarrow> (Inl Panic, p1)
      | (Some r, p1) \<Rightarrow> (r, p1))"

text \<open>A client of the API together with one of the VPC service.\<close>

definition both_clients :: "'w cni_env \<Rightarrow> (gerror \<Rightarrow> gerror) \<Rightarrow> (gerror \<Rightarrow> gerror) \<Rightarrow>
    'w proc \<Rightarrow> (ApiClient \<times> client) result \<times> 'w proc" where
  "both_clients env f g p =
     (case client_or_panic env p of
        (Inl e, p1) \<Rightarrow> (Inl (f e), p1)
      | (Inr c, p1) \<Rightarrow>
          (case in_world (service_client (ce_cloud env) c) p1 of
             (Inl e, p2) \<Rightarrow> (Inl (g e), p2)
           | (Inr cli, p2) \<Rightarrow> (Inr (c, cli), p2)))"

abbreviation Errorf1 :: "string \<Rightarrow> gerror \<Rightarrow> gerror" where
  "Errorf1 m e \<equiv> Errorf m (Some e)"

definition node_view :: "'w netlink \<Rightarrow> 'w \<Rightarrow> netlink_view" where
  "node_view nl w dev =
     (case LinkByName nl dev w of
        Inl e \<Rightarrow> Inl e
      | Inr (n, hw) \<Rightarrow>
          Inr (hw, case AddrList nl n w of Inl e \<Rightarrow> Inl e | Inr as \<Rightarrow> Inr (map (\<lambda>a. IP_String (net_IP a)) as)))"

definition master_interface :: "'w cni_env \<Rightarrow> 'w proc \<Rightarrow> string result \<times> 'w proc" where
  "master_interface env p =
     (case LinkList (ce_nl env) (world p) of
        Inl e \<Rightarrow> (Inr UHostMasterInterface, p)
      | Inr ls \<Rightarrow>
          (case GetMeta (ce_cloud env) p of
             (mr, p1) \<Rightarrow> (case GetMasterInterface (Inr ls) mr of None \<Rightarrow> (Inl Panic, p1) | Some n \<Rightarrow> (Inr n, p1))))"

definition node_mac :: "'w cni_env \<Rightarrow> 'w proc \<Rightarrow> string result \<times> 'w proc" where
  "node_mac env p =
     (case master_interface env p of
        (Inl e, p1) \<Rightarrow> (Inl e, p1)
      | (Inr master, p1) \<Rightarrow> (GetNodeMacAddress (node_view (ce_nl env) (world p1)) master [], p1))"

section \<open>The pod networking of a pod\<close>

definition getPodNetworkingConfig ::
  "'w cni_env \<Rightarrow> string \<Rightarrow> string \<Rightarrow> 'w proc \<Rightarrow> (PodNetworking option \<times> string) result \<times> 'w proc" where
  "getPodNetworkingConfig env podName podNS p =
     (case GetAbility (ce_cloud env) (ce_version env) p of
        (None, p1) \<Rightarrow> (Inl Panic, p1)
      | (Some (Inl e), p1) \<Rightarrow> (Inl (Errorf1 ''failed to get instance ability: %v'' e), p1)
      | (Some (Inr ability), p1) \<Rightarrow>
          if \<not> ab_SupportUNI ability then (Inr (None, []), p1)
          else case in_world (PodsGet (ce_kube env) podNS podName) p1 of
            (Inl e, p2) \<Rightarrow> (Inl (Errorf1 ''failed to get pod %s in namespace %s: %v'' e), p2)
          | (Inr pod, p2) \<Rightarrow>
              if map_get (pod_Annotations pod) AnnotationPodNetworkingDisable = ''true''
              then (Inr (None, pod_NodeName pod), p2)
              else let ann = map_get (pod_Annotations pod) AnnotationPodNetworkingName;
                       pnName = (if ann = [] then DefaultPodNetworkingName else ann) in
                case GetNodeCRDClient env (world p2) of
                  Some e \<Rightarrow> (Inl (Errorf1 ''failed to get crd kube client: %v'' e), p2)
                | None \<Rightarrow>
                    (case in_world (PodNetworkingsGet env pnName) p2 of
                       (Inl e, p3) \<Rightarrow>
                         if kube_reason_of e = Some KNotFound \<and> pnName = DefaultPodNetworkingName
                         then (Inr (None, pod_NodeName pod), p3)
                         else (Inl (Errorf1 ''failed to get podnetworking with name %s: %v'' e), p3)
                     | (Inr podnet, p3) \<Rightarrow>
                         if pk_SubnetIds podnet = [] then (Inl (Errors_New ''podnetworking %s has no subnet''), p3)
                         else if pk_SecurityGroupIds podnet = [] \<and> ab_SecGroup ability
                         then (Inl (Errors_New ''inconsistency error: node has secgroup but podnetworking config has not''), p3)
                         else if pk_SecurityGroupIds podnet \<noteq> [] \<and> \<not> ab_SecGroup ability
                         then (Inr (Some (podnet\<lparr>pk_SecurityGroupIds := []\<rparr>), pod_NodeName pod), p3)
                         else (Inr (Some podnet, pod_NodeName pod), p3)))"

section \<open>The subnet of a network interface\<close>

record subnetAvailableIP =
  sa_id :: string
  sa_availableIPs :: int

definition getSubnetAvailableIPs :: "'w cloud_api \<Rightarrow> client \<Rightarrow> string \<Rightarrow> string \<Rightarrow> 'w \<Rightarrow> int result \<times> 'w" where
  "getSubnetAvailableIPs K cli vpcId subnet w =
     (case DescribeSubnet K cli subnet vpcId w of
        (Inl e, w1) \<Rightarrow> (Inl (Errorf1 ''DescribeSubnet from unetwork api service error: %v'' e), w1)
      | (Inr [], w1) \<Rightarrow> (Inl (Errors_New ''DescribeSubnet %s returned empty DataSet''), w1)
      | (Inr (n # _), w1) \<Rightarrow> (Inr n, w1))"

fun check_subnets ::
  "'w cloud_api \<Rightarrow> client \<Rightarrow> string \<Rightarrow> string list \<Rightarrow> subnetAvailableIP list \<Rightarrow> 'w \<Rightarrow> subnetAvailableIP list \<times> 'w" where
  "check_subnets K cli vpcId [] acc w = (acc, w)"
| "check_subnets K cli vpcId (s # ss) acc w =
     (case getSubnetAvailableIPs K cli vpcId s w of
        (Inl e, w1) \<Rightarrow> check_subnets K cli vpcId ss acc w1
      | (Inr n, w1) \<Rightarrow>
          if n \<le> 0 then check_subnets K cli vpcId ss acc w1
          else check_subnets K cli vpcId ss (acc @ [\<lparr>sa_id = s, sa_availableIPs = n\<rparr>]) w1)"

definition validateSubnetAllocationStrategy :: "string \<Rightarrow> gerror option" where
  "validateSubnetAllocationStrategy strategy =
     (if strategy \<in> {[], ''sequential'', ''balanced''} then None
      else Some (Errors_New ''invalid podnetworking subnet allocation strategy %q''))"

text \<open>\<open>slices.MaxFunc\<close>: the first of the elements that compare greatest.\<close>

fun max_subnet :: "subnetAvailableIP \<Rightarrow> subnetAvailableIP list \<Rightarrow> subnetAvailableIP" where
  "max_subnet m [] = m"
| "max_subnet m (s # ss) = max_subnet (if sa_availableIPs m < sa_availableIPs s then s else m) ss"

definition selectSubnetByAllocationStrategy ::
  "string \<Rightarrow> subnetAvailableIP list \<Rightarrow> subnetAvailableIP option result" where
  "selectSubnetByAllocationStrategy strategy subnets =
     (case validateSubnetAllocationStrategy strategy of
        Some e \<Rightarrow> Inl e
      | None \<Rightarrow>
          (case subnets of
             [] \<Rightarrow> Inr None
           | s # ss \<Rightarrow> if strategy = ''balanced'' then Inr (Some (max_subnet s ss)) else Inr (Some s)))"

definition formatSubnetAvailableIPs :: "subnetAvailableIP list \<Rightarrow> string" where
  "formatSubnetAvailableIPs subnets =
     (if subnets = [] then ''none''
      else Join (map (\<lambda>s. sa_id s @ ''='' @ Itoa (sa_availableIPs s)) subnets) '', '')"

section \<open>Network interfaces\<close>

definition prioritySecGroup :: "string list \<Rightarrow> (nat \<times> string) list" where
  "prioritySecGroup ids = (let gs = filter (\<lambda>g. HasPrefix g ''secgroup-'') ids in zip [1..<Suc (length gs)] gs)"

definition createNetworkInterface ::
  "'w cloud_api \<Rightarrow> client \<Rightarrow> string \<Rightarrow> string \<Rightarrow> string list \<Rightarrow> 'w \<Rightarrow> NetworkInterface result \<times> 'w" where
  "createNetworkInterface K cli vpcId subnet secGroupIds w =
     (let gs = prioritySecGroup secGroupIds in
      case CreateNetworkInterface K cli \<lparr>cu_VPCId = vpcId, cu_SubnetId = subnet, cu_PrioritySecGroup = gs,
             cu_SecurityMode = (if gs = [] then None else Some 1)\<rparr> w of
        (Inl e, w1) \<Rightarrow> (Inl (Errorf1 ''CreateNetworkInterface from unetwork api service error: %v'' e), w1)
      | (Inr (code, ni), w1) \<Rightarrow>
          if code \<noteq> 0 then (Inl (Errors_New ''CreateNetworkInterface from unetwork api error %d: %s, %s''), w1)
          else (Inr ni, w1))"

definition deleteNetworkInterface :: "'w cloud_api \<Rightarrow> client \<Rightarrow> string \<Rightarrow> 'w \<Rightarrow> 'w" where
  "deleteNetworkInterface K cli interfaceId w = snd (DeleteNetworkInterface K cli interfaceId w)"

definition describeNetworkInterface ::
  "'w cloud_api \<Rightarrow> client \<Rightarrow> string \<Rightarrow> 'w \<Rightarrow> NetworkInterface result \<times> 'w" where
  "describeNetworkInterface K cli interfaceId w =
     (case DescribeNetworkInterface K cli interfaceId w of
        (Inl e, w1) \<Rightarrow> (Inl (Errorf1 ''DescribeNetworkInterface from unetwork api service error: %v'' e), w1)
      | (Inr (code, nis), w1) \<Rightarrow>
          if code \<noteq> 0 then (Inl (Errors_New ''DescribeNetworkInterface from unetwork api error %d: %s''), w1)
          else (case nis of
                  [] \<Rightarrow> (Inl (Errors_New ''DescribeNetworkInterface %s returned empty NetworkInterfaceSet''), w1)
                | ni # _ \<Rightarrow> (Inr ni, w1)))"

definition attachNetworkInterface :: "'w cloud_api \<Rightarrow> client \<Rightarrow> string \<Rightarrow> string \<Rightarrow> 'w action" where
  "attachNetworkInterface K cli interfaceId instanceId w =
     (case AttachNetworkInterface K cli interfaceId instanceId w of
        (Inl e, w1) \<Rightarrow> (Some (Errorf1 ''AttachNetworkInterface from unetwork api service error: %v'' e), w1)
      | (Inr code, w1) \<Rightarrow>
          let failed = (if code \<noteq> 0 then Some (Errors_New ''AttachNetworkInterface from unetwork api error %d: %s'') else None) in
          if code = 58205 then
            (case describeNetworkInterface K cli interfaceId w1 of
               (Inr ni, w2) \<Rightarrow> if ni_AttachInstanceId ni = instanceId then (None, w2) else (failed, w2)
             | (Inl e, w2) \<Rightarrow> (failed, w2))
          else (failed, w1))"

definition uni_of_subnet :: "string \<Rightarrow> Metadata \<Rightarrow> MDNetworkInterface option" where
  "uni_of_subnet subnetId md = List.find (\<lambda>i. mi_SubnetId i = subnetId \<and> \<not> mi_Default i) (mh_NetworkInterfaces (md_UHost md))"

text \<open>
  The polling of the metadata server for the new interface, at most \<open>n\<close> times before the timeout. A
  reload that fails leaves the metadata as they were.
\<close>

fun poll_uni :: "'w cni_env \<Rightarrow> string \<Rightarrow> nat \<Rightarrow> 'w proc \<Rightarrow> string option \<times> 'w proc" where
  "poll_uni env subnetId 0 p = (None, p)"
| "poll_uni env subnetId (Suc n) p =
     (case ReloadMeta (ce_cloud env) p of
        ((Some md, None), p1) \<Rightarrow>
          (case uni_of_subnet subnetId md of
             Some i \<Rightarrow> (Some (mi_Id i), p1)
           | None \<Rightarrow> poll_uni env subnetId n p1)
      | (_, p1) \<Rightarrow> poll_uni env subnetId n p1)"

text \<open>
  \<open>ensureSubnetUNI\<close>. The deferred function describes the interface when one was found and its answer
  replaces the result. After the timeout the function returns no interface and no error: \<open>Inr None\<close>.
\<close>

definition described :: "'w cni_env \<Rightarrow> client \<Rightarrow> string \<Rightarrow> 'w proc \<Rightarrow> NetworkInterface option result \<times> 'w proc" where
  "described env cli interfaceId p =
     (if interfaceId = [] then (Inr None, p)
      else case in_world (describeNetworkInterface (ce_cloud env) cli interfaceId) p of
        (Inl e, p1) \<Rightarrow> (Inl e, p1)
      | (Inr ni, p1) \<Rightarrow> (Inr (Some ni), p1))"

definition new_uni ::
  "'w cni_env \<Rightarrow> client \<Rightarrow> string \<Rightarrow> string \<Rightarrow> string \<Rightarrow> string list \<Rightarrow> 'w proc \<Rightarrow> NetworkInterface option result \<times> 'w proc" where
  "new_uni env cli vpcId instanceId subnetId secGroupIds p =
     (case in_world (createNetworkInterface (ce_cloud env) cli vpcId subnetId secGroupIds) p of
        (Inl e, p1) \<Rightarrow> (Inl e, p1)
      | (Inr newUni, p1) \<Rightarrow>
          let delete = (\<lambda>p. p\<lparr>world := deleteNetworkInterface (ce_cloud env) cli (ni_InterfaceId newUni) (world p)\<rparr>) in
          if ni_PrivateIpSet newUni = [] then (Inl (Errors_New ''created new UNI with no ip''), delete p1)
          else case in_world (attachNetworkInterface (ce_cloud env) cli (ni_InterfaceId newUni) instanceId) p1 of
            (Some e, p2) \<Rightarrow> (Inl e, delete p2)
          | (None, p2) \<Rightarrow>
              (case poll_uni env subnetId (ce_polls env) p2 of
                 (None, p3) \<Rightarrow> (Inr None, delete p3)
               | (Some interfaceId, p3) \<Rightarrow> described env cli interfaceId p3))"

definition ensureSubnetUNI ::
  "'w cni_env \<Rightarrow> client \<Rightarrow> string \<Rightarrow> string \<Rightarrow> string list \<Rightarrow> string list \<Rightarrow> string \<Rightarrow>
   'w proc \<Rightarrow> NetworkInterface option result \<times> 'w proc" where
  "ensureSubnetUNI env cli vpcId instanceId subnetIds secGroupIds strategy p =
     (case GetMeta (ce_cloud env) p of
        ((_, Some e), p1) \<Rightarrow> (Inl (Errorf1 ''get metadata error: %v'' e), p1)
      | ((md, None), p1) \<Rightarrow>
          (case in_world (check_subnets (ce_cloud env) cli vpcId subnetIds []) p1 of
             (available, p2) \<Rightarrow>
               (case selectSubnetByAllocationStrategy strategy available of
                  Inl e \<Rightarrow> (Inl e, p2)
                | Inr None \<Rightarrow> (Inl (Errors_New ''no available subnet in %v''), p2)
                | Inr (Some selected) \<Rightarrow>
                    (case md of
                       None \<Rightarrow> (Inl Panic, p2)
                     | Some m \<Rightarrow>
                         (case uni_of_subnet (sa_id selected) m of
                            Some i \<Rightarrow> described env cli (mi_Id i) p2
                          | None \<Rightarrow>
                              if GetNodeUNILimits (MetaCPU env (world p2)) (ce_numCPU env)
                                   \<le> length (mh_NetworkInterfaces (md_UHost m))
                              then (Inl (Errors_New ''cannot attach more than %d UNI to %v''), p2)
                              else new_uni env cli vpcId instanceId (sa_id selected) secGroupIds p2)))))"

text \<open>
  \<open>initPodNetworking\<close> configures the interface. It dereferences the interface it was given
  and takes its first address.
\<close>

definition configure_uni ::
  "'w cni_env \<Rightarrow> PodNetworking \<Rightarrow> string \<Rightarrow> string \<Rightarrow> string \<Rightarrow> 'w action" where
  "configure_uni env pnConfig node primaryIP masterIface =
     (let nl = ce_nl env in
      seq (fmt_err ''failed to ensure master interface rp_filter: %v'' (ensureMasterInterfaceRpFilter nl masterIface))
     (seq (\<lambda>w. case newIptablesRulesManager nl primaryIP masterIface w of
             Inl e \<Rightarrow> (Some e, w)
           | Inr m \<Rightarrow> updateRules m (ensureNATGWOutgoingIPSet nl) (migrateLegacyNATGWOutgoingIPs env node)
                        (pk_NATGWOutgoingEnabled pnConfig) w)
          (fmt_err ''failed to ensure connmark rule: %v'' (ensureConnmarkRule nl))))"

definition initPodNetworking ::
  "'w cni_env \<Rightarrow> PodNetworking \<Rightarrow> string \<Rightarrow> 'w proc \<Rightarrow> NetworkInterface result \<times> 'w proc" where
  "initPodNetworking env pnConfig node p =
     (case both_clients env (Errorf1 ''failed to init uapi client: %v'') (Errorf1 ''failed to init vpc client: %v'') p of
        (Inl e, p1) \<Rightarrow> (Inl e, p1)
      | (Inr (c, cli), p1) \<Rightarrow>
          (case ensureSubnetUNI env cli (ac_vpcId c) (ac_instanceId c) (pk_SubnetIds pnConfig)
                  (pk_SecurityGroupIds pnConfig) (pk_Strategy pnConfig) p1 of
             (Inl e, p2) \<Rightarrow> (Inl (Errorf1 ''failed to ensure UNI attached: %v'' e), p2)
           | (Inr None, p2) \<Rightarrow> (Inl Panic, p2)
           | (Inr (Some ni), p2) \<Rightarrow>
               (case ni_PrivateIpSet ni of
                  [] \<Rightarrow> (Inl Panic, p2)
                | primary # _ \<Rightarrow>
                    (case GetMeta (ce_cloud env) p2 of
                       (mr, p3) \<Rightarrow>
                    (case in_world (ensureUNIPrimaryIPRoute (ce_nl env) (ce_numCPU env) mr primary
                              (ni_MacAddress ni) (ni_Gateway ni) (ni_Netmask ni)) p3 of
                       (Some e, p4) \<Rightarrow> (Inl e, p4)
                     | (None, p4) \<Rightarrow>
                    (case master_interface env p4 of
                       (Inl e, p5) \<Rightarrow> (Inl e, p5)
                     | (Inr master, p5) \<Rightarrow>
                    (case GetNodeAddress (node_view (ce_nl env) (world p5)) master [] of
                       Inl e \<Rightarrow> (Inl (Errorf1 ''failed to get master interface addr: %v'' e), p5)
                     | Inr (primaryIP, hw) \<Rightarrow>
                         (case in_world (configure_uni env pnConfig node primaryIP master) p5 of
                            (Some e, p6) \<Rightarrow> (Inl e, p6)
                          | (None, p6) \<Rightarrow> (Inr ni, p6)))))))))"

section \<open>Addresses from the VPC service\<close>

definition object_id_or_instance :: "'w cni_env \<Rightarrow> ApiClient \<Rightarrow> 'w proc \<Rightarrow> string result \<times> 'w proc" where
  "object_id_or_instance env c p =
     (case GetObjectIDForSecondaryIP (ce_cloud env) (ce_version env) p of
        (None, p1) \<Rightarrow> (Inl Panic, p1)
      | (Some (Inl e), p1) \<Rightarrow> (Inr (ac_instanceId c), p1)
      | (Some (Inr oid), p1) \<Rightarrow> (Inr oid, p1))"

text \<open>Where the address goes: subnet, owner and hardware address.\<close>

definition allocation_target ::
  "'w cni_env \<Rightarrow> ApiClient \<Rightarrow> NetworkInterface option \<Rightarrow> 'w proc \<Rightarrow> (string \<times> string \<times> string) result \<times> 'w proc" where
  "allocation_target env c uni p =
     (case uni of
        Some ni \<Rightarrow> (Inr (ni_SubnetId ni, ni_InterfaceId ni, ni_MacAddress ni), p)
      | None \<Rightarrow>
          (case node_mac env p of
             (Inl e, p1) \<Rightarrow> (Inl (Errorf1 ''failed to get addr: %v'' e), p1)
           | (Inr mac, p1) \<Rightarrow>
               (case object_id_or_instance env c p1 of
                  (Inl e, p2) \<Rightarrow> (Inl e, p2)
                | (Inr oid, p2) \<Rightarrow> (Inr (ac_subnetId c, oid, mac), p2))))"

definition allocateSecondaryIP ::
  "'w cni_env \<Rightarrow> NetworkInterface option \<Rightarrow> string \<Rightarrow> string \<Rightarrow> string \<Rightarrow> 'w proc \<Rightarrow> PodNetwork result \<times> 'w proc" where
  "allocateSecondaryIP env uni podName podNS sandboxID p =
     (case both_clients env (Errorf1 ''failed to init uapi client: %v'') (Errorf1 ''failed to init vpc client: %v'') p of
        (Inl e, p1) \<Rightarrow> (Inl e, p1)
      | (Inr (c, cli), p1) \<Rightarrow>
          (case allocation_target env c uni p1 of
             (Inl e, p2) \<Rightarrow> (Inl e, p2)
           | (Inr (subnetId, objectId, macAddr), p2) \<Rightarrow>
               (case in_world (AllocateSecondaryIp (ce_cloud env) cli
                       \<lparr>al_Mac = macAddr, al_Ip = None, al_ObjectId = objectId, al_Zone = ac_zoneId c, al_VPCId = ac_vpcId c,
                        al_SubnetId = subnetId\<rparr>) p2 of
                  ((resp, Some e), p3) \<Rightarrow> (Inl (Errorf1 ''failed to call api: %v'' e), p3)
                | ((resp, None), p3) \<Rightarrow>
                    (case in_world (TimeNow (ce_cloud env)) p3 of
                       (now, p4) \<Rightarrow>
                         let ip = alr_IpInfo resp in
                         (Inr (PodNetwork_zero\<lparr>pn_PodName := podName, pn_PodNS := podNS, pn_SandboxID := sandboxID,
                             pn_DedicatedUNI := False, pn_VPCIP := ii_Ip ip, pn_VPCID := ii_VPCId ip,
                             pn_SubnetID := ii_SubnetId ip, pn_Gateway := ii_Gateway ip, pn_Mask := ii_Mask ip,
                             pn_MacAddress := ii_Mac ip, pn_CreateTime := now,
                             pn_InterfaceID := (if HasPrefix objectId ''uni-'' then objectId else [])\<rparr>), p4)))))"

definition checkSecondaryIPExist ::
  "'w cni_env \<Rightarrow> string \<Rightarrow> string \<Rightarrow> string \<Rightarrow> 'w proc \<Rightarrow> bool result \<times> 'w proc" where
  "checkSecondaryIPExist env ip mac subnet p =
     (case both_clients env (\<lambda>e. e) (\<lambda>e. e) p of
        (Inl e, p1) \<Rightarrow> (Inl e, p1)
      | (Inr (c, cli), p1) \<Rightarrow>
          (case in_world (DescribeSecondaryIp (ce_cloud env) cli
                  \<lparr>de_Ip = ip, de_Mac = Some mac, de_Zone = Some (ac_zoneId c), de_VPCId = ac_vpcId c,
                   de_SubnetId = subnet\<rparr>) p1 of
             (Inl e, p2) \<Rightarrow> (Inl e, p2)
           | (Inr dataSet, p2) \<Rightarrow> (Inr (dataSet \<noteq> []), p2)))"

definition delete_secondary ::
  "'w cni_env \<Rightarrow> PodNetwork \<Rightarrow> 'w proc \<Rightarrow> gerror option \<times> 'w proc" where
  "delete_secondary env pn p =
     (case both_clients env (\<lambda>e. e) (\<lambda>e. e) p of
        (Inl e, p1) \<Rightarrow> (Some e, p1)
      | (Inr (c, cli), p1) \<Rightarrow>
          (case (if pn_InterfaceID pn = [] then object_id_or_instance env c p1 else (Inr (pn_InterfaceID pn), p1)) of
             (Inl e, p2) \<Rightarrow> (Some e, p2)
           | (Inr objectId, p2) \<Rightarrow>
               (case in_world (DeleteSecondaryIp (ce_cloud env) cli
                       \<lparr>dl_Zone = Some (ac_zoneId c), dl_Mac = pn_MacAddress pn, dl_Ip = pn_VPCIP pn,
                        dl_ObjectId = Some objectId, dl_VPCId = pn_VPCID pn, dl_SubnetId = pn_SubnetID pn\<rparr>) p2 of
                  ((code, Some e), p3) \<Rightarrow> if code = UAPIErrorIPNotExst then (None, p3) else (Some e, p3)
                | ((code, None), p3) \<Rightarrow> (None, p3))))"

definition deallocateSecondaryIP :: "'w cni_env \<Rightarrow> PodNetwork \<Rightarrow> 'w proc \<Rightarrow> gerror option \<times> 'w proc" where
  "deallocateSecondaryIP env pn p =
     (case (if pn_MacAddress pn = [] then node_mac env p else (Inr (pn_MacAddress pn), p)) of
        (Inl e, p1) \<Rightarrow> (Some (Errorf1 ''cannot get default mac address %v'' e), p1)
      | (Inr mac, p1) \<Rightarrow>
          let pn1 = pn\<lparr>pn_MacAddress := mac\<rparr> in
          (case checkSecondaryIPExist env (pn_VPCIP pn1) (pn_MacAddress pn1) (pn_SubnetID pn1) p1 of
             (Inl e, p2) \<Rightarrow> (Some (Errorf1 ''cannot find secondary ip %s, %v'' e), p2)
           | (Inr ex, p2) \<Rightarrow> if \<not> ex then (None, p2) else delete_secondary env pn1 p2))"

section \<open>Addresses from the daemon\<close>

definition allocateSecondaryIPFromIpamd ::
  "'w ipamd_client \<Rightarrow> NetworkInterface option \<Rightarrow> string \<Rightarrow> string \<Rightarrow> string \<Rightarrow> string \<Rightarrow> 'w \<Rightarrow>
   PodNetwork option result \<times> 'w" where
  "allocateSecondaryIPFromIpamd c uni podName podNS netNS sandboxID w =
     (case c_AddPodNetwork c
            \<lparr>ar_PodName = podName, ar_PodNamespace = podNS, ar_SandboxID = sandboxID, ar_Netns = netNS, ar_IfName = [],
             ar_SubnetID = (case uni of None \<Rightarrow> [] | Some ni \<Rightarrow> ni_SubnetId ni),
             ar_MacAddress = (case uni of None \<Rightarrow> [] | Some ni \<Rightarrow> ni_MacAddress ni),
             ar_InterfaceID = (case uni of None \<Rightarrow> [] | Some ni \<Rightarrow> ni_InterfaceId ni)\<rparr> w of
        (Inl e, w1) \<Rightarrow> (Inl e, w1)
      | (Inr r, w1) \<Rightarrow>
          if as_Code r \<noteq> CNISuccess then (Inl (Errors_New ''gRPC AddPodNetwork failed, code %v''), w1)
          else (Inr (as_PodNetwork r), w1))"

definition deallocateSecondaryIPFromIpamd :: "'w ipamd_client \<Rightarrow> PodNetwork \<Rightarrow> 'w action" where
  "deallocateSecondaryIPFromIpamd c pn w =
     (case c_DelPodNetwork c \<lparr>dr_PodNetwork = Some pn\<rparr> w of
        (Inl e, w1) \<Rightarrow> (Some e, w1)
      | (Inr code, w1) \<Rightarrow>
          if code \<noteq> CNISuccess then (Some (Errors_New ''DelPodNetwork Code %v''), w1) else (None, w1))"

section \<open>Either\<close>

definition releasePodIp :: "'w cni_env \<Rightarrow> PodNetwork \<Rightarrow> 'w proc \<Rightarrow> gerror option \<times> 'w proc" where
  "releasePodIp env pn p =
     (case in_world (multi_ipamd env) p of
        (Some c, p1) \<Rightarrow> in_world (deallocateSecondaryIPFromIpamd c pn) p1
      | (None, p1) \<Rightarrow> deallocateSecondaryIP env pn p1)"

record podIPAssignment =
  network :: "PodNetwork option" \<comment> \<open>a pointer of the daemon's answer\<close>
  fromIPAMD :: bool
  natGWOutgoingEnabled :: bool

definition uni_of_config ::
  "'w cni_env \<Rightarrow> PodNetworking option \<Rightarrow> string \<Rightarrow> 'w proc \<Rightarrow> NetworkInterface option result \<times> 'w proc" where
  "uni_of_config env pnConfig node p =
     (case pnConfig of
        None \<Rightarrow> (Inr None, p)
      | Some cfg \<Rightarrow>
          (case initPodNetworking env cfg node p of (Inl e, p1) \<Rightarrow> (Inl e, p1) | (Inr ni, p1) \<Rightarrow> (Inr (Some ni), p1)))"

definition assign_without_ipamd ::
  "'w cni_env \<Rightarrow> NetworkInterface option \<Rightarrow> bool \<Rightarrow> string \<Rightarrow> string \<Rightarrow> string \<Rightarrow> 'w proc \<Rightarrow>
   podIPAssignment result \<times> 'w proc" where
  "assign_without_ipamd env uni natgw podName podNS sandboxId p =
     (case in_world (IsPodEnableStaticIP (ce_kube env) podName podNS) p of
        (Inl e, p1) \<Rightarrow> (Inl (Errorf1 ''failed to check pod static ip enable: %v'' e), p1)
      | (Inr (enableStaticIP, pod), p1) \<Rightarrow>
          if enableStaticIP then (Inl (Errors_New ''pod %s/%s enable static ip, but ipamd is not enabled''), p1)
          else case allocateSecondaryIP env uni podName podNS sandboxId p1 of
            (Inl e, p2) \<Rightarrow> (Inl (Errorf1 ''failed to setup secondary ip: %v'' e), p2)
          | (Inr ip, p2) \<Rightarrow> (Inr \<lparr>network = Some ip, fromIPAMD = False, natGWOutgoingEnabled = natgw\<rparr>, p2))"

definition assignPodIp ::
  "'w cni_env \<Rightarrow> string \<Rightarrow> string \<Rightarrow> string \<Rightarrow> string \<Rightarrow> 'w proc \<Rightarrow> podIPAssignment result \<times> 'w proc" where
  "assignPodIp env podName podNS netNS sandboxId p =
     (case GetNodeClient env (world p) of
        Some e \<Rightarrow> (Inl (Errorf1 ''failed to get node kube client: %v'' e), p)
      | None \<Rightarrow>
     (case getPodNetworkingConfig env podName podNS p of
        (Inl e, p1) \<Rightarrow> (Inl e, p1)
      | (Inr (pnConfig, node), p1) \<Rightarrow>
     (case uni_of_config env pnConfig node p1 of
        (Inl e, p2) \<Rightarrow> (Inl e, p2)
      | (Inr uni, p2) \<Rightarrow>
          let natgw = (case pnConfig of None \<Rightarrow> False | Some cfg \<Rightarrow> pk_NATGWOutgoingEnabled cfg) in
          (case in_world (multi_ipamd env) p2 of
             (Some c, p3) \<Rightarrow>
               (case in_world (allocateSecondaryIPFromIpamd c uni podName podNS netNS sandboxId) p3 of
                  (Inl e, p4) \<Rightarrow> (Inl (Errorf1 ''failed to call ipamd: %v'' e), p4)
                | (Inr ip, p4) \<Rightarrow> (Inr \<lparr>network = ip, fromIPAMD = True, natGWOutgoingEnabled = natgw\<rparr>, p4))
           | (None, p3) \<Rightarrow> assign_without_ipamd env uni natgw podName podNS sandboxId p3))))"

section \<open>Recording a network\<close>

definition addPodNetworkRecordLocal ::
  "'w cni_env \<Rightarrow> string \<Rightarrow> string \<Rightarrow> string \<Rightarrow> PodNetwork \<Rightarrow> 'w proc \<Rightarrow> gerror option \<times> 'w proc" where
  "addPodNetworkRecordLocal env podName podNS sandBoxID pn p =
     (case in_world (accessToPodNetworkDB env) p of
        (Inl e, p1) \<Rightarrow> (Some e, snd (releasePodIp env pn p1))
      | (Inr db, p1) \<Rightarrow> in_world (Bolt_Put (ce_bolt env) PodNetwork_codec db (PodKey podName podNS sandBoxID) pn) p1)"

definition addPodNetworkRecord ::
  "'w cni_env \<Rightarrow> string \<Rightarrow> string \<Rightarrow> string \<Rightarrow> PodNetwork \<Rightarrow> 'w proc \<Rightarrow> gerror option \<times> 'w proc" where
  "addPodNetworkRecord env podName podNS sandBoxID pn p =
     (case in_world (live_ipamd env) p of
        (Some c, p1) \<Rightarrow> in_world (addPodNetworkRecordFromIpamd c pn) p1
      | (None, p1) \<Rightarrow> addPodNetworkRecordLocal env podName podNS sandBoxID pn p1)"

end
