(* ===== verification/Cni_Rpc_Props.thy ===== *)
theory Cni_Rpc_Props
  imports Cni_Rpc
begin

text \<open>
  The address functions of the plugin: which subnet a network interface goes to, that a new interface which is
  not used is taken back (over the locale \<open>uni_api\<close>, the documented behaviour of the VPC service's
  interfaces), and who may give an address to a pod.
\<close>

section \<open>Which subnet\<close>

text \<open>The addresses a subnet can still give, none when it could not be asked.\<close>

definition room :: "(string \<Rightarrow> int result) \<Rightarrow> string \<Rightarrow> int" where
  "room ans s = (case ans s of Inl e \<Rightarrow> 0 | Inr n \<Rightarrow> max 0 n)"

definition offers :: "(string \<Rightarrow> int result) \<Rightarrow> string list \<Rightarrow> subnetAvailableIP list" where
  "offers ans ss = concat (map (\<lambda>s. if room ans s > 0 then [\<lparr>sa_id = s, sa_availableIPs = room ans s\<rparr>] else []) ss)"

lemma offers_simps [simp]:
  "offers ans [] = []"
  "offers ans (s # ss) = (if room ans s > 0 then [\<lparr>sa_id = s, sa_availableIPs = room ans s\<rparr>] else []) @ offers ans ss"
  by (simp_all add: offers_def)

lemma check_subnets_offers:
  assumes "\<And>s w. fst (getSubnetAvailableIPs K cli vpcId s w) = ans s"
  shows "fst (check_subnets K cli vpcId ss acc w) = acc @ offers ans ss"
proof (induction ss arbitrary: acc w)
  case (Cons s ss)
  obtain w1 where "getSubnetAvailableIPs K cli vpcId s w = (ans s, w1)"
    using assms [of s w] by (cases "getSubnetAvailableIPs K cli vpcId s w") auto
  with Cons show ?case by (cases "ans s") (simp_all add: room_def)
qed simp

lemma offers_split:
  "offers ans ss = bs @ x # as \<Longrightarrow>
    \<exists>before after. ss = before @ sa_id x # after \<and> offers ans before = bs \<and> offers ans after = as \<and>
      room ans (sa_id x) = sa_availableIPs x \<and> 0 < sa_availableIPs x"
proof (induction ss arbitrary: bs)
  case (Cons s ss)
  show ?case
  proof (cases "room ans s > 0 \<and> bs = []")
    case True
    with Cons.prems have "x = \<lparr>sa_id = s, sa_availableIPs = room ans s\<rparr>" "offers ans ss = as" by auto
    with True show ?thesis by (intro exI [of _ "[]"] exI [of _ ss]) simp
  next
    case False
    let ?h = "if room ans s > 0 then [\<lparr>sa_id = s, sa_availableIPs = room ans s\<rparr>] else []"
    from False Cons.prems obtain bs' where b: "bs = ?h @ bs'" "offers ans ss = bs' @ x # as"
      by (cases bs; cases "room ans s > 0") auto
    from Cons.IH [OF b(2)] obtain before after where "ss = before @ sa_id x # after"
      "offers ans before = bs'" "offers ans after = as" "room ans (sa_id x) = sa_availableIPs x"
      "0 < sa_availableIPs x" by blast
    with b(1) show ?thesis by (intro exI [of _ "s # before"] exI [of _ after]) simp
  qed
qed simp

lemma offers_bound:
  "\<forall>x\<in>set (offers ans ss). sa_availableIPs x \<le> m \<Longrightarrow> 0 \<le> m \<Longrightarrow> s \<in> set ss \<Longrightarrow> room ans s \<le> m"
  by (induction ss) (simp, force)

lemma max_subnet_split:
  "\<exists>bs as. m # ss = bs @ max_subnet m ss # as \<and>
     (\<forall>x\<in>set bs. sa_availableIPs x < sa_availableIPs (max_subnet m ss)) \<and>
     (\<forall>x\<in>set as. sa_availableIPs x \<le> sa_availableIPs (max_subnet m ss))"
proof (induction ss arbitrary: m)
  case Nil
  show ?case by (intro exI [of _ "[]"]) simp
next
  case (Cons s ss)
  let ?n = "if sa_availableIPs m < sa_availableIPs s then s else m"
  let ?M = "max_subnet ?n ss"
  from Cons [of ?n] obtain bs as where d: "?n # ss = bs @ ?M # as"
      "\<forall>x\<in>set bs. sa_availableIPs x < sa_availableIPs ?M" "\<forall>x\<in>set as. sa_availableIPs x \<le> sa_availableIPs ?M"
    by blast
  have n: "sa_availableIPs ?n \<le> sa_availableIPs ?M" using d by (cases bs) auto
  show ?case
  proof (cases bs)
    case Nil
    with d have M: "?M = ?n" "ss = as" by auto
    show ?thesis
    proof (cases "sa_availableIPs m < sa_availableIPs s")
      case True
      with M d(3) show ?thesis by (intro exI [of _ "[m]"] exI [of _ as]) simp
    next
      case False
      with M d(3) show ?thesis by (intro exI [of _ "[]"] exI [of _ "s # as"]) auto
    qed
  next
    case (Cons b bs')
    with d have b: "b = ?n" "ss = bs' @ ?M # as" by auto
    with Cons d(2) have "sa_availableIPs ?n < sa_availableIPs ?M" by simp
    then have "\<forall>x\<in>{m, s}. sa_availableIPs x < sa_availableIPs ?M" by auto
    with b d Cons show ?thesis by (intro exI [of _ "m # s # bs'"] exI [of _ as]) simp
  qed
qed

text \<open>The fullest subnet among those that offer addresses.\<close>

lemma room_nonneg: "0 \<le> room ans s"
  by (simp add: room_def split: sum.splits)

lemma fullest_subnet:
  assumes "offers ans subnetIds = x # xs"
  shows "\<exists>before after. subnetIds = before @ sa_id (max_subnet x xs) # after \<and>
    room ans (sa_id (max_subnet x xs)) = sa_availableIPs (max_subnet x xs) \<and> 0 < sa_availableIPs (max_subnet x xs) \<and>
    (\<forall>s\<in>set before. room ans s < sa_availableIPs (max_subnet x xs)) \<and> (\<forall>s\<in>set after. room ans s \<le> sa_availableIPs (max_subnet x xs))"
proof -
  let ?M = "max_subnet x xs"
  obtain bs as where d: "offers ans subnetIds = bs @ ?M # as"
      "\<forall>y\<in>set bs. sa_availableIPs y < sa_availableIPs ?M" "\<forall>y\<in>set as. sa_availableIPs y \<le> sa_availableIPs ?M"
    using max_subnet_split [of x xs] assms by auto
  from offers_split [OF d(1)] obtain before after where
    s: "subnetIds = before @ sa_id ?M # after" "offers ans before = bs" "offers ans after = as"
      "room ans (sa_id ?M) = sa_availableIPs ?M" "0 < sa_availableIPs ?M" by blast
  have "room ans t < sa_availableIPs ?M" if "t \<in> set before" for t
    using offers_bound [of ans before "sa_availableIPs ?M - 1" t] d(2) s(2,5) that by force
  moreover have "room ans t \<le> sa_availableIPs ?M" if "t \<in> set after" for t
    using offers_bound [of ans after "sa_availableIPs ?M" t] d(3) s(3,5) that by force
  ultimately show ?thesis using s by blast
qed

text \<open>C26. The subnet of a pod networking's interface.

  Let \<open>ans\<close> be what the VPC service answers for each subnet. Among the subnets of the pod networking, checked in
  order, \<open>selectSubnetByAllocationStrategy\<close> takes the first with a free address, or under the strategy
  \<open>balanced\<close> one with the most free addresses, the first of those. It finds none exactly when no subnet has a
  free address, and fails exactly for a strategy it does not know.
\<close>

theorem subnet_selection:
  assumes "\<And>s w. fst (getSubnetAvailableIPs K cli vpcId s w) = ans s"
    and "check_subnets K cli vpcId subnetIds [] w = (available, w')"
  shows "case selectSubnetByAllocationStrategy strategy available of
      Inl e \<Rightarrow> strategy \<notin> {[], ''sequential'', ''balanced''}
    | Inr None \<Rightarrow> strategy \<in> {[], ''sequential'', ''balanced''} \<and> (\<forall>s\<in>set subnetIds. room ans s = 0)
    | Inr (Some sel) \<Rightarrow> strategy \<in> {[], ''sequential'', ''balanced''} \<and>
        (\<exists>before after. subnetIds = before @ sa_id sel # after \<and>
           room ans (sa_id sel) = sa_availableIPs sel \<and> 0 < sa_availableIPs sel \<and>
           (if strategy = ''balanced''
            then (\<forall>s\<in>set before. room ans s < sa_availableIPs sel) \<and> (\<forall>s\<in>set after. room ans s \<le> sa_availableIPs sel)
            else \<forall>s\<in>set before. room ans s = 0))"
proof -
  have av: "available = offers ans subnetIds"
    using check_subnets_offers [where acc = "[]", OF assms(1)] assms(2) by (metis append_Nil fst_conv)
  have zero: "room ans s = 0" if "offers ans ss = []" "s \<in> set ss" for s ss
    using offers_bound [of ans ss 0 s] room_nonneg [of ans s] that by auto
  show ?thesis
  proof (cases "strategy \<in> {[], ''sequential'', ''balanced''}")
    case False
    then show ?thesis by (simp add: selectSubnetByAllocationStrategy_def validateSubnetAllocationStrategy_def)
  next
    case True
    then have v: "validateSubnetAllocationStrategy strategy = None" by (simp add: validateSubnetAllocationStrategy_def)
    show ?thesis
    proof (cases available)
      case Nil
      with True v av zero [of subnetIds] show ?thesis by (simp add: selectSubnetByAllocationStrategy_def)
    next
      case (Cons x xs)
      show ?thesis
      proof (cases "strategy = ''balanced''")
        case balanced: True
        show ?thesis
          using fullest_subnet [of ans subnetIds x xs] True v Cons av balanced
          by (simp add: selectSubnetByAllocationStrategy_def)
      next
        case other: False
        from offers_split [of ans subnetIds "[]" x xs] Cons av obtain before after where
          "subnetIds = before @ sa_id x # after" "offers ans before = []"
          "room ans (sa_id x) = sa_availableIPs x" "0 < sa_availableIPs x" by auto
        with True v Cons other zero [of before] show ?thesis
          by (simp add: selectSubnetByAllocationStrategy_def) blast
      qed
    qed
  qed
qed

text \<open>Subnets with two, five and no free addresses, and one that cannot be asked.\<close>

definition demo_client :: client where
  "demo_client = (\<lparr>cf_Region = [], cf_ProjectId = [], cf_UserAgent = [], cf_Zone = [], cf_BaseUrl = []\<rparr>,
     \<lparr>cr_PublicKey = [], cr_PrivateKey = []\<rparr>)"

definition demo_subnets :: "unit cloud_api" where
  "demo_subnets = cloud_down\<lparr>DescribeSubnet := (\<lambda>c s v w.
     (if s = ''a'' then Inr [2] else if s = ''b'' then Inr [5] else if s = ''c'' then Inr [0] else Inl (Ext 0), w))\<rparr>"

lemma subnet_selection_witness:
  "case selectSubnetByAllocationStrategy ''balanced''
      (fst (check_subnets demo_subnets demo_client ''v'' [''c'', ''a'', ''x'', ''b''] [] ())) of
     Inr (Some sel) \<Rightarrow> 0 < sa_availableIPs sel \<and> sa_id sel \<in> {''c'', ''a'', ''x'', ''b''}
   | _ \<Rightarrow> False"
proof -
  let ?ans = "\<lambda>s. fst (getSubnetAvailableIPs demo_subnets demo_client ''v'' s ())"
  let ?ids = "[''c'', ''a'', ''x'', ''b'']"
  let ?r = "selectSubnetByAllocationStrategy ''balanced'' (fst (check_subnets demo_subnets demo_client ''v'' ?ids [] ()))"
  have b: "room ?ans ''b'' = 5" by (simp add: room_def getSubnetAvailableIPs_def demo_subnets_def)
  note T = subnet_selection [where ans = ?ans and K = demo_subnets and cli = demo_client and vpcId = "''v''"
      and strategy = "''balanced''" and subnetIds = ?ids, OF _ prod.collapse [symmetric]]
  show ?thesis
  proof (cases ?r)
    case (Inl e)
    with T show ?thesis by simp
  next
    case (Inr chosen)
    show ?thesis
    proof (cases chosen)
      case None
      with T Inr b show ?thesis by simp
    next
      case (Some sel)
      with T Inr obtain before after where "?ids = before @ sa_id sel # after" "0 < sa_availableIPs sel" by auto
      then have "sa_id sel \<in> set ?ids" by (metis in_set_conv_decomp)
      then have "sa_id sel \<in> {''c'', ''a'', ''x'', ''b''}" unfolding set_simps .
      with \<open>0 < sa_availableIPs sel\<close> show ?thesis unfolding Inr Some by simp
    qed
  qed
qed

section \<open>A new interface is used or taken back\<close>

text \<open>
  The interfaces that exist, as the VPC service documents them: one that is created is new, one whose
  deletion is confirmed is gone, and neither a failure nor any other call changes which there are.
\<close>

definition deleted :: "int \<times> gerror option \<Rightarrow> bool" where
  "deleted answer \<longleftrightarrow> answer = (0, None)"

locale uni_api =
  fixes K :: "'w cloud_api" and cli :: client and unis :: "'w \<Rightarrow> string set"
  assumes Create: "CreateNetworkInterface K cli req w = (Inr (0, ni), w') \<Longrightarrow>
      ni_InterfaceId ni \<notin> unis w \<and> unis w' = insert (ni_InterfaceId ni) (unis w)"
    and Create_code: "CreateNetworkInterface K cli req w = (Inr (code, ni), w') \<Longrightarrow> code \<noteq> 0 \<Longrightarrow> unis w' = unis w"
    and Create_err: "CreateNetworkInterface K cli req w = (Inl e, w') \<Longrightarrow> unis w' = unis w"
    and Delete: "DeleteNetworkInterface K cli i w = (answer, w') \<Longrightarrow>
      unis w' = (if deleted answer then unis w - {i} else unis w)"
    and Attach: "AttachNetworkInterface K cli i j w = (r, w') \<Longrightarrow> unis w' = unis w"
    and Describe: "DescribeNetworkInterface K cli i w = (d, w') \<Longrightarrow> unis w' = unis w"
    and Metadata: "GetInstanceIdentityDocument K w = (m, w') \<Longrightarrow> unis w' = unis w"
begin

lemma describe_unis: "describeNetworkInterface K cli i w = (r, w') \<Longrightarrow> unis w' = unis w"
  by (auto simp: describeNetworkInterface_def dest: Describe split: prod.splits sum.splits list.splits if_splits)

lemma attach_unis: "attachNetworkInterface K cli i j w = (r, w') \<Longrightarrow> unis w' = unis w"
  by (auto simp: attachNetworkInterface_def Let_def dest: Attach describe_unis split: prod.splits sum.splits if_splits)

lemma create_unis:
  "createNetworkInterface K cli v s sgs w = (r, w') \<Longrightarrow>
    (case r of Inl e \<Rightarrow> unis w' = unis w
     | Inr ni \<Rightarrow> ni_InterfaceId ni \<notin> unis w \<and> unis w' = insert (ni_InterfaceId ni) (unis w))"
  by (auto simp: createNetworkInterface_def Let_def dest: Create Create_code Create_err split: prod.splits sum.splits if_splits)

lemma poll_unis: "ce_cloud env = K \<Longrightarrow> poll_uni env s n p = (r, p') \<Longrightarrow> unis (world p') = unis (world p)"
proof (induction n arbitrary: p)
  case (Suc n)
  obtain m p1 where m: "ReloadMeta K p = (m, p1)" by (cases "ReloadMeta K p")
  then have "unis (world p1) = unis (world p)"
    by (auto simp: ReloadMeta_def dest: Metadata split: prod.splits sum.splits)
  with Suc m show ?case by (auto split: option.splits prod.splits)
qed simp

lemma described_unis:
  assumes "ce_cloud env = K" and "described env cli i p = (r, p')"
  shows "unis (world p') = unis (world p)"
proof -
  obtain d w1 where d: "describeNetworkInterface K cli i (world p) = (d, w1)"
    by (cases "describeNetworkInterface K cli i (world p)")
  from describe_unis [OF d] have w: "unis w1 = unis (world p)" .
  have "p' = p \<or> world p' = w1"
    using assms(2) d by (cases d; cases "i = []") (auto simp: described_def in_world_def assms(1))
  then show ?thesis using w by (elim disjE) simp_all
qed

lemma delete_unis:
  "unis (deleteNetworkInterface K cli i w) =
    (if deleted (fst (DeleteNetworkInterface K cli i w)) then unis w - {i} else unis w)"
  using Delete [of i w] by (cases "DeleteNetworkInterface K cli i w") (simp add: deleteNetworkInterface_def)

text \<open>After a deletion the new interface is gone, or its deletion was not confirmed.\<close>

lemma taken_back:
  assumes "i \<notin> U" and "unis w = insert i U"
  shows "unis (deleteNetworkInterface K cli i w) = U \<or>
    unis (deleteNetworkInterface K cli i w) = insert i U \<and> \<not> deleted (fst (DeleteNetworkInterface K cli i w))"
  using assms by (auto simp: delete_unis)

end

text \<open>The wait for an interface that was created and attached.\<close>

lemma attached_uni_used_or_deleted:
  assumes laws: "uni_api (ce_cloud env) cli unis" and new: "new \<notin> U" "unis (world q) = insert new U"
    and run: "(case poll_uni env subnetId (ce_polls env) q of
        (Some i, p2) \<Rightarrow> described env cli i p2
      | (None, p2) \<Rightarrow> (Inr None, p2\<lparr>world := deleteNetworkInterface (ce_cloud env) cli new (world p2)\<rparr>)) = (r, p')"
  shows "unis (world p') = U \<or>
    (unis (world p') = insert new U \<and>
      ((\<exists>i q'. poll_uni env subnetId (ce_polls env) q = (Some i, q') \<and> described env cli i q' = (r, p')) \<or>
       (\<exists>w. \<not> deleted (fst (DeleteNetworkInterface (ce_cloud env) cli new w)) \<and>
            world p' = deleteNetworkInterface (ce_cloud env) cli new w)))"
proof -
  obtain f p2 where f: "poll_uni env subnetId (ce_polls env) q = (f, p2)" by fastforce
  have p2: "unis (world p2) = insert new U" using uni_api.poll_unis [OF laws refl f] new(2) by simp
  show ?thesis
  proof (cases f)
    case (Some i)
    with run f have d: "described env cli i p2 = (r, p')" by simp
    with uni_api.described_unis [OF laws refl d] p2 f Some show ?thesis by blast
  next
    case None
    with run f have "world p' = deleteNetworkInterface (ce_cloud env) cli new (world p2)" by auto
    then show ?thesis using uni_api.taken_back [OF laws new(1) p2] new(1) by metis
  qed
qed

text \<open>C14. An interface that was created is used or taken back.

  \<open>new_uni\<close> is the part of \<open>ensureSubnetUNI\<close> that creates an interface, attaches it and waits for the
  metadata server to show it. When it is through there is no interface more than before, or exactly one, the
  new one, and then the metadata server showed an interface of the subnet, whose description is the answer,
  or the deletion of the new interface was not confirmed. The answer without interface and without
  error, which the caller dereferences, is that of the timeout.
\<close>

theorem new_uni_used_or_deleted:
  assumes "uni_api (ce_cloud env) cli unis"
    and "new_uni env cli vpcId instanceId subnetId secGroupIds p = (r, p')"
  shows "unis (world p') = unis (world p) \<or>
    (\<exists>new. new \<notin> unis (world p) \<and> unis (world p') = insert new (unis (world p)) \<and>
      ((\<exists>i q q'. poll_uni env subnetId (ce_polls env) q = (Some i, q') \<and> described env cli i q' = (r, p')) \<or>
       (\<exists>w. \<not> deleted (fst (DeleteNetworkInterface (ce_cloud env) cli new w)) \<and>
            world p' = deleteNetworkInterface (ce_cloud env) cli new w)))"
proof -
  note laws = assms(1)
  let ?K = "ce_cloud env" and ?U = "unis (world p)"
  obtain cr w1 where c: "createNetworkInterface ?K cli vpcId subnetId secGroupIds (world p) = (cr, w1)"
    by (cases "createNetworkInterface ?K cli vpcId subnetId secGroupIds (world p)")
  note cu = uni_api.create_unis [OF laws c]
  show ?thesis
  proof (cases cr)
    case (Inl e)
    with assms(2) c cu show ?thesis by (auto simp: new_uni_def in_world_def)
  next
    case (Inr ni)
    let ?i = "ni_InterfaceId ni" and ?p1 = "p\<lparr>world := w1\<rparr>"
    let ?del = "\<lambda>w. deleteNetworkInterface ?K cli (ni_InterfaceId ni) w"
    from cu Inr have new: "?i \<notin> ?U" "unis w1 = insert ?i ?U" by auto
    have undone: ?thesis if "world p' = ?del w" "unis w = insert ?i ?U" for w
      using uni_api.taken_back [OF laws new(1) that(2)] that(1) new(1) by metis
    show ?thesis
    proof (cases "ni_PrivateIpSet ni = []")
      case True
      with assms(2) c Inr have "world p' = ?del w1" by (auto simp: new_uni_def in_world_def Let_def)
      then show ?thesis using new(2) by (rule undone)
    next
      case False
      obtain ae w2 where a: "attachNetworkInterface ?K cli ?i instanceId w1 = (ae, w2)"
        by (cases "attachNetworkInterface ?K cli ?i instanceId w1")
      from uni_api.attach_unis [OF laws a] new have w2: "unis w2 = insert ?i ?U" by simp
      show ?thesis
      proof (cases ae)
        case (Some e)
        with assms(2) c Inr False a have "world p' = ?del w2" by (auto simp: new_uni_def in_world_def Let_def)
        then show ?thesis using w2 by (rule undone)
      next
        case None
        let ?q = "?p1\<lparr>world := w2\<rparr>"
        have w3: "unis (world ?q) = insert ?i ?U" using w2 by simp
        have run: "(case poll_uni env subnetId (ce_polls env) ?q of
            (Some i, p2) \<Rightarrow> described env cli i p2
          | (None, p2) \<Rightarrow> (Inr None, p2\<lparr>world := ?del (world p2)\<rparr>)) = (r, p')"
          using assms(2) c Inr False a None by (simp add: new_uni_def in_world_def Let_def)
        from attached_uni_used_or_deleted [OF laws new(1) w3 run] show ?thesis
        proof (elim disjE conjE)
          assume "unis (world p') = ?U"
          then show ?thesis by simp
        qed (use new(1) in blast)+
      qed
    qed
  qed
qed

section \<open>A VPC service in memory\<close>

text \<open>
  The world lists the interfaces that exist with their subnets; a new one gets a longer name than those there, and the
  metadata server shows all of them.
\<close>

definition fresh_uni :: "(string \<times> string) list \<Rightarrow> string" where
  "fresh_uni w = ''uni-'' @ replicate (length (concat (map fst w))) (CHR ''a'')"

definition mem_uni :: "string \<Rightarrow> string \<Rightarrow> string \<Rightarrow> NetworkInterface" where
  "mem_uni i s owner = \<lparr>ni_InterfaceId = i, ni_SubnetId = s, ni_MacAddress = [], ni_Gateway = [], ni_Netmask = [],
     ni_PrivateIpSet = [''10.0.0.9''], ni_AttachInstanceId = owner\<rparr>"

definition mem_md :: "(string \<times> string) list \<Rightarrow> Metadata" where
  "mem_md w = \<lparr>md_InstanceId = ''uhost-1'', md_Region = [], md_AvailabilityZone = [],
     md_UHost = \<lparr>mh_ProjectId = [], mh_NetworkInterfaces =
       map (\<lambda>(i, s). \<lparr>mi_Id = i, mi_Mac = [], mi_SubnetId = s, mi_VpcId = [], mi_Default = False\<rparr>) w\<rparr>,
     md_UPHost = \<lparr>mh_ProjectId = [], mh_NetworkInterfaces = []\<rparr>\<rparr>"

definition mem_vpc :: "bool \<Rightarrow> (string \<times> string) list cloud_api" where
  "mem_vpc attaches = cloud_down\<lparr>
     CreateNetworkInterface := (\<lambda>c req w. let i = fresh_uni w in
       (Inr (0, mem_uni i (cu_SubnetId req) []), w @ [(i, cu_SubnetId req)])),
     DeleteNetworkInterface := (\<lambda>c i w. ((0, None), filter (\<lambda>x. fst x \<noteq> i) w)),
     AttachNetworkInterface := (\<lambda>c i j w. (Inr (if attaches then 0 else 1), w)),
     DescribeNetworkInterface := (\<lambda>c i w. (Inr (0, [mem_uni i [] ''uhost-1'']), w)),
     GetInstanceIdentityDocument := (\<lambda>w. (Inr (mem_md w), w))\<rparr>"

definition mem_unis :: "(string \<times> string) list \<Rightarrow> string set" where
  "mem_unis w = fst ` set w"

lemma fresh_uni_new: "fresh_uni w \<notin> mem_unis w"
proof
  assume "fresh_uni w \<in> mem_unis w"
  then obtain x where x: "x \<in> set w" "fst x = fresh_uni w" by (auto simp: mem_unis_def)
  from x(1) have "length (fst x) \<le> length (concat (map fst w))"
    by (induction w) auto
  with x(2) show False by (simp add: fresh_uni_def)
qed

interpretation mem_vpc: uni_api "mem_vpc attaches" cli mem_unis
proof unfold_locales
  show "CreateNetworkInterface (mem_vpc attaches) cli req w = (Inr (0, ni), w') \<Longrightarrow>
      ni_InterfaceId ni \<notin> mem_unis w \<and> mem_unis w' = insert (ni_InterfaceId ni) (mem_unis w)" for req w ni w'
    using fresh_uni_new [of w] by (auto simp: mem_vpc_def mem_uni_def Let_def mem_unis_def image_iff)
qed (auto simp: mem_vpc_def mem_unis_def cloud_down_def Let_def deleted_def)

definition mem_env :: "bool \<Rightarrow> (string \<times> string) list netlink \<Rightarrow> (string \<times> string) list cni_env" where
  "mem_env attaches nl = (cni_down nl)\<lparr>ce_cloud := mem_vpc attaches\<rparr>"

text \<open>Where the interface cannot be attached, the interfaces are those of before.\<close>

lemma new_uni_used_or_deleted_witness:
  "\<forall>nl. let w = [(''uni-1'', ''s1'')] in
     case new_uni (mem_env False nl) demo_client ''v'' ''uhost-1'' ''s2'' [] \<lparr>metaOnce = True, meta = None, world = w\<rparr> of
       (r, p') \<Rightarrow> isl r \<and> (mem_unis (world p') = {''uni-1''} \<or>
          (\<exists>new. new \<noteq> ''uni-1'' \<and> mem_unis (world p') = {new, ''uni-1''}))"
proof
  fix nl
  let ?w = "[(''uni-1'', ''s1'')]"
  let ?e = "mem_env False nl" and ?p = "\<lparr>metaOnce = True, meta = None, world = ?w\<rparr>"
  obtain r p' where n: "new_uni ?e demo_client ''v'' ''uhost-1'' ''s2'' [] ?p = (r, p')"
    by (cases "new_uni ?e demo_client ''v'' ''uhost-1'' ''s2'' [] ?p")
  have l: "uni_api (ce_cloud ?e) demo_client mem_unis"
    using mem_vpc.uni_api_axioms by (simp add: mem_env_def)
  have "isl r" using n
    by (auto simp: new_uni_def mem_env_def mem_vpc_def createNetworkInterface_def in_world_def
        attachNetworkInterface_def cni_down_def Let_def mem_uni_def)
  with new_uni_used_or_deleted [OF l n] show "let w = ?w in
     case new_uni ?e demo_client ''v'' ''uhost-1'' ''s2'' [] \<lparr>metaOnce = True, meta = None, world = w\<rparr> of
       (r, p') \<Rightarrow> isl r \<and> (mem_unis (world p') = {''uni-1''} \<or>
          (\<exists>new. new \<noteq> ''uni-1'' \<and> mem_unis (world p') = {new, ''uni-1''}))"
    unfolding Let_def n by (auto simp: mem_unis_def)
qed

section \<open>Who may give an address\<close>

lemma allocateSecondaryIP_named:
  "allocateSecondaryIP env uni podName podNS sandboxID p = (Inr ip, p') \<Longrightarrow>
    pn_PodName ip = podName \<and> pn_PodNS ip = podNS \<and> pn_SandboxID ip = sandboxID"
  by (auto simp: allocateSecondaryIP_def Let_def split: prod.splits sum.splits option.splits)

lemma fromIpamd_answer:
  assumes "allocateSecondaryIPFromIpamd c uni podName podNS netNS sandboxID w = (Inr ip, w')"
  shows "\<exists>req r. c_AddPodNetwork c req w = (Inr r, w') \<and> ar_PodName req = podName \<and> ar_PodNamespace req = podNS \<and>
    ar_SandboxID req = sandboxID \<and> as_Code r = CNISuccess \<and> ip = as_PodNetwork r"
proof -
  obtain req where "ar_PodName req = podName" "ar_PodNamespace req = podNS" "ar_SandboxID req = sandboxID"
      "allocateSecondaryIPFromIpamd c uni podName podNS netNS sandboxID w =
         (case c_AddPodNetwork c req w of
            (Inl e, w1) \<Rightarrow> (Inl e, w1)
          | (Inr r, w1) \<Rightarrow>
              if as_Code r \<noteq> CNISuccess then (Inl (Errors_New ''gRPC AddPodNetwork failed, code %v''), w1)
              else (Inr (as_PodNetwork r), w1))"
    unfolding allocateSecondaryIPFromIpamd_def
    by (metis AddPodNetworkRequest.select_convs(1) AddPodNetworkRequest.select_convs(2) AddPodNetworkRequest.select_convs(3))
  with assms show ?thesis by (auto split: prod.splits sum.splits if_splits)
qed

lemma in_worldE:
  assumes "in_world f p = (r, p')"
  obtains w' where "f (world p) = (r, w')" and "p' = p\<lparr>world := w'\<rparr>"
  using assms by (auto simp: in_world_def split: prod.splits)

text \<open>C5. Who gave a pod its address.

  When \<open>assignPodIp\<close> succeeds, either the daemon was alive, knows several subnets and answered the
  request for this pod and sandbox with success, and the network is the one it answered; or there was no such
  daemon, the pod's claim on a static address was checked and there is none, and the network was allocated from the
  VPC service and carries the names of the pod and its sandbox. A pod with a static address never gets one
  without the daemon.
\<close>

theorem assignPodIp_source:
  assumes "assignPodIp env podName podNS netNS sandboxId p = (Inr a, p')"
  shows "if fromIPAMD a
    then \<exists>c w w1 req r w2. multi_ipamd env w = (Some c, w1) \<and> c_AddPodNetwork c req w1 = (Inr r, w2) \<and>
           ar_PodName req = podName \<and> ar_PodNamespace req = podNS \<and> ar_SandboxID req = sandboxId \<and>
           as_Code r = CNISuccess \<and> network a = as_PodNetwork r
    else \<exists>w w1 pod w2 uni q ip. multi_ipamd env w = (None, w1) \<and>
           IsPodEnableStaticIP (ce_kube env) podName podNS w1 = (Inr (False, pod), w2) \<and>
           allocateSecondaryIP env uni podName podNS sandboxId q = (Inr ip, p') \<and> world q = w2 \<and>
           network a = Some ip \<and> pn_PodName ip = podName \<and> pn_PodNS ip = podNS \<and> pn_SandboxID ip = sandboxId"
proof -
  from assms obtain cfg node p1 uni p2 where
      "getPodNetworkingConfig env podName podNS p = (Inr (cfg, node), p1)" "uni_of_config env cfg node p1 = (Inr uni, p2)"
    by (auto simp: assignPodIp_def split: option.splits prod.splits sum.splits)
  moreover obtain c p3 where m: "in_world (multi_ipamd env) p2 = (c, p3)" by fastforce
  moreover have "GetNodeClient env (world p) = None" using assms by (simp add: assignPodIp_def split: option.splits)
  ultimately have run: "(case c of
      Some c \<Rightarrow> (case in_world (allocateSecondaryIPFromIpamd c uni podName podNS netNS sandboxId) p3 of
           (Inl e, p4) \<Rightarrow> (Inl (Errorf1 ''failed to call ipamd: %v'' e), p4)
         | (Inr ip, p4) \<Rightarrow> (Inr \<lparr>network = ip, fromIPAMD = True, natGWOutgoingEnabled =
               (case cfg of None \<Rightarrow> False | Some cfg \<Rightarrow> pk_NATGWOutgoingEnabled cfg)\<rparr>, p4))
    | None \<Rightarrow> assign_without_ipamd env uni (case cfg of None \<Rightarrow> False | Some cfg \<Rightarrow> pk_NATGWOutgoingEnabled cfg)
        podName podNS sandboxId p3) = (Inr a, p')"
    using assms by (auto simp: assignPodIp_def Let_def)
  from m obtain w1 where w1: "multi_ipamd env (world p2) = (c, w1)" "p3 = p2\<lparr>world := w1\<rparr>" by (rule in_worldE)
  show ?thesis
  proof (cases c)
    case (Some cl)
    with run obtain ip where "in_world (allocateSecondaryIPFromIpamd cl uni podName podNS netNS sandboxId) p3 = (Inr ip, p')"
      and a: "network a = ip" "fromIPAMD a" by (auto split: prod.splits sum.splits)
    then obtain w2 where "allocateSecondaryIPFromIpamd cl uni podName podNS netNS sandboxId (world p3) = (Inr ip, w2)"
      by (auto elim!: in_worldE)
    from fromIpamd_answer [OF this] obtain req r where "c_AddPodNetwork cl req w1 = (Inr r, w2)" "ar_PodName req = podName"
      "ar_PodNamespace req = podNS" "ar_SandboxID req = sandboxId" "as_Code r = CNISuccess" "ip = as_PodNetwork r"
      using w1 by auto
    with w1(1) Some a show ?thesis by auto blast
  next
    case None
    with run obtain pod p4 where s: "in_world (IsPodEnableStaticIP (ce_kube env) podName podNS) p3 = (Inr (False, pod), p4)"
      by (auto simp: assign_without_ipamd_def split: prod.splits sum.splits if_splits)
    with run None obtain ip where ip: "allocateSecondaryIP env uni podName podNS sandboxId p4 = (Inr ip, p')"
      "network a = Some ip" "\<not> fromIPAMD a"
      by (auto simp: assign_without_ipamd_def split: prod.splits sum.splits if_splits)
    from s obtain w2 where "IsPodEnableStaticIP (ce_kube env) podName podNS (world p3) = (Inr (False, pod), w2)" "world p4 = w2"
      by (auto elim!: in_worldE)
    with ip allocateSecondaryIP_named [OF ip(1)] w1 None show ?thesis by auto blast
  qed
qed

text \<open>A physical host, which has no pod networking, with a daemon that answers.\<close>

definition demo_ipamd :: "unit ipamd_client" where
  "demo_ipamd = \<lparr>c_Ping = (\<lambda>w. (None, w)), c_SupportMultiSubnet = (\<lambda>w. (Inr \<lparr>ms_Code = CNISuccess, ms_Support = True\<rparr>, w)),
     c_AddPodNetwork = (\<lambda>r w. (Inr \<lparr>as_Code = CNISuccess, as_PodNetwork = Some PodNetwork_zero\<rparr>, w)),
     c_DelPodNetwork = (\<lambda>r w. (Inl (Ext 0), w)), c_AddPodNetworkRecord = (\<lambda>r w. (Inl (Ext 0), w)),
     c_DelPodNetworkRecord = (\<lambda>r w. (Inl (Ext 0), w)), c_GetPodNetworkRecord = (\<lambda>r w. (Inl (Ext 0), w)),
     c_ListPodNetworkRecord = (\<lambda>w. (Inl (Ext 0), w))\<rparr>"

definition demo_host :: "unit proc" where
  "demo_host = \<lparr>metaOnce = True, meta = Some \<lparr>md_InstanceId = ''upm-1'', md_Region = [], md_AvailabilityZone = [],
     md_UHost = \<lparr>mh_ProjectId = [], mh_NetworkInterfaces = []\<rparr>,
     md_UPHost = \<lparr>mh_ProjectId = [], mh_NetworkInterfaces = []\<rparr>\<rparr>, world = ()\<rparr>"

lemma assignPodIp_source_witness:
  "\<forall>nl. \<exists>a. fst (assignPodIp ((cni_down nl)\<lparr>Dial := (\<lambda>w. Inr demo_ipamd)\<rparr>) ''web'' ''default'' ''/ns'' ''s1'' demo_host) = Inr a \<and>
     fromIPAMD a \<and> (\<exists>r :: AddPodNetworkResponse. as_Code r = CNISuccess \<and> network a = as_PodNetwork r)"
proof
  fix nl
  let ?E = "(cni_down nl)\<lparr>Dial := (\<lambda>w. Inr demo_ipamd)\<rparr>"
  have ab: "GetAbility (ce_cloud ?E) (ce_version ?E) demo_host =
      (Some (Inr \<lparr>ab_InstanceID = ''upm-1'', ab_SupportUNI = False, ab_SecGroup = False\<rparr>), demo_host)"
    by (simp add: GetAbility_def NewClient_def GetMeta_def demo_host_def client_of_meta_def Let_def HasPrefix_def
        cni_down_def cloud_down_def)
  have c: "getPodNetworkingConfig ?E ''web'' ''default'' demo_host = (Inr (None, []), demo_host)"
    unfolding getPodNetworkingConfig_def ab by simp
  have "\<exists>a. assignPodIp ?E ''web'' ''default'' ''/ns'' ''s1'' demo_host = (Inr a, demo_host) \<and> fromIPAMD a"
    unfolding assignPodIp_def c
    by (simp add: uni_of_config_def in_world_def multi_ipamd_def live_ipamd_def enabledIpamd_def ipamdSupportMultiSubnet_def
        demo_ipamd_def allocateSecondaryIPFromIpamd_def Let_def cni_down_def [of nl, THEN arg_cong [of _ _ GetNodeClient]]
        demo_host_def)
  then obtain a where a: "assignPodIp ?E ''web'' ''default'' ''/ns'' ''s1'' demo_host = (Inr a, demo_host)" "fromIPAMD a"
    by blast
  from assignPodIp_source [OF a(1)] a(2) obtain r :: AddPodNetworkResponse where r: "as_Code r = CNISuccess" "network a = as_PodNetwork r"
    by (simp only: if_True) blast
  show "\<exists>a. fst (assignPodIp ?E ''web'' ''default'' ''/ns'' ''s1'' demo_host) = Inr a \<and>
     fromIPAMD a \<and> (\<exists>r :: AddPodNetworkResponse. as_Code r = CNISuccess \<and> network a = as_PodNetwork r)"
    by (intro exI [of _ a] conjI exI [of _ r]) (simp_all only: a r fst_conv)
qed

end
