(* ===== verification/Dns_Config.thy ===== *)
theory Dns_Config
  imports Net_IP
begin

text \<open>
  \<open>cmd/cnivpc/dnsconfig.go\<close>: the reader of the resolver configuration. The file is the list of its
  lines; a file that cannot be opened and a scan that fails are given. A failing scan ends the
  process: \<open>None\<close>.
\<close>

record DnsConfig =
  Servers :: "string list"
  Search :: "string list"
  Ndots :: int
  Timeout :: int
  Attempts :: int
  Rotate :: bool
  UnknownOpt :: bool
  Lookup :: "string list"
  dns_Err :: "gerror option"

definition defaultNS :: "string list" where
  "defaultNS = [''127.0.0.1'', ''::1'']"

definition big :: int where "big = 0xFFFFFF"

text \<open>The digits read, the number so far and the offset: \<open>dtoi\<close> from offset \<open>i0\<close>.\<close>

fun dtoi_loop :: "string \<Rightarrow> int \<Rightarrow> nat \<Rightarrow> nat \<Rightarrow> int \<times> nat \<times> bool" where
  "dtoi_loop [] n i i0 = (if i = i0 then (0, i, False) else (n, i, True))"
| "dtoi_loop (c # cs) n i i0 =
     (if is_digit c then
        (let n' = n * 10 + int (digit_val c) in
         if n' \<ge> big then (0, i, False) else dtoi_loop cs n' (Suc i) i0)
      else if i = i0 then (0, i, False) else (n, i, True))"

definition dtoi :: "string \<Rightarrow> nat \<Rightarrow> int \<times> nat \<times> bool" where
  "dtoi s i0 = dtoi_loop (drop i0 s) 0 i0 i0"

definition at_least_one :: "string \<Rightarrow> nat \<Rightarrow> int" where
  "at_least_one s i0 = (let n = fst (dtoi s i0) in if n < 1 then 1 else n)"

definition dns_option :: "string \<Rightarrow> DnsConfig \<Rightarrow> DnsConfig" where
  "dns_option s conf =
     (if HasPrefix s ''ndots:'' then conf\<lparr>Ndots := at_least_one s 6\<rparr>
      else if HasPrefix s ''timeout:'' then conf\<lparr>Timeout := at_least_one s 8\<rparr>
      else if HasPrefix s ''attempts:'' then conf\<lparr>Attempts := at_least_one s 9\<rparr>
      else if s = ''rotate'' then conf\<lparr>Rotate := True\<rparr>
      else conf\<lparr>UnknownOpt := True\<rparr>)"

definition dns_line :: "string \<Rightarrow> DnsConfig \<Rightarrow> DnsConfig" where
  "dns_line line conf =
     (if line \<noteq> [] \<and> (hd line = CHR '';'' \<or> hd line = CHR ''#'') then conf
      else case Fields line of
        [] \<Rightarrow> conf
      | f # args \<Rightarrow>
          if f = ''nameserver'' then
            (case args of
               [] \<Rightarrow> conf
             | a # _ \<Rightarrow> if length (Servers conf) < 3 \<and> ParseIP a \<noteq> None
                         then conf\<lparr>Servers := Servers conf @ [a]\<rparr> else conf)
          else if f = ''domain'' then (case args of [] \<Rightarrow> conf | a # _ \<Rightarrow> conf\<lparr>Search := [a]\<rparr>)
          else if f = ''search'' then conf\<lparr>Search := args\<rparr>
          else if f = ''options'' then fold dns_option args conf
          else if f = ''lookup'' then conf\<lparr>Lookup := args\<rparr>
          else conf\<lparr>UnknownOpt := True\<rparr>)"

definition dns_defaults :: DnsConfig where
  "dns_defaults = \<lparr>Servers = [], Search = [], Ndots = 1, Timeout = 5, Attempts = 2, Rotate = False,
     UnknownOpt = False, Lookup = [], dns_Err = None\<rparr>"

definition dnsReadConfig :: "(string list \<times> gerror option) result \<Rightarrow> DnsConfig option" where
  "dnsReadConfig file =
     (case file of
        Inl e \<Rightarrow> Some (dns_defaults\<lparr>Servers := defaultNS, dns_Err := Some e\<rparr>)
      | Inr (lines, scanErr) \<Rightarrow>
          let conf = fold dns_line lines dns_defaults in
          (case scanErr of
             Some e \<Rightarrow> None
           | None \<Rightarrow> Some (if Servers conf = [] then conf\<lparr>Servers := defaultNS\<rparr> else conf)))"

section \<open>Bounds\<close>

definition dns_bounded :: "DnsConfig \<Rightarrow> bool" where
  "dns_bounded conf \<longleftrightarrow> length (Servers conf) \<le> 3 \<and> list_all (\<lambda>s. ParseIP s \<noteq> None) (Servers conf) \<and>
     Ndots conf \<in> {1..<big} \<and> Timeout conf \<in> {1..<big} \<and> Attempts conf \<in> {1..<big}"

lemma dtoi_loop_bound: "0 \<le> n \<Longrightarrow> n < big \<Longrightarrow> fst (dtoi_loop s n i i0) \<in> {0..<big}"
  by (induction s n i i0 rule: dtoi_loop.induct) (auto simp: Let_def big_def)

lemma at_least_one_bound: "at_least_one s i0 \<in> {1..<big}"
  using dtoi_loop_bound [of 0 "drop i0 s" i0 i0] by (simp add: at_least_one_def dtoi_def Let_def big_def)

lemma dns_option_bounded: "dns_bounded conf \<Longrightarrow> dns_bounded (dns_option s conf)"
  using at_least_one_bound by (auto simp: dns_bounded_def dns_option_def simp del: atLeastLessThan_iff)

lemma fold_dns_option_bounded: "dns_bounded conf \<Longrightarrow> dns_bounded (fold dns_option ss conf)"
  by (induction ss arbitrary: conf) (auto simp: dns_option_bounded)

lemma dns_line_bounded: "dns_bounded conf \<Longrightarrow> dns_bounded (dns_line line conf)"
proof (cases "Fields line")
  case (Cons f args)
  assume "dns_bounded conf"
  with Cons fold_dns_option_bounded [of conf args] show ?thesis
    by (cases args) (simp_all add: dns_line_def, simp_all add: dns_bounded_def)
qed (simp add: dns_line_def)

lemma fold_dns_line_bounded: "dns_bounded conf \<Longrightarrow> dns_bounded (fold dns_line ls conf)"
  by (induction ls arbitrary: conf) (auto simp: dns_line_bounded)

text \<open>The two local servers are addresses.\<close>

lemma defaultNS_parse: "list_all (\<lambda>s. ParseIP s \<noteq> None) defaultNS"
  by code_simp

section \<open>Property\<close>

text \<open>The resolver configuration is within its bounds whatever the file says.

  Unless the scan of the file fails, \<open>dnsReadConfig\<close> gives one to three name servers, each an address that
  parses, and a number of dots, a timeout and a number of attempts of at least one and below \<open>0xFFFFFF\<close>:
  a number that is missing, too large or no number counts as one. When the file cannot be opened the
  servers are the two local ones.
\<close>

theorem dnsReadConfig_bounds:
  "case dnsReadConfig file of
     None \<Rightarrow> (\<exists>lines e. file = Inr (lines, Some e))
   | Some conf \<Rightarrow> Servers conf \<noteq> [] \<and> dns_bounded conf \<and> (isl file \<longrightarrow> Servers conf = defaultNS)"
proof -
  have d: "dns_bounded dns_defaults" by (simp add: dns_bounded_def dns_defaults_def big_def)
  have b: "dns_bounded (fold dns_line ls dns_defaults)" for ls by (rule fold_dns_line_bounded [OF d])
  have n: "dns_bounded (c\<lparr>Servers := defaultNS\<rparr>)" if "dns_bounded c" for c
    using that defaultNS_parse by (simp add: dns_bounded_def) (simp add: defaultNS_def)
  have n': "dns_bounded (c\<lparr>Servers := defaultNS, dns_Err := x\<rparr>)" if "dns_bounded c" for c x
    using n [OF that] by (simp add: dns_bounded_def)
  have ne: "defaultNS \<noteq> []" by (simp add: defaultNS_def)
  show ?thesis
    using b n [OF b] n' [OF d] ne
    by (auto simp: dnsReadConfig_def Let_def dns_defaults_def split: sum.splits prod.splits option.splits)
qed

lemma dnsReadConfig_bounds_witness:
  "case dnsReadConfig (Inr ([''nameserver 10.0.0.2'', ''options ndots:0 timeout:99999999999''], None)) of
     None \<Rightarrow> False | Some conf \<Rightarrow> Servers conf \<noteq> [] \<and> dns_bounded conf"
  using dnsReadConfig_bounds [of "Inr ([''nameserver 10.0.0.2'', ''options ndots:0 timeout:99999999999''], None)"]
  by (auto split: option.splits)

end
