(* ===== verification/Cni_Main.thy ===== *)
theory Cni_Main
  imports Cni_Rpc Portmap Dns_Config
begin

text \<open>
  The commands of the plugin, \<open>cmd/cnivpc/main.go\<close>, with the pair of virtual interfaces of
  \<open>veth.go\<close>, \<open>runcmd.go\<close> and the process lock of \<open>pkg/lockfile\<close>. What they call beyond the address
  functions is added to the environment.
\<close>

record veth_pair =
  hostVeth_Name :: string
  hostVeth_Mac :: string
  contVeth_Name :: string

record 'w plugin_env = "'w cni_env" +
  ParseJSON :: "string \<Rightarrow> Plugin result" \<comment> \<open>\<open>json.Unmarshal\<close> of the configuration\<close>
  pe_portmap :: "'w portmap_env"
  GetNS :: "string \<Rightarrow> 'w \<Rightarrow> gerror option"
  ns_SetupVethWithName :: "string \<Rightarrow> string \<Rightarrow> int \<Rightarrow> 'w \<Rightarrow> veth_pair result \<times> 'w"
  ns_AddrAdd :: "string \<Rightarrow> IPNet \<Rightarrow> 'w action"
  ns_InterfaceByName :: "string \<Rightarrow> 'w \<Rightarrow> gerror option"
  ns_RouteAdd :: "route \<Rightarrow> 'w action"
  ns_NeighAdd :: "string \<Rightarrow> byte list \<Rightarrow> string \<Rightarrow> 'w action"
  ns_LinkByName :: "string \<Rightarrow> string \<Rightarrow> 'w \<Rightarrow> gerror option" \<comment> \<open>namespace and link\<close>
  ns_LinkDel :: "string \<Rightarrow> string \<Rightarrow> 'w action"
  WithNetNSPath :: "string \<Rightarrow> 'w \<Rightarrow> gerror option"
  sha1_hex :: "string \<Rightarrow> string"
  Truncate :: "string \<Rightarrow> 'w action"
  AppendFile :: "string \<Rightarrow> string \<Rightarrow> 'w action" \<comment> \<open>the error is that of opening it\<close>
  arp_attempt :: "byte list \<Rightarrow> string \<Rightarrow> 'w \<Rightarrow> (bool \<times> gerror option) \<times> 'w"
  save_snapshot :: "'w \<Rightarrow> 'w"
  run_sysctl :: "'w \<Rightarrow> 'w" \<comment> \<open>the two shell commands of \<open>setNodePortRange\<close>, errors dropped\<close>
  TryLock :: "'w \<Rightarrow> gerror option \<times> 'w"
  Unlock :: "'w \<Rightarrow> gerror option \<times> 'w"
  ReadLines :: "string \<Rightarrow> 'w \<Rightarrow> (string list \<times> gerror option) result"

section \<open>pkg/lockfile\<close>

text \<open>\<open>acquireLock\<close> counts its tries down before each of them: one less than it says.\<close>

fun acquire_loop :: "('w \<Rightarrow> gerror option \<times> 'w) \<Rightarrow> nat \<Rightarrow> 'w action" where
  "acquire_loop tryLock 0 w = (Some (Errors_New ''lockfile not acquired, aborting''), w)"
| "acquire_loop tryLock (Suc tries) w =
     (if tries = 0 then (Some (Errors_New ''lockfile not acquired, aborting''), w)
      else case tryLock w of
        (None, w1) \<Rightarrow> (None, w1)
      | (Some e, w1) \<Rightarrow> if e = ErrBusy then acquire_loop tryLock tries w1 else (Some e, w1))"

definition acquireLock :: "('w \<Rightarrow> gerror option \<times> 'w) \<Rightarrow> 'w action" where
  "acquireLock tryLock = acquire_loop tryLock 80000"

text \<open>
  \<open>MustAcquire\<close>, and the release of the lock deferred by both commands: it is the last of the deferred
  functions, also when the command panics. \<open>handleErr\<close> ends the process.
\<close>

definition with_lock ::
  "('w, 'z) plugin_env_scheme \<Rightarrow> ('w proc \<Rightarrow> gerror option \<times> 'w proc) \<Rightarrow> 'w proc \<Rightarrow> gerror option \<times> 'w proc" where
  "with_lock env command p =
     (case in_world (acquireLock (TryLock env)) p of
        (Some e, p1) \<Rightarrow> (Some Exit, p1)
      | (None, p1) \<Rightarrow>
          (case command p1 of
             (err, p2) \<Rightarrow>
               if err = Some Exit then (err, p2)
               else (case in_world (Unlock env) p2 of
                       (Some e, p3) \<Rightarrow> (Some Exit, p3)
                     | (None, p3) \<Rightarrow> (err, p3))))"

section \<open>veth.go\<close>

definition hostVethPrefix :: string where "hostVethPrefix = ''ucni''"

definition generateHostVethName :: "(string \<Rightarrow> string) \<Rightarrow> string \<Rightarrow> string \<Rightarrow> string \<Rightarrow> string" where
  "generateHostVethName sha1 pre namespace podname = pre @ take 11 (sha1 (namespace @ ''.'' @ podname))"

definition checkAndCleanOldVeth :: "'w netlink \<Rightarrow> string \<Rightarrow> 'w action" where
  "checkAndCleanOldVeth nl hostVethName w =
     (case LinkByName nl hostVethName w of
        Inl e \<Rightarrow> (None, w)
      | Inr l \<Rightarrow> fmt_err ''failed to delete old hostVeth %v: %v'' (LinkDel nl (fst l)) w)"

text \<open>In the namespace of the pod, behind a default gateway that is the node itself.\<close>

definition setupVethPair ::
  "('w, 'z) plugin_env_scheme \<Rightarrow> string \<Rightarrow> string \<Rightarrow> int \<Rightarrow> byte list \<Rightarrow> string \<Rightarrow> 'w \<Rightarrow> veth_pair result \<times> 'w" where
  "setupVethPair env ifName hostVethName mtu hostIP containerIp w =
     (case checkAndCleanOldVeth (ce_nl env) hostVethName w of
        (Some e, w1) \<Rightarrow> (Inl e, w1)
      | (None, w1) \<Rightarrow>
          (case ns_SetupVethWithName env ifName hostVethName mtu w1 of
             (Inl e, w2) \<Rightarrow> (Inl e, w2)
           | (Inr v, w2) \<Rightarrow>
               (case ParseAddr (ce_nl env) containerIp of
                  Inl e \<Rightarrow> (Inl e, w2)
                | Inr addr \<Rightarrow>
                    (case seq (ns_AddrAdd env (contVeth_Name v) addr)
                        (seq (\<lambda>w. (map_option (Errorf1 ''failed to look up %q: %v'') (ns_InterfaceByName env ifName w), w))
                        (seq (fmt_err ''failed to add default route on eth0:%v''
                                (ns_RouteAdd env \<lparr>rt_Link = ifName, rt_Scope = SCOPE_UNIVERSE, rt_Dst = None, rt_Gw = hostIP,
                                   rt_Table = 0, rt_Onlink = True\<rparr>))
                             (fmt_err ''failed to add a neigh entry for veth of uhost's ns: %v''
                                (ns_NeighAdd env ifName hostIP (hostVeth_Mac v))))) w2 of
                       (Some e, w3) \<Rightarrow> (Inl e, w3)
                     | (None, w3) \<Rightarrow> (Inr v, w3)))))"

definition addRouteRuleForPodIp :: "'w netlink \<Rightarrow> string \<Rightarrow> string \<Rightarrow> 'w action" where
  "addRouteRuleForPodIp nl hostVeth ip w =
     (case LinkByName nl hostVeth w of
        Inl e \<Rightarrow> (Some e, w)
      | Inr l \<Rightarrow>
          (case ParseIP ip of
             None \<Rightarrow> (Some (Errors_New ''invalid CIDR address''), w)
           | Some b \<Rightarrow>
               if To4 b = None then (Some (Errors_New ''invalid CIDR address''), w)
               else case RouteAdd nl \<lparr>rt_Link = hostVeth, rt_Scope = SCOPE_LINK,
                      rt_Dst = Some \<lparr>net_IP = slice (To4 b), net_Mask = replicate 4 255\<rparr>, rt_Gw = [], rt_Table = 0,
                      rt_Onlink = False\<rparr> w of
                 (Some e, w1) \<Rightarrow>
                   if errors_Is e (Sys EEXIST) then ensureDstIPRoutePolicy nl ip w1
                   else (Some (Errorf1 ''add route %q error: %v'' e), w1)
               | (None, w1) \<Rightarrow> ensureDstIPRoutePolicy nl ip w1))"

definition ensureProxyArp :: "('w, 'z) plugin_env_scheme \<Rightarrow> string \<Rightarrow> 'w action" where
  "ensureProxyArp env dev =
     (let file = ''/proc/sys/net/ipv4/conf/'' @ dev @ ''/proxy_arp'' in
      seq (Truncate env file) (AppendFile env file ''1''))"

text \<open>Failures before the pair exists release the address; the caller releases it too.\<close>

definition fail_releasing ::
  "('w, 'z) plugin_env_scheme \<Rightarrow> PodNetwork \<Rightarrow> gerror \<Rightarrow> 'w proc \<Rightarrow> gerror option \<times> 'w proc" where
  "fail_releasing env pn e p = (Some e, snd (releasePodIp (cni_env.truncate env) pn p))"

definition uses_uni_table :: "string \<Rightarrow> PodNetwork \<Rightarrow> bool" where
  "uses_uni_table nic pn \<longleftrightarrow> nic \<noteq> UHostMasterInterface \<and> HasPrefix (pn_InterfaceID pn) ''uni-''"

definition setupPodVethNetwork ::
  "('w, 'z) plugin_env_scheme \<Rightarrow> string \<Rightarrow> string \<Rightarrow> string \<Rightarrow> string \<Rightarrow> PodNetwork \<Rightarrow> int \<Rightarrow> 'w proc \<Rightarrow>
   gerror option \<times> 'w proc" where
  "setupPodVethNetwork env podName podNS netNS nic pn mtu p =
     (let nl = ce_nl env in
      case GetNS env netNS (world p) of
        Some e \<Rightarrow> fail_releasing env pn (Errorf1 ''failed to open netns %q: %v'' e) p
      | None \<Rightarrow>
     (case LinkByName nl nic (world p) of
        Inl e \<Rightarrow> fail_releasing env pn (Errorf1 ''failed to lookup %s: %v'' e) p
      | Inr l \<Rightarrow>
     (case AddrList nl nic (world p) of
        Inl e \<Rightarrow> fail_releasing env pn (Errorf1 ''failed to get host ip addresses for %q: %v'' e) p
      | Inr [] \<Rightarrow> fail_releasing env pn (Errors_New ''failed to get host ip addresses for %q: %v'') p
      | Inr (host # _) \<Rightarrow>
     (case in_world (setupVethPair env (Getenv (ce_cloud env) ''CNI_IFNAME'')
             (generateHostVethName (sha1_hex env) hostVethPrefix podNS podName) mtu (net_IP host)
             (pn_VPCIP pn @ ''/32'')) p of
        (Inl e, p1) \<Rightarrow> fail_releasing env pn e p1
      | (Inr v, p1) \<Rightarrow>
     (case in_world (addRouteRuleForPodIp nl (hostVeth_Name v) (pn_VPCIP pn)) p1 of
        (Some e, p2) \<Rightarrow> (Some e, p2\<lparr>world := save_snapshot env (world p2)\<rparr>)
      | (None, p2) \<Rightarrow>
          if uses_uni_table nic pn then in_world (ensureSrcIPRoutePolicy nl (pn_VPCIP pn) nic) p2 else (None, p2))))))"

section \<open>runcmd.go\<close>

definition setNodePortRange ::
  "('w, 'z) plugin_env_scheme \<Rightarrow> string \<Rightarrow> PodNetwork \<Rightarrow> 'w proc \<Rightarrow> gerror option \<times> 'w proc" where
  "setNodePortRange env netNS pn p =
     (case GetNS env netNS (world p) of
        Some e \<Rightarrow> fail_releasing env pn (Errorf1 ''failed to open netns %q: %v'' e) p
      | None \<Rightarrow> (None, p\<lparr>world := run_sysctl env (world p)\<rparr>))"

section \<open>main.go: arguments and the result\<close>

definition loadSandboxArgs :: "string \<Rightarrow> string \<rightharpoonup> string" where
  "loadSandboxArgs args =
     fold (\<lambda>pair ret. case Split pair (CHR ''='') of [k, v] \<Rightarrow> ret(k \<mapsto> v) | _ \<Rightarrow> ret) (Split args (CHR '';'')) Map.empty"

definition ParsePlugin :: "('w, 'z) plugin_env_scheme \<Rightarrow> string \<Rightarrow> Plugin result" where
  "ParsePlugin env data =
     (case ParseJSON env data of
        Inl e \<Rightarrow> Inl (Errorf1 ''failed to parse cnivpc config: %v'' e)
      | Inr conf \<Rightarrow> Inr conf)"

record DNS =
  Nameservers :: "string list"
  dns_Search :: "string list"

definition parseDNSConfig :: "('w, 'z) plugin_env_scheme \<Rightarrow> 'w \<Rightarrow> DNS option" where
  "parseDNSConfig env w =
     map_option (\<lambda>dns. \<lparr>Nameservers = Servers dns, dns_Search = Search dns\<rparr>)
       (dnsReadConfig (ReadLines env ''/etc/resolve.conf'' w))"

text \<open>The routes found before a listing failed come back with its error.\<close>

fun routes_of :: "'w netlink \<Rightarrow> 'w \<Rightarrow> iface list \<Rightarrow> (IPNet option \<times> byte list) list \<Rightarrow>
    (IPNet option \<times> byte list) list \<times> gerror option" where
  "routes_of nl w [] acc = (acc, None)"
| "routes_of nl w (l # ls) acc =
     (case RouteList nl (fst l) w of
        Inl e \<Rightarrow> (acc, Some e)
      | Inr rs \<Rightarrow> routes_of nl w ls (acc @ map (\<lambda>r. (rt_Dst r, rt_Gw r)) rs))"

definition getRoutes :: "'w netlink \<Rightarrow> 'w \<Rightarrow> (IPNet option \<times> byte list) list \<times> gerror option" where
  "getRoutes nl w = (case LinkList nl w of Inl e \<Rightarrow> ([], Some e) | Inr ls \<Rightarrow> routes_of nl w ls [])"

text \<open>\<open>cmdAdd\<close> keeps the routes only when listing them failed, and the result has no field for them here.\<close>

definition result_of :: "PodNetwork \<Rightarrow> string \<Rightarrow> CniResult" where
  "result_of pn netNS =
     \<lparr>res_IPs = [\<lparr>ipc_Version = ''4'', ipc_Interface = Some 0,
         ipc_Address = \<lparr>net_IP = parsed (pn_VPCIP pn), net_Mask = parsed (pn_Mask pn)\<rparr>\<rparr>],
      res_Interfaces = [\<lparr>if_Name = ''eth0'', if_Mac = pn_MacAddress pn, if_Sandbox = netNS\<rparr>]\<rparr>"

section \<open>main.go: ADD\<close>

text \<open>
  \<open>rollbackNATGWOutgoingIP\<close>: the flag says whether this command added the address to the gateway's set; it is
  cleared once the address has been taken back.
\<close>

definition rollbackNATGWOutgoingIP :: "'w netlink \<Rightarrow> string \<Rightarrow> bool \<Rightarrow> 'w \<Rightarrow> (gerror option \<times> bool) \<times> 'w" where
  "rollbackNATGWOutgoingIP nl vpcip added w =
     (if \<not> added then ((None, added), w)
      else case deleteNATGWOutgoingIP nl vpcip w of
        (Some e, w1) \<Rightarrow> ((Some e, added), w1)
      | (None, w1) \<Rightarrow> ((None, False), w1))"

definition rollbackReleaseIP ::
  "('w, 'z) plugin_env_scheme \<Rightarrow> PodNetwork \<Rightarrow> bool \<Rightarrow> 'w proc \<Rightarrow> bool \<times> 'w proc" where
  "rollbackReleaseIP env pn added p =
     (case in_world (rollbackNATGWOutgoingIP (ce_nl env) (pn_VPCIP pn) added) p of
        ((err, added1), p1) \<Rightarrow> (added1, snd (releasePodIp (cni_env.truncate env) pn p1)))"

text \<open>What the deferred function makes of an error.\<close>

definition deferred ::
  "('w, 'z) plugin_env_scheme \<Rightarrow> PodNetwork \<Rightarrow> gerror \<Rightarrow> bool \<Rightarrow> 'w proc \<Rightarrow> gerror option \<times> 'w proc" where
  "deferred env pn e added p =
     (case in_world (rollbackNATGWOutgoingIP (ce_nl env) (pn_VPCIP pn) added) p of
        ((e2, _), p1) \<Rightarrow> (errors_Combine (Some e) e2, p1))"

definition fail_add ::
  "('w, 'z) plugin_env_scheme \<Rightarrow> PodNetwork \<Rightarrow> gerror \<Rightarrow> bool \<Rightarrow> 'w proc \<Rightarrow> gerror option \<times> 'w proc" where
  "fail_add env pn e added p =
     (case rollbackReleaseIP env pn added p of (added1, p1) \<Rightarrow> deferred env pn e added1 p1)"

definition pod_master_interface ::
  "('w, 'z) plugin_env_scheme \<Rightarrow> PodNetwork \<Rightarrow> 'w proc \<Rightarrow> string result \<times> 'w proc" where
  "pod_master_interface env pn p =
     (case (if HasPrefix (pn_InterfaceID pn) ''uni-''
            then (case GetLinkByMac (LinkList (ce_nl env) (world p)) (pn_MacAddress pn) of Inl e \<Rightarrow> [] | Inr l \<Rightarrow> fst l)
            else []) of
        [] \<Rightarrow> master_interface (cni_env.truncate env) p
      | n \<Rightarrow> (Inr n, p))"

text \<open>Only an address the plugin allocated itself is probed for a conflict.\<close>

definition probe_address ::
  "('w, 'z) plugin_env_scheme \<Rightarrow> PodNetwork \<Rightarrow> string \<Rightarrow> 'w action" where
  "probe_address env pn masterInterface w =
     (case ensureProxyArp env masterInterface w of
        (Some e, w1) \<Rightarrow> (Some (Errorf1 ''failed to enable proxy arp: %v'' e), w1)
      | (None, w1) \<Rightarrow>
          (case DetectIpConflictWithGratuitousArp (arp_attempt env (parsed (pn_VPCIP pn)) masterInterface) w1 of
             ((conflict, Some e), w2) \<Rightarrow> (Some (Errorf1 ''failed to detect conflict: %v'' e), w2)
           | ((conflict, None), w2) \<Rightarrow> if conflict then (Some ErrIPConflict, w2) else (None, w2)))"

definition finish_add ::
  "('w, 'z) plugin_env_scheme \<Rightarrow> string \<Rightarrow> string \<Rightarrow> string \<Rightarrow> string \<Rightarrow> string \<Rightarrow> Plugin \<Rightarrow> PodNetwork \<Rightarrow> bool \<Rightarrow>
   'w proc \<Rightarrow> gerror option \<times> 'w proc" where
  "finish_add env containerID podName podNS netNS sandBoxId conf pn added p =
     (case parseDNSConfig env (world p) of
        None \<Rightarrow> (Some Exit, p)
      | Some dns \<Rightarrow>
          (case addPodNetworkRecord (cni_env.truncate env) podName podNS sandBoxId pn p of
             (Some e, p1) \<Rightarrow> deferred env pn (Errorf1 ''failed to add pod network record: %v'' e) added p1
           | (None, p1) \<Rightarrow>
               (case in_world (portmap_CmdAdd (pe_portmap env) containerID (conf\<lparr>PrevResult := Some (result_of pn netNS)\<rparr>)) p1 of
                  (Some e, p2) \<Rightarrow> deferred env pn (Errorf1 ''portmap add error: %v'' e) added p2
                | (None, p2) \<Rightarrow> (None, p2))))"

definition connect_pod ::
  "('w, 'z) plugin_env_scheme \<Rightarrow> string \<Rightarrow> string \<Rightarrow> string \<Rightarrow> string \<Rightarrow> string \<Rightarrow> Plugin \<Rightarrow> PodNetwork \<Rightarrow> bool \<Rightarrow> string \<Rightarrow>
   int \<Rightarrow> 'w proc \<Rightarrow> gerror option \<times> 'w proc" where
  "connect_pod env containerID podName podNS netNS sandBoxId conf pn natgw masterInterface mtu p =
     (case in_world (syncNATGWOutgoingIP (ce_nl env) (pn_VPCIP pn) natgw) p of
        (r, p1) \<Rightarrow>
          let added = (case r of Inl e \<Rightarrow> False | Inr b \<Rightarrow> b) in
          (case setupPodVethNetwork env podName podNS netNS masterInterface pn mtu p1 of
             (Some e, p2) \<Rightarrow> fail_add env pn (Errorf1 ''failed to setup veth network: %v'' e) added p2
           | (None, p2) \<Rightarrow>
               (case setNodePortRange env netNS pn p2 of
                  (Some e, p3) \<Rightarrow> fail_add env pn (Errorf1 ''failed to set node port: %v'' e) added p3
                | (None, p3) \<Rightarrow> finish_add env containerID podName podNS netNS sandBoxId conf pn added p3)))"

definition add_assigned ::
  "('w, 'z) plugin_env_scheme \<Rightarrow> string \<Rightarrow> string \<Rightarrow> string \<Rightarrow> string \<Rightarrow> string \<Rightarrow> Plugin \<Rightarrow> podIPAssignment \<Rightarrow>
   PodNetwork \<Rightarrow> 'w proc \<Rightarrow> gerror option \<times> 'w proc" where
  "add_assigned env containerID podName podNS netNS sandBoxId conf assignment pn p =
     (case pod_master_interface env pn p of
        (Inl e, p1) \<Rightarrow> (Some e, p1)
      | (Inr masterInterface, p1) \<Rightarrow>
     (case InterfaceMTU (ce_nl env) masterInterface (world p1) of
        Inl e \<Rightarrow> fail_add env pn (Errorf1 ''failed to get interface MTU: %v'' e) False p1
      | Inr mtu \<Rightarrow>
     (case (if fromIPAMD assignment then (None, p1) else in_world (probe_address env pn masterInterface) p1) of
        (Some e, p2) \<Rightarrow> fail_add env pn e False p2
      | (None, p2) \<Rightarrow>
          connect_pod env containerID podName podNS netNS sandBoxId conf pn (natGWOutgoingEnabled assignment)
            masterInterface mtu p2)))"

definition add_locked ::
  "('w, 'z) plugin_env_scheme \<Rightarrow> string \<Rightarrow> string \<Rightarrow> string \<Rightarrow> 'w proc \<Rightarrow> gerror option \<times> 'w proc" where
  "add_locked env containerID stdin args p =
     (case ParsePlugin env stdin of
        Inl e \<Rightarrow> (Some (Errorf1 ''failed to parse cmdadd config: %v'' e), p)
      | Inr conf \<Rightarrow>
     (case in_world (\<lambda>w. ensurePodMetadataBlocked (NewWithProtocol (pe_portmap env) False w) w) p of
        (Some e, p1) \<Rightarrow> (Some e, p1)
      | (None, p1) \<Rightarrow>
          let podArgs = loadSandboxArgs args;
              podName = map_get podArgs ''K8S_POD_NAME''; podNS = map_get podArgs ''K8S_POD_NAMESPACE'';
              sandBoxId = map_get podArgs ''K8S_POD_INFRA_CONTAINER_ID'';
              netNS = Getenv (ce_cloud env) ''CNI_NETNS'' in
          (case assignPodIp (cni_env.truncate env) podName podNS netNS sandBoxId p1 of
             (Inl e, p2) \<Rightarrow> (Some (Errorf1 ''failed to assign ip: %v'' e), p2)
           | (Inr assignment, p2) \<Rightarrow>
               (case network assignment of
                  None \<Rightarrow> (Some Panic, p2)
                | Some pn \<Rightarrow> add_assigned env containerID podName podNS netNS sandBoxId conf assignment pn p2))))"

definition cmdAdd ::
  "('w, 'z) plugin_env_scheme \<Rightarrow> string \<Rightarrow> string \<Rightarrow> string \<Rightarrow> 'w proc \<Rightarrow> gerror option \<times> 'w proc" where
  "cmdAdd env containerID stdin args = with_lock env (add_locked env containerID stdin args)"

section \<open>main.go: DEL\<close>

text \<open>\<open>ErrLinkNotFound\<close> of the plugins' \<open>ip\<close> package is an error of its own, not the one \<open>netlink\<close> has.\<close>

definition ip_ErrLinkNotFound :: gerror where "ip_ErrLinkNotFound = Errors_New ''link not found''"

definition delete_interface :: "('w, 'z) plugin_env_scheme \<Rightarrow> string \<Rightarrow> string \<Rightarrow> 'w action" where
  "delete_interface env netNS ifname w =
     (case WithNetNSPath env netNS w of
        Some e \<Rightarrow> (Some e, w)
      | None \<Rightarrow>
          (case ns_LinkByName env netNS ifname w of
             Some e \<Rightarrow> if e = LinkNotFound then (None, w) else (Some (Errorf1 ''failed to get netlink %s: %v'' e), w)
           | None \<Rightarrow>
               (case ns_LinkDel env netNS ifname w of
                  (Some e, w1) \<Rightarrow> if e = ip_ErrLinkNotFound then (None, w1) else (Some e, w1)
                | (None, w1) \<Rightarrow> (None, w1))))"

definition release_recorded ::
  "('w, 'z) plugin_env_scheme \<Rightarrow> string \<Rightarrow> string \<Rightarrow> string \<Rightarrow> PodNetwork \<Rightarrow> 'w proc \<Rightarrow> gerror option \<times> 'w proc" where
  "release_recorded env podName podNS sandBoxId pn p =
     (case in_world (deleteNATGWOutgoingIP (ce_nl env) (pn_VPCIP pn)) p of
        (_, p1) \<Rightarrow>
     (case in_world (cleanUpIPRoutePolicy (ce_nl env) (pn_VPCIP pn)) p1 of
        (Some e, p2) \<Rightarrow> (Some (Errorf1 ''fail to clean up ip rules: %v'' e), p2)
      | (None, p2) \<Rightarrow>
     (case releasePodIp (cni_env.truncate env) pn p2 of
        (Some e, p3) \<Rightarrow> (Some (Errorf1 ''failed to release pod ip %v, %v'' e), p3)
      | (None, p3) \<Rightarrow> (None, snd (in_world (delPodNetworkRecord (cni_env.truncate env) podName podNS sandBoxId) p3)))))"

definition del_locked ::
  "('w, 'z) plugin_env_scheme \<Rightarrow> string \<Rightarrow> string \<Rightarrow> string \<Rightarrow> 'w proc \<Rightarrow> gerror option \<times> 'w proc" where
  "del_locked env containerID stdin args p =
     (case ParsePlugin env stdin of
        Inl e \<Rightarrow> (Some e, p)
      | Inr conf \<Rightarrow>
          let podArgs = loadSandboxArgs args;
              podName = map_get podArgs ''K8S_POD_NAME''; podNS = map_get podArgs ''K8S_POD_NAMESPACE'';
              netNS = Getenv (ce_cloud env) ''CNI_NETNS'';
              sandBoxId = map_get podArgs ''K8S_POD_INFRA_CONTAINER_ID'' in
     (case in_world (getPodNetworkRecord (cni_env.truncate env) podName podNS sandBoxId) p of
        (Inl e, p1) \<Rightarrow> (None, p1)
      | (Inr record', p1) \<Rightarrow>
     (case (case record' of
              Some pn \<Rightarrow> if pn_VPCIP pn \<noteq> [] then release_recorded env podName podNS sandBoxId pn p1 else (None, p1)
            | None \<Rightarrow> (None, p1)) of
        (Some e, p2) \<Rightarrow> (Some e, p2)
      | (None, p2) \<Rightarrow>
     (case in_world (portmap_CmdDel (pe_portmap env) containerID conf) p2 of
        (Some e, p3) \<Rightarrow> (Some e, p3)
      | (None, p3) \<Rightarrow>
          let ifname = Getenv (ce_cloud env) ''CNI_IFNAME'' in
          if netNS \<noteq> [] \<and> ifname \<noteq> [] then
            (case in_world (delete_interface env netNS ifname) p3 of
               (Some e, p4) \<Rightarrow> (Some (Errorf1 ''failed to delete interface %s in %s: %v'' e), p4)
             | (None, p4) \<Rightarrow> (None, p4))
          else (None, p3)))))"

definition cmdDel ::
  "('w, 'z) plugin_env_scheme \<Rightarrow> string \<Rightarrow> string \<Rightarrow> string \<Rightarrow> 'w proc \<Rightarrow> gerror option \<times> 'w proc" where
  "cmdDel env containerID stdin args = with_lock env (del_locked env containerID stdin args)"

end
