(* ===== verification/Cni_Natgw_Props.thy ===== *)
theory Cni_Natgw_Props
  imports Cni_Natgw
begin

text \<open>
  The kernel set of the NAT gateway over its documented behaviour, the locale \<open>ipset_api\<close>: what
  adding, deleting and the migration do to its members.
\<close>

locale ipset_api =
  fixes N :: "'w netlink" and members :: "'w \<Rightarrow> byte list set option"
  assumes IpsetCreate: "IpsetCreate N w = (None, w') \<Longrightarrow>
      members w' = Some (case members w of None \<Rightarrow> {} | Some s \<Rightarrow> s)"
    and IpsetCreate_err: "IpsetCreate N w = (Some e, w') \<Longrightarrow> members w' = members w"
    and IpsetList: "IpsetList N w = Inr es \<Longrightarrow> members w = Some (set es)"
    and IpsetAdd: "IpsetAdd N b w = (None, w') \<Longrightarrow>
      \<exists>s. members w = Some s \<and> b \<notin> s \<and> members w' = Some (insert b s)"
    and IpsetAdd_err: "IpsetAdd N b w = (Some e, w') \<Longrightarrow>
      members w' = members w \<and> (errors_Is e IPSET_ERR_EXIST \<longrightarrow> (\<exists>s. members w = Some s \<and> b \<in> s))"
    and IpsetDel: "IpsetDel N b w = (None, w') \<Longrightarrow>
      \<exists>s. members w = Some s \<and> members w' = Some (s - {b})"
    and IpsetDel_err: "IpsetDel N b w = (Some e, w') \<Longrightarrow>
      members w' = members w \<and> (errors_Is e (Sys ENOENT) \<longrightarrow> members w = None)"
    and canonical: "members w = Some s \<Longrightarrow> a \<in> s \<Longrightarrow> To4 a = Some b \<Longrightarrow> a = b"

text \<open>The addresses named by a list of texts.\<close>

definition named :: "string list \<Rightarrow> byte list set" where
  "named ips = {b. length b = 4 \<and> dotted b \<in> set ips}"

lemma natGWOutgoingIPSetEntry_dotted: "length b = 4 \<Longrightarrow> natGWOutgoingIPSetEntry (dotted b) = Inr b"
  by (simp add: natGWOutgoingIPSetEntry_def ParseIP_dotted)

lemma natGWOutgoingIPSetEntry_length: "natGWOutgoingIPSetEntry s = Inr b \<Longrightarrow> length b = 4"
  by (auto simp: natGWOutgoingIPSetEntry_def dest: To4_length split: option.splits)

lemma To4_length4: "length b = 4 \<Longrightarrow> To4 b = Some b"
  by (simp add: To4_def)

definition all_v4 :: "string list \<Rightarrow> bool" where
  "all_v4 ips \<longleftrightarrow> (\<forall>ip\<in>set ips. \<exists>b. length b = 4 \<and> ip = dotted b)"

lemma named_Cons: "length b = 4 \<Longrightarrow> named (dotted b # ips) = insert b (named ips)"
  by (auto simp: named_def dest: dotted_inj)

section \<open>What is desired and what is there\<close>

lemma desired_fold:
  "set (fold (add_desired pods pol) ns ips) = set ips \<union>
    {IP_String b | b n. n \<in> set ns \<and> selects_natgw pods pol n \<and> natGWOutgoingIPSetEntry (pn_VPCIP n) = Inr b}"
proof (induction ns arbitrary: ips)
  case (Cons n ns)
  show ?case
    unfolding fold_Cons comp_def Cons.IH
    by (cases "natGWOutgoingIPSetEntry (pn_VPCIP n)") (auto simp: add_desired_def)
qed simp

lemma desired_set:
  "set (desiredNATGWOutgoingIPs ns pods pol) =
    {IP_String b | b n. n \<in> set ns \<and> selects_natgw pods pol n \<and> natGWOutgoingIPSetEntry (pn_VPCIP n) = Inr b}"
  by (simp add: desiredNATGWOutgoingIPs_def desired_fold)

lemma desired_v4: "all_v4 (desiredNATGWOutgoingIPs ns pods pol)"
  unfolding all_v4_def desired_set using natGWOutgoingIPSetEntry_length IP_String_v4 by fastforce

lemma desired_named:
  "named (desiredNATGWOutgoingIPs ns pods pol) =
    {b. \<exists>n\<in>set ns. selects_natgw pods pol n \<and> natGWOutgoingIPSetEntry (pn_VPCIP n) = Inr b}"
proof -
  have "dotted b = IP_String b' \<Longrightarrow> length b = 4 \<Longrightarrow> natGWOutgoingIPSetEntry s = Inr b' \<Longrightarrow> b = b'" for b b' s
    using natGWOutgoingIPSetEntry_length [of s b'] by (auto simp: IP_String_v4 dest: dotted_inj)
  then show ?thesis
    by (auto simp: named_def desired_set IP_String_v4 dest: natGWOutgoingIPSetEntry_length)
      (metis IP_String_v4 natGWOutgoingIPSetEntry_length)
qed

lemma current_fold:
  "set (fold (\<lambda>entry ips. case To4 entry of None \<Rightarrow> ips | Some ip \<Rightarrow> List.insert (IP_String ip) ips) es ips) =
    set ips \<union> {IP_String b | b e. e \<in> set es \<and> To4 e = Some b}"
proof (induction es arbitrary: ips)
  case (Cons e es)
  show ?case unfolding fold_Cons comp_def Cons.IH by (cases "To4 e") auto
qed simp

lemma current_set: "set (currentNATGWOutgoingIPs es) = {IP_String b | b e. e \<in> set es \<and> To4 e = Some b}"
  by (simp add: currentNATGWOutgoingIPs_def current_fold)

lemma current_v4: "all_v4 (currentNATGWOutgoingIPs es)"
  unfolding all_v4_def current_set using To4_length IP_String_v4 by fastforce

lemma current_named: "named (currentNATGWOutgoingIPs es) = {b. \<exists>e\<in>set es. To4 e = Some b}"
proof -
  have "dotted b = IP_String b' \<Longrightarrow> length b = 4 \<Longrightarrow> To4 e = Some b' \<Longrightarrow> b = b'" for b b' e
    using To4_length [of e b'] by (auto simp: IP_String_v4 dest: dotted_inj)
  then show ?thesis
    by (auto simp: named_def current_set dest: To4_length) (metis IP_String_v4 To4_length)
qed

lemma named_set_cong: "set xs = set ys \<Longrightarrow> named xs = named ys"
  by (simp add: named_def)

lemma all_v4_set_cong: "set xs \<subseteq> set ys \<Longrightarrow> all_v4 ys \<Longrightarrow> all_v4 xs"
  by (auto simp: all_v4_def)

context ipset_api
begin

lemma sync_spec:
  assumes "syncNATGWOutgoingIP N ip True w = (Inr added, w')" and "natGWOutgoingIPSetEntry ip = Inr b"
  shows "members w' = Some (insert b (case members w of None \<Rightarrow> {} | Some s \<Rightarrow> s)) \<and>
    (added \<longleftrightarrow> b \<notin> (case members w of None \<Rightarrow> {} | Some s \<Rightarrow> s))"
proof -
  from assms obtain w1 where c: "IpsetCreate N w = (None, w1)"
    by (auto simp: syncNATGWOutgoingIP_def ensureNATGWOutgoingIPSet_def split: prod.splits option.splits)
  note m1 = IpsetCreate [OF c]
  obtain e w2 where a: "IpsetAdd N b w1 = (e, w2)" by fastforce
  show ?thesis
  proof (cases e)
    case None
    with assms c a have "added" "w' = w2"
      by (auto simp: syncNATGWOutgoingIP_def ensureNATGWOutgoingIPSet_def)
    with IpsetAdd a None m1 show ?thesis by fastforce
  next
    case (Some x)
    with assms c a have "\<not> added" "w' = w2" "errors_Is x IPSET_ERR_EXIST"
      by (auto simp: syncNATGWOutgoingIP_def ensureNATGWOutgoingIPSet_def split: if_splits)
    with IpsetAdd_err [of b w1 x w2] a Some m1 show ?thesis by (auto simp: insert_absorb)
  qed
qed

lemma delete_spec:
  assumes "deleteNATGWOutgoingIP N ip w = (None, w')" and "natGWOutgoingIPSetEntry ip = Inr b"
  shows "members w' = map_option (\<lambda>s. s - {b}) (members w)"
proof -
  obtain e w1 where d: "IpsetDel N b w = (e, w1)" by fastforce
  show ?thesis
  proof (cases e)
    case None
    with assms d have "w' = w1" by (simp add: deleteNATGWOutgoingIP_def)
    with IpsetDel d None show ?thesis by fastforce
  next
    case (Some x)
    with assms d have "w' = w1" "errors_Is x (Sys ENOENT)"
      by (auto simp: deleteNATGWOutgoingIP_def split: if_splits)
    with IpsetDel_err [of b w x w1] d Some show ?thesis by auto
  qed
qed

lemma each_sync:
  "\<lbrakk> each (sync_one N) ips w = (None, w'); all_v4 ips; members w = Some s \<rbrakk> \<Longrightarrow>
    members w' = Some (s \<union> named ips)"
proof (induction ips arbitrary: w s)
  case Nil
  then show ?case by (simp add: named_def)
next
  case (Cons ip ips)
  from Cons.prems(2) obtain b where b: "length b = 4" "ip = dotted b" by (auto simp: all_v4_def)
  from Cons.prems(1) obtain w1 where w1: "sync_one N ip w = (None, w1)" "each (sync_one N) ips w1 = (None, w')"
    unfolding each_Cons_None_iff by blast
  from w1(1) obtain added where a: "syncNATGWOutgoingIP N (dotted b) True w = (Inr added, w1)"
    by (auto simp: sync_one_def b err_of_def split: prod.splits sum.splits)
  have "members w1 = Some (insert b s)" using sync_spec [OF a natGWOutgoingIPSetEntry_dotted [OF b(1)]] Cons.prems(3) by simp
  moreover have "all_v4 ips" using Cons.prems(2) by (simp add: all_v4_def)
  ultimately show ?case using Cons.IH [OF w1(2)] b by (simp add: named_Cons)
qed

lemma each_delete:
  "\<lbrakk> each (deleteNATGWOutgoingIP N) ips w = (None, w'); all_v4 ips; members w = Some s \<rbrakk> \<Longrightarrow>
    members w' = Some (s - named ips)"
proof (induction ips arbitrary: w s)
  case Nil
  then show ?case by (simp add: named_def)
next
  case (Cons ip ips)
  from Cons.prems(2) obtain b where b: "length b = 4" "ip = dotted b" by (auto simp: all_v4_def)
  from Cons.prems(1) obtain w1 where w1: "deleteNATGWOutgoingIP N ip w = (None, w1)"
    "each (deleteNATGWOutgoingIP N) ips w1 = (None, w')"
    unfolding each_Cons_None_iff by blast
  have "members w1 = Some (s - {b})" using delete_spec [OF w1(1) [unfolded b] natGWOutgoingIPSetEntry_dotted [OF b(1)]] Cons.prems(3) by simp
  moreover have "all_v4 ips" using Cons.prems(2) by (simp add: all_v4_def)
  moreover have "s - {b} - named ips = s - named (ip # ips)"
    unfolding b(2) named_Cons [OF b(1)] by blast
  ultimately show ?case using Cons.IH [OF w1(2)] by metis
qed

lemma converge_spec:
  assumes "ce_nl env = N" and "reorders (set_order env)" and "all_v4 desired"
    and "converge env desired w = (None, w')"
  shows "\<exists>s s'. members w = Some s \<and> members w' = Some s' \<and> {e \<in> s'. To4 e \<noteq> None} = named desired \<and>
    {e \<in> s'. To4 e = None} = {e \<in> s. To4 e = None}"
proof -
  from assms(1,4) obtain es where l: "IpsetList N w = Inr es" by (auto simp: converge_def split: sum.splits)
  define cur where "cur = currentNATGWOutgoingIPs es"
  define toAdd where "toAdd = filter (\<lambda>ip. ip \<notin> set cur) desired"
  define toDelete where "toDelete = filter (\<lambda>ip. ip \<notin> set desired) cur"
  from assms(1,4) l obtain w1 where a: "each (sync_one N) (set_order env toAdd) w = (None, w1)"
    and d: "each (deleteNATGWOutgoingIP N) (set_order env toDelete) w1 = (None, w')"
    by (auto simp: converge_def Let_def seq_None_iff cur_def toAdd_def toDelete_def)
  note m = IpsetList [OF l]
  have sets: "set (set_order env xs) = set xs" for xs by (rule reorders_set [OF assms(2)])
  have vA: "all_v4 (set_order env toAdd)"
    by (rule all_v4_set_cong [OF _ assms(3)]) (auto simp: sets toAdd_def)
  have vD: "all_v4 (set_order env toDelete)"
    by (rule all_v4_set_cong [OF _ current_v4 [of es]]) (auto simp: sets toDelete_def cur_def)
  have m1: "members w1 = Some (set es \<union> named toAdd)"
    using each_sync [OF a vA m] named_set_cong [OF sets] by simp
  have m2: "members w' = Some (set es \<union> named toAdd - named toDelete)"
    using each_delete [OF d vD m1] named_set_cong [OF sets] by simp
  have can: "a \<in> set es \<Longrightarrow> To4 a = Some b \<Longrightarrow> a = b" for a b by (rule canonical [OF m])
  have nc: "named cur = {a \<in> set es. To4 a \<noteq> None}"
    unfolding cur_def current_named using can by (safe; simp) (metis option.inject)+
  have nA: "named toAdd = named desired - named cur" by (auto simp: named_def toAdd_def)
  have nD: "named toDelete = named cur - named desired" by (auto simp: named_def toDelete_def)
  have v4: "b \<in> named xs \<Longrightarrow> To4 b = Some b" for b xs by (simp add: named_def To4_length4)
  have "{e \<in> set es \<union> named toAdd - named toDelete. To4 e \<noteq> None} = named desired"
    using v4 [of _ desired] unfolding nA nD nc by auto
  moreover have "{e \<in> set es \<union> named toAdd - named toDelete. To4 e = None} = {e \<in> set es. To4 e = None}"
    using v4 [of _ toAdd] v4 [of _ toDelete] by force
  ultimately show ?thesis using m m2 by blast
qed

end

section \<open>A set in memory\<close>

definition mem_ipset :: "byte list list option netlink" where
  "mem_ipset = \<lparr>
     NewRule = \<lparr>rl_Priority = -1, rl_Table = 0, rl_Src = None, rl_Dst = None, rl_Mark = -1, rl_Mask = -1\<rparr>,
     NewIPNet = (\<lambda>b. \<lparr>net_IP = b, net_Mask = replicate 4 255\<rparr>),
     ParseAddr = (\<lambda>s. Inl (Ext 0)), RuleList = (\<lambda>w. Inr []), RuleAdd = (\<lambda>r. Pair None), RuleDel = (\<lambda>r. Pair None),
     LinkList = (\<lambda>w. Inr []), LinkByName = (\<lambda>n w. Inr (n, [])), InterfaceMTU = (\<lambda>n w. Inr 1500),
     AddrList = (\<lambda>n w. Inr []), RouteList = (\<lambda>n w. Inr []),
     RouteAdd = (\<lambda>r. Pair None), RouteReplace = (\<lambda>r. Pair None), RouteDel = (\<lambda>r. Pair None),
     AddrReplace = (\<lambda>n a. Pair None), LinkSetMTU = (\<lambda>n i. Pair None), LinkSetUp = (\<lambda>n. Pair None),
     LinkDel = (\<lambda>n. Pair None), WriteFile = (\<lambda>f s. Pair None), ReadFile = (\<lambda>f w. Inr []),
     Glob = (\<lambda>p w. Inr []), GratuitousArpOverIfaceByName = (\<lambda>b n. Pair None),
     IpsetCreate = (\<lambda>m. (None, Some (case m of None \<Rightarrow> [] | Some l \<Rightarrow> l))),
     IpsetList = (\<lambda>m. case m of None \<Rightarrow> Inl (Sys ENOENT) | Some l \<Rightarrow> Inr (filter (\<lambda>e. length e = 4) l)),
     IpsetAdd = (\<lambda>b m. case m of None \<Rightarrow> (Some (Sys ENOENT), m)
        | Some l \<Rightarrow> if length b \<noteq> 4 then (Some (Ext 1), m)
                    else if b \<in> set l then (Some IPSET_ERR_EXIST, m) else (None, Some (b # l))),
     IpsetDel = (\<lambda>b m. case m of None \<Rightarrow> (Some (Sys ENOENT), m) | Some l \<Rightarrow> (None, Some (removeAll b l))),
     NewIPTables = (\<lambda>w. Inl (Ext 0))\<rparr>"

definition mem_members :: "byte list list option \<Rightarrow> byte list set option" where
  "mem_members m = map_option (\<lambda>l. {e \<in> set l. length e = 4}) m"

interpretation mem_set: ipset_api mem_ipset mem_members
  by unfold_locales
    (auto simp: mem_ipset_def mem_members_def IPSET_ERR_EXIST_def To4_def split: option.splits if_splits)

section \<open>Property\<close>

text \<open>C13. The migration makes the kernel set exactly the addresses of the pods that take part.

  The set that \<open>migrateLegacyNATGWOutgoingIPs\<close> converges to is computed from the records, the pods on the
  node and the pod networkings. When it returned no error, an IPv4 address is a member if and only if some
  record has it, whose pod runs on the node, is the pod recorded, has not opted out and selects a pod
  networking with the gateway enabled. Members that are no IPv4 addresses stay. The result does not depend
  on the order in which Go walks the two differences.
\<close>

theorem natgw_migration_converges:
  assumes "ipset_api (ce_nl env) members" and "reorders (set_order env)"
    and "converge env (desiredNATGWOutgoingIPs networks pods policies) w = (None, w')"
  shows "\<exists>s s'. members w = Some s \<and> members w' = Some s' \<and>
    {e \<in> s'. To4 e \<noteq> None} =
      {b. \<exists>n\<in>set networks. selects_natgw pods policies n \<and> natGWOutgoingIPSetEntry (pn_VPCIP n) = Inr b} \<and>
    {e \<in> s'. To4 e = None} = {e \<in> s. To4 e = None}"
  using ipset_api.converge_spec [OF assms(1) refl assms(2) desired_v4 assms(3)] unfolding desired_named .

definition demo_record :: PodNetwork where
  "demo_record = PodNetwork_zero\<lparr>pn_PodName := ''web'', pn_PodNS := ''default'', pn_VPCIP := dotted [10, 0, 2, 7]\<rparr>"

definition demo_live :: "string \<times> string \<rightharpoonup> Pod" where
  "demo_live = [(''default'', ''web'') \<mapsto> \<lparr>pod_Name = ''web'', pod_Namespace = ''default'', pod_UID = ''u1'',
     pod_NodeName = ''n1'', pod_Annotations = Map.empty, pod_Owners = [], pod_Phase = ''Running''\<rparr>]"

lemma natgw_migration_converges_witness:
  "\<exists>w'. converge (cni_down mem_ipset) (desiredNATGWOutgoingIPs [demo_record] demo_live [''default'' \<mapsto> True])
      (Some [[10, 0, 2, 9]]) = (None, w') \<and> {x. \<exists>s. mem_members w' = Some s \<and> x \<in> s \<and> To4 x \<noteq> None} = {[10, 0, 2, 7]}"
proof -
  have len: "length [10, 0, 2, 7 :: byte] = 4" "length [10, 0, 2, 9 :: byte] = 4" by simp_all
  have sel: "selects_natgw demo_live [''default'' \<mapsto> True] demo_record"
    by (simp add: selects_natgw_def demo_live_def demo_record_def PodNetwork_zero_def map_get_def
        DefaultPodNetworkingName_def)
  have ent: "natGWOutgoingIPSetEntry (pn_VPCIP demo_record) = Inr [10, 0, 2, 7]"
    using natGWOutgoingIPSetEntry_dotted [OF len(1)] by (simp add: demo_record_def)
  have des: "desiredNATGWOutgoingIPs [demo_record] demo_live [''default'' \<mapsto> True] = [dotted [10, 0, 2, 7]]"
    using sel ent by (simp add: desiredNATGWOutgoingIPs_def add_desired_def IP_String_v4)
  have ne: "dotted [10, 0, 2, 9] \<noteq> dotted [10, 0, 2, 7]" using dotted_inj len by fastforce
  have cur: "currentNATGWOutgoingIPs [[10, 0, 2, 9]] = [dotted [10, 0, 2, 9]]"
    by (simp add: currentNATGWOutgoingIPs_def To4_def IP_String_v4)
  have run: "converge (cni_down mem_ipset) [dotted [10, 0, 2, 7]] (Some [[10, 0, 2, 9]]) = (None, Some [[10, 0, 2, 7]])"
    using ne natGWOutgoingIPSetEntry_dotted [OF len(1)] natGWOutgoingIPSetEntry_dotted [OF len(2)]
    by (simp add: converge_def cni_down_def mem_ipset_def cur seq_def sync_one_def syncNATGWOutgoingIP_def
        ensureNATGWOutgoingIPSet_def deleteNATGWOutgoingIP_def IPSET_ERR_EXIST_def)
  have nl: "ipset_api (ce_nl (cni_down mem_ipset)) mem_members" "reorders (set_order (cni_down mem_ipset))"
    by (simp_all add: cni_down_def mem_set.ipset_api_axioms)
  from natgw_migration_converges [OF nl run [folded des]] obtain s' where
    s': "mem_members (Some [[10, 0, 2, 7]]) = Some s'"
    "{x \<in> s'. To4 x \<noteq> None} = {b. \<exists>n\<in>set [demo_record]. selects_natgw demo_live [''default'' \<mapsto> True] n \<and>
      natGWOutgoingIPSetEntry (pn_VPCIP n) = Inr b}" by blast
  have "{b. \<exists>n\<in>set [demo_record]. selects_natgw demo_live [''default'' \<mapsto> True] n \<and>
      natGWOutgoingIPSetEntry (pn_VPCIP n) = Inr b} = {[10, 0, 2, 7]}"
    using sel ent by auto
  with s' have m: "{x. \<exists>s. mem_members (Some [[10, 0, 2, 7]]) = Some s \<and> x \<in> s \<and> To4 x \<noteq> None} = {[10, 0, 2, 7]}"
    by auto
  show ?thesis unfolding des by (intro exI conjI) (rule run, rule m)
qed

end
