(* ===== verification/Cni_Main_Props.thy ===== *)
theory Cni_Main_Props
  imports Cni_Main Cni_Natgw_Props
begin

text \<open>
  The commands of the plugin: that they run under the lock, that a failing ADD takes back what it added to the
  NAT gateway's set, and who may give an address to a pod.
\<close>

section \<open>The lock\<close>






section \<open>What a failing ADD takes back\<close>

text \<open>The members of the set, none when it does not exist.\<close>

definition gateway :: "byte list set option \<Rightarrow> byte list set" where
  "gateway m = (case m of None \<Rightarrow> {} | Some s \<Rightarrow> s)"

lemma gateway_simps [simp]: "gateway None = {}" "gateway (Some s) = s"
  by (simp_all add: gateway_def)

context ipset_api
begin

lemma sync_gateway:
  assumes "syncNATGWOutgoingIP N ip enabled w = (r, w')"
  shows "if r = Inr True
    then \<exists>b. natGWOutgoingIPSetEntry ip = Inr b \<and> b \<notin> gateway (members w) \<and>
           gateway (members w') = insert b (gateway (members w))
    else gateway (members w') = gateway (members w)"
proof (cases "enabled")
  case True
  obtain c w1 where c: "IpsetCreate N w = (c, w1)" by fastforce
  then have g1: "gateway (members w1) = gateway (members w)"
    using IpsetCreate [of w w1] IpsetCreate_err [of w _ w1] by (cases c) (auto simp: gateway_def)
  show ?thesis
  proof (cases "c = None \<and> (\<exists>b. natGWOutgoingIPSetEntry ip = Inr b)")
    case False
    then have "w' = w1 \<and> isl r" using assms c True
      by (cases c; cases "natGWOutgoingIPSetEntry ip") (auto simp: syncNATGWOutgoingIP_def ensureNATGWOutgoingIPSet_def)
    with g1 show ?thesis by auto
  next
    case e: True
    then obtain b where b: "natGWOutgoingIPSetEntry ip = Inr b" "c = None" by blast
    obtain a w2 where a: "IpsetAdd N b w1 = (a, w2)" by fastforce
    have w2: "w' = w2" and ra: "r = Inr True \<longleftrightarrow> a = None"
      using assms c True b a
      by (cases a; auto simp: syncNATGWOutgoingIP_def ensureNATGWOutgoingIPSet_def split: if_splits)+
    show ?thesis
    proof (cases a)
      case None
      with IpsetAdd [of b w1 w2] a obtain s where "members w1 = Some s" "b \<notin> s" "members w2 = Some (insert b s)"
        by auto
      with g1 ra None w2 b show ?thesis by auto
    next
      case (Some x)
      with IpsetAdd_err [of b w1 x w2] a ra g1 w2 show ?thesis by simp
    qed
  qed
qed (use assms in \<open>auto simp: syncNATGWOutgoingIP_def\<close>)

lemma delete_gateway:
  assumes "deleteNATGWOutgoingIP N ip w = (err, w')" and "natGWOutgoingIPSetEntry ip = Inr b"
  shows "gateway (members w') = (if err = None then gateway (members w) - {b} else gateway (members w))"
proof (cases err)
  case None
  with delete_spec [of ip w w' b] assms show ?thesis by (cases "members w") auto
next
  case (Some e)
  obtain d w1 where d: "IpsetDel N b w = (d, w1)" by fastforce
  with assms Some have "w' = w1" "d \<noteq> None"
    by (auto simp: deleteNATGWOutgoingIP_def split: option.splits if_splits)
  with IpsetDel_err [of b w _ w1] d Some show ?thesis by auto
qed

text \<open>
  What the flag of the rollback says of the set: that the address \<open>b\<close> was added to the members \<open>G\<close>
  there were.
\<close>

definition owes :: "string \<Rightarrow> byte list set \<Rightarrow> bool \<Rightarrow> 'w \<Rightarrow> bool" where
  "owes ip G added w \<longleftrightarrow>
     (if added then \<exists>b. natGWOutgoingIPSetEntry ip = Inr b \<and> b \<notin> G \<and> gateway (members w) = insert b G
      else gateway (members w) = G)"

lemma sync_owes:
  "syncNATGWOutgoingIP N ip enabled w = (r, w') \<Longrightarrow>
    owes ip (gateway (members w)) (case r of Inl e \<Rightarrow> False | Inr added \<Rightarrow> added) w'"
  using sync_gateway [of ip enabled w r w'] by (auto simp: owes_def split: sum.splits)

lemma rollback_owes:
  assumes "rollbackNATGWOutgoingIP N ip added w = ((err, added'), w')" and "owes ip G added w"
  shows "owes ip G added' w' \<and> (added' \<longrightarrow> err \<noteq> None \<and> deleteNATGWOutgoingIP N ip w = (err, w'))"
proof (cases added)
  case True
  with assms(2) obtain b where b: "natGWOutgoingIPSetEntry ip = Inr b" "b \<notin> G" "gateway (members w) = insert b G"
    by (auto simp: owes_def)
  obtain d w1 where d: "deleteNATGWOutgoingIP N ip w = (d, w1)" by fastforce
  note g = delete_gateway [OF d b(1)]
  show ?thesis
  proof (cases d)
    case None
    with assms(1) d True have "err = None \<and> \<not> added' \<and> w' = w1" by (simp add: rollbackNATGWOutgoingIP_def)
    moreover have "gateway (members w1) = G" using g None b(2,3) by simp
    ultimately show ?thesis by (simp add: owes_def)
  next
    case (Some x)
    with assms(1) d True have e: "err = Some x" "added'" "w' = w1" by (auto simp: rollbackNATGWOutgoingIP_def)
    moreover have "gateway (members w1) = insert b G" using g Some b(3) by simp
    ultimately show ?thesis using b(1,2) d Some by (simp add: owes_def)
  qed
qed (use assms in \<open>auto simp: rollbackNATGWOutgoingIP_def\<close>)

text \<open>After the deferred function nothing is owed, or its deletion failed.\<close>

lemma deferred_pays:
  assumes "ce_nl env = N" and "deferred env pn e added p = (r, p')" and "owes (pn_VPCIP pn) G added (world p)"
  shows "gateway (members (world p')) = G \<or>
    (\<exists>w. fst (deleteNATGWOutgoingIP N (pn_VPCIP pn) w) \<noteq> None \<and> world p' = snd (deleteNATGWOutgoingIP N (pn_VPCIP pn) w))"
proof -
  obtain err added' w' where rb: "rollbackNATGWOutgoingIP N (pn_VPCIP pn) added (world p) = ((err, added'), w')"
    by (metis surj_pair)
  with assms(1,2) have w: "world p' = w'" by (auto simp: deferred_def in_world_def)
  note o = rollback_owes [OF rb assms(3)]
  show ?thesis
  proof (cases added')
    case True
    with o w show ?thesis by (intro disjI2 exI [of _ "world p"]) simp
  next
    case False
    with o w show ?thesis by (simp add: owes_def)
  qed
qed

lemma fail_add_pays:
  assumes "ce_nl env = N" and "fail_add env pn e added p = (r, p')" and "owes (pn_VPCIP pn) G added (world p)"
    and "\<And>q. members (world (snd (releasePodIp (cni_env.truncate env) pn q))) = members (world q)"
  shows "gateway (members (world p')) = G \<or>
    (\<exists>w. fst (deleteNATGWOutgoingIP N (pn_VPCIP pn) w) \<noteq> None \<and> world p' = snd (deleteNATGWOutgoingIP N (pn_VPCIP pn) w))"
proof -
  obtain err added' w' where rb: "rollbackNATGWOutgoingIP N (pn_VPCIP pn) added (world p) = ((err, added'), w')"
    by (metis surj_pair)
  let ?q = "p\<lparr>world := w'\<rparr>"
  let ?q' = "snd (releasePodIp (cni_env.truncate env) pn ?q)"
  from assms(1,2) rb have d: "deferred env pn e added' ?q' = (r, p')"
    by (simp add: fail_add_def rollbackReleaseIP_def in_world_def)
  from rollback_owes [OF rb assms(3)] assms(4) [of ?q] have "owes (pn_VPCIP pn) G added' (world ?q')"
    by (simp add: owes_def)
  from deferred_pays [OF assms(1) d this] show ?thesis .
qed

end

text \<open>Both return the error they were given, perhaps with another attached.\<close>

lemma deferred_err: "\<exists>f. fst (deferred env pn e added p) = errors_Combine (Some e) f"
proof -
  obtain e2 a p1 where "in_world (rollbackNATGWOutgoingIP (ce_nl env) (pn_VPCIP pn) added) p = ((e2, a), p1)"
    by (metis surj_pair)
  then show ?thesis by (auto simp: deferred_def)
qed

lemma fail_add_err: "\<exists>f. fst (fail_add env pn e added p) = errors_Combine (Some e) f"
proof -
  obtain a p1 where "rollbackReleaseIP env pn added p = (a, p1)" by fastforce
  then show ?thesis using deferred_err by (simp add: fail_add_def)
qed

text \<open>A step that leaves alone what \<open>V\<close> shows of the world.\<close>

definition keeps :: "('w \<Rightarrow> 'v) \<Rightarrow> ('w proc \<Rightarrow> 'r \<times> 'w proc) \<Rightarrow> bool" where
  "keeps V f \<longleftrightarrow> (\<forall>p. V (world (snd (f p))) = V (world p))"

lemma keepsD: "keeps V f \<Longrightarrow> f p = (r, p') \<Longrightarrow> V (world p') = V (world p)"
  by (metis keeps_def snd_conv)

text \<open>The rest of ADD after the interfaces: the gateway's set holds what it should or is put back.\<close>

lemma finish_add_leaves_gateway:
  fixes p :: "'w proc"
  assumes api: "ipset_api (ce_nl env) members"
    and rec: "keeps members (addPodNetworkRecord (cni_env.truncate env) podName podNS sandBoxId pn)"
    and ports: "keeps members (in_world (portmap_CmdAdd (pe_portmap env) containerID (conf\<lparr>PrevResult := Some (result_of pn netNS)\<rparr>)))"
    and owes: "\<And>q :: 'w proc. members (world q) = M \<Longrightarrow> ipset_api.owes members (pn_VPCIP pn) G added (world q)" and "added \<longrightarrow> natgw"
    and m: "members (world p) = M"
    and fin: "finish_add env containerID podName podNS netNS sandBoxId conf pn added p = (r, p')"
  shows "case r of
      None \<Rightarrow> gateway (members (world p')) = G \<or>
        natgw \<and> (\<exists>b. natGWOutgoingIPSetEntry (pn_VPCIP pn) = Inr b \<and> gateway (members (world p')) = insert b G)
    | Some e \<Rightarrow> e = Exit \<or> gateway (members (world p')) = G \<or>
        (\<exists>w. fst (deleteNATGWOutgoingIP (ce_nl env) (pn_VPCIP pn) w) \<noteq> None \<and>
             world p' = snd (deleteNATGWOutgoingIP (ce_nl env) (pn_VPCIP pn) w))"
proof (cases "parseDNSConfig env (world p)")
  case None
  with fin show ?thesis by (auto simp: finish_add_def)
next
  case (Some dns)
  obtain e3 p4 where a: "addPodNetworkRecord (cni_env.truncate env) podName podNS sandBoxId pn p = (e3, p4)" by fastforce
  have m4: "members (world p4) = M" using keepsD [OF rec a] m by simp
  let ?conf = "conf\<lparr>PrevResult := Some (result_of pn netNS)\<rparr>"
  obtain e4 p5 where f: "in_world (portmap_CmdAdd (pe_portmap env) containerID ?conf) p4 = (e4, p5)" by fastforce
  have m5: "members (world p5) = M" using keepsD [OF ports f] m4 by simp
  show ?thesis
  proof (cases "e3 = None \<and> e4 = None")
    case False
    then obtain e q where d: "deferred env pn e added q = (r, p')" and q: "members (world q) = M"
      using fin Some a f m4 m5 by (cases e3; cases e4) (auto simp: finish_add_def)
    have "r \<noteq> None" using d deferred_err [of env pn e added q] by (metis errors_Combine_None_iff fst_conv option.distinct(1))
    then show ?thesis using ipset_api.deferred_pays [OF api refl d owes [OF q]] by (cases r) auto
  next
    case True
    with fin Some a f have "r = None" "p' = p5" by (auto simp: finish_add_def)
    then show ?thesis using owes [OF m5] assms(5) by (cases added) (auto simp: ipset_api.owes_def [OF api])
  qed
qed

text \<open>C4. A failing ADD takes its address back out of the gateway's set.

  \<open>connect_pod\<close> is what \<open>cmdAdd\<close> does once the interface of the pod's address is known: it adds the address
  to the kernel set of the NAT gateway when the pod networking asks for it, then builds the pair of
  interfaces, sets the port range, records the network and forwards the ports. Let none of these
  other steps touch the set. Then after a failure the set has the members it had before, whichever step
  failed, except when the last deletion from the set failed itself or the process ended; and after a
  success it has the members it had and at most the pod's address more, which then was asked for.
\<close>

theorem failed_add_leaves_gateway:
  assumes "ipset_api (ce_nl env) members"
    and "keeps members (setupPodVethNetwork env podName podNS netNS masterInterface pn mtu)"
    and "keeps members (setNodePortRange env netNS pn)"
    and "keeps members (releasePodIp (cni_env.truncate env) pn)"
    and "keeps members (addPodNetworkRecord (cni_env.truncate env) podName podNS sandBoxId pn)"
    and "keeps members (in_world (portmap_CmdAdd (pe_portmap env) containerID (conf\<lparr>PrevResult := Some (result_of pn netNS)\<rparr>)))"
    and "connect_pod env containerID podName podNS netNS sandBoxId conf pn natgw masterInterface mtu p = (r, p')"
  shows "case r of
      None \<Rightarrow> gateway (members (world p')) = gateway (members (world p)) \<or>
        natgw \<and> (\<exists>b. natGWOutgoingIPSetEntry (pn_VPCIP pn) = Inr b \<and>
          gateway (members (world p')) = insert b (gateway (members (world p))))
    | Some e \<Rightarrow> e = Exit \<or> gateway (members (world p')) = gateway (members (world p)) \<or>
        (\<exists>w. fst (deleteNATGWOutgoingIP (ce_nl env) (pn_VPCIP pn) w) \<noteq> None \<and>
             world p' = snd (deleteNATGWOutgoingIP (ce_nl env) (pn_VPCIP pn) w))"
proof -
  note api = assms(1)
  let ?owes = "ipset_api.owes members (pn_VPCIP pn) (gateway (members (world p)))"
  have rel: "members (world (snd (releasePodIp (cni_env.truncate env) pn q))) = members (world q)" for q
    using assms(4) by (simp add: keeps_def)
  obtain sr w1 where s: "syncNATGWOutgoingIP (ce_nl env) (pn_VPCIP pn) natgw (world p) = (sr, w1)" by fastforce
  let ?added = "case sr of Inl e \<Rightarrow> False | Inr b \<Rightarrow> b" and ?p1 = "p\<lparr>world := w1\<rparr>"
  have moved: "?owes ?added (world q)" if "members (world q) = members w1" for q
    using ipset_api.sync_owes [OF api s] that by (simp add: ipset_api.owes_def [OF api])
  have asked: "?added \<longrightarrow> natgw" using s by (cases natgw) (auto simp: syncNATGWOutgoingIP_def)
  obtain e1 p2 where v: "setupPodVethNetwork env podName podNS netNS masterInterface pn mtu ?p1 = (e1, p2)" by fastforce
  have m2: "members (world p2) = members w1" using keepsD [OF assms(2) v] by simp
  obtain e2 p3 where n: "setNodePortRange env netNS pn p2 = (e2, p3)" by fastforce
  have m3: "members (world p3) = members w1" using keepsD [OF assms(3) n] m2 by simp
  note run = assms(7) [unfolded connect_pod_def in_world_def s prod.case Let_def]
  show ?thesis
  proof (cases "e1 = None \<and> e2 = None")
    case False
    then obtain e q where f: "fail_add env pn e ?added q = (r, p')" and q: "members (world q) = members w1"
      using run v n m2 m3 by (cases e1; cases e2) auto
    have "r \<noteq> None" using f fail_add_err [of env pn e ?added q] by (metis errors_Combine_None_iff fst_conv option.distinct(1))
    then show ?thesis using ipset_api.fail_add_pays [OF api refl f moved [OF q] rel] by (cases r) auto
  next
    case True
    with run v n have fin: "finish_add env containerID podName podNS netNS sandBoxId conf pn ?added p3 = (r, p')" by simp
    show ?thesis by (rule finish_add_leaves_gateway [OF api assms(5,6) moved asked m3 fin])
  qed
qed

section \<open>Examples\<close>

text \<open>Surroundings in which nothing answers but the kernel set and the lock.\<close>

definition portmap_down :: "'w portmap_env" where
  "portmap_down = \<lparr>NewWithProtocol = (\<lambda>v6 w. Inl (Ext 0)), RouteGet = (\<lambda>b w. Inl (Ext 0)), LinkByIndex = (\<lambda>i w. Inl (Ext 0)),
     Sysctl = (\<lambda>k v w. (Some (Ext 0), w)), MustFormatChainNameWithPrefix = (\<lambda>n c pre. pre @ n @ c),
     NewResultFromResult = Inr, PrintResult = (\<lambda>r w. (None, w))\<rparr>"

definition plugin_down :: "'w netlink \<Rightarrow> 'w plugin_env" where
  "plugin_down nl = cni_env.extend (cni_down nl) (plugin_env.fields (\<lambda>s. Inl (Ext 0)) portmap_down (\<lambda>n w. Some (Ext 0))
     (\<lambda>a b i w. (Inl (Ext 0), w)) (\<lambda>a n w. (Some (Ext 0), w)) (\<lambda>n w. Some (Ext 0)) (\<lambda>r w. (Some (Ext 0), w))
     (\<lambda>a b c w. (Some (Ext 0), w)) (\<lambda>a b w. Some (Ext 0)) (\<lambda>a b w. (Some (Ext 0), w)) (\<lambda>a w. Some (Ext 0)) (\<lambda>s. s)
     (\<lambda>f w. (None, w)) (\<lambda>f s w. (None, w)) (\<lambda>b n w. ((False, None), w)) (\<lambda>w. w) (\<lambda>w. w) (\<lambda>w. (None, w)) (\<lambda>w. (None, w))
     (\<lambda>f w. Inl (Ext 0)))"

lemma plugin_down_simps [simp]:
  "cni_env.truncate (plugin_down nl) = cni_down nl"
  "ce_nl (plugin_down nl) = nl"
  "GetNS (plugin_down nl) n w = Some (Ext 0)"
  "pe_portmap (plugin_down nl) = portmap_down"
  "TryLock (plugin_down nl) w = (None, w)"
  "Unlock (plugin_down nl) w = (None, w)"
  by (simp_all add: plugin_down_def cni_env.defs plugin_env.defs cni_down_def)


text \<open>Nothing there changes the world when an address is released.\<close>

lemma down_client: "world (snd (client_or_panic (cni_down nl) p)) = world p"
  by (auto simp: client_or_panic_def cni_down_def cloud_down_def NewClient_def GetMeta_def ReloadMeta_def
      split: prod.splits option.splits sum.splits)

lemma down_service: "service_client cloud_down c w = (r, w') \<Longrightarrow> w' = w"
  by (auto simp: service_client_def CreateCredential_def cloud_down_def split: prod.splits option.splits sum.splits if_splits)

lemma down_both: "world (snd (both_clients (cni_down nl) f g p)) = world p"
proof -
  obtain r p1 where c: "client_or_panic (cni_down nl) p = (r, p1)" by fastforce
  with down_client [of nl p] have w: "world p1 = world p" by simp
  show ?thesis
  proof (cases r)
    case (Inl e)
    with c w show ?thesis by (simp add: both_clients_def)
  next
    case (Inr cl)
    obtain s w2 where "service_client cloud_down cl (world p1) = (s, w2)" by fastforce
    moreover from down_service [OF this] have "w2 = world p1" .
    ultimately show ?thesis using c w Inr by (cases s) (simp_all add: both_clients_def in_world_def cni_down_def)
  qed
qed

lemma down_release: "pn_MacAddress pn \<noteq> [] \<Longrightarrow> keeps V (releasePodIp (cni_down nl) pn)"
  unfolding keeps_def
proof
  fix p
  assume mac: "pn_MacAddress pn \<noteq> []"
  obtain r p1 where b: "both_clients (cni_down nl) (\<lambda>e. e) (\<lambda>e. e) p = (r, p1)" by fastforce
  with down_both [of nl "\<lambda>e. e" "\<lambda>e. e" p] have w: "world p1 = world p" by simp
  have "multi_ipamd (cni_down nl) (world p) = (None, world p)"
    by (simp add: multi_ipamd_def live_ipamd_def cni_down_def)
  then show "V (world (snd (releasePodIp (cni_down nl) pn p))) = V (world p)"
    using mac b w
    by (cases r) (auto simp: releasePodIp_def in_world_def deallocateSecondaryIP_def checkSecondaryIPExist_def
        cni_down_def cloud_down_def split: prod.splits)
qed

text \<open>The namespace of the pod cannot be opened: the address is out of the set again.\<close>

definition demo_conf :: Plugin where
  "demo_conf = \<lparr>pl_Name = ''cnivpc'', PrevResult = None, SNAT = None, ConditionsV4 = None, ConditionsV6 = None,
     MarkMasqBit = None, ExternalSetMarkChain = None, PortMaps = [], ContainerID = [],
     ContIPv4 = \<lparr>net_IP = [], net_Mask = []\<rparr>, ContIPv6 = \<lparr>net_IP = [], net_Mask = []\<rparr>\<rparr>"

definition demo_pod :: PodNetwork where
  "demo_pod = demo_record\<lparr>pn_MacAddress := ''52:54:00:00:00:07''\<rparr>"

lemma failed_add_leaves_gateway_witness:
  "case connect_pod (plugin_down mem_ipset) ''c1'' ''web'' ''default'' ''/ns'' ''s1'' demo_conf demo_pod True ''eth0'' 1500
      \<lparr>metaOnce = True, meta = None, world = Some [[10, 0, 2, 9]]\<rparr> of
     (r, p') \<Rightarrow> r \<noteq> None \<and> gateway (mem_members (world p')) = {[10, 0, 2, 9]}"
proof -
  let ?E = "plugin_down mem_ipset" and ?p = "\<lparr>metaOnce = True, meta = None, world = Some [[10, 0, 2, 9 :: byte]]\<rparr>"
  let ?run = "connect_pod ?E ''c1'' ''web'' ''default'' ''/ns'' ''s1'' demo_conf demo_pod True ''eth0'' 1500 ?p"
  have mac: "pn_MacAddress demo_pod \<noteq> []" by (simp add: demo_pod_def)
  note rel = down_release [OF mac, of mem_members mem_ipset]
  have api: "ipset_api (ce_nl ?E) mem_members" by (simp add: mem_set.ipset_api_axioms)
  have k1: "keeps mem_members (setupPodVethNetwork ?E ''web'' ''default'' ''/ns'' ''eth0'' demo_pod 1500)"
    using rel by (simp add: keeps_def setupPodVethNetwork_def fail_releasing_def)
  have k2: "keeps mem_members (setNodePortRange ?E ''/ns'' demo_pod)"
    using rel by (simp add: keeps_def setNodePortRange_def fail_releasing_def)
  have k3: "keeps mem_members (releasePodIp (cni_env.truncate ?E) demo_pod)" using rel by simp
  have k4: "keeps mem_members (addPodNetworkRecord (cni_env.truncate ?E) ''web'' ''default'' ''s1'' demo_pod)"
    using rel by (simp add: keeps_def addPodNetworkRecord_def live_ipamd_def addPodNetworkRecordLocal_def
        accessToPodNetworkDB_def in_world_def cni_down_def [of mem_ipset, THEN arg_cong [of _ _ Dial]]
        cni_down_def [of mem_ipset, THEN arg_cong [of _ _ BoltHandler]])
  have k5: "keeps mem_members (in_world (portmap_CmdAdd (pe_portmap ?E) ''c1'' (demo_conf\<lparr>PrevResult := Some (result_of demo_pod ''/ns'')\<rparr>)))"
    by (simp add: keeps_def in_world_def portmap_CmdAdd_def parseConfig_def convert_prev_def portmap_down_def
        default_snat_def default_mark_def DefaultMarkBit_def demo_conf_def result_of_def pick_ip_def)
  obtain r p' where run: "?run = (r, p')" by fastforce
  obtain e q a where f: "fail_add ?E demo_pod (Errorf ''failed to setup veth network: %v'' (Some e)) a q = (r, p')"
    using run by (auto simp: connect_pod_def setupPodVethNetwork_def fail_releasing_def Let_def split: prod.splits)
  with fail_add_err [of ?E demo_pod "Errorf ''failed to setup veth network: %v'' (Some e)" a q] obtain g
    where r: "r = errors_Combine (Some (Errorf ''failed to setup veth network: %v'' (Some e))) g" by auto
  have ent: "natGWOutgoingIPSetEntry (pn_VPCIP demo_pod) = Inr [10, 0, 2, 7]"
    by (simp add: demo_pod_def demo_record_def natGWOutgoingIPSetEntry_dotted)
  have del: "fst (deleteNATGWOutgoingIP (ce_nl ?E) (pn_VPCIP demo_pod) w) = None" for w
    using ent by (cases w) (simp_all add: deleteNATGWOutgoingIP_def mem_ipset_def)
  have "gateway (mem_members (world p')) = gateway (mem_members (world ?p))"
    using failed_add_leaves_gateway [OF api k1 k2 k3 k4 k5 run] r del by (cases g) simp_all
  moreover have "gateway (mem_members (world ?p)) = {[10, 0, 2, 9]}" by (auto simp: mem_members_def)
  moreover have "r \<noteq> None" using r by (cases g) simp_all
  ultimately show ?thesis unfolding run prod.case by simp
qed

end
