(* ===== verification/Kube_Client.thy ===== *)
theory Kube_Client
  imports Rpc_Types
begin

text \<open>
  \<open>pkg/kubeclient/client.go\<close>: the clients of the Kubernetes API. Inside the cluster the configuration
  and the two client sets are made once per process, each through its own \<open>sync.Once\<close>; on a node they are
  made from the first kubeconfig file that exists. \<open>client-go\<close> is a parameter, the record \<open>rest_lib\<close>; a client set is
  told apart by the configuration it was made from only, of type \<open>'cfg\<close>. Making a client set from a
  \<open>nil\<close> configuration dereferences it, which is the error \<open>Panic\<close>.
\<close>

record ('cfg, 'w) rest_lib =
  InClusterConfig :: "'w \<Rightarrow> 'cfg result \<times> 'w"
  NewForConfig :: "'cfg \<Rightarrow> 'cfg result" \<comment> \<open>the core client set\<close>
  NewCrdForConfig :: "'cfg \<Rightarrow> 'cfg result" \<comment> \<open>the client set of the custom resources\<close>
  StatFile :: "string \<Rightarrow> 'w \<Rightarrow> gerror option"
  BuildConfigFromFlags :: "string \<Rightarrow> 'w \<Rightarrow> 'cfg result"

section \<open>The clients inside the cluster\<close>

text \<open>The package variables and the flags of the \<open>sync.Once\<close> values, beside the outside world.\<close>

record ('cfg, 'w) kproc =
  configOnce :: bool
  clientOnce :: bool
  crdOnce :: bool
  config :: "'cfg option"
  kclient :: "'cfg option"
  crd :: "'cfg option"
  kworld :: 'w

definition GetConfig :: "('cfg, 'w) rest_lib \<Rightarrow> ('cfg, 'w) kproc \<Rightarrow> ('cfg option \<times> gerror option) \<times> ('cfg, 'w) kproc" where
  "GetConfig L p =
     (if configOnce p then ((config p, None), p)
      else case InClusterConfig L (kworld p) of
        (Inl e, w1) \<Rightarrow>
          ((None, Some (Errorf ''failed to generate kubernetes client config: %v'' (Some e))),
           p\<lparr>configOnce := True, config := None, kworld := w1\<rparr>)
      | (Inr c, w1) \<Rightarrow> ((Some c, None), p\<lparr>configOnce := True, config := Some c, kworld := w1\<rparr>))"

definition kube_Get :: "('cfg, 'w) rest_lib \<Rightarrow> ('cfg, 'w) kproc \<Rightarrow> ('cfg option \<times> gerror option) \<times> ('cfg, 'w) kproc" where
  "kube_Get L p =
     (if clientOnce p then ((kclient p, None), p)
      else case GetConfig L p of
        ((_, Some e), p1) \<Rightarrow> ((kclient p1, Some e), p1\<lparr>clientOnce := True\<rparr>)
      | ((None, None), p1) \<Rightarrow> ((kclient p1, Some Panic), p1\<lparr>clientOnce := True\<rparr>)
      | ((Some cfg, None), p1) \<Rightarrow>
          (case NewForConfig L cfg of
             Inl e \<Rightarrow> ((None, Some (Errorf ''failed to generate kubernetes client: %v'' (Some e))),
                       p1\<lparr>clientOnce := True, kclient := None\<rparr>)
           | Inr c \<Rightarrow> ((Some c, None), p1\<lparr>clientOnce := True, kclient := Some c\<rparr>)))"

definition GetCRD :: "('cfg, 'w) rest_lib \<Rightarrow> ('cfg, 'w) kproc \<Rightarrow> ('cfg option \<times> gerror option) \<times> ('cfg, 'w) kproc" where
  "GetCRD L p =
     (if crdOnce p then ((crd p, None), p)
      else case GetConfig L p of
        ((_, Some e), p1) \<Rightarrow> ((crd p1, Some e), p1\<lparr>crdOnce := True\<rparr>)
      | ((None, None), p1) \<Rightarrow> ((crd p1, Some Panic), p1\<lparr>crdOnce := True\<rparr>)
      | ((Some cfg, None), p1) \<Rightarrow>
          (case NewCrdForConfig L cfg of
             Inl e \<Rightarrow> ((None, Some (Errorf ''failed to generate crd client: %v'' (Some e))),
                       p1\<lparr>crdOnce := True, crd := None\<rparr>)
           | Inr c \<Rightarrow> ((Some c, None), p1\<lparr>crdOnce := True, crd := Some c\<rparr>)))"

text \<open>A process that has asked for nothing yet.\<close>

definition fresh_kproc :: "'w \<Rightarrow> ('cfg, 'w) kproc" where
  "fresh_kproc w = \<lparr>configOnce = False, clientOnce = False, crdOnce = False, config = None, kclient = None,
     crd = None, kworld = w\<rparr>"

text \<open>
  The process and what its clients are: a variable is set only after its \<open>Once\<close> has run, and every client
  set was made from the one configuration.
\<close>

definition clients_ok :: "('cfg, 'w) rest_lib \<Rightarrow> ('cfg, 'w) kproc \<Rightarrow> bool" where
  "clients_ok L p \<longleftrightarrow>
     (\<not> configOnce p \<longrightarrow> config p = None) \<and> (\<not> clientOnce p \<longrightarrow> kclient p = None) \<and> (\<not> crdOnce p \<longrightarrow> crd p = None) \<and>
     (kclient p \<noteq> None \<longrightarrow> config p \<noteq> None \<and> NewForConfig L (the (config p)) = Inr (the (kclient p))) \<and>
     (crd p \<noteq> None \<longrightarrow> config p \<noteq> None \<and> NewCrdForConfig L (the (config p)) = Inr (the (crd p)))"

lemma clients_ok_fresh: "clients_ok L (fresh_kproc w)"
  by (simp add: clients_ok_def fresh_kproc_def)

lemma GetConfig_ok:
  assumes "clients_ok L p" and "GetConfig L p = (r, p')"
  shows "clients_ok L p' \<and> configOnce p' \<and> clientOnce p' = clientOnce p \<and> crdOnce p' = crdOnce p \<and>
    kclient p' = kclient p \<and> crd p' = crd p \<and> (snd r = None \<longrightarrow> config p' = fst r)"
  using assms
  by (cases "InClusterConfig L (kworld p)"; cases "fst (InClusterConfig L (kworld p))")
     (auto simp: GetConfig_def clients_ok_def split: if_splits)

lemma kube_Get_ok:
  assumes "clients_ok L p" and "kube_Get L p = (r, p')"
  shows "clients_ok L p' \<and> clientOnce p' \<and> crdOnce p' = crdOnce p \<and> crd p' = crd p \<and> (snd r = None \<longrightarrow> kclient p' = fst r)"
proof (cases "clientOnce p")
  case True
  then show ?thesis using assms by (auto simp: kube_Get_def)
next
  case False
  obtain r1 p1 where g: "GetConfig L p = (r1, p1)" by fastforce
  obtain c e where r1: "r1 = (c, e)" by (cases r1)
  note f = GetConfig_ok [OF assms(1) g, unfolded r1 fst_conv snd_conv]
  note eqs = assms(2) [unfolded kube_Get_def, simplified g r1 False if_False prod.case]
  show ?thesis
  proof (cases "e = None \<and> c \<noteq> None")
    case True
    then obtain cfg where cfg: "c = Some cfg" "e = None" by blast
    show ?thesis
    proof (cases "NewForConfig L cfg")
      case (Inl e1)
      with eqs cfg have "p' = p1\<lparr>clientOnce := True, kclient := None\<rparr>" "\<exists>e'. r = (None, Some e')" by auto
      then show ?thesis using f assms(1) by (elim exE) (simp add: clients_ok_def)
    next
      case (Inr c1)
      with eqs cfg have "p' = p1\<lparr>clientOnce := True, kclient := Some c1\<rparr>" "r = (Some c1, None)" by auto
      then show ?thesis using f cfg Inr by (elim conjE) (simp add: clients_ok_def)
    qed
  next
    case other: False
    with eqs have "p' = p1\<lparr>clientOnce := True\<rparr>" "\<exists>c' e'. r = (c', Some e')" by (auto split: option.splits)
    then show ?thesis using f assms(1) by (elim exE) (simp add: clients_ok_def)
  qed
qed

lemma GetCRD_ok:
  assumes "clients_ok L p" and "GetCRD L p = (r, p')"
  shows "clients_ok L p' \<and> crdOnce p' \<and> clientOnce p' = clientOnce p \<and> kclient p' = kclient p \<and> (snd r = None \<longrightarrow> crd p' = fst r)"
proof (cases "crdOnce p")
  case True
  then show ?thesis using assms by (auto simp: GetCRD_def)
next
  case False
  obtain r1 p1 where g: "GetConfig L p = (r1, p1)" by fastforce
  obtain c e where r1: "r1 = (c, e)" by (cases r1)
  note f = GetConfig_ok [OF assms(1) g, unfolded r1 fst_conv snd_conv]
  note eqs = assms(2) [unfolded GetCRD_def, simplified g r1 False if_False prod.case]
  show ?thesis
  proof (cases "e = None \<and> c \<noteq> None")
    case True
    then obtain cfg where cfg: "c = Some cfg" "e = None" by blast
    show ?thesis
    proof (cases "NewCrdForConfig L cfg")
      case (Inl e1)
      with eqs cfg have "p' = p1\<lparr>crdOnce := True, crd := None\<rparr>" "\<exists>e'. r = (None, Some e')" by auto
      then show ?thesis using f assms(1) by (elim exE) (simp add: clients_ok_def)
    next
      case (Inr c1)
      with eqs cfg have "p' = p1\<lparr>crdOnce := True, crd := Some c1\<rparr>" "r = (Some c1, None)" by auto
      then show ?thesis using f cfg Inr by (elim conjE) (simp add: clients_ok_def)
    qed
  next
    case other: False
    with eqs have "p' = p1\<lparr>crdOnce := True\<rparr>" "\<exists>c' e'. r = (c', Some e')" by (auto split: option.splits)
    then show ?thesis using f assms(1) by (elim exE) (simp add: clients_ok_def)
  qed
qed

text \<open>Once a client set exists, every later request returns it without a call.\<close>

lemma kube_Get_again: "kube_Get L p = (r, p') \<Longrightarrow> kube_Get L p' = ((kclient p', None), p')"
  by (auto simp: kube_Get_def split: if_splits prod.splits option.splits sum.splits)

lemma GetCRD_again: "GetCRD L p = (r, p') \<Longrightarrow> GetCRD L p' = ((crd p', None), p')"
  by (auto simp: GetCRD_def split: if_splits prod.splits option.splits sum.splits)

text \<open>A request that failed leaves no client, and the next one returns \<open>nil\<close> without an error.\<close>

lemma kube_Get_failed_then_nil:
  assumes "clients_ok L p" and "kube_Get L p = ((c, Some e), p')"
  shows "kube_Get L p' = ((None, None), p')"
proof -
  have "\<not> clientOnce p" using assms(2) by (auto simp: kube_Get_def)
  obtain r1 p1 where g: "GetConfig L p = (r1, p1)" by fastforce
  have "kclient p1 = None" using GetConfig_ok [OF assms(1) g] assms(1) \<open>\<not> clientOnce p\<close> by (simp add: clients_ok_def)
  then have "kclient p' = None" using assms(2) g \<open>\<not> clientOnce p\<close>
    by (auto simp: kube_Get_def split: prod.splits option.splits sum.splits)
  then show ?thesis using kube_Get_again [OF assms(2)] by simp
qed

section \<open>The clients on a node\<close>

definition nodeKubeConfigPaths :: "string list" where
  "nodeKubeConfigPaths = [''/etc/kubernetes/cnivpc.kubeconfig'', ''/etc/kubernetes/kubelet.kubeconfig'']"

fun first_kubeconfig :: "('cfg, 'w) rest_lib \<Rightarrow> ('cfg \<Rightarrow> 'cfg result) \<Rightarrow> string list \<Rightarrow> 'w \<Rightarrow> 'cfg result" where
  "first_kubeconfig L mk [] w = Inl (Errors_New ''no available kubeconfig in node'')"
| "first_kubeconfig L mk (path # paths) w =
     (case StatFile L path w of
        Some e \<Rightarrow> if errors_Is e (Sys ENOENT) then first_kubeconfig L mk paths w else Inl e
      | None \<Rightarrow>
          (case BuildConfigFromFlags L path w of
             Inl e \<Rightarrow> Inl (Errorf ''failed to read kube config: %v'' (Some e))
           | Inr cfg \<Rightarrow> mk cfg))"

definition GetNodeClient_in :: "('cfg, 'w) rest_lib \<Rightarrow> 'w \<Rightarrow> 'cfg result" where
  "GetNodeClient_in L w = first_kubeconfig L (NewForConfig L) nodeKubeConfigPaths w"

definition GetNodeCRDClient_in :: "('cfg, 'w) rest_lib \<Rightarrow> 'w \<Rightarrow> 'cfg result" where
  "GetNodeCRDClient_in L w = first_kubeconfig L (NewCrdForConfig L) nodeKubeConfigPaths w"

lemma GetNodeClient_first:
  "GetNodeClient_in L w = Inr c \<Longrightarrow>
     \<exists>path cfg. path \<in> set nodeKubeConfigPaths \<and> StatFile L path w = None \<and> BuildConfigFromFlags L path w = Inr cfg \<and>
       NewForConfig L cfg = Inr c"
  by (auto simp: GetNodeClient_in_def nodeKubeConfigPaths_def split: option.splits if_splits sum.splits)

end
