(* ===== verification/Vip_Controller.thy ===== *)
theory Vip_Controller
  imports Kube_Client Ipamd_Static
begin

text \<open>
  \<open>cmd/vip-controller\<close>: the controller of the claims of static addresses. It marks the claims of a
  stateful set that was scaled down or deleted as detached, deletes detached claims whose release time has
  passed, and releases the address of a claim that was deleted. The informers, the work queues and the API
  are \<open>client-go\<close>: the calls are fields of \<open>vip_env\<close>, the queues the record \<open>work_queue\<close> of the theory
  of the queues.
\<close>

record StatefulSet =
  ss_Name :: string
  ss_Namespace :: string
  ss_Replicas :: "int option" \<comment> \<open>a pointer\<close>
  ss_TemplateAnnotations :: labels

text \<open>
  \<open>ve_kube\<close> holds the calls that the daemon makes as well. \<open>VipsListOwned\<close> lists by the label
  \<open>owner-statefulset\<close>, \<open>VipsListDetached\<close> in all namespaces by \<open>attached=false\<close> and a limit.
  A list request that failed has no items. \<open>StatefulSetsGet\<close> reads the cache of the informer. The functions of Go's package \<open>time\<close>
  count nanoseconds, an instant from the zero time.
\<close>

record ('cfg, 'w) vip_env =
  ve_kube :: "'w kube_api"
  ve_cloud :: "'w cloud_api"
  ve_rest :: "('cfg, 'w) rest_lib"
  ve_version :: string
  VipsListOwned :: "string \<Rightarrow> string \<Rightarrow> 'w \<Rightarrow> VpcIpClaim list result \<times> 'w"
  VipsListDetached :: "nat \<Rightarrow> 'w \<Rightarrow> VpcIpClaim list result \<times> 'w"
  VipsDelete :: "string \<Rightarrow> string \<Rightarrow> 'w action"
  StatefulSetsGet :: "string \<Rightarrow> string \<Rightarrow> 'w \<Rightarrow> StatefulSet result"
  SplitMetaNamespaceKey :: "string \<Rightarrow> (string \<times> string) result"
  ParseDuration :: "string \<Rightarrow> int result"
  ParseTime :: "string \<Rightarrow> int result"
  NanoNow :: "'w \<Rightarrow> int \<times> 'w"

definition defaultListCRDLimit :: nat where
  "defaultListCRDLimit = 128"

definition vip_UAPIErrorIPNotExst :: int where
  "vip_UAPIErrorIPNotExst = 58221"

section \<open>sts.go\<close>

definition needHandleVpcIpClaim :: "StatefulSet \<Rightarrow> bool" where
  "needHandleVpcIpClaim s =
     (case ss_TemplateAnnotations s STS_ENABLE_STATIC_IP of
        Some val \<Rightarrow> ToLower val = ''true''
      | None \<Rightarrow> False)"

definition ensureStaticIpPodNotRunning :: "'w kube_api \<Rightarrow> string \<Rightarrow> string \<Rightarrow> 'w \<Rightarrow> bool result \<times> 'w" where
  "ensureStaticIpPodNotRunning Q namespace name w =
     (case PodsGet Q namespace name w of
        (Inl e, w1) \<Rightarrow> if kube_IsNotFound e then (Inr True, w1) else (Inl e, w1)
      | (Inr pod, w1) \<Rightarrow>
          let ownedByStatefulSet = (\<exists>ow \<in> set (pod_Owners pod). fst ow = ''StatefulSet'') in
          if \<not> ownedByStatefulSet then (Inr True, w1)
          else if (case pod_Annotations pod STS_ENABLE_STATIC_IP of Some val \<Rightarrow> ToLower val \<noteq> ''true'' | None \<Rightarrow> False)
          then (Inr True, w1)
          else if pod_Phase pod \<noteq> ''Running'' then (Inr True, w1)
          else (Inr False, w1))"

text \<open>What \<open>markVPCIpClaimDetached\<close> writes, and the body that it retries on conflict.\<close>

definition detached :: "string \<Rightarrow> VpcIpClaim \<Rightarrow> VpcIpClaim" where
  "detached now vip =
     vip\<lparr>vc_Labels := Some (case vc_Labels vip of Some l \<Rightarrow> l(''attached'' \<mapsto> ''false'') | None \<Rightarrow> [''attached'' \<mapsto> ''false'']),
         vc_Finalizers := [], vc_Attached := False, vc_SandboxId := [], vc_LastDetachTime := now\<rparr>"

definition mark_detached_once :: "('cfg, 'w) vip_env \<Rightarrow> VpcIpClaim \<Rightarrow> 'w action" where
  "mark_detached_once env vip0 w =
     (case VipsGet (ve_kube env) (vc_Namespace vip0) (vc_Name vip0) w of
        (Inl e, w1) \<Rightarrow> (Some e, w1)
      | (Inr vip, w1) \<Rightarrow>
          (case FormatNow (ve_cloud env) w1 of
             (now, w2) \<Rightarrow> VipsUpdate (ve_kube env) (detached now vip) w2))"

definition markVPCIpClaimDetached :: "('cfg, 'w) vip_env \<Rightarrow> VpcIpClaim \<Rightarrow> 'w action" where
  "markVPCIpClaimDetached env vip w = RetryOnConflict (ve_kube env) (mark_detached_once env vip) w"

text \<open>
  The claims of a stateful set that was updated. The name of a claim is the name of its pod, whose last
  part is the index of the pod.
\<close>

definition claim_index :: "VpcIpClaim \<Rightarrow> int result" where
  "claim_index vip = Atoi (List.last (Split (vc_Name vip) (CHR ''-'')))"

definition update_one :: "('cfg, 'w) vip_env \<Rightarrow> int option \<Rightarrow> VpcIpClaim \<Rightarrow> 'w action" where
  "update_one env replicas vip w =
     (case claim_index vip of
        Inl e \<Rightarrow> (Some e, w)
      | Inr idx \<Rightarrow>
          (case replicas of
             None \<Rightarrow> (Some Panic, w)
           | Some n \<Rightarrow>
               if n - 1 < idx \<and> vc_Attached vip then
                 (case ensureStaticIpPodNotRunning (ve_kube env) (vc_Namespace vip) (vc_Name vip) w of
                    (Inr True, w1) \<Rightarrow> (None, ignore (markVPCIpClaimDetached env vip) w1)
                  | (_, w1) \<Rightarrow> (None, w1))
               else (None, w)))"

definition onStsUpdate :: "('cfg, 'w) vip_env \<Rightarrow> string \<Rightarrow> 'w action" where
  "onStsUpdate env key w =
     (case SplitMetaNamespaceKey env key of
        Inl e \<Rightarrow> (Some e, w)
      | Inr (namespace, name) \<Rightarrow>
          (case VipsListOwned env namespace name w of
             (Inl e, w1) \<Rightarrow> (Some e, w1)
           | (Inr vips, w1) \<Rightarrow>
               (case StatefulSetsGet env namespace name w1 of
                  Inl e \<Rightarrow> if kube_IsNotFound e then (None, w1) else (Some e, w1)
                | Inr sts \<Rightarrow> each (update_one env (ss_Replicas sts)) vips w1)))"

definition onStsDelete :: "('cfg, 'w) vip_env \<Rightarrow> StatefulSet \<Rightarrow> 'w action" where
  "onStsDelete env sts w =
     (case VipsListOwned env (ss_Namespace sts) (ss_Name sts) w of
        (Inl e, w1) \<Rightarrow> (Some e, w1)
      | (Inr vips, w1) \<Rightarrow> (None, fold (\<lambda>vip. ignore (markVPCIpClaimDetached env vip)) vips w1))"

section \<open>main.go: releasing addresses\<close>

definition releaseVPCIp :: "('cfg, 'w) vip_env \<Rightarrow> VpcIpClaim \<Rightarrow> 'w proc \<Rightarrow> gerror option \<times> 'w proc" where
  "releaseVPCIp env vpcip p =
     (case NewClient (ve_cloud env) (ve_version env) p of
        (None, p1) \<Rightarrow> (Some Panic, p1)
      | (Some (Inl e), p1) \<Rightarrow> (None, p1)
      | (Some (Inr c), p1) \<Rightarrow>
          (case service_client (ve_cloud env) c (world p1) of
             (Inl e, w2) \<Rightarrow> (Some e, p1\<lparr>world := w2\<rparr>)
           | (Inr cli, w2) \<Rightarrow>
               (case DeleteSecondaryIp (ve_cloud env) cli
                       \<lparr>dl_Zone = Some (vc_Zone vpcip), dl_Mac = vc_Mac vpcip, dl_Ip = vc_Ip vpcip, dl_ObjectId = None,
                        dl_VPCId = vc_VpcId vpcip, dl_SubnetId = vc_SubnetId vpcip\<rparr> w2 of
                  ((code, err), w3) \<Rightarrow>
                    (if code = vip_UAPIErrorIPNotExst then None else err, p1\<lparr>world := w3\<rparr>))))"

text \<open>vpcipclaim.go: the address of a claim that was deleted.\<close>

definition onVipDelete :: "('cfg, 'w) vip_env \<Rightarrow> VpcIpClaim \<Rightarrow> 'w proc \<Rightarrow> gerror option \<times> 'w proc" where
  "onVipDelete env vip p =
     (case ensureStaticIpPodNotRunning (ve_kube env) (vc_Namespace vip) (vc_Name vip) (world p) of
        (Inr True, w1) \<Rightarrow> releaseVPCIp env vip (p\<lparr>world := w1\<rparr>)
      | (r, w1) \<Rightarrow>
          (Some (Errorf ''cannot delete vip %s/%s %s, podNotRunning %v, get pod err %v'' (err_of r)), p\<lparr>world := w1\<rparr>))"

section \<open>main.go: the collection of detached claims\<close>

definition minStaticIpGcInterval :: int where
  "minStaticIpGcInterval = 5 * 60 * 10 ^ 9"

definition gc_interval :: "(string \<Rightarrow> int result) \<Rightarrow> string \<Rightarrow> int" where
  "gc_interval parse s =
     (let duration = (case parse s of Inl e \<Rightarrow> 60 * 60 * 10 ^ 9 | Inr d \<Rightarrow> d) in
      if duration < minStaticIpGcInterval then minStaticIpGcInterval else duration)"

text \<open>The instant at which a claim may go. A detach time that cannot be parsed is the zero time.\<close>

definition release_instant :: "('cfg, 'w) vip_env \<Rightarrow> VpcIpClaim \<Rightarrow> int option" where
  "release_instant env vip =
     (if vc_ReleaseTime vip = ''Never'' then None
      else case ParseDuration env (vc_ReleaseTime vip) of
        Inl e \<Rightarrow> None
      | Inr release \<Rightarrow> Some ((case ParseTime env (vc_LastDetachTime vip) of Inl e \<Rightarrow> 0 | Inr t \<Rightarrow> t) + release))"

text \<open>
  One claim. A client that could not be made is \<open>nil\<close>, and using it panics, as does the \<open>nil\<close> that a
  later request returns without an error.
\<close>

definition clean_one :: "('cfg, 'w) vip_env \<Rightarrow> VpcIpClaim \<Rightarrow> ('cfg, 'w) kproc action" where
  "clean_one env vip p =
     (case release_instant env vip of
        None \<Rightarrow> (None, p)
      | Some t \<Rightarrow>
          (case NanoNow env (kworld p) of
             (now, w1) \<Rightarrow>
               if t < now then
                 (case kube_Get (ve_rest env) (p\<lparr>kworld := w1\<rparr>) of
                    ((None, _), p2) \<Rightarrow> (Some Panic, p2)
                  | ((Some _, _), p2) \<Rightarrow>
                      (case ensureStaticIpPodNotRunning (ve_kube env) (vc_Namespace vip) (vc_Name vip) (kworld p2) of
                         (Inr True, w3) \<Rightarrow>
                           (None, p2\<lparr>kworld := ignore (VipsDelete env (vc_Namespace vip) (vc_Name vip)) w3\<rparr>)
                       | (_, w3) \<Rightarrow> (None, p2\<lparr>kworld := w3\<rparr>)))
               else (None, p\<lparr>kworld := w1\<rparr>)))"

definition vipCheckAndClean :: "('cfg, 'w) vip_env \<Rightarrow> ('cfg, 'w) kproc action" where
  "vipCheckAndClean env p =
     (case GetCRD (ve_rest env) p of
        ((_, Some Panic), p1) \<Rightarrow> (Some Panic, p1)
      | ((_, Some e), p1) \<Rightarrow> (None, p1)
      | ((None, None), p1) \<Rightarrow> (Some Panic, p1)
      | ((Some _, None), p1) \<Rightarrow>
          (case VipsListDetached env defaultListCRDLimit (kworld p1) of
             (Inl e, w2) \<Rightarrow> (None, p1\<lparr>kworld := w2\<rparr>)
           | (Inr vips, w2) \<Rightarrow> each (clean_one env) vips (p1\<lparr>kworld := w2\<rparr>)))"

text \<open>The collection runs at every tick; \<open>n\<close> ticks of \<open>gc_interval\<close>.\<close>

fun reconcileDetachedVip :: "('cfg, 'w) vip_env \<Rightarrow> nat \<Rightarrow> ('cfg, 'w) kproc action" where
  "reconcileDetachedVip env 0 p = (None, p)"
| "reconcileDetachedVip env (Suc n) p =
     (case vipCheckAndClean env p of
        (Some e, p1) \<Rightarrow> (Some e, p1)
      | (None, p1) \<Rightarrow> reconcileDetachedVip env n p1)"

section \<open>main.go: start\<close>

text \<open>\<open>ulog.Fatalf\<close> ends the process. On success the clients, and the workers of the two controllers.\<close>

definition controller_main :: "('cfg, 'w) vip_env \<Rightarrow> ('cfg, 'w) kproc \<Rightarrow>
    ('cfg option \<times> 'cfg option \<times> nat \<times> nat) result \<times> ('cfg, 'w) kproc" where
  "controller_main env p =
     (case kube_Get (ve_rest env) p of
        ((_, Some Panic), p1) \<Rightarrow> (Inl Panic, p1)
      | ((_, Some e), p1) \<Rightarrow> (Inl Exit, p1)
      | ((kubeClient, None), p1) \<Rightarrow>
          (case GetCRD (ve_rest env) p1 of
             ((_, Some Panic), p2) \<Rightarrow> (Inl Panic, p2)
           | ((_, Some e), p2) \<Rightarrow> (Inl Exit, p2)
           | ((vipClient, None), p2) \<Rightarrow> (Inr (kubeClient, vipClient, 4, 2), p2)))"

section \<open>An example\<close>

text \<open>Everything outside is down: the starting point of the examples.\<close>

definition vip_down :: "(unit, 'w) vip_env" where
  "vip_down = \<lparr>ve_kube = kube_down, ve_cloud = cloud_down,
     ve_rest = \<lparr>InClusterConfig = (\<lambda>w. (Inr (), w)), NewForConfig = Inr, NewCrdForConfig = Inr,
       StatFile = (\<lambda>_ _. None), BuildConfigFromFlags = (\<lambda>_ _. Inr ())\<rparr>,
     ve_version = [], VipsListOwned = (\<lambda>_ _ w. (Inl (Ext 0), w)), VipsListDetached = (\<lambda>_ w. (Inl (Ext 0), w)),
     VipsDelete = (\<lambda>_ _ w. (Some (Ext 0), w)), StatefulSetsGet = (\<lambda>_ _ w. Inl (Ext 0)),
     SplitMetaNamespaceKey = (\<lambda>k. case Split k (CHR ''/'') of [ns, n] \<Rightarrow> Inr (ns, n) | _ \<Rightarrow> Inl (Ext 0)),
     ParseDuration = (\<lambda>_. Inl (Ext 0)), ParseTime = (\<lambda>_. Inl (Ext 0)), NanoNow = (\<lambda>w. (0, w))\<rparr>"

end
