(* ===== verification/Vip_Queue.thy ===== *)
theory Vip_Queue
  imports Vip_Controller
begin

text \<open>
  The work queues of \<open>cmd/vip-controller\<close>: what the informers put into them and what the workers take out.
  The queue is \<open>client-go\<close>'s; of it the code relies on what \<open>stingy\<close> says, the documented promise that
  an item that was handed out is not handed out again before \<open>Done\<close>. Several workers share a queue, so the run of one item
  is two steps between which other steps happen.
\<close>

section \<open>The queue\<close>

record ('k, 'q) work_queue =
  q_Add :: "'k \<Rightarrow> 'q \<Rightarrow> 'q"
  q_AddAfter :: "'k \<Rightarrow> int \<Rightarrow> 'q \<Rightarrow> 'q" \<comment> \<open>in nanoseconds\<close>
  q_Get :: "'q \<Rightarrow> ('k \<times> 'q) option" \<comment> \<open>\<open>None\<close>: nothing to hand out, or shut down\<close>
  q_Done :: "'k \<Rightarrow> 'q \<Rightarrow> 'q"
  q_Forget :: "'k \<Rightarrow> 'q \<Rightarrow> 'q"

definition stingy :: "('k, 'q) work_queue \<Rightarrow> ('q \<Rightarrow> 'k set) \<Rightarrow> bool" where
  "stingy Q processing \<longleftrightarrow>
     (\<forall>q k q'. q_Get Q q = Some (k, q') \<longrightarrow> k \<notin> processing q \<and> processing q' = insert k (processing q)) \<and>
     (\<forall>k q. processing (q_Add Q k q) = processing q) \<and>
     (\<forall>k t q. processing (q_AddAfter Q k t q) = processing q) \<and>
     (\<forall>k q. processing (q_Done Q k q) = processing q - {k}) \<and>
     (\<forall>k q. processing (q_Forget Q k q) = processing q)"

section \<open>What the informers add\<close>

text \<open>
  An informer that missed a deletion hands over a tombstone instead of the object; the type assertion of
  the handlers then panics.
\<close>

datatype 'a deleted_obj = Deleted 'a | DeletedFinalStateUnknown string

definition sts_updated :: "(string, 'q) work_queue \<Rightarrow> StatefulSet \<Rightarrow> 'q \<Rightarrow> 'q" where
  "sts_updated Q s q =
     (if needHandleVpcIpClaim s then q_AddAfter Q (ss_Namespace s @ ''/'' @ ss_Name s) (30 * 10 ^ 9) q else q)"

definition sts_deleted :: "(StatefulSet, 'q) work_queue \<Rightarrow> StatefulSet deleted_obj \<Rightarrow> 'q \<Rightarrow> 'q result" where
  "sts_deleted Q d q =
     (case d of
        DeletedFinalStateUnknown key \<Rightarrow> Inl Panic
      | Deleted s \<Rightarrow> Inr (if needHandleVpcIpClaim s then q_Add Q s q else q))"

definition vip_deleted :: "(VpcIpClaim, 'q) work_queue \<Rightarrow> VpcIpClaim deleted_obj \<Rightarrow> 'q \<Rightarrow> 'q result" where
  "vip_deleted Q d q =
     (case d of
        DeletedFinalStateUnknown key \<Rightarrow> Inl Panic
      | Deleted vip \<Rightarrow> Inr (q_Add Q vip q))"

section \<open>What the workers do\<close>

text \<open>The queue, the items that workers run, the items whose last run failed (only to state what happens to them), and the world.\<close>

record ('k, 'q, 'w) workers =
  wk_queue :: 'q
  wk_busy :: "'k list"
  wk_failed :: "'k set"
  wk_world :: 'w

definition work_begin :: "('k, 'q) work_queue \<Rightarrow> ('k, 'q, 'w) workers \<Rightarrow> ('k, 'q, 'w) workers option" where
  "work_begin Q s =
     (case q_Get Q (wk_queue s) of
        None \<Rightarrow> None
      | Some (k, q1) \<Rightarrow> Some (s\<lparr>wk_queue := q1, wk_busy := k # wk_busy s\<rparr>))"

definition work_end :: "('k, 'q) work_queue \<Rightarrow> ('k \<Rightarrow> 'w action) \<Rightarrow> 'k \<Rightarrow> ('k, 'q, 'w) workers \<Rightarrow> ('k, 'q, 'w) workers" where
  "work_end Q handler k s =
     (case handler k (wk_world s) of
        (None, w1) \<Rightarrow>
          s\<lparr>wk_queue := q_Forget Q k (q_Done Q k (wk_queue s)), wk_busy := remove1 k (wk_busy s), wk_world := w1\<rparr>
      | (Some e, w1) \<Rightarrow>
          s\<lparr>wk_queue := q_Forget Q k (wk_queue s), wk_busy := remove1 k (wk_busy s),
            wk_failed := insert k (wk_failed s), wk_world := w1\<rparr>)"

text \<open>One call of \<open>processUpdate\<close> or \<open>processDelete\<close> with nothing in between.\<close>

definition process_item :: "('k, 'q) work_queue \<Rightarrow> ('k \<Rightarrow> 'w action) \<Rightarrow> ('k, 'q, 'w) workers \<Rightarrow> ('k, 'q, 'w) workers" where
  "process_item Q handler s =
     (case work_begin Q s of
        None \<Rightarrow> s
      | Some s1 \<Rightarrow> work_end Q handler (hd (wk_busy s1)) s1)"

definition processUpdate :: "(string, 'q) work_queue \<Rightarrow> ('cfg, 'w) vip_env \<Rightarrow> (string, 'q, 'w) workers \<Rightarrow> (string, 'q, 'w) workers" where
  "processUpdate Q env = process_item Q (onStsUpdate env)"

definition sts_processDelete ::
  "(StatefulSet, 'q) work_queue \<Rightarrow> ('cfg, 'w) vip_env \<Rightarrow> (StatefulSet, 'q, 'w) workers \<Rightarrow> (StatefulSet, 'q, 'w) workers" where
  "sts_processDelete Q env = process_item Q (onStsDelete env)"

definition vip_processDelete ::
  "(VpcIpClaim, 'q) work_queue \<Rightarrow> ('cfg, 'w) vip_env \<Rightarrow> (VpcIpClaim, 'q, 'w proc) workers \<Rightarrow> (VpcIpClaim, 'q, 'w proc) workers" where
  "vip_processDelete Q env = process_item Q (onVipDelete env)"

text \<open>
  A run of any number of workers: an informer adds an item, at once or after a delay, a worker takes one or ends one, or the outside world
  changes.
\<close>

inductive work_step :: "('k, 'q) work_queue \<Rightarrow> ('k \<Rightarrow> 'w action) \<Rightarrow> ('k, 'q, 'w) workers \<Rightarrow> ('k, 'q, 'w) workers \<Rightarrow> bool"
  for Q handler where
  ws_add: "work_step Q handler s (s\<lparr>wk_queue := q_Add Q k (wk_queue s)\<rparr>)"
| ws_later: "work_step Q handler s (s\<lparr>wk_queue := q_AddAfter Q k t (wk_queue s)\<rparr>)"
| ws_begin: "work_begin Q s = Some s' \<Longrightarrow> work_step Q handler s s'"
| ws_end: "k \<in> set (wk_busy s) \<Longrightarrow> work_step Q handler s (work_end Q handler k s)"
| ws_world: "work_step Q handler s (s\<lparr>wk_world := w\<rparr>)"

definition work_start :: "('q \<Rightarrow> 'k set) \<Rightarrow> ('k, 'q, 'w) workers \<Rightarrow> bool" where
  "work_start processing s \<longleftrightarrow> processing (wk_queue s) = {} \<and> wk_busy s = [] \<and> wk_failed s = {}"

text \<open>
  The invariant: the queue withholds exactly the items that a worker runs and those whose run failed.
\<close>

definition withheld :: "('q \<Rightarrow> 'k set) \<Rightarrow> ('k, 'q, 'w) workers \<Rightarrow> bool" where
  "withheld processing s \<longleftrightarrow>
     processing (wk_queue s) = set (wk_busy s) \<union> wk_failed s \<and> distinct (wk_busy s) \<and> set (wk_busy s) \<inter> wk_failed s = {}"

lemma withheld_step:
  assumes "stingy Q processing" and "work_step Q handler s s'" and "withheld processing s"
  shows "withheld processing s' \<and> wk_failed s \<subseteq> wk_failed s'"
  using assms(2)
proof (cases rule: work_step.cases)
  case ws_begin
  then obtain k q1 where g: "q_Get Q (wk_queue s) = Some (k, q1)" and s': "s' = s\<lparr>wk_queue := q1, wk_busy := k # wk_busy s\<rparr>"
    by (auto simp: work_begin_def split: option.splits)
  have "k \<notin> processing (wk_queue s)" "processing q1 = insert k (processing (wk_queue s))"
    using assms(1) g unfolding stingy_def by metis+
  then show ?thesis using s' assms(3) by (auto simp: withheld_def)
next
  case (ws_end k)
  then show ?thesis using assms(1,3)
    by (auto simp: work_end_def stingy_def withheld_def split: option.splits prod.splits)
qed (use assms(1,3) in \<open>auto simp: stingy_def withheld_def\<close>)

lemma withheld_run:
  assumes "stingy Q processing" and "(work_step Q handler)\<^sup>*\<^sup>* s s'" and "withheld processing s"
  shows "withheld processing s' \<and> wk_failed s \<subseteq> wk_failed s'"
  using assms(2)
proof (induction rule: rtranclp_induct)
  case base
  then show ?case using assms(3) by simp
next
  case (step y z)
  then show ?case using withheld_step [OF assms(1) step.hyps(2)] by auto
qed

lemma process_item_run: "(work_step Q handler)\<^sup>*\<^sup>* s (process_item Q handler s)"
proof (cases "work_begin Q s")
  case None
  then show ?thesis by (simp add: process_item_def)
next
  case (Some s1)
  then have "hd (wk_busy s1) \<in> set (wk_busy s1)" by (auto simp: work_begin_def split: option.splits)
  then have "work_step Q handler s1 (work_end Q handler (hd (wk_busy s1)) s1)" by (rule ws_end)
  with ws_begin [OF Some, of handler] have "(work_step Q handler)\<^sup>*\<^sup>* s (work_end Q handler (hd (wk_busy s1)) s1)"
    by (meson converse_rtranclp_into_rtranclp r_into_rtranclp)
  then show ?thesis using Some by (simp add: process_item_def)
qed

section \<open>Items whose run failed\<close>

text \<open>A queue after its documentation, on which the example runs: the waiting items, and those handed out.\<close>

definition list_queue :: "('k, 'k list \<times> 'k list) work_queue" where
  "list_queue = \<lparr>
     q_Add = (\<lambda>k (ready, out). (if k \<in> set ready then ready else ready @ [k], out)),
     q_AddAfter = (\<lambda>k t (ready, out). (if k \<in> set ready then ready else ready @ [k], out)),
     q_Get = (\<lambda>(ready, out). case List.find (\<lambda>k. k \<notin> set out) ready of
                None \<Rightarrow> None | Some k \<Rightarrow> Some (k, (remove1 k ready, k # out))),
     q_Done = (\<lambda>k (ready, out). (ready, removeAll k out)),
     q_Forget = (\<lambda>k q. q)\<rparr>"

lemma stingy_list_queue: "stingy list_queue (\<lambda>q. set (snd q))"
  by (auto simp: stingy_def list_queue_def split: option.splits dest!: find_Some_set)

text \<open>C9. An item whose handler returned an error is never worked on again: however the
  informers add it later and however the workers proceed, no worker takes it, since neither \<open>Done\<close> nor a delayed
  retry was called for it. Every other item that no worker runs is free to be taken.\<close>

theorem failed_item_never_retried:
  assumes "stingy Q processing" and "work_start processing s0"
    and "(work_step Q handler)\<^sup>*\<^sup>* s0 s" and "(work_step Q handler)\<^sup>*\<^sup>* s s'"
  shows "(k \<in> wk_failed s \<longrightarrow> k \<in> wk_failed s' \<and> k \<notin> set (wk_busy s')) \<and>
    (k \<notin> wk_failed s \<and> k \<notin> set (wk_busy s) \<longrightarrow> k \<notin> processing (wk_queue s))"
proof -
  have w0: "withheld processing s0" using assms(2) by (simp add: withheld_def work_start_def)
  have w: "withheld processing s" using withheld_run [OF assms(1,3) w0] by blast
  have "withheld processing s' \<and> wk_failed s \<subseteq> wk_failed s'" by (rule withheld_run [OF assms(1,4) w])
  then show ?thesis using w by (auto simp: withheld_def)
qed

definition idle :: "'q \<Rightarrow> 'w \<Rightarrow> ('k, 'q, 'w) workers" where
  "idle q w = \<lparr>wk_queue = q, wk_busy = [], wk_failed = {}, wk_world = w\<rparr>"

theorem failed_item_never_retried_witness:
  "let s = processUpdate list_queue vip_down (idle ([''ns/web''], []) ()) in
     ''ns/web'' \<in> wk_failed s \<and>
     (\<forall>s'. (work_step list_queue (onStsUpdate vip_down))\<^sup>*\<^sup>* s s' \<longrightarrow> ''ns/web'' \<notin> set (wk_busy s'))"
proof -
  let ?start = "idle ([''ns/web''], []) ()"
  let ?s = "processUpdate list_queue vip_down ?start"
  have f: "''ns/web'' \<in> wk_failed ?s"
    by (simp add: processUpdate_def process_item_def work_begin_def work_end_def list_queue_def idle_def
        onStsUpdate_def vip_down_def)
  have r: "(work_step list_queue (onStsUpdate vip_down))\<^sup>*\<^sup>* ?start ?s"
    unfolding processUpdate_def by (rule process_item_run)
  have "work_start (\<lambda>q. set (snd q)) ?start" by (simp add: work_start_def idle_def)
  note never = failed_item_never_retried [OF stingy_list_queue this r]
  have "''ns/web'' \<notin> set (wk_busy s')" if "(work_step list_queue (onStsUpdate vip_down))\<^sup>*\<^sup>* ?s s'" for s'
    using never [OF that, of "''ns/web''"] f by blast
  with f show ?thesis unfolding Let_def by blast
qed

end
