(* ===== verification/Vip_Props.thy ===== *)
theory Vip_Props
  imports Vip_Queue
begin

text \<open>
  What the controller does to the claims. \<open>claims w (ns, n)\<close> is the claim the API server stores under a
  namespace and a name in the world \<open>w\<close>; \<open>claim_api\<close> says what the calls document about it: reads change nothing, an
  update or a deletion concerns its own claim only, and an update stores what it was given, unless it lets a claim that is being
  deleted go by taking its last finalizer.
\<close>

definition claim_key :: "VpcIpClaim \<Rightarrow> string \<times> string" where
  "claim_key c = (vc_Namespace c, vc_Name c)"

definition claim_reads :: "('cfg, 'w) vip_env \<Rightarrow> ('w \<Rightarrow> 'x) \<Rightarrow> bool" where
  "claim_reads env claims \<longleftrightarrow>
     (\<forall>w. claims (snd (FormatNow (ve_cloud env) w)) = claims w) \<and>
     (\<forall>w. claims (snd (NanoNow env w)) = claims w) \<and>
     (\<forall>w. claims (snd (InClusterConfig (ve_rest env) w)) = claims w) \<and>
     (\<forall>ns n w. claims (snd (PodsGet (ve_kube env) ns n w)) = claims w) \<and>
     (\<forall>ns n w. claims (snd (VipsListOwned env ns n w)) = claims w) \<and>
     (\<forall>n w. claims (snd (VipsListDetached env n w)) = claims w) \<and>
     (\<forall>ns n w. claims (snd (VipsGet (ve_kube env) ns n w)) = claims w)"

definition claim_api :: "('cfg, 'w) vip_env \<Rightarrow> ('w \<Rightarrow> string \<times> string \<Rightarrow> VpcIpClaim option) \<Rightarrow> bool" where
  "claim_api env claims \<longleftrightarrow>
     claim_reads env claims \<and> retries (ve_kube env) \<and>
     (\<forall>ns n w c w'. VipsGet (ve_kube env) ns n w = (Inr c, w') \<longrightarrow> claims w (ns, n) = Some c \<and> claim_key c = (ns, n)) \<and>
     (\<forall>c w r w'. VipsUpdate (ve_kube env) c w = (r, w') \<longrightarrow>
        (\<forall>k. k \<noteq> claim_key c \<longrightarrow> claims w' k = claims w k) \<and>
        claims w' (claim_key c) \<in> (if r = None then {Some c, None} else {claims w (claim_key c), Some c, None})) \<and>
     (\<forall>ns n w k. k \<noteq> (ns, n) \<longrightarrow> claims (snd (VipsDelete env ns n w)) k = claims w k)"

lemma claim_key_detached [simp]: "claim_key (detached now c) = claim_key c"
  by (simp add: claim_key_def detached_def)

lemma detached_detached [simp]: "detached now (detached now' c) = detached now c"
  by (simp add: detached_def split: option.splits)

lemma snd_ensure: "snd (ensureStaticIpPodNotRunning Q ns n w) = snd (PodsGet Q ns n w)"
  by (auto simp: ensureStaticIpPodNotRunning_def Let_def split: prod.splits sum.splits option.splits)

lemma ensure_keeps_claims:
  "claim_reads env claims \<Longrightarrow> claims (snd (ensureStaticIpPodNotRunning (ve_kube env) ns n w)) = claims w"
  by (simp add: snd_ensure claim_reads_def)

section \<open>Marking a claim\<close>

text \<open>A claim as it was, gone, or marked.\<close>

definition marked_from :: "VpcIpClaim option \<Rightarrow> VpcIpClaim option \<Rightarrow> bool" where
  "marked_from c c' \<longleftrightarrow> c' = c \<or> c' = None \<or> (\<exists>c0 now. c = Some c0 \<and> c' = Some (detached now c0))"

lemma marked_from_refl [simp]: "marked_from c c"
  by (simp add: marked_from_def)

lemma marked_from_trans: "marked_from c c1 \<Longrightarrow> marked_from c1 c2 \<Longrightarrow> marked_from c c2"
  by (auto simp: marked_from_def)

lemma mark_detached_once_claims:
  assumes "claim_api env claims" and "mark_detached_once env vip w = (r, w')"
  shows "(k \<noteq> claim_key vip \<longrightarrow> claims w' k = claims w k) \<and> marked_from (claims w k) (claims w' k) \<and>
    (r = None \<longrightarrow> claims w' (claim_key vip) = None \<or>
       (\<exists>c now. claims w (claim_key vip) = Some c \<and> claims w' (claim_key vip) = Some (detached now c)))"
proof -
  let ?g = "VipsGet (ve_kube env) (vc_Namespace vip) (vc_Name vip) w"
  obtain g w1 where g: "?g = (g, w1)" by fastforce
  have c1: "claims w1 = claims w"
    using assms(1) g unfolding claim_api_def claim_reads_def by (metis snd_conv)
  show ?thesis
  proof (cases g)
    case (Inl e)
    then have "w' = w1" "r = Some e" using assms(2) g by (auto simp: mark_detached_once_def)
    then show ?thesis using c1 by simp
  next
    case (Inr c)
    obtain now w2 where t: "FormatNow (ve_cloud env) w1 = (now, w2)" by fastforce
    have c2: "claims w2 = claims w1"
      using assms(1) t unfolding claim_api_def claim_reads_def by (metis snd_conv)
    have u: "VipsUpdate (ve_kube env) (detached now c) w2 = (r, w')"
      using assms(2) g t Inr by (simp add: mark_detached_once_def)
    have c: "claims w (claim_key vip) = Some c" "claim_key c = claim_key vip"
      using assms(1) g Inr unfolding claim_api_def claim_key_def by metis+
    have "\<forall>k. k \<noteq> claim_key (detached now c) \<longrightarrow> claims w' k = claims w2 k"
      and "claims w' (claim_key (detached now c)) \<in>
          (if r = None then {Some (detached now c), None} else {claims w2 (claim_key (detached now c)), Some (detached now c), None})"
      using assms(1) u unfolding claim_api_def by blast+
    then have o: "k \<noteq> claim_key vip \<longrightarrow> claims w' k = claims w k"
      and m: "claims w' (claim_key vip) \<in>
        (if r = None then {Some (detached now c), None} else {claims w (claim_key vip), Some (detached now c), None})"
      unfolding claim_key_detached c(2) c1 c2 by blast+
    show ?thesis using o m c(1)
      by (cases "k = claim_key vip") (auto simp: marked_from_def split: if_splits)
  qed
qed

lemma markVPCIpClaimDetached_claims:
  assumes api: "claim_api env claims" and mark: "markVPCIpClaimDetached env vip w = (r, w')"
  shows "(k \<noteq> claim_key vip \<longrightarrow> claims w' k = claims w k) \<and> marked_from (claims w k) (claims w' k)"
    and "r = None \<Longrightarrow> claims w' (claim_key vip) = None \<or>
       (\<exists>c now. claims w (claim_key vip) = Some c \<and> claims w' (claim_key vip) = Some (detached now c))"
proof -
  obtain w1 where w1: "conflict_runs (mark_detached_once env vip) w w1" "mark_detached_once env vip w1 = (r, w')"
    using api mark unfolding claim_api_def retries_def markVPCIpClaimDetached_def by metis
  have inv: "(k \<noteq> claim_key vip \<longrightarrow> claims w1 k = claims w k) \<and> marked_from (claims w k) (claims w1 k)" for k
  proof (rule conflict_runs_inv [OF w1(1)])
    show "(k \<noteq> claim_key vip \<longrightarrow> claims w k = claims w k) \<and> marked_from (claims w k) (claims w k)" by simp
  next
    fix w2 r2 w3
    assume p: "(k \<noteq> claim_key vip \<longrightarrow> claims w2 k = claims w k) \<and> marked_from (claims w k) (claims w2 k)"
      and m: "mark_detached_once env vip w2 = (r2, w3)"
    from mark_detached_once_claims [OF api m, of k] p
    show "(k \<noteq> claim_key vip \<longrightarrow> claims w3 k = claims w k) \<and> marked_from (claims w k) (claims w3 k)"
      by (auto intro: marked_from_trans)
  qed
  show "(k \<noteq> claim_key vip \<longrightarrow> claims w' k = claims w k) \<and> marked_from (claims w k) (claims w' k)"
    using inv [of k] mark_detached_once_claims [OF api w1(2), of k] by (auto intro: marked_from_trans)
  show "claims w' (claim_key vip) = None \<or>
       (\<exists>c now. claims w (claim_key vip) = Some c \<and> claims w' (claim_key vip) = Some (detached now c))" if "r = None"
    using inv [of "claim_key vip"] mark_detached_once_claims [OF api w1(2)] that
    by (auto simp: marked_from_def)
qed

section \<open>A stateful set that was updated\<close>

text \<open>The pod of a claim was seen to be gone, or not to need the address any more.\<close>

definition pod_seen_idle :: "('cfg, 'w) vip_env \<Rightarrow> string \<times> string \<Rightarrow> bool" where
  "pod_seen_idle env k \<longleftrightarrow> (\<exists>w. fst (ensureStaticIpPodNotRunning (ve_kube env) (fst k) (snd k) w) = Inr True)"

text \<open>What that means of the answer about the pod.\<close>

lemma ensure_True_iff:
  "fst (ensureStaticIpPodNotRunning Q ns n w) = Inr True \<longleftrightarrow>
    (case fst (PodsGet Q ns n w) of
       Inl e \<Rightarrow> kube_IsNotFound e
     | Inr pod \<Rightarrow> (\<forall>ow \<in> set (pod_Owners pod). fst ow \<noteq> ''StatefulSet'') \<or>
         (\<exists>v. pod_Annotations pod STS_ENABLE_STATIC_IP = Some v \<and> ToLower v \<noteq> ''true'') \<or> pod_Phase pod \<noteq> ''Running'')"
  by (auto simp: ensureStaticIpPodNotRunning_def Let_def split: prod.splits sum.splits option.splits)

definition surplus_claim :: "('cfg, 'w) vip_env \<Rightarrow> int option \<Rightarrow> VpcIpClaim \<Rightarrow> bool" where
  "surplus_claim env replicas vip \<longleftrightarrow>
     (\<exists>idx n. claim_index vip = Inr idx \<and> replicas = Some n \<and> n \<le> idx) \<and> vc_Attached vip \<and> pod_seen_idle env (claim_key vip)"

lemma update_one_claims:
  assumes "claim_api env claims"
  shows "marked_from (claims w k) (claims (snd (update_one env n vip w)) k) \<and>
    (claims (snd (update_one env n vip w)) k \<noteq> claims w k \<longrightarrow> claim_key vip = k \<and> surplus_claim env n vip)"
proof (cases "\<exists>idx m. claim_index vip = Inr idx \<and> n = Some m \<and> m - 1 < idx \<and> vc_Attached vip")
  case False
  then have "snd (update_one env n vip w) = w"
    by (auto simp: update_one_def split: sum.splits option.splits)
  then show ?thesis by simp
next
  case True
  then obtain idx m where i: "claim_index vip = Inr idx" "n = Some m" "m \<le> idx" "vc_Attached vip" by auto
  let ?en = "ensureStaticIpPodNotRunning (ve_kube env) (vc_Namespace vip) (vc_Name vip)"
  obtain b w1 where b: "?en w = (b, w1)" by fastforce
  have c1: "claims w1 = claims w"
    using ensure_keeps_claims [of env claims] assms b unfolding claim_api_def by (metis snd_conv)
  show ?thesis
  proof (cases "b = Inr True")
    case False
    then have "snd (update_one env n vip w) = w1"
      using i b by (auto simp: update_one_def split: sum.splits bool.splits)
    then show ?thesis using c1 by simp
  next
    case True
    obtain r w2 where m: "markVPCIpClaimDetached env vip w1 = (r, w2)" by fastforce
    have w2: "snd (update_one env n vip w) = w2"
      using i b True m by (simp add: update_one_def ignore_def)
    have "fst (?en w) = Inr True" using b True by simp
    then have "pod_seen_idle env (claim_key vip)"
      unfolding pod_seen_idle_def claim_key_def fst_conv snd_conv by blast
    then have "surplus_claim env n vip" using i by (auto simp: surplus_claim_def)
    then show ?thesis using markVPCIpClaimDetached_claims(1) [OF assms m, of k] c1 w2 by auto
  qed
qed

lemma update_all_claims:
  assumes "claim_api env claims"
  shows "marked_from (claims w k) (claims (snd (each (update_one env n) vips w)) k) \<and>
    (claims (snd (each (update_one env n) vips w)) k \<noteq> claims w k \<longrightarrow>
      (\<exists>vip \<in> set vips. claim_key vip = k \<and> surplus_claim env n vip))"
proof (rule each_inv [where P = "\<lambda>w'. marked_from (claims w k) (claims w' k) \<and>
    (claims w' k \<noteq> claims w k \<longrightarrow> (\<exists>vip \<in> set vips. claim_key vip = k \<and> surplus_claim env n vip))"])
  show "marked_from (claims w k) (claims w k) \<and>
    (claims w k \<noteq> claims w k \<longrightarrow> (\<exists>vip \<in> set vips. claim_key vip = k \<and> surplus_claim env n vip))" by simp
next
  fix vip w'
  assume v: "vip \<in> set vips" and p: "marked_from (claims w k) (claims w' k) \<and>
    (claims w' k \<noteq> claims w k \<longrightarrow> (\<exists>vip \<in> set vips. claim_key vip = k \<and> surplus_claim env n vip))"
  note u = update_one_claims [OF assms, of w' k n vip]
  show "marked_from (claims w k) (claims (snd (update_one env n vip w')) k) \<and>
    (claims (snd (update_one env n vip w')) k \<noteq> claims w k \<longrightarrow>
      (\<exists>vip \<in> set vips. claim_key vip = k \<and> surplus_claim env n vip))"
  proof (cases "claims (snd (update_one env n vip w')) k = claims w' k")
    case True
    then show ?thesis using p by simp
  next
    case False
    then have "\<exists>vip \<in> set vips. claim_key vip = k \<and> surplus_claim env n vip" using u v by blast
    then show ?thesis using marked_from_trans [OF conjunct1 [OF p] conjunct1 [OF u]] by simp
  qed
qed

text \<open>C8. Handling an update of a stateful set changes a stored claim only by marking it as
  detached, and only a claim that the stateful set owned in the list, that was attached, whose index is not below the number of
  replicas, and whose pod was seen to be gone, not running, or not to keep its address. This holds whether the
  handler succeeds or not, and through any conflicts.\<close>

theorem onStsUpdate_detaches_surplus:
  assumes "claim_api env claims" and "onStsUpdate env key w = (r, w')"
  shows "marked_from (claims w k) (claims w' k) \<and>
    (claims w' k \<noteq> claims w k \<longrightarrow>
      (\<exists>ns name vips w1 sts vip. SplitMetaNamespaceKey env key = Inr (ns, name) \<and>
        VipsListOwned env ns name w = (Inr vips, w1) \<and> StatefulSetsGet env ns name w1 = Inr sts \<and>
        vip \<in> set vips \<and> claim_key vip = k \<and> surplus_claim env (ss_Replicas sts) vip))"
proof (cases "\<exists>ns name vips w1 sts. SplitMetaNamespaceKey env key = Inr (ns, name) \<and>
    VipsListOwned env ns name w = (Inr vips, w1) \<and> StatefulSetsGet env ns name w1 = Inr sts")
  case True
  then obtain ns name vips w1 sts where h: "SplitMetaNamespaceKey env key = Inr (ns, name)"
    "VipsListOwned env ns name w = (Inr vips, w1)" "StatefulSetsGet env ns name w1 = Inr sts" by blast
  have c1: "claims w1 = claims w"
    using assms(1) h(2) unfolding claim_api_def claim_reads_def by (metis snd_conv)
  have "w' = snd (each (update_one env (ss_Replicas sts)) vips w1)"
    using assms(2) h by (simp add: onStsUpdate_def)
  then show ?thesis using update_all_claims [OF assms(1), of w1 k "ss_Replicas sts" vips] c1 h by auto
next
  case False
  have "w' = w \<or> (\<exists>ns name. w' = snd (VipsListOwned env ns name w))"
  proof (cases "SplitMetaNamespaceKey env key")
    case (Inl e)
    then show ?thesis using assms(2) by (simp add: onStsUpdate_def)
  next
    case (Inr nk)
    obtain ns name where nk: "nk = (ns, name)" by fastforce
    obtain l w1 where l: "VipsListOwned env ns name w = (l, w1)" by fastforce
    have "w' = w1"
      using assms(2) False Inr nk l by (auto simp: onStsUpdate_def split: sum.splits if_splits)
    then show ?thesis using l by (metis snd_conv)
  qed
  then have "claims w' = claims w" using assms(1) unfolding claim_api_def claim_reads_def by metis
  then show ?thesis by simp
qed

section \<open>The collection of detached claims\<close>

definition claim_due :: "('cfg, 'w) vip_env \<Rightarrow> VpcIpClaim \<Rightarrow> bool" where
  "claim_due env vip \<longleftrightarrow>
     vc_ReleaseTime vip \<noteq> ''Never'' \<and>
     (\<exists>release w. ParseDuration env (vc_ReleaseTime vip) = Inr release \<and>
        (case ParseTime env (vc_LastDetachTime vip) of Inl e \<Rightarrow> 0 | Inr t \<Rightarrow> t) + release < fst (NanoNow env w)) \<and>
     pod_seen_idle env (claim_key vip)"

lemma GetConfig_claims:
  "claim_reads env claims \<Longrightarrow> claims (kworld (snd (GetConfig (ve_rest env) p))) = claims (kworld p)"
  unfolding claim_reads_def
  by (cases "InClusterConfig (ve_rest env) (kworld p)") (auto simp: GetConfig_def split: sum.splits dest!: spec [of _ "kworld p"])

lemma kube_Get_claims:
  assumes "claim_reads env claims"
  shows "claims (kworld (snd (kube_Get (ve_rest env) p))) = claims (kworld p)"
  using GetConfig_claims [OF assms, of p]
  by (auto simp: kube_Get_def split: prod.splits option.splits sum.splits)

lemma GetCRD_claims:
  assumes "claim_reads env claims"
  shows "claims (kworld (snd (GetCRD (ve_rest env) p))) = claims (kworld p)"
  using GetConfig_claims [OF assms, of p]
  by (auto simp: GetCRD_def split: prod.splits option.splits sum.splits)

lemma clean_one_claims:
  assumes "claim_api env claims" and changed: "claims (kworld (snd (clean_one env vip p))) k \<noteq> claims (kworld p) k"
  shows "claim_key vip = k \<and> claim_due env vip"
proof (cases "release_instant env vip")
  case None
  then show ?thesis using changed by (simp add: clean_one_def)
next
  case (Some t)
  have reads: "claim_reads env claims" using assms(1) by (simp add: claim_api_def)
  obtain now w1 where n: "NanoNow env (kworld p) = (now, w1)" by fastforce
  have c1: "claims w1 = claims (kworld p)" using reads n unfolding claim_reads_def by (metis snd_conv)
  obtain cl e p2 where g: "kube_Get (ve_rest env) (p\<lparr>kworld := w1\<rparr>) = ((cl, e), p2)" by (metis surj_pair)
  have c2: "claims (kworld p2) = claims w1" using kube_Get_claims [OF reads, of "p\<lparr>kworld := w1\<rparr>"] g by simp
  let ?en = "ensureStaticIpPodNotRunning (ve_kube env) (vc_Namespace vip) (vc_Name vip)"
  obtain b w3 where b: "?en (kworld p2) = (b, w3)" by fastforce
  have c3: "claims w3 = claims (kworld p2)"
    using ensure_keeps_claims [OF reads, of "vc_Namespace vip" "vc_Name vip" "kworld p2"] b by simp
  have "t < now"
  proof (rule ccontr)
    assume "\<not> t < now"
    then have "clean_one env vip p = (None, p\<lparr>kworld := w1\<rparr>)" using Some n by (simp add: clean_one_def)
    then show False using changed c1 by simp
  qed
  have "cl \<noteq> None"
  proof
    assume "cl = None"
    then have "clean_one env vip p = (Some Panic, p2)" using Some n g \<open>t < now\<close> by (simp add: clean_one_def)
    then show False using changed c1 c2 by simp
  qed
  then obtain cl1 where cl: "cl = Some cl1" by blast
  have "b = Inr True"
  proof (rule ccontr)
    assume "b \<noteq> Inr True"
    then have "clean_one env vip p = (None, p2\<lparr>kworld := w3\<rparr>)"
      using Some n g \<open>t < now\<close> cl b by (auto simp: clean_one_def split: sum.splits bool.splits)
    then show False using changed c1 c2 c3 by simp
  qed
  then have "clean_one env vip p =
      (None, p2\<lparr>kworld := snd (VipsDelete env (vc_Namespace vip) (vc_Name vip) w3)\<rparr>)"
    using Some n g \<open>t < now\<close> cl b by (simp add: clean_one_def ignore_def)
  then have "claims (snd (VipsDelete env (vc_Namespace vip) (vc_Name vip) w3)) k \<noteq> claims w3 k"
    using changed c1 c2 c3 by simp
  moreover have "k \<noteq> (vc_Namespace vip, vc_Name vip) \<longrightarrow>
      claims (snd (VipsDelete env (vc_Namespace vip) (vc_Name vip) w3)) k = claims w3 k"
    using assms(1) unfolding claim_api_def by blast
  ultimately have "k = claim_key vip" unfolding claim_key_def by blast
  moreover have "fst (?en (kworld p2)) = Inr True" using b \<open>b = Inr True\<close> by simp
  then have "pod_seen_idle env (claim_key vip)"
    unfolding pod_seen_idle_def claim_key_def fst_conv snd_conv by blast
  moreover obtain release where release: "vc_ReleaseTime vip \<noteq> ''Never''" "ParseDuration env (vc_ReleaseTime vip) = Inr release"
      "t = (case ParseTime env (vc_LastDetachTime vip) of Inl e \<Rightarrow> 0 | Inr t \<Rightarrow> t) + release"
    using Some by (auto simp: release_instant_def split: if_splits sum.splits)
  moreover have "t < fst (NanoNow env (kworld p))" using n \<open>t < now\<close> by simp
  ultimately show ?thesis unfolding claim_due_def release(3) by blast
qed

text \<open>C7. The collection of detached claims touches a stored claim only when the claim was in
  the list of detached claims, its release time is not \<open>Never\<close> and can be read, the time since it was detached was seen to exceed
  it, and its pod was seen to be gone, not running, or not to keep its address. A claim with unreadable detach time counts as
  detached at the zero time.\<close>

theorem vipCheckAndClean_deletes_due:
  fixes env :: "('a, 'b) vip_env"
  assumes "claim_api env claims" and "vipCheckAndClean env p = (r, p')"
    and "claims (kworld p') k \<noteq> claims (kworld p) k"
  shows "\<exists>vips w1 w2 vip. VipsListDetached env 128 w1 = (Inr vips, w2) \<and> vip \<in> set vips \<and>
    claim_key vip = k \<and> claim_due env vip"
proof -
  have reads: "claim_reads env claims" using assms(1) by (simp add: claim_api_def)
  obtain c e p1 where g: "GetCRD (ve_rest env) p = ((c, e), p1)" by (metis surj_pair)
  have c1: "claims (kworld p1) = claims (kworld p)" using GetCRD_claims [OF reads, of p] g by simp
  obtain l w2 where l: "VipsListDetached env defaultListCRDLimit (kworld p1) = (l, w2)" by fastforce
  have c2: "claims w2 = claims (kworld p1)" using reads l unfolding claim_reads_def by (metis snd_conv)
  have "\<exists>vips. l = Inr vips \<and> p' = snd (each (clean_one env) vips (p1\<lparr>kworld := w2\<rparr>))"
  proof (rule ccontr)
    assume n: "\<not> ?thesis"
    have "kworld p' = kworld p1 \<or> kworld p' = w2"
      using assms(2) g l n
      by (auto simp: vipCheckAndClean_def split: option.splits gerror.splits sum.splits)
    then show False using assms(3) c1 c2 by auto
  qed
  then obtain vips where v: "l = Inr vips" "p' = snd (each (clean_one env) vips (p1\<lparr>kworld := w2\<rparr>))" by blast
  have "claims (kworld p') k = claims (kworld p) k \<or> (\<exists>vip \<in> set vips. claim_key vip = k \<and> claim_due env vip)"
    unfolding v(2)
  proof (rule each_inv [where P = "\<lambda>q :: ('a, 'b) kproc. claims (kworld q) k = claims (kworld p) k \<or>
      (\<exists>vip \<in> set vips. claim_key vip = k \<and> claim_due env vip)"])
    show "claims (kworld (p1\<lparr>kworld := w2\<rparr>)) k = claims (kworld p) k \<or>
      (\<exists>vip \<in> set vips. claim_key vip = k \<and> claim_due env vip)" using c1 c2 by simp
  next
    fix vip and q :: "('a, 'b) kproc"
    assume "vip \<in> set vips" and "claims (kworld q) k = claims (kworld p) k \<or>
      (\<exists>vip \<in> set vips. claim_key vip = k \<and> claim_due env vip)"
    then show "claims (kworld (snd (clean_one env vip q))) k = claims (kworld p) k \<or>
      (\<exists>vip \<in> set vips. claim_key vip = k \<and> claim_due env vip)"
      using clean_one_claims [OF assms(1), of vip q k] by metis
  qed
  then show ?thesis using assms(3) l v(1) unfolding defaultListCRDLimit_def by blast
qed


section \<open>A claim that was deleted\<close>

definition release_request :: "VpcIpClaim \<Rightarrow> DeleteRequest" where
  "release_request vip = \<lparr>dl_Zone = Some (vc_Zone vip), dl_Mac = vc_Mac vip, dl_Ip = vc_Ip vip, dl_ObjectId = None,
     dl_VPCId = vc_VpcId vip, dl_SubnetId = vc_SubnetId vip\<rparr>"

text \<open>C10. The address of a deleted claim is released only after its pod was seen to be gone, not running, or
  not to keep its address; before that nothing but the request for the pod is made and the handler fails. When the handler succeeds, the
  VPC service deleted the address as the claim records it or did not know it, or else no client could be made, in
  which case nothing was released.\<close>

theorem onVipDelete_releases:
  assumes "onVipDelete env vip p = (r, p')"
  shows "(case ensureStaticIpPodNotRunning (ve_kube env) (vc_Namespace vip) (vc_Name vip) (world p) of
      (running, w1) \<Rightarrow>
        (running \<noteq> Inr True \<longrightarrow> r \<noteq> None \<and> p' = p\<lparr>world := w1\<rparr>) \<and>
        (running = Inr True \<and> r = None \<longrightarrow>
          (\<exists>e. NewClient (ve_cloud env) (ve_version env) (p\<lparr>world := w1\<rparr>) = (Some (Inl e), p')) \<or>
          (\<exists>cli w2 code err. DeleteSecondaryIp (ve_cloud env) cli (release_request vip) w2 = ((code, err), world p') \<and>
             (err = None \<or> code = 58221))))"
proof -
  obtain b w1 where b: "ensureStaticIpPodNotRunning (ve_kube env) (vc_Namespace vip) (vc_Name vip) (world p) = (b, w1)"
    by fastforce
  have not_running: "r \<noteq> None \<and> p' = p\<lparr>world := w1\<rparr>" if "b \<noteq> Inr True"
    using assms b that by (auto simp: onVipDelete_def split: sum.splits bool.splits)
  have released: "(\<exists>e. NewClient (ve_cloud env) (ve_version env) (p\<lparr>world := w1\<rparr>) = (Some (Inl e), p')) \<or>
      (\<exists>cli w2 code err. DeleteSecondaryIp (ve_cloud env) cli (release_request vip) w2 = ((code, err), world p') \<and>
         (err = None \<or> code = 58221))" if t: "b = Inr True" and ok: "r = None"
  proof -
    have rel: "releaseVPCIp env vip (p\<lparr>world := w1\<rparr>) = (None, p')"
      using assms b t ok by (simp add: onVipDelete_def)
    obtain n p1 where n: "NewClient (ve_cloud env) (ve_version env) (p\<lparr>world := w1\<rparr>) = (n, p1)" by fastforce
    show ?thesis
    proof (cases n)
      case None
      then show ?thesis using rel n by (simp add: releaseVPCIp_def)
    next
      case (Some cr)
      show ?thesis
      proof (cases cr)
        case (Inl e)
        then show ?thesis using rel n Some by (simp add: releaseVPCIp_def)
      next
        case (Inr c)
        obtain s w2 where s: "service_client (ve_cloud env) c (world p1) = (s, w2)" by fastforce
        then obtain cli where cli: "s = Inr cli"
          using rel n Some Inr by (cases s) (auto simp: releaseVPCIp_def)
        obtain code err w3 where d: "DeleteSecondaryIp (ve_cloud env) cli (release_request vip) w2 = ((code, err), w3)"
          by (metis surj_pair)
        then have "world p' = w3 \<and> (err = None \<or> code = 58221)"
          using rel n Some Inr s cli
          by (auto simp: releaseVPCIp_def release_request_def vip_UAPIErrorIPNotExst_def split: if_splits)
        then show ?thesis using d by blast
      qed
    qed
  qed
  show ?thesis using b not_running released by simp
qed


section \<open>Examples\<close>

text \<open>The world is the store of claims; no pod exists, and an hour is the only duration that can be read.\<close>

type_synonym claim_store = "string \<times> string \<Rightarrow> VpcIpClaim option"

definition vip_mem :: "VpcIpClaim list \<Rightarrow> (unit, claim_store) vip_env" where
  "vip_mem vips = vip_down\<lparr>
     ve_kube := kube_down\<lparr>PodsGet := (\<lambda>ns n w. (Inl (Kube KNotFound), w)),
       VipsGet := (\<lambda>ns n w. case w (ns, n) of
           Some c \<Rightarrow> if claim_key c = (ns, n) then (Inr c, w) else (Inl (Kube KNotFound), w)
         | None \<Rightarrow> (Inl (Kube KNotFound), w)),
       VipsUpdate := (\<lambda>c w. (None, w(claim_key c \<mapsto> c)))\<rparr>,
     ve_cloud := cloud_down\<lparr>LoadSTSConfigV2 := (\<lambda>_ w. (Inr \<lparr>cr_PublicKey = [], cr_PrivateKey = []\<rparr>, w)),
       DeleteSecondaryIp := (\<lambda>_ _ w. ((58221, Some (Ext 1)), w)), FormatNow := (\<lambda>w. (''2024-01-02 03:04:05'', w))\<rparr>,
     VipsListOwned := (\<lambda>_ _ w. (Inr vips, w)), VipsListDetached := (\<lambda>_ w. (Inr vips, w)),
     VipsDelete := (\<lambda>ns n w. (None, w((ns, n) := None))),
     StatefulSetsGet := (\<lambda>ns n w. Inr \<lparr>ss_Name = n, ss_Namespace = ns, ss_Replicas = Some 1, ss_TemplateAnnotations = Map.empty\<rparr>),
     ParseDuration := (\<lambda>s. if s = ''1h'' then Inr (3600 * 10 ^ 9) else Inl (Ext 2)),
     NanoNow := (\<lambda>w. (10 ^ 19, w))\<rparr>"

definition web_claim :: VpcIpClaim where
  "web_claim = \<lparr>vc_Name = ''web-1'', vc_Namespace = ''ns'', vc_Labels = None, vc_Finalizers = [''cni-vpc-ipamd''],
     vc_Ip = ''10.0.0.8'', vc_Mask = [], vc_Gateway = [], vc_SubnetId = [], vc_VpcId = [], vc_Attached = True,
     vc_Zone = [], vc_LastDetachTime = [], vc_Mac = [], vc_ReleaseTime = ''1h'', vc_SandboxId = ''sandbox''\<rparr>"

definition web_store :: claim_store where
  "web_store = [(''ns'', ''web-1'') \<mapsto> web_claim]"

lemma retries_kube_mem: "retries (ve_kube (vip_mem vips))"
  by (auto simp: retries_def vip_mem_def vip_down_def kube_down_def intro: runs_nil)

lemma claim_api_mem: "claim_api (vip_mem vips) (\<lambda>w. w)"
proof -
  have "claim_reads (vip_mem vips) (\<lambda>w. w)"
    by (auto simp: claim_reads_def vip_mem_def vip_down_def kube_down_def cloud_down_def split: option.splits)
  then show ?thesis using retries_kube_mem
    by (auto simp: claim_api_def vip_mem_def split: option.splits if_splits)
qed

lemma mem_pod_idle: "pod_seen_idle (vip_mem vips) k"
  by (simp add: pod_seen_idle_def ensureStaticIpPodNotRunning_def vip_mem_def kube_IsNotFound_def)

lemma mem_update:
  "onStsUpdate (vip_mem [web_claim]) ''ns/web'' web_store =
    (None, web_store((''ns'', ''web-1'') \<mapsto> detached ''2024-01-02 03:04:05'' web_claim))"
proof -
  have i: "claim_index web_claim = Inr 1" unfolding claim_index_def web_claim_def by code_simp
  show ?thesis
    by (simp add: onStsUpdate_def update_one_def i vip_mem_def vip_down_def ensureStaticIpPodNotRunning_def
        kube_IsNotFound_def markVPCIpClaimDetached_def mark_detached_once_def kube_down_def ignore_def web_store_def)
       (simp add: web_claim_def detached_def claim_key_def)
qed

theorem onStsUpdate_detaches_surplus_witness:
  "\<exists>vip. claim_key vip = (''ns'', ''web-1'') \<and> surplus_claim (vip_mem [web_claim]) (Some 1) vip \<and>
    snd (onStsUpdate (vip_mem [web_claim]) ''ns/web'' web_store) (''ns'', ''web-1'') \<noteq> web_store (''ns'', ''web-1'')"
proof -
  have "detached ''2024-01-02 03:04:05'' web_claim \<noteq> web_claim" by (simp add: detached_def web_claim_def)
  then show ?thesis
    using onStsUpdate_detaches_surplus [OF claim_api_mem mem_update, of "(''ns'', ''web-1'')"] mem_update
    by (auto simp: web_store_def vip_mem_def vip_down_def)
qed

lemma mem_clean:
  "snd (vipCheckAndClean (vip_mem [web_claim]) (fresh_kproc web_store)) =
    (fresh_kproc (web_store((''ns'', ''web-1'') := None)))
      \<lparr>configOnce := True, clientOnce := True, crdOnce := True, config := Some (), kclient := Some (), crd := Some ()\<rparr>"
  by (simp add: vipCheckAndClean_def GetCRD_def GetConfig_def kube_Get_def fresh_kproc_def vip_mem_def vip_down_def clean_one_def
      release_instant_def ensureStaticIpPodNotRunning_def kube_IsNotFound_def ignore_def web_claim_def)

theorem vipCheckAndClean_deletes_due_witness:
  "web_store (''ns'', ''web-1'') \<noteq> None \<and>
    kworld (snd (vipCheckAndClean (vip_mem [web_claim]) (fresh_kproc web_store))) (''ns'', ''web-1'') = None \<and>
    claim_due (vip_mem [web_claim]) web_claim"
proof -
  obtain r where c: "vipCheckAndClean (vip_mem [web_claim]) (fresh_kproc web_store) =
      (r, snd (vipCheckAndClean (vip_mem [web_claim]) (fresh_kproc web_store)))"
    by (metis prod.collapse)
  have k: "kworld (snd (vipCheckAndClean (vip_mem [web_claim]) (fresh_kproc web_store))) (''ns'', ''web-1'') = None"
    unfolding mem_clean by (simp add: fresh_kproc_def)
  have s: "web_store (''ns'', ''web-1'') = Some web_claim" by (simp add: web_store_def)
  have f: "kworld (fresh_kproc web_store :: (unit, claim_store) kproc) = web_store" by (simp add: fresh_kproc_def)
  have "\<exists>vips w1 w2 vip. VipsListDetached (vip_mem [web_claim]) 128 w1 = (Inr vips, w2) \<and> vip \<in> set vips \<and>
      claim_key vip = (''ns'', ''web-1'') \<and> claim_due (vip_mem [web_claim]) vip"
    by (rule vipCheckAndClean_deletes_due [OF claim_api_mem c]) (use k s f in simp)
  then have "claim_due (vip_mem [web_claim]) web_claim" by (auto simp: vip_mem_def)
  with k s show ?thesis by simp
qed

definition mem_metadata :: Metadata where
  "mem_metadata = \<lparr>md_InstanceId = ''uhost-1'', md_Region = [], md_AvailabilityZone = [],
     md_UHost = \<lparr>mh_ProjectId = [], mh_NetworkInterfaces = []\<rparr>, md_UPHost = \<lparr>mh_ProjectId = [], mh_NetworkInterfaces = []\<rparr>\<rparr>"

definition mem_proc :: "claim_store proc" where
  "mem_proc = \<lparr>metaOnce = True, meta = Some mem_metadata, world = web_store\<rparr>"

lemma mem_release: "onVipDelete (vip_mem []) web_claim mem_proc = (None, mem_proc)"
  by (simp add: onVipDelete_def ensureStaticIpPodNotRunning_def vip_mem_def kube_IsNotFound_def releaseVPCIp_def
      NewClient_def GetMeta_def mem_proc_def service_client_def CreateCredential_def vip_UAPIErrorIPNotExst_def)

theorem onVipDelete_releases_witness:
  "\<exists>cli w2 code err. DeleteSecondaryIp (ve_cloud (vip_mem [])) cli (release_request web_claim) w2 = ((code, err), web_store) \<and>
     code = 58221"
proof -
  have n: "\<nexists>e. NewClient (ve_cloud (vip_mem [])) (ve_version (vip_mem [])) (mem_proc\<lparr>world := web_store\<rparr>) = (Some (Inl e), mem_proc)"
    by (simp add: NewClient_def GetMeta_def mem_proc_def)
  have e: "ensureStaticIpPodNotRunning (ve_kube (vip_mem [])) (vc_Namespace web_claim) (vc_Name web_claim) (world mem_proc) =
      (Inr True, web_store)"
    by (simp add: ensureStaticIpPodNotRunning_def vip_mem_def kube_IsNotFound_def mem_proc_def)
  have w: "world mem_proc = web_store" by (simp add: mem_proc_def)
  from onVipDelete_releases [OF mem_release] n e w
  have "\<exists>cli w2 code err. DeleteSecondaryIp (ve_cloud (vip_mem [])) cli (release_request web_claim) w2 = ((code, err), web_store) \<and>
      (err = None \<or> code = 58221)" by auto
  then show ?thesis by (auto simp: vip_mem_def)
qed

end
