(* ===== verification/Cni_Init.thy ===== *)
theory Cni_Init
  imports Rpc_Types
begin

text \<open>
  \<open>cmd/cnivpc-init\<close>: the init container that installs the plugin binary on the node. Processes, environment and
  files are the record \<open>os_env\<close>; a file that is open is named by its path. An installation writes a complete copy beside the target
  and then renames it.
\<close>

record 'w os_env =
  CombinedOutput :: "string \<Rightarrow> 'w \<Rightarrow> string result \<times> 'w" \<comment> \<open>of the program with \<open>--version\<close>\<close>
  LookupEnv :: "string \<Rightarrow> string option"
  os_Lstat :: "string \<Rightarrow> 'w \<Rightarrow> gerror option"
  os_Stat :: "string \<Rightarrow> 'w \<Rightarrow> (bool \<times> nat) result" \<comment> \<open>regular file, permissions\<close>
  os_Remove :: "string \<Rightarrow> 'w action"
  os_Rename :: "string \<Rightarrow> string \<Rightarrow> 'w action"
  os_Open :: "string \<Rightarrow> 'w action"
  os_CreateExcl :: "string \<Rightarrow> nat \<Rightarrow> 'w action" \<comment> \<open>\<open>O_WRONLY|O_CREATE|O_EXCL\<close>\<close>
  io_Copy :: "string \<Rightarrow> string \<Rightarrow> 'w action" \<comment> \<open>destination, source\<close>
  os_Close :: "string \<Rightarrow> 'w action"

section \<open>cp.go\<close>

text \<open>A deferred \<open>Close\<close> whose error joins the result.\<close>

definition closing :: "'w os_env \<Rightarrow> string \<Rightarrow> string \<Rightarrow> gerror option \<times> 'w \<Rightarrow> gerror option \<times> 'w" where
  "closing E f m rw =
     (case rw of (err, w) \<Rightarrow> (case os_Close E f w of (c, w1) \<Rightarrow> (errors_Combine err (errors_Wrap m c), w1)))"

definition cp :: "'w os_env \<Rightarrow> string \<Rightarrow> string \<Rightarrow> 'w action" where
  "cp E src dst w =
     (case os_Stat E src w of
        Inl e \<Rightarrow> (Some (Wrap ''main.cp stat source %s'' e), w)
      | Inr (regular, perm) \<Rightarrow>
          if \<not> regular then (Some (Errors_New ''main.cp source %s is not a regular file''), w)
          else (case os_Open E src w of
             (Some e, w1) \<Rightarrow> (Some (Wrap ''main.cp open source %s'' e), w1)
           | (None, w1) \<Rightarrow>
               closing E src ''main.cp close source''
                 (case os_CreateExcl E dst perm w1 of
                    (Some e, w2) \<Rightarrow> (Some (Wrap ''main.cp create destination %s'' e), w2)
                  | (None, w2) \<Rightarrow>
                      closing E dst ''main.cp close destination''
                        (case io_Copy E dst src w2 of
                           (Some e, w3) \<Rightarrow> (Some (Wrap ''main.cp copy'' e), w3)
                         | (None, w3) \<Rightarrow> (None, w3)))))"

definition tmp_name :: "string \<Rightarrow> string" where
  "tmp_name dst = dst @ ''.tmp''"

definition copyFile :: "'w os_env \<Rightarrow> string \<Rightarrow> string \<Rightarrow> 'w action" where
  "copyFile E src dst w =
     (let dstTmp = tmp_name dst;
          copy = seq (cp E src dstTmp)
            (\<lambda>w. case os_Rename E dstTmp dst w of
               (Some e, w1) \<Rightarrow> (Some (Wrap ''main.copyFile rename destination %s'' e), w1)
             | (None, w1) \<Rightarrow> (None, w1)) in
      case os_Remove E dstTmp w of
        (Some e, w1) \<Rightarrow>
          if errors_Is e (Sys ENOENT) then copy w1
          else (Some (Wrap ''main.copyFile remove stale destination %s'' e), w1)
      | (None, w1) \<Rightarrow> copy w1)"

section \<open>main.go\<close>

definition cniBinarySourcePath :: string where
  "cniBinarySourcePath = ''/app/cnivpc''"

definition cniBinaryTargetPath :: string where
  "cniBinaryTargetPath = ''/opt/cni/bin/cnivpc''"

definition envCNIInitOverwrite :: string where
  "envCNIInitOverwrite = ''CNI_INIT_OVERWRITE''"

definition checksame :: "'w os_env \<Rightarrow> string \<Rightarrow> string \<Rightarrow> 'w \<Rightarrow> bool result \<times> 'w" where
  "checksame E sourcePath targetPath w =
     (case CombinedOutput E sourcePath w of
        (Inl e, w1) \<Rightarrow> (Inl (Wrap ''main.checksame get source version from %s'' e), w1)
      | (Inr sourceVersion, w1) \<Rightarrow>
          (case CombinedOutput E targetPath w1 of
             (Inl e, w2) \<Rightarrow>
               if errors_Is e (Sys ENOENT) then (Inr False, w2)
               else (Inl (Wrap ''main.checksame get target version from %s'' e), w2)
           | (Inr targetVersion, w2) \<Rightarrow> (Inr (TrimSpace sourceVersion = TrimSpace targetVersion), w2)))"

definition cniInitModeFromEnv :: "'w os_env \<Rightarrow> bool result" where
  "cniInitModeFromEnv E =
     (case LookupEnv E envCNIInitOverwrite of
        None \<Rightarrow> Inr False
      | Some value \<Rightarrow>
          (let v = ToLower (TrimSpace value) in
           if v = ''true'' then Inr True
           else if v = ''false'' then Inr False
           else Inl (Errors_New ''main.cniInitModeFromEnv parse %s value %q: expected true or false'')))"

definition copyCNIBinary :: "'w os_env \<Rightarrow> string \<Rightarrow> string \<Rightarrow> 'w action" where
  "copyCNIBinary E sourcePath targetPath w =
     (case copyFile E sourcePath targetPath w of
        (Some e, w1) \<Rightarrow> (Some (Wrap ''main.copyCNIBinary copy'' e), w1)
      | (None, w1) \<Rightarrow> (None, w1))"

definition installCNIBinaryIfMissing :: "'w os_env \<Rightarrow> string \<Rightarrow> string \<Rightarrow> 'w action" where
  "installCNIBinaryIfMissing E sourcePath targetPath w =
     (case os_Lstat E targetPath w of
        None \<Rightarrow> (None, w)
      | Some e \<Rightarrow>
          if \<not> errors_Is e (Sys ENOENT) then (Some (Wrap ''main.installCNIBinaryIfMissing stat target %s'' e), w)
          else copyCNIBinary E sourcePath targetPath w)"

definition init_run :: "'w os_env \<Rightarrow> 'w action" where
  "init_run E w =
     (case checksame E cniBinarySourcePath cniBinaryTargetPath w of
        (Inl e, w1) \<Rightarrow> (Some e, w1)
      | (Inr same, w1) \<Rightarrow>
          if same then (None, w1)
          else (case cniInitModeFromEnv E of
             Inl e \<Rightarrow> (Some e, w1)
           | Inr needReplace \<Rightarrow>
               if needReplace then copyCNIBinary E cniBinarySourcePath cniBinaryTargetPath w1
               else installCNIBinaryIfMissing E cniBinarySourcePath cniBinaryTargetPath w1))"

text \<open>\<open>main\<close>: the exit status.\<close>

definition init_main :: "'w os_env \<Rightarrow> 'w \<Rightarrow> nat \<times> 'w" where
  "init_main E w = (case init_run E w of (None, w1) \<Rightarrow> (0, w1) | (Some e, w1) \<Rightarrow> (1, w1))"

section \<open>What the file system promises\<close>

text \<open>
  \<open>content w p\<close> is what the file \<open>p\<close> holds, \<open>None\<close> when there is none. Creating exclusively needs that
  there is no file and makes an empty one; copying may leave any content when it fails; renaming is one step, all or nothing.
\<close>

definition file_system :: "'w os_env \<Rightarrow> ('w \<Rightarrow> string \<Rightarrow> string option) \<Rightarrow> bool" where
  "file_system E content \<longleftrightarrow>
     (\<forall>p w. content (snd (CombinedOutput E p w)) = content w) \<and>
     (\<forall>p w r w'. os_Remove E p w = (r, w') \<longrightarrow> content w' = (if r = None then (content w)(p := None) else content w)) \<and>
     (\<forall>p w. content (snd (os_Open E p w)) = content w) \<and>
     (\<forall>p w. content (snd (os_Close E p w)) = content w) \<and>
     (\<forall>p m w r w'. os_CreateExcl E p m w = (r, w') \<longrightarrow> content w' = (if r = None then (content w)(p \<mapsto> []) else content w)) \<and>
     (\<forall>d s w r w'. io_Copy E d s w = (r, w') \<longrightarrow> (\<forall>p. p \<noteq> d \<longrightarrow> content w' p = content w p) \<and>
        (r = None \<longrightarrow> content w' d = content w s)) \<and>
     (\<forall>a b w r w'. os_Rename E a b w = (r, w') \<longrightarrow>
        content w' = (if r = None then (content w)(b := content w a, a := None) else content w))"

lemma fs_effects:
  assumes "file_system E content"
  shows fs_remove: "os_Remove E p w = (r, w') \<Longrightarrow> content w' = (if r = None then (content w)(p := None) else content w)"
    and fs_create: "os_CreateExcl E p m w = (r, w') \<Longrightarrow> content w' = (if r = None then (content w)(p \<mapsto> []) else content w)"
    and fs_copy: "io_Copy E d s w = (r, w') \<Longrightarrow>
      (\<forall>p. p \<noteq> d \<longrightarrow> content w' p = content w p) \<and> (r = None \<longrightarrow> content w' d = content w s)"
    and fs_rename: "os_Rename E a b w = (r, w') \<Longrightarrow>
      content w' = (if r = None then (content w)(b := content w a, a := None) else content w)"
    and fs_open: "content (snd (os_Open E p w)) = content w"
    and fs_exec: "content (snd (CombinedOutput E p w)) = content w"
  using assms unfolding file_system_def by simp_all

lemma closing_result:
  assumes "file_system E content" and "closing E f m (r, w) = (r', w')"
  shows "content w' = content w \<and> (r' = None \<longrightarrow> r = None)"
  using assms unfolding file_system_def closing_def
  by (cases "os_Close E f w") (auto, metis snd_conv)

text \<open>\<open>cp\<close> touches its destination only, and on success the destination holds what the source holds.\<close>

lemma cp_result:
  assumes fs: "file_system E content" and "src \<noteq> dst" and cp: "cp E src dst w = (r, w')"
  shows "(\<forall>p. p \<noteq> dst \<longrightarrow> content w' p = content w p) \<and> (r = None \<longrightarrow> content w' dst = content w src)"
proof (cases "\<exists>perm w1. os_Stat E src w = Inr (True, perm) \<and> os_Open E src w = (None, w1)")
  case False
  have "content w' = content w \<and> (\<exists>e. r = Some e)"
  proof (cases "\<exists>perm. os_Stat E src w = Inr (True, perm)")
    case True
    then obtain perm where s: "os_Stat E src w = Inr (True, perm)" by blast
    obtain ro w1 where o: "os_Open E src w = (ro, w1)" by fastforce
    then have "content w1 = content w" using fs_open [OF fs, of src w] by simp
    with False cp s o show ?thesis by (cases ro) (auto simp: cp_def)
  next
    case no: False
    then show ?thesis using cp by (auto simp: cp_def split: sum.splits if_splits)
  qed
  then show ?thesis by (metis option.distinct(1))
next
  case True
  then obtain perm w1 where s: "os_Stat E src w = Inr (True, perm)" and o: "os_Open E src w = (None, w1)" by blast
  have c1: "content w1 = content w" using fs_open [OF fs, of src w] o by simp
  obtain rc w2 where create: "os_CreateExcl E dst perm w1 = (rc, w2)" by fastforce
  show ?thesis
  proof (cases rc)
    case (Some e)
    have "content w2 = content w1" using fs_create [OF fs create] Some by simp
    moreover have "closing E src ''main.cp close source'' (Some (Wrap ''main.cp create destination %s'' e), w2) = (r, w')"
      using cp s o create Some by (simp add: cp_def)
    ultimately show ?thesis using closing_result [OF fs] c1 by (metis option.distinct(1))
  next
    case None
    have c2: "content w2 = (content w1)(dst \<mapsto> [])" using fs_create [OF fs create] None by simp
    obtain ri w3 where copy: "io_Copy E dst src w2 = (ri, w3)" by fastforce
    have c3: "(\<forall>p. p \<noteq> dst \<longrightarrow> content w3 p = content w2 p) \<and> (ri = None \<longrightarrow> content w3 dst = content w2 src)"
      by (rule fs_copy [OF fs copy])
    obtain r4 w4 where c4: "closing E dst ''main.cp close destination'' (map_option (Wrap ''main.cp copy'') ri, w3) = (r4, w4)"
      by fastforce
    have "closing E src ''main.cp close source'' (r4, w4) = (r, w')"
      using cp s o create None copy c4 by (cases ri) (simp_all add: cp_def)
    then have "content w' = content w3 \<and> (r = None \<longrightarrow> ri = None)"
      using closing_result [OF fs] c4 by (metis map_option_is_None)
    then show ?thesis using c1 c2 c3 assms(2) by auto
  qed
qed

lemma copyFile_result:
  assumes "file_system E content" and "src \<noteq> dst @ ''.tmp''" and "copyFile E src dst w = (r, w')"
  shows "(\<forall>p. p \<noteq> dst \<and> p \<noteq> dst @ ''.tmp'' \<longrightarrow> content w' p = content w p) \<and>
    (r \<noteq> None \<longrightarrow> content w' dst = content w dst) \<and>
    (r = None \<longrightarrow> (\<exists>w1. content w1 dst = content w dst \<and> content w1 (dst @ ''.tmp'') = content w src \<and>
        os_Rename E (dst @ ''.tmp'') dst w1 = (None, w')) \<and>
      content w' dst = content w src \<and> content w' (dst @ ''.tmp'') = None)"
proof -
  let ?tmp = "dst @ ''.tmp''"
  obtain rr w1 where rm: "os_Remove E ?tmp w = (rr, w1)" by fastforce
  have c1: "content w1 = (if rr = None then (content w)(?tmp := None) else content w)"
    by (rule fs_remove [OF assms(1) rm])
  show ?thesis
  proof (cases "rr = None \<or> (\<exists>e. rr = Some e \<and> errors_Is e (Sys ENOENT))")
    case False
    then show ?thesis using assms(3) rm c1 by (auto simp: copyFile_def tmp_name_def Let_def split: option.splits if_splits)
  next
    case True
    obtain rcp w2 where cp: "cp E src ?tmp w1 = (rcp, w2)" by fastforce
    have c2: "(\<forall>p. p \<noteq> ?tmp \<longrightarrow> content w2 p = content w1 p) \<and> (rcp = None \<longrightarrow> content w2 ?tmp = content w1 src)"
      by (rule cp_result [OF assms(1,2) cp])
    show ?thesis
    proof (cases rcp)
      case (Some e)
      then have "r = Some e" "w' = w2"
        using assms(3) rm True cp by (auto simp: copyFile_def tmp_name_def Let_def seq_def split: option.splits)
      then show ?thesis using c1 c2 by (auto split: if_splits)
    next
      case None
      obtain rn w3 where mv: "os_Rename E ?tmp dst w2 = (rn, w3)" by fastforce
      have c3: "content w3 = (if rn = None then (content w2)(dst := content w2 ?tmp, ?tmp := None) else content w2)"
        by (rule fs_rename [OF assms(1) mv])
      have r: "w' = w3 \<and> (r = None \<longleftrightarrow> rn = None)"
        using assms(3) rm True cp None mv
        by (cases rn) (auto simp: copyFile_def tmp_name_def Let_def seq_def split: option.splits)
      have same: "content w2 dst = content w dst" "content w1 src = content w src"
        using c1 c2 assms(2) by (auto split: if_splits)
      show ?thesis
      proof (cases rn)
        case (Some e)
        then show ?thesis using r c1 c2 c3 same by (auto split: if_splits)
      next
        case rn: None
        then show ?thesis using r c1 c2 c3 same mv None by (auto split: if_splits intro!: exI [of _ w2])
      qed
    qed
  qed
qed

text \<open>C12. Installing the binary is atomic. The target keeps what it held through every step but
  one, the renaming of a temporary file that by then holds everything the source holds; so a failure at any step leaves the target as it was,
  and success leaves in it exactly what the source holds and no temporary file. No other file is touched.\<close>

theorem copyFile_atomic:
  assumes "file_system E content" and "src \<noteq> dst @ ''.tmp''" and "copyFile E src dst w = (r, w')"
  shows "(\<forall>p. p \<noteq> dst \<and> p \<noteq> dst @ ''.tmp'' \<longrightarrow> content w' p = content w p) \<and>
    (r \<noteq> None \<longrightarrow> content w' dst = content w dst) \<and>
    (r = None \<longrightarrow> (\<exists>w1. content w1 dst = content w dst \<and> content w1 (dst @ ''.tmp'') = content w src \<and>
        os_Rename E (dst @ ''.tmp'') dst w1 = (None, w')) \<and>
      content w' dst = content w src \<and> content w' (dst @ ''.tmp'') = None)"
  by (rule copyFile_result [OF assms])

lemma checksame_content:
  assumes "file_system E content" and "checksame E a b w = (r, w1)"
  shows "content w1 = content w"
proof -
  obtain x w2 where x: "CombinedOutput E a w = (x, w2)" by fastforce
  obtain y w3 where y: "CombinedOutput E b w2 = (y, w3)" by fastforce
  have "w1 = w2 \<or> w1 = w3" using assms(2) x y by (auto simp: checksame_def split: sum.splits if_splits)
  then show ?thesis using fs_exec [OF assms(1), of a w] fs_exec [OF assms(1), of b w2] x y by auto
qed

section \<open>When the target is replaced\<close>

text \<open>A run of the init container changes the installed plugin only when its version differs from the
  one to install or it cannot be started because it is missing, and only when overwriting is asked for or there is no file; then it
  holds exactly the new plugin, and otherwise, on success or failure, it is what it was.\<close>

lemma init_run_replaces:
  assumes "file_system E content" and "init_run E w = (r, w')"
    and "content w' cniBinaryTargetPath \<noteq> content w cniBinaryTargetPath"
  shows "r = None \<and> content w' cniBinaryTargetPath = content w cniBinarySourcePath \<and>
    (\<exists>w1. checksame E cniBinarySourcePath cniBinaryTargetPath w = (Inr False, w1) \<and>
      (cniInitModeFromEnv E = Inr True \<or>
       cniInitModeFromEnv E = Inr False \<and> (\<exists>e. os_Lstat E cniBinaryTargetPath w1 = Some e \<and> errors_Is e (Sys ENOENT))))"
proof -
  let ?src = cniBinarySourcePath and ?dst = cniBinaryTargetPath
  obtain same w1 where cs: "checksame E ?src ?dst w = (same, w1)" by fastforce
  have c1: "content w1 = content w"
    by (rule checksame_content [OF assms(1) cs])
  have ne: "?src \<noteq> ?dst @ ''.tmp''" by (simp add: cniBinarySourcePath_def cniBinaryTargetPath_def)
  have "w' \<noteq> w1" using assms(3) c1 by auto
  then have "same = Inr False" and mode: "cniInitModeFromEnv E = Inr True \<or>
      cniInitModeFromEnv E = Inr False \<and> (\<exists>e. os_Lstat E ?dst w1 = Some e \<and> errors_Is e (Sys ENOENT))"
    and copied: "copyCNIBinary E ?src ?dst w1 = (r, w')"
    using assms(2) cs
    by (auto simp: init_run_def installCNIBinaryIfMissing_def split: sum.splits if_splits option.splits bool.splits)
  obtain rc where cf: "copyFile E ?src ?dst w1 = (rc, w')" and rc: "r = None \<longleftrightarrow> rc = None"
    using copied by (auto simp: copyCNIBinary_def split: prod.splits option.splits)
  note atomic = copyFile_result [OF assms(1) ne cf]
  show ?thesis using atomic rc c1 assms(3) cs \<open>same = Inr False\<close> mode by auto
qed


section \<open>Examples\<close>

text \<open>A node without the plugin, and one with an older version; files hold what they print with \<open>--version\<close>.\<close>

definition mem_files :: "string option \<Rightarrow> (string \<rightharpoonup> string) os_env" where
  "mem_files mode = \<lparr>
     CombinedOutput = (\<lambda>p w. case w p of None \<Rightarrow> (Inl (Sys ENOENT), w) | Some v \<Rightarrow> (Inr v, w)),
     LookupEnv = (\<lambda>_. mode), os_Lstat = (\<lambda>p w. if w p = None then Some (Sys ENOENT) else None),
     os_Stat = (\<lambda>p w. if w p = None then Inl (Sys ENOENT) else Inr (True, 493)),
     os_Remove = (\<lambda>p w. if w p = None then (Some (Sys ENOENT), w) else (None, w(p := None))),
     os_Rename = (\<lambda>a b w. (None, w(b := w a, a := None))),
     os_Open = (\<lambda>p w. (if w p = None then Some (Sys ENOENT) else None, w)),
     os_CreateExcl = (\<lambda>p m w. if w p = None then (None, w(p \<mapsto> [])) else (Some (Sys EEXIST), w)),
     io_Copy = (\<lambda>d s w. (None, w(d := w s))), os_Close = (\<lambda>p w. (None, w))\<rparr>"

lemma file_system_mem: "file_system (mem_files mode) (\<lambda>w. w)"
  by (auto simp: file_system_def mem_files_def split: option.splits if_splits)

definition old_node :: "string \<rightharpoonup> string" where
  "old_node = [cniBinarySourcePath \<mapsto> ''v2'', cniBinaryTargetPath \<mapsto> ''v1'']"

lemma old_node_values [simp]: "old_node cniBinarySourcePath = Some ''v2''" "old_node cniBinaryTargetPath = Some ''v1''"
  "old_node (cniBinaryTargetPath @ ''.tmp'') = None"
  by (simp_all add: old_node_def cniBinarySourcePath_def cniBinaryTargetPath_def)

lemma mem_copyFile:
  "copyFile (mem_files m) cniBinarySourcePath cniBinaryTargetPath old_node = (None, old_node(cniBinaryTargetPath \<mapsto> ''v2''))"
proof -
  have n: "cniBinarySourcePath \<noteq> cniBinaryTargetPath @ ''.tmp''" "cniBinarySourcePath \<noteq> cniBinaryTargetPath"
    by (simp_all add: cniBinarySourcePath_def cniBinaryTargetPath_def)
  show ?thesis using n
    by (simp add: copyFile_def mem_files_def tmp_name_def Let_def seq_def cp_def closing_def errors_Wrap_def)
       (simp add: fun_eq_iff)
qed

theorem copyFile_atomic_witness:
  "\<exists>w1. w1 cniBinaryTargetPath = Some ''v1'' \<and> w1 (cniBinaryTargetPath @ ''.tmp'') = Some ''v2''"
proof -
  have "cniBinarySourcePath \<noteq> cniBinaryTargetPath @ ''.tmp''"
    by (simp add: cniBinarySourcePath_def cniBinaryTargetPath_def)
  from copyFile_atomic [where content = "\<lambda>w. w", OF file_system_mem this mem_copyFile [of None]] show ?thesis by auto
qed

lemma mem_run: "init_run (mem_files (Some ''true'')) old_node = (None, old_node(cniBinaryTargetPath \<mapsto> ''v2''))"
proof -
  have c: "checksame (mem_files (Some ''true'')) cniBinarySourcePath cniBinaryTargetPath old_node = (Inr False, old_node)"
  proof -
    have "TrimSpace ''v2'' \<noteq> TrimSpace ''v1''" by code_simp
    then show ?thesis by (simp add: checksame_def mem_files_def)
  qed
  have m: "cniInitModeFromEnv (mem_files (Some ''true'')) = Inr True"
  proof -
    have "ToLower (TrimSpace ''true'') = ''true''" by code_simp
    then show ?thesis by (simp add: cniInitModeFromEnv_def mem_files_def)
  qed
  show ?thesis by (simp add: init_run_def c m copyCNIBinary_def mem_copyFile)
qed

lemma init_run_replaces_witness:
  "snd (init_run (mem_files (Some ''true'')) old_node) cniBinaryTargetPath = old_node cniBinarySourcePath"
proof -
  have "(old_node(cniBinaryTargetPath \<mapsto> ''v2'')) cniBinaryTargetPath \<noteq> old_node cniBinaryTargetPath" by simp
  from init_run_replaces [where content = "\<lambda>w. w", OF file_system_mem mem_run this] show ?thesis by (simp add: mem_run)
qed

end
