(* ===== verification/Device_Plugin.thy ===== *)
theory Device_Plugin
  imports Rpc_Types
begin

text \<open>
  \<open>pkg/deviceplugin/deviceplugin.go\<close>: the device plugin that tells the kubelet how many network interfaces
  a node can hold. Its state is whether it has a server and its \<open>stop\<close> channel. Closing a channel that is \<open>nil\<close> or closed
  panics, so a function that closes it returns an option, \<open>None\<close> being the panic. Sockets, files
  and the kubelet are the outside world, the record \<open>plugin_host\<close>.
\<close>

section \<open>State and outside world\<close>

datatype stop_chan = ChanNil | ChanOpen | ChanClosed

record UNIDevicePlugin =
  dp_socket :: string
  dp_server :: bool \<comment> \<open>the server is not \<open>nil\<close>\<close>
  dp_count :: int
  dp_stop :: stop_chan

record RegisterRequest =
  rr_Endpoint :: string
  rr_ResourceName :: string

record 'w plugin_host =
  DevicePluginPath :: string
  ReadPluginDir :: "'w \<Rightarrow> (string \<times> bool) list result \<times> 'w" \<comment> \<open>the names, and which are sockets\<close>
  UnlinkPlugin :: "string \<Rightarrow> 'w action"
  ListenUnix :: "string \<Rightarrow> 'w action"
  DialUnix :: "string \<Rightarrow> 'w action" \<comment> \<open>a blocking connection of at most five seconds\<close>
  RegisterKubelet :: "RegisterRequest \<Rightarrow> 'w action"
  StatSocket :: "string \<Rightarrow> 'w \<Rightarrow> gerror option"

definition close_chan :: "stop_chan \<Rightarrow> stop_chan option" where
  "close_chan c = (if c = ChanOpen then Some ChanClosed else None)"

definition ResourceName :: string where
  "ResourceName = ''ucloud.cn/uni''"

definition NewUNIDevicePlugin :: "'w plugin_host \<Rightarrow> int \<Rightarrow> int \<Rightarrow> UNIDevicePlugin" where
  "NewUNIDevicePlugin H now cnt =
     \<lparr>dp_socket = DevicePluginPath H @ Itoa now @ ''-uni.sock'', dp_server = False, dp_count = cnt, dp_stop = ChanNil\<rparr>"

text \<open>\<open>path.Base\<close> of a path with a name after its last slash.\<close>

definition base_name :: "string \<Rightarrow> string" where
  "base_name p = List.last (Split p (CHR ''/''))"

section \<open>Start and stop\<close>

text \<open>The expression \<open>^.*-uni.sock\<close>: a dot matches anything but a newline.\<close>

definition sock_at :: "string \<Rightarrow> bool" where
  "sock_at s \<longleftrightarrow> take 4 s = ''-uni'' \<and> 9 \<le> length s \<and> s ! 4 \<noteq> CHR 10 \<and> take 4 (drop 5 s) = ''sock''"

fun uniServerSockRegex :: "string \<Rightarrow> bool" where
  "uniServerSockRegex [] = False"
| "uniServerSockRegex (c # cs) = (sock_at (c # cs) \<or> (c \<noteq> CHR 10 \<and> uniServerSockRegex cs))"

fun unlink_all :: "'w plugin_host \<Rightarrow> (string \<times> bool) list \<Rightarrow> 'w \<Rightarrow> 'w" where
  "unlink_all H [] w = w"
| "unlink_all H ((n, isSock) # fs) w =
     (if uniServerSockRegex n \<and> isSock then unlink_all H fs (ignore (UnlinkPlugin H (DevicePluginPath H @ n)) w)
      else unlink_all H fs w)"

definition cleanup :: "'w plugin_host \<Rightarrow> 'w action" where
  "cleanup H w =
     (case ReadPluginDir H w of
        (Inl e, w1) \<Rightarrow> (Some e, w1)
      | (Inr preSocks, w1) \<Rightarrow> (None, unlink_all H preSocks w1))"

definition start_server :: "'w plugin_host \<Rightarrow> UNIDevicePlugin \<Rightarrow> 'w \<Rightarrow> gerror option \<times> UNIDevicePlugin \<times> 'w" where
  "start_server H m w =
     (case cleanup H w of
        (Some e, w1) \<Rightarrow> (Some e, m, w1)
      | (None, w1) \<Rightarrow>
          (case ListenUnix H (dp_socket m) w1 of
             (Some e, w2) \<Rightarrow> (Some e, m, w2)
           | (None, w2) \<Rightarrow>
               (case DialUnix H (dp_socket m) w2 of
                  (r, w3) \<Rightarrow> (r, m\<lparr>dp_server := True, dp_stop := ChanOpen\<rparr>, w3))))"

definition Plugin_Start :: "'w plugin_host \<Rightarrow> UNIDevicePlugin \<Rightarrow> 'w \<Rightarrow> (gerror option \<times> UNIDevicePlugin \<times> 'w) option" where
  "Plugin_Start H m w =
     (if dp_server m then
        (case close_chan (dp_stop m) of
           None \<Rightarrow> None
         | Some c \<Rightarrow> Some (start_server H (m\<lparr>dp_stop := c\<rparr>) w))
      else Some (start_server H m w))"

definition Plugin_Stop :: "'w plugin_host \<Rightarrow> UNIDevicePlugin \<Rightarrow> 'w \<Rightarrow> (gerror option \<times> UNIDevicePlugin \<times> 'w) option" where
  "Plugin_Stop H m w =
     (if \<not> dp_server m then Some (None, m, w)
      else case close_chan (dp_stop m) of
        None \<Rightarrow> None
      | Some c \<Rightarrow> (case cleanup H w of (r, w1) \<Rightarrow> Some (r, m\<lparr>dp_server := False, dp_stop := c\<rparr>, w1)))"

definition Plugin_Register :: "'w plugin_host \<Rightarrow> RegisterRequest \<Rightarrow> 'w action" where
  "Plugin_Register H request w = RegisterKubelet H request w"

section \<open>Serving\<close>

text \<open>
  One round of \<open>watchKubeletRestart\<close>, which runs every thirty seconds. \<open>ulog.Fatalf\<close> ends the process, the
  error \<open>Exit\<close>.
\<close>

definition watchKubeletRestart :: "'w plugin_host \<Rightarrow> UNIDevicePlugin \<Rightarrow> 'w \<Rightarrow> (gerror option \<times> UNIDevicePlugin \<times> 'w) option" where
  "watchKubeletRestart H m w =
     (case StatSocket H (dp_socket m) w of
        None \<Rightarrow> Some (None, m, w)
      | Some e \<Rightarrow>
          if errors_Is e (Sys ENOENT) then
            (case Plugin_Stop H m w of
               None \<Rightarrow> None
             | Some (_, m1, w1) \<Rightarrow>
                 (case Plugin_Start H m1 w1 of
                    None \<Rightarrow> None
                  | Some (Some e, m2, w2) \<Rightarrow> Some (Some Exit, m2, w2)
                  | Some (None, m2, w2) \<Rightarrow>
                      (case Plugin_Register H \<lparr>rr_Endpoint = base_name (dp_socket m2), rr_ResourceName = ResourceName\<rparr> w2 of
                         (Some e, w3) \<Rightarrow> Some (Some Exit, m2, w3)
                       | (None, w3) \<Rightarrow> Some (None, m2, w3))))
          else Some (Some Exit, m, w))"

text \<open>\<open>Serve\<close>. When it returns no error the watching goes on in the background.\<close>

definition Plugin_Serve :: "'w plugin_host \<Rightarrow> string \<Rightarrow> UNIDevicePlugin \<Rightarrow> 'w \<Rightarrow> (gerror option \<times> UNIDevicePlugin \<times> 'w) option" where
  "Plugin_Serve H resourceName m w =
     (case Plugin_Start H m w of
        None \<Rightarrow> None
      | Some (Some e, m1, w1) \<Rightarrow> Some (Some e, m1, w1)
      | Some (None, m1, w1) \<Rightarrow>
          (case Plugin_Register H \<lparr>rr_Endpoint = base_name (dp_socket m1), rr_ResourceName = resourceName\<rparr> w1 of
             (None, w2) \<Rightarrow> Some (None, m1, w2)
           | (Some e, w2) \<Rightarrow>
               (case Plugin_Stop H m1 w2 of
                  None \<Rightarrow> None
                | Some (_, m2, w3) \<Rightarrow> Some (Some e, m2, w3))))"

section \<open>The calls of the kubelet\<close>

definition plugin_devices :: "int \<Rightarrow> string list" where
  "plugin_devices cnt = map (\<lambda>i. ''uni-'' @ Itoa (int i)) [0..<nat cnt]"

text \<open>
  What the loop of \<open>ListAndWatch\<close> wakes up for. It sends the devices once at the beginning and at every tick,
  whether sending fails or not, and returns when the plugin stops.
\<close>

datatype watch_event = Ticked | Stopped

fun watch_sends :: "string list \<Rightarrow> watch_event list \<Rightarrow> string list list" where
  "watch_sends devs [] = []"
| "watch_sends devs (Ticked # es) = devs # watch_sends devs es"
| "watch_sends devs (Stopped # es) = []"

definition ListAndWatch :: "UNIDevicePlugin \<Rightarrow> watch_event list \<Rightarrow> string list list" where
  "ListAndWatch m es = (let devs = plugin_devices (dp_count m) in devs # watch_sends devs es)"

text \<open>An empty answer for every container asked for.\<close>

definition Plugin_Allocate :: "'r list \<Rightarrow> unit list" where
  "Plugin_Allocate requests = map (\<lambda>_. ()) requests"

section \<open>The channel is closed once\<close>

text \<open>The invariant: a plugin with a server has an open channel.\<close>

definition plugin_ok :: "UNIDevicePlugin \<Rightarrow> bool" where
  "plugin_ok m \<longleftrightarrow> (dp_server m \<longrightarrow> dp_stop m = ChanOpen)"

lemma start_server_ok:
  assumes "\<not> dp_server m" and "start_server H m w = (r, m', w')"
  shows "plugin_ok m' \<and> dp_socket m' = dp_socket m \<and> dp_count m' = dp_count m \<and> (r = None \<longrightarrow> dp_server m')"
  using assms by (auto simp: start_server_def plugin_ok_def split: prod.splits option.splits)

lemma Plugin_Stop_ok:
  assumes "plugin_ok m"
  shows "\<exists>r m' w'. Plugin_Stop H m w = Some (r, m', w') \<and> \<not> dp_server m' \<and> dp_socket m' = dp_socket m \<and> dp_count m' = dp_count m"
  using assms by (auto simp: Plugin_Stop_def plugin_ok_def close_chan_def split: prod.splits)

lemma Plugin_Start_ok:
  assumes "\<not> dp_server m"
  shows "\<exists>r m' w'. Plugin_Start H m w = Some (r, m', w') \<and> plugin_ok m' \<and> dp_socket m' = dp_socket m \<and>
    dp_count m' = dp_count m \<and> (r = None \<longrightarrow> dp_server m')"
proof -
  obtain r m' w' where s: "start_server H m w = (r, m', w')" by (metis surj_pair)
  show ?thesis using start_server_ok [OF assms s] assms s by (simp add: Plugin_Start_def)
qed

lemma watchKubeletRestart_ok:
  assumes "plugin_ok m" and "dp_server m"
  shows "\<exists>r m' w'. watchKubeletRestart H m w = Some (r, m', w') \<and> plugin_ok m' \<and> dp_socket m' = dp_socket m \<and>
    dp_count m' = dp_count m \<and> (r = None \<longrightarrow> dp_server m')"
proof (cases "\<exists>e. StatSocket H (dp_socket m) w = Some e \<and> errors_Is e (Sys ENOENT)")
  case False
  then show ?thesis using assms by (cases "StatSocket H (dp_socket m) w") (auto simp: watchKubeletRestart_def)
next
  case True
  then obtain e where e: "StatSocket H (dp_socket m) w = Some e" "errors_Is e (Sys ENOENT)" by blast
  obtain r1 m1 w1 where stop: "Plugin_Stop H m w = Some (r1, m1, w1)" "\<not> dp_server m1"
    "dp_socket m1 = dp_socket m" "dp_count m1 = dp_count m"
    using Plugin_Stop_ok [OF assms(1), of H w] by blast
  obtain r2 m2 w2 where start: "Plugin_Start H m1 w1 = Some (r2, m2, w2)" "plugin_ok m2"
    "dp_socket m2 = dp_socket m1" "dp_count m2 = dp_count m1" "r2 = None \<longrightarrow> dp_server m2"
    using Plugin_Start_ok [OF stop(2), of H w1] by blast
  obtain r3 w3 where reg: "Plugin_Register H \<lparr>rr_Endpoint = base_name (dp_socket m2), rr_ResourceName = ResourceName\<rparr> w2 = (r3, w3)"
    by fastforce
  show ?thesis
    using e stop start reg by (cases r2; cases r3) (simp_all add: watchKubeletRestart_def)
qed

text \<open>A running plugin: rounds of the watch that do not end the process, and changes outside.\<close>

inductive plugin_step :: "'w plugin_host \<Rightarrow> UNIDevicePlugin \<times> 'w \<Rightarrow> UNIDevicePlugin \<times> 'w \<Rightarrow> bool" for H where
  ps_watch: "watchKubeletRestart H m w = Some (None, m', w') \<Longrightarrow> plugin_step H (m, w) (m', w')"
| ps_world: "plugin_step H (m, w) (m, w')"

inductive_cases plugin_stepE: "plugin_step H s s'"

lemma plugin_run_ok:
  assumes "(plugin_step H)\<^sup>*\<^sup>* s s'" and "plugin_ok (fst s) \<and> dp_server (fst s)"
  shows "plugin_ok (fst s') \<and> dp_server (fst s') \<and> dp_socket (fst s') = dp_socket (fst s) \<and> dp_count (fst s') = dp_count (fst s)"
  using assms(1)
proof (induction rule: rtranclp_induct)
  case base
  then show ?case using assms(2) by simp
next
  case (step y z)
  from step.hyps(2) show ?case
  proof (cases rule: plugin_step.cases)
    case (ps_watch m w m' w')
    then show ?thesis using watchKubeletRestart_ok [of m H w] step.IH by auto
  next
    case ps_world
    then show ?thesis using step.IH by simp
  qed
qed

text \<open>C11. A new plugin never panics: neither \<open>Serve\<close> nor any later round of the watch, whatever
  the files, the sockets and the kubelet do, closes a channel that is \<open>nil\<close> or closed. As long as it serves it has a
  server, an open channel, and the socket and the number of devices it was made with.\<close>

theorem plugin_never_panics:
  assumes "m0 = NewUNIDevicePlugin H now cnt"
  shows "\<exists>r m1 w1. Plugin_Serve H resource m0 w0 = Some (r, m1, w1) \<and>
    (r = None \<longrightarrow> (\<forall>m w. (plugin_step H)\<^sup>*\<^sup>* (m1, w1) (m, w) \<longrightarrow>
       dp_server m \<and> dp_stop m = ChanOpen \<and> dp_socket m = dp_socket m0 \<and> dp_count m = cnt \<and>
       watchKubeletRestart H m w \<noteq> None))"
proof -
  have m0: "\<not> dp_server m0" "dp_count m0 = cnt" using assms by (simp_all add: NewUNIDevicePlugin_def)
  obtain r1 m1 w1 where start: "Plugin_Start H m0 w0 = Some (r1, m1, w1)" "plugin_ok m1"
    "dp_socket m1 = dp_socket m0" "dp_count m1 = dp_count m0" "r1 = None \<longrightarrow> dp_server m1"
    using Plugin_Start_ok [OF m0(1), of H w0] by blast
  obtain r2 w2 where reg: "Plugin_Register H \<lparr>rr_Endpoint = base_name (dp_socket m1), rr_ResourceName = resource\<rparr> w1 = (r2, w2)"
    by fastforce
  obtain r3 m3 w3 where stop: "Plugin_Stop H m1 w2 = Some (r3, m3, w3)"
    using Plugin_Stop_ok [OF start(2), of H w2] by blast
  show ?thesis
  proof (cases "r1 = None \<and> r2 = None")
    case False
    then show ?thesis using start(1) reg stop by (cases r1; cases r2) (simp_all add: Plugin_Serve_def)
  next
    case True
    have run: "dp_server m \<and> dp_stop m = ChanOpen \<and> dp_socket m = dp_socket m0 \<and> dp_count m = cnt \<and>
        watchKubeletRestart H m w \<noteq> None" if s: "(plugin_step H)\<^sup>*\<^sup>* (m1, w2) (m, w)" for m w
    proof -
      have ok: "plugin_ok m \<and> dp_server m \<and> dp_socket m = dp_socket m1 \<and> dp_count m = dp_count m1"
        using plugin_run_ok [OF s] start True by simp
      then have "watchKubeletRestart H m w \<noteq> None" using watchKubeletRestart_ok [of m H w] by auto
      with ok show ?thesis using start(3,4) m0(2) by (simp add: plugin_ok_def)
    qed
    have "Plugin_Serve H resource m0 w0 = Some (None, m1, w2)"
      using start(1) reg True by (simp add: Plugin_Serve_def)
    with run show ?thesis by blast
  qed
qed

definition quiet_host :: "unit plugin_host" where
  "quiet_host = \<lparr>DevicePluginPath = ''/var/lib/kubelet/device-plugins/'', ReadPluginDir = (\<lambda>w. (Inr [], w)),
     UnlinkPlugin = (\<lambda>_ w. (None, w)), ListenUnix = (\<lambda>_ w. (None, w)), DialUnix = (\<lambda>_ w. (None, w)),
     RegisterKubelet = (\<lambda>_ w. (None, w)), StatSocket = (\<lambda>_ w. Some (Sys ENOENT))\<rparr>"

theorem plugin_never_panics_witness:
  "\<exists>r m1 w1. Plugin_Serve quiet_host ResourceName (NewUNIDevicePlugin quiet_host 7 2) () = Some (r, m1, w1) \<and>
    (r = None \<longrightarrow> (\<forall>m w. (plugin_step quiet_host)\<^sup>*\<^sup>* (m1, w1) (m, w) \<longrightarrow> dp_stop m = ChanOpen \<and> dp_count m = 2))"
  using plugin_never_panics [OF refl, of quiet_host ResourceName 7 2 "()"] by blast

text \<open>
  The case that the code guards with \<open>m.server != nil\<close> in \<open>Start\<close> would not be safe: when the cleaning up fails
  there, the channel stays closed and the next \<open>Start\<close> or \<open>Stop\<close> panics. No run above reaches it.
\<close>

lemma restart_without_stop_panics:
  assumes "dp_server m" and "dp_stop m = ChanOpen" and "ReadPluginDir H w = (Inl e, w1)"
  shows "\<exists>m1. Plugin_Start H m w = Some (Some e, m1, w1) \<and> Plugin_Start H m1 w1 = None \<and> Plugin_Stop H m1 w1 = None"
  using assms by (auto simp: Plugin_Start_def Plugin_Stop_def start_server_def cleanup_def close_chan_def)

section \<open>The devices and the sockets\<close>

text \<open>A round that restarts the server removes the sockets of earlier servers and no other file.\<close>

lemma unlink_all_files:
  assumes "\<And>n w. files (snd (UnlinkPlugin H (DevicePluginPath H @ n) w)) = files w - {n}"
  shows "files (unlink_all H fs w) = files w - {n. \<exists>b. (n, b) \<in> set fs \<and> b \<and> uniServerSockRegex n}"
proof (induction fs arbitrary: w)
  case Nil
  show ?case by simp
next
  case (Cons f fs)
  then show ?case by (cases f) (auto simp: ignore_def assms)
qed

lemma plugin_devices_distinct: "distinct (plugin_devices cnt)" "length (plugin_devices cnt) = nat cnt"
  by (auto simp: plugin_devices_def distinct_map inj_on_def dest: Itoa_inj)

lemma ListAndWatch_sends: "set (ListAndWatch m es) = {plugin_devices (dp_count m)}"
proof -
  have "set (watch_sends devs es) \<subseteq> {devs}" for devs
    by (induction devs es rule: watch_sends.induct) auto
  then show ?thesis by (auto simp: ListAndWatch_def Let_def)
qed

end
