(* ===== verification/Ipamd_Start.thy ===== *)
theory Ipamd_Start
  imports Kube_Client Device_Plugin Ipamd_Rpc_Inv Log_Tail
begin

text \<open>
  The start and the end of the daemon: \<open>svc.go\<close>, \<open>startDevicePlugin\<close> and the reconciliation loop of
  \<open>resource.go\<close>, \<open>uapiListUK8SCluster\<close> of \<open>uapi.go\<close>. What starts goroutines and opens sockets is
  here the sequence of calls with the values they build: the server record, the opened store and
  which of the optional parts run. A call of \<open>ulog.Fatalf\<close> ends the process, the error \<open>Exit\<close>.
\<close>

section \<open>The environment of the start\<close>

definition IpamdServiceSocket :: string where
  "IpamdServiceSocket = ''/run/cni-vpc-ipamd.sock''"

definition storageFile :: string where
  "storageFile = ''/opt/cni/networkbolt.db''"

definition httpListenAddress :: string where
  "httpListenAddress = ''0.0.0.0:7313''"

text \<open>\<open>se_base\<close> holds the libraries and the flags; the fields that the start computes are overwritten.\<close>

record ('cfg, 'd, 'w) start_env =
  se_base :: "('d, 'w) ipamServer"
  se_rest :: "('cfg, 'w) rest_lib"
  se_version :: string
  ServerVersion :: "'w \<Rightarrow> string result \<times> 'w"
  NetInterfaces :: "'w \<Rightarrow> iface list result"
  NetLinks :: "'w \<Rightarrow> netlink_view"
  OpenBolt :: "string \<Rightarrow> 'w \<Rightarrow> 'd result \<times> 'w"
  ListUK8SClusterV2 :: "client \<Rightarrow> string \<Rightarrow> 'w \<Rightarrow> string list result \<times> 'w" \<comment> \<open>the service networks of the clusters\<close>
  ParseCIDR :: "string \<Rightarrow> string result"
  PluginVersion :: "'w \<Rightarrow> string result \<times> 'w"
  StatPath :: "string \<Rightarrow> 'w \<Rightarrow> gerror option"
  RemovePath :: "string \<Rightarrow> 'w action"
  NetListen :: "string \<Rightarrow> string \<Rightarrow> 'w action"
  ServeGRPC :: "'w action" \<comment> \<open>until the first of the two listeners ends\<close>

text \<open>What \<open>initServer\<close> leaves: the server, the version of the cluster, the address of the node, the service network, the state.\<close>

record ('d, 'w) ipamd =
  id_server :: "('d, 'w) ipamServer"
  id_k8sVersion :: string
  id_nodeIP :: string
  id_svcCIDR :: "string option"
  id_state :: "('d, 'w) istate"

definition on_proc :: "('w \<Rightarrow> 'r \<times> 'w) \<Rightarrow> 'w proc \<Rightarrow> 'r \<times> 'w proc" where
  "on_proc f p = (case f (world p) of (r, w1) \<Rightarrow> (r, p\<lparr>world := w1\<rparr>))"

definition on_kube :: "(('cfg, 'w) kproc \<Rightarrow> 'r \<times> ('cfg, 'w) kproc) \<Rightarrow> ('cfg, 'w) kproc \<Rightarrow> 'w proc \<Rightarrow>
    'r \<times> ('cfg, 'w) kproc \<times> 'w proc" where
  "on_kube f k p = (case f (k\<lparr>kworld := world p\<rparr>) of (r, k1) \<Rightarrow> (r, k1, p\<lparr>world := kworld k1\<rparr>))"

section \<open>initServer\<close>

definition uapiListUK8SCluster :: "('cfg, 'd, 'w) start_env \<Rightarrow> ('d, 'w) ipamServer \<Rightarrow> 'w \<Rightarrow> string result \<times> 'w" where
  "uapiListUK8SCluster env s w =
     (case service_client (cloud s) (uapi s) w of
        (Inl e, w1) \<Rightarrow> (Inl e, w1)
      | (Inr cli, w1) \<Rightarrow>
          let clusterId = Getenv (cloud s) ''UCLOUD_UK8S_CLUSTER_ID'' in
          if clusterId = [] then (Inl (Errors_New ''cannot get cluster id by environment var UCLOUD_REGION_ID''), w1)
          else (case ListUK8SClusterV2 env cli clusterId w1 of
             (Inl e, w2) \<Rightarrow> (Inl e, w2)
           | (Inr [], w2) \<Rightarrow> (Inl (Errors_New ''UK8S ClusterSet is empty''), w2)
           | (Inr (cidr # _), w2) \<Rightarrow> (Inr cidr, w2)))"

definition service_network :: "('cfg, 'd, 'w) start_env \<Rightarrow> ('d, 'w) ipamServer \<Rightarrow> 'w \<Rightarrow> string option \<times> 'w" where
  "service_network env s w =
     (case uapiListUK8SCluster env s w of
        (Inl e, w1) \<Rightarrow> (None, w1)
      | (Inr cidr, w1) \<Rightarrow> (case ParseCIDR env cidr of Inl e \<Rightarrow> (None, w1) | Inr net \<Rightarrow> (Some net, w1)))"

text \<open>The address and the hardware address of the master interface, each looked up by itself.\<close>

definition master_dev :: "('cfg, 'd, 'w) start_env \<Rightarrow> 'w proc \<Rightarrow> string result \<times> 'w proc" where
  "master_dev env p =
     (case NetInterfaces env (world p) of
        Inl e \<Rightarrow> (Inr UHostMasterInterface, p)
      | Inr ls \<Rightarrow>
          (case GetMeta (cloud (se_base env)) p of
             (mr, p1) \<Rightarrow> (case GetMasterInterface (Inr ls) mr of None \<Rightarrow> (Inl Panic, p1) | Some n \<Rightarrow> (Inr n, p1))))"

definition node_addresses :: "('cfg, 'd, 'w) start_env \<Rightarrow> 'w proc \<Rightarrow> (string \<times> string) result \<times> 'w proc" where
  "node_addresses env p =
     (case master_dev env p of
        (Inl e, p1) \<Rightarrow> (Inl e, p1)
      | (Inr dev, p1) \<Rightarrow>
          (case GetNodeIPAddress (NetLinks env (world p1)) dev [] of
             Inl e \<Rightarrow> (Inl Exit, p1)
           | Inr ip \<Rightarrow>
               (case master_dev env p1 of
                  (Inl e, p2) \<Rightarrow> (Inl e, p2)
                | (Inr dev, p2) \<Rightarrow>
                    (case GetNodeMacAddress (NetLinks env (world p2)) dev [] of
                       Inl e \<Rightarrow> (Inl Exit, p2)
                     | Inr mac \<Rightarrow> (Inr (ip, mac), p2)))))"

text \<open>The store: the file, the bucket of the records and the bucket of the cooling addresses.\<close>

definition open_store :: "('cfg, 'd, 'w) start_env \<Rightarrow> 'w \<Rightarrow> 'd result \<times> 'w" where
  "open_store env w =
     (case OpenBolt env storageFile w of
        (Inl e, w1) \<Rightarrow> (Inl Exit, w1)
      | (Inr d, w1) \<Rightarrow>
          (case NewBolt (bolt (se_base env)) NetworkDBName d of
             (Inl e, d1) \<Rightarrow> (Inl Exit, w1)
           | (Inr _, d1) \<Rightarrow>
               (case NewBolt (bolt (se_base env)) CooldownDBName d1 of
                  (Inl e, d2) \<Rightarrow> (Inl Exit, w1)
                | (Inr _, d2) \<Rightarrow> (Inr d2, w1))))"

definition initServer :: "('cfg, 'd, 'w) start_env \<Rightarrow> ('d, 'w) ipamServer \<Rightarrow> 'w proc \<Rightarrow> ('d, 'w) ipamd result \<times> 'w proc" where
  "initServer env s p =
     (case on_proc (ServerVersion env) p of
        (Inl e, p1) \<Rightarrow> (Inl Exit, p1)
      | (Inr version, p1) \<Rightarrow>
     (case on_proc (init_host s) p1 of
        (None, p2) \<Rightarrow> (Inl Exit, p2)
      | (Some (host, zone), p2) \<Rightarrow>
     (case node_addresses env p2 of
        (Inl e, p3) \<Rightarrow> (Inl e, p3)
      | (Inr (ip, mac), p3) \<Rightarrow>
     (case on_proc (open_store env) p3 of
        (Inl e, p4) \<Rightarrow> (Inl e, p4)
      | (Inr d, p4) \<Rightarrow>
          let s1 = s\<lparr>hostId := host, zoneId := zone, masterMacAddress := mac,
                     tcpAddr := listen_addr (Getenv (cloud s) ''LISTEN_TCP_ADDR'') ip\<rparr> in
     (case on_proc (service_network env s1) p4 of
        (cidr, p5) \<Rightarrow>
          (Inr \<lparr>id_server = s1, id_k8sVersion = version, id_nodeIP = ip, id_svcCIDR = cidr,
                id_state = \<lparr>dbHandler = d, poolDB = [], outside = world p5\<rparr>\<rparr>, p5))))))"

section \<open>Start\<close>

text \<open>One more than the number of entries of the old pool, if there is one: enough for the migration.\<close>

definition migration_fuel :: "('d, 'w) ipamServer \<Rightarrow> 'd \<Rightarrow> nat" where
  "migration_fuel s d = Suc (case Bolt_Count (bolt s) PoolDBName (snd (NewBolt (bolt s) PoolDBName d)) of Inl e \<Rightarrow> 0 | Inr n \<Rightarrow> n)"

text \<open>\<open>None\<close> would be a migration that does not end.\<close>

definition migrate_start :: "('d, 'w) ipamd \<Rightarrow> ('d, 'w) ipamd result option" where
  "migrate_start i =
     (case migrateV1BoltDB (id_server i) (migration_fuel (id_server i) (dbHandler (id_state i))) (id_state i) of
        (None, st1) \<Rightarrow> None
      | (Some (Some e), st1) \<Rightarrow> Some (Inl (Errorf ''failed to migrate v1 bolt db: %v'' (Some e)))
      | (Some None, st1) \<Rightarrow> Some (Inr (i\<lparr>id_state := st1\<rparr>)))"

definition pathExist :: "('cfg, 'd, 'w) start_env \<Rightarrow> string \<Rightarrow> 'w \<Rightarrow> bool" where
  "pathExist env f w = (case StatPath env f w of None \<Rightarrow> True | Some e \<Rightarrow> errors_Is e (Sys EEXIST))"

text \<open>
  The sockets, after the ability of the instance is known: whether the device plugin runs, and whether the endpoints for the
  version and the log do.
\<close>

definition open_sockets :: "('cfg, 'd, 'w) start_env \<Rightarrow> ('d, 'w) ipamServer \<Rightarrow> 'w proc \<Rightarrow> (bool \<times> bool) result \<times> 'w proc" where
  "open_sockets env s p =
     (let p1 = (if pathExist env IpamdServiceSocket (world p)
                then p\<lparr>world := ignore (RemovePath env IpamdServiceSocket) (world p)\<rparr> else p) in
      case GetAbility (cloud s) (se_version env) p1 of
        (None, p2) \<Rightarrow> (Inl Panic, p2)
      | (Some (Inl e), p2) \<Rightarrow> (Inl Exit, p2)
      | (Some (Inr ability), p2) \<Rightarrow>
     (case on_proc (NetListen env ''unix'' IpamdServiceSocket) p2 of
        (Some e, p3) \<Rightarrow> (Inl Exit, p3)
      | (None, p3) \<Rightarrow>
     (case on_proc (NetListen env ''tcp'' (tcpAddr s)) p3 of
        (Some e, p4) \<Rightarrow> (Inl Exit, p4)
      | (None, p4) \<Rightarrow>
     (case on_proc (NetListen env ''tcp4'' httpListenAddress) p4 of
        (r, p5) \<Rightarrow> (Inr (ab_SupportUNI ability, r = None), p5)))))"

record ('d, 'w) running =
  rn_ipamd :: "('d, 'w) ipamd"
  rn_version :: "string result"
  rn_plugin :: bool
  rn_http :: bool

text \<open>\<open>Start\<close> up to the point where it serves.\<close>

definition Start_serving :: "('cfg, 'd, 'w) start_env \<Rightarrow> ('cfg, 'w) kproc \<Rightarrow> 'w proc \<Rightarrow>
    (('d, 'w) running result \<times> 'w proc) option" where
  "Start_serving env k p =
     (case on_kube (GetConfig (se_rest env)) k p of
        ((_, Some e), k1, p1) \<Rightarrow> Some (Inl e, p1)
      | ((None, None), k1, p1) \<Rightarrow> Some (Inl Panic, p1)
      | ((Some cfg, None), k1, p1) \<Rightarrow>
     (case NewForConfig (se_rest env) cfg of
        Inl e \<Rightarrow> Some (Inl e, p1)
      | Inr _ \<Rightarrow>
     (case on_kube (GetCRD (se_rest env)) k1 p1 of
        ((_, Some e), k2, p2) \<Rightarrow> Some (Inl e, p2)
      | ((_, None), k2, p2) \<Rightarrow>
     (case NewClient (cloud (se_base env)) (se_version env) p2 of
        (None, p3) \<Rightarrow> Some (Inl Panic, p3)
      | (Some (Inl e), p3) \<Rightarrow> Some (Inl (Errorf ''failed to init uapi client: %v'' (Some e)), p3)
      | (Some (Inr c), p3) \<Rightarrow>
     (case initServer env ((se_base env)\<lparr>uapi := c, nodeName := Getenv (cloud (se_base env)) ''KUBE_NODE_NAME''\<rparr>) p3 of
        (Inl e, p4) \<Rightarrow> Some (Inl e, p4)
      | (Inr i, p4) \<Rightarrow>
     (case on_proc (PluginVersion env) p4 of
        (out, p5) \<Rightarrow>
     (case migrate_start (i\<lparr>id_state := (id_state i)\<lparr>outside := world p5\<rparr>\<rparr>) of
        None \<Rightarrow> None
      | Some (Inl e) \<Rightarrow> Some (Inl e, p5)
      | Some (Inr i1) \<Rightarrow>
     (case open_sockets env (id_server i1) (p5\<lparr>world := outside (id_state i1)\<rparr>) of
        (Inl e, p6) \<Rightarrow> Some (Inl e, p6)
      | (Inr (plugin, http), p6) \<Rightarrow>
          Some (Inr \<lparr>rn_ipamd = i1\<lparr>id_state := (id_state i1)\<lparr>outside := world p6\<rparr>\<rparr>, rn_version = loadCNIVersion out,
                     rn_plugin = plugin, rn_http = http\<rparr>, p6)))))))))"

text \<open>The whole of it: it serves until a listener ends. \<open>errors.Wrap\<close> of \<open>nil\<close> is \<open>nil\<close>.\<close>

definition Start :: "('cfg, 'd, 'w) start_env \<Rightarrow> ('cfg, 'w) kproc \<Rightarrow> 'w proc \<Rightarrow> (gerror option \<times> 'w proc) option" where
  "Start env k p =
     (case Start_serving env k p of
        None \<Rightarrow> None
      | Some (Inl e, p1) \<Rightarrow> Some (Some e, p1)
      | Some (Inr _, p1) \<Rightarrow>
          (case on_proc (ServeGRPC env) p1 of
             (r, p2) \<Rightarrow> Some (errors_Wrap ''ipamd.Start server stopped'' (errors_Wrap ''ipamd.Start serve'' r), p2)))"

section \<open>resource.go: the device plugin and the reconciliation loop\<close>

definition startDevicePlugin :: "'w plugin_host \<Rightarrow> string result \<Rightarrow> int \<Rightarrow> int \<Rightarrow> 'w \<Rightarrow> (gerror option \<times> UNIDevicePlugin \<times> 'w) option" where
  "startDevicePlugin H cpu numCPU now w =
     (case Plugin_Serve H ResourceName (NewUNIDevicePlugin H now (int (GetNodeUNILimits cpu numCPU))) w of
        None \<Rightarrow> None
      | Some (Some e, m, w1) \<Rightarrow> Some (Some (Errorf ''failed to set deviceplugin on node, %v'' (Some e)), m, w1)
      | Some (None, m, w1) \<Rightarrow> Some (None, m, w1))"

fun reconcile :: "('d, 'w) ipamServer \<Rightarrow> nat \<Rightarrow> ('d, 'w) istate \<Rightarrow> ('d, 'w) istate" where
  "reconcile s 0 st = st"
| "reconcile s (Suc n) st = reconcile s n (doReconcile s st)"

section \<open>The end\<close>

text \<open>
  \<open>cleanUpOnTermination\<close>, from the signal on: the manager loop is told to stop, the HTTP server, the database and the gRPC server are
  closed in this order, and the process exits.
\<close>

record 'w stop_env =
  SendStopLoop :: "'w \<Rightarrow> 'w"
  ShutdownHTTP :: "'w action"
  CloseBolt :: "'w action"
  StopGRPC :: "'w \<Rightarrow> 'w"

definition cleanUpOnTermination :: "'w stop_env \<Rightarrow> 'w \<Rightarrow> gerror \<times> 'w" where
  "cleanUpOnTermination E w =
     (let w1 = SendStopLoop E w;
          w2 = ignore (ShutdownHTTP E) w1;
          w3 = ignore (CloseBolt E) w2
      in (Exit, StopGRPC E w3))"

end
