(* ===== verification/Ipamd_Start_Props.thy ===== *)
theory Ipamd_Start_Props
  imports Ipamd_Start Ipamd_Rpc_Props
begin

text \<open>
  A start that succeeds hands a well-formed store to the pool manager, whatever an earlier run of the daemon left
  in the file, the pool of the first version included.
\<close>

text \<open>
  What a run of the daemon leaves in its file: every bucket decodes, and every address lies in the pool of
  its subnet, \<open>sub\<close> being the default one, under its own key. Buckets may be missing.
\<close>

definition store_ok ::
  "('d \<Rightarrow> string \<Rightarrow> (string \<rightharpoonup> bytes) option) \<Rightarrow> ('d \<Rightarrow> bool) \<Rightarrow> string \<Rightarrow> 'd \<Rightarrow> bool" where
  "store_ok raw okf sub d \<longleftrightarrow> okf d \<and>
     (\<forall>b. is_pool b \<and> raw d b \<noteq> None \<longrightarrow> bolt_db.readable raw okf PodNetwork_codec b d \<and>
        (\<forall>k pn. bolt_db.contents raw PodNetwork_codec b d k = Some pn \<longrightarrow>
           b = PoolDBName @ ''-'' @ (if pn_SubnetID pn = [] then sub else pn_SubnetID pn) \<and> k = getReservedIPKey pn)) \<and>
     (raw d CooldownDBName \<noteq> None \<longrightarrow> bolt_db.readable raw okf CooldownItem_codec CooldownDBName d \<and>
        (\<forall>k cd. bolt_db.contents raw CooldownItem_codec CooldownDBName d k = Some cd \<longrightarrow> k = getReservedIPKey (cd_Network cd))) \<and>
     (raw d PoolDBName \<noteq> None \<longrightarrow> bolt_db.readable raw okf PodNetwork_codec PoolDBName d \<and>
        (\<forall>k pn. bolt_db.contents raw PodNetwork_codec PoolDBName d k = Some pn \<longrightarrow> k = getReservedIPKey pn))"

lemma fixed_no_pool [simp]: "\<not> is_pool NetworkDBName" "\<not> is_pool PoolDBName" "\<not> is_pool CooldownDBName"
  by (simp_all add: is_pool_def NetworkDBName_def PoolDBName_def CooldownDBName_def HasPrefix_def)

lemma fixed_distinct [simp]: "NetworkDBName \<noteq> CooldownDBName" "NetworkDBName \<noteq> PoolDBName" "PoolDBName \<noteq> CooldownDBName"
  "CooldownDBName \<noteq> PoolDBName"
  by (simp_all add: NetworkDBName_def PoolDBName_def CooldownDBName_def)

lemma key_moved [simp]: "getReservedIPKey (moved s v) = getReservedIPKey v"
  by (simp add: getReservedIPKey_def moved_def)

lemma home_moved [simp]: "home s (moved s v) = poolName s []"
  by (simp add: home_def moved_def poolName_def)

context pool_db
begin

lemma ok_elsewhere:
  assumes "ipool_ok s raw wf st" and "wf (dbHandler st')" and "\<not> is_pool b" and "b \<noteq> CooldownDBName"
    and "\<forall>b'. b' \<noteq> b \<longrightarrow> raw (dbHandler st') b' = raw (dbHandler st) b'" and "poolDB st' = poolDB st"
  shows "ipool_ok s raw wf st'"
proof -
  note ok = assms(1) [unfolded ipool_ok_def]
  have cd: "raw (dbHandler st') CooldownDBName = raw (dbHandler st) CooldownDBName" using assms(4,5) by metis
  have pool: "raw (dbHandler st') b' = raw (dbHandler st) b'" if "is_pool b'" for b' using that assms(3,5) by metis
  have stock: "stock raw st' b' = stock raw st b'" if "is_pool b'" for b'
    unfolding stock_def by (rule contents_frame [OF pool [OF that]])
  have cool: "cooling raw st' = cooling raw st" unfolding cooling_def by (rule contents_frame [OF cd])
  have "readable PodNetwork_codec b' (dbHandler st')" if "is_pool b'" "raw (dbHandler st') b' \<noteq> None" for b'
    by (rule readable_frame [OF _ assms(2) pool [OF that(1)]]) (use ok that pool [OF that(1)] in metis)
  moreover have "readable CooldownItem_codec CooldownDBName (dbHandler st')"
    by (rule readable_frame [OF _ assms(2) cd]) (use ok in blast)
  moreover have "is_pool b' \<and> raw (dbHandler st') b' \<noteq> None" if "b' \<in> set (poolDB st')" for b'
    using that ok assms(6) pool by metis
  moreover have "b' = home s pn \<and> k = getReservedIPKey pn" if "is_pool b'" "stock raw st' b' k = Some pn" for b' k pn
    using ok that stock [OF that(1)] by metis
  moreover have "k = getReservedIPKey (cd_Network x)" if "cooling raw st' k = Some x" for k x
    using ok that cool by metis
  ultimately show ?thesis using assms(2) unfolding ipool_ok_def by blast
qed

text \<open>One round of the migration takes an address of the old pool to the pool of the default subnet.\<close>

lemma migrate_loop_ok:
  assumes "ipool_ok s raw wf st" and "readable PodNetwork_codec PoolDBName (dbHandler st)"
    and "\<forall>k v. contents PodNetwork_codec PoolDBName (dbHandler st) k = Some v \<longrightarrow> k = getReservedIPKey v"
    and "poolName s [] \<in> set (poolDB st)" and "migrate_loop s fuel (poolName s []) st = (r, st')"
  shows "ipool_ok s raw wf st'"
  using assms
proof (induction fuel arbitrary: st)
  case 0
  then show ?case by simp
next
  case (Suc fuel)
  let ?b = "poolName s []" and ?old = "\<lambda>st. contents PodNetwork_codec PoolDBName (dbHandler st)"
  obtain p st1 where p: "on_db (Bolt_Pop (bolt s) PodNetwork_codec PoolDBName) st = (p, st1)" by force
  note P = bolt_bucket.Bolt_Pop_spec [OF pn_bucket Suc.prems(2) on_dbE [OF p]]
  have rd1: "readable PodNetwork_codec PoolDBName (dbHandler st1)" using P by simp
  have fr1: "poolDB st1 = poolDB st" using on_db_frame [OF p] by simp
  have ok1: "ipool_ok s raw wf st1"
    by (rule ok_elsewhere [OF Suc.prems(1) readable_wf [OF rd1], of PoolDBName]) (use P fr1 in simp_all)
  show ?case
  proof (cases p)
    case (Inl e)
    then have "st' = st1" using Suc.prems(5) p by simp
    then show ?thesis using ok1 by simp
  next
    case (Inr kv)
    obtain key v where kv: "kv = (key, v)" by force
    have o1: "?old st key = Some v" "?old st1 = (?old st)(key := None)" using P Inr kv by auto
    have key: "key = getReservedIPKey (moved s v)" using Suc.prems(3) o1(1) by simp
    obtain q st2 where q: "on_db (Bolt_Put (bolt s) PodNetwork_codec ?b key (moved s v)) st1 = (q, st2)" by force
    have b1: "?b \<in> set (poolDB st1)" using Suc.prems(4) fr1 by simp
    have ok2: "ipool_ok s raw wf st2 \<and> poolDB st2 = poolDB st1"
      using put_spec [OF ok1 b1 home_moved [symmetric] q [unfolded key]] by simp
    have nb: "PoolDBName \<noteq> ?b" by (simp add: poolName_def)
    have rb1: "readable PodNetwork_codec ?b (dbHandler st1)" using ok1 b1 by (simp add: ipool_ok_def)
    note Q = bolt_bucket.Bolt_Put_spec [OF pn_bucket rb1 on_dbE [OF q]]
    have raw2: "raw (dbHandler st2) PoolDBName = raw (dbHandler st1) PoolDBName" using Q nb by blast
    have rd2: "readable PodNetwork_codec PoolDBName (dbHandler st2)"
      using readable_frame [OF rd1 _ raw2] ok2 by (simp add: ipool_ok_def)
    have o2: "?old st2 = ?old st1" by (rule contents_frame [OF raw2])
    show ?thesis
    proof (cases q)
      case (Some e)
      then have "st' = st2" using Suc.prems(5) p Inr kv q by (simp add: moved_def)
      then show ?thesis using ok2 by simp
    next
      case None
      have "migrate_loop s fuel ?b st2 = (r, st')"
        using Suc.prems(5) p Inr kv q None by (simp add: moved_def)
      moreover have "\<forall>k v. ?old st2 k = Some v \<longrightarrow> k = getReservedIPKey v"
        using Suc.prems(3) o1(2) o2 by simp
      ultimately show ?thesis using Suc.IH [of st2] ok2 rd2 b1 by simp
    qed
  qed
qed

lemma migrateV1BoltDB_ok:
  assumes ok: "ipool_ok s raw wf st"
    and old: "raw (dbHandler st) PoolDBName \<noteq> None \<Longrightarrow> readable PodNetwork_codec PoolDBName (dbHandler st) \<and>
      (\<forall>k v. contents PodNetwork_codec PoolDBName (dbHandler st) k = Some v \<longrightarrow> k = getReservedIPKey v)"
  shows "\<exists>r st'. migrateV1BoltDB s (migration_fuel s (dbHandler st)) st = (Some r, st') \<and> ipool_ok s raw wf st' \<and>
    (r = None \<longrightarrow> contents PodNetwork_codec PoolDBName (dbHandler st') = Map.empty)"
proof -
  let ?old = "\<lambda>st. contents PodNetwork_codec PoolDBName (dbHandler st)"
  have okd: "wf (dbHandler st)" using ok by (simp add: ipool_ok_def)
  obtain c d1 where c: "tx_CreateBucketIfNotExists (bolt s) PoolDBName (dbHandler st) = (c, d1)" by force
  let ?st1 = "st\<lparr>dbHandler := d1\<rparr>"
  note F = create_frame [OF okd c]
  have ok1: "ipool_ok s raw wf ?st1" by (rule ok_elsewhere [OF ok, of _ PoolDBName]) (use F in simp_all)
  show ?thesis
  proof (cases c)
    case (Some e)
    then show ?thesis using ok1 c by (simp add: migrateV1BoltDB_def on_db_def NewBolt_def)
  next
    case None
    have n0: "on_db (NewBolt (bolt s) PoolDBName) st = (Inr PoolDBName, ?st1)"
      and n1: "snd (NewBolt (bolt s) PoolDBName (dbHandler st)) = d1"
      using c None by (simp_all add: on_db_def NewBolt_def)
    have rd1: "readable PodNetwork_codec PoolDBName (dbHandler ?st1)"
      and k1: "\<forall>k v. ?old ?st1 k = Some v \<longrightarrow> k = getReservedIPKey v"
    proof (atomize (full), cases "raw (dbHandler st) PoolDBName")
      case none: None
      then have r: "raw d1 = (raw (dbHandler st))(PoolDBName := Some Map.empty)"
        using create_new [OF okd] c None by simp
      have "wf d1" using F by blast
      then show "readable PodNetwork_codec PoolDBName (dbHandler ?st1) \<and> (\<forall>k v. ?old ?st1 k = Some v \<longrightarrow> k = getReservedIPKey v)"
        using r by (simp add: readable_def contents_def)
    next
      case (Some m)
      then have r: "raw d1 PoolDBName = raw (dbHandler st) PoolDBName" using F by simp
      show "readable PodNetwork_codec PoolDBName (dbHandler ?st1) \<and> (\<forall>k v. ?old ?st1 k = Some v \<longrightarrow> k = getReservedIPKey v)"
        using old Some readable_frame [OF _ _ r, of PodNetwork_codec] F contents_frame [OF r, of PodNetwork_codec] by simp
    qed
    show ?thesis
    proof (cases "Bolt_Count (bolt s) PoolDBName d1")
      case (Inl e)
      then show ?thesis using n0 ok1 by (simp add: migrateV1BoltDB_def)
    next
      case (Inr cnt)
      have cnt: "cnt = card (dom (?old ?st1))"
        using bolt_bucket.Bolt_Count_view [OF pn_bucket rd1] Inr by simp
      have fuel: "migration_fuel s (dbHandler st) = Suc cnt" by (simp add: migration_fuel_def n1 Inr)
      show ?thesis
      proof (cases "cnt = 0")
        case True
        then have "?old ?st1 = Map.empty" using cnt contents_finite [OF rd1] by simp
        then show ?thesis using True n0 Inr ok1 by (simp add: migrateV1BoltDB_def)
      next
        case False
        obtain g st2 where g: "getPool s [] True ?st1 = (g, st2)" by force
        note G = getPool_spec [OF ok1 g]
        show ?thesis
        proof (cases g)
          case (Inl e)
          then show ?thesis using n0 Inr False g G by (simp add: migrateV1BoltDB_def)
        next
          case pool: (Inr pool)
          have nb: "poolName s [] \<noteq> PoolDBName" by (simp add: poolName_def)
          have fr: "wf (dbHandler st2)" "raw (dbHandler st2) PoolDBName = raw (dbHandler ?st1) PoolDBName"
            using getPool_frame [OF readable_wf [OF rd1] g] nb by simp_all
          have rd2: "readable PodNetwork_codec PoolDBName (dbHandler st2)" by (rule readable_frame [OF rd1 fr])
          have o2: "?old st2 = ?old ?st1" by (rule contents_frame [OF fr(2)])
          have b2: "poolName s [] \<in> set (poolDB st2)" "pool = poolName s []" and ok2: "ipool_ok s raw wf st2"
            using G pool by auto
          have rb2: "readable PodNetwork_codec (poolName s []) (dbHandler st2)" using ok2 b2(1) by (simp add: ipool_ok_def)
          have "card (dom (?old st2)) < Suc cnt" unfolding o2 cnt by simp
          from migrate_loop_spec [OF rd2 rb2 nb this] obtain r st' where
            l: "migrate_loop s (Suc cnt) (poolName s []) st2 = (Some r, st')"
            and M: "migrated raw s (poolName s []) st2 r st'" by blast
          have "ipool_ok s raw wf st'"
            by (rule migrate_loop_ok [OF ok2 rd2 _ b2(1) l]) (use k1 o2 in simp)
          moreover have "r = None \<longrightarrow> ?old st' = Map.empty" using M by (simp add: migrated_def Let_def)
          moreover have "migrateV1BoltDB s (migration_fuel s (dbHandler st)) st = (Some r, st')"
            unfolding fuel using n0 Inr False g pool b2(2) l by (simp add: migrateV1BoltDB_def)
          ultimately show ?thesis by blast
        qed
      qed
    qed
  qed
qed



text \<open>The store as \<open>initServer\<close> opens it.\<close>

lemma opened_store_ok:
  assumes store: "store_ok raw wf (ac_subnetId (uapi s)) d0"
    and n1: "NewBolt (bolt s) NetworkDBName d0 = (Inr x, d1)" and n2: "NewBolt (bolt s) CooldownDBName d1 = (Inr y, d2)"
  shows "ipool_ok s raw wf \<lparr>dbHandler = d2, poolDB = [], outside = w\<rparr> \<and>
    (raw d2 PoolDBName \<noteq> None \<longrightarrow> readable PodNetwork_codec PoolDBName d2 \<and>
      (\<forall>k v. contents PodNetwork_codec PoolDBName d2 k = Some v \<longrightarrow> k = getReservedIPKey v))"
proof -
  note st = store [unfolded store_ok_def]
  have c1: "tx_CreateBucketIfNotExists (bolt s) NetworkDBName d0 = (None, d1)"
    and c2: "tx_CreateBucketIfNotExists (bolt s) CooldownDBName d1 = (None, d2)"
    using n1 n2 by (auto simp: NewBolt_def split: prod.splits option.splits)
  have w0: "wf d0" using st by blast
  note F1 = create_frame [OF w0 c1]
  note F2 = create_frame [OF conjunct1 [OF F1] c2]
  have w2: "wf d2" using F2 by blast
  have same: "raw d2 b = raw d0 b" if "is_pool b \<or> b = PoolDBName" for b
    using that F1 F2 fixed_no_pool fixed_distinct by metis
  have cd1: "raw d1 CooldownDBName = raw d0 CooldownDBName" using F1 fixed_distinct by metis
  have ct: "contents C b d2 = contents C b d0" if "is_pool b \<or> b = PoolDBName" for b and C :: "PodNetwork codec"
    by (rule contents_frame [OF same [OF that]])
  have rd: "readable PodNetwork_codec b d2" if "is_pool b \<or> b = PoolDBName" "raw d2 b \<noteq> None" for b
    by (rule readable_frame [OF _ w2 same [OF that(1)]]) (use st that same [OF that(1)] in metis)
  have cool: "readable CooldownItem_codec CooldownDBName d2 \<and>
      (\<forall>k cd. contents CooldownItem_codec CooldownDBName d2 k = Some cd \<longrightarrow> k = getReservedIPKey (cd_Network cd))"
  proof (cases "raw d0 CooldownDBName")
    case None
    then have "raw d2 CooldownDBName = Some Map.empty"
      using create_new [OF conjunct1 [OF F1] c2] cd1 by simp
    then show ?thesis using w2 by (simp add: readable_def contents_def)
  next
    case (Some m)
    then have r: "raw d2 CooldownDBName = raw d0 CooldownDBName" using F2 cd1 by simp
    have "readable CooldownItem_codec CooldownDBName d0" using st Some by blast
    from readable_frame [OF this w2 r] contents_frame [OF r, of CooldownItem_codec] st Some
    show ?thesis by simp
  qed
  have home: "b = home s pn \<and> k = getReservedIPKey pn" if "is_pool b" "contents PodNetwork_codec b d2 k = Some pn" for b k pn
  proof -
    have "contents PodNetwork_codec b d0 k = Some pn" using that ct by simp
    moreover from this have "raw d0 b \<noteq> None" by (auto simp: contents_def split: option.splits)
    ultimately show ?thesis using st that(1) unfolding home_def poolName_def by blast
  qed
  have ok: "ipool_ok s raw wf \<lparr>dbHandler = d2, poolDB = [], outside = w\<rparr>"
    using w2 rd cool home by (simp add: ipool_ok_def stock_def cooling_def)
  have old: "contents PodNetwork_codec PoolDBName d2 = contents PodNetwork_codec PoolDBName d0"
    "raw d2 PoolDBName = raw d0 PoolDBName" by (simp_all add: ct same)
  have "readable PodNetwork_codec PoolDBName d2 \<and>
      (\<forall>k v. contents PodNetwork_codec PoolDBName d2 k = Some v \<longrightarrow> k = getReservedIPKey v)" if "raw d2 PoolDBName \<noteq> None"
  proof -
    have "raw d0 PoolDBName \<noteq> None" using that old(2) by simp
    then have "\<forall>k v. contents PodNetwork_codec PoolDBName d0 k = Some v \<longrightarrow> k = getReservedIPKey v" using st by blast
    moreover have "readable PodNetwork_codec PoolDBName d2" by (rule rd) (use that in simp_all)
    ultimately show ?thesis unfolding old(1) by blast
  qed
  with ok show ?thesis by blast
qed

lemma migrate_start_ok:
  assumes "id_server i = s" and "id_state i = \<lparr>dbHandler = d2, poolDB = [], outside = w\<rparr>"
    and "store_ok raw wf (ac_subnetId (uapi s)) d0"
    and "NewBolt (bolt s) NetworkDBName d0 = (Inr x, d1)" and "NewBolt (bolt s) CooldownDBName d1 = (Inr y, d2)"
  shows "\<exists>r. migrate_start (i\<lparr>id_state := (id_state i)\<lparr>outside := w'\<rparr>\<rparr>) = Some r \<and>
    (\<forall>i1. r = Inr i1 \<longrightarrow> id_server i1 = s \<and> ipool_ok s raw wf (id_state i1) \<and>
      contents PodNetwork_codec PoolDBName (dbHandler (id_state i1)) = Map.empty)"
proof -
  let ?st = "\<lparr>dbHandler = d2, poolDB = [], outside = w'\<rparr>"
  note O = opened_store_ok [OF assms(3-5), of w']
  have "\<exists>r st'. migrateV1BoltDB s (migration_fuel s (dbHandler ?st)) ?st = (Some r, st') \<and> ipool_ok s raw wf st' \<and>
      (r = None \<longrightarrow> contents PodNetwork_codec PoolDBName (dbHandler st') = Map.empty)"
    by (rule migrateV1BoltDB_ok) (use O in simp_all)
  then obtain r st' where m: "migrateV1BoltDB s (migration_fuel s d2) ?st = (Some r, st')" "ipool_ok s raw wf st'"
    "r = None \<longrightarrow> contents PodNetwork_codec PoolDBName (dbHandler st') = Map.empty" by auto
  show ?thesis using m assms(1,2) by (cases r) (simp_all add: migrate_start_def)
qed

end

section \<open>The start as a whole\<close>

lemma open_store_opens:
  assumes "open_store env w = (Inr d2, w')"
  shows "\<exists>d0 x d1 y. OpenBolt env storageFile w = (Inr d0, w') \<and> NewBolt (bolt (se_base env)) NetworkDBName d0 = (Inr x, d1) \<and>
    NewBolt (bolt (se_base env)) CooldownDBName d1 = (Inr y, d2)"
  using assms by (auto simp: open_store_def split: prod.splits sum.splits)

lemma initServer_opens:
  assumes "initServer env s p = (Inr i, p')"
  shows "\<exists>w d w'. open_store env w = (Inr d, w') \<and> id_state i = \<lparr>dbHandler = d, poolDB = [], outside = world p'\<rparr> \<and>
    bolt (id_server i) = bolt s \<and> uapi (id_server i) = uapi s"
proof -
  obtain v p1 where v: "on_proc (ServerVersion env) p = (v, p1)" by fastforce
  obtain h p2 where h: "on_proc (init_host s) p1 = (h, p2)" by fastforce
  obtain a p3 where a: "node_addresses env p2 = (a, p3)" by fastforce
  obtain d p4 where d: "on_proc (open_store env) p3 = (d, p4)" by fastforce
  have "\<exists>w'. open_store env (world p3) = (d, w')" using d by (auto simp: on_proc_def split: prod.splits)
  moreover have "\<exists>d'. d = Inr d' \<and> id_state i = \<lparr>dbHandler = d', poolDB = [], outside = world p'\<rparr> \<and>
      bolt (id_server i) = bolt s \<and> uapi (id_server i) = uapi s"
    using assms v h a d by (auto simp: initServer_def Let_def split: sum.splits option.splits prod.splits)
  ultimately show ?thesis by blast
qed

text \<open>What a start does after the server has been set up.\<close>

lemma on_kube_meta: "on_kube f k p = (r, k', p') \<Longrightarrow> metaOnce p' = metaOnce p \<and> meta p' = meta p"
  by (auto simp: on_kube_def split: prod.splits)

lemma Start_serving_result:
  assumes "Start_serving env k p = r"
  shows "(\<exists>e p'. r = Some (Inl e, p')) \<or>
    (\<exists>q c q1 i q2 w. metaOnce q = metaOnce p \<and> NewClient (cloud (se_base env)) (se_version env) q = (Some (Inr c), q1) \<and>
      initServer env ((se_base env)\<lparr>uapi := c, nodeName := Getenv (cloud (se_base env)) ''KUBE_NODE_NAME''\<rparr>) q1 = (Inr i, q2) \<and>
      (case migrate_start (i\<lparr>id_state := (id_state i)\<lparr>outside := w\<rparr>\<rparr>) of
         None \<Rightarrow> r = None
       | Some (Inl e) \<Rightarrow> \<exists>p'. r = Some (Inl e, p')
       | Some (Inr i1) \<Rightarrow> (\<exists>e p'. r = Some (Inl e, p')) \<or>
           (\<exists>R p'. r = Some (Inr R, p') \<and> id_server (rn_ipamd R) = id_server i1 \<and>
              (\<exists>w'. id_state (rn_ipamd R) = (id_state i1)\<lparr>outside := w'\<rparr>))))"
proof -
  obtain c1 e1 k1 p1 where g: "on_kube (GetConfig (se_rest env)) k p = ((c1, e1), k1, p1)" by (metis surj_pair)
  show ?thesis
  proof (cases "e1 = None \<and> (\<exists>cfg cl. c1 = Some cfg \<and> NewForConfig (se_rest env) cfg = Inr cl)")
    case False
    then show ?thesis using assms g
      by (cases e1; cases c1) (auto simp: Start_serving_def split: sum.splits)
  next
    case True
    then obtain cfg cl where c1: "e1 = None" "c1 = Some cfg" "NewForConfig (se_rest env) cfg = Inr cl" by blast
    obtain c2 e2 k2 p2 where g2: "on_kube (GetCRD (se_rest env)) k1 p1 = ((c2, e2), k2, p2)" by (metis surj_pair)
    obtain n p3 where n: "NewClient (cloud (se_base env)) (se_version env) p2 = (n, p3)" by fastforce
    show ?thesis
    proof (cases "e2 = None \<and> (\<exists>c. n = Some (Inr c))")
      case False
      then show ?thesis using assms g c1 g2 n
        by (cases e2; cases n) (auto simp: Start_serving_def split: sum.splits)
    next
      case True
      then obtain c where n': "e2 = None" "n = Some (Inr c)" by blast
      let ?s = "(se_base env)\<lparr>uapi := c, nodeName := Getenv (cloud (se_base env)) ''KUBE_NODE_NAME''\<rparr>"
      obtain i' p4 where i: "initServer env ?s p3 = (i', p4)" by fastforce
      obtain out p5 where o: "on_proc (PluginVersion env) p4 = (out, p5)" by fastforce
      show ?thesis
      proof (cases i')
        case (Inl e)
        then have "r = Some (Inl e, p4)" using assms [symmetric] g c1 g2 n n' i by (simp add: Start_serving_def)
        then show ?thesis by blast
      next
        case (Inr i1)
        let ?m = "migrate_start (i1\<lparr>id_state := (id_state i1)\<lparr>outside := world p5\<rparr>\<rparr>)"
        have r: "r = (case ?m of None \<Rightarrow> None | Some (Inl e) \<Rightarrow> Some (Inl e, p5)
          | Some (Inr i2) \<Rightarrow>
             (case open_sockets env (id_server i2) (p5\<lparr>world := outside (id_state i2)\<rparr>) of
                (Inl e, p6) \<Rightarrow> Some (Inl e, p6)
              | (Inr (plugin, http), p6) \<Rightarrow>
                  Some (Inr \<lparr>rn_ipamd = i2\<lparr>id_state := (id_state i2)\<lparr>outside := world p6\<rparr>\<rparr>, rn_version = loadCNIVersion out,
                     rn_plugin = plugin, rn_http = http\<rparr>, p6)))"
          using assms [symmetric] g c1 g2 n n' i Inr o by (simp add: Start_serving_def)
        have "case ?m of None \<Rightarrow> r = None
         | Some (Inl e) \<Rightarrow> \<exists>p'. r = Some (Inl e, p')
         | Some (Inr i1) \<Rightarrow> (\<exists>e p'. r = Some (Inl e, p')) \<or>
             (\<exists>R p'. r = Some (Inr R, p') \<and> id_server (rn_ipamd R) = id_server i1 \<and>
                (\<exists>w'. id_state (rn_ipamd R) = (id_state i1)\<lparr>outside := w'\<rparr>))"
          using r by (auto split: option.splits sum.splits prod.splits)
        moreover have "metaOnce p2 = metaOnce p" using on_kube_meta [OF g] on_kube_meta [OF g2] by simp
        ultimately show ?thesis using n n'(2) i Inr by blast
      qed
    qed
  qed
qed

text \<open>The server that \<open>initServer\<close> leaves takes over the old pool, whatever happened to the world in between.\<close>

lemma initServer_migrates:
  assumes "bolt_db (bolt (se_base env)) raw okf"
    and meta: "\<not> metaOnce q" "\<forall>w m w'. GetInstanceIdentityDocument (cloud (se_base env)) w = (Inr m, w') \<longrightarrow>
      ac_subnetId (client_of_meta (Getenv (cloud (se_base env))) (se_version env) m) = sub"
    and stored: "\<forall>w d w'. OpenBolt env storageFile w = (Inr d, w') \<longrightarrow> store_ok raw okf sub d"
    and cl: "NewClient (cloud (se_base env)) (se_version env) q = (Some (Inr c), q1)"
    and init: "initServer env ((se_base env)\<lparr>uapi := c, nodeName := Getenv (cloud (se_base env)) ''KUBE_NODE_NAME''\<rparr>) q1 = (Inr i, q2)"
  shows "bolt (id_server i) = bolt (se_base env) \<and> (\<exists>m. migrate_start (i\<lparr>id_state := (id_state i)\<lparr>outside := w\<rparr>\<rparr>) = Some m \<and>
    (\<forall>i1. m = Inr i1 \<longrightarrow> id_server i1 = id_server i \<and> ipool_ok (id_server i) raw okf (id_state i1) \<and>
       bolt_db.contents raw PodNetwork_codec PoolDBName (dbHandler (id_state i1)) = Map.empty))"
proof -
  obtain w0 d w1 where i: "open_store env w0 = (Inr d, w1)" "id_state i = \<lparr>dbHandler = d, poolDB = [], outside = world q2\<rparr>"
    "bolt (id_server i) = bolt (se_base env)" "uapi (id_server i) = c"
    using initServer_opens [OF init] by auto
  obtain d0 x d1 y where o: "OpenBolt env storageFile w0 = (Inr d0, w1)"
    "NewBolt (bolt (id_server i)) NetworkDBName d0 = (Inr x, d1)" "NewBolt (bolt (id_server i)) CooldownDBName d1 = (Inr y, d)"
    using open_store_opens [OF i(1)] i(3) by auto
  have db: "pool_db (id_server i) raw okf" using assms(1) i(3) by (simp add: pool_db_def)
  have "ac_subnetId c = sub"
    using cl meta by (auto simp: NewClient_def GetMeta_def split: prod.splits sum.splits option.splits)
  then have "store_ok raw okf (ac_subnetId (uapi (id_server i))) d0" using stored [rule_format, OF o(1)] i(4) by simp
  from pool_db.migrate_start_ok [OF db refl i(2) this o(2,3), of w] show ?thesis using i(3) by blast
qed

lemma Start_serving_ready:
  assumes "bolt_db (bolt (se_base env)) raw okf"
    and "\<not> metaOnce p" and "\<forall>w m w'. GetInstanceIdentityDocument (cloud (se_base env)) w = (Inr m, w') \<longrightarrow>
      ac_subnetId (client_of_meta (Getenv (cloud (se_base env))) (se_version env) m) = sub"
    and "\<forall>w d w'. OpenBolt env storageFile w = (Inr d, w') \<longrightarrow> store_ok raw okf sub d"
  shows "(\<exists>e p'. Start_serving env k p = Some (Inl e, p')) \<or>
      (\<exists>R p'. Start_serving env k p = Some (Inr R, p') \<and> bolt (id_server (rn_ipamd R)) = bolt (se_base env) \<and>
        bolt_db.contents raw PodNetwork_codec PoolDBName (dbHandler (id_state (rn_ipamd R))) = Map.empty \<and>
        ipool_ok (id_server (rn_ipamd R)) raw okf (id_state (rn_ipamd R)))"
  using Start_serving_result [of env k p, OF refl]
proof (elim disjE exE conjE, goal_cases)
  case (1 e p')
  then show ?case by blast
next
  case (2 q c q1 i q2 w)
  have "\<not> metaOnce q" using 2(1) assms(2) by simp
  from initServer_migrates [where w = w, OF assms(1) this assms(3,4) 2(2,3)] obtain m where
    b: "bolt (id_server i) = bolt (se_base env)" and
    m: "migrate_start (i\<lparr>id_state := (id_state i)\<lparr>outside := w\<rparr>\<rparr>) = Some m"
    "\<forall>i1. m = Inr i1 \<longrightarrow> id_server i1 = id_server i \<and> ipool_ok (id_server i) raw okf (id_state i1) \<and>
      bolt_db.contents raw PodNetwork_codec PoolDBName (dbHandler (id_state i1)) = Map.empty" by blast
  have db: "pool_db (id_server i) raw okf" using assms(1) b by (simp add: pool_db_def)
  show ?case
  proof (cases m)
    case (Inl e)
    then show ?thesis using 2(4) m(1) by auto
  next
    case (Inr i1)
    note i1 = m(2) [rule_format, OF Inr]
    have "(\<exists>e p'. Start_serving env k p = Some (Inl e, p')) \<or>
         (\<exists>R p'. Start_serving env k p = Some (Inr R, p') \<and> id_server (rn_ipamd R) = id_server i1 \<and>
            (\<exists>w'. id_state (rn_ipamd R) = (id_state i1)\<lparr>outside := w'\<rparr>))"
      using 2(4) m(1) Inr by simp
    moreover have "ipool_ok (id_server i) raw okf ((id_state i1)\<lparr>outside := w'\<rparr>)" for w'
      using pool_db.ok_world [OF db] i1 by simp
    ultimately show ?thesis using i1 b by fastforce
  qed
qed

text \<open>C2. The start of the daemon comes to an end, and when it gets to serving it hands a
  well-formed store to the pool manager: whatever well-formed file an earlier run left, with or without a pool of the first version, the old
  pool has been emptied, the invariant of the pools holds, and it holds after every run of the manager from there on.
  The hypotheses: the database keeps its promises, the process has not read its metadata yet and these name \<open>sub\<close> as
  the default subnet, and the file is well-formed.\<close>

theorem Start_hands_over_good_store:
  assumes "bolt_db (bolt (se_base env)) raw okf"
    and "\<not> metaOnce p" and "\<And>w m w'. GetInstanceIdentityDocument (cloud (se_base env)) w = (Inr m, w') \<Longrightarrow>
      ac_subnetId (client_of_meta (Getenv (cloud (se_base env))) (se_version env) m) = sub"
    and "\<And>w d w'. OpenBolt env storageFile w = (Inr d, w') \<Longrightarrow> store_ok raw okf sub d"
    and "\<forall>(ords, ev) \<in> set evs. \<forall>ks. set (o_pools ords ks) \<subseteq> set ks"
  shows "Start_serving env k p \<noteq> None \<and>
    (\<forall>R p'. Start_serving env k p = Some (Inr R, p') \<longrightarrow>
       (let s = id_server (rn_ipamd R); st = id_state (rn_ipamd R) in
        bolt_db.contents raw PodNetwork_codec PoolDBName (dbHandler st) = Map.empty \<and>
        ipool_ok s raw okf (snd (ipPoolWatermarkManager s evs st))))"
proof -
  have "\<forall>w m w'. GetInstanceIdentityDocument (cloud (se_base env)) w = (Inr m, w') \<longrightarrow>
      ac_subnetId (client_of_meta (Getenv (cloud (se_base env))) (se_version env) m) = sub"
    and "\<forall>w d w'. OpenBolt env storageFile w = (Inr d, w') \<longrightarrow> store_ok raw okf sub d"
    using assms(3,4) by blast+
  from Start_serving_ready [where k = k, OF assms(1,2) this] show ?thesis
  proof (elim disjE exE conjE)
    fix R p' assume R: "Start_serving env k p = Some (Inr R, p')" and b: "bolt (id_server (rn_ipamd R)) = bolt (se_base env)"
      and h: "bolt_db.contents raw PodNetwork_codec PoolDBName (dbHandler (id_state (rn_ipamd R))) = Map.empty"
        "ipool_ok (id_server (rn_ipamd R)) raw okf (id_state (rn_ipamd R))"
    have db: "pool_db (id_server (rn_ipamd R)) raw okf" using assms(1) b by (simp add: pool_db_def)
    show ?thesis using R h pool_db.manager_run_ok [OF db _ assms(5)] by (simp add: Let_def)
  qed simp
qed


section \<open>Example\<close>

text \<open>A file of the first version with one address.\<close>

definition demo_old_file :: mem where
  "demo_old_file = [(PoolDBName, [demo_entry ''4'']), (CooldownDBName, [])]"

definition demo_md :: Metadata where
  "demo_md = \<lparr>md_InstanceId = ''upm-1'', md_Region = [], md_AvailabilityZone = [],
     md_UHost = \<lparr>mh_ProjectId = [], mh_NetworkInterfaces = [\<lparr>mi_Id = [], mi_Mac = [], mi_SubnetId = ''s'', mi_VpcId = ''v'',
       mi_Default = True\<rparr>]\<rparr>, md_UPHost = \<lparr>mh_ProjectId = [], mh_NetworkInterfaces = []\<rparr>\<rparr>"

definition demo_base :: "(mem, unit) ipamServer" where
  "demo_base = demo_server\<lparr>cloud := cloud_down\<lparr>GetInstanceIdentityDocument := (\<lambda>w. (Inr demo_md, w)),
       Getenv := (\<lambda>v. if v = ''LISTEN_TCP_ADDR'' then ''a'' else [])\<rparr>,
     kube := kube_down\<lparr>NodesGet := (\<lambda>_ w. (Inr (\<lambda>k. Some ''x''), w))\<rparr>\<rparr>"

definition demo_start :: "(unit, mem, unit) start_env" where
  "demo_start = \<lparr>se_base = demo_base,
     se_rest = \<lparr>InClusterConfig = (\<lambda>w. (Inr (), w)), NewForConfig = Inr, NewCrdForConfig = Inr,
       StatFile = (\<lambda>_ _. None), BuildConfigFromFlags = (\<lambda>_ _. Inr ())\<rparr>,
     se_version = ''v1'', ServerVersion = (\<lambda>w. (Inr ''v1.30'', w)), NetInterfaces = (\<lambda>w. Inr []),
     NetLinks = (\<lambda>w dev. Inr (''aa'', Inr [''10.0.0.2''])), OpenBolt = (\<lambda>f w. (Inr demo_old_file, w)),
     ListUK8SClusterV2 = (\<lambda>_ _ w. (Inl (Ext 0), w)), ParseCIDR = Inr, PluginVersion = (\<lambda>w. (Inl (Ext 0), w)),
     StatPath = (\<lambda>_ _. Some (Sys ENOENT)), RemovePath = (\<lambda>_ w. (None, w)), NetListen = (\<lambda>_ _ w. (None, w)),
     ServeGRPC = (\<lambda>w. (None, w))\<rparr>"

lemma demo_start_sel [simp]:
  "se_base demo_start = demo_base" "se_version demo_start = ''v1''" "ServerVersion demo_start w = (Inr ''v1.30'', w)"
  "NetInterfaces demo_start w = Inr []" "NetLinks demo_start w dev = Inr (''aa'', Inr [''10.0.0.2''])"
  "OpenBolt demo_start f w = (Inr demo_old_file, w)" "PluginVersion demo_start w = (Inl (Ext 0), w)"
  "StatPath demo_start f w = Some (Sys ENOENT)" "NetListen demo_start f f' w = (None, w)"
  "InClusterConfig (se_rest demo_start) w = (Inr (), w)" "NewForConfig (se_rest demo_start) = Inr" "NewCrdForConfig (se_rest demo_start) = Inr"
  by (simp_all add: demo_start_def)

lemma demo_base_sel [simp]:
  "bolt demo_base = bolt demo_server" "GetInstanceIdentityDocument (cloud demo_base) w = (Inr demo_md, w)"
  "Getenv (cloud demo_base) v = (if v = ''LISTEN_TCP_ADDR'' then ''a'' else [])" "NodesGet (kube demo_base) n w = (Inr (\<lambda>k. Some ''x''), w)"
  by (simp_all add: demo_base_def cloud_down_def)

definition demo_process :: "unit proc" where
  "demo_process = \<lparr>metaOnce = False, meta = None, world = ()\<rparr>"

lemma demo_file_ok: "store_ok mem_raw mem_wf ''s'' demo_old_file"
proof -
  have r: "mem_raw demo_old_file = [PoolDBName \<mapsto> map_of [demo_entry ''4''], CooldownDBName \<mapsto> Map.empty]"
    by (auto simp: mem_raw_def demo_old_file_def fun_eq_iff PoolDBName_def CooldownDBName_def)
  have wf: "mem_wf demo_old_file"
    by (auto simp: mem_wf_def ran_def demo_old_file_def demo_entry_def split: if_splits)
  have np: "mem_raw demo_old_file b = None" if "is_pool b" for b
    using that by (auto simp: r)
  have cd: "mem_raw demo_old_file CooldownDBName = Some Map.empty"
    and old: "mem_raw demo_old_file PoolDBName = Some (map_of [demo_entry ''4''])" by (simp_all add: r)
  have rd: "bolt_db.readable mem_raw mem_wf PodNetwork_codec PoolDBName demo_old_file"
    using wf by (auto simp: mem.readable_def old demo_entry_def decode_demo)
  have "k = getReservedIPKey pn" if "bolt_db.contents mem_raw PodNetwork_codec PoolDBName demo_old_file k = Some pn" for k pn
    using that by (auto simp: mem.contents_def old demo_entry_def decode_demo getReservedIPKey_def demo_pn_def split: if_splits)
  then show ?thesis using wf np cd rd by (auto simp: store_ok_def mem.readable_def mem.contents_def)
qed

definition demo_uapi :: ApiClient where
  "demo_uapi = \<lparr>ac_instanceId = ''upm-1'', ac_zoneId = [], ac_vpcId = ''v'', ac_subnetId = ''s'',
     ac_cfg = \<lparr>cf_Region = [], cf_ProjectId = [], cf_UserAgent = ''v1'', cf_Zone = [], cf_BaseUrl = uApiDefaultEndpoint\<rparr>\<rparr>"

definition demo_started :: "(mem, unit) ipamServer" where
  "demo_started = demo_base\<lparr>uapi := demo_uapi, nodeName := [], hostId := ''x'', zoneId := ''x'',
     masterMacAddress := ''AA'', tcpAddr := ''a''\<rparr>"

definition demo_d :: mem where
  "demo_d = snd (NewBolt (bolt demo_server) CooldownDBName (snd (NewBolt (bolt demo_server) NetworkDBName demo_old_file)))"

lemma demo_open_store: "open_store demo_start () = (Inr demo_d, ())"
proof -
  have "\<not> isl (fst (NewBolt (bolt demo_server) NetworkDBName demo_old_file))" by code_simp
  moreover have "\<not> isl (fst (NewBolt (bolt demo_server) CooldownDBName (snd (NewBolt (bolt demo_server) NetworkDBName demo_old_file))))"
    by code_simp
  ultimately show ?thesis
    by (auto simp: open_store_def demo_d_def split: prod.splits sum.splits)
qed

lemma migrate_loop_more:
  "fst (migrate_loop s fuel b st) \<noteq> None \<Longrightarrow> migrate_loop s (Suc fuel) b st = migrate_loop s fuel b st"
proof (induction fuel arbitrary: st)
  case 0
  then show ?case by simp
next
  case (Suc fuel)
  then show ?case by (subst migrate_loop.simps(2), subst (2) migrate_loop.simps(2))
      (auto simp del: migrate_loop.simps(2) simp: migrate_loop.simps(2) [of s fuel b st] split: prod.splits sum.splits option.splits)
qed

lemma migrateV1BoltDB_more:
  "fst (migrateV1BoltDB s fuel st) \<noteq> None \<Longrightarrow> migrateV1BoltDB s (Suc fuel) st = migrateV1BoltDB s fuel st"
  unfolding migrateV1BoltDB_def
  by (auto simp del: migrate_loop.simps simp: migrate_loop_more split: prod.splits sum.splits)

lemma demo_migrates:
  "fst (migrateV1BoltDB demo_started (migration_fuel demo_started demo_d) \<lparr>dbHandler = demo_d, poolDB = [], outside = ()\<rparr>) = Some None"
proof -
  let ?st = "\<lparr>dbHandler = demo_d, poolDB = [], outside = ()\<rparr> :: (mem, unit) istate"
  have "migration_fuel demo_server demo_d = 2" by code_simp
  then have f: "migration_fuel demo_started demo_d = 2" by (simp add: migration_fuel_def demo_started_def)
  have db: "pool_db demo_started mem_raw mem_wf" using demo_bolt by (simp add: pool_db_def demo_started_def)
  have o: "NewBolt (bolt demo_server) NetworkDBName demo_old_file = (Inr NetworkDBName, snd (NewBolt (bolt demo_server) NetworkDBName demo_old_file))"
    "NewBolt (bolt demo_server) CooldownDBName (snd (NewBolt (bolt demo_server) NetworkDBName demo_old_file)) = (Inr CooldownDBName, demo_d)"
  proof -
    have "fst (NewBolt (bolt demo_server) NetworkDBName demo_old_file) = Inr NetworkDBName" by code_simp
    then show "NewBolt (bolt demo_server) NetworkDBName demo_old_file = (Inr NetworkDBName, snd (NewBolt (bolt demo_server) NetworkDBName demo_old_file))"
      by (metis prod.collapse)
    have "fst (NewBolt (bolt demo_server) CooldownDBName (snd (NewBolt (bolt demo_server) NetworkDBName demo_old_file))) = Inr CooldownDBName"
      by code_simp
    then show "NewBolt (bolt demo_server) CooldownDBName (snd (NewBolt (bolt demo_server) NetworkDBName demo_old_file)) = (Inr CooldownDBName, demo_d)"
      unfolding demo_d_def by (metis prod.collapse)
  qed
  have b: "bolt demo_started = bolt demo_server" "ac_subnetId (uapi demo_started) = ''s''"
    by (simp_all add: demo_started_def demo_uapi_def)
  have "fst (migrateV1BoltDB demo_started (migration_fuel demo_started demo_d) ?st) \<noteq> None"
    using pool_db.migrateV1BoltDB_ok [OF db, of ?st]
      pool_db.opened_store_ok [OF db, of "demo_old_file", unfolded b, OF demo_file_ok o, of "()"] by auto
  then have "migrateV1BoltDB demo_started 3 ?st = migrateV1BoltDB demo_started 2 ?st"
    using migrateV1BoltDB_more [of demo_started 2 ?st] f by simp
  moreover have "fst (migrateV1BoltDB demo_started 3 ?st) = Some None" by code_simp
  ultimately show ?thesis by (simp add: f)
qed

lemma demo_addr: "ToUpper ''aa'' = ''AA''" "listen_addr ''a'' ip = ''a''"
  by code_simp (simp add: listen_addr_def)

lemma demo_start_serves: "\<exists>R p'. Start_serving demo_start (fresh_kproc ()) demo_process = Some (Inr R, p')"
proof -
  let ?s = "demo_base\<lparr>uapi := demo_uapi, nodeName := []\<rparr>"
  define p1 where "p1 = \<lparr>metaOnce = True, meta = Some demo_md, world = ()\<rparr>"
  define i where "i = \<lparr>id_server = demo_started, id_k8sVersion = ''v1.30'', id_nodeIP = ''10.0.0.2'', id_svcCIDR = None,
     id_state = \<lparr>dbHandler = demo_d, poolDB = [], outside = ()\<rparr>\<rparr>"
  have p1: "metaOnce p1" "meta p1 = Some demo_md" "p1\<lparr>world := w\<rparr> = p1" for w by (simp_all add: p1_def)
  have n: "NewClient (cloud demo_base) ''v1'' demo_process = (Some (Inr demo_uapi), p1)"
    by (simp add: NewClient_def GetMeta_def demo_process_def p1_def client_of_meta_def demo_uapi_def demo_md_def HasPrefix_def)
  have h: "init_host ?s w = (Some (''x'', ''x''), w)" for w
    by (simp add: init_host_def getKubeNodeLabel_def)
  have m: "master_dev demo_start p1 = (Inr ''eth0'', p1)"
    by (simp add: master_dev_def GetMeta_def p1 GetMasterInterface_def UHostMasterInterface_def demo_md_def)
  have a: "node_addresses demo_start p1 = (Inr (''10.0.0.2'', ''AA''), p1)"
    by (simp add: node_addresses_def m GetNodeIPAddress_def GetNodeMacAddress_def demo_addr)
  have c: "service_network demo_start s w = (None, w)" if "cloud s = cloud demo_base" for s w
  proof -
    have "LoadSTSConfigV2 (cloud demo_base) x w = (Inl (Ext 0), w)" for x by (simp add: demo_base_def cloud_down_def)
    then show ?thesis using that
      by (simp add: service_network_def uapiListUK8SCluster_def service_client_def CreateCredential_def Let_def)
  qed
  have i: "initServer demo_start ?s p1 = (Inr i, p1)"
    by (simp add: initServer_def on_proc_def h a demo_open_store c demo_addr demo_started_def Let_def p1 i_def)
  obtain st1 where mig: "migrateV1BoltDB demo_started (migration_fuel demo_started demo_d) \<lparr>dbHandler = demo_d, poolDB = [], outside = ()\<rparr> = (Some None, st1)"
    using demo_migrates by (metis prod.collapse)
  have ms: "migrate_start (i\<lparr>id_state := (id_state i)\<lparr>outside := w\<rparr>\<rparr>) = Some (Inr (i\<lparr>id_state := st1\<rparr>))" for w
    using mig by (simp add: migrate_start_def i_def)
  have o: "open_sockets demo_start demo_started p1 = (Inr (False, True), p1)"
    by (simp add: open_sockets_def pathExist_def on_proc_def GetAbility_def NewClient_def GetMeta_def p1 demo_started_def
        client_of_meta_def HasPrefix_def Let_def demo_md_def)
  have k: "demo_process\<lparr>world := w\<rparr> = demo_process" for w by simp
  have s: "id_server (i\<lparr>id_state := st1\<rparr>) = demo_started" by (simp add: i_def)
  show ?thesis using n i o
    by (simp add: Start_serving_def on_kube_def GetConfig_def GetCRD_def fresh_kproc_def on_proc_def k p1 ms s)
qed

theorem Start_hands_over_good_store_witness:
  "\<exists>R p'. Start_serving demo_start (fresh_kproc ()) demo_process = Some (Inr R, p') \<and>
    ipool_ok (id_server (rn_ipamd R)) mem_raw mem_wf
      (snd (ipPoolWatermarkManager (id_server (rn_ipamd R)) [(demo_orders, PoolTick), (demo_orders, StopLoop)] (id_state (rn_ipamd R))))"
proof -
  let ?evs = "[(demo_orders, PoolTick), (demo_orders, StopLoop)]"
  have b: "bolt_db (bolt (se_base demo_start)) mem_raw mem_wf" using demo_bolt by simp
  have m: "\<not> metaOnce demo_process" by (simp add: demo_process_def)
  have c: "ac_subnetId (client_of_meta (Getenv (cloud (se_base demo_start))) (se_version demo_start) md) = ''s''"
    if "GetInstanceIdentityDocument (cloud (se_base demo_start)) w = (Inr md, w')" for w md w'
    using that by (auto simp: client_of_meta_def Let_def demo_md_def)
  have f: "store_ok mem_raw mem_wf ''s'' d" if "OpenBolt demo_start storageFile w = (Inr d, w')" for w d w'
    using that demo_file_ok by simp
  have o: "\<forall>(ords, ev) \<in> set ?evs. \<forall>ks. set (o_pools ords ks) \<subseteq> set ks" by (simp add: demo_orders_def)
  from Start_hands_over_good_store [OF b m c f o, where k = "fresh_kproc ()"] demo_start_serves
  show ?thesis by (auto simp: Let_def)
qed

end
