(* ===== verification/Tools.thy ===== *)
theory Tools
  imports Log_Tail Uapi
begin

text \<open>
  The small programs and helpers: \<open>cmd/release-ip\<close>, \<open>pkg/snapshot\<close>, the HTTP endpoints of
  \<open>pkg/ipamd/version_server.go\<close>, the exit status of \<open>cmd/cnivpc-ipamd\<close> and of \<open>cmd/release-ip\<close>, and the
  signal handler of \<open>cmd/vip-controller\<close>.
\<close>

section \<open>release-ip\<close>

text \<open>The address of the node's master interface is the argument \<open>mac\<close>, the answer of \<open>GetNodeMacAddress\<close>.\<close>

definition releaseIp :: "'w cloud_api \<Rightarrow> string \<Rightarrow> string result \<Rightarrow> string \<Rightarrow> 'w proc \<Rightarrow> gerror option \<times> 'w proc" where
  "releaseIp K v mac ip p =
     (case mac of
        Inl e \<Rightarrow> (Some (Wrap ''failed to get mac addr: %w'' e), p)
      | Inr macAddr \<Rightarrow>
          (case NewClient K v p of
             (None, p1) \<Rightarrow> (Some Panic, p1)
           | (Some (Inl e), p1) \<Rightarrow> (Some (Wrap ''failed to init uapi client: %w'' e), p1)
           | (Some (Inr c), p1) \<Rightarrow>
               (case service_client K c (world p1) of
                  (Inl e, w2) \<Rightarrow> (Some (Wrap ''failed to init vpc client: %w'' e), p1\<lparr>world := w2\<rparr>)
                | (Inr cli, w2) \<Rightarrow>
                    (case DeleteSecondaryIp K cli \<lparr>dl_Zone = None, dl_Mac = macAddr, dl_Ip = ip, dl_ObjectId = None,
                            dl_VPCId = ac_vpcId c, dl_SubnetId = ac_subnetId c\<rparr> w2 of
                       ((_, err), w3) \<Rightarrow> (err, p1\<lparr>world := w3\<rparr>)))))"

text \<open>The exit status, given the arguments after the program's name.\<close>

definition release_ip_main :: "'w cloud_api \<Rightarrow> string \<Rightarrow> string result \<Rightarrow> string list \<Rightarrow> 'w proc \<Rightarrow> nat \<times> 'w proc" where
  "release_ip_main K v mac args p =
     (case args of
        [] \<Rightarrow> (1, p)
      | ip # _ \<Rightarrow> (case releaseIp K v mac ip p of (None, p1) \<Rightarrow> (0, p1) | (Some e, p1) \<Rightarrow> (1, p1)))"

text \<open>The program succeeds only after the VPC service deleted the address on the interface of the node.\<close>

lemma release_ip_main_deletes:
  assumes "release_ip_main K v mac args p = (0, p')"
  shows "\<exists>macAddr ip rest (c :: ApiClient) cli w code. mac = Inr macAddr \<and> args = ip # rest \<and>
    DeleteSecondaryIp K cli \<lparr>dl_Zone = None, dl_Mac = macAddr, dl_Ip = ip, dl_ObjectId = None,
      dl_VPCId = ac_vpcId c, dl_SubnetId = ac_subnetId c\<rparr> w = ((code, None), world p')"
proof -
  obtain ip rest where a: "args = ip # rest" and r: "releaseIp K v mac ip p = (None, p')"
    using assms by (auto simp: release_ip_main_def split: list.splits prod.splits option.splits)
  obtain m where m: "mac = Inr m" using r by (cases mac) (auto simp: releaseIp_def)
  obtain n p1 where n: "NewClient K v p = (n, p1)" by fastforce
  obtain cr where cr: "n = Some cr" using r m n by (cases n) (simp_all add: releaseIp_def)
  obtain c where c: "n = Some (Inr c)" using r m n cr by (cases cr) (simp_all add: releaseIp_def)
  obtain s w2 where s: "service_client K c (world p1) = (s, w2)" by fastforce
  obtain cli where cli: "s = Inr cli" using r m n c s by (cases s) (auto simp: releaseIp_def)
  obtain code err w3 where d: "DeleteSecondaryIp K cli \<lparr>dl_Zone = None, dl_Mac = m, dl_Ip = ip, dl_ObjectId = None,
      dl_VPCId = ac_vpcId c, dl_SubnetId = ac_subnetId c\<rparr> w2 = ((code, err), w3)" by (metis surj_pair)
  have e: "err = None" "w3 = world p'" using r m n c s cli d by (auto simp: releaseIp_def)
  show ?thesis by (intro exI conjI, rule m, rule a, rule d [unfolded e])
qed

section \<open>pkg/snapshot\<close>

record Snapshot =
  sn_name :: string
  sn_cmds :: "(string \<times> string list) list"
  sn_err :: "gerror option"
  sn_desc :: string

definition Snapshot_New :: "string \<Rightarrow> Snapshot" where
  "Snapshot_New name = \<lparr>sn_name = name, sn_cmds = [], sn_err = None, sn_desc = []\<rparr>"

definition Snapshot_Add :: "string \<Rightarrow> string list \<Rightarrow> Snapshot \<Rightarrow> Snapshot" where
  "Snapshot_Add name args s = s\<lparr>sn_cmds := sn_cmds s @ [(name, args)]\<rparr>"

definition Snapshot_SetError :: "gerror option \<Rightarrow> Snapshot \<Rightarrow> Snapshot" where
  "Snapshot_SetError err s = s\<lparr>sn_err := err\<rparr>"

definition Snapshot_SetDesc :: "string \<Rightarrow> Snapshot \<Rightarrow> Snapshot" where
  "Snapshot_SetDesc desc s = s\<lparr>sn_desc := desc\<rparr>"

text \<open>\<open>SnapRun\<close> runs a command and gives what it printed on both outputs; \<open>SnapAppend\<close> opens the file and appends.\<close>

record 'w snap_env =
  SnapStat :: "'w \<Rightarrow> bool result" \<comment> \<open>of the base directory: is it a directory\<close>
  SnapMkdirAll :: "'w action"
  SnapNow :: "'w \<Rightarrow> string \<times> 'w"
  SnapRun :: "string \<Rightarrow> string list \<Rightarrow> 'w \<Rightarrow> (string \<times> gerror option) \<times> 'w"
  SnapOpen :: "string \<Rightarrow> 'w action"
  SnapWrite :: "string \<Rightarrow> string \<Rightarrow> 'w action"
  error_text :: "gerror \<Rightarrow> string"
  snap_version :: string

definition snapshot_baseDir :: string where
  "snapshot_baseDir = ''/opt/cni/snapshot''"

definition add_line :: "string \<Rightarrow> string" where
  "add_line l = l @ [CHR 0x0A]"

definition snapshot_header :: "'w snap_env \<Rightarrow> Snapshot \<Rightarrow> string \<Rightarrow> string" where
  "snapshot_header E s now =
     add_line (''UCloud VPC CNI Snapshot - version '' @ snap_version E) @ add_line (''Name: '' @ sn_name s) @
     add_line (''Time: '' @ now) @
     (if sn_desc s \<noteq> [] then add_line (''Description: '' @ sn_desc s) else []) @
     (case sn_err s of Some e \<Rightarrow> add_line (''Error: '' @ error_text E e) | None \<Rightarrow> []) @ add_line []"

definition snapshot_section :: "'w snap_env \<Rightarrow> string \<times> string list \<Rightarrow> string \<Rightarrow> gerror option \<Rightarrow> string" where
  "snapshot_section E c out err =
     add_line (''>>> '' @ fst c @ '' '' @ Join (snd c) '' '') @ out @
     (case err of Some e \<Rightarrow> add_line (''>>> Bad exec: '' @ error_text E e) | None \<Rightarrow> []) @ add_line []"

fun run_commands :: "'w snap_env \<Rightarrow> (string \<times> string list) list \<Rightarrow> string \<Rightarrow> 'w \<Rightarrow> string \<times> 'w" where
  "run_commands E [] buffer w = (buffer, w)"
| "run_commands E (c # cs) buffer w =
     (case SnapRun E (fst c) (snd c) w of
        ((out, err), w1) \<Rightarrow> run_commands E cs (buffer @ snapshot_section E c out err) w1)"

definition snapshot_dir :: "'w snap_env \<Rightarrow> 'w action" where
  "snapshot_dir E w =
     (case SnapStat E w of
        Inl e \<Rightarrow>
          if errors_Is e (Sys ENOENT) then fmt_err ''Create directory for snapshot error: %v'' (SnapMkdirAll E) w
          else (Some (Errorf ''Read directory for snapshot error: %v'' (Some e)), w)
      | Inr isDir \<Rightarrow> (if isDir then None else Some (Errors_New ''Ensure snapshot directory: %s is a file''), w))"

definition snapshot_save :: "'w snap_env \<Rightarrow> Snapshot \<Rightarrow> 'w action" where
  "snapshot_save E s =
     seq (snapshot_dir E)
       (\<lambda>w. if sn_cmds s = [] then (Some (Errors_New ''No command to take snapshot''), w)
          else (case SnapNow E w of
             (now, w1) \<Rightarrow>
               (case run_commands E (sn_cmds s) (snapshot_header E s now) w1 of
                  (buffer, w2) \<Rightarrow>
                    (let path = snapshot_baseDir @ ''/'' @ sn_name s in
                     seq (fmt_err ''Open snapshot file error: %v'' (SnapOpen E path))
                         (fmt_err ''Write snapshot file error: %v'' (SnapWrite E path buffer)) w2))))"

text \<open>\<open>Save\<close> only logs the error.\<close>

definition Snapshot_Save :: "'w snap_env \<Rightarrow> Snapshot \<Rightarrow> 'w \<Rightarrow> 'w" where
  "Snapshot_Save E s w = ignore (snapshot_save E s) w"

text \<open>
  What is written: the header and then one section for every command in order, whether it succeeded or not.
\<close>

lemma run_commands_sections:
  "run_commands E cs buffer w = (b, w') \<Longrightarrow>
    \<exists>outs. length outs = length cs \<and> b = buffer @ concat (map2 (\<lambda>c (out, err). snapshot_section E c out err) cs outs)"
proof (induction cs arbitrary: buffer w)
  case Nil
  then show ?case by simp
next
  case (Cons c cs)
  obtain out err w1 where r: "SnapRun E (fst c) (snd c) w = ((out, err), w1)" by (metis surj_pair)
  then have "run_commands E cs (buffer @ snapshot_section E c out err) w1 = (b, w')" using Cons.prems by simp
  from Cons.IH [OF this] obtain outs where "length outs = length cs"
    "b = (buffer @ snapshot_section E c out err) @ concat (map2 (\<lambda>c (out, err). snapshot_section E c out err) cs outs)" by blast
  then show ?case by (intro exI [of _ "(out, err) # outs"]) simp
qed

lemma snapshot_save_writes:
  assumes "snapshot_save E s w = (None, w')"
  shows "\<exists>now outs w1. sn_cmds s \<noteq> [] \<and> length outs = length (sn_cmds s) \<and>
    SnapWrite E (snapshot_baseDir @ ''/'' @ sn_name s)
      (snapshot_header E s now @ concat (map2 (\<lambda>c (out, err). snapshot_section E c out err) (sn_cmds s) outs)) w1 = (None, w')"
proof -
  from assms obtain w0 where s: "(if sn_cmds s = [] then (Some (Errors_New ''No command to take snapshot''), w0)
          else (case SnapNow E w0 of
             (now, w1) \<Rightarrow>
               (case run_commands E (sn_cmds s) (snapshot_header E s now) w1 of
                  (buffer, w2) \<Rightarrow>
                    (let path = snapshot_baseDir @ ''/'' @ sn_name s in
                     seq (fmt_err ''Open snapshot file error: %v'' (SnapOpen E path))
                         (fmt_err ''Write snapshot file error: %v'' (SnapWrite E path buffer)) w2)))) = (None, w')"
    unfolding snapshot_save_def seq_None_iff by blast
  then have ne: "sn_cmds s \<noteq> []" by (auto split: if_splits)
  obtain now w1 where n: "SnapNow E w0 = (now, w1)" by fastforce
  obtain b w2 where r: "run_commands E (sn_cmds s) (snapshot_header E s now) w1 = (b, w2)" by fastforce
  from s ne n r obtain w3 where "SnapWrite E (snapshot_baseDir @ ''/'' @ sn_name s) b w3 = (None, w')"
    by (auto simp: Let_def seq_None_iff)
  moreover obtain outs where "length outs = length (sn_cmds s)"
    "b = snapshot_header E s now @ concat (map2 (\<lambda>c (out, err). snapshot_section E c out err) (sn_cmds s) outs)"
    using run_commands_sections [OF r] by blast
  ultimately show ?thesis using ne by blast
qed

section \<open>The HTTP endpoints of the daemon\<close>

text \<open>The answer of \<open>GET /version\<close>: status and body, the JSON document kept as its tree.\<close>

definition version_answer :: "string result \<Rightarrow> nat \<times> (string + (string \<times> string) list)" where
  "version_answer v =
     (case v of
        Inl e \<Rightarrow> (503, Inl ''CNI version unavailable'')
      | Inr version \<Rightarrow> (200, Inr [(''version'', version)]))"

datatype http_route = VersionRoute | LogTailRoute | NotFoundRoute | MethodNotAllowedRoute

definition http_route_of :: "string \<Rightarrow> string \<Rightarrow> http_route" where
  "http_route_of httpMethod path =
     (if path = ''/version'' then (if httpMethod \<in> {''GET'', ''HEAD''} then VersionRoute else MethodNotAllowedRoute)
      else if path = ''/logs/tail'' then (if httpMethod \<in> {''GET'', ''HEAD''} then LogTailRoute else MethodNotAllowedRoute)
      else NotFoundRoute)"

section \<open>Exit status and signals\<close>

text \<open>\<open>cmd/cnivpc-ipamd\<close>: the status for the error that the daemon's start returned.\<close>

definition ipamd_main :: "string list \<Rightarrow> gerror option \<Rightarrow> nat" where
  "ipamd_main args err = (if args = [''version''] then 0 else case err of Some e \<Rightarrow> 1 | None \<Rightarrow> 0)"

text \<open>
  \<open>setupSignalHandler\<close> panics when called twice. After it, the first signal closes the stop channel and the second one ends
  the process with status 1.
\<close>

datatype signal_state = Serving | Stopping | ExitedWith nat

definition setupSignalHandler :: "bool \<Rightarrow> signal_state option" where
  "setupSignalHandler called = (if called then None else Some Serving)"

fun on_signal :: "signal_state \<Rightarrow> signal_state" where
  "on_signal Serving = Stopping"
| "on_signal Stopping = ExitedWith 1"
| "on_signal (ExitedWith n) = ExitedWith n"

lemma signals: "(on_signal ^^ n) Serving = (if n = 0 then Serving else if n = 1 then Stopping else ExitedWith 1)"
  by (induction n) auto

end
