(* ===== verification/Rest_Client.thy ===== *)
theory Rest_Client
  imports Rpc_Types
begin

text \<open>
  The client set of the custom resources, \<open>kubernetes/generated/clientset/versioned\<close>: how each method of the typed
  clients builds its request, and how the group clients and the client set are made from a configuration.
  The requests are sent by \<open>k8s.io/client-go/rest\<close>, a parameter: \<open>rest_request\<close> is what the builder
  methods \<open>Namespace\<close>, \<open>Resource\<close>, \<open>Name\<close>, \<open>SubResource\<close>, \<open>VersionedParams\<close>, \<open>Timeout\<close> and \<open>Body\<close> were given,
  \<open>Do\<close> sends it, \<open>Into\<close> and \<open>Error\<close> read the answer. Where an error is returned, the empty result beside it is left out.
\<close>

section \<open>Requests\<close>

datatype verb = VerbGet | VerbPost | VerbPut | VerbDelete | VerbPatch string

record GetOptions =
  go_ResourceVersion :: string

record WriteOptions =
  wo_DryRun :: "string list"
  wo_FieldManager :: string

record ListOptions =
  lo_LabelSelector :: string
  lo_FieldSelector :: string
  lo_Limit :: int
  lo_Continue :: string
  lo_TimeoutSeconds :: "int64 option"
  lo_Watch :: bool

record DeleteOptions =
  de_GracePeriodSeconds :: "int64 option"
  de_DryRun :: "string list"

definition GetOptions_zero :: GetOptions where
  "GetOptions_zero = \<lparr>go_ResourceVersion = []\<rparr>"

definition WriteOptions_zero :: WriteOptions where
  "WriteOptions_zero = \<lparr>wo_DryRun = [], wo_FieldManager = []\<rparr>"

definition ListOptions_zero :: ListOptions where
  "ListOptions_zero = \<lparr>lo_LabelSelector = [], lo_FieldSelector = [], lo_Limit = 0, lo_Continue = [],
     lo_TimeoutSeconds = None, lo_Watch = False\<rparr>"

definition DeleteOptions_zero :: DeleteOptions where
  "DeleteOptions_zero = \<lparr>de_GracePeriodSeconds = None, de_DryRun = []\<rparr>"

datatype params = NoParams | GetParams GetOptions | WriteParams WriteOptions | ListParams ListOptions

datatype body = NoBody | ClaimBody VpcIpClaim | IpamdBody Ipamd | PodNetworkingBody PodNetworking
  | DeleteBody DeleteOptions | PatchBody string

record rest_request =
  rq_Verb :: verb
  rq_Namespace :: "string option" \<comment> \<open>\<open>None\<close>: the method is not called\<close>
  rq_Resource :: string
  rq_Name :: "string option"
  rq_SubResource :: "string list"
  rq_Params :: params
  rq_Timeout :: int64 \<comment> \<open>in nanoseconds\<close>
  rq_Body :: body

record ('raw, 'i, 'w) rest_client =
  rc_Do :: "rest_request \<Rightarrow> 'w \<Rightarrow> 'raw \<times> 'w"
  rc_Watch :: "rest_request \<Rightarrow> 'w \<Rightarrow> 'i result \<times> 'w"
  rc_Error :: "'raw \<Rightarrow> gerror option"
  into_claim :: "'raw \<Rightarrow> VpcIpClaim result"
  into_claims :: "'raw \<Rightarrow> VpcIpClaim list result"
  into_ipamd :: "'raw \<Rightarrow> Ipamd result"
  into_ipamds :: "'raw \<Rightarrow> Ipamd list result"
  into_podnet :: "'raw \<Rightarrow> PodNetworking result"
  into_podnets :: "'raw \<Rightarrow> PodNetworking list result"
  fields_EscapeValue :: "string \<Rightarrow> string" \<comment> \<open>of a field selector\<close>

section \<open>The shape all typed clients share\<close>

text \<open>A typed client: the namespace it was made for, \<open>None\<close> for a resource outside namespaces, and its resource.\<close>

record typed_client =
  tc_ns :: "string option"
  tc_resource :: string

definition request :: "typed_client \<Rightarrow> verb \<Rightarrow> rest_request" where
  "request c v = \<lparr>rq_Verb = v, rq_Namespace = tc_ns c, rq_Resource = tc_resource c, rq_Name = None, rq_SubResource = [],
     rq_Params = NoParams, rq_Timeout = 0, rq_Body = NoBody\<rparr>"

text \<open>The multiplication \<open>time.Duration(s) * time.Second\<close> wraps around.\<close>

definition list_timeout :: "ListOptions \<Rightarrow> int64" where
  "list_timeout opts = (case lo_TimeoutSeconds opts of None \<Rightarrow> 0 | Some s \<Rightarrow> s * 1000000000)"

definition do_into :: "('raw, 'i, 'w) rest_client \<Rightarrow> ('raw \<Rightarrow> 'o) \<Rightarrow> rest_request \<Rightarrow> 'w \<Rightarrow> 'o \<times> 'w" where
  "do_into R into q w = (case rc_Do R q w of (raw, w1) \<Rightarrow> (into raw, w1))"

definition get_request :: "typed_client \<Rightarrow> string \<Rightarrow> GetOptions \<Rightarrow> rest_request" where
  "get_request c name opts = (request c VerbGet)\<lparr>rq_Name := Some name, rq_Params := GetParams opts\<rparr>"

definition list_request :: "typed_client \<Rightarrow> ListOptions \<Rightarrow> rest_request" where
  "list_request c opts = (request c VerbGet)\<lparr>rq_Params := ListParams opts, rq_Timeout := list_timeout opts\<rparr>"

definition watch_request :: "typed_client \<Rightarrow> ListOptions \<Rightarrow> rest_request" where
  "watch_request c opts =
     (request c VerbGet)\<lparr>rq_Params := ListParams (opts\<lparr>lo_Watch := True\<rparr>), rq_Timeout := list_timeout opts\<rparr>"

definition create_request :: "typed_client \<Rightarrow> body \<Rightarrow> WriteOptions \<Rightarrow> rest_request" where
  "create_request c b opts = (request c VerbPost)\<lparr>rq_Params := WriteParams opts, rq_Body := b\<rparr>"

definition update_request :: "typed_client \<Rightarrow> string \<Rightarrow> body \<Rightarrow> WriteOptions \<Rightarrow> rest_request" where
  "update_request c name b opts =
     (request c VerbPut)\<lparr>rq_Name := Some name, rq_Params := WriteParams opts, rq_Body := b\<rparr>"

definition status_request :: "typed_client \<Rightarrow> string \<Rightarrow> body \<Rightarrow> WriteOptions \<Rightarrow> rest_request" where
  "status_request c name b opts = (update_request c name b opts)\<lparr>rq_SubResource := [''status'']\<rparr>"

definition delete_request :: "typed_client \<Rightarrow> string \<Rightarrow> DeleteOptions \<Rightarrow> rest_request" where
  "delete_request c name opts = (request c VerbDelete)\<lparr>rq_Name := Some name, rq_Body := DeleteBody opts\<rparr>"

definition delete_collection_request :: "typed_client \<Rightarrow> DeleteOptions \<Rightarrow> ListOptions \<Rightarrow> rest_request" where
  "delete_collection_request c opts lopts =
     (request c VerbDelete)\<lparr>rq_Params := ListParams lopts, rq_Timeout := list_timeout lopts, rq_Body := DeleteBody opts\<rparr>"

definition patch_request :: "typed_client \<Rightarrow> string \<Rightarrow> string \<Rightarrow> string \<Rightarrow> WriteOptions \<Rightarrow> string list \<Rightarrow> rest_request" where
  "patch_request c name pt data opts subs =
     (request c (VerbPatch pt))\<lparr>rq_Name := Some name, rq_SubResource := subs, rq_Params := WriteParams opts,
       rq_Body := PatchBody data\<rparr>"

text \<open>The parts of a request.\<close>

lemma get_request_parts [simp]:
  "rq_Verb (get_request c n opts) = VerbGet" "rq_Namespace (get_request c n opts) = tc_ns c"
  "rq_Resource (get_request c n opts) = tc_resource c" "rq_Name (get_request c n opts) = Some n"
  "rq_SubResource (get_request c n opts) = []"
  by (simp_all add: get_request_def request_def)

lemma list_request_parts [simp]:
  "rq_Verb (list_request c lopts) = VerbGet" "rq_Namespace (list_request c lopts) = tc_ns c"
  "rq_Resource (list_request c lopts) = tc_resource c" "rq_Name (list_request c lopts) = None"
  "rq_SubResource (list_request c lopts) = []" "rq_Params (list_request c lopts) = ListParams lopts"
  by (simp_all add: list_request_def request_def)

lemma create_request_parts [simp]:
  "rq_Verb (create_request c b opts) = VerbPost" "rq_Namespace (create_request c b opts) = tc_ns c"
  "rq_Resource (create_request c b opts) = tc_resource c" "rq_Name (create_request c b opts) = None"
  "rq_SubResource (create_request c b opts) = []" "rq_Body (create_request c b opts) = b"
  by (simp_all add: create_request_def request_def)

lemma update_request_parts [simp]:
  "rq_Verb (update_request c n b opts) = VerbPut" "rq_Namespace (update_request c n b opts) = tc_ns c"
  "rq_Resource (update_request c n b opts) = tc_resource c" "rq_Name (update_request c n b opts) = Some n"
  "rq_SubResource (update_request c n b opts) = []" "rq_Body (update_request c n b opts) = b"
  by (simp_all add: update_request_def request_def)

lemma delete_request_parts [simp]:
  "rq_Verb (delete_request c n dopts) = VerbDelete" "rq_Namespace (delete_request c n dopts) = tc_ns c"
  "rq_Resource (delete_request c n dopts) = tc_resource c" "rq_Name (delete_request c n dopts) = Some n"
  "rq_SubResource (delete_request c n dopts) = []"
  by (simp_all add: delete_request_def request_def)

section \<open>vpcipclaim.go\<close>

definition newVpcIpClaims :: "string \<Rightarrow> typed_client" where
  "newVpcIpClaims namespace = \<lparr>tc_ns = Some namespace, tc_resource = ''vpcipclaims''\<rparr>"

definition vpcIpClaims_Get ::
  "('raw, 'i, 'w) rest_client \<Rightarrow> string \<Rightarrow> string \<Rightarrow> GetOptions \<Rightarrow> 'w \<Rightarrow> VpcIpClaim result \<times> 'w" where
  "vpcIpClaims_Get R ns name opts = do_into R (into_claim R) (get_request (newVpcIpClaims ns) name opts)"

definition vpcIpClaims_List ::
  "('raw, 'i, 'w) rest_client \<Rightarrow> string \<Rightarrow> ListOptions \<Rightarrow> 'w \<Rightarrow> VpcIpClaim list result \<times> 'w" where
  "vpcIpClaims_List R ns opts = do_into R (into_claims R) (list_request (newVpcIpClaims ns) opts)"

definition vpcIpClaims_Watch ::
  "('raw, 'i, 'w) rest_client \<Rightarrow> string \<Rightarrow> ListOptions \<Rightarrow> 'w \<Rightarrow> 'i result \<times> 'w" where
  "vpcIpClaims_Watch R ns opts = rc_Watch R (watch_request (newVpcIpClaims ns) opts)"

definition vpcIpClaims_Create ::
  "('raw, 'i, 'w) rest_client \<Rightarrow> string \<Rightarrow> VpcIpClaim \<Rightarrow> WriteOptions \<Rightarrow> 'w \<Rightarrow> VpcIpClaim result \<times> 'w" where
  "vpcIpClaims_Create R ns x opts = do_into R (into_claim R) (create_request (newVpcIpClaims ns) (ClaimBody x) opts)"

definition vpcIpClaims_Update ::
  "('raw, 'i, 'w) rest_client \<Rightarrow> string \<Rightarrow> VpcIpClaim \<Rightarrow> WriteOptions \<Rightarrow> 'w \<Rightarrow> VpcIpClaim result \<times> 'w" where
  "vpcIpClaims_Update R ns x opts = do_into R (into_claim R) (update_request (newVpcIpClaims ns) (vc_Name x) (ClaimBody x) opts)"

definition vpcIpClaims_UpdateStatus ::
  "('raw, 'i, 'w) rest_client \<Rightarrow> string \<Rightarrow> VpcIpClaim \<Rightarrow> WriteOptions \<Rightarrow> 'w \<Rightarrow> VpcIpClaim result \<times> 'w" where
  "vpcIpClaims_UpdateStatus R ns x opts = do_into R (into_claim R) (status_request (newVpcIpClaims ns) (vc_Name x) (ClaimBody x) opts)"

definition vpcIpClaims_Delete ::
  "('raw, 'i, 'w) rest_client \<Rightarrow> string \<Rightarrow> string \<Rightarrow> DeleteOptions \<Rightarrow> 'w action" where
  "vpcIpClaims_Delete R ns name opts = do_into R (rc_Error R) (delete_request (newVpcIpClaims ns) name opts)"

definition vpcIpClaims_DeleteCollection ::
  "('raw, 'i, 'w) rest_client \<Rightarrow> string \<Rightarrow> DeleteOptions \<Rightarrow> ListOptions \<Rightarrow> 'w action" where
  "vpcIpClaims_DeleteCollection R ns opts lopts = do_into R (rc_Error R) (delete_collection_request (newVpcIpClaims ns) opts lopts)"

definition vpcIpClaims_Patch ::
  "('raw, 'i, 'w) rest_client \<Rightarrow> string \<Rightarrow> string \<Rightarrow> string \<Rightarrow> string \<Rightarrow> WriteOptions \<Rightarrow> string list \<Rightarrow>
    'w \<Rightarrow> VpcIpClaim result \<times> 'w" where
  "vpcIpClaims_Patch R ns name pt data opts subs = do_into R (into_claim R) (patch_request (newVpcIpClaims ns) name pt data opts subs)"

section \<open>ipamd.go\<close>

definition newIpamds :: "string \<Rightarrow> typed_client" where
  "newIpamds namespace = \<lparr>tc_ns = Some namespace, tc_resource = ''ipamds''\<rparr>"

definition ipamds_Get ::
  "('raw, 'i, 'w) rest_client \<Rightarrow> string \<Rightarrow> string \<Rightarrow> GetOptions \<Rightarrow> 'w \<Rightarrow> Ipamd result \<times> 'w" where
  "ipamds_Get R ns name opts = do_into R (into_ipamd R) (get_request (newIpamds ns) name opts)"

definition ipamds_List ::
  "('raw, 'i, 'w) rest_client \<Rightarrow> string \<Rightarrow> ListOptions \<Rightarrow> 'w \<Rightarrow> Ipamd list result \<times> 'w" where
  "ipamds_List R ns opts = do_into R (into_ipamds R) (list_request (newIpamds ns) opts)"

definition ipamds_Watch ::
  "('raw, 'i, 'w) rest_client \<Rightarrow> string \<Rightarrow> ListOptions \<Rightarrow> 'w \<Rightarrow> 'i result \<times> 'w" where
  "ipamds_Watch R ns opts = rc_Watch R (watch_request (newIpamds ns) opts)"

definition ipamds_Create ::
  "('raw, 'i, 'w) rest_client \<Rightarrow> string \<Rightarrow> Ipamd \<Rightarrow> WriteOptions \<Rightarrow> 'w \<Rightarrow> Ipamd result \<times> 'w" where
  "ipamds_Create R ns x opts = do_into R (into_ipamd R) (create_request (newIpamds ns) (IpamdBody x) opts)"

definition ipamds_Update ::
  "('raw, 'i, 'w) rest_client \<Rightarrow> string \<Rightarrow> Ipamd \<Rightarrow> WriteOptions \<Rightarrow> 'w \<Rightarrow> Ipamd result \<times> 'w" where
  "ipamds_Update R ns x opts = do_into R (into_ipamd R) (update_request (newIpamds ns) (im_Name x) (IpamdBody x) opts)"

definition ipamds_UpdateStatus ::
  "('raw, 'i, 'w) rest_client \<Rightarrow> string \<Rightarrow> Ipamd \<Rightarrow> WriteOptions \<Rightarrow> 'w \<Rightarrow> Ipamd result \<times> 'w" where
  "ipamds_UpdateStatus R ns x opts = do_into R (into_ipamd R) (status_request (newIpamds ns) (im_Name x) (IpamdBody x) opts)"

definition ipamds_Delete ::
  "('raw, 'i, 'w) rest_client \<Rightarrow> string \<Rightarrow> string \<Rightarrow> DeleteOptions \<Rightarrow> 'w action" where
  "ipamds_Delete R ns name opts = do_into R (rc_Error R) (delete_request (newIpamds ns) name opts)"

definition ipamds_DeleteCollection ::
  "('raw, 'i, 'w) rest_client \<Rightarrow> string \<Rightarrow> DeleteOptions \<Rightarrow> ListOptions \<Rightarrow> 'w action" where
  "ipamds_DeleteCollection R ns opts lopts = do_into R (rc_Error R) (delete_collection_request (newIpamds ns) opts lopts)"

definition ipamds_Patch ::
  "('raw, 'i, 'w) rest_client \<Rightarrow> string \<Rightarrow> string \<Rightarrow> string \<Rightarrow> string \<Rightarrow> WriteOptions \<Rightarrow> string list \<Rightarrow>
    'w \<Rightarrow> Ipamd result \<times> 'w" where
  "ipamds_Patch R ns name pt data opts subs = do_into R (into_ipamd R) (patch_request (newIpamds ns) name pt data opts subs)"

section \<open>podnetworking.go\<close>

definition newPodNetworkings :: typed_client where
  "newPodNetworkings = \<lparr>tc_ns = None, tc_resource = ''podnetworkings''\<rparr>"

definition podNetworkings_Get ::
  "('raw, 'i, 'w) rest_client \<Rightarrow> string \<Rightarrow> GetOptions \<Rightarrow> 'w \<Rightarrow> PodNetworking result \<times> 'w" where
  "podNetworkings_Get R name opts = do_into R (into_podnet R) (get_request newPodNetworkings name opts)"

definition podNetworkings_List ::
  "('raw, 'i, 'w) rest_client \<Rightarrow> ListOptions \<Rightarrow> 'w \<Rightarrow> PodNetworking list result \<times> 'w" where
  "podNetworkings_List R opts = do_into R (into_podnets R) (list_request newPodNetworkings opts)"

definition podNetworkings_Watch ::
  "('raw, 'i, 'w) rest_client \<Rightarrow> ListOptions \<Rightarrow> 'w \<Rightarrow> 'i result \<times> 'w" where
  "podNetworkings_Watch R opts = rc_Watch R (watch_request newPodNetworkings opts)"

definition podNetworkings_Create ::
  "('raw, 'i, 'w) rest_client \<Rightarrow> PodNetworking \<Rightarrow> WriteOptions \<Rightarrow> 'w \<Rightarrow> PodNetworking result \<times> 'w" where
  "podNetworkings_Create R x opts = do_into R (into_podnet R) (create_request newPodNetworkings (PodNetworkingBody x) opts)"

definition podNetworkings_Update ::
  "('raw, 'i, 'w) rest_client \<Rightarrow> PodNetworking \<Rightarrow> WriteOptions \<Rightarrow> 'w \<Rightarrow> PodNetworking result \<times> 'w" where
  "podNetworkings_Update R x opts = do_into R (into_podnet R) (update_request newPodNetworkings (pk_Name x) (PodNetworkingBody x) opts)"

definition podNetworkings_UpdateStatus ::
  "('raw, 'i, 'w) rest_client \<Rightarrow> PodNetworking \<Rightarrow> WriteOptions \<Rightarrow> 'w \<Rightarrow> PodNetworking result \<times> 'w" where
  "podNetworkings_UpdateStatus R x opts = do_into R (into_podnet R) (status_request newPodNetworkings (pk_Name x) (PodNetworkingBody x) opts)"

definition podNetworkings_Delete ::
  "('raw, 'i, 'w) rest_client \<Rightarrow> string \<Rightarrow> DeleteOptions \<Rightarrow> 'w action" where
  "podNetworkings_Delete R name opts = do_into R (rc_Error R) (delete_request newPodNetworkings name opts)"

definition podNetworkings_DeleteCollection ::
  "('raw, 'i, 'w) rest_client \<Rightarrow> DeleteOptions \<Rightarrow> ListOptions \<Rightarrow> 'w action" where
  "podNetworkings_DeleteCollection R opts lopts = do_into R (rc_Error R) (delete_collection_request newPodNetworkings opts lopts)"

definition podNetworkings_Patch ::
  "('raw, 'i, 'w) rest_client \<Rightarrow> string \<Rightarrow> string \<Rightarrow> string \<Rightarrow> WriteOptions \<Rightarrow> string list \<Rightarrow>
    'w \<Rightarrow> PodNetworking result \<times> 'w" where
  "podNetworkings_Patch R name pt data opts subs = do_into R (into_podnet R) (patch_request newPodNetworkings name pt data opts subs)"

section \<open>The group clients and the client set\<close>

text \<open>
  The fields of \<open>rest.Config\<close> that the code reads or sets. The queries per second are a floating-point
  number, here in thousandths; a rate limiter is told apart by the number it was made with. The two constructors of the library are
  parameters; a client is told apart by the configuration that it was made from.
\<close>

record rest_config =
  cf_GroupVersion :: "(string \<times> string) option"
  cf_APIPath :: string
  cf_UserAgent :: string
  cf_QPS :: int
  cf_Burst :: int
  cf_RateLimiter :: "(int \<times> int) option"
  cf_WithoutConversion :: bool \<comment> \<open>the serializer is \<open>Codecs.WithoutConversion()\<close>\<close>

record rest_make =
  RESTClientFor :: "rest_config \<Rightarrow> rest_config result"
  NewDiscoveryClientForConfig :: "rest_config \<Rightarrow> rest_config result"
  DefaultKubernetesUserAgent :: string

definition set_group_defaults :: "rest_make \<Rightarrow> string \<times> string \<Rightarrow> rest_config \<Rightarrow> rest_config" where
  "set_group_defaults M gv c = c\<lparr>cf_GroupVersion := Some gv, cf_APIPath := ''/apis'', cf_WithoutConversion := True,
     cf_UserAgent := (if cf_UserAgent c = [] then DefaultKubernetesUserAgent M else cf_UserAgent c)\<rparr>"

definition or_die :: "rest_config result \<Rightarrow> rest_config result" where
  "or_die r = (case r of Inl e \<Rightarrow> Inl Panic | Inr c \<Rightarrow> Inr c)"

definition ipamd_SchemeGroupVersion :: "string \<times> string" where
  "ipamd_SchemeGroupVersion = (''vpc.uk8s.ucloud.cn'', ''v1beta1'')"

definition vpc_SchemeGroupVersion :: "string \<times> string" where
  "vpc_SchemeGroupVersion = (''vpc.uk8s.ucloud.cn'', ''v1beta1'')"

definition vip_SchemeGroupVersion :: "string \<times> string" where
  "vip_SchemeGroupVersion = (''vpc.uk8s.ucloud.cn'', ''v1beta1'')"

definition IpamdV1beta1_setConfigDefaults :: "rest_make \<Rightarrow> rest_config \<Rightarrow> rest_config" where
  "IpamdV1beta1_setConfigDefaults M = set_group_defaults M ipamd_SchemeGroupVersion"

definition IpamdV1beta1_NewForConfig :: "rest_make \<Rightarrow> rest_config \<Rightarrow> rest_config result" where
  "IpamdV1beta1_NewForConfig M c = RESTClientFor M (IpamdV1beta1_setConfigDefaults M c)"

definition IpamdV1beta1_NewForConfigOrDie :: "rest_make \<Rightarrow> rest_config \<Rightarrow> rest_config result" where
  "IpamdV1beta1_NewForConfigOrDie M c = or_die (IpamdV1beta1_NewForConfig M c)"

definition VpcV1beta1_setConfigDefaults :: "rest_make \<Rightarrow> rest_config \<Rightarrow> rest_config" where
  "VpcV1beta1_setConfigDefaults M = set_group_defaults M vpc_SchemeGroupVersion"

definition VpcV1beta1_NewForConfig :: "rest_make \<Rightarrow> rest_config \<Rightarrow> rest_config result" where
  "VpcV1beta1_NewForConfig M c = RESTClientFor M (VpcV1beta1_setConfigDefaults M c)"

definition VpcV1beta1_NewForConfigOrDie :: "rest_make \<Rightarrow> rest_config \<Rightarrow> rest_config result" where
  "VpcV1beta1_NewForConfigOrDie M c = or_die (VpcV1beta1_NewForConfig M c)"

definition VipcontrollerV1beta1_setConfigDefaults :: "rest_make \<Rightarrow> rest_config \<Rightarrow> rest_config" where
  "VipcontrollerV1beta1_setConfigDefaults M = set_group_defaults M vip_SchemeGroupVersion"

definition VipcontrollerV1beta1_NewForConfig :: "rest_make \<Rightarrow> rest_config \<Rightarrow> rest_config result" where
  "VipcontrollerV1beta1_NewForConfig M c = RESTClientFor M (VipcontrollerV1beta1_setConfigDefaults M c)"

definition VipcontrollerV1beta1_NewForConfigOrDie :: "rest_make \<Rightarrow> rest_config \<Rightarrow> rest_config result" where
  "VipcontrollerV1beta1_NewForConfigOrDie M c = or_die (VipcontrollerV1beta1_NewForConfig M c)"

record Clientset =
  cs_ipamdV1beta1 :: rest_config
  cs_vpcV1beta1 :: rest_config
  cs_vipcontrollerV1beta1 :: rest_config
  cs_DiscoveryClient :: rest_config

text \<open>The rate limit of the configuration: one limiter for all groups.\<close>

definition limited :: "rest_config \<Rightarrow> rest_config result" where
  "limited c =
     (if cf_RateLimiter c = None \<and> cf_QPS c > 0 then
        if cf_Burst c \<le> 0 then
          Inl (Errors_New ''burst is required to be greater than 0 when RateLimiter is not set and QPS is set to greater than 0'')
        else Inr (c\<lparr>cf_RateLimiter := Some (cf_QPS c, cf_Burst c)\<rparr>)
      else Inr c)"

definition Clientset_NewForConfig :: "rest_make \<Rightarrow> rest_config \<Rightarrow> Clientset result" where
  "Clientset_NewForConfig M c0 =
     result_bind (limited c0) (\<lambda>c.
     result_bind (IpamdV1beta1_NewForConfig M c) (\<lambda>i.
     result_bind (VpcV1beta1_NewForConfig M c) (\<lambda>v.
     result_bind (VipcontrollerV1beta1_NewForConfig M c) (\<lambda>p.
     result_bind (NewDiscoveryClientForConfig M c) (\<lambda>d.
       Inr \<lparr>cs_ipamdV1beta1 = i, cs_vpcV1beta1 = v, cs_vipcontrollerV1beta1 = p, cs_DiscoveryClient = d\<rparr>)))))"

text \<open>The constructor that panics; it does not set a rate limit.\<close>

definition Clientset_NewForConfigOrDie :: "rest_make \<Rightarrow> rest_config \<Rightarrow> Clientset result" where
  "Clientset_NewForConfigOrDie M c =
     result_bind (IpamdV1beta1_NewForConfigOrDie M c) (\<lambda>i.
     result_bind (VpcV1beta1_NewForConfigOrDie M c) (\<lambda>v.
     result_bind (VipcontrollerV1beta1_NewForConfigOrDie M c) (\<lambda>p.
     result_bind (or_die (NewDiscoveryClientForConfig M c)) (\<lambda>d.
       Inr \<lparr>cs_ipamdV1beta1 = i, cs_vpcV1beta1 = v, cs_vipcontrollerV1beta1 = p, cs_DiscoveryClient = d\<rparr>))))"

lemma Clientset_NewForConfig_groups:
  assumes "\<And>c. RESTClientFor M c = Inr c"
  shows "(Clientset_NewForConfig M c = Inr cs \<longrightarrow>
      cf_GroupVersion (cs_ipamdV1beta1 cs) = Some (''vpc.uk8s.ucloud.cn'', ''v1beta1'') \<and>
      cf_GroupVersion (cs_vpcV1beta1 cs) = Some (''vpc.uk8s.ucloud.cn'', ''v1beta1'') \<and>
      cf_GroupVersion (cs_vipcontrollerV1beta1 cs) = Some (''vpc.uk8s.ucloud.cn'', ''v1beta1'') \<and>
      cf_RateLimiter (cs_ipamdV1beta1 cs) = cf_RateLimiter (cs_vpcV1beta1 cs) \<and>
      cf_RateLimiter (cs_vpcV1beta1 cs) = cf_RateLimiter (cs_vipcontrollerV1beta1 cs)) \<and>
    (cf_RateLimiter c = None \<and> cf_QPS c > 0 \<and> cf_Burst c \<le> 0 \<longrightarrow> (\<exists>e. Clientset_NewForConfig M c = Inl e))"
  by (auto simp: Clientset_NewForConfig_def limited_def result_bind_def IpamdV1beta1_NewForConfig_def
      VpcV1beta1_NewForConfig_def VipcontrollerV1beta1_NewForConfig_def assms set_group_defaults_def
      IpamdV1beta1_setConfigDefaults_def VpcV1beta1_setConfigDefaults_def VipcontrollerV1beta1_setConfigDefaults_def
      ipamd_SchemeGroupVersion_def vpc_SchemeGroupVersion_def vip_SchemeGroupVersion_def split: if_splits sum.splits)

section \<open>The wait of a list request\<close>

text \<open>A wait of a whole number of seconds is exact while it fits; from some 292 years on it wraps around.\<close>

lemma list_timeout_exact:
  assumes "lo_TimeoutSeconds opts = Some s" and "0 \<le> sint s" and "sint s \<le> 9223372036"
  shows "sint (list_timeout opts) = sint s * 1000000000"
proof -
  have "sint s * 1000000000 \<in> {- (2 ^ 63) ..< 2 ^ 63}" using assms(2,3) by simp
  then have "signed_take_bit 63 (sint s * 1000000000) = sint s * 1000000000"
    by (intro signed_take_bit_int_eq_self) auto
  then show ?thesis using assms(1) by (simp add: list_timeout_def sint_word_ariths)
qed

end
