(* ===== verification/Rest_Props.thy ===== *)
theory Rest_Props
  imports Rest_Client Vip_Props "HOL-Library.AList"
begin

text \<open>
  The programs over the generated client: the calls of the custom resources that the daemon, the plugin and the
  controller make are those of the typed clients. \<open>rest_store\<close> says what the API server does to the objects of a resource for a
  request; it follows that the controller, over the typed client, has the claims that \<open>Vip_Props\<close> assumes.
\<close>

section \<open>The calls of the programs\<close>

definition only_err :: "'a result \<times> 'w \<Rightarrow> gerror option \<times> 'w" where
  "only_err rw = (case rw of (r, w1) \<Rightarrow> (err_of r, w1))"

definition rest_kube :: "('raw, 'i, 'w) rest_client \<Rightarrow> 'w kube_api \<Rightarrow> 'w kube_api" where
  "rest_kube R Q = Q\<lparr>
     IpamdsList := ipamds_List R ''kube-system'' ListOptions_zero,
     IpamdsGet := (\<lambda>n. ipamds_Get R ''kube-system'' n GetOptions_zero),
     IpamdsCreate := (\<lambda>x w. only_err (ipamds_Create R ''kube-system'' x WriteOptions_zero w)),
     IpamdsUpdate := (\<lambda>x w. only_err (ipamds_Update R ''kube-system'' x WriteOptions_zero w)),
     IpamdsDelete := (\<lambda>n. ipamds_Delete R ''kube-system'' n DeleteOptions_zero),
     VipsGet := (\<lambda>ns n. vpcIpClaims_Get R ns n GetOptions_zero),
     VipsListNamed := (\<lambda>ns n w. only_err (vpcIpClaims_List R ns
       (ListOptions_zero\<lparr>lo_FieldSelector := ''metadata.name='' @ fields_EscapeValue R n, lo_Limit := 1\<rparr>) w)),
     VipsCreate := (\<lambda>c. vpcIpClaims_Create R (vc_Namespace c) c WriteOptions_zero),
     VipsUpdate := (\<lambda>c w. only_err (vpcIpClaims_Update R (vc_Namespace c) c WriteOptions_zero w))\<rparr>"

definition rest_vip_env :: "('raw, 'i, 'w) rest_client \<Rightarrow> ('cfg, 'w) vip_env \<Rightarrow> ('cfg, 'w) vip_env" where
  "rest_vip_env R env = env\<lparr>
     ve_kube := rest_kube R (ve_kube env),
     VipsListOwned := (\<lambda>ns n. vpcIpClaims_List R ns (ListOptions_zero\<lparr>lo_LabelSelector := ''owner-statefulset='' @ n\<rparr>)),
     VipsListDetached := (\<lambda>limit. vpcIpClaims_List R []
       (ListOptions_zero\<lparr>lo_LabelSelector := ''attached=false'', lo_Limit := int limit\<rparr>)),
     VipsDelete := (\<lambda>ns n. vpcIpClaims_Delete R ns n DeleteOptions_zero)\<rparr>"

section \<open>The objects of a resource at the API server\<close>

lemma do_into_snd [simp]: "snd (do_into R f q w) = snd (rc_Do R q w)"
  by (simp add: do_into_def split: prod.splits)

lemma do_into_eq: "do_into R f q w = (y, w') \<longleftrightarrow> f (fst (rc_Do R q w)) = y \<and> snd (rc_Do R q w) = w'"
  by (simp add: do_into_def split: prod.splits)

definition ns_of :: "rest_request \<Rightarrow> string" where
  "ns_of q = (case rq_Namespace q of None \<Rightarrow> [] | Some ns \<Rightarrow> ns)"

text \<open>
  A read changes nothing, and the object it returns is the one that is stored; an update or a deletion of a named object
  concerns that object only, and a successful update stores the body, unless the object is then gone because it
  was only waiting for its last finalizer.
\<close>

locale rest_store =
  fixes R :: "('raw, 'i, 'w) rest_client" and resource :: string and wrap :: "'o \<Rightarrow> body"
    and into :: "'raw \<Rightarrow> 'o result" and key :: "'o \<Rightarrow> string \<times> string"
    and store :: "'w \<Rightarrow> string \<times> string \<Rightarrow> 'o option"
  assumes reads: "rq_Verb q = VerbGet \<Longrightarrow> store (snd (rc_Do R q w)) = store w"
    and read_one: "rq_Verb q = VerbGet \<Longrightarrow> rq_Resource q = resource \<Longrightarrow> rq_Name q = Some n \<Longrightarrow> rq_SubResource q = [] \<Longrightarrow>
      into (fst (rc_Do R q w)) = Inr x \<Longrightarrow> key x = (ns_of q, n) \<and> store w (ns_of q, n) = Some x"
    and put: "rq_Verb q = VerbPut \<Longrightarrow> rq_Resource q = resource \<Longrightarrow> rq_Name q = Some n \<Longrightarrow> rq_SubResource q = [] \<Longrightarrow>
      rq_Body q = wrap x \<Longrightarrow> key x = (ns_of q, n) \<Longrightarrow>
      (\<forall>k. k \<noteq> key x \<longrightarrow> store (snd (rc_Do R q w)) k = store w k) \<and>
      store (snd (rc_Do R q w)) (key x) \<in>
        (if err_of (into (fst (rc_Do R q w))) = None then {Some x, None} else {store w (key x), Some x, None})"
    and delete: "rq_Verb q = VerbDelete \<Longrightarrow> rq_Resource q = resource \<Longrightarrow> rq_Name q = Some n \<Longrightarrow> rq_SubResource q = [] \<Longrightarrow>
      k \<noteq> (ns_of q, n) \<Longrightarrow> store (snd (rc_Do R q w)) k = store w k"
begin

text \<open>The requests that the typed client of this resource builds.\<close>

lemma get_named:
  assumes "tc_resource c = resource" and "tc_ns c = Some ns" and "do_into R into (get_request c n opts) w = (Inr x, w')"
  shows "store w (ns, n) = Some x \<and> key x = (ns, n)"
  using read_one [of "get_request c n opts" n w x] assms(1,2) assms(3) [unfolded do_into_eq]
  by (simp add: ns_of_def)

lemma get_keeps: "store (snd (rc_Do R (get_request c n opts) w)) = store w"
  by (rule reads) simp

lemma list_keeps: "store (snd (rc_Do R (list_request c opts) w)) = store w"
  by (rule reads) simp

lemma update_named:
  assumes "tc_resource c = resource" and "tc_ns c = Some ns" and "key x = (ns, n)"
    and "do_into R into (update_request c n (wrap x) opts) w = (r, w')"
  shows "(\<forall>k. k \<noteq> key x \<longrightarrow> store w' k = store w k) \<and>
    store w' (key x) \<in> (if err_of r = None then {Some x, None} else {store w (key x), Some x, None})"
  using put [of "update_request c n (wrap x) opts" n x w] assms(1-3) assms(4) [unfolded do_into_eq]
  by (auto simp: ns_of_def)

lemma delete_named:
  assumes "tc_resource c = resource" and "tc_ns c = Some ns" and "k \<noteq> (ns, n)"
  shows "store (snd (rc_Do R (delete_request c n opts) w)) k = store w k"
  by (rule delete [of _ n]) (use assms in \<open>simp_all add: ns_of_def\<close>)

end

section \<open>The claims, over the typed client\<close>

text \<open>What else the controller calls does not concern the claims.\<close>

definition keeps_claims :: "('cfg, 'w) vip_env \<Rightarrow> ('w \<Rightarrow> 'x) \<Rightarrow> bool" where
  "keeps_claims env store \<longleftrightarrow>
     (\<forall>w. store (snd (FormatNow (ve_cloud env) w)) = store w) \<and> (\<forall>w. store (snd (NanoNow env w)) = store w) \<and>
     (\<forall>w. store (snd (InClusterConfig (ve_rest env) w)) = store w) \<and>
     (\<forall>ns n w. store (snd (PodsGet (ve_kube env) ns n w)) = store w)"

lemma only_err_simps [simp]: "snd (only_err rw) = snd rw" "fst (only_err rw) = err_of (fst rw)"
  by (simp_all add: only_err_def split: prod.splits)

lemma newVpcIpClaims_simps [simp]: "tc_ns (newVpcIpClaims ns) = Some ns" "tc_resource (newVpcIpClaims ns) = ''vpcipclaims''"
  by (simp_all add: newVpcIpClaims_def)

text \<open>C17. The controller over the generated client: if the API server does to the objects of the resource
  vpcipclaims what \<open>rest_store\<close> says, then the calls of the controller, as its code makes them through the
  typed client, have the behaviour \<open>claim_api\<close> on which its properties rest.
\<close>

theorem typed_client_claim_api:
  assumes "rest_store R ''vpcipclaims'' ClaimBody (into_claim R) claim_key store"
    and "retries (ve_kube env)" and "keeps_claims env store"
  shows "claim_api (rest_vip_env R env) store"
proof -
  note get = rest_store.get_named [OF assms(1)] and upd = rest_store.update_named [OF assms(1)]
    and keep = rest_store.get_keeps [OF assms(1)] rest_store.list_keeps [OF assms(1)] and del = rest_store.delete_named [OF assms(1)]
  have reads: "claim_reads (rest_vip_env R env) store"
    using assms(3) keep
    by (simp add: claim_reads_def keeps_claims_def rest_vip_env_def rest_kube_def vpcIpClaims_List_def vpcIpClaims_Get_def)
  have retry: "retries (ve_kube (rest_vip_env R env))"
    using assms(2) by (simp add: retries_def rest_vip_env_def rest_kube_def)
  have one: "store w (ns, n) = Some c \<and> claim_key c = (ns, n)"
    if "VipsGet (ve_kube (rest_vip_env R env)) ns n w = (Inr c, w')" for ns n w c w'
    using that by (intro get [of "newVpcIpClaims ns"]) (simp_all add: rest_vip_env_def rest_kube_def vpcIpClaims_Get_def)
  have update: "(\<forall>k. k \<noteq> claim_key c \<longrightarrow> store w' k = store w k) \<and>
      store w' (claim_key c) \<in> (if r = None then {Some c, None} else {store w (claim_key c), Some c, None})"
    if "VipsUpdate (ve_kube (rest_vip_env R env)) c w = (r, w')" for c w r w'
  proof -
    let ?call = "do_into R (into_claim R) (update_request (newVpcIpClaims (vc_Namespace c)) (vc_Name c) (ClaimBody c) WriteOptions_zero) w"
    have "only_err ?call = (r, w')"
      using that by (simp add: rest_vip_env_def rest_kube_def vpcIpClaims_Update_def)
    then obtain r1 where "?call = (r1, w')" and r: "r = err_of r1"
      by (cases ?call) (simp add: only_err_def)
    from upd [OF _ _ _ this(1)] show ?thesis unfolding r by (simp add: claim_key_def)
  qed
  have delete: "store (snd (VipsDelete (rest_vip_env R env) ns n w)) k = store w k" if "k \<noteq> (ns, n)" for ns n w k
    using del [of "newVpcIpClaims ns" ns k n] that
    by (simp add: rest_vip_env_def vpcIpClaims_Delete_def)
  show ?thesis unfolding claim_api_def using reads retry one update delete by blast
qed

section \<open>An API server in memory\<close>

type_synonym claim_list = "((string \<times> string) \<times> VpcIpClaim) list"

definition label_matches :: "string \<Rightarrow> VpcIpClaim \<Rightarrow> bool" where
  "label_matches sel c =
     (sel = [] \<or> (case Split sel (CHR ''='') of
        [k, v] \<Rightarrow> (case vc_Labels c of Some l \<Rightarrow> l k = Some v | None \<Rightarrow> False)
      | _ \<Rightarrow> False))"

definition mem_list :: "string \<Rightarrow> params \<Rightarrow> claim_list \<Rightarrow> VpcIpClaim list" where
  "mem_list ns ps w = filter (\<lambda>c. (ns = [] \<or> vc_Namespace c = ns) \<and>
     (case ps of ListParams opts \<Rightarrow> label_matches (lo_LabelSelector opts) c | _ \<Rightarrow> True)) (map snd w)"

definition mem_do :: "rest_request \<Rightarrow> claim_list \<Rightarrow> VpcIpClaim list result \<times> claim_list" where
  "mem_do q w =
     (if rq_Resource q \<noteq> ''vpcipclaims'' \<or> rq_SubResource q \<noteq> [] then (Inl (Kube KNotFound), w)
      else case (rq_Verb q, rq_Name q) of
        (VerbGet, None) \<Rightarrow> (Inr (mem_list (ns_of q) (rq_Params q) w), w)
      | (VerbGet, Some n) \<Rightarrow>
          (case map_of w (ns_of q, n) of
             Some c \<Rightarrow> if claim_key c = (ns_of q, n) then (Inr [c], w) else (Inl (Kube KNotFound), w)
           | None \<Rightarrow> (Inl (Kube KNotFound), w))
      | (VerbPost, None) \<Rightarrow>
          (case rq_Body q of
             ClaimBody c \<Rightarrow>
               if map_of w (claim_key c) \<noteq> None then (Inl (Kube KAlreadyExists), w) else (Inr [c], (claim_key c, c) # w)
           | _ \<Rightarrow> (Inl (Kube KBadRequest), w))
      | (VerbPut, Some n) \<Rightarrow>
          (case rq_Body q of
             ClaimBody c \<Rightarrow>
               if map_of w (ns_of q, n) = None then (Inl (Kube KNotFound), w)
               else if claim_key c \<noteq> (ns_of q, n) then (Inl (Kube KBadRequest), w)
               else (Inr [c], AList.update (claim_key c) c w)
           | _ \<Rightarrow> (Inl (Kube KBadRequest), w))
      | (VerbDelete, Some n) \<Rightarrow>
          (if map_of w (ns_of q, n) = None then (Inl (Kube KNotFound), w) else (Inr [], AList.delete (ns_of q, n) w))
      | _ \<Rightarrow> (Inl (Kube KMethodNotSupported), w))"

definition mem_rest :: "(VpcIpClaim list result, unit, claim_list) rest_client" where
  "mem_rest = \<lparr>rc_Do = mem_do, rc_Watch = (\<lambda>_ w. (Inl (Ext 0), w)), rc_Error = err_of,
     into_claim = (\<lambda>r. case r of Inr [c] \<Rightarrow> Inr c | Inr _ \<Rightarrow> Inl (Ext 1) | Inl e \<Rightarrow> Inl e), into_claims = (\<lambda>r. r),
     into_ipamd = (\<lambda>_. Inl (Ext 0)), into_ipamds = (\<lambda>_. Inl (Ext 0)), into_podnet = (\<lambda>_. Inl (Ext 0)),
     into_podnets = (\<lambda>_. Inl (Ext 0)), fields_EscapeValue = (\<lambda>s. s)\<rparr>"

interpretation mem_rest: rest_store mem_rest "''vpcipclaims''" ClaimBody "into_claim mem_rest" claim_key map_of
proof (unfold_locales, goal_cases)
  case (1 q w)
  then show ?case
    by (auto simp: mem_rest_def mem_do_def split: option.splits)
next
  case (2 q n w x)
  then show ?case
    by (auto simp: mem_rest_def mem_do_def split: option.splits if_splits)
next
  case (3 q n x w)
  then show ?case
    by (auto simp: mem_rest_def mem_do_def update_conv')
next
  case (4 q n k w)
  then show ?case
    by (auto simp: mem_rest_def mem_do_def delete_conv')
qed

definition mem_controller :: "(unit, claim_list) vip_env" where
  "mem_controller = rest_vip_env mem_rest vip_down"

lemma vip_down_reads: "retries (ve_kube vip_down)" "keeps_claims vip_down store"
  by (auto simp: retries_def keeps_claims_def vip_down_def kube_down_def cloud_down_def intro: runs_nil)

theorem typed_client_claim_api_witness:
  "claim_api mem_controller map_of \<and>
   (\<exists>w'. VipsUpdate (ve_kube mem_controller) (detached ''2024-01-02 03:04:05'' web_claim)
       [((''ns'', ''web-1''), web_claim)] = (None, w') \<and>
     map_of w' (''ns'', ''web-1'') = Some (detached ''2024-01-02 03:04:05'' web_claim))"
proof
  show "claim_api mem_controller map_of"
    unfolding mem_controller_def
    by (rule typed_client_claim_api [OF mem_rest.rest_store_axioms vip_down_reads])
  have "claim_key web_claim = (''ns'', ''web-1'')" by (simp add: claim_key_def web_claim_def)
  then show "\<exists>w'. VipsUpdate (ve_kube mem_controller) (detached ''2024-01-02 03:04:05'' web_claim)
       [((''ns'', ''web-1''), web_claim)] = (None, w') \<and>
     map_of w' (''ns'', ''web-1'') = Some (detached ''2024-01-02 03:04:05'' web_claim)"
    by (simp add: mem_controller_def rest_vip_env_def rest_kube_def vpcIpClaims_Update_def do_into_def
        mem_rest_def mem_do_def only_err_def ns_of_def claim_key_def detached_def web_claim_def newVpcIpClaims_def)
qed

end
