(* ===== verification/Informers.thy ===== *)
theory Informers
  imports Rest_Client Vip_Queue
begin

text \<open>
  The informers and listers of the custom resources, \<open>kubernetes/generated/informers\<close> and
  \<open>kubernetes/generated/listers\<close>, and how the controllers of \<open>cmd/vip-controller\<close> are built on them. The cache behind a
  lister and the informer itself are \<open>client-go\<close>'s: the record \<open>indexer\<close>, and \<open>informer\<close>, told apart by a number that
  counts the informers made.
\<close>

section \<open>Listers\<close>

text \<open>\<open>ix_ListAll\<close> is \<open>cache.ListAll\<close>: the objects the callback was called with, in order, and the error.\<close>

record 'o indexer =
  ix_GetByKey :: "string \<Rightarrow> 'o option result" \<comment> \<open>\<open>None\<close>: it does not exist\<close>
  ix_ListAll :: "string \<Rightarrow> 'o list \<times> gerror option"
  ix_ListAllByNamespace :: "string \<Rightarrow> string \<Rightarrow> 'o list \<times> gerror option"

definition append_all :: "'o list \<times> gerror option \<Rightarrow> 'o list \<times> gerror option" where
  "append_all ls = (fold (\<lambda>m ret. ret @ [m]) (fst ls) [], snd ls)"

definition get_by_key :: "'o indexer \<Rightarrow> string \<Rightarrow> 'o result" where
  "get_by_key I k =
     (case ix_GetByKey I k of Inl e \<Rightarrow> Inl e | Inr None \<Rightarrow> Inl (Kube KNotFound) | Inr (Some obj) \<Rightarrow> Inr obj)"

definition vpcIpClaimLister_List :: "VpcIpClaim indexer \<Rightarrow> string \<Rightarrow> VpcIpClaim list \<times> gerror option" where
  "vpcIpClaimLister_List I selector = append_all (ix_ListAll I selector)"

definition vpcIpClaimNamespaceLister_List ::
  "VpcIpClaim indexer \<Rightarrow> string \<Rightarrow> string \<Rightarrow> VpcIpClaim list \<times> gerror option" where
  "vpcIpClaimNamespaceLister_List I namespace selector = append_all (ix_ListAllByNamespace I namespace selector)"

definition vpcIpClaimNamespaceLister_Get :: "VpcIpClaim indexer \<Rightarrow> string \<Rightarrow> string \<Rightarrow> VpcIpClaim result" where
  "vpcIpClaimNamespaceLister_Get I namespace name = get_by_key I (namespace @ ''/'' @ name)"

definition ipamdLister_List :: "Ipamd indexer \<Rightarrow> string \<Rightarrow> Ipamd list \<times> gerror option" where
  "ipamdLister_List I selector = append_all (ix_ListAll I selector)"

definition ipamdNamespaceLister_List :: "Ipamd indexer \<Rightarrow> string \<Rightarrow> string \<Rightarrow> Ipamd list \<times> gerror option" where
  "ipamdNamespaceLister_List I namespace selector = append_all (ix_ListAllByNamespace I namespace selector)"

definition ipamdNamespaceLister_Get :: "Ipamd indexer \<Rightarrow> string \<Rightarrow> string \<Rightarrow> Ipamd result" where
  "ipamdNamespaceLister_Get I namespace name = get_by_key I (namespace @ ''/'' @ name)"

definition podNetworkingLister_List :: "PodNetworking indexer \<Rightarrow> string \<Rightarrow> PodNetworking list \<times> gerror option" where
  "podNetworkingLister_List I selector = append_all (ix_ListAll I selector)"

definition podNetworkingLister_Get :: "PodNetworking indexer \<Rightarrow> string \<Rightarrow> PodNetworking result" where
  "podNetworkingLister_Get I name = get_by_key I name"

lemma append_all_id: "append_all (ls :: 'a list \<times> gerror option) = ls"
proof -
  have "fold (\<lambda>m ret. ret @ [m]) xs ys = ys @ xs" for xs ys :: "'a list"
    by (induction xs arbitrary: ys) simp_all
  then show ?thesis by (simp add: append_all_def)
qed

lemma split_at_sep:
  assumes "a \<notin> set xs" and "a \<notin> set xs'" and "xs @ a # ys = xs' @ a # ys'"
  shows "xs = xs' \<and> ys = ys'"
proof -
  have "takeWhile (\<lambda>x. x \<noteq> a) (zs @ a # us) = zs" if "a \<notin> set zs" for zs us
    using that by (induction zs) auto
  with assms have "xs = xs'" by metis
  then show ?thesis using assms(3) by simp
qed

text \<open>
  Over a cache that holds each claim under its namespace and name, a lister gets a claim exactly when the cache has it.
  Names without a slash, as Kubernetes has them, make the key unambiguous.
\<close>

lemma lister_get_cached:
  assumes "\<And>k. ix_GetByKey I k = Inr (map_of (map (\<lambda>c. (vc_Namespace c @ ''/'' @ vc_Name c, c)) cs) k)"
    and "\<And>c. c \<in> set cs \<Longrightarrow> CHR ''/'' \<notin> set (vc_Namespace c)" and "CHR ''/'' \<notin> set ns"
    and "vpcIpClaimNamespaceLister_Get I ns n = Inr c"
  shows "c \<in> set cs \<and> vc_Namespace c = ns \<and> vc_Name c = n"
proof -
  have "map_of (map (\<lambda>c. (vc_Namespace c @ ''/'' @ vc_Name c, c)) cs) (ns @ ''/'' @ n) = Some c"
    using assms(4) by (auto simp: vpcIpClaimNamespaceLister_Get_def get_by_key_def assms(1) split: option.splits)
  then have c: "c \<in> set cs" "vc_Namespace c @ CHR ''/'' # vc_Name c = ns @ CHR ''/'' # n"
    by (auto dest!: map_of_SomeD)
  then show ?thesis using split_at_sep [OF assms(2) [OF c(1)] assms(3)] by blast
qed

section \<open>Informers\<close>

datatype otype = IpamdType | VpcIpClaimType | PodNetworkingType

record informer =
  if_id :: nat
  if_type :: otype
  if_list :: "ListOptions \<Rightarrow> rest_request"
  if_watch :: "ListOptions \<Rightarrow> rest_request"
  if_resync :: int
  if_byNamespace :: bool \<comment> \<open>the indexer \<open>MetaNamespaceIndexFunc\<close>\<close>

record factory =
  fa_namespace :: string
  fa_tweak :: "(ListOptions \<Rightarrow> ListOptions) option"
  fa_defaultResync :: int
  fa_customResync :: "otype \<rightharpoonup> int"
  fa_informers :: "(otype \<times> informer) list"
  fa_started :: "otype list"
  fa_made :: nat \<comment> \<open>how many informers were made\<close>
  fa_running :: "nat list" \<comment> \<open>the goroutines that run an informer\<close>

subsection \<open>factory.go\<close>

datatype informer_option =
    WithCustomResyncConfig "(otype \<times> int) list"
  | WithTweakListOptions "(ListOptions \<Rightarrow> ListOptions) option"
  | WithNamespace string

definition apply_option :: "informer_option \<Rightarrow> factory \<Rightarrow> factory" where
  "apply_option opt f =
     (case opt of
        WithCustomResyncConfig kvs \<Rightarrow> f\<lparr>fa_customResync := fold (\<lambda>(k, v) m. m(k \<mapsto> v)) kvs (fa_customResync f)\<rparr>
      | WithTweakListOptions t \<Rightarrow> f\<lparr>fa_tweak := t\<rparr>
      | WithNamespace ns \<Rightarrow> f\<lparr>fa_namespace := ns\<rparr>)"

definition NewSharedInformerFactoryWithOptions :: "int \<Rightarrow> informer_option list \<Rightarrow> factory" where
  "NewSharedInformerFactoryWithOptions defaultResync opts =
     fold apply_option opts
       \<lparr>fa_namespace = [], fa_tweak = None, fa_defaultResync = defaultResync, fa_customResync = Map.empty,
        fa_informers = [], fa_started = [], fa_made = 0, fa_running = []\<rparr>"

definition NewSharedInformerFactory :: "int \<Rightarrow> factory" where
  "NewSharedInformerFactory defaultResync = NewSharedInformerFactoryWithOptions defaultResync []"

definition NewFilteredSharedInformerFactory :: "int \<Rightarrow> string \<Rightarrow> (ListOptions \<Rightarrow> ListOptions) option \<Rightarrow> factory" where
  "NewFilteredSharedInformerFactory defaultResync namespace tweak =
     NewSharedInformerFactoryWithOptions defaultResync [WithNamespace namespace, WithTweakListOptions tweak]"

text \<open>\<open>newFunc\<close> makes an informer with a resync period; the library gives it its identity.\<close>

definition InformerFor :: "otype \<Rightarrow> (int \<Rightarrow> nat \<Rightarrow> informer) \<Rightarrow> factory \<Rightarrow> informer \<times> factory" where
  "InformerFor t newFunc f =
     (case map_of (fa_informers f) t of
        Some i \<Rightarrow> (i, f)
      | None \<Rightarrow>
          let resyncPeriod = (case fa_customResync f t of Some r \<Rightarrow> r | None \<Rightarrow> fa_defaultResync f);
              i = newFunc resyncPeriod (fa_made f)
          in (i, f\<lparr>fa_informers := (t, i) # fa_informers f, fa_made := Suc (fa_made f)\<rparr>))"

fun start_all :: "(otype \<times> informer) list \<Rightarrow> factory \<Rightarrow> factory" where
  "start_all [] f = f"
| "start_all ((t, i) # tis) f =
     start_all tis
       (if t \<in> set (fa_started f) then f
        else f\<lparr>fa_started := t # fa_started f, fa_running := if_id i # fa_running f\<rparr>)"

text \<open>The order in which Go ranges over the map is an argument.\<close>

definition factory_Start :: "((otype \<times> informer) list \<Rightarrow> (otype \<times> informer) list) \<Rightarrow> factory \<Rightarrow> factory" where
  "factory_Start order f = start_all (order (fa_informers f)) f"

definition WaitForCacheSync :: "(informer \<Rightarrow> bool) \<Rightarrow> factory \<Rightarrow> otype \<rightharpoonup> bool" where
  "WaitForCacheSync hasSynced f =
     map_of (map (\<lambda>(t, i). (t, hasSynced i)) (filter (\<lambda>(t, i). t \<in> set (fa_started f)) (fa_informers f)))"

subsection \<open>The informers of the resources\<close>

text \<open>What the groups and versions hand on: the namespace and the filter of the factory.\<close>

record access =
  ac_namespace :: string
  ac_tweak :: "(ListOptions \<Rightarrow> ListOptions) option"

definition factory_group :: "factory \<Rightarrow> access" where
  "factory_group f = \<lparr>ac_namespace = fa_namespace f, ac_tweak = fa_tweak f\<rparr>"

definition tweaked :: "(ListOptions \<Rightarrow> ListOptions) option \<Rightarrow> ListOptions \<Rightarrow> ListOptions" where
  "tweaked t opts = (case t of None \<Rightarrow> opts | Some g \<Rightarrow> g opts)"

definition NewFilteredInformer ::
  "typed_client \<Rightarrow> otype \<Rightarrow> int \<Rightarrow> bool \<Rightarrow> (ListOptions \<Rightarrow> ListOptions) option \<Rightarrow> nat \<Rightarrow> informer" where
  "NewFilteredInformer c t resyncPeriod indexed tweak n =
     \<lparr>if_id = n, if_type = t, if_list = (\<lambda>opts. list_request c (tweaked tweak opts)),
      if_watch = (\<lambda>opts. watch_request c (tweaked tweak opts)), if_resync = resyncPeriod, if_byNamespace = indexed\<rparr>"

definition NewFilteredVpcIpClaimInformer ::
  "string \<Rightarrow> int \<Rightarrow> bool \<Rightarrow> (ListOptions \<Rightarrow> ListOptions) option \<Rightarrow> nat \<Rightarrow> informer" where
  "NewFilteredVpcIpClaimInformer namespace = NewFilteredInformer (newVpcIpClaims namespace) VpcIpClaimType"

definition NewFilteredIpamdInformer ::
  "string \<Rightarrow> int \<Rightarrow> bool \<Rightarrow> (ListOptions \<Rightarrow> ListOptions) option \<Rightarrow> nat \<Rightarrow> informer" where
  "NewFilteredIpamdInformer namespace = NewFilteredInformer (newIpamds namespace) IpamdType"

definition NewFilteredPodNetworkingInformer ::
  "int \<Rightarrow> bool \<Rightarrow> (ListOptions \<Rightarrow> ListOptions) option \<Rightarrow> nat \<Rightarrow> informer" where
  "NewFilteredPodNetworkingInformer = NewFilteredInformer newPodNetworkings PodNetworkingType"

lemmas filtered_defs = NewFilteredVpcIpClaimInformer_def NewFilteredIpamdInformer_def NewFilteredPodNetworkingInformer_def
  NewFilteredInformer_def

definition vpcIpClaimInformer :: "access \<Rightarrow> factory \<Rightarrow> informer \<times> factory" where
  "vpcIpClaimInformer a =
     InformerFor VpcIpClaimType (\<lambda>resync. NewFilteredVpcIpClaimInformer (ac_namespace a) resync True (ac_tweak a))"

definition ipamdInformer :: "access \<Rightarrow> factory \<Rightarrow> informer \<times> factory" where
  "ipamdInformer a =
     InformerFor IpamdType (\<lambda>resync. NewFilteredIpamdInformer (ac_namespace a) resync True (ac_tweak a))"

definition podNetworkingInformer :: "access \<Rightarrow> factory \<Rightarrow> informer \<times> factory" where
  "podNetworkingInformer a =
     InformerFor PodNetworkingType (\<lambda>resync. NewFilteredPodNetworkingInformer resync True (ac_tweak a))"

text \<open>\<open>ForResource\<close> of \<open>generic.go\<close>: the group, version and resource of one of the three.\<close>

definition ForResource :: "(string \<times> string) \<times> string \<Rightarrow> factory \<Rightarrow> informer result \<times> factory" where
  "ForResource gvr f =
     (if gvr = (ipamd_SchemeGroupVersion, ''ipamds'') then apfst Inr (ipamdInformer (factory_group f) f)
      else if gvr = (vip_SchemeGroupVersion, ''vpcipclaims'') then apfst Inr (vpcIpClaimInformer (factory_group f) f)
      else if gvr = (vpc_SchemeGroupVersion, ''podnetworkings'') then apfst Inr (podNetworkingInformer (factory_group f) f)
      else (Inl (Errors_New ''no informer found for %v''), f))"

section \<open>The factory shares its informers and runs each once\<close>

text \<open>The informers the programs can ask for: of a resource, through the groups or through \<open>ForResource\<close>.\<close>

definition informer_of :: "otype \<Rightarrow> factory \<Rightarrow> informer \<times> factory" where
  "informer_of t f =
     (case t of
        IpamdType \<Rightarrow> ipamdInformer (factory_group f) f
      | VpcIpClaimType \<Rightarrow> vpcIpClaimInformer (factory_group f) f
      | PodNetworkingType \<Rightarrow> podNetworkingInformer (factory_group f) f)"

inductive factory_step :: "factory \<Rightarrow> factory \<Rightarrow> bool" where
  fs_informer: "informer_of t f = (i, f') \<Longrightarrow> factory_step f f'"
| fs_start: "(\<And>xs. set (order xs) = set xs) \<Longrightarrow> factory_step f (factory_Start order f)"

definition factory_ok :: "factory \<Rightarrow> bool" where
  "factory_ok f \<longleftrightarrow>
     distinct (map fst (fa_informers f)) \<and> distinct (map (if_id \<circ> snd) (fa_informers f)) \<and>
     (\<forall>(t, i) \<in> set (fa_informers f). if_id i < fa_made f) \<and>
     distinct (fa_started f) \<and> distinct (fa_running f) \<and>
     set (fa_running f) = {if_id i | t i. (t, i) \<in> set (fa_informers f) \<and> t \<in> set (fa_started f)} \<and>
     set (fa_started f) \<subseteq> fst ` set (fa_informers f)"

lemma factory_running: "factory_ok f \<Longrightarrow> n \<in> set (fa_running f) \<longleftrightarrow>
    (\<exists>t i. n = if_id i \<and> (t, i) \<in> set (fa_informers f) \<and> t \<in> set (fa_started f))"
  by (simp add: factory_ok_def)

lemma factory_runs_distinct: "factory_ok f \<Longrightarrow> distinct (fa_running f)"
  by (simp add: factory_ok_def)

lemma informer_of_eq:
  "\<exists>newFunc. informer_of t f = InformerFor t newFunc f \<and> (\<forall>r n. if_id (newFunc r n) = n)"
  by (cases t) (auto simp: informer_of_def ipamdInformer_def vpcIpClaimInformer_def podNetworkingInformer_def filtered_defs)

lemma informer_of_spec:
  assumes "factory_ok f" and "informer_of t f = (i, f')"
  shows "factory_ok f' \<and> map_of (fa_informers f') t = Some i \<and>
    (\<forall>u j. map_of (fa_informers f) u = Some j \<longrightarrow> map_of (fa_informers f') u = Some j) \<and>
    fa_started f' = fa_started f \<and> fa_running f' = fa_running f"
proof -
  obtain newFunc where n: "informer_of t f = InformerFor t newFunc f" and ids: "\<And>r k. if_id (newFunc r k) = k"
    using informer_of_eq by blast
  show ?thesis
  proof (cases "map_of (fa_informers f) t")
    case (Some j)
    then have "i = j" "f' = f" using assms(2) n by (simp_all add: InformerFor_def)
    then show ?thesis using assms(1) Some by simp
  next
    case None
    then have f': "f' = f\<lparr>fa_informers := (t, i) # fa_informers f, fa_made := Suc (fa_made f)\<rparr>" and i: "if_id i = fa_made f"
      using assms(2) n ids by (auto simp: InformerFor_def Let_def)
    have new: "t \<notin> fst ` set (fa_informers f)" using None by (simp add: map_of_eq_None_iff)
    then have "t \<notin> set (fa_started f)" using assms(1) by (auto simp: factory_ok_def)
    moreover have "fa_made f \<notin> (if_id \<circ> snd) ` set (fa_informers f)"
      using assms(1) by (force simp: factory_ok_def)
    ultimately have "factory_ok f'" using assms(1) new i
      by (auto simp: factory_ok_def f' less_Suc_eq)
    then show ?thesis using None by (auto simp: f')
  qed
qed

lemma start_all_spec:
  assumes "factory_ok f" and "set tis \<subseteq> set (fa_informers f)"
  shows "factory_ok (start_all tis f) \<and> fa_informers (start_all tis f) = fa_informers f \<and>
    set (fa_started (start_all tis f)) = set (fa_started f) \<union> fst ` set tis"
  using assms
proof (induction tis arbitrary: f)
  case (Cons ti tis)
  obtain t i where ti: "ti = (t, i)" by fastforce
  show ?case
  proof (cases "t \<in> set (fa_started f)")
    case True
    then show ?thesis using Cons.IH [of f] Cons.prems ti by auto
  next
    case False
    let ?g = "f\<lparr>fa_started := t # fa_started f, fa_running := if_id i # fa_running f\<rparr>"
    have inj: "inj_on (if_id \<circ> snd) (set (fa_informers f))" using Cons.prems(1) by (simp add: factory_ok_def distinct_map)
    have here: "(t, i) \<in> set (fa_informers f)" using Cons.prems(2) ti by simp
    have "if_id j \<noteq> if_id i" if "(u, j) \<in> set (fa_informers f)" "u \<in> set (fa_started f)" for u j
      using inj_onD [OF inj _ that(1) here] that(2) False by auto
    then have new: "if_id i \<notin> set (fa_running f)"
      using factory_running [OF Cons.prems(1)] by metis
    have only: "j = i" if "(t, j) \<in> set (fa_informers f)" for j
      using that here Cons.prems(1) by (auto simp: factory_ok_def dest: eq_key_imp_eq_value)
    have "n = if_id i \<or> n \<in> set (fa_running f) \<longleftrightarrow>
        (\<exists>u j. n = if_id j \<and> (u, j) \<in> set (fa_informers f) \<and> (u = t \<or> u \<in> set (fa_started f)))" for n
      unfolding factory_running [OF Cons.prems(1)] using only here by blast
    then have run: "set (fa_running ?g) = {if_id j | u j. (u, j) \<in> set (fa_informers ?g) \<and> u \<in> set (fa_started ?g)}"
      by (simp add: set_eq_iff)
    have "t \<in> fst ` set (fa_informers f)" using here by force
    then have "factory_ok ?g" using Cons.prems(1) new False run unfolding factory_ok_def by simp
    then show ?thesis using Cons.IH [of ?g] Cons.prems False ti by auto
  qed
qed simp

lemma factory_Start_spec:
  assumes "factory_ok f" and "\<And>xs. set (order xs) = set xs"
  shows "factory_ok (factory_Start order f) \<and> fa_informers (factory_Start order f) = fa_informers f \<and>
    set (fa_running (factory_Start order f)) = (if_id \<circ> snd) ` set (fa_informers f)"
proof -
  note s = start_all_spec [OF assms(1), of "order (fa_informers f)"]
  have "{if_id i | t i. (t, i) \<in> set (fa_informers f) \<and> t \<in> set (fa_started f) \<union> fst ` set (fa_informers f)} =
      (if_id \<circ> snd) ` set (fa_informers f)" by force
  moreover have "set (fa_running g) = {if_id i | t i. (t, i) \<in> set (fa_informers g) \<and> t \<in> set (fa_started g)}" if "factory_ok g" for g
    using that by (simp add: factory_ok_def)
  ultimately show ?thesis using s assms(2) unfolding factory_Start_def by simp
qed

lemma factory_step_spec:
  assumes "factory_step f f'" and "factory_ok f"
  shows "factory_ok f' \<and> (\<forall>t i. map_of (fa_informers f) t = Some i \<longrightarrow> map_of (fa_informers f') t = Some i)"
  using assms by (cases rule: factory_step.cases) (auto dest: informer_of_spec simp: factory_Start_spec)

lemma factory_run_spec:
  assumes "factory_step\<^sup>*\<^sup>* f f'" and "factory_ok f"
  shows "factory_ok f' \<and> (\<forall>t i. map_of (fa_informers f) t = Some i \<longrightarrow> map_of (fa_informers f') t = Some i)"
  using assms(1) by (induction rule: rtranclp_induct) (use assms(2) in \<open>auto dest: factory_step_spec\<close>)

lemma NewSharedInformerFactory_ok: "factory_ok (NewSharedInformerFactoryWithOptions resync opts)"
proof -
  have "factory_ok f \<Longrightarrow> fa_informers f = [] \<Longrightarrow> factory_ok (fold apply_option opts f)" for f
  proof (induction opts arbitrary: f)
    case (Cons opt opts)
    have "factory_ok (apply_option opt f) \<and> fa_informers (apply_option opt f) = []"
      using Cons.prems by (cases opt) (simp_all add: apply_option_def factory_ok_def)
    then show ?case using Cons.IH by simp
  qed simp
  then show ?thesis by (simp add: NewSharedInformerFactoryWithOptions_def factory_ok_def)
qed

text \<open>C19. Whatever informers are asked for, through the groups or \<open>ForResource\<close>, and however often \<open>Start\<close> is called in
  between: asking again for a resource gives the same informer, no informer is run twice, and after a \<open>Start\<close> every informer that
  was asked for runs.
\<close>

theorem informers_shared_and_run_once:
  assumes "factory_step\<^sup>*\<^sup>* (NewSharedInformerFactoryWithOptions resync opts) f" and "factory_step\<^sup>*\<^sup>* f f'"
    and "informer_of t f = (i, f)" and "\<And>xs. set (order xs) = set xs"
  shows "informer_of t f' = (i, f') \<and> distinct (fa_running (factory_Start order f')) \<and>
    set (fa_running (factory_Start order f')) = (if_id \<circ> snd) ` set (fa_informers f') \<and>
    if_id i \<in> set (fa_running (factory_Start order f'))"
proof -
  have ok: "factory_ok f" "factory_ok f'"
    using factory_run_spec NewSharedInformerFactory_ok assms(1,2) by blast+
  have "map_of (fa_informers f) t = Some i" using informer_of_spec [OF ok(1) assms(3)] by simp
  then have here: "map_of (fa_informers f') t = Some i" using factory_run_spec [OF assms(2) ok(1)] by simp
  then have "informer_of t f' = (i, f')" using informer_of_eq [of t f'] by (auto simp: InformerFor_def)
  moreover have "if_id i \<in> (if_id \<circ> snd) ` set (fa_informers f')" using map_of_SomeD [OF here] by force
  ultimately show ?thesis using factory_Start_spec [where order = order, OF ok(2) assms(4)] factory_runs_distinct by metis
qed

theorem informers_shared_and_run_once_witness:
  "let f = snd (informer_of VpcIpClaimType (NewSharedInformerFactory 0)); i = fst (informer_of VpcIpClaimType f);
       f' = snd (informer_of IpamdType (factory_Start rev f))
   in informer_of VpcIpClaimType f' = (i, f') \<and> fa_running (factory_Start rev f') = [1, 0]"
proof -
  let ?new = "NewSharedInformerFactoryWithOptions 0 []"
  let ?f = "snd (informer_of VpcIpClaimType ?new)" let ?i = "fst (informer_of VpcIpClaimType ?f)"
  let ?f' = "snd (informer_of IpamdType (factory_Start rev ?f))"
  have step: "factory_step f (snd (informer_of t f))" for t f
    by (rule fs_informer [of t f "fst (informer_of t f)"]) simp
  have 1: "factory_step\<^sup>*\<^sup>* ?new ?f" using step by (rule r_into_rtranclp)
  have 2: "factory_step\<^sup>*\<^sup>* ?f ?f'"
  proof -
    have "factory_step ?f (factory_Start rev ?f)" by (rule fs_start) simp
    then show ?thesis using step by (meson rtranclp.rtrancl_into_rtrancl r_into_rtranclp)
  qed
  have 3: "informer_of VpcIpClaimType ?f = (?i, ?f)"
    by (simp add: informer_of_def vpcIpClaimInformer_def InformerFor_def NewSharedInformerFactoryWithOptions_def Let_def)
  have "fa_running (factory_Start rev ?f') = [1, 0]"
    by (simp add: informer_of_def vpcIpClaimInformer_def ipamdInformer_def InformerFor_def NewSharedInformerFactoryWithOptions_def
        factory_Start_def filtered_defs Let_def)
  then show ?thesis using informers_shared_and_run_once [OF 1 2 3, of rev]
    unfolding Let_def NewSharedInformerFactory_def by simp
qed

section \<open>The controllers over their informers\<close>

text \<open>
  \<open>NewVipController\<close>: the informers its handler, its lister and its synchronisation belong to. Each is found by a call of
  \<open>Informer\<close> of its own.
\<close>

record vip_controller =
  vo_handler :: informer
  vo_lister :: informer
  vo_synced :: informer
  vo_workerLoopPeriod :: int

definition NewVipController :: "access \<Rightarrow> factory \<Rightarrow> vip_controller \<times> factory" where
  "NewVipController a f =
     (case vpcIpClaimInformer a f of (i1, f1) \<Rightarrow>
      case vpcIpClaimInformer a f1 of (i2, f2) \<Rightarrow>
      case vpcIpClaimInformer a f2 of (i3, f3) \<Rightarrow>
        (\<lparr>vo_handler = i1, vo_lister = i2, vo_synced = i3, vo_workerLoopPeriod = 50 * 10 ^ 6\<rparr>, f3))"

text \<open>\<open>Run\<close> of the two controllers: what happens, in order; deferred calls run last to first.\<close>

datatype controller_event = WaitForSync | StartWorker int | WaitForStop | ShutDown string

definition VipController_Run :: "bool \<Rightarrow> nat \<Rightarrow> controller_event list" where
  "VipController_Run synced workers =
     WaitForSync # (if synced then replicate workers (StartWorker (50 * 10 ^ 6)) @ [WaitForStop] else []) @ [ShutDown ''vpcipclaims'']"

definition StsController_Run :: "bool \<Rightarrow> nat \<Rightarrow> controller_event list" where
  "StsController_Run synced workers =
     WaitForSync # (if synced then replicate workers (StartWorker (10 * 10 ^ 6)) @ [WaitForStop] else []) @
       [ShutDown ''delete'', ShutDown ''update'']"

text \<open>The part of \<open>main\<close> that makes the controller of the claims and starts its informer.\<close>

definition main_vip_controller :: "((otype \<times> informer) list \<Rightarrow> (otype \<times> informer) list) \<Rightarrow> vip_controller \<times> factory" where
  "main_vip_controller order =
     (let f = NewSharedInformerFactory 0 in
      case NewVipController (factory_group f) f of (c, f1) \<Rightarrow> (c, factory_Start order f1))"

text \<open>The three informers are one, it runs, and it lists the claims of all namespaces.\<close>

lemma main_vip_controller_informer:
  assumes "main_vip_controller order = (c, f)" and "\<And>xs. set (order xs) = set xs"
  shows "vo_lister c = vo_handler c \<and> vo_synced c = vo_handler c \<and> fa_running f = [if_id (vo_handler c)] \<and>
    if_list (vo_handler c) opts = list_request (newVpcIpClaims []) opts"
proof -
  have "order [x] = [x] \<or> start_all (order [x]) g = start_all [x] g" if "fst x \<notin> set (fa_started g)" for x g
  proof -
    have "set (order [x]) = {x}" by (simp add: assms(2))
    moreover have "start_all xs h = h" if "set xs \<subseteq> {x}" "fst x \<in> set (fa_started h)" for xs h
      using that by (induction xs) (auto simp: split_paired_all)
    ultimately show ?thesis using that by (cases "order [x]"; cases x) auto
  qed
  then have one: "start_all (order [x]) g = start_all [x] g" if "fst x \<notin> set (fa_started g)" for x g using that by metis
  show ?thesis using assms(1)
    by (auto simp: main_vip_controller_def NewVipController_def vpcIpClaimInformer_def InformerFor_def Let_def
        NewSharedInformerFactory_def NewSharedInformerFactoryWithOptions_def factory_group_def factory_Start_def one
        filtered_defs tweaked_def)
qed

end
