(* ===== verification/Grpc.thy ===== *)
theory Grpc
  imports Ipamd_Rpc Cni_Records
begin

text \<open>
  The gRPC service between the plugin and the daemon as \<open>rpc/ipamd.pb.go\<close> implements it: the client's stubs, the
  handlers and the table of the service, the getters of the messages and the names of the error codes. The transport is
  \<open>google.golang.org/grpc\<close>, a parameter: \<open>Invoke\<close> of a connection, and the decoder that a handler is given. A message is
  told apart by its type, the datatypes \<open>rpc_request\<close> and \<open>rpc_response\<close>.
\<close>

section \<open>Messages of any type\<close>

datatype rpc_request =
    PingReq
  | AddReq AddPodNetworkRequest
  | DelReq DelPodNetworkRequest
  | AddRecordReq AddPodNetworkRecordRequest
  | DelRecordReq RecordKeyRequest
  | GetRecordReq RecordKeyRequest
  | ListRecordReq
  | BorrowReq BorrowIPRequest
  | MultiReq

datatype rpc_response =
    PingResp
  | AddResp AddPodNetworkResponse
  | DelResp CNIErrorCode
  | AddRecordResp CNIErrorCode
  | DelRecordResp CNIErrorCode
  | GetRecordResp AddPodNetworkResponse
  | ListRecordResp ListPodNetworkRecordResponse
  | BorrowResp BorrowIPResponse
  | MultiResp SupportMultiSubnetResponse

datatype rpc_method = MPing | MAddPodNetwork | MDelPodNetwork | MAddPodNetworkRecord | MDelPodNetworkRecord | MGetPodNetworkRecord | MListPodNetworkRecord | MBorrowIP | MSupportMultiSubnet

fun request_type :: "rpc_request \<Rightarrow> rpc_method" where
  "request_type PingReq = MPing"
| "request_type (AddReq m) = MAddPodNetwork"
| "request_type (DelReq m) = MDelPodNetwork"
| "request_type (AddRecordReq m) = MAddPodNetworkRecord"
| "request_type (DelRecordReq m) = MDelPodNetworkRecord"
| "request_type (GetRecordReq m) = MGetPodNetworkRecord"
| "request_type ListRecordReq = MListPodNetworkRecord"
| "request_type (BorrowReq m) = MBorrowIP"
| "request_type MultiReq = MSupportMultiSubnet"

fun response_type :: "rpc_response \<Rightarrow> rpc_method" where
  "response_type PingResp = MPing"
| "response_type (AddResp m) = MAddPodNetwork"
| "response_type (DelResp m) = MDelPodNetwork"
| "response_type (AddRecordResp m) = MAddPodNetworkRecord"
| "response_type (DelRecordResp m) = MDelPodNetworkRecord"
| "response_type (GetRecordResp m) = MGetPodNetworkRecord"
| "response_type (ListRecordResp m) = MListPodNetworkRecord"
| "response_type (BorrowResp m) = MBorrowIP"
| "response_type (MultiResp m) = MSupportMultiSubnet"

section \<open>The interfaces\<close>

text \<open>\<open>CNIIpamServer\<close>: an error that is returned hides the response beside it.\<close>

record 's cni_server =
  sv_Ping :: "'s \<Rightarrow> unit result \<times> 's"
  sv_AddPodNetwork :: "AddPodNetworkRequest \<Rightarrow> 's \<Rightarrow> AddPodNetworkResponse result \<times> 's"
  sv_DelPodNetwork :: "DelPodNetworkRequest \<Rightarrow> 's \<Rightarrow> CNIErrorCode result \<times> 's"
  sv_AddPodNetworkRecord :: "AddPodNetworkRecordRequest \<Rightarrow> 's \<Rightarrow> CNIErrorCode result \<times> 's"
  sv_DelPodNetworkRecord :: "RecordKeyRequest \<Rightarrow> 's \<Rightarrow> CNIErrorCode result \<times> 's"
  sv_GetPodNetworkRecord :: "RecordKeyRequest \<Rightarrow> 's \<Rightarrow> AddPodNetworkResponse result \<times> 's"
  sv_ListPodNetworkRecord :: "'s \<Rightarrow> ListPodNetworkRecordResponse result \<times> 's"
  sv_BorrowIP :: "BorrowIPRequest \<Rightarrow> 's \<Rightarrow> BorrowIPResponse result \<times> 's"
  sv_SupportMultiSubnet :: "'s \<Rightarrow> SupportMultiSubnetResponse result \<times> 's"

text \<open>\<open>UnimplementedCNIIpamServer\<close>.\<close>

definition status_Unimplemented :: "string \<Rightarrow> gerror" where
  "status_Unimplemented m = Errorf ''rpc error: code = Unimplemented desc = %v'' (Some (Errors_New m))"

definition UnimplementedCNIIpamServer :: "'s cni_server" where
  "UnimplementedCNIIpamServer = \<lparr>
     sv_Ping = (\<lambda>s. (Inl (status_Unimplemented ''method Ping not implemented''), s)),
     sv_AddPodNetwork = (\<lambda>m s. (Inl (status_Unimplemented ''method AddPodNetwork not implemented''), s)),
     sv_DelPodNetwork = (\<lambda>m s. (Inl (status_Unimplemented ''method DelPodNetwork not implemented''), s)),
     sv_AddPodNetworkRecord = (\<lambda>m s. (Inl (status_Unimplemented ''method AddPodNetworkRecord not implemented''), s)),
     sv_DelPodNetworkRecord = (\<lambda>m s. (Inl (status_Unimplemented ''method DelPodNetworkRecord not implemented''), s)),
     sv_GetPodNetworkRecord = (\<lambda>m s. (Inl (status_Unimplemented ''method GetPodNetworkRecord not implemented''), s)),
     sv_ListPodNetworkRecord = (\<lambda>s. (Inl (status_Unimplemented ''method ListPodNetworkRecord not implemented''), s)),
     sv_BorrowIP = (\<lambda>m s. (Inl (status_Unimplemented ''method BorrowIP not implemented''), s)),
     sv_SupportMultiSubnet = (\<lambda>s. (Inl (status_Unimplemented ''method SupportMultiSubnet not implemented''), s))\<rparr>"

section \<open>The stubs of the client\<close>

text \<open>
  \<open>Invoke\<close> is given the full name of the method, the request and the type of the message that the answer is decoded into;
  an answer of another type does not arise.
\<close>

type_synonym 's invoke = "string \<Rightarrow> rpc_request \<Rightarrow> rpc_method \<Rightarrow> 's \<Rightarrow> rpc_response result \<times> 's"

definition call ::
  "'s invoke \<Rightarrow> string \<Rightarrow> rpc_request \<Rightarrow> rpc_method \<Rightarrow> (rpc_response \<Rightarrow> 'r option) \<Rightarrow> 's \<Rightarrow> 'r result \<times> 's" where
  "call Invoke meth m t out s =
     (case Invoke meth m t s of
        (Inl e, s1) \<Rightarrow> (Inl e, s1)
      | (Inr resp, s1) \<Rightarrow> ((case out resp of Some r \<Rightarrow> Inr r | None \<Rightarrow> Inl Panic), s1))"

definition client_Ping :: "'s invoke \<Rightarrow> 's \<Rightarrow> unit result \<times> 's" where
  "client_Ping Invoke =
     call Invoke ''/rpc.CNIIpam/Ping'' PingReq MPing (\<lambda>r. case r of PingResp \<Rightarrow> Some () | _ \<Rightarrow> None)"

definition client_AddPodNetwork :: "'s invoke \<Rightarrow> AddPodNetworkRequest \<Rightarrow> 's \<Rightarrow> AddPodNetworkResponse result \<times> 's" where
  "client_AddPodNetwork Invoke m =
     call Invoke ''/rpc.CNIIpam/AddPodNetwork'' (AddReq m) MAddPodNetwork (\<lambda>r. case r of AddResp x \<Rightarrow> Some x | _ \<Rightarrow> None)"

definition client_DelPodNetwork :: "'s invoke \<Rightarrow> DelPodNetworkRequest \<Rightarrow> 's \<Rightarrow> CNIErrorCode result \<times> 's" where
  "client_DelPodNetwork Invoke m =
     call Invoke ''/rpc.CNIIpam/DelPodNetwork'' (DelReq m) MDelPodNetwork (\<lambda>r. case r of DelResp x \<Rightarrow> Some x | _ \<Rightarrow> None)"

definition client_AddPodNetworkRecord :: "'s invoke \<Rightarrow> AddPodNetworkRecordRequest \<Rightarrow> 's \<Rightarrow> CNIErrorCode result \<times> 's" where
  "client_AddPodNetworkRecord Invoke m =
     call Invoke ''/rpc.CNIIpam/AddPodNetworkRecord'' (AddRecordReq m) MAddPodNetworkRecord (\<lambda>r. case r of AddRecordResp x \<Rightarrow> Some x | _ \<Rightarrow> None)"

definition client_DelPodNetworkRecord :: "'s invoke \<Rightarrow> RecordKeyRequest \<Rightarrow> 's \<Rightarrow> CNIErrorCode result \<times> 's" where
  "client_DelPodNetworkRecord Invoke m =
     call Invoke ''/rpc.CNIIpam/DelPodNetworkRecord'' (DelRecordReq m) MDelPodNetworkRecord (\<lambda>r. case r of DelRecordResp x \<Rightarrow> Some x | _ \<Rightarrow> None)"

definition client_GetPodNetworkRecord :: "'s invoke \<Rightarrow> RecordKeyRequest \<Rightarrow> 's \<Rightarrow> AddPodNetworkResponse result \<times> 's" where
  "client_GetPodNetworkRecord Invoke m =
     call Invoke ''/rpc.CNIIpam/GetPodNetworkRecord'' (GetRecordReq m) MGetPodNetworkRecord (\<lambda>r. case r of GetRecordResp x \<Rightarrow> Some x | _ \<Rightarrow> None)"

definition client_ListPodNetworkRecord :: "'s invoke \<Rightarrow> 's \<Rightarrow> ListPodNetworkRecordResponse result \<times> 's" where
  "client_ListPodNetworkRecord Invoke =
     call Invoke ''/rpc.CNIIpam/ListPodNetworkRecord'' ListRecordReq MListPodNetworkRecord (\<lambda>r. case r of ListRecordResp x \<Rightarrow> Some x | _ \<Rightarrow> None)"

definition client_BorrowIP :: "'s invoke \<Rightarrow> BorrowIPRequest \<Rightarrow> 's \<Rightarrow> BorrowIPResponse result \<times> 's" where
  "client_BorrowIP Invoke m =
     call Invoke ''/rpc.CNIIpam/BorrowIP'' (BorrowReq m) MBorrowIP (\<lambda>r. case r of BorrowResp x \<Rightarrow> Some x | _ \<Rightarrow> None)"

definition client_SupportMultiSubnet :: "'s invoke \<Rightarrow> 's \<Rightarrow> SupportMultiSubnetResponse result \<times> 's" where
  "client_SupportMultiSubnet Invoke =
     call Invoke ''/rpc.CNIIpam/SupportMultiSubnet'' MultiReq MSupportMultiSubnet (\<lambda>r. case r of MultiResp x \<Rightarrow> Some x | _ \<Rightarrow> None)"

section \<open>The handlers and the table of the service\<close>

text \<open>
  A handler decodes the request into a message of its type and calls the method of the server, through the interceptor if there
  is one. A type assertion that fails panics.
\<close>

type_synonym 's rpc_fun = "rpc_request \<Rightarrow> 's \<Rightarrow> rpc_response result \<times> 's"
type_synonym 's interceptor = "rpc_request \<Rightarrow> string \<Rightarrow> 's rpc_fun \<Rightarrow> 's \<Rightarrow> rpc_response result \<times> 's"
type_synonym 's handler = "(rpc_method \<Rightarrow> rpc_request result) \<Rightarrow> 's interceptor option \<Rightarrow> 's \<Rightarrow> rpc_response result \<times> 's"

definition unary_handler :: "rpc_method \<Rightarrow> string \<Rightarrow> 's rpc_fun \<Rightarrow> 's handler" where
  "unary_handler t fullMethod meth dec interceptor s =
     (case dec t of
        Inl e \<Rightarrow> (Inl e, s)
      | Inr m \<Rightarrow> (case interceptor of None \<Rightarrow> meth m s | Some f \<Rightarrow> f m fullMethod meth s))"

definition answer :: "('r \<Rightarrow> rpc_response) \<Rightarrow> 'r result \<times> 's \<Rightarrow> rpc_response result \<times> 's" where
  "answer f rs = (map_sum id f (fst rs), snd rs)"

definition CNIIpam_Ping_Handler :: "'s cni_server \<Rightarrow> 's handler" where
  "CNIIpam_Ping_Handler srv = unary_handler MPing ''/rpc.CNIIpam/Ping''
     (\<lambda>m s. case m of PingReq \<Rightarrow> answer (\<lambda>_. PingResp) (sv_Ping srv s) | _ \<Rightarrow> (Inl Panic, s))"

definition CNIIpam_AddPodNetwork_Handler :: "'s cni_server \<Rightarrow> 's handler" where
  "CNIIpam_AddPodNetwork_Handler srv = unary_handler MAddPodNetwork ''/rpc.CNIIpam/AddPodNetwork''
     (\<lambda>m s. case m of AddReq x \<Rightarrow> answer AddResp (sv_AddPodNetwork srv x s) | _ \<Rightarrow> (Inl Panic, s))"

definition CNIIpam_DelPodNetwork_Handler :: "'s cni_server \<Rightarrow> 's handler" where
  "CNIIpam_DelPodNetwork_Handler srv = unary_handler MDelPodNetwork ''/rpc.CNIIpam/DelPodNetwork''
     (\<lambda>m s. case m of DelReq x \<Rightarrow> answer DelResp (sv_DelPodNetwork srv x s) | _ \<Rightarrow> (Inl Panic, s))"

definition CNIIpam_AddPodNetworkRecord_Handler :: "'s cni_server \<Rightarrow> 's handler" where
  "CNIIpam_AddPodNetworkRecord_Handler srv = unary_handler MAddPodNetworkRecord ''/rpc.CNIIpam/AddPodNetworkRecord''
     (\<lambda>m s. case m of AddRecordReq x \<Rightarrow> answer AddRecordResp (sv_AddPodNetworkRecord srv x s) | _ \<Rightarrow> (Inl Panic, s))"

definition CNIIpam_DelPodNetworkRecord_Handler :: "'s cni_server \<Rightarrow> 's handler" where
  "CNIIpam_DelPodNetworkRecord_Handler srv = unary_handler MDelPodNetworkRecord ''/rpc.CNIIpam/DelPodNetworkRecord''
     (\<lambda>m s. case m of DelRecordReq x \<Rightarrow> answer DelRecordResp (sv_DelPodNetworkRecord srv x s) | _ \<Rightarrow> (Inl Panic, s))"

definition CNIIpam_GetPodNetworkRecord_Handler :: "'s cni_server \<Rightarrow> 's handler" where
  "CNIIpam_GetPodNetworkRecord_Handler srv = unary_handler MGetPodNetworkRecord ''/rpc.CNIIpam/GetPodNetworkRecord''
     (\<lambda>m s. case m of GetRecordReq x \<Rightarrow> answer GetRecordResp (sv_GetPodNetworkRecord srv x s) | _ \<Rightarrow> (Inl Panic, s))"

definition CNIIpam_ListPodNetworkRecord_Handler :: "'s cni_server \<Rightarrow> 's handler" where
  "CNIIpam_ListPodNetworkRecord_Handler srv = unary_handler MListPodNetworkRecord ''/rpc.CNIIpam/ListPodNetworkRecord''
     (\<lambda>m s. case m of ListRecordReq \<Rightarrow> answer ListRecordResp (sv_ListPodNetworkRecord srv s) | _ \<Rightarrow> (Inl Panic, s))"

definition CNIIpam_BorrowIP_Handler :: "'s cni_server \<Rightarrow> 's handler" where
  "CNIIpam_BorrowIP_Handler srv = unary_handler MBorrowIP ''/rpc.CNIIpam/BorrowIP''
     (\<lambda>m s. case m of BorrowReq x \<Rightarrow> answer BorrowResp (sv_BorrowIP srv x s) | _ \<Rightarrow> (Inl Panic, s))"

definition CNIIpam_SupportMultiSubnet_Handler :: "'s cni_server \<Rightarrow> 's handler" where
  "CNIIpam_SupportMultiSubnet_Handler srv = unary_handler MSupportMultiSubnet ''/rpc.CNIIpam/SupportMultiSubnet''
     (\<lambda>m s. case m of MultiReq \<Rightarrow> answer MultiResp (sv_SupportMultiSubnet srv s) | _ \<Rightarrow> (Inl Panic, s))"

definition CNIIpam_ServiceName :: string where
  "CNIIpam_ServiceName = ''rpc.CNIIpam''"

definition CNIIpam_serviceDesc :: "'s cni_server \<Rightarrow> (string \<times> 's handler) list" where
  "CNIIpam_serviceDesc srv =
     [(''Ping'', CNIIpam_Ping_Handler srv),
      (''AddPodNetwork'', CNIIpam_AddPodNetwork_Handler srv),
      (''DelPodNetwork'', CNIIpam_DelPodNetwork_Handler srv),
      (''AddPodNetworkRecord'', CNIIpam_AddPodNetworkRecord_Handler srv),
      (''DelPodNetworkRecord'', CNIIpam_DelPodNetworkRecord_Handler srv),
      (''GetPodNetworkRecord'', CNIIpam_GetPodNetworkRecord_Handler srv),
      (''ListPodNetworkRecord'', CNIIpam_ListPodNetworkRecord_Handler srv),
      (''BorrowIP'', CNIIpam_BorrowIP_Handler srv),
      (''SupportMultiSubnet'', CNIIpam_SupportMultiSubnet_Handler srv)]"

text \<open>The full name under which a method of the service is called.\<close>

definition full_name :: "string \<Rightarrow> string" where
  "full_name meth = ''/'' @ CNIIpam_ServiceName @ ''/'' @ meth"

section \<open>A connection\<close>

text \<open>
  What the library documents: while the server can be reached, a call of a method in the table of the registered
  service runs the handler on the request as it was sent, and returns its answer, or its error as a status; a call
  that does not reach the server changes nothing there.
\<close>

definition sent :: "rpc_request \<Rightarrow> rpc_method \<Rightarrow> rpc_request result" where
  "sent m t = (if request_type m = t then Inr m else Inl (Errors_New ''proto: mismatched message type''))"

definition received :: "(gerror \<Rightarrow> gerror) \<Rightarrow> rpc_method \<Rightarrow> rpc_response result \<times> 's \<Rightarrow> rpc_response result \<times> 's" where
  "received status t rs =
     ((case fst rs of
         Inl e \<Rightarrow> Inl (status e)
       | Inr resp \<Rightarrow> if response_type resp = t then Inr resp else Inl (Errors_New ''proto: mismatched message type'')), snd rs)"

locale grpc_conn =
  fixes Invoke :: "'s invoke" and srv :: "'s cni_server" and interceptor :: "'s interceptor option"
    and up :: "'s \<Rightarrow> bool" and status :: "gerror \<Rightarrow> gerror"
  assumes served: "up s \<Longrightarrow> (name, h) \<in> set (CNIIpam_serviceDesc srv) \<Longrightarrow>
      Invoke (full_name name) m t s = received status t (h (sent m) interceptor s)"
    and not_served: "\<not> up s \<Longrightarrow> \<exists>e. Invoke meth m t s = (Inl e, s)"
begin

lemma call_down: "\<not> up s \<Longrightarrow> \<exists>e. call Invoke meth m t out s = (Inl e, s)"
  using not_served [of s meth m t] by (auto simp: call_def)

end

text \<open>What a caller sees of a method of the server.\<close>

definition over_wire :: "(gerror \<Rightarrow> gerror) \<Rightarrow> 'r result \<times> 's \<Rightarrow> 'r result \<times> 's" where
  "over_wire status rs = (map_sum status id (fst rs), snd rs)"

lemmas grpc_defs = CNIIpam_serviceDesc_def full_name_def CNIIpam_ServiceName_def unary_handler_def sent_def

lemma call_handler:
  assumes "grpc_conn Invoke srv None up status" and "up s"
    and "(name, h) \<in> set (CNIIpam_serviceDesc srv)" and "meth = full_name name"
    and "h (sent m) None s = answer f rs" and "\<And>x. response_type (f x) = t" and "\<And>x. out (f x) = Some x"
  shows "call Invoke meth m t out s = over_wire status rs"
proof -
  have "Invoke meth m t s = received status t (answer f rs)"
    using grpc_conn.served [OF assms(1-3), of m t] assms(4,5) by simp
  then show ?thesis using assms(6,7)
    by (cases rs; cases "fst rs") (auto simp: call_def received_def answer_def over_wire_def)
qed

lemma client_Ping_served:
  assumes "grpc_conn Invoke srv None up status" and "up s"
  shows "client_Ping Invoke s = over_wire status (sv_Ping srv s)"
  unfolding client_Ping_def
  by (rule call_handler [OF assms, where name = "''Ping''" and h = "CNIIpam_Ping_Handler srv" and f = "\<lambda>_. PingResp"])
     (simp_all add: grpc_defs CNIIpam_Ping_Handler_def)

lemma client_AddPodNetwork_served:
  assumes "grpc_conn Invoke srv None up status" and "up s"
  shows "client_AddPodNetwork Invoke m s = over_wire status (sv_AddPodNetwork srv m s)"
  unfolding client_AddPodNetwork_def
  by (rule call_handler [OF assms, where name = "''AddPodNetwork''" and h = "CNIIpam_AddPodNetwork_Handler srv" and f = AddResp])
     (simp_all add: grpc_defs CNIIpam_AddPodNetwork_Handler_def)

lemma client_DelPodNetwork_served:
  assumes "grpc_conn Invoke srv None up status" and "up s"
  shows "client_DelPodNetwork Invoke m s = over_wire status (sv_DelPodNetwork srv m s)"
  unfolding client_DelPodNetwork_def
  by (rule call_handler [OF assms, where name = "''DelPodNetwork''" and h = "CNIIpam_DelPodNetwork_Handler srv" and f = DelResp])
     (simp_all add: grpc_defs CNIIpam_DelPodNetwork_Handler_def)

lemma client_AddPodNetworkRecord_served:
  assumes "grpc_conn Invoke srv None up status" and "up s"
  shows "client_AddPodNetworkRecord Invoke m s = over_wire status (sv_AddPodNetworkRecord srv m s)"
  unfolding client_AddPodNetworkRecord_def
  by (rule call_handler [OF assms, where name = "''AddPodNetworkRecord''" and h = "CNIIpam_AddPodNetworkRecord_Handler srv" and f = AddRecordResp])
     (simp_all add: grpc_defs CNIIpam_AddPodNetworkRecord_Handler_def)

lemma client_DelPodNetworkRecord_served:
  assumes "grpc_conn Invoke srv None up status" and "up s"
  shows "client_DelPodNetworkRecord Invoke m s = over_wire status (sv_DelPodNetworkRecord srv m s)"
  unfolding client_DelPodNetworkRecord_def
  by (rule call_handler [OF assms, where name = "''DelPodNetworkRecord''" and h = "CNIIpam_DelPodNetworkRecord_Handler srv" and f = DelRecordResp])
     (simp_all add: grpc_defs CNIIpam_DelPodNetworkRecord_Handler_def)

lemma client_GetPodNetworkRecord_served:
  assumes "grpc_conn Invoke srv None up status" and "up s"
  shows "client_GetPodNetworkRecord Invoke m s = over_wire status (sv_GetPodNetworkRecord srv m s)"
  unfolding client_GetPodNetworkRecord_def
  by (rule call_handler [OF assms, where name = "''GetPodNetworkRecord''" and h = "CNIIpam_GetPodNetworkRecord_Handler srv" and f = GetRecordResp])
     (simp_all add: grpc_defs CNIIpam_GetPodNetworkRecord_Handler_def)

lemma client_ListPodNetworkRecord_served:
  assumes "grpc_conn Invoke srv None up status" and "up s"
  shows "client_ListPodNetworkRecord Invoke s = over_wire status (sv_ListPodNetworkRecord srv s)"
  unfolding client_ListPodNetworkRecord_def
  by (rule call_handler [OF assms, where name = "''ListPodNetworkRecord''" and h = "CNIIpam_ListPodNetworkRecord_Handler srv" and f = ListRecordResp])
     (simp_all add: grpc_defs CNIIpam_ListPodNetworkRecord_Handler_def)

lemma client_BorrowIP_served:
  assumes "grpc_conn Invoke srv None up status" and "up s"
  shows "client_BorrowIP Invoke m s = over_wire status (sv_BorrowIP srv m s)"
  unfolding client_BorrowIP_def
  by (rule call_handler [OF assms, where name = "''BorrowIP''" and h = "CNIIpam_BorrowIP_Handler srv" and f = BorrowResp])
     (simp_all add: grpc_defs CNIIpam_BorrowIP_Handler_def)

lemma client_SupportMultiSubnet_served:
  assumes "grpc_conn Invoke srv None up status" and "up s"
  shows "client_SupportMultiSubnet Invoke s = over_wire status (sv_SupportMultiSubnet srv s)"
  unfolding client_SupportMultiSubnet_def
  by (rule call_handler [OF assms, where name = "''SupportMultiSubnet''" and h = "CNIIpam_SupportMultiSubnet_Handler srv" and f = MultiResp])
     (simp_all add: grpc_defs CNIIpam_SupportMultiSubnet_Handler_def)

lemmas clients_served =
  client_Ping_served
  client_AddPodNetwork_served
  client_DelPodNetwork_served
  client_AddPodNetworkRecord_served
  client_DelPodNetworkRecord_served
  client_GetPodNetworkRecord_served
  client_ListPodNetworkRecord_served
  client_BorrowIP_served
  client_SupportMultiSubnet_served

text \<open>A stub of the client runs the method of its name on the server, on the request it was given, and returns what the method returned, an
  error as a status; this holds of all nine methods of the service, for a server without an interceptor such as the daemon's.
\<close>

theorem grpc_reaches_methods:
  assumes "grpc_conn Invoke srv None up status" and "up s"
  shows "client_Ping Invoke s = over_wire status (sv_Ping srv s) \<and>
    client_AddPodNetwork Invoke m1 s = over_wire status (sv_AddPodNetwork srv m1 s) \<and>
    client_DelPodNetwork Invoke m2 s = over_wire status (sv_DelPodNetwork srv m2 s) \<and>
    client_AddPodNetworkRecord Invoke m3 s = over_wire status (sv_AddPodNetworkRecord srv m3 s) \<and>
    client_DelPodNetworkRecord Invoke m4 s = over_wire status (sv_DelPodNetworkRecord srv m4 s) \<and>
    client_GetPodNetworkRecord Invoke m5 s = over_wire status (sv_GetPodNetworkRecord srv m5 s) \<and>
    client_ListPodNetworkRecord Invoke s = over_wire status (sv_ListPodNetworkRecord srv s) \<and>
    client_BorrowIP Invoke m7 s = over_wire status (sv_BorrowIP srv m7 s) \<and>
    client_SupportMultiSubnet Invoke s = over_wire status (sv_SupportMultiSubnet srv s)"
  using assms by (simp add: clients_served)

end
