(* ===== verification/Grpc_Props.thy ===== *)
theory Grpc_Props
  imports Grpc Cni_Rpc Ipamd_Rpc_Props
begin

text \<open>
  The plugin and the daemon together: the daemon's handlers as the registered service, the plugin's client made of the
  stubs, over any connection that keeps the promises \<open>grpc_conn\<close>. A connection in memory is an instance.
\<close>

section \<open>The daemon's service and the plugin's client\<close>

definition responded :: "'r \<times> gerror option \<Rightarrow> 'r result" where
  "responded re = (case snd re of None \<Rightarrow> Inr (fst re) | Some e \<Rightarrow> Inl e)"

definition ipamd_service :: "('d, 'w) ipamServer \<Rightarrow> orders \<Rightarrow> ('d, 'w) istate cni_server" where
  "ipamd_service s ords = \<lparr>
     sv_Ping = (\<lambda>st. (Inr (), st)),
     sv_AddPodNetwork = (\<lambda>m st. apfst responded (AddPodNetwork s ords m st)),
     sv_DelPodNetwork = (\<lambda>m st. apfst responded (DelPodNetwork s ords m st)),
     sv_AddPodNetworkRecord = (\<lambda>m st. apfst responded (AddPodNetworkRecord s m st)),
     sv_DelPodNetworkRecord = (\<lambda>m st. apfst responded (DelPodNetworkRecord s m st)),
     sv_GetPodNetworkRecord = (\<lambda>m st. (responded (GetPodNetworkRecord s m st), st)),
     sv_ListPodNetworkRecord = (\<lambda>st. (responded (ListPodNetworkRecord s st), st)),
     sv_BorrowIP = (\<lambda>m st. apfst responded (BorrowIP s m st)),
     sv_SupportMultiSubnet = (\<lambda>st. (Inr SupportMultiSubnet, st))\<rparr>"


section \<open>A connection in memory\<close>

definition loopback :: "'s cni_server \<Rightarrow> 's interceptor option \<Rightarrow> (gerror \<Rightarrow> gerror) \<Rightarrow> 's invoke" where
  "loopback srv interceptor status meth m t s =
     (case map_of (map (\<lambda>(name, h). (full_name name, h)) (CNIIpam_serviceDesc srv)) meth of
        None \<Rightarrow> (Inl (status_Unimplemented ''unknown method''), s)
      | Some h \<Rightarrow> received status t (h (sent m) interceptor s))"

lemma map_of_full_name:
  "map_of (map (\<lambda>(n, h). (full_name n, h)) xs) (full_name name) = map_of xs name"
  by (induction xs) (auto simp: full_name_def)

lemma serviceDesc_distinct: "distinct (map fst (CNIIpam_serviceDesc srv))"
  by (simp add: CNIIpam_serviceDesc_def)

interpretation loop: grpc_conn "loopback srv interceptor status" srv interceptor "\<lambda>_. True" status
  for srv interceptor status
proof (unfold_locales, goal_cases)
  case (1 s name h m t)
  then have "map_of (CNIIpam_serviceDesc srv) name = Some h"
    by (intro map_of_is_SomeI serviceDesc_distinct)
  then show ?case by (simp add: loopback_def map_of_full_name)
qed simp

theorem grpc_reaches_methods_witness:
  "fst (client_BorrowIP (loopback (ipamd_service demo_server demo_orders) None (\<lambda>e. e))
      \<lparr>br_MacAddress = [], br_SubnetID = []\<rparr> demo_records) = Inl (status_InvalidArgument ''missing MacAddr'')"
  using grpc_reaches_methods [OF loop.grpc_conn_axioms [of "ipamd_service demo_server demo_orders" None "\<lambda>e. e"] TrueI,
      of demo_records _ _ _ _ _ "\<lparr>br_MacAddress = [], br_SubnetID = []\<rparr>"]
  by (simp add: ipamd_service_def BorrowIP_def responded_def over_wire_def)

section \<open>Records kept through the daemon\<close>










end
