(* ===== verification/Rpc_Messages.thy ===== *)
theory Rpc_Messages
  imports Rpc_Types
begin

text \<open>
  The accessors of the messages in \<open>rpc/ipamd.pb.go\<close>, which may be called on a \<open>nil\<close> message, and the names and
  numbers of the error codes.
\<close>

section \<open>Error codes\<close>

fun CNIErrorCode_Number :: "CNIErrorCode \<Rightarrow> int" where
  "CNIErrorCode_Number CNISuccess = 0"
| "CNIErrorCode_Number CNIMissingParameters = 1001"
| "CNIErrorCode_Number CNIAllocateSecondaryIPFailure = 1002"
| "CNIErrorCode_Number CNIReleaseSecondaryIPFailure = 1003"
| "CNIErrorCode_Number CNIAllocateEIPFailure = 1004"
| "CNIErrorCode_Number CNIReleaseEIPFailure = 1005"
| "CNIErrorCode_Number CNIBindEIPFailure = 1006"
| "CNIErrorCode_Number CNIUnbindEIPFailure = 1007"
| "CNIErrorCode_Number CNIAllocateUNIFailure = 1008"
| "CNIErrorCode_Number CNIReleaseUNIFailure = 1009"
| "CNIErrorCode_Number CNIAttachUNIFailure = 1010"
| "CNIErrorCode_Number CNIDetachUNIFailure = 1011"
| "CNIErrorCode_Number CNIK8SAPIError = 1012"
| "CNIErrorCode_Number CNIWriteDBError = 1013"
| "CNIErrorCode_Number CNIReadDBError = 1014"
| "CNIErrorCode_Number CNIBorrowIPFailure = 1015"

definition CNIErrorCode_name :: "(int \<times> string) list" where
  "CNIErrorCode_name =
     [(0, ''CNISuccess''),
      (1001, ''CNIMissingParameters''),
      (1002, ''CNIAllocateSecondaryIPFailure''),
      (1003, ''CNIReleaseSecondaryIPFailure''),
      (1004, ''CNIAllocateEIPFailure''),
      (1005, ''CNIReleaseEIPFailure''),
      (1006, ''CNIBindEIPFailure''),
      (1007, ''CNIUnbindEIPFailure''),
      (1008, ''CNIAllocateUNIFailure''),
      (1009, ''CNIReleaseUNIFailure''),
      (1010, ''CNIAttachUNIFailure''),
      (1011, ''CNIDetachUNIFailure''),
      (1012, ''CNIK8SAPIError''),
      (1013, ''CNIWriteDBError''),
      (1014, ''CNIReadDBError''),
      (1015, ''CNIBorrowIPFailure'')]"

definition CNIErrorCode_value :: "(string \<times> int) list" where
  "CNIErrorCode_value =
     [(''CNISuccess'', 0),
      (''CNIMissingParameters'', 1001),
      (''CNIAllocateSecondaryIPFailure'', 1002),
      (''CNIReleaseSecondaryIPFailure'', 1003),
      (''CNIAllocateEIPFailure'', 1004),
      (''CNIReleaseEIPFailure'', 1005),
      (''CNIBindEIPFailure'', 1006),
      (''CNIUnbindEIPFailure'', 1007),
      (''CNIAllocateUNIFailure'', 1008),
      (''CNIReleaseUNIFailure'', 1009),
      (''CNIAttachUNIFailure'', 1010),
      (''CNIDetachUNIFailure'', 1011),
      (''CNIK8SAPIError'', 1012),
      (''CNIWriteDBError'', 1013),
      (''CNIReadDBError'', 1014),
      (''CNIBorrowIPFailure'', 1015)]"

text \<open>The two tables are inverse to each other, and every code has a name.\<close>

lemma CNIErrorCode_tables:
  "CNIErrorCode_value = map (\<lambda>(n, c). (c, n)) CNIErrorCode_name"
  "distinct (map fst CNIErrorCode_name)" "distinct (map fst CNIErrorCode_value)"
  by (simp_all add: CNIErrorCode_value_def CNIErrorCode_name_def)

lemma CNIErrorCode_named:
  "\<exists>c. map_of CNIErrorCode_name (CNIErrorCode_Number e) = Some c \<and> map_of CNIErrorCode_value c = Some (CNIErrorCode_Number e)"
  by (cases e) (simp_all add: CNIErrorCode_value_def CNIErrorCode_name_def)

section \<open>Accessors\<close>

definition nil_safe :: "'v \<Rightarrow> ('m \<Rightarrow> 'v) \<Rightarrow> 'm option \<Rightarrow> 'v" where
  "nil_safe zero f x = (case x of Some m \<Rightarrow> f m | None \<Rightarrow> zero)"

lemma nil_safe_simps [simp]: "nil_safe zero f None = zero" "nil_safe zero f (Some m) = f m"
  by (simp_all add: nil_safe_def)

definition AddPodNetworkRequest_GetPodName :: "AddPodNetworkRequest option \<Rightarrow> string" where
  "AddPodNetworkRequest_GetPodName = nil_safe [] ar_PodName"

definition AddPodNetworkRequest_GetPodNamespace :: "AddPodNetworkRequest option \<Rightarrow> string" where
  "AddPodNetworkRequest_GetPodNamespace = nil_safe [] ar_PodNamespace"

definition AddPodNetworkRequest_GetSandboxID :: "AddPodNetworkRequest option \<Rightarrow> string" where
  "AddPodNetworkRequest_GetSandboxID = nil_safe [] ar_SandboxID"

definition AddPodNetworkRequest_GetNetns :: "AddPodNetworkRequest option \<Rightarrow> string" where
  "AddPodNetworkRequest_GetNetns = nil_safe [] ar_Netns"

definition AddPodNetworkRequest_GetIfName :: "AddPodNetworkRequest option \<Rightarrow> string" where
  "AddPodNetworkRequest_GetIfName = nil_safe [] ar_IfName"

definition AddPodNetworkRequest_GetSubnetID :: "AddPodNetworkRequest option \<Rightarrow> string" where
  "AddPodNetworkRequest_GetSubnetID = nil_safe [] ar_SubnetID"

definition AddPodNetworkRequest_GetMacAddress :: "AddPodNetworkRequest option \<Rightarrow> string" where
  "AddPodNetworkRequest_GetMacAddress = nil_safe [] ar_MacAddress"

definition AddPodNetworkRequest_GetInterfaceID :: "AddPodNetworkRequest option \<Rightarrow> string" where
  "AddPodNetworkRequest_GetInterfaceID = nil_safe [] ar_InterfaceID"

definition AddPodNetworkResponse_GetCode :: "AddPodNetworkResponse option \<Rightarrow> CNIErrorCode" where
  "AddPodNetworkResponse_GetCode = nil_safe CNISuccess as_Code"

definition AddPodNetworkResponse_GetPodNetwork :: "AddPodNetworkResponse option \<Rightarrow> PodNetwork option" where
  "AddPodNetworkResponse_GetPodNetwork = nil_safe None as_PodNetwork"

definition DelPodNetworkRequest_GetPodNetwork :: "DelPodNetworkRequest option \<Rightarrow> PodNetwork option" where
  "DelPodNetworkRequest_GetPodNetwork = nil_safe None dr_PodNetwork"

definition DelPodNetworkResponse_GetCode :: "CNIErrorCode option \<Rightarrow> CNIErrorCode" where
  "DelPodNetworkResponse_GetCode = nil_safe CNISuccess (\<lambda>c. c)"

definition AddPodNetworkRecordRequest_GetPodNetwork :: "AddPodNetworkRecordRequest option \<Rightarrow> PodNetwork option" where
  "AddPodNetworkRecordRequest_GetPodNetwork = nil_safe None (\<lambda>m. Some (arr_PodNetwork m))"

definition AddPodNetworkRecordResponse_GetCode :: "CNIErrorCode option \<Rightarrow> CNIErrorCode" where
  "AddPodNetworkRecordResponse_GetCode = nil_safe CNISuccess (\<lambda>c. c)"

definition DelPodNetworkRecordRequest_GetPodName :: "RecordKeyRequest option \<Rightarrow> string" where
  "DelPodNetworkRecordRequest_GetPodName = nil_safe [] rk_PodName"

definition DelPodNetworkRecordRequest_GetPodNS :: "RecordKeyRequest option \<Rightarrow> string" where
  "DelPodNetworkRecordRequest_GetPodNS = nil_safe [] rk_PodNS"

definition DelPodNetworkRecordRequest_GetSandboxID :: "RecordKeyRequest option \<Rightarrow> string" where
  "DelPodNetworkRecordRequest_GetSandboxID = nil_safe [] rk_SandboxID"

definition DelPodNetworkRecordResponse_GetCode :: "CNIErrorCode option \<Rightarrow> CNIErrorCode" where
  "DelPodNetworkRecordResponse_GetCode = nil_safe CNISuccess (\<lambda>c. c)"

definition GetPodNetworkRecordRequest_GetPodName :: "RecordKeyRequest option \<Rightarrow> string" where
  "GetPodNetworkRecordRequest_GetPodName = nil_safe [] rk_PodName"

definition GetPodNetworkRecordRequest_GetPodNS :: "RecordKeyRequest option \<Rightarrow> string" where
  "GetPodNetworkRecordRequest_GetPodNS = nil_safe [] rk_PodNS"

definition GetPodNetworkRecordRequest_GetSandboxID :: "RecordKeyRequest option \<Rightarrow> string" where
  "GetPodNetworkRecordRequest_GetSandboxID = nil_safe [] rk_SandboxID"

definition GetPodNetworkRecordResponse_GetCode :: "AddPodNetworkResponse option \<Rightarrow> CNIErrorCode" where
  "GetPodNetworkRecordResponse_GetCode = nil_safe CNISuccess as_Code"

definition GetPodNetworkRecordResponse_GetPodNetwork :: "AddPodNetworkResponse option \<Rightarrow> PodNetwork option" where
  "GetPodNetworkRecordResponse_GetPodNetwork = nil_safe None as_PodNetwork"

definition ListPodNetworkRecordResponse_GetCode :: "ListPodNetworkRecordResponse option \<Rightarrow> CNIErrorCode" where
  "ListPodNetworkRecordResponse_GetCode = nil_safe CNISuccess ls_Code"

definition ListPodNetworkRecordResponse_GetNetworks :: "ListPodNetworkRecordResponse option \<Rightarrow> PodNetwork list" where
  "ListPodNetworkRecordResponse_GetNetworks = nil_safe [] ls_Networks"

definition PodNetwork_GetPodName :: "PodNetwork option \<Rightarrow> string" where
  "PodNetwork_GetPodName = nil_safe [] pn_PodName"

definition PodNetwork_GetPodNS :: "PodNetwork option \<Rightarrow> string" where
  "PodNetwork_GetPodNS = nil_safe [] pn_PodNS"

definition PodNetwork_GetPodUID :: "PodNetwork option \<Rightarrow> string" where
  "PodNetwork_GetPodUID = nil_safe [] pn_PodUID"

definition PodNetwork_GetSandboxID :: "PodNetwork option \<Rightarrow> string" where
  "PodNetwork_GetSandboxID = nil_safe [] pn_SandboxID"

definition PodNetwork_GetNetNS :: "PodNetwork option \<Rightarrow> string" where
  "PodNetwork_GetNetNS = nil_safe [] pn_NetNS"

definition PodNetwork_GetVPCIP :: "PodNetwork option \<Rightarrow> string" where
  "PodNetwork_GetVPCIP = nil_safe [] pn_VPCIP"

definition PodNetwork_GetVPCID :: "PodNetwork option \<Rightarrow> string" where
  "PodNetwork_GetVPCID = nil_safe [] pn_VPCID"

definition PodNetwork_GetSubnetID :: "PodNetwork option \<Rightarrow> string" where
  "PodNetwork_GetSubnetID = nil_safe [] pn_SubnetID"

definition PodNetwork_GetGateway :: "PodNetwork option \<Rightarrow> string" where
  "PodNetwork_GetGateway = nil_safe [] pn_Gateway"

definition PodNetwork_GetMask :: "PodNetwork option \<Rightarrow> string" where
  "PodNetwork_GetMask = nil_safe [] pn_Mask"

definition PodNetwork_GetMacAddress :: "PodNetwork option \<Rightarrow> string" where
  "PodNetwork_GetMacAddress = nil_safe [] pn_MacAddress"

definition PodNetwork_GetDedicatedUNI :: "PodNetwork option \<Rightarrow> bool" where
  "PodNetwork_GetDedicatedUNI = nil_safe False pn_DedicatedUNI"

definition PodNetwork_GetInterfaceID :: "PodNetwork option \<Rightarrow> string" where
  "PodNetwork_GetInterfaceID = nil_safe [] pn_InterfaceID"

definition PodNetwork_GetEIPID :: "PodNetwork option \<Rightarrow> string" where
  "PodNetwork_GetEIPID = nil_safe [] pn_EIPID"

definition PodNetwork_GetCreateTime :: "PodNetwork option \<Rightarrow> int64" where
  "PodNetwork_GetCreateTime = nil_safe 0 pn_CreateTime"

definition PodNetwork_GetRecycleTime :: "PodNetwork option \<Rightarrow> int64" where
  "PodNetwork_GetRecycleTime = nil_safe 0 pn_RecycleTime"

definition PodNetwork_GetRecycled :: "PodNetwork option \<Rightarrow> bool" where
  "PodNetwork_GetRecycled = nil_safe False pn_Recycled"

definition BorrowIPRequest_GetMacAddress :: "BorrowIPRequest option \<Rightarrow> string" where
  "BorrowIPRequest_GetMacAddress = nil_safe [] br_MacAddress"

definition BorrowIPRequest_GetSubnetID :: "BorrowIPRequest option \<Rightarrow> string" where
  "BorrowIPRequest_GetSubnetID = nil_safe [] br_SubnetID"

definition BorrowIPResponse_GetCode :: "BorrowIPResponse option \<Rightarrow> CNIErrorCode" where
  "BorrowIPResponse_GetCode = nil_safe CNISuccess bs_Code"

definition BorrowIPResponse_GetIP :: "BorrowIPResponse option \<Rightarrow> PodNetwork option" where
  "BorrowIPResponse_GetIP = nil_safe None bs_IP"

definition SupportMultiSubnetResponse_GetCode :: "SupportMultiSubnetResponse option \<Rightarrow> CNIErrorCode" where
  "SupportMultiSubnetResponse_GetCode = nil_safe CNISuccess ms_Code"

definition SupportMultiSubnetResponse_GetSupport :: "SupportMultiSubnetResponse option \<Rightarrow> bool" where
  "SupportMultiSubnetResponse_GetSupport = nil_safe False ms_Support"

end
