(* ===== verification/Deep_Copy.thy ===== *)
theory Deep_Copy
  imports Prelude
begin

text \<open>
  The deep copies of the custom resources, \<open>zz_generated.deepcopy.go\<close> of the three groups under \<open>kubernetes/apis\<close>.
  What a copy may share with its original are the arrays behind slices, so the memory is explicit: a list of cells
  that only grows, addresses being positions. A struct is passed by its value, a pointer to one is an option; the struct that
  \<open>out\<close> points to is another one than that of \<open>in\<close>, as it is wherever the code calls \<open>DeepCopyInto\<close>. \<open>ObjectMeta\<close> and \<open>ListMeta\<close> are
  types of \<open>k8s.io/apimachinery\<close>, as are their copies: parameters, of which the locale \<open>deep_copy\<close> is what the code relies on.
\<close>

section \<open>Memory\<close>

record slice =
  sl_array :: nat
  sl_off :: nat
  sl_len :: nat

record ('m, 'sp, 'st) api_object =
  ob_TypeMeta :: "string \<times> string"
  ob_ObjectMeta :: 'm
  ob_Spec :: 'sp
  ob_Status :: 'st

record 'l api_list =
  ls_TypeMeta :: "string \<times> string"
  ls_ListMeta :: 'l
  ls_Items :: "slice option" \<comment> \<open>\<open>None\<close>: the nil slice\<close>

record Ipamd_Spec =
  is_Node :: string
  is_Addr :: string
  is_Subnet :: string

record Ipamd_Status =
  it_Current :: int
  it_High :: int
  it_Low :: int
  it_Status :: string

record VpcIpClaim_Spec =
  vs_Ip :: string
  vs_Mask :: string
  vs_Gateway :: string
  vs_SubnetId :: string
  vs_VpcId :: string

record VpcIpClaim_Status =
  vt_Attached :: bool
  vt_Zone :: string
  vt_LastDetachTime :: string
  vt_Mac :: string
  vt_ReleaseTime :: string
  vt_SandboxId :: string

record PodNetworking_Spec =
  ps_SecurityGroupIds :: "slice option"
  ps_SubnetIds :: "slice option"
  ps_Strategy :: string
  ps_NATGWOutgoingEnabled :: bool

record PodNetworking_Status =
  pt_Status :: string

type_synonym 'm ipamd_object = "('m, Ipamd_Spec, Ipamd_Status) api_object"
type_synonym 'm claim_object = "('m, VpcIpClaim_Spec, VpcIpClaim_Status) api_object"
type_synonym 'm podnet_object = "('m, PodNetworking_Spec, PodNetworking_Status) api_object"

datatype ('m, 'c) cell =
    StringArray "string list"
  | IpamdArray "'m ipamd_object list"
  | ClaimArray "'m claim_object list"
  | PodNetworkingArray "'m podnet_object list"
  | LibCell 'c

type_synonym ('m, 'c) heap = "('m, 'c) cell list"

fun strings_of :: "('m, 'c) cell \<Rightarrow> string list option" where
  "strings_of (StringArray xs) = Some xs"
| "strings_of _ = None"

fun ipamds_of :: "('m, 'c) cell \<Rightarrow> 'm ipamd_object list option" where
  "ipamds_of (IpamdArray xs) = Some xs"
| "ipamds_of _ = None"

fun claims_of :: "('m, 'c) cell \<Rightarrow> 'm claim_object list option" where
  "claims_of (ClaimArray xs) = Some xs"
| "claims_of _ = None"

fun podnets_of :: "('m, 'c) cell \<Rightarrow> 'm podnet_object list option" where
  "podnets_of (PodNetworkingArray xs) = Some xs"
| "podnets_of _ = None"

text \<open>What Go's slices do: \<open>make\<close>, the built-in \<open>copy\<close>, reading and writing an element.\<close>

definition make_slice :: "('a list \<Rightarrow> 'k) \<Rightarrow> 'a \<Rightarrow> nat \<Rightarrow> 'k list \<Rightarrow> slice \<times> 'k list" where
  "make_slice mk zero n h = (\<lparr>sl_array = length h, sl_off = 0, sl_len = n\<rparr>, h @ [mk (replicate n zero)])"

definition slice_view :: "('k \<Rightarrow> 'a list option) \<Rightarrow> 'k list \<Rightarrow> slice \<Rightarrow> 'a list" where
  "slice_view dest h s =
     (case dest (h ! sl_array s) of Some xs \<Rightarrow> take (sl_len s) (drop (sl_off s) xs) | None \<Rightarrow> [])"

definition copy_slice :: "('a list \<Rightarrow> 'k) \<Rightarrow> ('k \<Rightarrow> 'a list option) \<Rightarrow> slice \<Rightarrow> slice \<Rightarrow> 'k list \<Rightarrow> 'k list" where
  "copy_slice mk dest dst src h =
     (case dest (h ! sl_array dst) of
        None \<Rightarrow> h
      | Some xs \<Rightarrow>
          let ys = take (min (sl_len dst) (sl_len src)) (slice_view dest h src)
          in h[sl_array dst := mk (take (sl_off dst) xs @ ys @ drop (sl_off dst + length ys) xs)])"

definition set_item :: "('a list \<Rightarrow> 'k) \<Rightarrow> ('k \<Rightarrow> 'a list option) \<Rightarrow> slice \<Rightarrow> nat \<Rightarrow> 'a \<Rightarrow> 'k list \<Rightarrow> 'k list" where
  "set_item mk dest s i x h =
     (case dest (h ! sl_array s) of None \<Rightarrow> h | Some xs \<Rightarrow> h[sl_array s := mk (xs[sl_off s + i := x])])"

section \<open>The copies\<close>

text \<open>A field that is assigned, a slice of strings, and what is done unless a slice or the receiver is nil.\<close>

definition assign :: "'x \<Rightarrow> 'h \<Rightarrow> 'x \<times> 'h" where
  "assign x h = (x, h)"

definition copy_strings :: "slice \<Rightarrow> ('m, 'c) heap \<Rightarrow> slice \<times> ('m, 'c) heap" where
  "copy_strings s h =
     (case make_slice StringArray [] (sl_len s) h of (t, h1) \<Rightarrow> (t, copy_slice StringArray strings_of t s h1))"

definition unless_nil :: "('x \<Rightarrow> 'h \<Rightarrow> 'x \<times> 'h) \<Rightarrow> 'x option \<Rightarrow> 'h \<Rightarrow> 'x option \<times> 'h" where
  "unless_nil f x h = (case x of None \<Rightarrow> (None, h) | Some v \<Rightarrow> apfst Some (f v h))"

subsection \<open>Specifications and states\<close>

definition IpamdSpec_DeepCopyInto :: "Ipamd_Spec \<Rightarrow> 'h \<Rightarrow> Ipamd_Spec \<times> 'h" where
  "IpamdSpec_DeepCopyInto = assign"

definition IpamdStatus_DeepCopyInto :: "Ipamd_Status \<Rightarrow> 'h \<Rightarrow> Ipamd_Status \<times> 'h" where
  "IpamdStatus_DeepCopyInto = assign"

definition VpcIpClaimSpec_DeepCopyInto :: "VpcIpClaim_Spec \<Rightarrow> 'h \<Rightarrow> VpcIpClaim_Spec \<times> 'h" where
  "VpcIpClaimSpec_DeepCopyInto = assign"

definition VpcIpClaimStatus_DeepCopyInto :: "VpcIpClaim_Status \<Rightarrow> 'h \<Rightarrow> VpcIpClaim_Status \<times> 'h" where
  "VpcIpClaimStatus_DeepCopyInto = assign"

definition PodNetworkingStatus_DeepCopyInto :: "PodNetworking_Status \<Rightarrow> 'h \<Rightarrow> PodNetworking_Status \<times> 'h" where
  "PodNetworkingStatus_DeepCopyInto = assign"

definition PodNetworkingSpec_DeepCopyInto :: "PodNetworking_Spec \<Rightarrow> ('m, 'c) heap \<Rightarrow> PodNetworking_Spec \<times> ('m, 'c) heap" where
  "PodNetworkingSpec_DeepCopyInto x h =
     (case unless_nil copy_strings (ps_SecurityGroupIds x) h of (gs, h1) \<Rightarrow>
      case unless_nil copy_strings (ps_SubnetIds x) h1 of (ns, h2) \<Rightarrow>
        (x\<lparr>ps_SecurityGroupIds := gs, ps_SubnetIds := ns\<rparr>, h2))"

definition IpamdSpec_DeepCopy :: "Ipamd_Spec option \<Rightarrow> 'h \<Rightarrow> Ipamd_Spec option \<times> 'h" where
  "IpamdSpec_DeepCopy = unless_nil IpamdSpec_DeepCopyInto"

definition IpamdStatus_DeepCopy :: "Ipamd_Status option \<Rightarrow> 'h \<Rightarrow> Ipamd_Status option \<times> 'h" where
  "IpamdStatus_DeepCopy = unless_nil IpamdStatus_DeepCopyInto"

definition VpcIpClaimSpec_DeepCopy :: "VpcIpClaim_Spec option \<Rightarrow> 'h \<Rightarrow> VpcIpClaim_Spec option \<times> 'h" where
  "VpcIpClaimSpec_DeepCopy = unless_nil VpcIpClaimSpec_DeepCopyInto"

definition VpcIpClaimStatus_DeepCopy :: "VpcIpClaim_Status option \<Rightarrow> 'h \<Rightarrow> VpcIpClaim_Status option \<times> 'h" where
  "VpcIpClaimStatus_DeepCopy = unless_nil VpcIpClaimStatus_DeepCopyInto"

definition PodNetworkingStatus_DeepCopy :: "PodNetworking_Status option \<Rightarrow> 'h \<Rightarrow> PodNetworking_Status option \<times> 'h" where
  "PodNetworkingStatus_DeepCopy = unless_nil PodNetworkingStatus_DeepCopyInto"

definition PodNetworkingSpec_DeepCopy ::
  "PodNetworking_Spec option \<Rightarrow> ('m, 'c) heap \<Rightarrow> PodNetworking_Spec option \<times> ('m, 'c) heap" where
  "PodNetworkingSpec_DeepCopy = unless_nil PodNetworkingSpec_DeepCopyInto"

subsection \<open>Objects\<close>

text \<open>The three resources have the same body, over the copy of \<open>ObjectMeta\<close> and of the specification; the other fields are
  assigned.\<close>

definition object_DeepCopyInto ::
  "('m \<Rightarrow> 'h \<Rightarrow> 'm \<times> 'h) \<Rightarrow> ('sp \<Rightarrow> 'h \<Rightarrow> 'sp \<times> 'h) \<Rightarrow> ('m, 'sp, 'st) api_object \<Rightarrow> 'h \<Rightarrow> ('m, 'sp, 'st) api_object \<times> 'h" where
  "object_DeepCopyInto om spec x h =
     (case om (ob_ObjectMeta x) h of (m, h1) \<Rightarrow>
      case spec (ob_Spec x) h1 of (sp, h2) \<Rightarrow> (x\<lparr>ob_ObjectMeta := m, ob_Spec := sp\<rparr>, h2))"

type_synonym ('x, 'm, 'c) copier = "'x \<Rightarrow> ('m, 'c) heap \<Rightarrow> 'x \<times> ('m, 'c) heap"

definition Ipamd_DeepCopyInto :: "('m, 'm, 'c) copier \<Rightarrow> ('m ipamd_object, 'm, 'c) copier" where
  "Ipamd_DeepCopyInto om = object_DeepCopyInto om assign"

definition VpcIpClaim_DeepCopyInto :: "('m, 'm, 'c) copier \<Rightarrow> ('m claim_object, 'm, 'c) copier" where
  "VpcIpClaim_DeepCopyInto om = object_DeepCopyInto om assign"

definition PodNetworking_DeepCopyInto :: "('m, 'm, 'c) copier \<Rightarrow> ('m podnet_object, 'm, 'c) copier" where
  "PodNetworking_DeepCopyInto om = object_DeepCopyInto om PodNetworkingSpec_DeepCopyInto"

definition Ipamd_DeepCopy :: "('m, 'm, 'c) copier \<Rightarrow> ('m ipamd_object option, 'm, 'c) copier" where
  "Ipamd_DeepCopy om = unless_nil (Ipamd_DeepCopyInto om)"

definition VpcIpClaim_DeepCopy :: "('m, 'm, 'c) copier \<Rightarrow> ('m claim_object option, 'm, 'c) copier" where
  "VpcIpClaim_DeepCopy om = unless_nil (VpcIpClaim_DeepCopyInto om)"

definition PodNetworking_DeepCopy :: "('m, 'm, 'c) copier \<Rightarrow> ('m podnet_object option, 'm, 'c) copier" where
  "PodNetworking_DeepCopy om = unless_nil (PodNetworking_DeepCopyInto om)"

subsection \<open>Lists\<close>

definition copy_item ::
  "('a list \<Rightarrow> 'k) \<Rightarrow> ('k \<Rightarrow> 'a list option) \<Rightarrow> ('a \<Rightarrow> 'k list \<Rightarrow> 'a \<times> 'k list) \<Rightarrow> slice \<Rightarrow> slice \<Rightarrow> nat \<Rightarrow> 'k list \<Rightarrow> 'k list" where
  "copy_item mk dest into s t i h =
     (case into (slice_view dest h s ! i) h of (y, h1) \<Rightarrow> set_item mk dest t i y h1)"

definition copy_items ::
  "('a list \<Rightarrow> 'k) \<Rightarrow> ('k \<Rightarrow> 'a list option) \<Rightarrow> 'a \<Rightarrow> ('a \<Rightarrow> 'k list \<Rightarrow> 'a \<times> 'k list) \<Rightarrow> slice \<Rightarrow> 'k list \<Rightarrow> slice \<times> 'k list" where
  "copy_items mk dest zero into s h =
     (case make_slice mk zero (sl_len s) h of (t, h1) \<Rightarrow> (t, fold (copy_item mk dest into s t) [0..<sl_len s] h1))"

definition list_DeepCopyInto ::
  "('l \<Rightarrow> 'h \<Rightarrow> 'l \<times> 'h) \<Rightarrow> (slice \<Rightarrow> 'h \<Rightarrow> slice \<times> 'h) \<Rightarrow> 'l api_list \<Rightarrow> 'h \<Rightarrow> 'l api_list \<times> 'h" where
  "list_DeepCopyInto lm items x h =
     (case lm (ls_ListMeta x) h of (m, h1) \<Rightarrow>
      case unless_nil items (ls_Items x) h1 of (s, h2) \<Rightarrow> (x\<lparr>ls_ListMeta := m, ls_Items := s\<rparr>, h2))"

definition IpamdList_DeepCopyInto ::
  "('m, 'm, 'c) copier \<Rightarrow> ('l, 'm, 'c) copier \<Rightarrow> 'm ipamd_object \<Rightarrow> ('l api_list, 'm, 'c) copier" where
  "IpamdList_DeepCopyInto om lm zero = list_DeepCopyInto lm (copy_items IpamdArray ipamds_of zero (Ipamd_DeepCopyInto om))"

definition VpcIpClaimList_DeepCopyInto ::
  "('m, 'm, 'c) copier \<Rightarrow> ('l, 'm, 'c) copier \<Rightarrow> 'm claim_object \<Rightarrow> ('l api_list, 'm, 'c) copier" where
  "VpcIpClaimList_DeepCopyInto om lm zero = list_DeepCopyInto lm (copy_items ClaimArray claims_of zero (VpcIpClaim_DeepCopyInto om))"

definition PodNetworkingList_DeepCopyInto ::
  "('m, 'm, 'c) copier \<Rightarrow> ('l, 'm, 'c) copier \<Rightarrow> 'm podnet_object \<Rightarrow> ('l api_list, 'm, 'c) copier" where
  "PodNetworkingList_DeepCopyInto om lm zero =
     list_DeepCopyInto lm (copy_items PodNetworkingArray podnets_of zero (PodNetworking_DeepCopyInto om))"

definition IpamdList_DeepCopy ::
  "('m, 'm, 'c) copier \<Rightarrow> ('l, 'm, 'c) copier \<Rightarrow> 'm ipamd_object \<Rightarrow> ('l api_list option, 'm, 'c) copier" where
  "IpamdList_DeepCopy om lm zero = unless_nil (IpamdList_DeepCopyInto om lm zero)"

definition VpcIpClaimList_DeepCopy ::
  "('m, 'm, 'c) copier \<Rightarrow> ('l, 'm, 'c) copier \<Rightarrow> 'm claim_object \<Rightarrow> ('l api_list option, 'm, 'c) copier" where
  "VpcIpClaimList_DeepCopy om lm zero = unless_nil (VpcIpClaimList_DeepCopyInto om lm zero)"

definition PodNetworkingList_DeepCopy ::
  "('m, 'm, 'c) copier \<Rightarrow> ('l, 'm, 'c) copier \<Rightarrow> 'm podnet_object \<Rightarrow> ('l api_list option, 'm, 'c) copier" where
  "PodNetworkingList_DeepCopy om lm zero = unless_nil (PodNetworkingList_DeepCopyInto om lm zero)"

text \<open>\<open>DeepCopyObject\<close>: the copy as an interface value, nil for a nil pointer.\<close>

definition as_object :: "('x option \<Rightarrow> 'h \<Rightarrow> 'x option \<times> 'h) \<Rightarrow> 'x option \<Rightarrow> 'h \<Rightarrow> 'x option \<times> 'h" where
  "as_object dc x h = (case dc x h of (Some c, h1) \<Rightarrow> (Some c, h1) | (None, h1) \<Rightarrow> (None, h1))"

definition Ipamd_DeepCopyObject :: "('m, 'm, 'c) copier \<Rightarrow> ('m ipamd_object option, 'm, 'c) copier" where
  "Ipamd_DeepCopyObject om = as_object (Ipamd_DeepCopy om)"

definition VpcIpClaim_DeepCopyObject :: "('m, 'm, 'c) copier \<Rightarrow> ('m claim_object option, 'm, 'c) copier" where
  "VpcIpClaim_DeepCopyObject om = as_object (VpcIpClaim_DeepCopy om)"

definition PodNetworking_DeepCopyObject :: "('m, 'm, 'c) copier \<Rightarrow> ('m podnet_object option, 'm, 'c) copier" where
  "PodNetworking_DeepCopyObject om = as_object (PodNetworking_DeepCopy om)"

definition IpamdList_DeepCopyObject ::
  "('m, 'm, 'c) copier \<Rightarrow> ('l, 'm, 'c) copier \<Rightarrow> 'm ipamd_object \<Rightarrow> ('l api_list option, 'm, 'c) copier" where
  "IpamdList_DeepCopyObject om lm zero = as_object (IpamdList_DeepCopy om lm zero)"

definition VpcIpClaimList_DeepCopyObject ::
  "('m, 'm, 'c) copier \<Rightarrow> ('l, 'm, 'c) copier \<Rightarrow> 'm claim_object \<Rightarrow> ('l api_list option, 'm, 'c) copier" where
  "VpcIpClaimList_DeepCopyObject om lm zero = as_object (VpcIpClaimList_DeepCopy om lm zero)"

definition PodNetworkingList_DeepCopyObject ::
  "('m, 'm, 'c) copier \<Rightarrow> ('l, 'm, 'c) copier \<Rightarrow> 'm podnet_object \<Rightarrow> ('l api_list option, 'm, 'c) copier" where
  "PodNetworkingList_DeepCopyObject om lm zero = as_object (PodNetworkingList_DeepCopy om lm zero)"

end
