(* ===== verification/Deep_Copy_Props.thy ===== *)
theory Deep_Copy_Props
  imports Deep_Copy
begin

text \<open>
  A deep copy equals its original and shares no memory with it. \<open>deep_copy\<close> is the contract of a copying function; it is kept by
  options, pairs, structs and arrays of what keeps it, so that the copies of the resources keep it if those of
  \<open>ObjectMeta\<close> and \<open>ListMeta\<close> do.
\<close>

section \<open>The contract of a copy\<close>

definition extends :: "'k list \<Rightarrow> 'k list \<Rightarrow> bool" where
  "extends h h' \<longleftrightarrow> length h \<le> length h' \<and> (\<forall>a < length h. h' ! a = h ! a)"

lemma extends_refl: "extends h h"
  by (simp add: extends_def)

lemma extends_trans: "extends h h1 \<Longrightarrow> extends h1 h2 \<Longrightarrow> extends h h2"
  by (auto simp: extends_def)

text \<open>
  \<open>ok h x\<close>: \<open>x\<close> is a value of its type in memory \<open>h\<close>; \<open>refs h x\<close>: the cells it reaches; \<open>view h x\<close>: what one reads through it.
\<close>

locale deep_copy =
  fixes copy :: "'x \<Rightarrow> 'k list \<Rightarrow> 'x \<times> 'k list" and ok :: "'k list \<Rightarrow> 'x \<Rightarrow> bool"
    and refs :: "'k list \<Rightarrow> 'x \<Rightarrow> nat set" and view :: "'k list \<Rightarrow> 'x \<Rightarrow> 'v"
  assumes copied: "ok h x \<Longrightarrow> copy x h = (y, h') \<Longrightarrow>
      extends h h' \<and> ok h' y \<and> view h' y = view h x \<and> (\<forall>a \<in> refs h' y. length h \<le> a)"
    and reaches: "ok h x \<Longrightarrow> refs h x \<subseteq> {..<length h}"
    and local: "ok h x \<Longrightarrow> length h \<le> length h' \<Longrightarrow> (\<And>a. a \<in> refs h x \<Longrightarrow> h' ! a = h ! a) \<Longrightarrow>
      ok h' x \<and> refs h' x = refs h x \<and> view h' x = view h x"
begin

lemma kept:
  assumes "ok h x" and "extends h h'"
  shows "ok h' x \<and> refs h' x = refs h x \<and> view h' x = view h x"
  using local [OF assms(1), of h'] reaches [OF assms(1)] assms(2) by (auto simp: extends_def)

end

text \<open>What a copy is good for: after it, whatever is written to the cells that one of the two reaches is not seen through the other.\<close>

definition writes_in :: "nat set \<Rightarrow> 'k list \<Rightarrow> 'k list \<Rightarrow> bool" where
  "writes_in A h h' \<longleftrightarrow> length h \<le> length h' \<and> (\<forall>a < length h. a \<notin> A \<longrightarrow> h' ! a = h ! a)"

definition independent ::
  "('k list \<Rightarrow> 'x \<Rightarrow> nat set) \<Rightarrow> ('k list \<Rightarrow> 'x \<Rightarrow> 'v) \<Rightarrow> 'x \<Rightarrow> 'k list \<Rightarrow> 'x \<times> 'k list \<Rightarrow> bool" where
  "independent refs view x h r \<longleftrightarrow>
     (case r of (y, h') \<Rightarrow>
        view h' y = view h x \<and> view h' x = view h x \<and>
        (\<forall>h2. writes_in (refs h' y) h' h2 \<longrightarrow> view h2 x = view h x) \<and>
        (\<forall>h2. writes_in (refs h' x) h' h2 \<longrightarrow> view h2 y = view h x))"

context deep_copy begin

lemma copy_independent:
  assumes "ok h x"
  shows "independent refs view x h (copy x h)"
proof (cases "copy x h")
  case (Pair y h')
  note c = copied [OF assms Pair] and k = kept [OF assms, of h']
  have x: "ok h' x" "refs h' x \<subseteq> {..<length h}" "view h' x = view h x"
    using k c reaches [OF assms] by auto
  have "view h2 x = view h' x" if "writes_in (refs h' y) h' h2" for h2
  proof -
    have "h2 ! a = h' ! a" if "a \<in> refs h' x" for a
    proof -
      have a: "a < length h" using that x(2) by blast
      then have "a \<notin> refs h' y" "a < length h'" using c by (auto simp: extends_def)
      then show ?thesis using \<open>writes_in (refs h' y) h' h2\<close> by (simp add: writes_in_def)
    qed
    then show ?thesis using local [OF x(1), of h2] that by (simp add: writes_in_def)
  qed
  moreover have "view h2 y = view h' y" if "writes_in (refs h' x) h' h2" for h2
  proof -
    have "h2 ! a = h' ! a" if "a \<in> refs h' y" for a
    proof -
      have "length h \<le> a" "a < length h'" using c reaches [of h' y] that by auto
      then have "a \<notin> refs h' x" using x(2) by auto
      then show ?thesis using \<open>a < length h'\<close> \<open>writes_in (refs h' x) h' h2\<close> by (simp add: writes_in_def)
    qed
    then show ?thesis using local [of h' y h2] that c by (simp add: writes_in_def)
  qed
  ultimately show ?thesis using c x(3) by (simp add: independent_def Pair)
qed

end

section \<open>Assignments, options, pairs and structs\<close>

lemma deep_copy_assign: "deep_copy assign (\<lambda>h x. True) (\<lambda>h x. {}) (\<lambda>h x. x)"
  by unfold_locales (auto simp: assign_def extends_def)

definition opt_ok :: "('h \<Rightarrow> 'x \<Rightarrow> bool) \<Rightarrow> 'h \<Rightarrow> 'x option \<Rightarrow> bool" where
  "opt_ok ok h x = (case x of None \<Rightarrow> True | Some v \<Rightarrow> ok h v)"

definition opt_refs :: "('h \<Rightarrow> 'x \<Rightarrow> nat set) \<Rightarrow> 'h \<Rightarrow> 'x option \<Rightarrow> nat set" where
  "opt_refs refs h x = (case x of None \<Rightarrow> {} | Some v \<Rightarrow> refs h v)"

definition opt_view :: "('h \<Rightarrow> 'x \<Rightarrow> 'v) \<Rightarrow> 'h \<Rightarrow> 'x option \<Rightarrow> 'v option" where
  "opt_view view h x = map_option (view h) x"

lemma deep_copy_option:
  assumes "deep_copy copy ok refs view"
  shows "deep_copy (unless_nil copy) (opt_ok ok) (opt_refs refs) (opt_view view)"
proof
  fix h h' :: "'b list" and x y
  assume "opt_ok ok h x" and "unless_nil copy x h = (y, h')"
  then show "extends h h' \<and> opt_ok ok h' y \<and> opt_view view h' y = opt_view view h x \<and> (\<forall>a \<in> opt_refs refs h' y. length h \<le> a)"
    by (cases x; cases "copy (the x) h")
       (auto simp: unless_nil_def opt_ok_def opt_refs_def opt_view_def extends_refl dest: deep_copy.copied [OF assms])
next
  fix h :: "'b list" and x
  assume "opt_ok ok h x"
  then show "opt_refs refs h x \<subseteq> {..<length h}"
    using deep_copy.reaches [OF assms] by (cases x) (auto simp: opt_ok_def opt_refs_def)
next
  fix h h' :: "'b list" and x
  assume "opt_ok ok h x" and "length h \<le> length h'" and "\<And>a. a \<in> opt_refs refs h x \<Longrightarrow> h' ! a = h ! a"
  then show "opt_ok ok h' x \<and> opt_refs refs h' x = opt_refs refs h x \<and> opt_view view h' x = opt_view view h x"
    using deep_copy.local [OF assms, of h _ h'] by (cases x) (auto simp: opt_ok_def opt_refs_def opt_view_def)
qed

text \<open>A struct with two fields that are copied one after the other: \<open>get\<close> reads them, \<open>put\<close> replaces them, and \<open>rest\<close> is the other fields.\<close>

definition two_copies ::
  "('x \<Rightarrow> 'h \<Rightarrow> 'x \<times> 'h) \<Rightarrow> ('y \<Rightarrow> 'h \<Rightarrow> 'y \<times> 'h) \<Rightarrow> ('s \<Rightarrow> 'x \<times> 'y) \<Rightarrow> ('x \<Rightarrow> 'y \<Rightarrow> 's \<Rightarrow> 's) \<Rightarrow> 's \<Rightarrow> 'h \<Rightarrow> 's \<times> 'h" where
  "two_copies c d get put s h =
     (case c (fst (get s)) h of (x, h1) \<Rightarrow> case d (snd (get s)) h1 of (y, h2) \<Rightarrow> (put x y s, h2))"

lemma deep_copy_struct:
  assumes "deep_copy c ok1 refs1 view1" and "deep_copy d ok2 refs2 view2"
    and "\<And>x y s. get (put x y s) = (x, y)" and "\<And>x y s. rest (put x y s) = rest s"
  shows "deep_copy (two_copies c d get put) (\<lambda>h s. ok1 h (fst (get s)) \<and> ok2 h (snd (get s)))
    (\<lambda>h s. refs1 h (fst (get s)) \<union> refs2 h (snd (get s))) (\<lambda>h s. (rest s, view1 h (fst (get s)), view2 h (snd (get s))))"
proof (unfold_locales, goal_cases)
  case (1 h s s' h')
  obtain x h1 where x: "c (fst (get s)) h = (x, h1)" by (cases "c (fst (get s)) h")
  obtain y h2 where y: "d (snd (get s)) h1 = (y, h2)" by (cases "d (snd (get s)) h1")
  have s': "s' = put x y s" "h' = h2" using 1(2) by (auto simp: two_copies_def x y)
  note c = deep_copy.copied [OF assms(1) conjunct1 [OF 1(1)] x]
  note k = deep_copy.kept [OF assms(2) conjunct2 [OF 1(1)], of h1]
  have "ok2 h1 (snd (get s))" using k c by simp
  note d = deep_copy.copied [OF assms(2) this y]
  note l = deep_copy.kept [OF assms(1), of h1 x h2]
  have "\<forall>a \<in> refs2 h2 y. length h \<le> a" using d c by (force simp: extends_def)
  moreover have "extends h h2" using c d extends_trans by blast
  ultimately show ?case using c d k l by (simp add: s' assms(3,4) ball_Un)
next
  case (2 h s)
  then show ?case using deep_copy.reaches [OF assms(1)] deep_copy.reaches [OF assms(2)] by blast
next
  case (3 h s h')
  then show ?case
    using deep_copy.local [OF assms(1), of h "fst (get s)" h'] deep_copy.local [OF assms(2), of h "snd (get s)" h'] by auto
qed

section \<open>Slices\<close>

definition slice_ok :: "('k \<Rightarrow> 'a list option) \<Rightarrow> 'k list \<Rightarrow> slice \<Rightarrow> bool" where
  "slice_ok dest h s \<longleftrightarrow> sl_array s < length h \<and>
     (case dest (h ! sl_array s) of None \<Rightarrow> False | Some xs \<Rightarrow> sl_off s + sl_len s \<le> length xs)"

lemma slice_okE:
  assumes "slice_ok dest h s"
  obtains xs where "sl_array s < length h" and "dest (h ! sl_array s) = Some xs" and "sl_off s + sl_len s \<le> length xs"
  using assms by (auto simp: slice_ok_def split: option.splits)

lemma length_slice_view: "slice_ok dest h s \<Longrightarrow> length (slice_view dest h s) = sl_len s"
  by (auto simp: slice_view_def elim!: slice_okE)

text \<open>A slice of strings.\<close>

interpretation strings: deep_copy copy_strings "slice_ok strings_of" "\<lambda>h s. {sl_array s}" "slice_view strings_of"
proof (unfold_locales, goal_cases)
  case (1 h s t h')
  then show ?case
    by (auto simp: copy_strings_def make_slice_def copy_slice_def slice_view_def slice_ok_def extends_def nth_append
        split: option.splits)
next
  case (2 h s)
  then show ?case by (simp add: slice_ok_def)
next
  case (3 h s h')
  then show ?case by (simp add: slice_ok_def slice_view_def)
qed

text \<open>A slice of structs: the loop of a list's copy.\<close>

definition items_ok :: "('k \<Rightarrow> 'a list option) \<Rightarrow> ('k list \<Rightarrow> 'a \<Rightarrow> bool) \<Rightarrow> 'k list \<Rightarrow> slice \<Rightarrow> bool" where
  "items_ok dest ok h s \<longleftrightarrow> slice_ok dest h s \<and> (\<forall>x \<in> set (slice_view dest h s). ok h x)"

definition items_refs :: "('k \<Rightarrow> 'a list option) \<Rightarrow> ('k list \<Rightarrow> 'a \<Rightarrow> nat set) \<Rightarrow> 'k list \<Rightarrow> slice \<Rightarrow> nat set" where
  "items_refs dest refs h s = insert (sl_array s) (\<Union>x \<in> set (slice_view dest h s). refs h x)"

definition items_view :: "('k \<Rightarrow> 'a list option) \<Rightarrow> ('k list \<Rightarrow> 'a \<Rightarrow> 'v) \<Rightarrow> 'k list \<Rightarrow> slice \<Rightarrow> 'v list" where
  "items_view dest view h s = map (view h) (slice_view dest h s)"

lemma slice_view_cong: "h' ! sl_array s = h ! sl_array s \<Longrightarrow> slice_view dest h' s = slice_view dest h s"
  by (simp add: slice_view_def)

text \<open>After \<open>i\<close> rounds, for the originals \<open>xs\<close> in \<open>h\<close> and the array at position \<open>length h\<close>.\<close>

definition copied_upto ::
  "('a list \<Rightarrow> 'k) \<Rightarrow> ('k list \<Rightarrow> 'a \<Rightarrow> bool) \<Rightarrow> ('k list \<Rightarrow> 'a \<Rightarrow> nat set) \<Rightarrow> ('k list \<Rightarrow> 'a \<Rightarrow> 'v) \<Rightarrow>
    'k list \<Rightarrow> 'a list \<Rightarrow> nat \<Rightarrow> 'k list \<Rightarrow> bool" where
  "copied_upto mk ok refs view h xs i hi \<longleftrightarrow> extends h hi \<and> length h < length hi \<and>
     (\<exists>ys. hi ! length h = mk ys \<and> length ys = length xs \<and>
       (\<forall>j < i. ok hi (ys ! j) \<and> view hi (ys ! j) = view h (xs ! j) \<and> (\<forall>a \<in> refs hi (ys ! j). length h < a)))"

lemma copy_item_step:
  assumes D: "deep_copy into ok refs view" and mk: "\<And>xs. dest (mk xs) = Some xs"
    and s: "items_ok dest ok h s" and i: "i < sl_len s"
    and upto: "copied_upto mk ok refs view h (slice_view dest h s) i hi"
  shows "copied_upto mk ok refs view h (slice_view dest h s) (Suc i)
    (copy_item mk dest into s \<lparr>sl_array = length h, sl_off = 0, sl_len = n\<rparr> i hi)"
proof -
  let ?xs = "slice_view dest h s"
  have len: "length ?xs = sl_len s" using s by (simp add: items_ok_def length_slice_view)
  from upto obtain ys where hi: "extends h hi" "length h < length hi" "hi ! length h = mk ys" "length ys = length ?xs"
    and ys: "\<And>j. j < i \<Longrightarrow> ok hi (ys ! j) \<and> view hi (ys ! j) = view h (?xs ! j) \<and> (\<forall>a \<in> refs hi (ys ! j). length h < a)"
    by (auto simp: copied_upto_def)
  have "sl_array s < length h" using s by (simp add: items_ok_def slice_ok_def)
  then have same: "slice_view dest hi s = ?xs" using hi(1) by (intro slice_view_cong) (simp add: extends_def)
  obtain y h1 where y: "into (?xs ! i) hi = (y, h1)" by (cases "into (?xs ! i) hi")
  have okx: "ok h (?xs ! i)" using s i len by (simp add: items_ok_def)
  note k = deep_copy.kept [OF D okx hi(1)]
  note c = deep_copy.copied [OF D conjunct1 [OF k] y]
  let ?h2 = "h1[length h := mk (ys[i := y])]"
  have h1: "h1 ! length h = mk ys" "length hi \<le> length h1" using c hi(2,3) by (auto simp: extends_def)
  have item: "copy_item mk dest into s \<lparr>sl_array = length h, sl_off = 0, sl_len = n\<rparr> i hi = ?h2"
    by (simp add: copy_item_def same y set_item_def h1(1) mk)
  have new: "ok ?h2 y \<and> refs ?h2 y = refs h1 y \<and> view ?h2 y = view h1 y"
    using c hi(2) by (intro deep_copy.local [OF D]) auto
  have old: "ok ?h2 (ys ! j) \<and> refs ?h2 (ys ! j) = refs hi (ys ! j) \<and> view ?h2 (ys ! j) = view hi (ys ! j)" if "j < i" for j
  proof (rule deep_copy.local [OF D])
    fix a assume "a \<in> refs hi (ys ! j)"
    then show "?h2 ! a = hi ! a"
      using ys [OF that] deep_copy.reaches [OF D, of hi "ys ! j"] c by (force simp: extends_def)
  qed (use ys [OF that] h1(2) in simp_all)
  have "ok ?h2 (ys[i := y] ! j) \<and> view ?h2 (ys[i := y] ! j) = view h (?xs ! j) \<and> (\<forall>a \<in> refs ?h2 (ys[i := y] ! j). length h < a)"
    if "j < Suc i" for j
  proof (cases "j = i")
    case True
    have "ys[i := y] ! j = y" using True i len hi(4) by simp
    then show ?thesis using True new c k hi(2) by auto
  next
    case False
    then have "j < i" "ys[i := y] ! j = ys ! j" using that by auto
    then show ?thesis using old [of j] ys [of j] by simp
  qed
  moreover have "extends h ?h2" using extends_trans [OF hi(1), of h1] c by (auto simp: extends_def)
  ultimately show ?thesis
    using hi(2,4) h1(2) unfolding item copied_upto_def by (intro conjI exI [of _ "ys[i := y]"]) auto
qed

lemma copy_items_spec:
  assumes D: "deep_copy into ok refs view" and mk: "\<And>xs. dest (mk xs) = Some xs"
    and s: "items_ok dest ok h s" and c: "copy_items mk dest zero into s h = (t, h')"
  shows "t = \<lparr>sl_array = length h, sl_off = 0, sl_len = sl_len s\<rparr> \<and>
    copied_upto mk ok refs view h (slice_view dest h s) (sl_len s) h'"
proof -
  let ?t = "\<lparr>sl_array = length h, sl_off = 0, sl_len = sl_len s\<rparr>"
  have len: "length (slice_view dest h s) = sl_len s" using s by (simp add: items_ok_def length_slice_view)
  have "copied_upto mk ok refs view h (slice_view dest h s) i
      (fold (copy_item mk dest into s ?t) [0..<i] (h @ [mk (replicate (sl_len s) zero)]))" if "i \<le> sl_len s" for i
    using that
  proof (induction i)
    case 0
    show ?case
      unfolding copied_upto_def
      by (intro conjI exI [of _ "replicate (sl_len s) zero"]) (simp_all add: extends_def nth_append len)
  next
    case (Suc i)
    then show ?case using copy_item_step [OF D mk s, of i _ "sl_len s"] by simp
  qed
  then show ?thesis using c by (auto simp: copy_items_def make_slice_def)
qed

lemma deep_copy_items:
  assumes D: "deep_copy into ok refs view" and mk: "\<And>xs. dest (mk xs) = Some xs"
  shows "deep_copy (copy_items mk dest zero into) (items_ok dest ok) (items_refs dest refs) (items_view dest view)"
proof (unfold_locales, goal_cases)
  case (1 h s t h')
  have len: "length (slice_view dest h s) = sl_len s" using 1(1) by (simp add: items_ok_def length_slice_view)
  from copy_items_spec [OF D mk 1] obtain ys where t: "t = \<lparr>sl_array = length h, sl_off = 0, sl_len = sl_len s\<rparr>"
    and h': "extends h h'" "length h < length h'" "h' ! length h = mk ys" "length ys = sl_len s"
    and ys: "\<And>j. j < sl_len s \<Longrightarrow> ok h' (ys ! j) \<and> view h' (ys ! j) = view h (slice_view dest h s ! j) \<and>
      (\<forall>a \<in> refs h' (ys ! j). length h < a)"
    by (auto simp: copied_upto_def len)
  have v: "slice_view dest h' t = ys" by (simp add: slice_view_def t h'(3,4) mk)
  have "slice_ok dest h' t" by (simp add: slice_ok_def t h'(2,3,4) mk)
  moreover have "map (view h') ys = map (view h) (slice_view dest h s)"
    using ys len h'(4) by (intro nth_equalityI) simp_all
  moreover have "ok h' x \<and> (\<forall>a \<in> refs h' x. length h < a)" if "x \<in> set ys" for x
    using that ys h'(4) by (auto simp: in_set_conv_nth)
  ultimately show ?case using h'(1) by (auto simp: items_ok_def items_refs_def items_view_def v [unfolded t] t intro: less_imp_le)
next
  case (2 h s)
  then show ?case using deep_copy.reaches [OF D] by (fastforce simp: items_ok_def items_refs_def slice_ok_def)
next
  case (3 h s h')
  have v: "slice_view dest h' s = slice_view dest h s" using 3(3) by (intro slice_view_cong) (simp add: items_refs_def)
  have "ok h' x \<and> refs h' x = refs h x \<and> view h' x = view h x" if "x \<in> set (slice_view dest h s)" for x
    using 3 that by (intro deep_copy.local [OF D]) (auto simp: items_ok_def items_refs_def)
  moreover have "slice_ok dest h' s" using 3 by (simp add: items_ok_def items_refs_def slice_ok_def)
  ultimately show ?case by (auto simp: items_ok_def items_refs_def items_view_def v)
qed

section \<open>The resources\<close>

text \<open>Of each type the values, the cells they reach and what one reads, every field included.\<close>

definition spec_ok :: "('m, 'c) heap \<Rightarrow> PodNetworking_Spec \<Rightarrow> bool" where
  "spec_ok h x \<longleftrightarrow> opt_ok (slice_ok strings_of) h (ps_SecurityGroupIds x) \<and> opt_ok (slice_ok strings_of) h (ps_SubnetIds x)"

definition spec_refs :: "('m, 'c) heap \<Rightarrow> PodNetworking_Spec \<Rightarrow> nat set" where
  "spec_refs h x = opt_refs (\<lambda>h s. {sl_array s}) h (ps_SecurityGroupIds x) \<union> opt_refs (\<lambda>h s. {sl_array s}) h (ps_SubnetIds x)"

definition spec_view :: "('m, 'c) heap \<Rightarrow> PodNetworking_Spec \<Rightarrow> (string \<times> bool) \<times> string list option \<times> string list option" where
  "spec_view h x = ((ps_Strategy x, ps_NATGWOutgoingEnabled x),
     opt_view (slice_view strings_of) h (ps_SecurityGroupIds x), opt_view (slice_view strings_of) h (ps_SubnetIds x))"

definition object_ok where
  "object_ok om_ok sp_ok h x \<longleftrightarrow> om_ok h (ob_ObjectMeta x) \<and> sp_ok h (ob_Spec x)"

definition object_refs where
  "object_refs om_refs sp_refs h x = om_refs h (ob_ObjectMeta x) \<union> sp_refs h (ob_Spec x)"

definition object_view where
  "object_view om_view sp_view h x = ((ob_TypeMeta x, ob_Status x), om_view h (ob_ObjectMeta x), sp_view h (ob_Spec x))"

definition list_ok where
  "list_ok lm_ok it_ok h x \<longleftrightarrow> lm_ok h (ls_ListMeta x) \<and> opt_ok it_ok h (ls_Items x)"

definition list_refs where
  "list_refs lm_refs it_refs h x = lm_refs h (ls_ListMeta x) \<union> opt_refs it_refs h (ls_Items x)"

definition list_view where
  "list_view lm_view it_view h x = (ls_TypeMeta x, lm_view h (ls_ListMeta x), opt_view it_view h (ls_Items x))"

lemma spec_two_copies:
  "PodNetworkingSpec_DeepCopyInto = two_copies (unless_nil copy_strings) (unless_nil copy_strings)
     (\<lambda>x. (ps_SecurityGroupIds x, ps_SubnetIds x)) (\<lambda>g n x. x\<lparr>ps_SecurityGroupIds := g, ps_SubnetIds := n\<rparr>)"
  by (simp add: fun_eq_iff PodNetworkingSpec_DeepCopyInto_def two_copies_def)

lemma object_two_copies:
  "object_DeepCopyInto om spec = two_copies om spec
     (\<lambda>x. (ob_ObjectMeta x, ob_Spec x)) (\<lambda>m sp x. x\<lparr>ob_ObjectMeta := m, ob_Spec := sp\<rparr>)"
  by (simp add: fun_eq_iff object_DeepCopyInto_def two_copies_def)

lemma list_two_copies:
  "list_DeepCopyInto lm items = two_copies lm (unless_nil items)
     (\<lambda>x. (ls_ListMeta x, ls_Items x)) (\<lambda>m s x. x\<lparr>ls_ListMeta := m, ls_Items := s\<rparr>)"
  by (simp add: fun_eq_iff list_DeepCopyInto_def two_copies_def)

interpretation podnet_spec: deep_copy PodNetworkingSpec_DeepCopyInto spec_ok spec_refs spec_view
  unfolding spec_two_copies spec_ok_def [abs_def] spec_refs_def [abs_def] spec_view_def [abs_def]
  using deep_copy_struct [where rest = "\<lambda>x. (ps_Strategy x, ps_NATGWOutgoingEnabled x)" and
      get = "\<lambda>x. (ps_SecurityGroupIds x, ps_SubnetIds x)" and put = "\<lambda>g n x. x\<lparr>ps_SecurityGroupIds := g, ps_SubnetIds := n\<rparr>",
      OF deep_copy_option deep_copy_option, OF strings.deep_copy_axioms strings.deep_copy_axioms]
  by simp

lemma deep_copy_object:
  assumes "deep_copy om om_ok om_refs om_view" and "deep_copy spec sp_ok sp_refs sp_view"
  shows "deep_copy (object_DeepCopyInto om spec) (object_ok om_ok sp_ok) (object_refs om_refs sp_refs) (object_view om_view sp_view)"
  unfolding object_two_copies object_ok_def [abs_def] object_refs_def [abs_def] object_view_def [abs_def]
  using deep_copy_struct [OF assms, where rest = "\<lambda>x. (ob_TypeMeta x, ob_Status x)" and
      get = "\<lambda>x. (ob_ObjectMeta x, ob_Spec x)" and put = "\<lambda>m sp x. x\<lparr>ob_ObjectMeta := m, ob_Spec := sp\<rparr>"]
  by simp

lemma deep_copy_list:
  assumes "deep_copy lm lm_ok lm_refs lm_view" and "deep_copy items it_ok it_refs it_view"
  shows "deep_copy (list_DeepCopyInto lm items) (list_ok lm_ok it_ok) (list_refs lm_refs it_refs) (list_view lm_view it_view)"
  unfolding list_two_copies list_ok_def [abs_def] list_refs_def [abs_def] list_view_def [abs_def]
  using deep_copy_struct [OF assms(1) deep_copy_option [OF assms(2)], where rest = ls_TypeMeta and
      get = "\<lambda>x. (ls_ListMeta x, ls_Items x)" and put = "\<lambda>m s x. x\<lparr>ls_ListMeta := m, ls_Items := s\<rparr>"]
  by simp

abbreviation "flat_ok \<equiv> (\<lambda>h x. True)"
abbreviation "flat_refs \<equiv> (\<lambda>h x. {})"
abbreviation "flat_view \<equiv> (\<lambda>h x. x)"

text \<open>The library's two copies keep the contract; then so do those of the three resources and their lists.\<close>

locale meta_copies =
  om: deep_copy om om_ok om_refs om_view + lm: deep_copy lm lm_ok lm_refs lm_view
  for om :: "('m, 'm, 'c) copier" and om_ok om_refs and om_view :: "('m, 'c) heap \<Rightarrow> 'm \<Rightarrow> 'v"
    and lm :: "('l, 'm, 'c) copier" and lm_ok lm_refs and lm_view :: "('m, 'c) heap \<Rightarrow> 'l \<Rightarrow> 'u"

sublocale meta_copies \<subseteq> ipamd: deep_copy "Ipamd_DeepCopyInto om"
    "object_ok om_ok flat_ok" "object_refs om_refs flat_refs" "object_view om_view flat_view"
  unfolding Ipamd_DeepCopyInto_def by (rule deep_copy_object [OF om.deep_copy_axioms deep_copy_assign])

sublocale meta_copies \<subseteq> claim: deep_copy "VpcIpClaim_DeepCopyInto om"
    "object_ok om_ok flat_ok" "object_refs om_refs flat_refs" "object_view om_view flat_view"
  unfolding VpcIpClaim_DeepCopyInto_def by (rule deep_copy_object [OF om.deep_copy_axioms deep_copy_assign])

sublocale meta_copies \<subseteq> podnet: deep_copy "PodNetworking_DeepCopyInto om"
    "object_ok om_ok spec_ok" "object_refs om_refs spec_refs" "object_view om_view spec_view"
  unfolding PodNetworking_DeepCopyInto_def by (rule deep_copy_object [OF om.deep_copy_axioms podnet_spec.deep_copy_axioms])

sublocale meta_copies \<subseteq> ipamd_list: deep_copy "IpamdList_DeepCopyInto om lm zero"
    "list_ok lm_ok (items_ok ipamds_of (object_ok om_ok flat_ok))"
    "list_refs lm_refs (items_refs ipamds_of (object_refs om_refs flat_refs))"
    "list_view lm_view (items_view ipamds_of (object_view om_view flat_view))" for zero
  unfolding IpamdList_DeepCopyInto_def
  by (intro deep_copy_list lm.deep_copy_axioms deep_copy_items ipamd.deep_copy_axioms) simp

sublocale meta_copies \<subseteq> claim_list: deep_copy "VpcIpClaimList_DeepCopyInto om lm zero"
    "list_ok lm_ok (items_ok claims_of (object_ok om_ok flat_ok))"
    "list_refs lm_refs (items_refs claims_of (object_refs om_refs flat_refs))"
    "list_view lm_view (items_view claims_of (object_view om_view flat_view))" for zero
  unfolding VpcIpClaimList_DeepCopyInto_def
  by (intro deep_copy_list lm.deep_copy_axioms deep_copy_items claim.deep_copy_axioms) simp

sublocale meta_copies \<subseteq> podnet_list: deep_copy "PodNetworkingList_DeepCopyInto om lm zero"
    "list_ok lm_ok (items_ok podnets_of (object_ok om_ok spec_ok))"
    "list_refs lm_refs (items_refs podnets_of (object_refs om_refs spec_refs))"
    "list_view lm_view (items_view podnets_of (object_view om_view spec_view))" for zero
  unfolding PodNetworkingList_DeepCopyInto_def
  by (intro deep_copy_list lm.deep_copy_axioms deep_copy_items podnet.deep_copy_axioms) simp

lemma as_object_id: "as_object dc = dc"
  by (auto simp: fun_eq_iff as_object_def split: prod.splits option.splits)

abbreviation "ipamd_ok om_ok \<equiv> opt_ok (object_ok om_ok flat_ok)"
abbreviation "ipamd_refs om_refs \<equiv> opt_refs (object_refs om_refs flat_refs)"
abbreviation "ipamd_view om_view \<equiv> opt_view (object_view om_view flat_view)"
abbreviation "podnet_ok om_ok \<equiv> opt_ok (object_ok om_ok spec_ok)"
abbreviation "podnet_refs om_refs \<equiv> opt_refs (object_refs om_refs spec_refs)"
abbreviation "podnet_view om_view \<equiv> opt_view (object_view om_view spec_view)"
abbreviation "ipamds_ok om_ok lm_ok \<equiv> opt_ok (list_ok lm_ok (items_ok ipamds_of (object_ok om_ok flat_ok)))"
abbreviation "ipamds_refs om_refs lm_refs \<equiv> opt_refs (list_refs lm_refs (items_refs ipamds_of (object_refs om_refs flat_refs)))"
abbreviation "ipamds_view om_view lm_view \<equiv> opt_view (list_view lm_view (items_view ipamds_of (object_view om_view flat_view)))"
abbreviation "claims_ok om_ok lm_ok \<equiv> opt_ok (list_ok lm_ok (items_ok claims_of (object_ok om_ok flat_ok)))"
abbreviation "claims_refs om_refs lm_refs \<equiv> opt_refs (list_refs lm_refs (items_refs claims_of (object_refs om_refs flat_refs)))"
abbreviation "claims_view om_view lm_view \<equiv> opt_view (list_view lm_view (items_view claims_of (object_view om_view flat_view)))"
abbreviation "podnets_ok om_ok lm_ok \<equiv> opt_ok (list_ok lm_ok (items_ok podnets_of (object_ok om_ok spec_ok)))"
abbreviation "podnets_refs om_refs lm_refs \<equiv> opt_refs (list_refs lm_refs (items_refs podnets_of (object_refs om_refs spec_refs)))"
abbreviation "podnets_view om_view lm_view \<equiv> opt_view (list_view lm_view (items_view podnets_of (object_view om_view spec_view)))"

context meta_copies begin

lemmas object_defs = as_object_id
  Ipamd_DeepCopyObject_def Ipamd_DeepCopy_def VpcIpClaim_DeepCopyObject_def VpcIpClaim_DeepCopy_def
  PodNetworking_DeepCopyObject_def PodNetworking_DeepCopy_def
  IpamdList_DeepCopyObject_def IpamdList_DeepCopy_def VpcIpClaimList_DeepCopyObject_def VpcIpClaimList_DeepCopy_def
  PodNetworkingList_DeepCopyObject_def PodNetworkingList_DeepCopy_def

lemma ipamd_independent:
  "ipamd_ok om_ok h x \<Longrightarrow> independent (ipamd_refs om_refs) (ipamd_view om_view) x h (Ipamd_DeepCopyObject om x h)"
  unfolding object_defs by (rule deep_copy.copy_independent [OF deep_copy_option [OF ipamd.deep_copy_axioms]])

lemma claim_independent:
  "ipamd_ok om_ok h x \<Longrightarrow> independent (ipamd_refs om_refs) (ipamd_view om_view) x h (VpcIpClaim_DeepCopyObject om x h)"
  unfolding object_defs by (rule deep_copy.copy_independent [OF deep_copy_option [OF claim.deep_copy_axioms]])

lemma podnet_independent:
  "podnet_ok om_ok h x \<Longrightarrow> independent (podnet_refs om_refs) (podnet_view om_view) x h (PodNetworking_DeepCopyObject om x h)"
  unfolding object_defs by (rule deep_copy.copy_independent [OF deep_copy_option [OF podnet.deep_copy_axioms]])

lemma ipamds_independent:
  "ipamds_ok om_ok lm_ok h x \<Longrightarrow>
   independent (ipamds_refs om_refs lm_refs) (ipamds_view om_view lm_view) x h (IpamdList_DeepCopyObject om lm zero x h)"
  unfolding object_defs by (rule deep_copy.copy_independent [OF deep_copy_option [OF ipamd_list.deep_copy_axioms]])

lemma claims_independent:
  "claims_ok om_ok lm_ok h x \<Longrightarrow>
   independent (claims_refs om_refs lm_refs) (claims_view om_view lm_view) x h (VpcIpClaimList_DeepCopyObject om lm zero x h)"
  unfolding object_defs by (rule deep_copy.copy_independent [OF deep_copy_option [OF claim_list.deep_copy_axioms]])

lemma podnets_independent:
  "podnets_ok om_ok lm_ok h x \<Longrightarrow>
   independent (podnets_refs om_refs lm_refs) (podnets_view om_view lm_view) x h (PodNetworkingList_DeepCopyObject om lm zero x h)"
  unfolding object_defs by (rule deep_copy.copy_independent [OF deep_copy_option [OF podnet_list.deep_copy_axioms]])

end

text \<open>C18. The deep copy of a resource or of a list of resources reads the same as the original, nil slices and pointers included, and
  shares no memory with it: whatever is written later to the arrays that one of the two reaches, the other reads as before. So
  a controller that changes the copy of a cached object does not change the cache. It is assumed that the library's copies of
  \<open>ObjectMeta\<close> and \<open>ListMeta\<close> have this contract.
\<close>

theorem deep_copies_independent:
  assumes "meta_copies om om_ok om_refs om_view lm lm_ok lm_refs lm_view"
  shows
    "(ipamd_ok om_ok h x1 \<longrightarrow>
       independent (ipamd_refs om_refs) (ipamd_view om_view) x1 h (Ipamd_DeepCopyObject om x1 h)) \<and>
     (ipamd_ok om_ok h x2 \<longrightarrow>
       independent (ipamd_refs om_refs) (ipamd_view om_view) x2 h (VpcIpClaim_DeepCopyObject om x2 h)) \<and>
     (podnet_ok om_ok h x3 \<longrightarrow>
       independent (podnet_refs om_refs) (podnet_view om_view) x3 h (PodNetworking_DeepCopyObject om x3 h)) \<and>
     (ipamds_ok om_ok lm_ok h y1 \<longrightarrow>
       independent (ipamds_refs om_refs lm_refs) (ipamds_view om_view lm_view) y1 h (IpamdList_DeepCopyObject om lm z1 y1 h)) \<and>
     (claims_ok om_ok lm_ok h y2 \<longrightarrow>
       independent (claims_refs om_refs lm_refs) (claims_view om_view lm_view) y2 h (VpcIpClaimList_DeepCopyObject om lm z2 y2 h)) \<and>
     (podnets_ok om_ok lm_ok h y3 \<longrightarrow>
       independent (podnets_refs om_refs lm_refs) (podnets_view om_view lm_view) y3 h (PodNetworkingList_DeepCopyObject om lm z3 y3 h))"
  using meta_copies.ipamd_independent [OF assms] meta_copies.claim_independent [OF assms] meta_copies.podnet_independent [OF assms]
    meta_copies.ipamds_independent [OF assms] meta_copies.claims_independent [OF assms] meta_copies.podnets_independent [OF assms]
  by blast

section \<open>The library's types\<close>

text \<open>The parts of \<open>ObjectMeta\<close> and \<open>ListMeta\<close> that the programs use, with a slice and with a pointer, and copies of them as they are documented.\<close>

record ObjectMeta =
  mt_Name :: string
  mt_Namespace :: string
  mt_Finalizers :: "slice option"

record ListMeta =
  lt_ResourceVersion :: string
  lt_RemainingItemCount :: "nat option" \<comment> \<open>a pointer\<close>

definition mem_ObjectMeta :: "(ObjectMeta, ObjectMeta, int) copier" where
  "mem_ObjectMeta m h =
     (case unless_nil copy_strings (mt_Finalizers m) h of (fs, h1) \<Rightarrow> (m\<lparr>mt_Finalizers := fs\<rparr>, h1))"

definition mem_pointer :: "nat \<Rightarrow> ('m, 'c) heap \<Rightarrow> nat \<times> ('m, 'c) heap" where
  "mem_pointer p h = (length h, h @ [h ! p])"

definition mem_ListMeta :: "(ListMeta, ObjectMeta, int) copier" where
  "mem_ListMeta m h =
     (case unless_nil mem_pointer (lt_RemainingItemCount m) h of (p, h1) \<Rightarrow> (m\<lparr>lt_RemainingItemCount := p\<rparr>, h1))"

lemma deep_copy_pointer: "deep_copy mem_pointer (\<lambda>h p. p < length h) (\<lambda>h p. {p}) (\<lambda>h p. h ! p)"
  by unfold_locales (auto simp: mem_pointer_def extends_def nth_append)

lemma ObjectMeta_two_copies:
  "mem_ObjectMeta = two_copies (unless_nil copy_strings) assign (\<lambda>m. (mt_Finalizers m, ())) (\<lambda>fs _ m. m\<lparr>mt_Finalizers := fs\<rparr>)"
  by (simp add: fun_eq_iff mem_ObjectMeta_def two_copies_def assign_def)

lemma ListMeta_two_copies:
  "mem_ListMeta = two_copies (unless_nil mem_pointer) assign (\<lambda>m. (lt_RemainingItemCount m, ())) (\<lambda>p _ m. m\<lparr>lt_RemainingItemCount := p\<rparr>)"
  by (simp add: fun_eq_iff mem_ListMeta_def two_copies_def assign_def)

interpretation mem_meta: meta_copies
  mem_ObjectMeta "\<lambda>h m. opt_ok (slice_ok strings_of) h (mt_Finalizers m)" "\<lambda>h m. opt_refs (\<lambda>h s. {sl_array s}) h (mt_Finalizers m)"
    "\<lambda>h m. ((mt_Name m, mt_Namespace m), opt_view (slice_view strings_of) h (mt_Finalizers m), ())"
  mem_ListMeta "\<lambda>h m. opt_ok (\<lambda>h p. p < length h) h (lt_RemainingItemCount m)" "\<lambda>h m. opt_refs (\<lambda>h p. {p}) h (lt_RemainingItemCount m)"
    "\<lambda>h m. (lt_ResourceVersion m, opt_view (\<lambda>h p. h ! p) h (lt_RemainingItemCount m), ())"
  unfolding ObjectMeta_two_copies ListMeta_two_copies
  using deep_copy_struct [OF deep_copy_option [OF strings.deep_copy_axioms] deep_copy_assign,
      where get = "\<lambda>m. (mt_Finalizers m, ())" and put = "\<lambda>fs _ m. m\<lparr>mt_Finalizers := fs\<rparr>" and rest = "\<lambda>m. (mt_Name m, mt_Namespace m)"]
    deep_copy_struct [OF deep_copy_option [OF deep_copy_pointer] deep_copy_assign,
      where get = "\<lambda>m. (lt_RemainingItemCount m, ())" and put = "\<lambda>p _ m. m\<lparr>lt_RemainingItemCount := p\<rparr>" and rest = lt_ResourceVersion]
  by (intro meta_copies.intro) simp_all

text \<open>A list with one resource that has two subnets; its status and its security groups are nil.\<close>

definition demo_podnet :: "ObjectMeta podnet_object" where
  "demo_podnet = \<lparr>ob_TypeMeta = ([], []), ob_ObjectMeta = \<lparr>mt_Name = ''net'', mt_Namespace = [], mt_Finalizers = Some \<lparr>sl_array = 0, sl_off = 1, sl_len = 1\<rparr>\<rparr>,
     ob_Spec = \<lparr>ps_SecurityGroupIds = None, ps_SubnetIds = Some \<lparr>sl_array = 0, sl_off = 0, sl_len = 2\<rparr>, ps_Strategy = [], ps_NATGWOutgoingEnabled = True\<rparr>,
     ob_Status = \<lparr>pt_Status = []\<rparr>\<rparr>"

definition demo_heap :: "(ObjectMeta, int) heap" where
  "demo_heap = [StringArray [''a'', ''b''], PodNetworkingArray [demo_podnet]]"

definition demo_list :: "ListMeta api_list" where
  "demo_list = \<lparr>ls_TypeMeta = ([], []), ls_ListMeta = \<lparr>lt_ResourceVersion = [], lt_RemainingItemCount = None\<rparr>,
     ls_Items = Some \<lparr>sl_array = 1, sl_off = 0, sl_len = 1\<rparr>\<rparr>"

text \<open>The original shares an array between its finalizers and its subnets; the copy has an array for each.\<close>

theorem deep_copies_independent_witness:
  "independent
     (podnets_refs (\<lambda>h m. opt_refs (\<lambda>h s. {sl_array s}) h (mt_Finalizers m)) (\<lambda>h m. opt_refs (\<lambda>h p. {p}) h (lt_RemainingItemCount m)))
     (podnets_view (\<lambda>h m. ((mt_Name m, mt_Namespace m), opt_view (slice_view strings_of) h (mt_Finalizers m), ()))
       (\<lambda>h m. (lt_ResourceVersion m, opt_view (\<lambda>h p. h ! p) h (lt_RemainingItemCount m), ())))
     (Some demo_list) demo_heap (PodNetworkingList_DeepCopyObject mem_ObjectMeta mem_ListMeta demo_podnet (Some demo_list) demo_heap) \<and>
   snd (PodNetworkingList_DeepCopyObject mem_ObjectMeta mem_ListMeta demo_podnet (Some demo_list) demo_heap) ! 3 = StringArray [''b'']"
proof -
  have "podnets_ok (\<lambda>h m. opt_ok (slice_ok strings_of) h (mt_Finalizers m)) (\<lambda>h m. opt_ok (\<lambda>h p. p < length h) h (lt_RemainingItemCount m))
      demo_heap (Some demo_list)"
    by (simp add: opt_ok_def list_ok_def items_ok_def object_ok_def spec_ok_def slice_ok_def slice_view_def demo_list_def demo_heap_def demo_podnet_def)
  moreover have "snd (PodNetworkingList_DeepCopyObject mem_ObjectMeta mem_ListMeta demo_podnet (Some demo_list) demo_heap) ! 3 = StringArray [''b'']"
    by code_simp
  ultimately show ?thesis using deep_copies_independent [OF mem_meta.meta_copies_axioms] by blast
qed

end
