(* ===== verification/Fake_Client.thy ===== *)
theory Fake_Client
  imports Rest_Client
begin

text \<open>
  The fake client set, \<open>kubernetes/generated/clientset/versioned/fake\<close> and the \<open>fake\<close> packages of the typed clients: the actions that
  its methods hand to \<open>k8s.io/client-go/testing\<close>, and what they make of the answers. \<open>Invokes\<close> and the tracker of the objects are the library's.
\<close>

section \<open>Actions\<close>

record fake_action =
  ak_Verb :: string
  ak_Group :: string
  ak_Version :: string
  ak_Resource :: string
  ak_Kind :: string \<comment> \<open>of a list\<close>
  ak_Subresources :: "string list"
  ak_Namespace :: string \<comment> \<open>empty for a root action\<close>
  ak_Name :: string
  ak_Object :: body
  ak_PatchType :: string
  ak_ListOptions :: ListOptions

text \<open>\<open>Invokes\<close> returns an object, which may be nil, and an error; \<open>label_of\<close> is the label selector of the options, if there is one.\<close>

record ('i, 'w) fake =
  iv_claim :: "fake_action \<Rightarrow> 'w \<Rightarrow> (VpcIpClaim option \<times> gerror option) \<times> 'w"
  iv_claims :: "fake_action \<Rightarrow> 'w \<Rightarrow> (VpcIpClaim list option \<times> gerror option) \<times> 'w"
  iv_ipamd :: "fake_action \<Rightarrow> 'w \<Rightarrow> (Ipamd option \<times> gerror option) \<times> 'w"
  iv_ipamds :: "fake_action \<Rightarrow> 'w \<Rightarrow> (Ipamd list option \<times> gerror option) \<times> 'w"
  iv_podnet :: "fake_action \<Rightarrow> 'w \<Rightarrow> (PodNetworking option \<times> gerror option) \<times> 'w"
  iv_podnets :: "fake_action \<Rightarrow> 'w \<Rightarrow> (PodNetworking list option \<times> gerror option) \<times> 'w"
  InvokesWatch :: "fake_action \<Rightarrow> 'w \<Rightarrow> 'i result \<times> 'w"
  label_of :: "ListOptions \<Rightarrow> (labels \<Rightarrow> bool) option"
  ipamd_labels :: "Ipamd \<Rightarrow> labels" \<comment> \<open>the record leaves them out\<close>
  podnet_labels :: "PodNetworking \<Rightarrow> labels"

text \<open>A fake typed client: its group, resource and kind, and its namespace.\<close>

record fake_typed =
  ft_Group :: string
  ft_Version :: string
  ft_Resource :: string
  ft_Kind :: string
  ft_ns :: string

definition fake_act :: "fake_typed \<Rightarrow> string \<Rightarrow> fake_action" where
  "fake_act c v = \<lparr>ak_Verb = v, ak_Group = ft_Group c, ak_Version = ft_Version c, ak_Resource = ft_Resource c, ak_Kind = [], ak_Subresources = [],
     ak_Namespace = ft_ns c, ak_Name = [], ak_Object = NoBody, ak_PatchType = [], ak_ListOptions = ListOptions_zero\<rparr>"

definition get_action :: "fake_typed \<Rightarrow> string \<Rightarrow> fake_action" where
  "get_action c name = (fake_act c ''get'')\<lparr>ak_Name := name\<rparr>"

definition list_action :: "fake_typed \<Rightarrow> ListOptions \<Rightarrow> fake_action" where
  "list_action c opts = (fake_act c ''list'')\<lparr>ak_Kind := ft_Kind c, ak_ListOptions := opts\<rparr>"

definition watch_action :: "fake_typed \<Rightarrow> ListOptions \<Rightarrow> fake_action" where
  "watch_action c opts = (fake_act c ''watch'')\<lparr>ak_ListOptions := opts\<rparr>"

definition create_action :: "fake_typed \<Rightarrow> body \<Rightarrow> fake_action" where
  "create_action c b = (fake_act c ''create'')\<lparr>ak_Object := b\<rparr>"

definition update_action :: "fake_typed \<Rightarrow> body \<Rightarrow> fake_action" where
  "update_action c b = (fake_act c ''update'')\<lparr>ak_Object := b\<rparr>"

definition status_action :: "fake_typed \<Rightarrow> body \<Rightarrow> fake_action" where
  "status_action c b = (update_action c b)\<lparr>ak_Subresources := [''status'']\<rparr>"

definition delete_action :: "fake_typed \<Rightarrow> string \<Rightarrow> fake_action" where
  "delete_action c name = (fake_act c ''delete'')\<lparr>ak_Name := name\<rparr>"

definition delete_collection_action :: "fake_typed \<Rightarrow> ListOptions \<Rightarrow> fake_action" where
  "delete_collection_action c opts = (fake_act c ''delete-collection'')\<lparr>ak_ListOptions := opts\<rparr>"

definition patch_action :: "fake_typed \<Rightarrow> string \<Rightarrow> string \<Rightarrow> string \<Rightarrow> string list \<Rightarrow> fake_action" where
  "patch_action c name pt data subs =
     (fake_act c ''patch'')\<lparr>ak_Name := name, ak_PatchType := pt, ak_Object := PatchBody data, ak_Subresources := subs\<rparr>"

text \<open>What the methods return: a nil object as nil, and of a list the items that the label selector matches.\<close>

definition fake_object :: "('o option \<times> gerror option) \<times> 'w \<Rightarrow> ('o option \<times> gerror option) \<times> 'w" where
  "fake_object r = (case r of ((None, e), w) \<Rightarrow> ((None, e), w) | ((Some obj, e), w) \<Rightarrow> ((Some obj, e), w))"

definition fake_error :: "('o option \<times> gerror option) \<times> 'w \<Rightarrow> gerror option \<times> 'w" where
  "fake_error r = (case r of ((_, e), w) \<Rightarrow> (e, w))"

definition fake_list ::
  "('i, 'w) fake \<Rightarrow> ('o \<Rightarrow> labels) \<Rightarrow> ListOptions \<Rightarrow> ('o list option \<times> gerror option) \<times> 'w \<Rightarrow>
    ('o list option \<times> gerror option) \<times> 'w" where
  "fake_list F labs opts r =
     (case r of
        ((None, e), w) \<Rightarrow> ((None, e), w)
      | ((Some items, e), w) \<Rightarrow>
          (let label = (case label_of F opts of None \<Rightarrow> (\<lambda>_. True) | Some m \<Rightarrow> m)
           in ((Some (fold (\<lambda>item ls. if label (labs item) then ls @ [item] else ls) items []), e), w)))"

section \<open>fake_vpcipclaim.go\<close>

definition claim_labels :: "VpcIpClaim \<Rightarrow> labels" where
  "claim_labels c = (case vc_Labels c of None \<Rightarrow> Map.empty | Some l \<Rightarrow> l)"

definition newFakeVpcIpClaims :: "string \<Rightarrow> fake_typed" where
  "newFakeVpcIpClaims ns = \<lparr>ft_Group = ''vipcontroller.uk8s.com'', ft_Version = ''v1beta1'', ft_Resource = ''vpcipclaims'', ft_Kind = ''VpcIpClaim'', ft_ns = ns\<rparr>"

definition FakeVpcIpClaims_Get :: "('i, 'w) fake \<Rightarrow> string \<Rightarrow> string \<Rightarrow> 'w \<Rightarrow> (VpcIpClaim option \<times> gerror option) \<times> 'w" where
  "FakeVpcIpClaims_Get F ns name w = fake_object (iv_claim F (get_action (newFakeVpcIpClaims ns) name) w)"

definition FakeVpcIpClaims_List :: "('i, 'w) fake \<Rightarrow> string \<Rightarrow> ListOptions \<Rightarrow> 'w \<Rightarrow> (VpcIpClaim list option \<times> gerror option) \<times> 'w" where
  "FakeVpcIpClaims_List F ns opts w = fake_list F claim_labels opts (iv_claims F (list_action (newFakeVpcIpClaims ns) opts) w)"

definition FakeVpcIpClaims_Watch :: "('i, 'w) fake \<Rightarrow> string \<Rightarrow> ListOptions \<Rightarrow> 'w \<Rightarrow> 'i result \<times> 'w" where
  "FakeVpcIpClaims_Watch F ns opts = InvokesWatch F (watch_action (newFakeVpcIpClaims ns) opts)"

definition FakeVpcIpClaims_Create :: "('i, 'w) fake \<Rightarrow> string \<Rightarrow> VpcIpClaim \<Rightarrow> 'w \<Rightarrow> (VpcIpClaim option \<times> gerror option) \<times> 'w" where
  "FakeVpcIpClaims_Create F ns x w = fake_object (iv_claim F (create_action (newFakeVpcIpClaims ns) (ClaimBody x)) w)"

definition FakeVpcIpClaims_Update :: "('i, 'w) fake \<Rightarrow> string \<Rightarrow> VpcIpClaim \<Rightarrow> 'w \<Rightarrow> (VpcIpClaim option \<times> gerror option) \<times> 'w" where
  "FakeVpcIpClaims_Update F ns x w = fake_object (iv_claim F (update_action (newFakeVpcIpClaims ns) (ClaimBody x)) w)"

definition FakeVpcIpClaims_UpdateStatus :: "('i, 'w) fake \<Rightarrow> string \<Rightarrow> VpcIpClaim \<Rightarrow> 'w \<Rightarrow> (VpcIpClaim option \<times> gerror option) \<times> 'w" where
  "FakeVpcIpClaims_UpdateStatus F ns x w = fake_object (iv_claim F (status_action (newFakeVpcIpClaims ns) (ClaimBody x)) w)"

definition FakeVpcIpClaims_Delete :: "('i, 'w) fake \<Rightarrow> string \<Rightarrow> string \<Rightarrow> 'w action" where
  "FakeVpcIpClaims_Delete F ns name w = fake_error (iv_claim F (delete_action (newFakeVpcIpClaims ns) name) w)"

definition FakeVpcIpClaims_DeleteCollection :: "('i, 'w) fake \<Rightarrow> string \<Rightarrow> ListOptions \<Rightarrow> 'w action" where
  "FakeVpcIpClaims_DeleteCollection F ns opts w = fake_error (iv_claims F (delete_collection_action (newFakeVpcIpClaims ns) opts) w)"

definition FakeVpcIpClaims_Patch :: "('i, 'w) fake \<Rightarrow> string \<Rightarrow> string \<Rightarrow> string \<Rightarrow> string \<Rightarrow> string list \<Rightarrow> 'w \<Rightarrow> (VpcIpClaim option \<times> gerror option) \<times> 'w" where
  "FakeVpcIpClaims_Patch F ns name pt data subs w = fake_object (iv_claim F (patch_action (newFakeVpcIpClaims ns) name pt data subs) w)"

section \<open>fake_ipamd.go\<close>

definition newFakeIpamds :: "string \<Rightarrow> fake_typed" where
  "newFakeIpamds ns = \<lparr>ft_Group = ''ipamd.uk8s.com'', ft_Version = ''v1beta1'', ft_Resource = ''ipamds'', ft_Kind = ''Ipamd'', ft_ns = ns\<rparr>"

definition FakeIpamds_Get :: "('i, 'w) fake \<Rightarrow> string \<Rightarrow> string \<Rightarrow> 'w \<Rightarrow> (Ipamd option \<times> gerror option) \<times> 'w" where
  "FakeIpamds_Get F ns name w = fake_object (iv_ipamd F (get_action (newFakeIpamds ns) name) w)"

definition FakeIpamds_List :: "('i, 'w) fake \<Rightarrow> string \<Rightarrow> ListOptions \<Rightarrow> 'w \<Rightarrow> (Ipamd list option \<times> gerror option) \<times> 'w" where
  "FakeIpamds_List F ns opts w = fake_list F (ipamd_labels F) opts (iv_ipamds F (list_action (newFakeIpamds ns) opts) w)"

definition FakeIpamds_Watch :: "('i, 'w) fake \<Rightarrow> string \<Rightarrow> ListOptions \<Rightarrow> 'w \<Rightarrow> 'i result \<times> 'w" where
  "FakeIpamds_Watch F ns opts = InvokesWatch F (watch_action (newFakeIpamds ns) opts)"

definition FakeIpamds_Create :: "('i, 'w) fake \<Rightarrow> string \<Rightarrow> Ipamd \<Rightarrow> 'w \<Rightarrow> (Ipamd option \<times> gerror option) \<times> 'w" where
  "FakeIpamds_Create F ns x w = fake_object (iv_ipamd F (create_action (newFakeIpamds ns) (IpamdBody x)) w)"

definition FakeIpamds_Update :: "('i, 'w) fake \<Rightarrow> string \<Rightarrow> Ipamd \<Rightarrow> 'w \<Rightarrow> (Ipamd option \<times> gerror option) \<times> 'w" where
  "FakeIpamds_Update F ns x w = fake_object (iv_ipamd F (update_action (newFakeIpamds ns) (IpamdBody x)) w)"

definition FakeIpamds_UpdateStatus :: "('i, 'w) fake \<Rightarrow> string \<Rightarrow> Ipamd \<Rightarrow> 'w \<Rightarrow> (Ipamd option \<times> gerror option) \<times> 'w" where
  "FakeIpamds_UpdateStatus F ns x w = fake_object (iv_ipamd F (status_action (newFakeIpamds ns) (IpamdBody x)) w)"

definition FakeIpamds_Delete :: "('i, 'w) fake \<Rightarrow> string \<Rightarrow> string \<Rightarrow> 'w action" where
  "FakeIpamds_Delete F ns name w = fake_error (iv_ipamd F (delete_action (newFakeIpamds ns) name) w)"

definition FakeIpamds_DeleteCollection :: "('i, 'w) fake \<Rightarrow> string \<Rightarrow> ListOptions \<Rightarrow> 'w action" where
  "FakeIpamds_DeleteCollection F ns opts w = fake_error (iv_ipamds F (delete_collection_action (newFakeIpamds ns) opts) w)"

definition FakeIpamds_Patch :: "('i, 'w) fake \<Rightarrow> string \<Rightarrow> string \<Rightarrow> string \<Rightarrow> string \<Rightarrow> string list \<Rightarrow> 'w \<Rightarrow> (Ipamd option \<times> gerror option) \<times> 'w" where
  "FakeIpamds_Patch F ns name pt data subs w = fake_object (iv_ipamd F (patch_action (newFakeIpamds ns) name pt data subs) w)"

section \<open>fake_podnetworking.go\<close>

definition newFakePodNetworkings :: "fake_typed" where
  "newFakePodNetworkings = \<lparr>ft_Group = ''vpc.uk8s.ucloud.cn'', ft_Version = ''v1beta1'', ft_Resource = ''podnetworkings'', ft_Kind = ''PodNetworking'', ft_ns = []\<rparr>"

definition FakePodNetworkings_Get :: "('i, 'w) fake \<Rightarrow> string \<Rightarrow> 'w \<Rightarrow> (PodNetworking option \<times> gerror option) \<times> 'w" where
  "FakePodNetworkings_Get F name w = fake_object (iv_podnet F (get_action newFakePodNetworkings name) w)"

definition FakePodNetworkings_List :: "('i, 'w) fake \<Rightarrow> ListOptions \<Rightarrow> 'w \<Rightarrow> (PodNetworking list option \<times> gerror option) \<times> 'w" where
  "FakePodNetworkings_List F opts w = fake_list F (podnet_labels F) opts (iv_podnets F (list_action newFakePodNetworkings opts) w)"

definition FakePodNetworkings_Watch :: "('i, 'w) fake \<Rightarrow> ListOptions \<Rightarrow> 'w \<Rightarrow> 'i result \<times> 'w" where
  "FakePodNetworkings_Watch F opts = InvokesWatch F (watch_action newFakePodNetworkings opts)"

definition FakePodNetworkings_Create :: "('i, 'w) fake \<Rightarrow> PodNetworking \<Rightarrow> 'w \<Rightarrow> (PodNetworking option \<times> gerror option) \<times> 'w" where
  "FakePodNetworkings_Create F x w = fake_object (iv_podnet F (create_action newFakePodNetworkings (PodNetworkingBody x)) w)"

definition FakePodNetworkings_Update :: "('i, 'w) fake \<Rightarrow> PodNetworking \<Rightarrow> 'w \<Rightarrow> (PodNetworking option \<times> gerror option) \<times> 'w" where
  "FakePodNetworkings_Update F x w = fake_object (iv_podnet F (update_action newFakePodNetworkings (PodNetworkingBody x)) w)"

definition FakePodNetworkings_UpdateStatus :: "('i, 'w) fake \<Rightarrow> PodNetworking \<Rightarrow> 'w \<Rightarrow> (PodNetworking option \<times> gerror option) \<times> 'w" where
  "FakePodNetworkings_UpdateStatus F x w = fake_object (iv_podnet F (status_action newFakePodNetworkings (PodNetworkingBody x)) w)"

definition FakePodNetworkings_Delete :: "('i, 'w) fake \<Rightarrow> string \<Rightarrow> 'w action" where
  "FakePodNetworkings_Delete F name w = fake_error (iv_podnet F (delete_action newFakePodNetworkings name) w)"

definition FakePodNetworkings_DeleteCollection :: "('i, 'w) fake \<Rightarrow> ListOptions \<Rightarrow> 'w action" where
  "FakePodNetworkings_DeleteCollection F opts w = fake_error (iv_podnets F (delete_collection_action newFakePodNetworkings opts) w)"

definition FakePodNetworkings_Patch :: "('i, 'w) fake \<Rightarrow> string \<Rightarrow> string \<Rightarrow> string \<Rightarrow> string list \<Rightarrow> 'w \<Rightarrow> (PodNetworking option \<times> gerror option) \<times> 'w" where
  "FakePodNetworkings_Patch F name pt data subs w = fake_object (iv_podnet F (patch_action newFakePodNetworkings name pt data subs) w)"

section \<open>clientset_generated.go\<close>

text \<open>\<open>NewSimpleClientset\<close> adds the objects to a tracker of the library, and panics when one cannot be added.\<close>

fun NewSimpleClientset :: "(body \<Rightarrow> 't \<Rightarrow> gerror option \<times> 't) \<Rightarrow> body list \<Rightarrow> 't \<Rightarrow> 't result" where
  "NewSimpleClientset Add [] o1 = Inr o1"
| "NewSimpleClientset Add (obj # objects) o1 =
     (case Add obj o1 of (Some e, _) \<Rightarrow> Inl Panic | (None, o2) \<Rightarrow> NewSimpleClientset Add objects o2)"

section \<open>What the fake client set finds\<close>

text \<open>A list returns the items that the selector matches, in their order.\<close>

lemma fake_list_filters:
  "fake_list F labs opts ((Some items, e), w) =
     ((Some (filter (\<lambda>x. case label_of F opts of None \<Rightarrow> True | Some m \<Rightarrow> m (labs x)) items), e), w)"
proof -
  have "fold (\<lambda>item ls. if P item then ls @ [item] else ls) xs ys = ys @ filter P xs" for P and xs ys :: "'a list"
    by (induction xs arbitrary: ys) simp_all
  then show ?thesis by (cases "label_of F opts") (simp_all add: fake_list_def)
qed

text \<open>
  The tracker as it is documented: it keeps an object under the group, version and resource that the scheme has for its type, and its namespace and
  name; \<open>get\<close> finds what is kept for the action's, else the answer is that there is no such object. The scheme is that of \<open>register.go\<close> of the
  three groups, with one group for all of them.
\<close>

fun tracked_as :: "body \<Rightarrow> ((string \<times> string) \<times> string) option" where
  "tracked_as (ClaimBody c) = Some (vip_SchemeGroupVersion, ''vpcipclaims'')"
| "tracked_as (IpamdBody i) = Some (ipamd_SchemeGroupVersion, ''ipamds'')"
| "tracked_as (PodNetworkingBody x) = Some (vpc_SchemeGroupVersion, ''podnetworkings'')"
| "tracked_as _ = None"

definition action_gvr :: "fake_action \<Rightarrow> (string \<times> string) \<times> string" where
  "action_gvr a = ((ak_Group a, ak_Version a), ak_Resource a)"

locale object_tracker =
  fixes Add :: "body \<Rightarrow> 't \<Rightarrow> gerror option \<times> 't" and F :: "('i, 't) fake"
    and kept :: "'t \<Rightarrow> ((string \<times> string) \<times> string) set" and empty :: 't
  assumes none_kept: "kept empty = {}"
    and add_kept: "Add b t = (None, t') \<Longrightarrow> kept t' \<subseteq> kept t \<union> set_option (tracked_as b)"
    and get_missing: "ak_Verb a = ''get'' \<Longrightarrow> action_gvr a \<notin> kept t \<Longrightarrow>
      iv_claim F a t = ((None, Some (Kube KNotFound)), t) \<and> iv_ipamd F a t = ((None, Some (Kube KNotFound)), t)"
begin

lemma clientset_kept:
  "NewSimpleClientset Add bs t = Inr t' \<Longrightarrow> kept t' \<subseteq> kept t \<union> (\<Union>b \<in> set bs. set_option (tracked_as b))"
proof (induction bs arbitrary: t)
  case (Cons b bs)
  from Cons.prems obtain t1 where "Add b t = (None, t1)" "NewSimpleClientset Add bs t1 = Inr t'"
    by (auto split: prod.splits option.splits)
  then show ?case using add_kept Cons.IH [of t1] by fastforce
qed simp

lemma gvr_misses: "tracked_as b \<noteq> Some ((''vipcontroller.uk8s.com'', v), r)" "tracked_as b \<noteq> Some ((''ipamd.uk8s.com'', v), r)"
  by (cases b; simp add: vip_SchemeGroupVersion_def ipamd_SchemeGroupVersion_def vpc_SchemeGroupVersion_def)+

text \<open>Whatever objects a fake client set is made of, it finds none of the claims and of the status resources: it asks for them in other groups than
  they are kept under.\<close>

lemma fake_finds_nothing:
  assumes "NewSimpleClientset Add bs empty = Inr t"
  shows "FakeVpcIpClaims_Get F ns n t = ((None, Some (Kube KNotFound)), t) \<and> FakeIpamds_Get F ns n t = ((None, Some (Kube KNotFound)), t)"
proof -
  have k: "g \<notin> kept t" if "\<And>b. tracked_as b \<noteq> Some g" for g
    using clientset_kept [OF assms] that by (auto simp: none_kept)
  have "action_gvr (get_action (newFakeVpcIpClaims ns) n) \<notin> kept t" "action_gvr (get_action (newFakeIpamds ns) n) \<notin> kept t"
    by (rule k; simp add: action_gvr_def get_action_def fake_act_def newFakeVpcIpClaims_def newFakeIpamds_def gvr_misses)+
  then show ?thesis
    using get_missing [of "get_action (newFakeVpcIpClaims ns) n" t] get_missing [of "get_action (newFakeIpamds ns) n" t]
    by (simp add: FakeVpcIpClaims_Get_def FakeIpamds_Get_def fake_object_def get_action_def fake_act_def)
qed

end

section \<open>A tracker in memory\<close>

fun body_key :: "body \<Rightarrow> string \<times> string" where
  "body_key (ClaimBody c) = (vc_Namespace c, vc_Name c)"
| "body_key (IpamdBody i) = (''kube-system'', im_Name i)"
| "body_key (PodNetworkingBody x) = ([], pk_Name x)"
| "body_key _ = ([], [])"

definition mem_add :: "body \<Rightarrow> body list \<Rightarrow> gerror option \<times> body list" where
  "mem_add b t = (case tracked_as b of None \<Rightarrow> (Some (Errors_New ''no kind is registered for the type''), t) | Some _ \<Rightarrow> (None, b # t))"

definition mem_find :: "fake_action \<Rightarrow> body list \<Rightarrow> body option" where
  "mem_find a t =
     (if ak_Verb a = ''get'' then find (\<lambda>b. tracked_as b = Some (action_gvr a) \<and> body_key b = (ak_Namespace a, ak_Name a)) t else None)"

definition mem_missing :: "body list \<Rightarrow> ('o option \<times> gerror option) \<times> body list" where
  "mem_missing t = ((None, Some (Kube KNotFound)), t)"

definition mem_fake :: "(unit, body list) fake" where
  "mem_fake = \<lparr>
     iv_claim = (\<lambda>a t. case mem_find a t of Some (ClaimBody c) \<Rightarrow> ((Some c, None), t) | _ \<Rightarrow> mem_missing t),
     iv_claims = (\<lambda>a t. mem_missing t),
     iv_ipamd = (\<lambda>a t. case mem_find a t of Some (IpamdBody i) \<Rightarrow> ((Some i, None), t) | _ \<Rightarrow> mem_missing t),
     iv_ipamds = (\<lambda>a t. mem_missing t),
     iv_podnet = (\<lambda>a t. case mem_find a t of Some (PodNetworkingBody x) \<Rightarrow> ((Some x, None), t) | _ \<Rightarrow> mem_missing t),
     iv_podnets = (\<lambda>a t. mem_missing t),
     InvokesWatch = (\<lambda>a t. (Inl (Kube KNotFound), t)), label_of = (\<lambda>_. None), ipamd_labels = (\<lambda>_. Map.empty), podnet_labels = (\<lambda>_. Map.empty)\<rparr>"

lemma mem_find_missing:
  "action_gvr a \<notin> (\<Union>b \<in> set t. set_option (tracked_as b)) \<Longrightarrow> mem_find a t = None"
  by (auto simp: mem_find_def find_None_iff)

interpretation mem_tracker: object_tracker mem_add mem_fake "\<lambda>t. \<Union>b \<in> set t. set_option (tracked_as b)" "[]"
proof (unfold_locales, goal_cases)
  case (2 b t t')
  then show ?case by (auto simp: mem_add_def split: option.splits)
next
  case (3 a t)
  from mem_find_missing [OF 3(2)] show ?case by (simp add: mem_fake_def mem_missing_def)
qed simp

text \<open>The fake client of the third group, whose group is the registered one, finds what it was given.\<close>

lemma fake_podnet_found:
  "NewSimpleClientset mem_add [PodNetworkingBody x] [] = Inr t \<Longrightarrow> FakePodNetworkings_Get mem_fake (pk_Name x) t = ((Some x, None), t)"
  by (auto simp: mem_add_def FakePodNetworkings_Get_def mem_fake_def mem_find_def get_action_def fake_act_def newFakePodNetworkings_def
      action_gvr_def vpc_SchemeGroupVersion_def fake_object_def)

end
