(* ===== verification/Versions.thy ===== *)
theory Versions
  imports Cni_Main Tools Cni_Init
begin

text \<open>
  The process of the plugin around its commands (\<open>main\<close> and \<open>tickSuicide\<close> of \<open>cmd/cnivpc/main.go\<close>), and how the
  version of the installed plugin is told: \<open>pkg/version\<close>, \<open>cmd/cnivpctl\<close>, the plugin's own output, the daemon that
  runs the plugin to ask for it, the endpoint that serves it, and \<open>hack/version.go\<close>, which checks it after an upgrade.
\<close>

section \<open>Version information\<close>

record version_info =
  vi_BuildTime :: string
  vi_ProgramCommitID :: string
  vi_CNIVersion :: string
  vi_GoVersion :: string
  vi_OSArch :: "string \<times> string"

text \<open>The lines that are printed. A tab is the character 9.\<close>

definition version_Show :: "version_info \<Rightarrow> string list" where
  "version_Show v =
     [''CNI Version: '' @ [CHR 9] @ vi_CNIVersion v,
      ''Go Version: '' @ [CHR 9] @ vi_GoVersion v,
      ''Go OS/Arch: '' @ [CHR 9] @ fst (vi_OSArch v) @ ''/'' @ snd (vi_OSArch v),
      ''Build Time: '' @ [CHR 9] @ vi_BuildTime v,
      ''Git Commit ID: '' @ [CHR 9] @ vi_ProgramCommitID v]"

text \<open>\<open>cmd/cnivpctl\<close>: \<open>Execute\<close> is \<open>cobra\<close>'s; given the command it runs, or an error.\<close>

datatype ctl_run = RunVersion | RunNothing

definition cnivpctl_main :: "version_info \<Rightarrow> ctl_run result \<Rightarrow> string list \<times> nat" where
  "cnivpctl_main v r =
     (case r of Inl e \<Rightarrow> ([''error: %v''], 1) | Inr RunVersion \<Rightarrow> (version_Show v, 0) | Inr RunNothing \<Rightarrow> ([], 0))"

section \<open>The process of the plugin\<close>

text \<open>
  \<open>skel.PluginMain\<close> of the CNI library is a parameter: it is given the two commands and the text \<open>about\<close>, which it prints if
  no command is asked for, and returns what it printed.
\<close>

record 'w main_env =
  StatEnvFile :: "'w \<Rightarrow> gerror option \<times> 'w"
  LoadEnvFile :: "'w action"
  PluginMain :: "('w proc \<Rightarrow> gerror option \<times> 'w proc) \<Rightarrow> ('w proc \<Rightarrow> gerror option \<times> 'w proc) \<Rightarrow> string \<Rightarrow>
    'w proc \<Rightarrow> string list \<times> 'w proc"

definition cnivpc_about :: "string \<Rightarrow> string" where
  "cnivpc_about version = ''ucloud-uk8s-cnivpc version '' @ version"

definition load_env_file :: "'w main_env \<Rightarrow> 'w \<Rightarrow> 'w" where
  "load_env_file M w =
     (case StatEnvFile M w of (Some e, w1) \<Rightarrow> w1 | (None, w1) \<Rightarrow> snd (LoadEnvFile M w1))"

definition cnivpc_main ::
  "'w main_env \<Rightarrow> version_info \<Rightarrow> ('w proc \<Rightarrow> gerror option \<times> 'w proc) \<Rightarrow> ('w proc \<Rightarrow> gerror option \<times> 'w proc) \<Rightarrow>
    string list \<Rightarrow> 'w proc \<Rightarrow> string list \<times> 'w proc" where
  "cnivpc_main M v add del args p =
     (if length args = 2 \<and> args ! 1 = ''version'' then (version_Show v, p)
      else PluginMain M add del (cnivpc_about (vi_CNIVersion v)) (p\<lparr>world := load_env_file M (world p)\<rparr>))"

text \<open>
  \<open>tickSuicide\<close>: the process ends itself when its command has not ended after 180 seconds; times in milliseconds, \<open>None\<close> for a command
  that never ends. At 180 seconds exactly either case of the select may be taken, so the choice is an argument.
\<close>

datatype plugin_end = EndedAt int | KilledAt int

definition tickSuicide :: "bool \<Rightarrow> int option \<Rightarrow> plugin_end" where
  "tickSuicide tick_first t =
     (case t of
        None \<Rightarrow> KilledAt 180000
      | Some d \<Rightarrow> if d < 180000 \<or> (d = 180000 \<and> \<not> tick_first) then EndedAt d else KilledAt 180000)"

lemma tickSuicide_ends: "\<exists>n \<le> 180000. tickSuicide first t = EndedAt n \<or> tickSuicide first t = KilledAt n"
  by (auto simp: tickSuicide_def split: option.splits)

text \<open>
  The wait for the lock sleeps 30 milliseconds after each busy try: the time it takes, sleeping only, if it meets a busy lock
  the given number of times. The process is ended long before the tries are used up, so that the error for
  it is not reached.
\<close>

fun lock_wait :: "nat \<Rightarrow> int" where
  "lock_wait 0 = 0"
| "lock_wait (Suc busy) = 30 + lock_wait busy"

lemma lock_wait_eq: "lock_wait n = 30 * int n"
  by (induction n) simp_all

lemma lock_tries_not_used_up: "lock_wait 79999 \<le> t \<Longrightarrow> tickSuicide first (Some t) = KilledAt 180000"
  by (simp add: tickSuicide_def lock_wait_eq)

section \<open>hack/version.go\<close>

text \<open>
  The HTTP client and the JSON decoder of the library are parameters: \<open>NewRequest\<close> fails for a bad address, \<open>HttpGet\<close> is the status and the
  body, \<open>DecodeVersion\<close> the field \<open>version\<close> of the document. The result is what is printed and the error.
\<close>

record ('b, 'w) http_client =
  NewRequest :: "string \<Rightarrow> gerror option"
  HttpGet :: "string \<Rightarrow> 'w \<Rightarrow> (nat \<times> 'b) result \<times> 'w"
  DecodeVersion :: "'b \<Rightarrow> string result"

definition queryVersion :: "('b, 'w) http_client \<Rightarrow> string \<Rightarrow> string \<Rightarrow> 'w \<Rightarrow> (string list \<times> gerror option) \<times> 'w" where
  "queryVersion H addr expected w =
     (let url = ''http://'' @ addr @ ''/version'' in
      case NewRequest H url of
        Some e \<Rightarrow> (([], Some (Wrap ''main.queryVersion create request'' e)), w)
      | None \<Rightarrow>
          (case HttpGet H url w of
             (Inl e, w1) \<Rightarrow> (([], Some (Wrap ''main.queryVersion GET http://%s/version'' e)), w1)
           | (Inr (statusCode, body), w1) \<Rightarrow>
               ((if statusCode \<noteq> 200 then ([], Some (Errors_New ''main.queryVersion unexpected HTTP status %s''))
                 else case DecodeVersion H body of
                   Inl e \<Rightarrow> ([], Some (Wrap ''main.queryVersion decode response'' e))
                 | Inr version \<Rightarrow>
                     if version = [] then ([], Some (Errors_New ''main.queryVersion response has an empty version''))
                     else ([''version='' @ version],
                       if expected \<noteq> [] \<and> version \<noteq> expected
                       then Some (Errors_New ''main.queryVersion got version %s, expected %s'') else None)), w1)))"

definition hack_version_main :: "('b, 'w) http_client \<Rightarrow> string \<Rightarrow> string \<Rightarrow> 'w \<Rightarrow> nat \<times> 'w" where
  "hack_version_main H addr expected w =
     (case queryVersion H addr expected w of ((out, err), w1) \<Rightarrow> (if err = None then 0 else 1, w1))"

section \<open>The version, from the plugin to the query\<close>

lemma TrimSpace_line:
  assumes "s \<noteq> []" and "\<not> is_space (hd s)" and "\<not> is_space (last s)"
  shows "TrimSpace (s @ [CHR 10]) = s" and "TrimSpace s = s"
proof -
  obtain c cs where s: "s = c # cs" "\<not> is_space c" using assms(1,2) by (cases s) auto
  obtain ds d where d: "s = ds @ [d]" "\<not> is_space d" using assms(1,3) by (cases s rule: rev_cases) auto
  have nl: "is_space (CHR 10)" by (simp add: is_space_def)
  have "dropWhile is_space (s @ t) = s @ t" for t using s by simp
  then show "TrimSpace (s @ [CHR 10]) = s" "TrimSpace s = s"
    using d nl by (simp_all add: TrimSpace_def TrimRightBy_def)
qed

text \<open>A version as it is built into the plugin: not empty, without white space at its ends.\<close>

definition plain_version :: "string \<Rightarrow> bool" where
  "plain_version v \<longleftrightarrow> v \<noteq> [] \<and> \<not> is_space (hd v) \<and> \<not> is_space (last v)"

lemma loadCNIVersion_about:
  assumes "plain_version v"
  shows "loadCNIVersion (Inr (cnivpc_about v @ [CHR 10])) = Inr v"
proof -
  let ?a = "cnivpc_about v"
  have a: "?a = cniVersionPrefix @ v" by (simp add: cnivpc_about_def cniVersionPrefix_def)
  have "?a \<noteq> []" "\<not> is_space (hd ?a)" "last ?a = last v"
    using assms by (simp_all add: cnivpc_about_def plain_version_def is_space_def)
  then have "TrimSpace (?a @ [CHR 10]) = ?a" using assms by (intro TrimSpace_line) (simp_all add: plain_version_def)
  moreover have "TrimSpace v = v" using assms by (intro TrimSpace_line) (simp_all add: plain_version_def)
  ultimately show ?thesis using assms by (simp add: loadCNIVersion_def parseCNIVersion_def a plain_version_def)
qed

text \<open>
  The query against the daemon's endpoint: what the endpoint answers arrives, and a JSON object is decoded into its field. It reports the version that the
  installed plugin prints about itself, and succeeds exactly if that is the expected one or none was asked for.
\<close>

definition serves :: "(string + (string \<times> string) list, 'w) http_client \<Rightarrow> string \<Rightarrow> string result \<Rightarrow> bool" where
  "serves H addr v \<longleftrightarrow>
     NewRequest H (''http://'' @ addr @ ''/version'') = None \<and>
     (\<forall>w. fst (HttpGet H (''http://'' @ addr @ ''/version'') w) = Inr (version_answer v)) \<and>
     (\<forall>x. DecodeVersion H (Inr [(''version'', x)]) = Inr x)"

lemma version_told:
  assumes "serves H addr (loadCNIVersion (Inr (cnivpc_about v @ [CHR 10])))" and "plain_version v"
    and "queryVersion H addr expected w = ((out, err), w')"
  shows "out = [''version='' @ v] \<and> (err = None \<longleftrightarrow> expected = [] \<or> expected = v)"
  using assms unfolding loadCNIVersion_about [OF assms(2)]
  by (cases "HttpGet H (''http://'' @ addr @ ''/version'') w")
     (auto simp: serves_def queryVersion_def version_answer_def plain_version_def Let_def split: if_splits dest: spec [of _ w])

lemma version_unavailable:
  assumes "serves H addr (Inl e)" and "queryVersion H addr expected w = ((out, err), w')"
  shows "out = [] \<and> err = Some (Errors_New ''main.queryVersion unexpected HTTP status %s'')"
  using assms
  by (cases "HttpGet H (''http://'' @ addr @ ''/version'') w")
     (auto simp: serves_def queryVersion_def version_answer_def Let_def dest: spec [of _ w])

end
