(* ===== verification/Arping_Threads.thy ===== *)
theory Arping_Threads
  imports Arping
begin

text \<open>
  One attempt of the conflict detection as it runs: the goroutine that sends the probes and then waits, the one that
  receives, and the function itself, which selects between their channels and closes the socket when it returns
  (\<open>detectIpConflictWithGratuitousArp\<close> of \<open>pkg/arping/arping.go\<close>). A step relation interleaves them; what arrives, and how long
  sleeping takes, is arbitrary. All four channels have room for one value.
\<close>

section \<open>The threads\<close>

text \<open>\<open>Probe i\<close> is the head of the sender's loop, \<open>Sending i\<close> the default branch after it. The receiver checks its stop channel before each call of
  \<open>receive\<close>, and \<open>Reporting\<close> is its send of a result. \<open>TookResult\<close> and \<open>TookAnnounce\<close> are the two branches of the select.\<close>

datatype sender = Probe nat | Sending nat | Announcing | SenderDone

datatype receiver = Checking | InReceive | Reporting "bool \<times> gerror option" | ReceiverDone

datatype detector = Selecting | TookResult "bool \<times> gerror option" | TookAnnounce | Returned "bool \<times> gerror option"

record arp_state =
  th_main :: detector
  th_sender :: sender
  th_receiver :: receiver
  ch_stopSend :: nat
  ch_announceWait :: nat
  ch_stopReceive :: nat
  ch_result :: "(bool \<times> gerror option) list"
  so_open :: bool
  so_sent :: "bool list" \<comment> \<open>of each probe, whether the socket was open\<close>
  so_seen :: "recv list" \<comment> \<open>what was received, in order\<close>

definition arp_start :: arp_state where
  "arp_start = \<lparr>th_main = Selecting, th_sender = Probe 0, th_receiver = Checking, ch_stopSend = 0, ch_announceWait = 0,
     ch_stopReceive = 0, ch_result = [], so_open = True, so_sent = [], so_seen = []\<rparr>"

text \<open>What the receiver does with one event: \<open>None\<close> to go on.\<close>

definition receive_decides :: "byte list \<Rightarrow> byte list \<Rightarrow> recv \<Rightarrow> (bool \<times> gerror option) option" where
  "receive_decides ip4 hw ev =
     (case ev of
        RecvErr e \<Rightarrow>
          if e \<noteq> EAGAIN \<and> e \<noteq> EINTR then Some (False, Some (Wrap ''fail to receive gratuitous arp response: %w'' (Sys e))) else None
      | Packet dg \<Rightarrow>
          if spa dg = ip4 then (if sha dg = hw then None else Some (True, None))
          else if tpa dg = ip4 \<and> sha dg \<noteq> hw then Some (True, None) else None)"

inductive arp_step :: "byte list \<Rightarrow> byte list \<Rightarrow> arp_state \<Rightarrow> arp_state \<Rightarrow> bool" for ip4 hw where
  sender_stops: "th_sender s = Probe i \<Longrightarrow> i < ProbeNum \<Longrightarrow> ch_stopSend s = Suc n \<Longrightarrow>
    arp_step ip4 hw s (s\<lparr>th_sender := SenderDone, ch_stopSend := n\<rparr>)"
| sender_goes_on: "th_sender s = Probe i \<Longrightarrow> i < ProbeNum \<Longrightarrow> ch_stopSend s = 0 \<Longrightarrow>
    arp_step ip4 hw s (s\<lparr>th_sender := Sending i\<rparr>)"
| sender_sends: "th_sender s = Sending i \<Longrightarrow>
    arp_step ip4 hw s (s\<lparr>th_sender := Probe (Suc i), so_sent := so_sent s @ [so_open s]\<rparr>)"
| sender_waits: "th_sender s = Probe ProbeNum \<Longrightarrow> arp_step ip4 hw s (s\<lparr>th_sender := Announcing\<rparr>)"
| sender_announces: "th_sender s = Announcing \<Longrightarrow> ch_announceWait s < 1 \<Longrightarrow>
    arp_step ip4 hw s (s\<lparr>th_sender := SenderDone, ch_announceWait := Suc (ch_announceWait s)\<rparr>)"
| receiver_stops: "th_receiver s = Checking \<Longrightarrow> ch_stopReceive s = Suc n \<Longrightarrow>
    arp_step ip4 hw s (s\<lparr>th_receiver := ReceiverDone, ch_stopReceive := n\<rparr>)"
| receiver_enters: "th_receiver s = Checking \<Longrightarrow> ch_stopReceive s = 0 \<Longrightarrow> arp_step ip4 hw s (s\<lparr>th_receiver := InReceive\<rparr>)"
| receiver_goes_on: "th_receiver s = InReceive \<Longrightarrow> receive_decides ip4 hw ev = None \<Longrightarrow>
    arp_step ip4 hw s (s\<lparr>th_receiver := Checking, so_seen := so_seen s @ [ev]\<rparr>)"
| receiver_decides: "th_receiver s = InReceive \<Longrightarrow> receive_decides ip4 hw ev = Some r \<Longrightarrow>
    arp_step ip4 hw s (s\<lparr>th_receiver := Reporting r, so_seen := so_seen s @ [ev]\<rparr>)"
| receiver_reports: "th_receiver s = Reporting r \<Longrightarrow> ch_result s = [] \<Longrightarrow>
    arp_step ip4 hw s (s\<lparr>th_receiver := ReceiverDone, ch_result := [r]\<rparr>)"
| main_result: "th_main s = Selecting \<Longrightarrow> ch_result s = r # rs \<Longrightarrow>
    arp_step ip4 hw s (s\<lparr>th_main := TookResult r, ch_result := rs\<rparr>)"
| main_announce: "th_main s = Selecting \<Longrightarrow> ch_announceWait s = Suc n \<Longrightarrow>
    arp_step ip4 hw s (s\<lparr>th_main := TookAnnounce, ch_announceWait := n\<rparr>)"
| main_returns_result: "th_main s = TookResult r \<Longrightarrow> ch_stopSend s < 1 \<Longrightarrow>
    arp_step ip4 hw s (s\<lparr>th_main := Returned r, ch_stopSend := Suc (ch_stopSend s), so_open := False\<rparr>)"
| main_returns_clear: "th_main s = TookAnnounce \<Longrightarrow> ch_stopReceive s < 1 \<Longrightarrow>
    arp_step ip4 hw s (s\<lparr>th_main := Returned (False, None), ch_stopReceive := Suc (ch_stopReceive s), so_open := False\<rparr>)"


section \<open>The invariant\<close>

lemma receive_decides_eq:
  "receive_decides ip4 hw ev = (if receive_loop ip4 hw [ev] = (False, None) then None else Some (receive_loop ip4 hw [ev]))"
  by (cases ev) (auto simp: receive_decides_def)















section \<open>What a run does\<close>













text \<open>
  When the last wait ends as a conflict is reported, both channels have a value, and the select may take either: the
  conflict is then lost.
\<close>

lemma sender_run:
  assumes "th_sender s = Probe 0" and "ch_stopSend s = 0" and "so_open s" and "so_sent s = []" and "ch_announceWait s = 0"
  shows "(arp_step ip4 hw)\<^sup>*\<^sup>* s (s\<lparr>th_sender := SenderDone, so_sent := [True, True, True], ch_announceWait := 1\<rparr>)"
proof -
  have probe: "(arp_step ip4 hw)\<^sup>*\<^sup>* (s\<lparr>th_sender := Probe i, so_sent := xs\<rparr>) (s\<lparr>th_sender := Probe (Suc i), so_sent := xs @ [True]\<rparr>)"
    if "i < ProbeNum" for i xs
  proof -
    let ?p = "s\<lparr>th_sender := Probe i, so_sent := xs\<rparr>" and ?q = "s\<lparr>th_sender := Sending i, so_sent := xs\<rparr>"
    have "arp_step ip4 hw ?p ?q" using sender_goes_on [of ?p i] that assms(2) by (cases s) simp
    moreover have "arp_step ip4 hw ?q (s\<lparr>th_sender := Probe (Suc i), so_sent := xs @ [True]\<rparr>)"
      using sender_sends [of ?q i] assms(3) by (cases s) simp
    ultimately show ?thesis by (meson converse_rtranclp_into_rtranclp rtranclp.rtrancl_refl)
  qed
  let ?d = "s\<lparr>th_sender := Probe 3, so_sent := [True, True, True]\<rparr>" and ?w = "s\<lparr>th_sender := Announcing, so_sent := [True, True, True]\<rparr>"
  have "(arp_step ip4 hw)\<^sup>*\<^sup>* s ?d"
    using probe [of 0 "[]"] probe [of 1 "[True]"] probe [of 2 "[True, True]"] assms(1,4)
    by (cases s) (simp add: ProbeNum_def numeral_2_eq_2 numeral_3_eq_3)
  moreover have "arp_step ip4 hw ?d ?w" using sender_waits [of ?d] by (cases s) (simp add: ProbeNum_def)
  moreover have "arp_step ip4 hw ?w (s\<lparr>th_sender := SenderDone, so_sent := [True, True, True], ch_announceWait := 1\<rparr>)"
    using sender_announces [of ?w] assms(5) by (cases s) simp
  ultimately show ?thesis by (meson rtranclp.rtrancl_into_rtrancl)
qed

lemma conflict_can_be_lost:
  assumes "receive_decides ip4 hw ev = Some (True, None)"
  shows "\<exists>s. (arp_step ip4 hw)\<^sup>*\<^sup>* arp_start s \<and> th_main s = Returned (False, None) \<and> receive_loop ip4 hw (so_seen s) = (True, None)"
proof -
  let ?s1 = "arp_start\<lparr>th_receiver := InReceive\<rparr>"
  let ?s2 = "arp_start\<lparr>th_receiver := Reporting (True, None), so_seen := [ev]\<rparr>"
  let ?s3 = "arp_start\<lparr>th_receiver := ReceiverDone, so_seen := [ev], ch_result := [(True, None)]\<rparr>"
  let ?s4 = "?s3\<lparr>th_sender := SenderDone, so_sent := [True, True, True], ch_announceWait := 1\<rparr>"
  let ?s5 = "?s4\<lparr>th_main := TookAnnounce, ch_announceWait := 0\<rparr>"
  let ?s6 = "?s5\<lparr>th_main := Returned (False, None), ch_stopReceive := 1, so_open := False\<rparr>"
  have "arp_step ip4 hw arp_start ?s1" using receiver_enters [of arp_start] by (simp add: arp_start_def)
  moreover have "arp_step ip4 hw ?s1 ?s2" using receiver_decides [of ?s1, OF _ assms] by (simp add: arp_start_def)
  moreover have "arp_step ip4 hw ?s2 ?s3" using receiver_reports [of ?s2] by (simp add: arp_start_def)
  moreover have "(arp_step ip4 hw)\<^sup>*\<^sup>* ?s3 ?s4" by (rule sender_run) (simp_all add: arp_start_def)
  moreover have "arp_step ip4 hw ?s4 ?s5" using main_announce [of ?s4 0] by (simp add: arp_start_def)
  moreover have "arp_step ip4 hw ?s5 ?s6" using main_returns_clear [of ?s5] by (simp add: arp_start_def)
  ultimately have "(arp_step ip4 hw)\<^sup>*\<^sup>* arp_start ?s6"
    by (meson converse_rtranclp_into_rtranclp rtranclp.rtrancl_into_rtrancl)
  moreover have "receive_loop ip4 hw [ev] = (True, None)" using assms by (simp add: receive_decides_eq split: if_splits)
  ultimately show ?thesis by (intro exI [of _ ?s6]) simp
qed

end
