(* ===== verification/Spec2Isabelle.thy ===== *)
theory Spec2Isabelle
  imports Store_Props Ipamd_Rpc_Props Log_Tail Portmap_Props Cni_Host_Props Cni_Rules_Props Cni_Rpc_Props Cni_Main_Props
    Vip_Props Cni_Init Ipamd_Start_Props Tools Rest_Props Informers Grpc_Props Rpc_Messages Deep_Copy_Props Fake_Client Versions Arping_Threads
begin

text \<open>
  A verification development for the UCloud VPC CNI plugin: the Go programs that give the pods of a
  Kubernetes node addresses of the cloud's private network.

  \<^bold>\<open>The program.\<close> Four programs work together. The plugin \<open>cmd/cnivpc\<close> is run by the container
  runtime for each pod (ADD and DEL). It holds a lock file for the whole run, gets an address, makes a
  pair of interfaces, routes and policy rules, enters the address into the kernel set of the NAT gateway,
  records what the pod got, and calls the port forwarding of \<open>pkg/portmap\<close> in its own process. The
  address comes from the daemon \<open>cmd/cnivpc-ipamd\<close> (\<open>pkg/ipamd\<close>) when that answers on its
  socket, else from the VPC service itself. The daemon keeps pools of addresses in a boltdb file, one
  bucket per subnet, and a bucket of addresses that cool down after use; one goroutine, the pool manager,
  is the only one to touch the pools, and the gRPC handlers send it requests over channels. Static
  addresses of stateful sets are custom resources, \<open>VpcIpClaim\<close>; \<open>cmd/vip-controller\<close> marks them
  detached, deletes them when their time is over and returns their addresses to the cloud.
  \<open>cmd/cnivpc-init\<close> installs the plugin's binary. The device plugin (\<open>pkg/deviceplugin\<close>), run by
  the daemon, tells the kubelet how many network interfaces the node can hold.

  \<^bold>\<open>How the code is translated.\<close> A struct is a record with the source's fields, an enumeration a
  datatype, \<open>int64\<close> and \<open>byte\<close> are words, \<open>int\<close> is \<open>int\<close> where no overflow can be
  reached and its bounds are stated otherwise. Strings are byte sequences. An error value is
  \<open>gerror\<close>, a nil error \<open>None\<close>, a function with a value and an error returns the sum
  \<open>result\<close>. A run-time panic is the error \<open>Panic\<close> where the caller handles values of type
  \<open>gerror\<close>, or \<open>None\<close> of an option around the whole result where no error type is at hand; the
  end of the process (\<open>log.Fatal\<close>, \<open>os.Exit\<close>) is the error \<open>Exit\<close>, which no caller
  catches. State is passed explicitly: a function of type \<open>'w action\<close> maps the world to an optional
  error and the new world. What is not in the repository, the cloud's SDK, boltdb, the Kubernetes client,
  netlink, iptables, the file system, sockets and clocks, is a record of functions over a world type
  \<open>'w\<close> that stays a parameter: \<open>cloud_api\<close>, \<open>bolt_api\<close>, \<open>kube_api\<close>,
  \<open>netlink\<close>, \<open>iptables\<close>, \<open>os_env\<close> and others. Nothing is assumed about such a record in a
  definition. What a theorem needs of one is the assumption of a locale, and each locale is
  interpreted on an executable instance of the record.

  Two simplifications hold throughout: log output is left out, and so are the texts that
  \<open>fmt.Errorf\<close> makes from its arguments, of which the format and the wrapped error are kept.
  The order in which Go ranges over a map is an argument where the result can depend on it
  (\<open>orders\<close>, \<open>set_order\<close>).

  \<^bold>\<open>Foundations.\<close> \<open>Prelude\<close> has errors, results and the theorem collections;
  \<open>Go_Strings\<close> the functions of \<open>strings\<close> and \<open>strconv\<close>, \<open>Net_IP\<close> those of
  \<open>net\<close>, both translated from their documentation as the standard library's part of the language;
  \<open>Rpc_Types\<close> the messages of \<open>rpc/ipamd.pb.go\<close> and the resources of
  \<open>kubernetes/apis\<close>; \<open>Kube_Api\<close>, \<open>Cloud\<close> and \<open>Iptables\<close> the outside services.

  \<^bold>\<open>The store\<close> (\<open>pkg/database\<close>): \<open>Database\<close> states the interface \<open>Database[T]\<close>
  as the locale \<open>database\<close> (what \<open>get\<close> returns after \<open>put\<close>, that \<open>pop\<close> takes
  an entry out, the errors for a missing key), the promises of boltdb's transactions as the locale
  \<open>bolt_db\<close>, and proves with a sublocale that \<open>Bolt[T]\<close> of \<open>bolt.go\<close> keeps the first given
  the second. \<open>Codec\<close> is the JSON coding of the two record types; \<open>Mem_Store\<close> interprets
  \<open>bolt_db\<close> on sorted association lists. The clients' properties are in \<open>Store_Props\<close>.

  \<^bold>\<open>The cloud client\<close> (\<open>pkg/uapi\<close>, \<open>pkg/iputils\<close>): \<open>Uapi\<close>, with the metadata
  that is loaded once per process as a part of the process state \<open>proc\<close>.

  \<^bold>\<open>The daemon\<close> (\<open>pkg/ipamd\<close>): \<open>Ipamd_Uapi\<close> (\<open>uapi.go\<close>, and the configuration record
  \<open>ipamServer\<close> of \<open>svc.go\<close>), \<open>Ipamd_Pool\<close> (\<open>pool.go\<close>, on the state \<open>istate\<close>: the
  database, the pools that are opened, the world), \<open>Ipamd_Static\<close>
  (\<open>k8s.go\<close>, \<open>vpcclaim.go\<close>), \<open>Ipamd_Rpc\<close> (the manager as a step function on events, the
  handlers of \<open>rpc.go\<close>, the reconciliation of \<open>resource.go\<close> and the migration of
  \<open>svc.go\<close>), \<open>Ipamd_Start\<close> (the rest of \<open>svc.go\<close>), \<open>Log_Tail\<close> (\<open>log_tail.go\<close>),
  \<open>Arping\<close> and \<open>Arping_Threads\<close> (\<open>pkg/arping\<close>: the decision, and the goroutines as a step relation), \<open>Device_Plugin\<close>, \<open>Kube_Client\<close> (\<open>pkg/kubeclient\<close>).
  Their lemmas: \<open>Ipamd_Pool_Inv\<close> defines the invariant \<open>ipool_ok\<close> (every bucket is readable, an address in
  a pool is under its own key in the pool of its own subnet, one that cools down under its own key) and proves one
  preservation lemma per operation inside the locale \<open>pool_db\<close>; \<open>Ipamd_Pool_Loops\<close> has the loops
  as a whole; \<open>Ipamd_Rpc_Inv\<close> the manager and the migration; \<open>Ipamd_Borrow\<close> borrowing and the
  status resources. \<open>Ipamd_Examples\<close> is the small server the examples run on.
  \<open>Ipamd_Pool_Props\<close>, \<open>Ipamd_Rpc_Props\<close> and \<open>Ipamd_Start_Props\<close> hold the properties, the last
  two composing them: a start that succeeds leaves a store on which the invariant holds through every
  sequence of events of the manager, whatever version of the daemon wrote the file.

  \<^bold>\<open>The plugin\<close> (\<open>cmd/cnivpc\<close>): \<open>Cni_Host\<close> (routes, rules, kernel parameters of
  \<open>if.go\<close>, \<open>rps.go\<close>), \<open>Cni_Rules\<close> (packet filter rules of the node), \<open>Cni_Records\<close>
  (records of \<open>rpc.go\<close>), \<open>Cni_Natgw\<close> (\<open>nat_outgoing.go\<close>), \<open>Cni_Rpc\<close> (addresses and
  interfaces of \<open>rpc.go\<close>), \<open>Dns_Config\<close>, and \<open>Cni_Main\<close> (\<open>main.go\<close>, \<open>veth.go\<close>,
  \<open>runcmd.go\<close>, \<open>pkg/lockfile\<close>), where \<open>cmdAdd\<close> and \<open>cmdDel\<close> compose all the others, the
  calls of the daemon included. The properties rest on the locales \<open>rule_api\<close>, \<open>ipset_api\<close>
  and \<open>uni_api\<close> for the kernel's rules, its address sets and the VPC service's interfaces, with
  \<open>iptables_api\<close> (in \<open>Iptables\<close>) for the packet filter.

  \<^bold>\<open>Port forwarding\<close> (\<open>pkg/portmap\<close>): \<open>Portmap\<close> and \<open>Portmap_Props\<close>.

  \<^bold>\<open>The controller\<close> (\<open>cmd/vip-controller\<close>): \<open>Vip_Controller\<close> (the handlers, the collection of
  detached claims), \<open>Vip_Queue\<close> (informers, work queues and workers as a step relation) and
  \<open>Vip_Props\<close>, where \<open>claim_api\<close> says what the API server does to the claims.

  \<^bold>\<open>The generated client set\<close> (\<open>kubernetes/generated\<close>): \<open>Rest_Client\<close> has the requests that the methods of the three
  typed clients build, and how the group clients and the client set are made from a configuration; \<open>Rest_Props\<close> puts
  the calls of the other parts on them: the locale \<open>rest_store\<close> says what the API server does to the
  objects of a resource for a request, is interpreted on a server in memory, and gives the controller over the typed client
  the locale \<open>claim_api\<close>. \<open>Informers\<close> has the listers, the factory of the informers and the controllers' construction: informers are
  shared, and each is run once. \<open>Deep_Copy\<close> has the deep copies over an explicit memory, and \<open>Deep_Copy_Props\<close> the locale \<open>deep_copy\<close>, the
  contract of a copy, which sublocales carry from the library's copies of the metadata to the resources and their lists: a
  copy shares nothing with its original. \<open>Fake_Client\<close> is the client set for tests; it asks for two of the resources in groups in
  which they are not kept.

  \<^bold>\<open>The gRPC service\<close> (\<open>rpc/ipamd.pb.go\<close>): \<open>Grpc\<close> has the client's stubs, the handlers and the table of the service; the
  locale \<open>grpc_conn\<close> says what a connection promises. \<open>Grpc_Props\<close> registers the daemon's handlers, makes the plugin's client of the
  stubs, interprets the locale on a connection in memory, and follows a pod's record from the plugin into the daemon's
  database and back. \<open>Rpc_Messages\<close> has the getters of the messages and the names of the error codes.

  \<^bold>\<open>Tools\<close>: \<open>Cni_Init\<close> (\<open>cmd/cnivpc-init\<close>) and \<open>Tools\<close> (\<open>cmd/release-ip\<close>,
  \<open>pkg/snapshot\<close>, the HTTP routes, \<open>cmd/cnivpc-ipamd\<close>). \<open>Versions\<close> has the plugin's process around its commands, and
  follows the version that the plugin prints through the daemon's endpoint to \<open>hack/version.go\<close>.

  \<^bold>\<open>Loops, bounds and fuel.\<close> Loops over slices are structural recursion. Of the others, the wait for
  the lock counts down from the code's 80000; the wait for a new interface is bounded by the code's timeout, the
  number of polls being the parameter \<open>ce_polls\<close>; draining the pools and the migration take fuel, and
  \<open>migration_fuel\<close> (the entries and one) is proved to be enough, so that the theorem on the migration says
  that it ends; the search for the last lines of the log goes over blocks of the file and has the file's size as its measure.
  What runs until the process ends (the manager, the workers, following the log, the device plugin's
  watching) is a step function folded over any sequence of events, or a step relation, and the theorems
  are about every run.

  \<^bold>\<open>What the properties say.\<close> Of addresses: none is lost or given out twice by lending, recycling,
  releasing or draining; an assigned address was checked; a failed operation gives back what it took
  unless the service said it does not know the outcome; a static address is never replaced by a dynamic one
  when the API is down. Of the host: rules, jumps and set members added by ADD are those removed by DEL or
  by a failing ADD, and nothing of other pods is touched. Of the controller: only surplus claims are
  detached, only due claims are deleted. Of records and formats: round trips, and bounds of parsed values.
  Where the code does not do what it means to, the theorem states what it does, exactly; these cases are
  in the manifest's findings.

  \<^bold>\<open>Not modelled.\<close> Of the generated code the protobuf coding and descriptors and the registration of types, which are
  tables for libraries the model takes as parameters. \<open>pkg/ulog\<close> formats and writes log lines. Of
  \<open>pkg/arping\<close> the socket itself is outside. Goroutines
  that run beside each other meet in the model where they share state: the handlers at the manager's
  channels, as a sequence of events; the informers at the work queues; the threads of the conflict detection at their
  channels, as interleaved steps. Races on state the code does not
  protect are not modelled. Deadlines of calls are part of the outside functions' results.
\<close>

end
